(* ===== verification/Prelude.thy ===== *)
theory Prelude
  imports Complex_Main "HOL-Library.Product_Lexorder" "HOL-Library.List_Lexorder" "HOL-Library.Char_ord"
begin

text \<open>
  Shared vocabulary of the development: JavaScript values and strings as the gateway's
  sources use them, date strings, optional values, and the generic list lemmas the
  components rest on.

  A JavaScript string is a \<open>string\<close> (one \<open>char\<close> per code unit, so the code units above
  255 are left out). A date string of the control plane is represented by what
  \<open>Date.parse\<close> reads from it. A value that may be \<open>undefined\<close> is an \<open>option\<close>, and an
  operation that may throw returns a sum with the error on the left.
\<close>

named_theorems outcome_simps \<open>how the error/result cases of the operations reduce\<close>
named_theorems wf_intros \<open>introduction of the well-formedness invariants\<close>

section \<open>JSON values\<close>

datatype json =
    JNull
  | JBool bool
  | JNum rat
  | JStr string
  | JArr "json list"
  | JObj "(string \<times> json) list"

definition json_field :: "json \<Rightarrow> string \<Rightarrow> json option" where
  "json_field j key = (case j of JObj kvs \<Rightarrow> map_of kvs key | _ \<Rightarrow> None)"

definition is_json_object :: "json \<Rightarrow> bool" where
  "is_json_object j = (case j of JObj _ \<Rightarrow> True | _ \<Rightarrow> False)"

section \<open>Strings\<close>

definition is_js_space :: "char \<Rightarrow> bool" where
  "is_js_space c \<longleftrightarrow> of_char c \<in> {9, 10, 11, 12, 13, 32, 160 :: nat}"

definition js_trim :: "string \<Rightarrow> string" where
  "js_trim s = rev (dropWhile is_js_space (rev (dropWhile is_js_space s)))"

definition js_lower_char :: "char \<Rightarrow> char" where
  "js_lower_char c =
     (if 65 \<le> (of_char c :: nat) \<and> (of_char c :: nat) \<le> 90 then char_of (of_char c + 32 :: nat) else c)"

definition js_to_lower :: "string \<Rightarrow> string" where
  "js_to_lower = map js_lower_char"

definition starts_with :: "string \<Rightarrow> string \<Rightarrow> bool" where
  "starts_with s p \<longleftrightarrow> take (length p) s = p"

lemma starts_with_append [simp]: "starts_with (p @ s) p"
  by (simp add: starts_with_def)

lemma starts_with_iff: "starts_with s p \<longleftrightarrow> (\<exists>r. s = p @ r)"
  by (metis append_eq_conv_conj starts_with_def append_take_drop_id)

lemma js_trim_length: "length (js_trim s) \<le> length s"
proof -
  have "length (dropWhile is_js_space xs) \<le> length xs" for xs
    by (simp add: length_dropWhile_le)
  then show ?thesis
    unfolding js_trim_def by (metis length_rev order_trans)
qed

section \<open>Dates\<close>

text \<open>
  A date string of the control plane: the instant (milliseconds since the epoch)
  \<open>Date.parse\<close> reads from it, or the text itself where \<open>Date.parse\<close> gives \<open>NaN\<close>.
  \<open>toISOString\<close> of an instant is \<open>Instant\<close>.
\<close>

datatype date_text = Instant int | Not_a_date string

fun date_parse :: "date_text \<Rightarrow> int option" where
  "date_parse (Instant t) = Some t"
| "date_parse (Not_a_date _) = None"

section \<open>Optional values and results\<close>

definition or_else :: "'a option \<Rightarrow> 'a option \<Rightarrow> 'a option" where
  "or_else a b = (case a of None \<Rightarrow> b | Some x \<Rightarrow> Some x)"

definition get_or :: "'a \<Rightarrow> 'a option \<Rightarrow> 'a" where
  "get_or d a = (case a of None \<Rightarrow> d | Some x \<Rightarrow> x)"

lemma or_else_simps [simp]:
  "or_else None b = b" "or_else (Some x) b = Some x" "or_else a None = a"
  by (auto simp: or_else_def split: option.splits)

lemma get_or_simps [simp]: "get_or d None = d" "get_or d (Some x) = x"
  by (simp_all add: get_or_def)

definition is_ok :: "'e + 'a \<Rightarrow> bool" where
  "is_ok r = (case r of Inl _ \<Rightarrow> False | Inr _ \<Rightarrow> True)"

definition bind_ok :: "'e + 'a \<Rightarrow> ('a \<Rightarrow> 'e + 'b) \<Rightarrow> 'e + 'b" where
  "bind_ok r f = (case r of Inl e \<Rightarrow> Inl e | Inr x \<Rightarrow> f x)"

lemma bind_ok_simps [simp, outcome_simps]:
  "bind_ok (Inl e) f = Inl e" "bind_ok (Inr x) f = f x"
  by (simp_all add: bind_ok_def)

lemma bind_ok_Inr_iff [outcome_simps]:
  "bind_ok r f = Inr y \<longleftrightarrow> (\<exists>x. r = Inr x \<and> f x = Inr y)"
  by (cases r) auto

definition guard_ok :: "bool \<Rightarrow> 'e \<Rightarrow> 'e + unit" where
  "guard_ok ok e = (if ok then Inr () else Inl e)"

lemma guard_ok_simps [simp, outcome_simps]:
  "guard_ok True e = Inr ()" "guard_ok False e = Inl e"
  "guard_ok b e = Inr u \<longleftrightarrow> b" "guard_ok b e = Inl e' \<longleftrightarrow> \<not> b \<and> e' = e"
  by (auto simp: guard_ok_def)

section \<open>Lists\<close>

text \<open>\<open>[...new Set(xs)]\<close> keeps the first occurrence of every element.\<close>

definition js_uniq :: "'a list \<Rightarrow> 'a list" where
  "js_uniq xs = rev (remdups (rev xs))"

lemma set_js_uniq [simp]: "set (js_uniq xs) = set xs"
  by (simp add: js_uniq_def)

lemma distinct_js_uniq [simp]: "distinct (js_uniq xs)"
  by (simp add: js_uniq_def)

lemma js_uniq_distinct: "distinct xs \<Longrightarrow> js_uniq xs = xs"
  by (simp add: js_uniq_def distinct_remdups_id)

lemma js_uniq_Nil [simp]: "js_uniq [] = []"
  by (simp add: js_uniq_def)

lemma js_uniq_append_uniq: "js_uniq (js_uniq xs @ ys) = js_uniq (xs @ ys)"
proof -
  have "remdups (us @ remdups vs) = remdups (us @ vs)" for us vs :: "'b list"
    by (induction us) auto
  then show ?thesis by (simp add: js_uniq_def)
qed

lemma find_append:
  "List.find P (xs @ ys) = (case List.find P xs of None \<Rightarrow> List.find P ys | Some x \<Rightarrow> Some x)"
  by (induction xs) auto

lemma find_Some_in: "List.find P xs = Some x \<Longrightarrow> x \<in> set xs \<and> P x"
  by (auto simp: find_Some_iff)

lemma find_filter_hd:
  "List.find P xs = (case filter P xs of [] \<Rightarrow> None | y # _ \<Rightarrow> Some y)"
  by (induction xs) auto

lemma find_distinct_key:
  "distinct (map f xs) \<Longrightarrow> x \<in> set xs \<Longrightarrow> List.find (\<lambda>y. f y = f x) xs = Some x"
  by (induction xs) (auto simp: rev_image_eqI)

lemma find_cong_set: "(\<And>x. x \<in> set xs \<Longrightarrow> P x = Q x) \<Longrightarrow> List.find P xs = List.find Q xs"
  by (induction xs) auto

text \<open>
  \<open>Array.prototype.sort\<close> is stable, so with a comparator that subtracts a key it is
  \<open>sort_key\<close>. Its head is the first of the elements with the least key.
\<close>

lemma sort_key_head_least:
  assumes "sort_key f xs = y # ys" and "x \<in> set xs"
  shows "f y \<le> f x"
proof -
  have "sorted (map f (y # ys))"
    using sorted_sort_key[of f xs] assms(1) by simp
  moreover have "x \<in> set (y # ys)"
    using assms by (metis set_sort)
  ultimately show ?thesis by auto
qed

lemma sort_key_head_first:
  assumes "sort_key f xs = y # ys"
  shows "List.find (\<lambda>x. f x = f y) xs = Some y"
proof -
  have "filter (\<lambda>x. f x = f y) (sort_key f xs) = filter (\<lambda>x. f x = f y) xs"
    by (rule sort_key_stable)
  with assms have "filter (\<lambda>x. f x = f y) xs = y # filter (\<lambda>x. f x = f y) ys"
    by simp
  then show ?thesis by (simp add: find_filter_hd)
qed

lemma sort_key_eq_Nil [simp]: "sort_key f xs = [] \<longleftrightarrow> xs = []"
  by (metis length_0_conv length_sort)

section \<open>Reduce to the latest revision\<close>

text \<open>The \<open>reduce\<close> that keeps the first record with the greatest revision among those wanted.\<close>

definition latest_by :: "('a \<Rightarrow> bool) \<Rightarrow> ('a \<Rightarrow> int) \<Rightarrow> 'a list \<Rightarrow> 'a option" where
  "latest_by want rev_of xs =
     foldl (\<lambda>latest x.
        if want x \<and> (case latest of None \<Rightarrow> True | Some l \<Rightarrow> rev_of l < rev_of x) then Some x else latest)
      None xs"

lemma latest_by_Nil [simp]: "latest_by want rev_of [] = None"
  by (simp add: latest_by_def)

lemma latest_by_snoc:
  "latest_by want rev_of (xs @ [x]) =
     (if want x \<and> (case latest_by want rev_of xs of None \<Rightarrow> True | Some l \<Rightarrow> rev_of l < rev_of x)
      then Some x else latest_by want rev_of xs)"
  by (simp add: latest_by_def)

lemma latest_by_None_iff: "latest_by want rev_of xs = None \<longleftrightarrow> (\<forall>x \<in> set xs. \<not> want x)"
  by (induction xs rule: rev_induct) (auto simp: latest_by_snoc split: option.splits)

lemma latest_by_Some:
  "latest_by want rev_of xs = Some l \<Longrightarrow>
     l \<in> set xs \<and> want l \<and> (\<forall>x \<in> set xs. want x \<longrightarrow> rev_of x \<le> rev_of l)"
proof (induction xs arbitrary: l rule: rev_induct)
  case Nil
  then show ?case by simp
next
  case (snoc x xs)
  show ?case
  proof (cases "latest_by want rev_of xs")
    case None
    then have "\<forall>x \<in> set xs. \<not> want x" by (simp add: latest_by_None_iff)
    with None snoc.prems show ?thesis
      by (auto simp: latest_by_snoc split: if_splits)
  next
    case (Some m)
    with snoc.IH[OF Some] snoc.prems show ?thesis
      by (fastforce simp: latest_by_snoc split: if_splits)
  qed
qed

definition max_rev :: "('a \<Rightarrow> int) \<Rightarrow> 'a list \<Rightarrow> int" where
  "max_rev rev_of xs = foldl (\<lambda>m x. max m (rev_of x)) 0 xs"

lemma max_rev_bound: "x \<in> set xs \<Longrightarrow> rev_of x \<le> max_rev rev_of xs"
proof (induction xs rule: rev_induct)
  case Nil
  then show ?case by simp
next
  case (snoc y ys)
  then show ?case by (auto simp: max_rev_def max.coboundedI1)
qed

lemma max_rev_nonneg: "0 \<le> max_rev rev_of xs"
  by (induction xs rule: rev_induct) (auto simp: max_rev_def)

end
