(* ===== verification/Core_Model.thy ===== *)
theory Core_Model
  imports Prelude
begin

text \<open>
  The gateway's core vocabulary (\<^verbatim>\<open>src/core\<close>): capabilities and reasoning evidence
  (\<^verbatim>\<open>capabilities.ts\<close>, \<^verbatim>\<open>reasoning.ts\<close>), canonical events
  (\<^verbatim>\<open>canonical-event.ts\<close>), the fidelity envelope
  (\<^verbatim>\<open>fidelity.ts\<close>), agent attribution (\<^verbatim>\<open>agent-context.ts\<close>) and the
  configured-route decision (\<^verbatim>\<open>router.ts\<close>, \<^verbatim>\<open>route-decision.ts\<close>).
\<close>

section \<open>Capabilities\<close>

datatype token_counting_quality = Upstream | Exact_local | Conservative_estimate | Unsupported_counting

datatype reasoning_control_kind =
  Discrete_effort | Adaptive_control | Binary_control | Token_budget_control | No_control

record reasoning_capability_evidence =
  supported :: bool
  controlKind :: reasoning_control_kind
  effortLevels :: "string list option"
  adaptive :: bool
  tokenBudget :: bool
  reasoningWithTools :: bool

record provider_capabilities =
  cap_streaming :: bool
  cap_tools :: bool
  cap_parallelTools :: bool
  cap_images :: bool
  cap_reasoning :: bool
  cap_redactedReasoning :: bool
  cap_structuredOutput :: bool
  cap_tokenCounting :: token_counting_quality

datatype capability_requirement =
    Req_streaming | Req_tools | Req_parallelTools | Req_images | Req_reasoning
  | Req_redactedReasoning | Req_structuredOutput

fun has_capability :: "provider_capabilities \<Rightarrow> capability_requirement \<Rightarrow> bool" where
  "has_capability c Req_streaming = cap_streaming c"
| "has_capability c Req_tools = cap_tools c"
| "has_capability c Req_parallelTools = cap_parallelTools c"
| "has_capability c Req_images = cap_images c"
| "has_capability c Req_reasoning = cap_reasoning c"
| "has_capability c Req_redactedReasoning = cap_redactedReasoning c"
| "has_capability c Req_structuredOutput = cap_structuredOutput c"

definition missingCapabilities ::
  "provider_capabilities \<Rightarrow> capability_requirement list \<Rightarrow> capability_requirement list" where
  "missingCapabilities capabilities required =
     filter (\<lambda>capability. \<not> has_capability capabilities capability) required"

lemma missingCapabilities_Nil_iff:
  "missingCapabilities c req = [] \<longleftrightarrow> (\<forall>r \<in> set req. has_capability c r)"
  by (auto simp: missingCapabilities_def filter_empty_conv)

section \<open>Reasoning intent\<close>

datatype reasoning_intent = OFF | ECONOMY | BALANCED | DEEP | MAXIMUM | AUTO

datatype reasoning_source_mode = Mode_disabled | Mode_enabled | Mode_adaptive

record reasoning_request =
  intent :: reasoning_intent
  sourceMode :: "reasoning_source_mode option"
  sourceEffort :: "string option"
  explicit :: bool

definition intentForEffort :: "string \<Rightarrow> reasoning_intent option" where
  "intentForEffort effort =
     map_of [(''low'', ECONOMY), (''medium'', BALANCED), (''high'', DEEP),
             (''xhigh'', MAXIMUM), (''max'', MAXIMUM)] effort"

record reasoning_wire_signal =
  wire_thinking :: "reasoning_source_mode option"
  wire_effort :: "string option"

definition request_from_mode :: "reasoning_source_mode option \<Rightarrow> reasoning_request" where
  "request_from_mode thinking =
     (case thinking of
        Some Mode_disabled \<Rightarrow>
          \<lparr>intent = OFF, sourceMode = Some Mode_disabled, sourceEffort = None, explicit = True\<rparr>
      | Some Mode_adaptive \<Rightarrow>
          \<lparr>intent = AUTO, sourceMode = Some Mode_adaptive, sourceEffort = None, explicit = True\<rparr>
      | Some Mode_enabled \<Rightarrow>
          \<lparr>intent = BALANCED, sourceMode = Some Mode_enabled, sourceEffort = None, explicit = True\<rparr>
      | None \<Rightarrow> \<lparr>intent = AUTO, sourceMode = None, sourceEffort = None, explicit = False\<rparr>)"

definition reasoningRequestFromWire :: "reasoning_wire_signal \<Rightarrow> reasoning_request" where
  "reasoningRequestFromWire signal =
     (case wire_effort signal of
        None \<Rightarrow> request_from_mode (wire_thinking signal)
      | Some effort \<Rightarrow>
          (case intentForEffort effort of
             None \<Rightarrow> request_from_mode (wire_thinking signal)
           | Some i \<Rightarrow>
               \<lparr>intent = i, sourceMode = wire_thinking signal, sourceEffort = Some effort, explicit = True\<rparr>))"

datatype native_reasoning_control =
    Ctl_off
  | Ctl_provider_default
  | Ctl_binary bool
  | Ctl_effort string
  | Ctl_adaptive bool
  | Ctl_budget int

datatype reasoning_mapping_kind = Map_exact | Map_normalized | Map_downgraded | Map_default

record resolved_reasoning =
  requested :: reasoning_request
  canonicalIntent :: reasoning_intent
  effective_control :: native_reasoning_control
  mappingKind :: reasoning_mapping_kind
  fallbackReason :: "string option"

record reasoning_budget_policy =
  economy :: int
  balanced :: int
  deep :: int
  maximum :: int

section \<open>Fidelity envelope\<close>

datatype fidelity_source_protocol = Anthropic_messages | Openai_responses

datatype opaque_artifact_kind = Thinking_signature | Reasoning_encrypted_content

record opaque_artifact =
  artifact_kind :: opaque_artifact_kind
  association :: string
  artifact_value :: string

datatype fidelity_disposition = Preserved_native | Translated | Ignored | Unsupported_field

record fidelity_note =
  note_field :: string
  disposition :: fidelity_disposition
  note_reason :: "string option"

record fidelity_envelope =
  envelope_version :: nat
  sourceProtocol :: fidelity_source_protocol
  protocolRevision :: "string option"
  artifacts :: "opaque_artifact list"
  env_notes :: "fidelity_note list"
  required_kinds :: "opaque_artifact_kind list"

definition FIDELITY_ENVELOPE_VERSION :: nat where
  "FIDELITY_ENVELOPE_VERSION = 1"

definition emptyFidelityEnvelope ::
  "fidelity_source_protocol \<Rightarrow> string option \<Rightarrow> fidelity_envelope" where
  "emptyFidelityEnvelope protocol revision =
     \<lparr>envelope_version = FIDELITY_ENVELOPE_VERSION, sourceProtocol = protocol,
      protocolRevision = revision, artifacts = [], env_notes = [], required_kinds = []\<rparr>"

definition withArtifacts :: "fidelity_envelope \<Rightarrow> opaque_artifact list \<Rightarrow> fidelity_envelope" where
  "withArtifacts envelope extra =
     (if extra = [] then envelope else envelope\<lparr>artifacts := artifacts envelope @ extra\<rparr>)"

definition withNotes :: "fidelity_envelope \<Rightarrow> fidelity_note list \<Rightarrow> fidelity_envelope" where
  "withNotes envelope extra =
     (if extra = [] then envelope else envelope\<lparr>env_notes := env_notes envelope @ extra\<rparr>)"

definition withRequired :: "fidelity_envelope \<Rightarrow> opaque_artifact_kind list \<Rightarrow> fidelity_envelope" where
  "withRequired envelope kinds =
     (if kinds = [] then envelope
      else envelope\<lparr>required_kinds := js_uniq (required_kinds envelope @ kinds)\<rparr>)"

definition mergeFidelity ::
  "fidelity_envelope option \<Rightarrow> fidelity_envelope option \<Rightarrow> fidelity_envelope option" where
  "mergeFidelity base extra =
     (case (base, extra) of
        (None, None) \<Rightarrow> None
      | (None, Some e) \<Rightarrow> Some e
      | (Some b, None) \<Rightarrow> Some b
      | (Some b, Some e) \<Rightarrow>
          Some (b\<lparr>artifacts := artifacts b @ artifacts e,
                  env_notes := env_notes b @ env_notes e,
                  required_kinds := js_uniq (required_kinds b @ required_kinds e)\<rparr>))"

definition artifactValue ::
  "fidelity_envelope option \<Rightarrow> opaque_artifact_kind \<Rightarrow> string \<Rightarrow> string option" where
  "artifactValue envelope kind assoc =
     (case envelope of
        None \<Rightarrow> None
      | Some e \<Rightarrow>
          map_option artifact_value
            (List.find (\<lambda>a. artifact_kind a = kind \<and> association a = assoc) (artifacts e)))"

definition unsupportedRequiredArtifacts ::
  "fidelity_envelope option \<Rightarrow> opaque_artifact_kind list \<Rightarrow> opaque_artifact_kind list" where
  "unsupportedRequiredArtifacts envelope supported_kinds =
     (case envelope of
        None \<Rightarrow> []
      | Some e \<Rightarrow> filter (\<lambda>kind. kind \<notin> set supported_kinds) (required_kinds e))"

record fidelity_summary =
  summary_version :: nat
  summary_sourceProtocol :: fidelity_source_protocol
  summary_protocolRevision :: "string option"
  artifactKinds :: "opaque_artifact_kind list"
  artifactCount :: nat
  summary_notes :: "(string \<times> fidelity_disposition) list"
  requiredKinds :: "opaque_artifact_kind list"

definition describeFidelity :: "fidelity_envelope \<Rightarrow> fidelity_summary" where
  "describeFidelity e =
     \<lparr>summary_version = envelope_version e, summary_sourceProtocol = sourceProtocol e,
      summary_protocolRevision = protocolRevision e,
      artifactKinds = js_uniq (map artifact_kind (artifacts e)),
      artifactCount = length (artifacts e),
      summary_notes = map (\<lambda>n. (note_field n, disposition n)) (env_notes e),
      requiredKinds = required_kinds e\<rparr>"

section \<open>Canonical events\<close>

record event_base =
  ev_requestId :: string
  ev_sequence :: nat
  ev_timestamp :: date_text
  ev_providerId :: string
  ev_modelId :: string

datatype content_type = Text_content | Reasoning_content | Redacted_reasoning_content | Tool_call_content

datatype canonical_event =
    Response_started event_base string
  | Content_started event_base nat content_type "string option" "string option" "string option"
  | Text_delta event_base nat string
  | Reasoning_delta event_base nat string
  | Signature_delta event_base nat string
  | Tool_arguments_delta event_base nat string string
  | Content_completed event_base nat
  | Usage_updated event_base "nat option" "nat option"
  | Response_completed event_base string
  | Response_failed event_base string string
  | Fidelity_artifacts event_base "opaque_artifact list"

section \<open>Route records and decisions\<close>

datatype credential_ref =
    Env_ref string
  | Handle_ref string
  | Keychain_ref string string

record route_record =
  rr_role :: string
  rr_providerId :: string
  rr_modelId :: string
  rr_adapterId :: string
  rr_credentialRef :: credential_ref
  rr_capabilities :: provider_capabilities
  rr_reasoningEvidence :: "reasoning_capability_evidence option"

record route_decision =
  rd_requestId :: string
  rd_providerId :: string
  rd_modelId :: string
  rd_adapterId :: string
  rd_credentialRef :: credential_ref
  rd_sourceRule :: string
  rd_configFingerprint :: string
  rd_capabilitySnapshot :: provider_capabilities
  rd_decidedAt :: date_text
  rd_accountPseudonym :: "string option"
  rd_credentialGeneration :: "int option"
  rd_reasoningEvidence :: "reasoning_capability_evidence option"
  rd_resolvedReasoning :: "resolved_reasoning option"

record decide_route_input =
  dr_requestId :: string
  dr_route :: route_record
  dr_required :: "capability_requirement list"
  dr_configFingerprint :: string
  dr_now :: int
  dr_accountPseudonym :: "string option"
  dr_credentialGeneration :: "int option"
  dr_resolvedReasoning :: "resolved_reasoning option"

text \<open>\<open>UnsupportedRouteError\<close> carries the missing capabilities: the left of the sum.\<close>

definition decideRoute :: "decide_route_input \<Rightarrow> capability_requirement list + route_decision" where
  "decideRoute input =
     (let route = dr_route input; missing = missingCapabilities (rr_capabilities route) (dr_required input)
      in if missing \<noteq> [] then Inl missing
         else Inr \<lparr>rd_requestId = dr_requestId input, rd_providerId = rr_providerId route,
                   rd_modelId = rr_modelId route, rd_adapterId = rr_adapterId route,
                   rd_credentialRef = rr_credentialRef route,
                   rd_sourceRule = ''role:'' @ rr_role route,
                   rd_configFingerprint = dr_configFingerprint input,
                   rd_capabilitySnapshot = rr_capabilities route,
                   rd_decidedAt = Instant (dr_now input),
                   rd_accountPseudonym = dr_accountPseudonym input,
                   rd_credentialGeneration = dr_credentialGeneration input,
                   rd_reasoningEvidence = rr_reasoningEvidence route,
                   rd_resolvedReasoning = dr_resolvedReasoning input\<rparr>)"

section \<open>Agent attribution\<close>

datatype header_value = One_header string | Many_headers "string list"

record agent_context =
  claudeSessionId :: "string option"
  agentId :: "string option"
  parentAgentId :: "string option"

text \<open>
  \<open>headers[name]\<close> is a lookup in the header bag; a bag is an association list, the last
  binding of a key being the one in force. The case-insensitive fallback takes the first
  entry in order.
\<close>

definition header_lookup :: "(string \<times> header_value) list \<Rightarrow> string \<Rightarrow> header_value option" where
  "header_lookup headers key = map_of (rev headers) key"

definition value_of_header :: "header_value \<Rightarrow> string option" where
  "value_of_header v =
     (case v of
        One_header s \<Rightarrow> if s = [] then None else Some s
      | Many_headers ss \<Rightarrow> List.find (\<lambda>item. item \<noteq> []) ss)"

definition singleValue :: "(string \<times> header_value) list \<Rightarrow> string \<Rightarrow> string option" where
  "singleValue headers key =
     (case header_lookup headers key of
        Some direct \<Rightarrow> value_of_header direct
      | None \<Rightarrow>
          (case List.find (\<lambda>(k, _). js_to_lower k = key) headers of
             None \<Rightarrow> None
           | Some (_, v) \<Rightarrow> value_of_header v))"

definition parseAgentContext :: "(string \<times> header_value) list \<Rightarrow> agent_context option" where
  "parseAgentContext headers =
     (let session = singleValue headers ''x-claude-code-session-id'';
          agent = singleValue headers ''x-claude-code-agent-id'';
          parent = singleValue headers ''x-claude-code-parent-agent-id''
      in if session = None \<and> agent = None \<and> parent = None then None
         else Some \<lparr>claudeSessionId = session, agentId = agent, parentAgentId = parent\<rparr>)"

lemma singleValue_nonempty: "singleValue headers key = Some v \<Longrightarrow> v \<noteq> []"
  by (auto simp: singleValue_def value_of_header_def dest: find_Some_in
      split: option.splits header_value.splits if_splits)

section \<open>Lemmas on the fidelity envelope\<close>

lemma mergeFidelity_None [simp]: "mergeFidelity None e = e" "mergeFidelity e None = e"
  by (cases e; simp add: mergeFidelity_def)+

lemma mergeFidelity_Some [simp]:
  "mergeFidelity (Some b) (Some e) =
     Some (b\<lparr>artifacts := artifacts b @ artifacts e, env_notes := env_notes b @ env_notes e,
             required_kinds := js_uniq (required_kinds b @ required_kinds e)\<rparr>)"
  by (simp add: mergeFidelity_def)

lemma js_uniq_append_uniq_right: "js_uniq (xs @ js_uniq ys) = js_uniq (xs @ ys)"
proof -
  have "remdups (remdups us @ vs) = remdups (us @ vs)" for us vs :: "'b list"
    by (induction us) auto
  then show ?thesis by (simp add: js_uniq_def)
qed

lemma mergeFidelity_assoc_Some:
  "mergeFidelity (mergeFidelity (Some a) (Some b)) (Some c) =
   mergeFidelity (Some a) (mergeFidelity (Some b) (Some c))"
  by (simp add: js_uniq_append_uniq js_uniq_append_uniq_right)

lemma mergeFidelity_assoc:
  "mergeFidelity (mergeFidelity a b) c = mergeFidelity a (mergeFidelity b c)"
  by (cases a; cases b; cases c) (simp_all only: mergeFidelity_None mergeFidelity_assoc_Some)

lemma artifactValue_merge:
  "artifactValue (mergeFidelity a b) kind key =
     or_else (artifactValue a kind key) (artifactValue b kind key)"
  by (cases a; cases b) (auto simp: artifactValue_def find_append or_else_def split: option.splits)

end
