(* ===== verification/Control_Plane_Types.thy ===== *)
theory Control_Plane_Types
  imports Core_Model
begin

text \<open>
  The control plane's data (\<^verbatim>\<open>src/control-plane/types.ts\<close>), its errors
  (\<^verbatim>\<open>errors.ts\<close>), the secret-free gate on stored and traced values
  (\<^verbatim>\<open>secret-free.ts\<close>) and the classification of route outcomes
  (\<^verbatim>\<open>health/types.ts\<close>, \<^verbatim>\<open>health/outcomes.ts\<close>).

  Times that only \<open>toISOString\<close> writes (\<open>createdAt\<close>, \<open>updatedAt\<close>) are instants; times
  that a caller supplies as text (cooldowns) are date strings.
\<close>

section \<open>Records\<close>

datatype integration_mode = Direct | Oauth | Bridge
datatype account_state = Ready | Paused | Unready | Revoked
datatype pool_strategy = Manual | Round_robin | Fill_first
datatype harness_name = Harness_claude | Harness_codex
datatype management_actor = Actor_cli | Actor_browser | Actor_system
datatype audit_result = Audit_ok | Audit_rejected

record model_limits =
  contextWindow :: "int option"
  maxOutput :: "int option"

record provider_capability_evidence =
  pce_registryRevision :: int
  pce_providerId :: string
  pce_evidenceRef :: string
  pce_capabilities :: provider_capabilities
  pce_reasoning :: reasoning_capability_evidence
  pce_limits :: model_limits

record provider_record =
  prov_id :: string
  prov_name :: string
  integrationMode :: integration_mode
  endpointPolicy :: "string option"
  capabilityEvidence :: "provider_capability_evidence option"
  requiredTermsRevision :: "string option"
  provenanceRef :: "string option"
  prov_enabled :: bool
  prov_version :: int
  prov_createdAt :: int
  prov_updatedAt :: int

record account_record =
  acc_id :: string
  pseudonym :: string
  acc_providerId :: string
  credentialHandle :: string
  credentialGeneration :: int
  acc_state :: account_state
  pauseReason :: "string option"
  quotaClass :: string
  acc_cooldownUntil :: "date_text option"
  termsRevision :: "string option"
  termsAcknowledgedRevision :: "string option"
  acc_version :: int
  acc_createdAt :: int
  acc_updatedAt :: int

record membership_record =
  mem_poolId :: string
  mem_accountId :: string
  pinOrder :: "int option"

record pool_record =
  pool_id :: string
  pool_name :: string
  pool_providerId :: string
  strategy :: pool_strategy
  affinity :: "json option"
  retryBudget :: int
  memberships :: "membership_record list"
  pool_version :: int
  pool_createdAt :: int
  pool_updatedAt :: int

record profile_record =
  prof_id :: string
  prof_name :: string
  harness :: harness_name
  prof_providerId :: "string option"
  prof_poolId :: "string option"
  modelRoles :: "(string \<times> string) list"
  capabilityPolicy :: "json option"
  launchPolicy :: "json option"
  prof_version :: int
  prof_createdAt :: int
  prof_updatedAt :: int

record policy_snapshot =
  snap_providers :: "provider_record list"
  snap_accounts :: "account_record list"
  snap_pools :: "pool_record list"
  snap_profiles :: "profile_record list"

record policy_revision =
  revision :: int
  policy_hash :: string
  policy_createdAt :: int
  snapshot :: policy_snapshot

text \<open>The metadata the store itself audits: the new version, or the error's name.\<close>

datatype audit_metadata = Meta_version int | Meta_code string | Meta_json json

record audit_event =
  audit_id :: string
  audit_action :: string
  audit_resourceType :: string
  audit_resourceId :: "string option"
  audit_actor :: management_actor
  audit_outcome :: audit_result
  audit_metadata :: audit_metadata
  audit_createdAt :: int

section \<open>Inputs\<close>

record create_provider_input =
  cprov_name :: string
  cprov_integrationMode :: integration_mode
  cprov_endpointPolicy :: "string option"
  cprov_capabilityEvidence :: "provider_capability_evidence option"
  cprov_requiredTermsRevision :: "string option"
  cprov_provenanceRef :: "string option"

record update_provider_input =
  uprov_name :: "string option"
  uprov_integrationMode :: "integration_mode option"
  uprov_endpointPolicy :: "string option"
  uprov_capabilityEvidence :: "provider_capability_evidence option"
  uprov_requiredTermsRevision :: "string option"
  uprov_provenanceRef :: "string option"
  uprov_enabled :: "bool option"

record create_account_input =
  cacc_pseudonym :: string
  cacc_providerId :: string
  cacc_credentialHandle :: string
  cacc_state :: "account_state option"
  cacc_quotaClass :: "string option"

record update_account_input =
  uacc_state :: "account_state option"
  uacc_pauseReason :: "string option"
  uacc_quotaClass :: "string option"

record bind_credential_input =
  bind_credentialHandle :: string
  bind_credentialGeneration :: int
  bind_state :: account_state

record create_pool_input =
  cpool_name :: string
  cpool_providerId :: string
  cpool_strategy :: pool_strategy
  cpool_affinity :: "json option"
  cpool_retryBudget :: "int option"
  cpool_accountIds :: "string list option"

record update_pool_input =
  upool_name :: "string option"
  upool_strategy :: "pool_strategy option"
  upool_affinity :: "json option"
  upool_retryBudget :: "int option"
  upool_accountIds :: "string list option"

record create_profile_input =
  cprof_name :: string
  cprof_harness :: harness_name
  cprof_providerId :: "string option"
  cprof_poolId :: "string option"
  cprof_modelRoles :: "(string \<times> string) list"
  cprof_capabilityPolicy :: "json option"
  cprof_launchPolicy :: "json option"

record update_profile_input =
  uprof_name :: "string option"
  uprof_harness :: "harness_name option"
  uprof_providerId :: "string option"
  uprof_poolId :: "string option"
  uprof_modelRoles :: "(string \<times> string) list option"
  uprof_capabilityPolicy :: "json option"
  uprof_launchPolicy :: "json option"

section \<open>Errors\<close>

text \<open>
  The subclasses of \<open>ControlPlaneError\<close>, and any other error the database raises
  (\<open>Sqlite_failure\<close>). Status code, machine code and class name are the class's.
\<close>

datatype cp_error =
    Version_conflict string
  | Not_found string
  | Validation string
  | Uniqueness string
  | Sqlite_failure string

fun cp_error_name :: "cp_error \<Rightarrow> string" where
  "cp_error_name (Version_conflict _) = ''VersionConflictError''"
| "cp_error_name (Not_found _) = ''NotFoundError''"
| "cp_error_name (Validation _) = ''ValidationError''"
| "cp_error_name (Uniqueness _) = ''UniquenessError''"
| "cp_error_name (Sqlite_failure _) = ''Error''"

fun cp_error_status :: "cp_error \<Rightarrow> nat option" where
  "cp_error_status (Version_conflict _) = Some 409"
| "cp_error_status (Not_found _) = Some 404"
| "cp_error_status (Validation _) = Some 400"
| "cp_error_status (Uniqueness _) = Some 409"
| "cp_error_status (Sqlite_failure _) = None"

fun cp_error_code :: "cp_error \<Rightarrow> string option" where
  "cp_error_code (Version_conflict _) = Some ''stale-version''"
| "cp_error_code (Not_found _) = Some ''not-found''"
| "cp_error_code (Validation _) = Some ''invalid''"
| "cp_error_code (Uniqueness _) = Some ''conflict''"
| "cp_error_code (Sqlite_failure _) = None"

section \<open>The secret-free gate\<close>

definition FORBIDDEN_KEYS :: "string list" where
  "FORBIDDEN_KEYS =
     [''accessToken'', ''refreshToken'', ''authorization'', ''token'', ''secret'', ''password'',
      ''email'', ''prompt'', ''response'', ''identity'']"

text \<open>\<open>walk\<close> visits every key at every depth; the gate throws on the first forbidden one.\<close>

fun walk_keys :: "json \<Rightarrow> string list" where
  "walk_keys (JArr xs) = concat (map walk_keys xs)"
| "walk_keys (JObj kvs) = concat (map (\<lambda>(key, child). key # walk_keys child) kvs)"
| "walk_keys _ = []"

definition assertSecretFree :: "json \<Rightarrow> bool" where
  "assertSecretFree value \<longleftrightarrow> list_all (\<lambda>key. key \<notin> set FORBIDDEN_KEYS) (walk_keys value)"

lemma assertSecretFree_JObj:
  "assertSecretFree (JObj kvs) \<longleftrightarrow>
     (\<forall>(key, child) \<in> set kvs. key \<notin> set FORBIDDEN_KEYS \<and> assertSecretFree child)"
  by (auto simp: assertSecretFree_def list_all_iff)

lemma assertSecretFree_JArr:
  "assertSecretFree (JArr xs) \<longleftrightarrow> (\<forall>x \<in> set xs. assertSecretFree x)"
  by (auto simp: assertSecretFree_def list_all_iff)

lemma assertSecretFree_atom [simp]:
  "assertSecretFree JNull" "assertSecretFree (JBool b)" "assertSecretFree (JNum n)"
  "assertSecretFree (JStr s)"
  by (simp_all add: assertSecretFree_def)

section \<open>Health and route outcomes\<close>

datatype route_outcome_class = Out_success | Out_auth | Out_quota | Out_transient | Out_fatal

record health_record =
  health_accountId :: string
  lastOutcome :: "route_outcome_class option"
  lastOutcomeAt :: "int option"
  consecutiveFailures :: int
  health_cooldownUntil :: "date_text option"

text \<open>\<open>cooldownUntil?: string | null\<close>: absent, null, or a date string.\<close>

record route_outcome_input =
  in_outcome :: route_outcome_class
  in_quotaClass :: "string option"
  in_cooldownUntil :: "date_text option option"

record cooldown_seconds =
  cooldown_auth :: int
  cooldown_quota :: int
  cooldown_transient :: int

definition DEFAULT_COOLDOWN_SECONDS :: cooldown_seconds where
  "DEFAULT_COOLDOWN_SECONDS = \<lparr>cooldown_auth = 60, cooldown_quota = 300, cooldown_transient = 15\<rparr>"

definition classifyProviderFailure :: "string option \<Rightarrow> route_outcome_class" where
  "classifyProviderFailure code =
     (if code = Some ''authentication_error'' then Out_auth
      else if code = Some ''rate_limit_error'' then Out_quota
      else if code = Some ''api_error'' then Out_transient
      else Out_fatal)"

definition cooldownUntilFor :: "route_outcome_class \<Rightarrow> int \<Rightarrow> cooldown_seconds \<Rightarrow> date_text option" where
  "cooldownUntilFor outcome now seconds =
     (let duration = (case outcome of
            Out_auth \<Rightarrow> cooldown_auth seconds
          | Out_quota \<Rightarrow> cooldown_quota seconds
          | Out_transient \<Rightarrow> cooldown_transient seconds
          | _ \<Rightarrow> 0)
      in if duration \<le> 0 then None else Some (Instant (now + duration * 1000)))"

definition nextQuotaClass :: "route_outcome_class \<Rightarrow> string \<Rightarrow> string" where
  "nextQuotaClass outcome current =
     (case outcome of
        Out_success \<Rightarrow> ''healthy''
      | Out_quota \<Rightarrow> ''exhausted''
      | _ \<Rightarrow> current)"

lemma classify_not_success [simp]: "classifyProviderFailure code \<noteq> Out_success"
  by (simp add: classifyProviderFailure_def)

lemma cooldown_in_future:
  "cooldownUntilFor outcome now seconds = Some d \<Longrightarrow> \<exists>t. d = Instant t \<and> now < t"
  by (auto simp: cooldownUntilFor_def Let_def split: route_outcome_class.splits if_splits)

end
