(* ===== verification/Control_Plane_Store.thy ===== *)
theory Control_Plane_Store
  imports Control_Plane_Types "HOL-Library.Option_ord"
begin

text \<open>
  The control-plane database: \<^verbatim>\<open>src/control-plane/repository.ts\<close> (one query or
  statement per definition, over tables held as lists of decoded rows) and
  \<^verbatim>\<open>store.ts\<close> (the transactional mutations). A table operation that throws is the
  left of a sum; \<open>mutate\<close> is the transaction around it, which on an error restores the
  tables and audits the rejection.

  Taken from outside: the clock, \<open>randomUUID\<close> (its \<open>n\<close>-th value) and the SHA-256 of a
  policy snapshot's canonical JSON, in the record \<open>cp_env\<close>. The locale
  \<open>versioned_table\<close> holds what the optimistic \<open>UPDATE ... WHERE id = ? AND version = ?\<close>
  promises, and is interpreted on the four versioned tables.
\<close>

section \<open>State\<close>

record terms_row =
  terms_accountId :: string
  terms_providerId :: string
  terms_revision :: string
  terms_acknowledgedAt :: int

record cp_tables =
  t_providers :: "provider_record list"
  t_accounts :: "account_record list"
  t_pools :: "pool_record list"
  t_memberships :: "membership_record list"
  t_profiles :: "profile_record list"
  t_health :: "health_record list"
  t_terms :: "terms_row list"

record control_plane =
  tables :: cp_tables
  policies :: "policy_revision list"
  audit_log :: "audit_event list"
  uuid_count :: nat

record cp_env =
  cp_now :: int
  cp_uuid :: "nat \<Rightarrow> string"
  cp_hash :: "policy_snapshot \<Rightarrow> string"

definition empty_tables :: cp_tables where
  "empty_tables = \<lparr>t_providers = [], t_accounts = [], t_pools = [], t_memberships = [],
                  t_profiles = [], t_health = [], t_terms = []\<rparr>"

definition empty_control_plane :: control_plane where
  "empty_control_plane = \<lparr>tables = empty_tables, policies = [], audit_log = [], uuid_count = 0\<rparr>"

section \<open>Optimistic updates of a versioned table\<close>

definition matches_row :: "('r \<Rightarrow> string) \<Rightarrow> ('r \<Rightarrow> int) \<Rightarrow> 'r \<Rightarrow> 'r \<Rightarrow> bool" where
  "matches_row id_of ver_of cur row \<longleftrightarrow> id_of row = id_of cur \<and> ver_of row = ver_of cur"

definition update_rows ::
  "('r \<Rightarrow> string) \<Rightarrow> ('r \<Rightarrow> int) \<Rightarrow> ('r \<Rightarrow> 'r \<Rightarrow> 'r) \<Rightarrow> 'r \<Rightarrow> 'r \<Rightarrow> 'r list \<Rightarrow> 'r list" where
  "update_rows id_of ver_of set_columns cur nxt rows =
     map (\<lambda>row. if matches_row id_of ver_of cur row then set_columns nxt row else row) rows"

locale versioned_table =
  fixes id_of :: "'r \<Rightarrow> string"
    and ver_of :: "'r \<Rightarrow> int"
    and set_columns :: "'r \<Rightarrow> 'r \<Rightarrow> 'r"
  assumes keeps_id: "id_of (set_columns nxt row) = id_of row"
    and writes_version: "ver_of (set_columns nxt row) = ver_of nxt"
begin

lemma update_rows_Cons:
  "update_rows id_of ver_of set_columns cur nxt (x # rows) =
     (if matches_row id_of ver_of cur x then set_columns nxt x else x)
       # update_rows id_of ver_of set_columns cur nxt rows"
  by (simp add: update_rows_def)

lemma update_keeps_ids: "map id_of (update_rows id_of ver_of set_columns cur nxt rows) = map id_of rows"
  by (simp add: update_rows_def keeps_id)

lemma update_keeps_length: "length (update_rows id_of ver_of set_columns cur nxt rows) = length rows"
  by (simp add: update_rows_def)

lemma update_find_same:
  assumes "List.find (\<lambda>r. id_of r = id_of cur) rows = Some row" and "ver_of row = ver_of cur"
  shows "List.find (\<lambda>r. id_of r = id_of cur) (update_rows id_of ver_of set_columns cur nxt rows)
         = Some (set_columns nxt row)"
  using assms
  by (induction rows) (auto simp: update_rows_def matches_row_def keeps_id split: if_splits)

lemma update_find_other:
  assumes "i \<noteq> id_of cur"
  shows "List.find (\<lambda>r. id_of r = i) (update_rows id_of ver_of set_columns cur nxt rows)
         = List.find (\<lambda>r. id_of r = i) rows"
  using assms
  by (induction rows) (auto simp: update_rows_def matches_row_def keeps_id)

lemma update_stale:
  assumes "\<forall>row \<in> set rows. \<not> matches_row id_of ver_of cur row"
  shows "update_rows id_of ver_of set_columns cur nxt rows = rows"
  using assms by (induction rows) (auto simp: update_rows_def)

lemma update_in:
  assumes "r \<in> set (update_rows id_of ver_of set_columns cur nxt rows)"
  shows "r \<in> set rows \<or> (\<exists>row \<in> set rows. id_of row = id_of cur \<and> r = set_columns nxt row)"
  using assms by (auto simp: update_rows_def matches_row_def split: if_splits)

lemma update_keeps_distinct_key:
  assumes "distinct (map id_of rows)" and "distinct (map key rows)"
    and "\<And>row. key (set_columns nxt row) = new_key row"
    and "\<And>row other. row \<in> set rows \<Longrightarrow> id_of row = id_of cur \<Longrightarrow> other \<in> set rows \<Longrightarrow>
           id_of other \<noteq> id_of cur \<Longrightarrow> key other \<noteq> new_key row"
  shows "distinct (map key (update_rows id_of ver_of set_columns cur nxt rows))"
  using assms
proof (induction rows)
  case Nil
  then show ?case by (simp add: update_rows_def)
next
  case (Cons x rows)
  let ?up = "update_rows id_of ver_of set_columns cur nxt"
  have tail: "distinct (map key (?up rows))"
    using Cons.prems by (intro Cons.IH) auto
  have "key (if matches_row id_of ver_of cur x then set_columns nxt x else x) \<notin> key ` set (?up rows)"
  proof
    assume "key (if matches_row id_of ver_of cur x then set_columns nxt x else x) \<in> key ` set (?up rows)"
    then obtain r where r: "r \<in> set (?up rows)"
      and same: "key r = key (if matches_row id_of ver_of cur x then set_columns nxt x else x)" by auto
    from r obtain row where row: "row \<in> set rows"
      and r_def: "r = (if matches_row id_of ver_of cur row then set_columns nxt row else row)"
      by (auto simp: update_rows_def)
    have ne_id: "id_of row \<noteq> id_of x" and ne_key: "key row \<noteq> key x"
      using Cons.prems(1,2) row by (force simp: image_iff)+
    show False
    proof (cases "id_of x = id_of cur")
      case True
      with ne_id r_def have "r = row" by (auto simp: matches_row_def)
      with same ne_key have "key row = new_key x"
        by (auto simp: Cons.prems(3) split: if_splits)
      moreover have "key row \<noteq> new_key x"
        using Cons.prems(4)[of x row] True row ne_id by auto
      ultimately show False by simp
    next
      case False
      then have "key r = key x" using same by (auto simp: matches_row_def)
      moreover have "key r = key row \<or> (id_of row = id_of cur \<and> key r = new_key row)"
        using r_def by (auto simp: matches_row_def Cons.prems(3))
      moreover have "id_of row = id_of cur \<Longrightarrow> key x \<noteq> new_key row"
        using Cons.prems(4)[of row x] False row by auto
      ultimately show False using ne_key by auto
    qed
  qed
  with tail show ?case by (simp only: update_rows_Cons list.map distinct.simps set_map) simp
qed

end

section \<open>Providers\<close>

definition set_provider_columns :: "provider_record \<Rightarrow> provider_record \<Rightarrow> provider_record" where
  "set_provider_columns nxt row =
     row\<lparr>prov_name := prov_name nxt, integrationMode := integrationMode nxt,
         endpointPolicy := endpointPolicy nxt, capabilityEvidence := capabilityEvidence nxt,
         requiredTermsRevision := requiredTermsRevision nxt, provenanceRef := provenanceRef nxt,
         prov_enabled := prov_enabled nxt, prov_version := prov_version nxt,
         prov_updatedAt := prov_updatedAt nxt\<rparr>"

interpretation provider_table: versioned_table prov_id prov_version set_provider_columns
  by unfold_locales (simp_all add: set_provider_columns_def)

definition listProviders :: "cp_tables \<Rightarrow> provider_record list" where
  "listProviders T = sort_key prov_name (t_providers T)"

definition providerById :: "string \<Rightarrow> cp_tables \<Rightarrow> cp_error + provider_record" where
  "providerById i T =
     (case List.find (\<lambda>r. prov_id r = i) (t_providers T) of
        None \<Rightarrow> Inl (Not_found ''provider'')
      | Some r \<Rightarrow> Inr r)"

definition insertProvider :: "provider_record \<Rightarrow> cp_tables \<Rightarrow> cp_error + cp_tables" where
  "insertProvider r T =
     (if list_ex (\<lambda>q. prov_id q = prov_id r \<or> prov_name q = prov_name r) (t_providers T)
      then Inl (Uniqueness ''provider name already exists'')
      else Inr (T\<lparr>t_providers := t_providers T @ [r]\<rparr>))"

definition replaceProvider :: "provider_record \<Rightarrow> provider_record \<Rightarrow> cp_tables \<Rightarrow> cp_error + cp_tables" where
  "replaceProvider cur nxt T =
     (if \<not> list_ex (matches_row prov_id prov_version cur) (t_providers T)
      then Inl (Version_conflict ''provider'')
      else if list_ex (\<lambda>q. prov_id q \<noteq> prov_id cur \<and> prov_name q = prov_name nxt) (t_providers T)
      then Inl (Uniqueness ''provider name already exists'')
      else Inr (T\<lparr>t_providers :=
                    update_rows prov_id prov_version set_provider_columns cur nxt (t_providers T)\<rparr>))"

section \<open>Accounts, health and terms\<close>

definition set_account_columns :: "account_record \<Rightarrow> account_record \<Rightarrow> account_record" where
  "set_account_columns nxt row =
     row\<lparr>credentialHandle := credentialHandle nxt, credentialGeneration := credentialGeneration nxt,
         acc_state := acc_state nxt, pauseReason := pauseReason nxt, quotaClass := quotaClass nxt,
         acc_cooldownUntil := acc_cooldownUntil nxt, termsRevision := termsRevision nxt,
         termsAcknowledgedRevision := termsAcknowledgedRevision nxt, acc_version := acc_version nxt,
         acc_updatedAt := acc_updatedAt nxt\<rparr>"

interpretation account_table: versioned_table acc_id acc_version set_account_columns
  by unfold_locales (simp_all add: set_account_columns_def)

definition listAccounts :: "cp_tables \<Rightarrow> account_record list" where
  "listAccounts T = sort_key pseudonym (t_accounts T)"

definition accountById :: "string \<Rightarrow> cp_tables \<Rightarrow> cp_error + account_record" where
  "accountById i T =
     (case List.find (\<lambda>r. acc_id r = i) (t_accounts T) of
        None \<Rightarrow> Inl (Not_found ''account'')
      | Some r \<Rightarrow> Inr r)"

definition insertAccount :: "account_record \<Rightarrow> cp_tables \<Rightarrow> cp_error + cp_tables" where
  "insertAccount r T =
     (if list_ex (\<lambda>q. acc_id q = acc_id r
                    \<or> (acc_providerId q = acc_providerId r \<and> pseudonym q = pseudonym r)) (t_accounts T)
      then Inl (Uniqueness ''account already exists for this provider'')
      else Inr (T\<lparr>t_accounts := t_accounts T @ [r]\<rparr>))"

definition replaceAccount :: "account_record \<Rightarrow> account_record \<Rightarrow> cp_tables \<Rightarrow> cp_error + cp_tables" where
  "replaceAccount cur nxt T =
     (if \<not> list_ex (matches_row acc_id acc_version cur) (t_accounts T)
      then Inl (Version_conflict ''account'')
      else Inr (T\<lparr>t_accounts :=
                    update_rows acc_id acc_version set_account_columns cur nxt (t_accounts T)\<rparr>))"

definition insertAccountHealth :: "string \<Rightarrow> cp_tables \<Rightarrow> cp_error + cp_tables" where
  "insertAccountHealth accountId T =
     (if list_ex (\<lambda>h. health_accountId h = accountId) (t_health T)
      then Inl (Sqlite_failure ''UNIQUE constraint failed: health.account_id'')
      else Inr (T\<lparr>t_health := t_health T @
                    [\<lparr>health_accountId = accountId, lastOutcome = None, lastOutcomeAt = None,
                      consecutiveFailures = 0, health_cooldownUntil = None\<rparr>]\<rparr>))"

definition healthById :: "string \<Rightarrow> cp_tables \<Rightarrow> health_record option" where
  "healthById accountId T = List.find (\<lambda>h. health_accountId h = accountId) (t_health T)"

definition replaceHealth :: "health_record \<Rightarrow> cp_tables \<Rightarrow> cp_tables" where
  "replaceHealth r T =
     (if list_ex (\<lambda>h. health_accountId h = health_accountId r) (t_health T)
      then T\<lparr>t_health := map (\<lambda>h. if health_accountId h = health_accountId r then r else h) (t_health T)\<rparr>
      else T\<lparr>t_health := t_health T @ [r]\<rparr>)"

definition upsertTermsAcknowledgement ::
  "string \<Rightarrow> string \<Rightarrow> string \<Rightarrow> int \<Rightarrow> cp_tables \<Rightarrow> cp_tables" where
  "upsertTermsAcknowledgement accountId providerId rev_name acked T =
     T\<lparr>t_terms :=
         filter (\<lambda>r. \<not> (terms_accountId r = accountId \<and> terms_providerId r = providerId
                        \<and> terms_revision r = rev_name)) (t_terms T)
         @ [\<lparr>terms_accountId = accountId, terms_providerId = providerId,
             terms_revision = rev_name, terms_acknowledgedAt = acked\<rparr>]\<rparr>"

section \<open>Pools and memberships\<close>

definition encodeJson_ok :: "json option \<Rightarrow> bool" where
  "encodeJson_ok value = (case value of None \<Rightarrow> True | Some j \<Rightarrow> assertSecretFree j)"

definition json_guard :: "json option \<Rightarrow> cp_error + unit" where
  "json_guard value =
     guard_ok (encodeJson_ok value) (Validation ''JSON fields must not contain secret or identity keys'')"

definition set_pool_columns :: "pool_record \<Rightarrow> pool_record \<Rightarrow> pool_record" where
  "set_pool_columns nxt row =
     row\<lparr>pool_name := pool_name nxt, strategy := strategy nxt, affinity := affinity nxt,
         retryBudget := retryBudget nxt, pool_version := pool_version nxt,
         pool_updatedAt := pool_updatedAt nxt\<rparr>"

interpretation pool_table: versioned_table pool_id pool_version set_pool_columns
  by unfold_locales (simp_all add: set_pool_columns_def)

text \<open>The stored row has no memberships; reading a pool joins them, ordered by \<open>pin_order\<close>.\<close>

definition hydratePool :: "cp_tables \<Rightarrow> pool_record \<Rightarrow> pool_record" where
  "hydratePool T row =
     row\<lparr>memberships := sort_key pinOrder (filter (\<lambda>m. mem_poolId m = pool_id row) (t_memberships T))\<rparr>"

definition listPools :: "cp_tables \<Rightarrow> pool_record list" where
  "listPools T = map (hydratePool T) (sort_key pool_name (t_pools T))"

definition poolById :: "string \<Rightarrow> cp_tables \<Rightarrow> cp_error + pool_record" where
  "poolById i T =
     (case List.find (\<lambda>r. pool_id r = i) (t_pools T) of
        None \<Rightarrow> Inl (Not_found ''pool'')
      | Some r \<Rightarrow> Inr (hydratePool T r))"

definition insertPool :: "pool_record \<Rightarrow> cp_tables \<Rightarrow> cp_error + cp_tables" where
  "insertPool r T =
     bind_ok (json_guard (affinity r)) (\<lambda>_.
       if list_ex (\<lambda>q. pool_id q = pool_id r \<or> pool_name q = pool_name r) (t_pools T)
       then Inl (Uniqueness ''pool name already exists'')
       else Inr (T\<lparr>t_pools := t_pools T @ [r\<lparr>memberships := []\<rparr>]\<rparr>))"

definition replacePool :: "pool_record \<Rightarrow> pool_record \<Rightarrow> cp_tables \<Rightarrow> cp_error + cp_tables" where
  "replacePool cur nxt T =
     bind_ok (json_guard (affinity nxt)) (\<lambda>_.
       if \<not> list_ex (matches_row pool_id pool_version cur) (t_pools T)
       then Inl (Version_conflict ''pool'')
       else if list_ex (\<lambda>q. pool_id q \<noteq> pool_id cur \<and> pool_name q = pool_name nxt) (t_pools T)
       then Inl (Uniqueness ''pool name already exists'')
       else Inr (T\<lparr>t_pools := update_rows pool_id pool_version set_pool_columns cur nxt (t_pools T)\<rparr>))"

fun insertMemberships ::
  "string \<Rightarrow> string \<Rightarrow> int \<Rightarrow> string list \<Rightarrow> cp_tables \<Rightarrow> cp_error + cp_tables" where
  "insertMemberships poolId providerId index [] T = Inr T"
| "insertMemberships poolId providerId index (accountId # rest) T =
     bind_ok (accountById accountId T) (\<lambda>account.
       if acc_providerId account \<noteq> providerId
       then Inl (Validation ''pool memberships must share the pool provider'')
       else insertMemberships poolId providerId (index + 1) rest
              (T\<lparr>t_memberships := t_memberships T @
                  [\<lparr>mem_poolId = poolId, mem_accountId = accountId, pinOrder = Some index\<rparr>]\<rparr>))"

definition replaceMemberships :: "string \<Rightarrow> string \<Rightarrow> string list \<Rightarrow> cp_tables \<Rightarrow> cp_error + cp_tables" where
  "replaceMemberships poolId providerId accountIds T =
     (if \<not> distinct accountIds then Inl (Uniqueness ''pool memberships must be unique'')
      else insertMemberships poolId providerId 0 accountIds
             (T\<lparr>t_memberships := filter (\<lambda>m. mem_poolId m \<noteq> poolId) (t_memberships T)\<rparr>))"

section \<open>Profiles\<close>

definition set_profile_columns :: "profile_record \<Rightarrow> profile_record \<Rightarrow> profile_record" where
  "set_profile_columns nxt row =
     row\<lparr>prof_name := prof_name nxt, harness := harness nxt, prof_providerId := prof_providerId nxt,
         prof_poolId := prof_poolId nxt, modelRoles := modelRoles nxt,
         capabilityPolicy := capabilityPolicy nxt, launchPolicy := launchPolicy nxt,
         prof_version := prof_version nxt, prof_updatedAt := prof_updatedAt nxt\<rparr>"

interpretation profile_table: versioned_table prof_id prof_version set_profile_columns
  by unfold_locales (simp_all add: set_profile_columns_def)

definition listProfiles :: "cp_tables \<Rightarrow> profile_record list" where
  "listProfiles T = sort_key prof_name (t_profiles T)"

definition profileById :: "string \<Rightarrow> cp_tables \<Rightarrow> cp_error + profile_record" where
  "profileById i T =
     (case List.find (\<lambda>r. prof_id r = i) (t_profiles T) of
        None \<Rightarrow> Inl (Not_found ''profile'')
      | Some r \<Rightarrow> Inr r)"

definition insertProfile :: "profile_record \<Rightarrow> cp_tables \<Rightarrow> cp_error + cp_tables" where
  "insertProfile r T =
     bind_ok (json_guard (capabilityPolicy r)) (\<lambda>_.
     bind_ok (json_guard (launchPolicy r)) (\<lambda>_.
       if list_ex (\<lambda>q. prof_id q = prof_id r \<or> prof_name q = prof_name r) (t_profiles T)
       then Inl (Uniqueness ''profile name already exists'')
       else Inr (T\<lparr>t_profiles := t_profiles T @ [r]\<rparr>)))"

definition replaceProfile :: "profile_record \<Rightarrow> profile_record \<Rightarrow> cp_tables \<Rightarrow> cp_error + cp_tables" where
  "replaceProfile cur nxt T =
     bind_ok (json_guard (capabilityPolicy nxt)) (\<lambda>_.
     bind_ok (json_guard (launchPolicy nxt)) (\<lambda>_.
       if \<not> list_ex (matches_row prof_id prof_version cur) (t_profiles T)
       then Inl (Version_conflict ''profile'')
       else if list_ex (\<lambda>q. prof_id q \<noteq> prof_id cur \<and> prof_name q = prof_name nxt) (t_profiles T)
       then Inl (Uniqueness ''profile name already exists'')
       else Inr (T\<lparr>t_profiles :=
                     update_rows prof_id prof_version set_profile_columns cur nxt (t_profiles T)\<rparr>)))"

section \<open>Versions, policies and audit\<close>

definition resourceTable :: "string \<Rightarrow> cp_tables \<Rightarrow> cp_error + (string \<times> int) list" where
  "resourceTable resourceType T =
     (if resourceType = ''provider'' then Inr (map (\<lambda>r. (prov_id r, prov_version r)) (t_providers T))
      else if resourceType = ''account'' then Inr (map (\<lambda>r. (acc_id r, acc_version r)) (t_accounts T))
      else if resourceType = ''pool'' then Inr (map (\<lambda>r. (pool_id r, pool_version r)) (t_pools T))
      else if resourceType = ''profile'' then Inr (map (\<lambda>r. (prof_id r, prof_version r)) (t_profiles T))
      else Inl (Validation ''unknown resource type''))"

definition assertCurrentVersion :: "string \<Rightarrow> string \<Rightarrow> int \<Rightarrow> cp_tables \<Rightarrow> cp_error + unit" where
  "assertCurrentVersion resourceType i version T =
     bind_ok (resourceTable resourceType T) (\<lambda>rows.
       case map_of rows i of
         None \<Rightarrow> Inl (Not_found resourceType)
       | Some v \<Rightarrow> if v \<noteq> version then Inl (Version_conflict resourceType) else Inr ())"

definition currentPolicy :: "control_plane \<Rightarrow> policy_revision option" where
  "currentPolicy db = latest_by (\<lambda>_. True) revision (policies db)"

definition nextPolicyRevision :: "control_plane \<Rightarrow> int" where
  "nextPolicyRevision db = (case currentPolicy db of None \<Rightarrow> 0 | Some p \<Rightarrow> revision p) + 1"

definition insertPolicyRevision :: "policy_revision \<Rightarrow> control_plane \<Rightarrow> cp_error + control_plane" where
  "insertPolicyRevision p db =
     (if list_ex (\<lambda>q. revision q = revision p \<or> policy_hash q = policy_hash p) (policies db)
      then Inl (Sqlite_failure ''UNIQUE constraint failed: policy_revisions'')
      else Inr (db\<lparr>policies := policies db @ [p]\<rparr>))"

definition appendAudit ::
  "cp_env \<Rightarrow> management_actor \<Rightarrow> string \<Rightarrow> string \<Rightarrow> string option \<Rightarrow> audit_result \<Rightarrow> audit_metadata
    \<Rightarrow> control_plane \<Rightarrow> control_plane" where
  "appendAudit env actor action resourceType resourceId outcome metadata db =
     db\<lparr>audit_log := audit_log db @
          [\<lparr>audit_id = cp_uuid env (uuid_count db), audit_action = action,
            audit_resourceType = resourceType, audit_resourceId = resourceId, audit_actor = actor,
            audit_outcome = outcome, audit_metadata = metadata, audit_createdAt = cp_now env\<rparr>],
        uuid_count := Suc (uuid_count db)\<rparr>"

definition deleteAuditOlderThan :: "int \<Rightarrow> control_plane \<Rightarrow> nat \<times> control_plane" where
  "deleteAuditOlderThan cutoff db =
     (let kept = filter (\<lambda>e. \<not> audit_createdAt e < cutoff) (audit_log db)
      in (length (audit_log db) - length kept, db\<lparr>audit_log := kept\<rparr>))"

section \<open>Reading stored rows back\<close>

text \<open>
  Publishing a policy reads every table, and \<^verbatim>\<open>rows.ts\<close> rejects a row whose
  mandatory texts are empty, whose model roles are not non-empty strings or whose
  capability evidence does not match the registry schema. Row decoding itself is not
  modelled: the tables hold decoded rows, and this is the check they must pass.
\<close>

definition limit_ok :: "int option \<Rightarrow> bool" where
  "limit_ok l = (case l of None \<Rightarrow> True | Some n \<Rightarrow> 0 < n)"

definition evidence_readable :: "provider_capability_evidence option \<Rightarrow> bool" where
  "evidence_readable e =
     (case e of None \<Rightarrow> True
      | Some p \<Rightarrow> 0 \<le> pce_registryRevision p \<and> pce_providerId p \<noteq> [] \<and> pce_evidenceRef p \<noteq> []
                 \<and> limit_ok (contextWindow (pce_limits p)) \<and> limit_ok (maxOutput (pce_limits p)))"

definition provider_readable :: "provider_record \<Rightarrow> bool" where
  "provider_readable r \<longleftrightarrow> prov_id r \<noteq> [] \<and> prov_name r \<noteq> [] \<and> evidence_readable (capabilityEvidence r)"

definition account_readable :: "account_record \<Rightarrow> bool" where
  "account_readable r \<longleftrightarrow> acc_id r \<noteq> [] \<and> pseudonym r \<noteq> [] \<and> acc_providerId r \<noteq> []
     \<and> credentialHandle r \<noteq> [] \<and> quotaClass r \<noteq> []"

definition pool_readable :: "pool_record \<Rightarrow> bool" where
  "pool_readable r \<longleftrightarrow> pool_id r \<noteq> [] \<and> pool_name r \<noteq> [] \<and> pool_providerId r \<noteq> []"

definition profile_readable :: "profile_record \<Rightarrow> bool" where
  "profile_readable r \<longleftrightarrow> prof_id r \<noteq> [] \<and> prof_name r \<noteq> [] \<and> list_all (\<lambda>(_, m). m \<noteq> []) (modelRoles r)"

definition rows_readable :: "cp_tables \<Rightarrow> bool" where
  "rows_readable T \<longleftrightarrow> list_all provider_readable (t_providers T) \<and> list_all account_readable (t_accounts T)
     \<and> list_all pool_readable (t_pools T) \<and> list_all profile_readable (t_profiles T)"

definition policySnapshot :: "cp_tables \<Rightarrow> policy_snapshot" where
  "policySnapshot T = \<lparr>snap_providers = listProviders T, snap_accounts = listAccounts T,
                       snap_pools = listPools T, snap_profiles = listProfiles T\<rparr>"

definition compilePolicy :: "cp_env \<Rightarrow> control_plane \<Rightarrow> cp_error + control_plane" where
  "compilePolicy env db =
     (if \<not> rows_readable (tables db) then Inl (Validation ''invalid stored row'')
      else insertPolicyRevision
             \<lparr>revision = nextPolicyRevision db, policy_hash = cp_hash env (policySnapshot (tables db)),
              policy_createdAt = cp_now env, snapshot = policySnapshot (tables db)\<rparr> db)"

section \<open>The transaction\<close>

text \<open>
  \<open>BEGIN IMMEDIATE\<close>, the version check, the work, the policy publication, the audit row,
  \<open>COMMIT\<close>; on any error \<open>ROLLBACK\<close>, an audit row for the rejection, and the error again.
  The work's result is described by its id and its version.
\<close>

definition mutate ::
  "cp_env \<Rightarrow> management_actor \<Rightarrow> string \<Rightarrow> string \<Rightarrow> (cp_tables \<Rightarrow> cp_error + ('r \<times> cp_tables))
   \<Rightarrow> ('r \<Rightarrow> string) \<Rightarrow> ('r \<Rightarrow> int) \<Rightarrow> string option \<Rightarrow> int option \<Rightarrow> bool
   \<Rightarrow> control_plane \<Rightarrow> (cp_error + 'r) \<times> control_plane" where
  "mutate env actor action resourceType work id_of ver_of expectedId expectedVersion publish db =
     (let attempt =
        bind_ok (case (expectedId, expectedVersion) of
                   (Some i, Some v) \<Rightarrow> assertCurrentVersion resourceType i v (tables db)
                 | _ \<Rightarrow> Inr ()) (\<lambda>_.
        bind_ok (work (tables db)) (\<lambda>(r, T).
        bind_ok (if publish then compilePolicy env (db\<lparr>tables := T\<rparr>) else Inr (db\<lparr>tables := T\<rparr>)) (\<lambda>db'.
          Inr (r, appendAudit env actor action resourceType (Some (id_of r)) Audit_ok
                    (Meta_version (ver_of r)) db'))))
      in case attempt of
           Inr (r, db') \<Rightarrow> (Inr r, db')
         | Inl e \<Rightarrow> (Inl e, appendAudit env actor action resourceType expectedId Audit_rejected
                             (Meta_code (cp_error_name e)) db))"

definition requiredName :: "string \<Rightarrow> cp_error + string" where
  "requiredName value =
     (let trimmed = js_trim value in if trimmed = [] then Inl (Validation ''name is required'') else Inr trimmed)"

definition optionalName :: "string \<Rightarrow> string option \<Rightarrow> cp_error + string" where
  "optionalName current value = (case value of None \<Rightarrow> Inr current | Some v \<Rightarrow> requiredName v)"

section \<open>Provider mutations\<close>

definition createProvider ::
  "cp_env \<Rightarrow> create_provider_input \<Rightarrow> management_actor \<Rightarrow> control_plane
    \<Rightarrow> (cp_error + provider_record) \<times> control_plane" where
  "createProvider env input actor db =
     mutate env actor ''provider.create'' ''provider''
       (\<lambda>T. bind_ok (requiredName (cprov_name input)) (\<lambda>nm.
          let r = \<lparr>prov_id = cp_uuid env (uuid_count db), prov_name = nm,
                   integrationMode = cprov_integrationMode input,
                   endpointPolicy = cprov_endpointPolicy input,
                   capabilityEvidence = cprov_capabilityEvidence input,
                   requiredTermsRevision = cprov_requiredTermsRevision input,
                   provenanceRef = cprov_provenanceRef input,
                   prov_enabled = True, prov_version = 1,
                   prov_createdAt = cp_now env, prov_updatedAt = cp_now env\<rparr>
          in bind_ok (insertProvider r T) (\<lambda>T'. Inr (r, T'))))
       prov_id prov_version None None True (db\<lparr>uuid_count := Suc (uuid_count db)\<rparr>)"

definition updateProvider ::
  "cp_env \<Rightarrow> string \<Rightarrow> int \<Rightarrow> update_provider_input \<Rightarrow> management_actor \<Rightarrow> control_plane
    \<Rightarrow> (cp_error + provider_record) \<times> control_plane" where
  "updateProvider env i version input actor db =
     mutate env actor ''provider.update'' ''provider''
       (\<lambda>T. bind_ok (providerById i T) (\<lambda>current.
          bind_ok (optionalName (prov_name current) (uprov_name input)) (\<lambda>nm.
          let nxt = current\<lparr>prov_name := nm,
                integrationMode := get_or (integrationMode current) (uprov_integrationMode input),
                endpointPolicy := or_else (uprov_endpointPolicy input) (endpointPolicy current),
                capabilityEvidence := or_else (uprov_capabilityEvidence input) (capabilityEvidence current),
                requiredTermsRevision := or_else (uprov_requiredTermsRevision input) (requiredTermsRevision current),
                provenanceRef := or_else (uprov_provenanceRef input) (provenanceRef current),
                prov_enabled := get_or (prov_enabled current) (uprov_enabled input),
                prov_version := prov_version current + 1,
                prov_updatedAt := cp_now env\<rparr>
          in bind_ok (replaceProvider current nxt T) (\<lambda>T'. Inr (nxt, T')))))
       prov_id prov_version (Some i) (Some version) True db"

section \<open>Account mutations\<close>

definition createAccount ::
  "cp_env \<Rightarrow> create_account_input \<Rightarrow> management_actor \<Rightarrow> control_plane
    \<Rightarrow> (cp_error + account_record) \<times> control_plane" where
  "createAccount env input actor db =
     mutate env actor ''account.create'' ''account''
       (\<lambda>T. bind_ok (providerById (cacc_providerId input) T) (\<lambda>_.
          bind_ok (requiredName (cacc_pseudonym input)) (\<lambda>nm.
          bind_ok (requiredName (cacc_credentialHandle input)) (\<lambda>handle.
          let r = \<lparr>acc_id = cp_uuid env (uuid_count db), pseudonym = nm,
                   acc_providerId = cacc_providerId input, credentialHandle = handle,
                   credentialGeneration = 0, acc_state = get_or Unready (cacc_state input),
                   pauseReason = None, quotaClass = get_or ''unknown'' (cacc_quotaClass input),
                   acc_cooldownUntil = None, termsRevision = None, termsAcknowledgedRevision = None,
                   acc_version = 1, acc_createdAt = cp_now env, acc_updatedAt = cp_now env\<rparr>
          in bind_ok (insertAccount r T) (\<lambda>T1.
             bind_ok (insertAccountHealth (acc_id r) T1) (\<lambda>T2. Inr (r, T2)))))))
       acc_id acc_version None None True (db\<lparr>uuid_count := Suc (uuid_count db)\<rparr>)"

definition updateAccount ::
  "cp_env \<Rightarrow> string \<Rightarrow> int \<Rightarrow> update_account_input \<Rightarrow> management_actor \<Rightarrow> control_plane
    \<Rightarrow> (cp_error + account_record) \<times> control_plane" where
  "updateAccount env i version input actor db =
     mutate env actor ''account.update'' ''account''
       (\<lambda>T. bind_ok (accountById i T) (\<lambda>current.
          let state = get_or (acc_state current) (uacc_state input);
              nxt = current\<lparr>acc_state := state,
                pauseReason := (if state = Paused then or_else (uacc_pauseReason input) (pauseReason current)
                                else None),
                quotaClass := get_or (quotaClass current) (uacc_quotaClass input),
                acc_version := acc_version current + 1,
                acc_updatedAt := cp_now env\<rparr>
          in bind_ok (replaceAccount current nxt T) (\<lambda>T'. Inr (nxt, T'))))
       acc_id acc_version (Some i) (Some version) True db"

definition bindCredential ::
  "cp_env \<Rightarrow> string \<Rightarrow> int \<Rightarrow> bind_credential_input \<Rightarrow> management_actor \<Rightarrow> control_plane
    \<Rightarrow> (cp_error + account_record) \<times> control_plane" where
  "bindCredential env i version input actor db =
     mutate env actor ''account.bind-credential'' ''account''
       (\<lambda>T. bind_ok (accountById i T) (\<lambda>current.
          bind_ok (requiredName (bind_credentialHandle input)) (\<lambda>handle.
          let nxt = current\<lparr>credentialHandle := handle,
                credentialGeneration := bind_credentialGeneration input,
                acc_state := bind_state input,
                pauseReason := (if bind_state input = Paused then pauseReason current else None),
                acc_version := acc_version current + 1,
                acc_updatedAt := cp_now env\<rparr>
          in bind_ok (guard_ok (\<not> credentialGeneration nxt < 0)
                        (Validation ''credential generation must be >= 0'')) (\<lambda>_.
             bind_ok (replaceAccount current nxt T) (\<lambda>T'. Inr (nxt, T'))))))
       acc_id acc_version (Some i) (Some version) True db"

definition acknowledgeTerms ::
  "cp_env \<Rightarrow> string \<Rightarrow> int \<Rightarrow> string \<Rightarrow> management_actor \<Rightarrow> control_plane
    \<Rightarrow> (cp_error + account_record) \<times> control_plane" where
  "acknowledgeTerms env i version terms actor db =
     mutate env actor ''account.acknowledge-terms'' ''account''
       (\<lambda>T. bind_ok (accountById i T) (\<lambda>current.
          bind_ok (providerById (acc_providerId current) T) (\<lambda>provider.
          bind_ok (requiredName terms) (\<lambda>rev_name.
          bind_ok (guard_ok (\<not> (requiredTermsRevision provider \<noteq> None
                              \<and> requiredTermsRevision provider \<noteq> Some rev_name))
                     (Validation ''terms revision does not match the provider requirement'')) (\<lambda>_.
          let T1 = upsertTermsAcknowledgement (acc_id current) (acc_providerId current) rev_name (cp_now env) T;
              nxt = current\<lparr>termsRevision := Some rev_name,
                termsAcknowledgedRevision := Some rev_name,
                acc_version := acc_version current + 1,
                acc_updatedAt := cp_now env\<rparr>
          in bind_ok (replaceAccount current nxt T1) (\<lambda>T'. Inr (nxt, T')))))))
       acc_id acc_version (Some i) (Some version) True db"

definition recordRouteOutcome ::
  "cp_env \<Rightarrow> string \<Rightarrow> route_outcome_input \<Rightarrow> management_actor \<Rightarrow> control_plane
    \<Rightarrow> (cp_error + account_record) \<times> control_plane" where
  "recordRouteOutcome env accountId input actor db =
     mutate env actor ''route.outcome'' ''account''
       (\<lambda>T. bind_ok (accountById accountId T) (\<lambda>current.
          let health = get_or \<lparr>health_accountId = accountId, lastOutcome = None, lastOutcomeAt = None,
                               consecutiveFailures = 0, health_cooldownUntil = None\<rparr>
                         (healthById accountId T);
              success = (in_outcome input = Out_success);
              cooldown = (case in_cooldownUntil input of
                            None \<Rightarrow> acc_cooldownUntil current
                          | Some c \<Rightarrow> c);
              nxt = current\<lparr>quotaClass := get_or (quotaClass current) (in_quotaClass input),
                acc_cooldownUntil := (if success then None else cooldown),
                acc_version := acc_version current + 1,
                acc_updatedAt := cp_now env\<rparr>
          in bind_ok (replaceAccount current nxt T) (\<lambda>T1.
               Inr (nxt, replaceHealth
                 \<lparr>health_accountId = accountId, lastOutcome = Some (in_outcome input),
                  lastOutcomeAt = Some (cp_now env),
                  consecutiveFailures = (if success then 0 else consecutiveFailures health + 1),
                  health_cooldownUntil = (if success then None else cooldown)\<rparr> T1))))
       acc_id acc_version (Some accountId) None False db"

section \<open>Pool mutations\<close>

definition nullish :: "json option \<Rightarrow> json option" where
  "nullish j = (if j = Some JNull then None else j)"

definition createPool ::
  "cp_env \<Rightarrow> create_pool_input \<Rightarrow> management_actor \<Rightarrow> control_plane
    \<Rightarrow> (cp_error + pool_record) \<times> control_plane" where
  "createPool env input actor db =
     mutate env actor ''pool.create'' ''pool''
       (\<lambda>T. bind_ok (providerById (cpool_providerId input) T) (\<lambda>provider.
          bind_ok (requiredName (cpool_name input)) (\<lambda>nm.
          let r = \<lparr>pool_id = cp_uuid env (uuid_count db), pool_name = nm, pool_providerId = prov_id provider,
                   strategy = cpool_strategy input, affinity = cpool_affinity input,
                   retryBudget = get_or 1 (cpool_retryBudget input), memberships = [],
                   pool_version = 1, pool_createdAt = cp_now env, pool_updatedAt = cp_now env\<rparr>
          in bind_ok (guard_ok (\<not> retryBudget r < 0) (Validation ''retry budget must be >= 0'')) (\<lambda>_.
             bind_ok (insertPool r T) (\<lambda>T1.
             bind_ok (replaceMemberships (pool_id r) (pool_providerId r)
                        (get_or [] (cpool_accountIds input)) T1) (\<lambda>T2.
             bind_ok (poolById (pool_id r) T2) (\<lambda>p. Inr (p, T2))))))))
       pool_id pool_version None None True (db\<lparr>uuid_count := Suc (uuid_count db)\<rparr>)"

definition updatePool ::
  "cp_env \<Rightarrow> string \<Rightarrow> int \<Rightarrow> update_pool_input \<Rightarrow> management_actor \<Rightarrow> control_plane
    \<Rightarrow> (cp_error + pool_record) \<times> control_plane" where
  "updatePool env i version input actor db =
     mutate env actor ''pool.update'' ''pool''
       (\<lambda>T. bind_ok (poolById i T) (\<lambda>current.
          let budget = get_or (retryBudget current) (upool_retryBudget input)
          in bind_ok (guard_ok (\<not> budget < 0) (Validation ''retry budget must be >= 0'')) (\<lambda>_.
             bind_ok (optionalName (pool_name current) (upool_name input)) (\<lambda>nm.
             bind_ok (replacePool current
                        (current\<lparr>pool_name := nm,
                           strategy := get_or (strategy current) (upool_strategy input),
                           affinity := or_else (nullish (upool_affinity input)) (affinity current),
                           retryBudget := budget,
                           pool_version := pool_version current + 1,
                           pool_updatedAt := cp_now env\<rparr>) T) (\<lambda>T1.
             bind_ok (case upool_accountIds input of
                        None \<Rightarrow> Inr T1
                      | Some ids \<Rightarrow> replaceMemberships (pool_id current) (pool_providerId current) ids T1) (\<lambda>T2.
             bind_ok (poolById (pool_id current) T2) (\<lambda>p. Inr (p, T2))))))))
       pool_id pool_version (Some i) (Some version) True db"

section \<open>Profile mutations\<close>

definition MODEL_ROLES :: "string list" where
  "MODEL_ROLES = [''primary'', ''fast'', ''reasoning'', ''haiku'', ''sonnet'', ''opus'', ''fable'']"

definition validateModelRoles :: "(string \<times> string) list \<Rightarrow> cp_error + (string \<times> string) list" where
  "validateModelRoles roles =
     (if \<not> list_all (\<lambda>(_, m). m \<noteq> []) roles
      then Inl (Validation ''JSON object values must be strings'')
      else if \<not> list_all (\<lambda>(key, _). key \<in> set MODEL_ROLES) roles
      then Inl (Validation ''profile model roles must be primary, fast, reasoning, or a logical tier (haiku/sonnet/opus/fable)'')
      else if roles = [] then Inl (Validation ''profile requires at least one model role'')
      else Inr roles)"

definition assertProfileRefs :: "string option \<Rightarrow> string option \<Rightarrow> cp_tables \<Rightarrow> cp_error + unit" where
  "assertProfileRefs providerId poolId T =
     bind_ok (guard_ok (\<not> (providerId = None \<and> poolId = None))
                (Validation ''profile requires a provider or pool'')) (\<lambda>_.
     bind_ok (case providerId of None \<Rightarrow> Inr () | Some p \<Rightarrow> bind_ok (providerById p T) (\<lambda>_. Inr ())) (\<lambda>_.
     bind_ok (case poolId of None \<Rightarrow> Inr () | Some p \<Rightarrow> bind_ok (poolById p T) (\<lambda>_. Inr ())) (\<lambda>_.
     case (providerId, poolId) of
       (Some prov, Some pl) \<Rightarrow>
         bind_ok (poolById pl T) (\<lambda>pool.
           guard_ok (pool_providerId pool = prov)
             (Validation ''profile pool must belong to the selected provider''))
     | _ \<Rightarrow> Inr ())))"

definition createProfile ::
  "cp_env \<Rightarrow> create_profile_input \<Rightarrow> management_actor \<Rightarrow> control_plane
    \<Rightarrow> (cp_error + profile_record) \<times> control_plane" where
  "createProfile env input actor db =
     mutate env actor ''profile.create'' ''profile''
       (\<lambda>T. bind_ok (assertProfileRefs (cprof_providerId input) (cprof_poolId input) T) (\<lambda>_.
          bind_ok (requiredName (cprof_name input)) (\<lambda>nm.
          bind_ok (validateModelRoles (cprof_modelRoles input)) (\<lambda>roles.
          let r = \<lparr>prof_id = cp_uuid env (uuid_count db), prof_name = nm, harness = cprof_harness input,
                   prof_providerId = cprof_providerId input, prof_poolId = cprof_poolId input,
                   modelRoles = roles, capabilityPolicy = cprof_capabilityPolicy input,
                   launchPolicy = cprof_launchPolicy input, prof_version = 1,
                   prof_createdAt = cp_now env, prof_updatedAt = cp_now env\<rparr>
          in bind_ok (insertProfile r T) (\<lambda>T'. Inr (r, T'))))))
       prof_id prof_version None None True (db\<lparr>uuid_count := Suc (uuid_count db)\<rparr>)"

definition updateProfile ::
  "cp_env \<Rightarrow> string \<Rightarrow> int \<Rightarrow> update_profile_input \<Rightarrow> management_actor \<Rightarrow> control_plane
    \<Rightarrow> (cp_error + profile_record) \<times> control_plane" where
  "updateProfile env i version input actor db =
     mutate env actor ''profile.update'' ''profile''
       (\<lambda>T. bind_ok (profileById i T) (\<lambda>current.
          let providerId = or_else (uprof_providerId input) (prof_providerId current);
              poolId = or_else (uprof_poolId input) (prof_poolId current)
          in bind_ok (assertProfileRefs providerId poolId T) (\<lambda>_.
             bind_ok (optionalName (prof_name current) (uprof_name input)) (\<lambda>nm.
             bind_ok (case uprof_modelRoles input of
                        None \<Rightarrow> Inr (modelRoles current)
                      | Some roles \<Rightarrow> validateModelRoles roles) (\<lambda>roles.
             let nxt = current\<lparr>prof_name := nm,
                   harness := get_or (harness current) (uprof_harness input),
                   prof_providerId := providerId, prof_poolId := poolId, modelRoles := roles,
                   capabilityPolicy := or_else (nullish (uprof_capabilityPolicy input)) (capabilityPolicy current),
                   launchPolicy := or_else (nullish (uprof_launchPolicy input)) (launchPolicy current),
                   prof_version := prof_version current + 1,
                   prof_updatedAt := cp_now env\<rparr>
             in bind_ok (replaceProfile current nxt T) (\<lambda>T'. Inr (nxt, T')))))))
       prof_id prof_version (Some i) (Some version) True db"

definition recordRejectedAudit ::
  "cp_env \<Rightarrow> management_actor \<Rightarrow> string \<Rightarrow> string \<Rightarrow> string option \<Rightarrow> json \<Rightarrow> control_plane \<Rightarrow> control_plane" where
  "recordRejectedAudit env actor action resourceType resourceId metadata db =
     appendAudit env actor action resourceType resourceId Audit_rejected (Meta_json metadata) db"

end
