(* ===== verification/Control_Plane_Invariants.thy ===== *)
theory Control_Plane_Invariants
  imports Control_Plane_Store
begin

text \<open>
  What the control-plane store keeps. \<open>unique_ok\<close>, \<open>refs_ok\<close> and \<open>values_ok\<close> are the
  invariant of the tables (keys unique, references resolved inside one provider, values
  in range and secret-free); every repository statement keeps them, so every mutation
  does, so every reachable database has them. The transaction lemmas describe \<open>mutate\<close>:
  all or nothing, one audit row, revisions that only grow.
\<close>

section \<open>The invariant of the tables\<close>

definition account_keys :: "cp_tables \<Rightarrow> (string \<times> string) set" where
  "account_keys T = (\<lambda>a. (acc_id a, acc_providerId a)) ` set (t_accounts T)"

definition pool_keys :: "cp_tables \<Rightarrow> (string \<times> string) set" where
  "pool_keys T = (\<lambda>p. (pool_id p, pool_providerId p)) ` set (t_pools T)"

definition provider_ids :: "cp_tables \<Rightarrow> string set" where
  "provider_ids T = prov_id ` set (t_providers T)"

definition unique_ok :: "cp_tables \<Rightarrow> bool" where
  "unique_ok T \<longleftrightarrow>
     distinct (map prov_id (t_providers T)) \<and> distinct (map prov_name (t_providers T))
   \<and> distinct (map acc_id (t_accounts T))
   \<and> distinct (map (\<lambda>a. (acc_providerId a, pseudonym a)) (t_accounts T))
   \<and> distinct (map pool_id (t_pools T)) \<and> distinct (map pool_name (t_pools T))
   \<and> distinct (map prof_id (t_profiles T)) \<and> distinct (map prof_name (t_profiles T))
   \<and> distinct (map health_accountId (t_health T))"

definition membership_ok :: "cp_tables \<Rightarrow> membership_record \<Rightarrow> bool" where
  "membership_ok T m \<longleftrightarrow>
     (\<exists>provider. (mem_poolId m, provider) \<in> pool_keys T \<and> (mem_accountId m, provider) \<in> account_keys T)"

definition profile_refs_ok :: "cp_tables \<Rightarrow> profile_record \<Rightarrow> bool" where
  "profile_refs_ok T r \<longleftrightarrow>
     (case (prof_providerId r, prof_poolId r) of
        (None, None) \<Rightarrow> False
      | (Some p, None) \<Rightarrow> p \<in> provider_ids T
      | (None, Some q) \<Rightarrow> q \<in> fst ` pool_keys T
      | (Some p, Some q) \<Rightarrow> p \<in> provider_ids T \<and> (q, p) \<in> pool_keys T)"

definition refs_ok :: "cp_tables \<Rightarrow> bool" where
  "refs_ok T \<longleftrightarrow>
     (\<forall>a \<in> set (t_accounts T). acc_providerId a \<in> provider_ids T)
   \<and> (\<forall>p \<in> set (t_pools T). pool_providerId p \<in> provider_ids T)
   \<and> (\<forall>m \<in> set (t_memberships T). membership_ok T m)
   \<and> (\<forall>h \<in> set (t_health T). health_accountId h \<in> fst ` account_keys T)
   \<and> (\<forall>r \<in> set (t_profiles T). profile_refs_ok T r)"

definition roles_known :: "(string \<times> string) list \<Rightarrow> bool" where
  "roles_known roles \<longleftrightarrow> roles \<noteq> [] \<and> fst ` set roles \<subseteq> set MODEL_ROLES"

definition values_ok :: "cp_tables \<Rightarrow> bool" where
  "values_ok T \<longleftrightarrow>
     (\<forall>r \<in> set (t_providers T). 1 \<le> prov_version r)
   \<and> (\<forall>a \<in> set (t_accounts T). 1 \<le> acc_version a \<and> 0 \<le> credentialGeneration a)
   \<and> (\<forall>p \<in> set (t_pools T). 1 \<le> pool_version p \<and> 0 \<le> retryBudget p \<and> encodeJson_ok (affinity p))
   \<and> (\<forall>r \<in> set (t_profiles T). 1 \<le> prof_version r \<and> encodeJson_ok (capabilityPolicy r)
                              \<and> encodeJson_ok (launchPolicy r) \<and> roles_known (modelRoles r))
   \<and> (\<forall>h \<in> set (t_health T). 0 \<le> consecutiveFailures h)"

definition tables_ok :: "cp_tables \<Rightarrow> bool" where
  "tables_ok T \<longleftrightarrow> unique_ok T \<and> refs_ok T \<and> values_ok T"

lemmas tables_ok_defs = tables_ok_def unique_ok_def refs_ok_def values_ok_def

lemma empty_tables_ok [wf_intros]: "tables_ok empty_tables"
  by (simp add: tables_ok_defs empty_tables_def account_keys_def pool_keys_def provider_ids_def)

section \<open>Updates keep the keys of the rows\<close>

lemma update_rows_map:
  "(\<And>row. f (set_columns nxt row) = f row) \<Longrightarrow>
     map f (update_rows id_of ver_of set_columns cur nxt rows) = map f rows"
  by (simp add: update_rows_def)

lemma update_rows_image:
  assumes "\<And>row. f (set_columns nxt row) = f row"
  shows "f ` set (update_rows id_of ver_of set_columns cur nxt rows) = f ` set rows"
  by (metis assms list.set_map update_rows_map)

lemma providerById_Inr: "providerById i T = Inr r \<Longrightarrow> r \<in> set (t_providers T) \<and> prov_id r = i"
  by (auto simp: providerById_def dest: find_Some_in split: option.splits)

lemma accountById_Inr: "accountById i T = Inr r \<Longrightarrow> r \<in> set (t_accounts T) \<and> acc_id r = i"
  by (auto simp: accountById_def dest: find_Some_in split: option.splits)

lemma profileById_Inr: "profileById i T = Inr r \<Longrightarrow> r \<in> set (t_profiles T) \<and> prof_id r = i"
  by (auto simp: profileById_def dest: find_Some_in split: option.splits)

lemma hydratePool_simps [simp]:
  "pool_id (hydratePool T r) = pool_id r" "pool_name (hydratePool T r) = pool_name r"
  "pool_providerId (hydratePool T r) = pool_providerId r" "pool_version (hydratePool T r) = pool_version r"
  "strategy (hydratePool T r) = strategy r" "affinity (hydratePool T r) = affinity r"
  "retryBudget (hydratePool T r) = retryBudget r"
  by (simp_all add: hydratePool_def)

lemma poolById_Inr:
  "poolById i T = Inr p \<Longrightarrow> \<exists>r \<in> set (t_pools T). p = hydratePool T r \<and> pool_id r = i"
  by (auto simp: poolById_def dest: find_Some_in split: option.splits)

lemma poolById_keys: "poolById i T = Inr p \<Longrightarrow> (i, pool_providerId p) \<in> pool_keys T \<and> pool_id p = i"
  by (auto simp: pool_keys_def dest!: poolById_Inr intro: rev_image_eqI)

lemma providerById_ids: "providerById i T = Inr r \<Longrightarrow> i \<in> provider_ids T"
  by (auto simp: provider_ids_def dest!: providerById_Inr)

section \<open>References survive when the keys only grow\<close>

lemma profile_refs_ok_mono:
  assumes "profile_refs_ok T r" and "provider_ids T \<subseteq> provider_ids T'" and "pool_keys T \<subseteq> pool_keys T'"
  shows "profile_refs_ok T' r"
  using assms by (auto simp: profile_refs_ok_def split: option.splits)

lemma membership_ok_mono:
  assumes "membership_ok T m" and "account_keys T \<subseteq> account_keys T'" and "pool_keys T \<subseteq> pool_keys T'"
  shows "membership_ok T' m"
  using assms by (auto simp: membership_ok_def)

lemma refs_ok_grow:
  assumes "refs_ok T"
    and "provider_ids T \<subseteq> provider_ids T'" "account_keys T \<subseteq> account_keys T'" "pool_keys T \<subseteq> pool_keys T'"
    and "\<And>a. a \<in> set (t_accounts T') \<Longrightarrow> acc_providerId a \<in> provider_ids T'"
    and "\<And>p. p \<in> set (t_pools T') \<Longrightarrow> pool_providerId p \<in> provider_ids T'"
    and "\<And>m. m \<in> set (t_memberships T') \<Longrightarrow> m \<in> set (t_memberships T) \<or> membership_ok T' m"
    and "\<And>h. h \<in> set (t_health T') \<Longrightarrow> h \<in> set (t_health T) \<or> health_accountId h \<in> fst ` account_keys T'"
    and "\<And>r. r \<in> set (t_profiles T') \<Longrightarrow> r \<in> set (t_profiles T) \<or> profile_refs_ok T' r"
  shows "refs_ok T'"
proof -
  have "membership_ok T' m" if "m \<in> set (t_memberships T')" for m
    using assms(1) assms(7) [OF that] membership_ok_mono [OF _ assms(3,4)] by (auto simp: refs_ok_def)
  moreover have "health_accountId h \<in> fst ` account_keys T'" if "h \<in> set (t_health T')" for h
    using assms(1) assms(8) [OF that] image_mono [OF assms(3), of fst] unfolding refs_ok_def by blast
  moreover have "profile_refs_ok T' r" if "r \<in> set (t_profiles T')" for r
    using assms(1) assms(9) [OF that] profile_refs_ok_mono [OF _ assms(2,4)] by (auto simp: refs_ok_def)
  ultimately show ?thesis using assms(5,6) by (simp add: refs_ok_def)
qed

lemma refs_ok_same:
  assumes "refs_ok T"
    and "provider_ids T' = provider_ids T" "account_keys T' = account_keys T" "pool_keys T' = pool_keys T"
    and "t_memberships T' = t_memberships T" "t_health T' = t_health T" "t_profiles T' = t_profiles T"
  shows "refs_ok T'"
proof (rule refs_ok_grow [OF assms(1)])
  show "acc_providerId a \<in> provider_ids T'" if "a \<in> set (t_accounts T')" for a
  proof -
    have "(acc_id a, acc_providerId a) \<in> account_keys T'" using that by (simp add: account_keys_def)
    then show ?thesis using assms(1-3) by (auto simp: refs_ok_def account_keys_def)
  qed
  show "pool_providerId p \<in> provider_ids T'" if "p \<in> set (t_pools T')" for p
  proof -
    have "(pool_id p, pool_providerId p) \<in> pool_keys T'" using that by (simp add: pool_keys_def)
    then show ?thesis using assms(1,2,4) by (auto simp: refs_ok_def pool_keys_def)
  qed
qed (use assms in auto)

lemmas key_defs = account_keys_def pool_keys_def provider_ids_def

section \<open>Each statement keeps the invariant\<close>

lemma insertProvider_ok:
  assumes "insertProvider r T = Inr T'" and "tables_ok T" and "1 \<le> prov_version r"
  shows "tables_ok T'"
proof -
  from assms(1) have T': "T' = T\<lparr>t_providers := t_providers T @ [r]\<rparr>"
    and fresh: "\<forall>q \<in> set (t_providers T). prov_id q \<noteq> prov_id r \<and> prov_name q \<noteq> prov_name r"
    by (auto simp: insertProvider_def list_ex_iff split: if_splits)
  have ref: "refs_ok T" using assms(2) by (simp add: tables_ok_def)
  have "unique_ok T'" using assms(2) fresh by (auto simp: tables_ok_defs T')
  moreover have "refs_ok T'"
    by (rule refs_ok_grow [OF ref]) (use ref in \<open>auto simp: refs_ok_def key_defs T'\<close>)
  moreover have "values_ok T'" using assms(2,3) by (auto simp: tables_ok_defs T')
  ultimately show ?thesis by (simp add: tables_ok_def)
qed

lemma replaceProvider_ok:
  assumes "replaceProvider cur nxt T = Inr T'" and "tables_ok T" and "1 \<le> prov_version nxt"
  shows "tables_ok T'"
proof -
  let ?rows = "update_rows prov_id prov_version set_provider_columns cur nxt (t_providers T)"
  from assms(1) have T': "T' = T\<lparr>t_providers := ?rows\<rparr>"
    and fresh: "\<forall>q \<in> set (t_providers T). prov_id q \<noteq> prov_id cur \<longrightarrow> prov_name q \<noteq> prov_name nxt"
    by (auto simp: replaceProvider_def list_ex_iff split: if_splits)
  have ids: "map prov_id ?rows = map prov_id (t_providers T)"
    by (rule provider_table.update_keeps_ids)
  have names: "distinct (map prov_name ?rows)"
  proof (rule provider_table.update_keeps_distinct_key [where new_key = "\<lambda>_. prov_name nxt"])
    show "distinct (map prov_id (t_providers T))" "distinct (map prov_name (t_providers T))"
      using assms(2) by (simp_all add: tables_ok_def unique_ok_def)
  qed (use fresh in \<open>auto simp: set_provider_columns_def\<close>)
  have "unique_ok T'" using assms(2) ids names by (simp add: tables_ok_def unique_ok_def T')
  moreover have "refs_ok T'"
  proof (rule refs_ok_same)
    show "refs_ok T" using assms(2) by (simp add: tables_ok_def)
    show "provider_ids T' = provider_ids T"
      unfolding provider_ids_def T' by (simp add: update_rows_image set_provider_columns_def)
  qed (simp_all add: T' key_defs)
  moreover have "values_ok T'"
    using assms(2,3)
    by (auto simp: tables_ok_def values_ok_def T' set_provider_columns_def dest!: provider_table.update_in)
  ultimately show ?thesis by (simp add: tables_ok_def)
qed

lemma insertAccount_ok:
  assumes "insertAccount r T = Inr T'" and "tables_ok T" and "1 \<le> acc_version r"
    and "0 \<le> credentialGeneration r" and "acc_providerId r \<in> provider_ids T"
  shows "tables_ok T'"
proof -
  from assms(1) have T': "T' = T\<lparr>t_accounts := t_accounts T @ [r]\<rparr>"
    and fresh: "\<forall>q \<in> set (t_accounts T). acc_id q \<noteq> acc_id r
                 \<and> (acc_providerId q = acc_providerId r \<longrightarrow> pseudonym q \<noteq> pseudonym r)"
    by (auto simp: insertAccount_def list_ex_iff split: if_splits)
  have ref: "refs_ok T" using assms(2) by (simp add: tables_ok_def)
  have "unique_ok T'" using assms(2) fresh by (auto simp: tables_ok_defs T')
  moreover have "refs_ok T'"
    by (rule refs_ok_grow [OF ref]) (use ref assms(5) in \<open>auto simp: refs_ok_def key_defs T'\<close>)
  moreover have "values_ok T'" using assms(2,3,4) by (auto simp: tables_ok_defs T')
  ultimately show ?thesis by (simp add: tables_ok_def)
qed

lemma insertAccount_key:
  "insertAccount r T = Inr T' \<Longrightarrow> acc_id r \<in> fst ` account_keys T'"
  by (auto simp: insertAccount_def account_keys_def split: if_splits)

lemma insertAccountHealth_ok:
  assumes "insertAccountHealth i T = Inr T'" and "tables_ok T" and "i \<in> fst ` account_keys T"
  shows "tables_ok T'"
proof -
  let ?h = "\<lparr>health_accountId = i, lastOutcome = None, lastOutcomeAt = None, consecutiveFailures = 0,
             health_cooldownUntil = None\<rparr>"
  from assms(1) have T': "T' = T\<lparr>t_health := t_health T @ [?h]\<rparr>"
    and fresh: "\<forall>h \<in> set (t_health T). health_accountId h \<noteq> i"
    by (auto simp: insertAccountHealth_def list_ex_iff split: if_splits)
  have ref: "refs_ok T" using assms(2) by (simp add: tables_ok_def)
  have "unique_ok T'" using assms(2) fresh by (auto simp: tables_ok_defs T')
  moreover have "refs_ok T'"
    by (rule refs_ok_grow [OF ref]) (use ref assms(3) in \<open>auto simp: refs_ok_def key_defs T' image_image\<close>)
  moreover have "values_ok T'" using assms(2) by (auto simp: tables_ok_defs T')
  ultimately show ?thesis by (simp add: tables_ok_def)
qed

lemma replaceAccount_T:
  assumes "replaceAccount cur nxt T = Inr T'"
  shows "T' = T\<lparr>t_accounts := update_rows acc_id acc_version set_account_columns cur nxt (t_accounts T)\<rparr>"
  using assms by (auto simp: replaceAccount_def split: if_splits)

lemma replaceAccount_keys:
  assumes "replaceAccount cur nxt T = Inr T'"
  shows "account_keys T' = account_keys T" "pool_keys T' = pool_keys T" "provider_ids T' = provider_ids T"
  unfolding account_keys_def pool_keys_def provider_ids_def replaceAccount_T [OF assms]
  by (simp_all add: update_rows_image set_account_columns_def)

lemma replaceAccount_ok:
  assumes "replaceAccount cur nxt T = Inr T'" and "tables_ok T" and "1 \<le> acc_version nxt"
    and "0 \<le> credentialGeneration nxt"
  shows "tables_ok T'"
proof -
  let ?rows = "update_rows acc_id acc_version set_account_columns cur nxt (t_accounts T)"
  have T': "T' = T\<lparr>t_accounts := ?rows\<rparr>" by (rule replaceAccount_T [OF assms(1)])
  have maps: "map acc_id ?rows = map acc_id (t_accounts T)"
      "map (\<lambda>a. (acc_providerId a, pseudonym a)) ?rows = map (\<lambda>a. (acc_providerId a, pseudonym a)) (t_accounts T)"
    by (simp_all add: update_rows_map set_account_columns_def)
  have "unique_ok T'" using assms(2) maps by (simp add: tables_ok_def unique_ok_def T')
  moreover have "refs_ok T'"
    by (rule refs_ok_same [where T = T])
      (use assms(2) replaceAccount_keys [OF assms(1)] in \<open>simp_all add: tables_ok_def T'\<close>)
  moreover have "values_ok T'"
    using assms(2-4)
    by (auto simp: tables_ok_def values_ok_def T' set_account_columns_def dest!: account_table.update_in)
  ultimately show ?thesis by (simp add: tables_ok_def)
qed

lemma replaceHealth_ok:
  assumes "tables_ok T" and "health_accountId h \<in> fst ` account_keys T" and "0 \<le> consecutiveFailures h"
  shows "tables_ok (replaceHealth h T)"
proof -
  let ?T = "replaceHealth h T"
  have ref: "refs_ok T" using assms(1) by (simp add: tables_ok_def)
  have keys: "account_keys ?T = account_keys T" "pool_keys ?T = pool_keys T" "provider_ids ?T = provider_ids T"
    by (simp_all add: replaceHealth_def key_defs)
  have ids: "map health_accountId (map (\<lambda>x. if health_accountId x = health_accountId h then h else x) (t_health T))
             = map health_accountId (t_health T)"
    by simp
  have "unique_ok ?T"
    using assms(1) ids
    by (auto simp: tables_ok_def unique_ok_def replaceHealth_def list_ex_iff simp del: map_map)
  moreover have "refs_ok ?T"
    by (rule refs_ok_grow [OF ref])
      (use ref assms(2) keys in \<open>auto simp: refs_ok_def replaceHealth_def split: if_splits\<close>)
  moreover have "values_ok ?T"
    using assms(1,3) by (auto simp: tables_ok_def values_ok_def replaceHealth_def)
  ultimately show ?thesis by (simp add: tables_ok_def)
qed

lemma upsertTerms_ok: "tables_ok T \<Longrightarrow> tables_ok (upsertTermsAcknowledgement a p v t T)"
proof -
  assume ok: "tables_ok T"
  let ?T = "upsertTermsAcknowledgement a p v t T"
  have "refs_ok ?T"
    by (rule refs_ok_same [where T = T])
      (use ok in \<open>simp_all add: tables_ok_def upsertTermsAcknowledgement_def key_defs\<close>)
  then show "tables_ok ?T"
    using ok by (simp add: tables_ok_def unique_ok_def values_ok_def upsertTermsAcknowledgement_def)
qed

lemma pool_encode_ok: "json_guard j = Inr u \<longleftrightarrow> encodeJson_ok j"
  by (simp add: json_guard_def)

lemma insertPool_ok:
  assumes "insertPool r T = Inr T'" and "tables_ok T" and "1 \<le> pool_version r" and "0 \<le> retryBudget r"
    and "pool_providerId r \<in> provider_ids T"
  shows "tables_ok T' \<and> (pool_id r, pool_providerId r) \<in> pool_keys T' \<and> account_keys T' = account_keys T"
proof -
  from assms(1) have T': "T' = T\<lparr>t_pools := t_pools T @ [r\<lparr>memberships := []\<rparr>]\<rparr>"
    and fresh: "\<forall>q \<in> set (t_pools T). pool_id q \<noteq> pool_id r \<and> pool_name q \<noteq> pool_name r"
    and json: "encodeJson_ok (affinity r)"
    by (auto simp: insertPool_def bind_ok_Inr_iff pool_encode_ok list_ex_iff split: if_splits)
  have ref: "refs_ok T" using assms(2) by (simp add: tables_ok_def)
  have "unique_ok T'" using assms(2) fresh by (auto simp: tables_ok_def unique_ok_def T')
  moreover have "refs_ok T'"
    by (rule refs_ok_grow [OF ref]) (use ref assms(5) in \<open>auto simp: refs_ok_def key_defs T' image_image\<close>)
  moreover have "values_ok T'" using assms(2-4) json by (auto simp: tables_ok_def values_ok_def T')
  ultimately show ?thesis by (simp add: tables_ok_def T' pool_keys_def account_keys_def)
qed

lemma replacePool_ok:
  assumes "replacePool cur nxt T = Inr T'" and "tables_ok T" and "1 \<le> pool_version nxt"
    and "0 \<le> retryBudget nxt"
  shows "tables_ok T' \<and> pool_keys T' = pool_keys T \<and> account_keys T' = account_keys T"
proof -
  let ?rows = "update_rows pool_id pool_version set_pool_columns cur nxt (t_pools T)"
  from assms(1) have T': "T' = T\<lparr>t_pools := ?rows\<rparr>"
    and fresh: "\<forall>q \<in> set (t_pools T). pool_id q \<noteq> pool_id cur \<longrightarrow> pool_name q \<noteq> pool_name nxt"
    and json: "encodeJson_ok (affinity nxt)"
    by (auto simp: replacePool_def bind_ok_Inr_iff pool_encode_ok list_ex_iff split: if_splits)
  have ids: "map pool_id ?rows = map pool_id (t_pools T)"
    by (rule pool_table.update_keeps_ids)
  have keys: "pool_keys T' = pool_keys T" "account_keys T' = account_keys T"
    unfolding T' pool_keys_def account_keys_def by (simp_all add: update_rows_image set_pool_columns_def)
  have names: "distinct (map pool_name ?rows)"
  proof (rule pool_table.update_keeps_distinct_key [where new_key = "\<lambda>_. pool_name nxt"])
    show "distinct (map pool_id (t_pools T))" "distinct (map pool_name (t_pools T))"
      using assms(2) by (simp_all add: tables_ok_def unique_ok_def)
  qed (use fresh in \<open>auto simp: set_pool_columns_def\<close>)
  have "unique_ok T'" using assms(2) ids names by (simp add: tables_ok_def unique_ok_def T')
  moreover have "refs_ok T'"
    by (rule refs_ok_same [where T = T]) (use assms(2) keys in \<open>simp_all add: tables_ok_def T' provider_ids_def\<close>)
  moreover have "values_ok T'"
    using assms(2-4) json
    by (auto simp: tables_ok_def values_ok_def T' set_pool_columns_def dest!: pool_table.update_in)
  ultimately show ?thesis using keys by (simp add: tables_ok_def)
qed

lemma with_memberships_ok:
  assumes "tables_ok T" and "\<And>m. m \<in> set ms \<Longrightarrow> m \<in> set (t_memberships T) \<or> membership_ok T m"
  shows "tables_ok (T\<lparr>t_memberships := ms\<rparr>)"
proof -
  let ?T = "T\<lparr>t_memberships := ms\<rparr>"
  have keys: "account_keys ?T = account_keys T" "pool_keys ?T = pool_keys T" "provider_ids ?T = provider_ids T"
    by (simp_all add: key_defs)
  have same: "membership_ok ?T m = membership_ok T m" for m
    by (simp add: membership_ok_def keys)
  have "refs_ok ?T"
    by (rule refs_ok_grow [where T = T])
      (use assms same keys in \<open>auto simp: tables_ok_def refs_ok_def\<close>)
  then show ?thesis using assms(1) by (simp add: tables_ok_def unique_ok_def values_ok_def)
qed

lemma insertMemberships_ok:
  assumes "insertMemberships poolId providerId index ids T = Inr T'" and "tables_ok T"
    and "(poolId, providerId) \<in> pool_keys T"
  shows "tables_ok T' \<and> pool_keys T' = pool_keys T \<and> account_keys T' = account_keys T"
  using assms
proof (induction poolId providerId index ids T rule: insertMemberships.induct)
  case (1 poolId providerId index T)
  then show ?case by simp
next
  case (2 poolId providerId index accountId rest T)
  from "2.prems"(1) obtain account where acc: "accountById accountId T = Inr account"
    and prov: "acc_providerId account = providerId"
    and rest: "insertMemberships poolId providerId (index + 1) rest
        (T\<lparr>t_memberships := t_memberships T @
            [\<lparr>mem_poolId = poolId, mem_accountId = accountId, pinOrder = Some index\<rparr>]\<rparr>) = Inr T'"
    by (auto simp: bind_ok_Inr_iff split: if_splits)
  let ?T = "T\<lparr>t_memberships := t_memberships T @
            [\<lparr>mem_poolId = poolId, mem_accountId = accountId, pinOrder = Some index\<rparr>]\<rparr>"
  have "(accountId, providerId) \<in> account_keys T"
    using accountById_Inr [OF acc] prov by (auto simp: account_keys_def)
  then have ok: "tables_ok ?T"
    by (intro with_memberships_ok) (use "2.prems"(2,3) in \<open>auto simp: membership_ok_def\<close>)
  have keys: "pool_keys ?T = pool_keys T" "account_keys ?T = account_keys T" by (simp_all add: key_defs)
  have "\<not> acc_providerId account \<noteq> providerId" using prov by simp
  from "2.IH" [OF this rest ok] "2.prems"(3) keys show ?case by simp
qed

lemma replaceMemberships_ok:
  assumes "replaceMemberships poolId providerId ids T = Inr T'" and "tables_ok T"
    and "(poolId, providerId) \<in> pool_keys T"
  shows "tables_ok T' \<and> pool_keys T' = pool_keys T \<and> account_keys T' = account_keys T"
proof -
  let ?T = "T\<lparr>t_memberships := filter (\<lambda>m. mem_poolId m \<noteq> poolId) (t_memberships T)\<rparr>"
  from assms(1) have run: "insertMemberships poolId providerId 0 ids ?T = Inr T'"
    by (simp add: replaceMemberships_def split: if_splits)
  have keys: "pool_keys ?T = pool_keys T" "account_keys ?T = account_keys T" by (simp_all add: key_defs)
  have "tables_ok ?T" by (rule with_memberships_ok) (use assms(2) in auto)
  from insertMemberships_ok [OF run this] assms(3) keys show ?thesis by simp
qed

lemma assertProfileRefs_ok:
  assumes "assertProfileRefs p q T = Inr u" and "prof_providerId r = p" and "prof_poolId r = q"
  shows "profile_refs_ok T r"
  using assms
  by (auto simp: assertProfileRefs_def profile_refs_ok_def bind_ok_Inr_iff dest: providerById_ids poolById_keys
      split: option.splits intro: rev_image_eqI)

lemma validateModelRoles_ok:
  "validateModelRoles roles = Inr roles' \<Longrightarrow> roles' = roles \<and> roles_known roles"
  by (auto simp: validateModelRoles_def roles_known_def list_all_iff split: if_splits)

definition profile_values_ok :: "profile_record \<Rightarrow> bool" where
  "profile_values_ok r \<longleftrightarrow> 1 \<le> prof_version r \<and> roles_known (modelRoles r)"

lemma insertProfile_ok:
  assumes "insertProfile r T = Inr T'" and "tables_ok T" and "profile_values_ok r" and "profile_refs_ok T r"
  shows "tables_ok T'"
proof -
  from assms(1) have T': "T' = T\<lparr>t_profiles := t_profiles T @ [r]\<rparr>"
    and fresh: "\<forall>q \<in> set (t_profiles T). prof_id q \<noteq> prof_id r \<and> prof_name q \<noteq> prof_name r"
    and json: "encodeJson_ok (capabilityPolicy r)" "encodeJson_ok (launchPolicy r)"
    by (auto simp: insertProfile_def bind_ok_Inr_iff pool_encode_ok list_ex_iff split: if_splits)
  have keys: "account_keys T' = account_keys T" "pool_keys T' = pool_keys T" "provider_ids T' = provider_ids T"
    by (simp_all add: T' key_defs)
  have "unique_ok T'" using assms(2) fresh by (auto simp: tables_ok_def unique_ok_def T')
  moreover have "refs_ok T'"
    by (rule refs_ok_grow [where T = T])
      (use assms(2) profile_refs_ok_mono [OF assms(4)] keys in \<open>auto simp: tables_ok_def refs_ok_def T'\<close>)
  moreover have "values_ok T'"
    using assms(2,3) json by (auto simp: tables_ok_def values_ok_def profile_values_ok_def T')
  ultimately show ?thesis by (simp add: tables_ok_def)
qed

lemma replaceProfile_ok:
  assumes "replaceProfile cur nxt T = Inr T'" and "tables_ok T" and "profile_values_ok nxt"
    and "profile_refs_ok T nxt"
  shows "tables_ok T'"
proof -
  let ?rows = "update_rows prof_id prof_version set_profile_columns cur nxt (t_profiles T)"
  from assms(1) have T': "T' = T\<lparr>t_profiles := ?rows\<rparr>"
    and fresh: "\<forall>q \<in> set (t_profiles T). prof_id q \<noteq> prof_id cur \<longrightarrow> prof_name q \<noteq> prof_name nxt"
    and json: "encodeJson_ok (capabilityPolicy nxt)" "encodeJson_ok (launchPolicy nxt)"
    by (auto simp: replaceProfile_def bind_ok_Inr_iff pool_encode_ok list_ex_iff split: if_splits)
  have ids: "map prof_id ?rows = map prof_id (t_profiles T)"
    by (rule profile_table.update_keeps_ids)
  have keys: "account_keys T' = account_keys T" "pool_keys T' = pool_keys T" "provider_ids T' = provider_ids T"
    by (simp_all add: T' key_defs)
  have names: "distinct (map prof_name ?rows)"
  proof (rule profile_table.update_keeps_distinct_key [where new_key = "\<lambda>_. prof_name nxt"])
    show "distinct (map prof_id (t_profiles T))" "distinct (map prof_name (t_profiles T))"
      using assms(2) by (simp_all add: tables_ok_def unique_ok_def)
  qed (use fresh in \<open>auto simp: set_profile_columns_def\<close>)
  have refs: "profile_refs_ok T' r" if "r \<in> set ?rows" "r \<notin> set (t_profiles T)" for r
  proof -
    from profile_table.update_in [OF that(1)] that(2) obtain row where r: "r = set_profile_columns nxt row"
      by auto
    have "profile_refs_ok T' nxt" by (rule profile_refs_ok_mono [OF assms(4)]) (simp_all add: keys)
    then show ?thesis by (simp add: r profile_refs_ok_def set_profile_columns_def)
  qed
  have "unique_ok T'" using assms(2) ids names by (simp add: tables_ok_def unique_ok_def T')
  moreover have "refs_ok T'"
    by (rule refs_ok_grow [where T = T]) (use assms(2) refs keys in \<open>auto simp: tables_ok_def refs_ok_def T'\<close>)
  moreover have "values_ok T'"
    using assms(2,3) json
    by (auto simp: tables_ok_def values_ok_def profile_values_ok_def T' set_profile_columns_def
        dest!: profile_table.update_in)
  ultimately show ?thesis by (simp add: tables_ok_def)
qed

end
