(* ===== verification/Control_Plane_Reachable.thy ===== *)
theory Control_Plane_Reachable
  imports Control_Plane_Invariants
begin

text \<open>
  The control-plane database as a transition system. \<open>cp_op\<close> names the public mutations of
  \<open>ControlPlaneStore\<close>, \<open>run_op\<close> runs one, and \<open>cp_reachable\<close> holds of every database that a
  sequence of mutations, audit clean-ups and rejected-call audits can build from an empty
  one, under any clock, identifiers and digests. What one transaction promises is proved of
  \<open>mutate\<close> once.
\<close>

section \<open>One transaction\<close>

definition audit_row ::
  "cp_env \<Rightarrow> management_actor \<Rightarrow> string \<Rightarrow> string \<Rightarrow> string option \<Rightarrow> audit_result \<Rightarrow> audit_metadata \<Rightarrow> nat
    \<Rightarrow> audit_event" where
  "audit_row env actor action ty i outcome metadata n =
     \<lparr>audit_id = cp_uuid env n, audit_action = action, audit_resourceType = ty, audit_resourceId = i,
      audit_actor = actor, audit_outcome = outcome, audit_metadata = metadata, audit_createdAt = cp_now env\<rparr>"

lemma appendAudit_fields [simp]:
  "tables (appendAudit env actor action ty i outcome metadata db) = tables db"
  "policies (appendAudit env actor action ty i outcome metadata db) = policies db"
  "audit_log (appendAudit env actor action ty i outcome metadata db) =
     audit_log db @ [audit_row env actor action ty i outcome metadata (uuid_count db)]"
  by (simp_all add: appendAudit_def audit_row_def)

lemma compilePolicy_Inr:
  assumes "compilePolicy env db = Inr db'"
  shows "tables db' = tables db \<and> audit_log db' = audit_log db \<and> uuid_count db' = uuid_count db \<and>
    (\<exists>p. policies db' = policies db @ [p] \<and> revision p = nextPolicyRevision db \<and>
         snapshot p = policySnapshot (tables db) \<and> policy_hash p = cp_hash env (policySnapshot (tables db)))"
  using assms by (auto simp: compilePolicy_def insertPolicyRevision_def split: if_splits)

lemma mutate_error:
  assumes "mutate env actor action ty work id_of ver_of eid ever publish db = (Inl e, db')"
  shows "tables db' = tables db \<and> policies db' = policies db \<and>
         audit_log db' = audit_log db @
           [audit_row env actor action ty eid Audit_rejected (Meta_code (cp_error_name e)) (uuid_count db)]"
  using assms by (auto simp: mutate_def Let_def split: sum.splits)

lemma mutate_success:
  assumes "mutate env actor action ty work id_of ver_of eid ever publish db = (Inr r, db')"
  shows "work (tables db) = Inr (r, tables db')"
    and "publish \<Longrightarrow> \<exists>p. policies db' = policies db @ [p] \<and> revision p = nextPolicyRevision db \<and>
                       snapshot p = policySnapshot (tables db')"
    and "\<not> publish \<Longrightarrow> policies db' = policies db"
    and "\<exists>n. audit_log db' = audit_log db @
           [audit_row env actor action ty (Some (id_of r)) Audit_ok (Meta_version (ver_of r)) n]"
    and "eid = Some i \<Longrightarrow> ever = Some v \<Longrightarrow> assertCurrentVersion ty i v (tables db) = Inr ()"
proof -
  from assms obtain T db1 where check: "(case (eid, ever) of
                   (Some i, Some v) \<Rightarrow> assertCurrentVersion ty i v (tables db)
                 | _ \<Rightarrow> Inr ()) = Inr ()"
    and work: "work (tables db) = Inr (r, T)"
    and pub: "(if publish then compilePolicy env (db\<lparr>tables := T\<rparr>) else Inr (db\<lparr>tables := T\<rparr>)) = Inr db1"
    and db': "db' = appendAudit env actor action ty (Some (id_of r)) Audit_ok (Meta_version (ver_of r)) db1"
    by (auto simp: mutate_def Let_def bind_ok_Inr_iff split: sum.splits)
  have T: "tables db1 = T" and log: "audit_log db1 = audit_log db"
    using pub compilePolicy_Inr [of env "db\<lparr>tables := T\<rparr>" db1] by (auto split: if_splits)
  show "work (tables db) = Inr (r, tables db')" by (simp add: db' T work)
  show "publish \<Longrightarrow> \<exists>p. policies db' = policies db @ [p] \<and> revision p = nextPolicyRevision db \<and>
                       snapshot p = policySnapshot (tables db')"
    using pub compilePolicy_Inr [of env "db\<lparr>tables := T\<rparr>" db1] T
    by (auto simp: db' nextPolicyRevision_def currentPolicy_def)
  show "\<not> publish \<Longrightarrow> policies db' = policies db" using pub by (auto simp: db')
  show "\<exists>n. audit_log db' = audit_log db @
           [audit_row env actor action ty (Some (id_of r)) Audit_ok (Meta_version (ver_of r)) n]"
    by (auto simp: db' log)
  show "eid = Some i \<Longrightarrow> ever = Some v \<Longrightarrow> assertCurrentVersion ty i v (tables db) = Inr ()"
    using check by simp
qed

lemma mutate_stale:
  assumes "assertCurrentVersion ty i v (tables db) = Inl e"
  shows "fst (mutate env actor action ty work id_of ver_of (Some i) (Some v) publish db) = Inl e"
  using assms by (simp add: mutate_def)

lemma mutate_keeps_tables_ok:
  assumes "tables_ok (tables db)"
    and "\<And>r T. work (tables db) = Inr (r, T) \<Longrightarrow> tables_ok T"
  shows "tables_ok (tables (snd (mutate env actor action ty work id_of ver_of eid ever publish db)))"
proof -
  obtain res db' where run: "mutate env actor action ty work id_of ver_of eid ever publish db = (res, db')"
    by fastforce
  show ?thesis
  proof (cases res)
    case (Inl e)
    then show ?thesis using mutate_error [OF run [unfolded Inl]] assms(1) by (simp add: run)
  next
    case (Inr r)
    then show ?thesis using assms(2) [OF mutate_success(1) [OF run [unfolded Inr]]] by (simp add: run)
  qed
qed

section \<open>Every mutation keeps the invariant\<close>

lemma createProvider_ok:
  "tables_ok (tables db) \<Longrightarrow> tables_ok (tables (snd (createProvider env input actor db)))"
  unfolding createProvider_def
  by (rule mutate_keeps_tables_ok) (auto simp: Let_def bind_ok_Inr_iff elim!: insertProvider_ok)

lemma updateProvider_ok:
  assumes "tables_ok (tables db)"
  shows "tables_ok (tables (snd (updateProvider env i v input actor db)))"
proof -
  have ver: "1 \<le> prov_version r" if "providerById i (tables db) = Inr r" for r
    using providerById_Inr [OF that] assms by (auto simp: tables_ok_def values_ok_def)
  show ?thesis
    unfolding updateProvider_def
    by (rule mutate_keeps_tables_ok [OF assms])
      (auto simp: Let_def bind_ok_Inr_iff dest: ver elim!: replaceProvider_ok [OF _ assms])
qed

lemma insertAccount_with_health_ok:
  assumes "insertAccount r T = Inr T1" and "insertAccountHealth (acc_id r) T1 = Inr T2" and "tables_ok T"
    and "providerById (acc_providerId r) T = Inr p" and "1 \<le> acc_version r" and "0 \<le> credentialGeneration r"
  shows "tables_ok T2"
  by (rule insertAccountHealth_ok [OF assms(2) insertAccount_ok [OF assms(1,3,5,6)] insertAccount_key [OF assms(1)]])
    (rule providerById_ids [OF assms(4)])

lemma createAccount_ok:
  assumes "tables_ok (tables db)"
  shows "tables_ok (tables (snd (createAccount env input actor db)))"
  unfolding createAccount_def
proof (rule mutate_keeps_tables_ok)
  show "tables_ok (tables (db\<lparr>uuid_count := Suc (uuid_count db)\<rparr>))" using assms by simp
next
  fix r T
  assume "bind_ok (providerById (cacc_providerId input) (tables (db\<lparr>uuid_count := Suc (uuid_count db)\<rparr>))) (\<lambda>_.
          bind_ok (requiredName (cacc_pseudonym input)) (\<lambda>nm.
          bind_ok (requiredName (cacc_credentialHandle input)) (\<lambda>handle.
          let r = \<lparr>acc_id = cp_uuid env (uuid_count db), pseudonym = nm,
                   acc_providerId = cacc_providerId input, credentialHandle = handle,
                   credentialGeneration = 0, acc_state = get_or Unready (cacc_state input),
                   pauseReason = None, quotaClass = get_or ''unknown'' (cacc_quotaClass input),
                   acc_cooldownUntil = None, termsRevision = None, termsAcknowledgedRevision = None,
                   acc_version = 1, acc_createdAt = cp_now env, acc_updatedAt = cp_now env\<rparr>
          in bind_ok (insertAccount r (tables (db\<lparr>uuid_count := Suc (uuid_count db)\<rparr>))) (\<lambda>T1.
             bind_ok (insertAccountHealth (acc_id r) T1) (\<lambda>T2. Inr (r, T2)))))) = Inr (r, T)"
  then obtain p T1 where "insertAccount r (tables db) = Inr T1" "insertAccountHealth (acc_id r) T1 = Inr T"
    and "providerById (acc_providerId r) (tables db) = Inr p"
    and "acc_version r = 1" "credentialGeneration r = 0"
    by (auto simp: Let_def bind_ok_Inr_iff)
  then show "tables_ok T" using insertAccount_with_health_ok [OF _ _ assms] by simp
qed

lemma account_values:
  assumes "accountById i T = Inr r" and "tables_ok T"
  shows "1 \<le> acc_version r" and "0 \<le> credentialGeneration r" and "acc_id r = i"
    and "i \<in> fst ` account_keys T"
  using accountById_Inr [OF assms(1)] assms(2)
  by (auto simp: tables_ok_def values_ok_def account_keys_def image_image)

lemma replaceAccount_in:
  assumes "replaceAccount cur nxt T = Inr T'" and "accountById i T = Inr cur" and "tables_ok T"
    and "acc_version nxt = acc_version cur + 1"
    and "credentialGeneration nxt = credentialGeneration cur \<or> 0 \<le> credentialGeneration nxt"
  shows "tables_ok T'" and "i \<in> fst ` account_keys T'"
  using replaceAccount_ok [OF assms(1,3)] replaceAccount_keys [OF assms(1)] account_values [OF assms(2,3)] assms(4,5)
  by auto

lemma updateAccount_ok:
  assumes "tables_ok (tables db)"
  shows "tables_ok (tables (snd (updateAccount env i v input actor db)))"
  unfolding updateAccount_def
  by (rule mutate_keeps_tables_ok [OF assms])
    (auto simp: Let_def bind_ok_Inr_iff elim!: replaceAccount_in(1) [OF _ _ assms])

lemma bindCredential_ok:
  assumes "tables_ok (tables db)"
  shows "tables_ok (tables (snd (bindCredential env i v input actor db)))"
  unfolding bindCredential_def
  by (rule mutate_keeps_tables_ok [OF assms])
    (auto simp: Let_def bind_ok_Inr_iff elim!: replaceAccount_in(1) [OF _ _ assms])

lemma accountById_upsertTerms [simp]: "accountById i (upsertTermsAcknowledgement a p v t T) = accountById i T"
  by (simp add: accountById_def upsertTermsAcknowledgement_def)

lemma acknowledgeTerms_ok:
  assumes "tables_ok (tables db)"
  shows "tables_ok (tables (snd (acknowledgeTerms env i v terms actor db)))"
  unfolding acknowledgeTerms_def
  by (rule mutate_keeps_tables_ok [OF assms])
    (auto simp: Let_def bind_ok_Inr_iff simp del: not_None_eq
      elim!: replaceAccount_in(1) [where i = i] intro: upsertTerms_ok assms)

lemma healthById_values: "healthById i T = Some h \<Longrightarrow> tables_ok T \<Longrightarrow> 0 \<le> consecutiveFailures h"
  by (auto simp: healthById_def tables_ok_def values_ok_def dest!: find_Some_in)

lemma recordRouteOutcome_ok:
  assumes "tables_ok (tables db)"
  shows "tables_ok (tables (snd (recordRouteOutcome env i input actor db)))"
proof -
  have count: "0 \<le> consecutiveFailures (get_or \<lparr>health_accountId = i, lastOutcome = None, lastOutcomeAt = None,
                   consecutiveFailures = 0, health_cooldownUntil = None\<rparr> (healthById i (tables db)))"
    using healthById_values [OF _ assms] by (cases "healthById i (tables db)") auto
  show ?thesis
    unfolding recordRouteOutcome_def
    by (rule mutate_keeps_tables_ok [OF assms])
      (use count in \<open>auto simp: Let_def bind_ok_Inr_iff
        intro!: replaceHealth_ok elim!: replaceAccount_in [OF _ _ assms]\<close>)
qed

lemma createPool_ok:
  assumes "tables_ok (tables db)"
  shows "tables_ok (tables (snd (createPool env input actor db)))"
  unfolding createPool_def
proof (rule mutate_keeps_tables_ok)
  fix r T
  assume "bind_ok (providerById (cpool_providerId input) (tables (db\<lparr>uuid_count := Suc (uuid_count db)\<rparr>))) (\<lambda>provider.
          bind_ok (requiredName (cpool_name input)) (\<lambda>nm.
          let r = \<lparr>pool_id = cp_uuid env (uuid_count db), pool_name = nm, pool_providerId = prov_id provider,
                   strategy = cpool_strategy input, affinity = cpool_affinity input,
                   retryBudget = get_or 1 (cpool_retryBudget input), memberships = [],
                   pool_version = 1, pool_createdAt = cp_now env, pool_updatedAt = cp_now env\<rparr>
          in bind_ok (guard_ok (\<not> retryBudget r < 0) (Validation ''retry budget must be >= 0'')) (\<lambda>_.
             bind_ok (insertPool r (tables (db\<lparr>uuid_count := Suc (uuid_count db)\<rparr>))) (\<lambda>T1.
             bind_ok (replaceMemberships (pool_id r) (pool_providerId r)
                        (get_or [] (cpool_accountIds input)) T1) (\<lambda>T2.
             bind_ok (poolById (pool_id r) T2) (\<lambda>p. Inr (p, T2))))))) = Inr (r, T)"
  then obtain provider q T1 where prov: "providerById (cpool_providerId input) (tables db) = Inr provider"
    and q: "pool_providerId q = prov_id provider" "pool_version q = 1" "0 \<le> retryBudget q"
    and ins: "insertPool q (tables db) = Inr T1"
    and mem: "replaceMemberships (pool_id q) (pool_providerId q) (get_or [] (cpool_accountIds input)) T1 = Inr T"
    by (force simp: Let_def bind_ok_Inr_iff)
  have "pool_providerId q \<in> provider_ids (tables db)"
    using providerById_Inr [OF prov] q(1) by (auto simp: provider_ids_def intro: rev_image_eqI)
  then show "tables_ok T"
    using insertPool_ok [OF ins assms] q replaceMemberships_ok [OF mem] by simp
qed (simp add: assms)

lemma poolById_values:
  assumes "poolById i T = Inr p" and "tables_ok T"
  shows "1 \<le> pool_version p" and "(pool_id p, pool_providerId p) \<in> pool_keys T"
proof -
  obtain r where "r \<in> set (t_pools T)" "p = hydratePool T r" using poolById_Inr [OF assms(1)] by auto
  then show "1 \<le> pool_version p" using assms(2) by (simp add: tables_ok_def values_ok_def)
  show "(pool_id p, pool_providerId p) \<in> pool_keys T" using poolById_keys [OF assms(1)] by simp
qed

lemma updatePool_ok:
  assumes "tables_ok (tables db)"
  shows "tables_ok (tables (snd (updatePool env i v input actor db)))"
  unfolding updatePool_def
proof (rule mutate_keeps_tables_ok [OF assms])
  fix r T
  assume "bind_ok (poolById i (tables db)) (\<lambda>current.
          let budget = get_or (retryBudget current) (upool_retryBudget input)
          in bind_ok (guard_ok (\<not> budget < 0) (Validation ''retry budget must be >= 0'')) (\<lambda>_.
             bind_ok (optionalName (pool_name current) (upool_name input)) (\<lambda>nm.
             bind_ok (replacePool current
                        (current\<lparr>pool_name := nm,
                           strategy := get_or (strategy current) (upool_strategy input),
                           affinity := or_else (nullish (upool_affinity input)) (affinity current),
                           retryBudget := budget,
                           pool_version := pool_version current + 1,
                           pool_updatedAt := cp_now env\<rparr>) (tables db)) (\<lambda>T1.
             bind_ok (case upool_accountIds input of
                        None \<Rightarrow> Inr T1
                      | Some ids \<Rightarrow> replaceMemberships (pool_id current) (pool_providerId current) ids T1) (\<lambda>T2.
             bind_ok (poolById (pool_id current) T2) (\<lambda>p. Inr (p, T2))))))) = Inr (r, T)"
  then obtain current nxt T1 where cur: "poolById i (tables db) = Inr current"
    and nxt: "pool_version nxt = pool_version current + 1" "0 \<le> retryBudget nxt"
    and rep: "replacePool current nxt (tables db) = Inr T1"
    and mem: "(case upool_accountIds input of
                 None \<Rightarrow> Inr T1
               | Some ids \<Rightarrow> replaceMemberships (pool_id current) (pool_providerId current) ids T1) = Inr T"
    by (force simp: Let_def bind_ok_Inr_iff)
  have T1: "tables_ok T1 \<and> pool_keys T1 = pool_keys (tables db)"
    using replacePool_ok [OF rep assms] nxt poolById_values [OF cur assms] by simp
  show "tables_ok T"
  proof (cases "upool_accountIds input")
    case None
    then show ?thesis using mem T1 by simp
  next
    case (Some ids)
    then show ?thesis
      using mem T1 poolById_values [OF cur assms]
        replaceMemberships_ok [of "pool_id current" "pool_providerId current" ids T1 T] by simp
  qed
qed

lemma createProfile_ok:
  assumes "tables_ok (tables db)"
  shows "tables_ok (tables (snd (createProfile env input actor db)))"
  unfolding createProfile_def
  by (rule mutate_keeps_tables_ok)
    (auto simp: assms Let_def bind_ok_Inr_iff profile_values_ok_def dest!: validateModelRoles_ok
      elim!: insertProfile_ok intro: assertProfileRefs_ok)

lemma profileById_values: "profileById i T = Inr r \<Longrightarrow> tables_ok T \<Longrightarrow> 1 \<le> prof_version r \<and> roles_known (modelRoles r)"
  by (auto simp: tables_ok_def values_ok_def dest!: profileById_Inr)

lemma profile_replaced_ok:
  assumes "replaceProfile current nxt T = Inr T'" and "profileById i T = Inr current"
    and "assertProfileRefs (prof_providerId nxt) (prof_poolId nxt) T = Inr u"
    and "tables_ok T" and "prof_version nxt = prof_version current + 1"
    and "roles_known (modelRoles nxt) \<or> modelRoles nxt = modelRoles current"
  shows "tables_ok T'"
proof (rule replaceProfile_ok [OF assms(1,4)])
  show "profile_values_ok nxt"
    using profileById_values [OF assms(2,4)] assms(5,6) by (auto simp: profile_values_ok_def)
  show "profile_refs_ok T nxt" by (rule assertProfileRefs_ok [OF assms(3) refl refl])
qed

lemma updateProfile_ok:
  assumes "tables_ok (tables db)"
  shows "tables_ok (tables (snd (updateProfile env i v input actor db)))"
  unfolding updateProfile_def
proof (rule mutate_keeps_tables_ok [OF assms])
  fix r T
  assume "bind_ok (profileById i (tables db)) (\<lambda>current.
          let providerId = or_else (uprof_providerId input) (prof_providerId current);
              poolId = or_else (uprof_poolId input) (prof_poolId current)
          in bind_ok (assertProfileRefs providerId poolId (tables db)) (\<lambda>_.
             bind_ok (optionalName (prof_name current) (uprof_name input)) (\<lambda>nm.
             bind_ok (case uprof_modelRoles input of
                        None \<Rightarrow> Inr (modelRoles current)
                      | Some roles \<Rightarrow> validateModelRoles roles) (\<lambda>roles.
             let nxt = current\<lparr>prof_name := nm,
                   harness := get_or (harness current) (uprof_harness input),
                   prof_providerId := providerId, prof_poolId := poolId, modelRoles := roles,
                   capabilityPolicy := or_else (nullish (uprof_capabilityPolicy input)) (capabilityPolicy current),
                   launchPolicy := or_else (nullish (uprof_launchPolicy input)) (launchPolicy current),
                   prof_version := prof_version current + 1,
                   prof_updatedAt := cp_now env\<rparr>
             in bind_ok (replaceProfile current nxt (tables db)) (\<lambda>T'. Inr (nxt, T')))))) = Inr (r, T)"
  then obtain current roles where cur: "profileById i (tables db) = Inr current"
    and roles: "(case uprof_modelRoles input of None \<Rightarrow> Inr (modelRoles current)
                 | Some roles \<Rightarrow> validateModelRoles roles) = Inr roles"
    and r: "modelRoles r = roles" "prof_version r = prof_version current + 1"
    and refs: "assertProfileRefs (prof_providerId r) (prof_poolId r) (tables db) = Inr ()"
    and rep: "replaceProfile current r (tables db) = Inr T"
    by (force simp: Let_def bind_ok_Inr_iff)
  have "roles_known roles \<or> roles = modelRoles current"
    using roles validateModelRoles_ok by (auto split: option.splits)
  then show "tables_ok T" using profile_replaced_ok [OF rep cur refs assms r(2)] r(1) by simp
qed

section \<open>The mutations as one operation\<close>

datatype cp_op =
    Create_provider create_provider_input
  | Update_provider string int update_provider_input
  | Create_account create_account_input
  | Update_account string int update_account_input
  | Bind_credential string int bind_credential_input
  | Acknowledge_terms string int string
  | Record_route_outcome string route_outcome_input
  | Create_pool create_pool_input
  | Update_pool string int update_pool_input
  | Create_profile create_profile_input
  | Update_profile string int update_profile_input

text \<open>The resource an operation names with the version it expects.\<close>

fun op_target :: "cp_op \<Rightarrow> (string \<times> string \<times> int) option" where
  "op_target (Update_provider i v _) = Some (''provider'', i, v)"
| "op_target (Update_account i v _) = Some (''account'', i, v)"
| "op_target (Bind_credential i v _) = Some (''account'', i, v)"
| "op_target (Acknowledge_terms i v _) = Some (''account'', i, v)"
| "op_target (Update_pool i v _) = Some (''pool'', i, v)"
| "op_target (Update_profile i v _) = Some (''profile'', i, v)"
| "op_target _ = None"

fun op_publishes :: "cp_op \<Rightarrow> bool" where
  "op_publishes (Record_route_outcome _ _) = False"
| "op_publishes _ = True"

definition summary ::
  "('r \<Rightarrow> string) \<Rightarrow> ('r \<Rightarrow> int) \<Rightarrow> (cp_error + 'r) \<times> control_plane \<Rightarrow> (cp_error + string \<times> int) \<times> control_plane" where
  "summary id_of ver_of result =
     (case fst result of Inl e \<Rightarrow> Inl e | Inr r \<Rightarrow> Inr (id_of r, ver_of r), snd result)"

fun run_op ::
  "cp_env \<Rightarrow> management_actor \<Rightarrow> cp_op \<Rightarrow> control_plane \<Rightarrow> (cp_error + string \<times> int) \<times> control_plane" where
  "run_op env actor (Create_provider x) db = summary prov_id prov_version (createProvider env x actor db)"
| "run_op env actor (Update_provider i v x) db = summary prov_id prov_version (updateProvider env i v x actor db)"
| "run_op env actor (Create_account x) db = summary acc_id acc_version (createAccount env x actor db)"
| "run_op env actor (Update_account i v x) db = summary acc_id acc_version (updateAccount env i v x actor db)"
| "run_op env actor (Bind_credential i v x) db = summary acc_id acc_version (bindCredential env i v x actor db)"
| "run_op env actor (Acknowledge_terms i v x) db = summary acc_id acc_version (acknowledgeTerms env i v x actor db)"
| "run_op env actor (Record_route_outcome i x) db = summary acc_id acc_version (recordRouteOutcome env i x actor db)"
| "run_op env actor (Create_pool x) db = summary pool_id pool_version (createPool env x actor db)"
| "run_op env actor (Update_pool i v x) db = summary pool_id pool_version (updatePool env i v x actor db)"
| "run_op env actor (Create_profile x) db = summary prof_id prof_version (createProfile env x actor db)"
| "run_op env actor (Update_profile i v x) db = summary prof_id prof_version (updateProfile env i v x actor db)"

lemma summary_snd [simp]: "snd (summary id_of ver_of result) = snd result"
  by (simp add: summary_def)

lemma summary_Inl: "summary id_of ver_of result = (Inl e, db') \<longleftrightarrow> result = (Inl e, db')"
  by (cases result) (auto simp: summary_def split: sum.splits)

lemma summary_Inr:
  "summary id_of ver_of result = (Inr (i, v), db') \<longleftrightarrow> (\<exists>r. result = (Inr r, db') \<and> id_of r = i \<and> ver_of r = v)"
  by (cases result) (auto simp: summary_def split: sum.splits)

lemmas op_defs =
  createProvider_def updateProvider_def createAccount_def updateAccount_def bindCredential_def
  acknowledgeTerms_def recordRouteOutcome_def createPool_def updatePool_def createProfile_def updateProfile_def

lemma run_op_keeps_tables_ok:
  "tables_ok (tables db) \<Longrightarrow> tables_ok (tables (snd (run_op env actor op db)))"
  by (cases op)
    (simp_all add: createProvider_ok updateProvider_ok createAccount_ok updateAccount_ok bindCredential_ok
      acknowledgeTerms_ok recordRouteOutcome_ok createPool_ok updatePool_ok createProfile_ok updateProfile_ok)

lemma run_op_error:
  assumes "run_op env actor op db = (Inl e, db')"
  shows "tables db' = tables db \<and> policies db' = policies db \<and>
    (\<exists>row. audit_log db' = audit_log db @ [row] \<and> audit_outcome row = Audit_rejected
         \<and> audit_metadata row = Meta_code (cp_error_name e) \<and> audit_actor row = actor)"
  using assms
  by (cases op) (auto simp: summary_Inl op_defs audit_row_def dest!: mutate_error)

lemma nextPolicyRevision_uuid [simp]: "nextPolicyRevision (db\<lparr>uuid_count := n\<rparr>) = nextPolicyRevision db"
  by (simp add: nextPolicyRevision_def currentPolicy_def)

lemma run_op_publishes:
  assumes "run_op env actor op db = (Inr (i, v), db')" and "op_publishes op"
  shows "\<exists>p. policies db' = policies db @ [p] \<and> revision p = nextPolicyRevision db
           \<and> snapshot p = policySnapshot (tables db')"
  using assms
  by (cases op) (auto simp: summary_Inr op_defs dest!: mutate_success(2) [where publish = True])

lemma run_op_silent:
  assumes "run_op env actor op db = (Inr (i, v), db')" and "\<not> op_publishes op"
  shows "policies db' = policies db"
  using assms
  by (cases op) (auto simp: summary_Inr op_defs dest!: mutate_success(3) [where publish = False])

lemma run_op_audit:
  assumes "run_op env actor op db = (Inr (i, v), db')"
  shows "\<exists>row. audit_log db' = audit_log db @ [row] \<and> audit_outcome row = Audit_ok \<and> audit_actor row = actor
           \<and> audit_resourceId row = Some i \<and> audit_metadata row = Meta_version v"
  using assms
  by (cases op) (auto simp: summary_Inr op_defs audit_row_def dest!: mutate_success(4))

section \<open>Versions\<close>

definition resource_version :: "string \<Rightarrow> string \<Rightarrow> cp_tables \<Rightarrow> int option" where
  "resource_version ty i T = (case resourceTable ty T of Inl _ \<Rightarrow> None | Inr rows \<Rightarrow> map_of rows i)"

lemma assertCurrentVersion_Inr:
  "assertCurrentVersion ty i v T = Inr u \<longleftrightarrow> resource_version ty i T = Some v"
  by (cases "resourceTable ty T") (auto simp: assertCurrentVersion_def resource_version_def split: option.splits)

lemma assertCurrentVersion_stale:
  "resource_version ty i T = Some w \<Longrightarrow> w \<noteq> v \<Longrightarrow> assertCurrentVersion ty i v T = Inl (Version_conflict ty)"
  by (cases "resourceTable ty T") (auto simp: assertCurrentVersion_def resource_version_def)

lemma map_of_versions:
  "map_of (map (\<lambda>r. (id_of r, ver_of r)) rows) i = map_option ver_of (List.find (\<lambda>r. id_of r = i) rows)"
  by (induction rows) auto

lemma resource_version_rows:
  "resource_version ''provider'' i T = map_option prov_version (List.find (\<lambda>r. prov_id r = i) (t_providers T))"
  "resource_version ''account'' i T = map_option acc_version (List.find (\<lambda>r. acc_id r = i) (t_accounts T))"
  "resource_version ''pool'' i T = map_option pool_version (List.find (\<lambda>r. pool_id r = i) (t_pools T))"
  "resource_version ''profile'' i T = map_option prof_version (List.find (\<lambda>r. prof_id r = i) (t_profiles T))"
  by (simp_all add: resource_version_def resourceTable_def map_of_versions)

lemma byId_version:
  "providerById i T = Inr p \<Longrightarrow> prov_id p = i \<and> resource_version ''provider'' i T = Some (prov_version p)"
  "accountById i T = Inr a \<Longrightarrow> acc_id a = i \<and> resource_version ''account'' i T = Some (acc_version a)"
  "poolById i T = Inr q \<Longrightarrow> pool_id q = i \<and> resource_version ''pool'' i T = Some (pool_version q)"
  "profileById i T = Inr r \<Longrightarrow> prof_id r = i \<and> resource_version ''profile'' i T = Some (prof_version r)"
  by (auto simp: resource_version_rows providerById_def accountById_def poolById_def profileById_def
      dest: find_Some_in split: option.splits)

context versioned_table
begin

lemma update_version:
  assumes "List.find (\<lambda>r. id_of r = i) rows = Some row" and "id_of cur = i" and "ver_of cur = ver_of row"
  shows "\<exists>z. List.find (\<lambda>r. id_of r = i) (update_rows id_of ver_of set_columns cur nxt rows) = Some z
           \<and> ver_of z = ver_of nxt"
  using update_find_same [of cur rows row nxt] assms by (simp add: writes_version)

end

lemma byId_find:
  "providerById i T = Inr p \<Longrightarrow> List.find (\<lambda>r. prov_id r = i) (t_providers T) = Some p"
  "accountById i T = Inr a \<Longrightarrow> List.find (\<lambda>r. acc_id r = i) (t_accounts T) = Some a"
  "poolById i T = Inr q \<Longrightarrow> \<exists>row. List.find (\<lambda>r. pool_id r = i) (t_pools T) = Some row \<and> q = hydratePool T row"
  "profileById i T = Inr r \<Longrightarrow> List.find (\<lambda>r. prof_id r = i) (t_profiles T) = Some r"
  by (auto simp: providerById_def accountById_def poolById_def profileById_def split: option.splits)

lemma replacePool_version:
  assumes "replacePool q q' T = Inr T'" and "poolById i T = Inr q"
  shows "pool_id q = i \<and> resource_version ''pool'' i T = Some (pool_version q)
         \<and> resource_version ''pool'' i T' = Some (pool_version q')"
proof -
  obtain row where row: "List.find (\<lambda>r. pool_id r = i) (t_pools T) = Some row" and q: "q = hydratePool T row"
    using byId_find(3) [OF assms(2)] by auto
  have "T' = T\<lparr>t_pools := update_rows pool_id pool_version set_pool_columns q q' (t_pools T)\<rparr>"
    using assms(1) by (auto simp: replacePool_def bind_ok_Inr_iff split: if_splits)
  then show ?thesis
    using pool_table.update_version [OF row, of q q'] find_Some_in [OF row] row q by (auto simp: resource_version_rows)
qed

lemma replace_version:
  "replaceProvider p p' T = Inr T' \<Longrightarrow> providerById i T = Inr p \<Longrightarrow>
     prov_id p = i \<and> resource_version ''provider'' i T = Some (prov_version p)
     \<and> resource_version ''provider'' i T' = Some (prov_version p')"
  "replaceAccount a a' T = Inr T' \<Longrightarrow> accountById i T = Inr a \<Longrightarrow>
     acc_id a = i \<and> resource_version ''account'' i T = Some (acc_version a)
     \<and> resource_version ''account'' i T' = Some (acc_version a')"
  "replaceProfile r r' T = Inr T' \<Longrightarrow> profileById i T = Inr r \<Longrightarrow>
     prof_id r = i \<and> resource_version ''profile'' i T = Some (prof_version r)
     \<and> resource_version ''profile'' i T' = Some (prof_version r')"
  by (auto simp: resource_version_rows replaceProvider_def replaceAccount_def replaceProfile_def
      bind_ok_Inr_iff dest!: byId_find dest: find_Some_in split: if_splits
      intro!: provider_table.update_version account_table.update_version
        profile_table.update_version)

lemma resource_version_upsertTerms [simp]:
  "resource_version ty i (upsertTermsAcknowledgement a p v t T) = resource_version ty i T"
  by (simp add: resource_version_def resourceTable_def upsertTermsAcknowledgement_def)

lemma insertMemberships_only:
  "insertMemberships poolId providerId n ids T = Inr T' \<Longrightarrow> \<exists>ms. T' = T\<lparr>t_memberships := ms\<rparr>"
proof (induction poolId providerId n ids T rule: insertMemberships.induct)
  case (1 poolId providerId n T)
  then show ?case by (intro exI [of _ "t_memberships T"]) simp
next
  case (2 poolId providerId n accountId rest T)
  then obtain ms where "T' = T\<lparr>t_memberships := t_memberships T @
      [\<lparr>mem_poolId = poolId, mem_accountId = accountId, pinOrder = Some n\<rparr>]\<rparr>\<lparr>t_memberships := ms\<rparr>"
    by (fastforce simp: bind_ok_Inr_iff split: if_splits)
  then show ?case by auto
qed

lemma replaceMemberships_versions:
  assumes "replaceMemberships poolId providerId ids T = Inr T'"
  shows "resource_version ty i T' = resource_version ty i T"
proof -
  obtain ms where "T' = T\<lparr>t_memberships := filter (\<lambda>m. mem_poolId m \<noteq> poolId) (t_memberships T)\<rparr>\<lparr>t_memberships := ms\<rparr>"
    using assms insertMemberships_only by (fastforce simp: replaceMemberships_def split: if_splits)
  then show ?thesis by (simp add: resource_version_def resourceTable_def)
qed

lemma updatePool_version:
  assumes "updatePool env i v x actor db = (Inr r, db')"
  shows "pool_id r = i \<and> resource_version ''pool'' i (tables db) = Some (pool_version r - 1)
         \<and> resource_version ''pool'' i (tables db') = Some (pool_version r)"
proof -
  from assms obtain current nxt T1 where cur: "poolById i (tables db) = Inr current"
    and nxt: "pool_version nxt = pool_version current + 1"
    and rep: "replacePool current nxt (tables db) = Inr T1"
    and mem: "(case upool_accountIds x of None \<Rightarrow> Inr T1
               | Some ids \<Rightarrow> replaceMemberships (pool_id current) (pool_providerId current) ids T1) = Inr (tables db')"
    and r: "poolById (pool_id current) (tables db') = Inr r"
    by (force simp: updatePool_def bind_ok_Inr_iff Let_def dest!: mutate_success(1))
  have "resource_version ''pool'' i (tables db') = resource_version ''pool'' i T1"
    using mem replaceMemberships_versions by (auto split: option.splits)
  then show ?thesis
    using replacePool_version [OF rep cur] byId_version(3) [OF r] nxt by auto
qed

lemma run_op_version:
  assumes "run_op env actor op db = (Inr (j, w), db')" and "op_target op = Some (ty, i, v)"
  shows "resource_version ty i (tables db) = Some v \<and> j = i \<and> w = v + 1
       \<and> resource_version ty i (tables db') = Some (v + 1)"
proof -
  have "resource_version ty i (tables db) = Some v"
    using assms
    by (cases op) (auto simp: summary_Inr op_defs assertCurrentVersion_Inr dest!: mutate_success(5) [OF _ refl refl])
  moreover have "j = i \<and> resource_version ty i (tables db) = Some (w - 1) \<and> resource_version ty i (tables db') = Some w"
  proof (cases op)
    case (Update_provider k u x)
    with assms show ?thesis
      by (auto simp: summary_Inr updateProvider_def bind_ok_Inr_iff Let_def dest!: mutate_success(1) replace_version(1))
  next
    case (Update_account k u x)
    with assms show ?thesis
      by (auto simp: summary_Inr updateAccount_def bind_ok_Inr_iff Let_def dest!: mutate_success(1) replace_version(2))
  next
    case (Bind_credential k u x)
    with assms show ?thesis
      by (auto simp: summary_Inr bindCredential_def bind_ok_Inr_iff Let_def dest!: mutate_success(1) replace_version(2))
  next
    case (Acknowledge_terms k u x)
    with assms show ?thesis
      by (auto simp: summary_Inr acknowledgeTerms_def bind_ok_Inr_iff Let_def simp del: not_None_eq
          dest!: mutate_success(1) replace_version(2))
  next
    case (Update_pool k u x)
    with assms show ?thesis
      by (auto simp: summary_Inr dest: updatePool_version)
  next
    case (Update_profile k u x)
    with assms show ?thesis
      by (auto simp: summary_Inr updateProfile_def bind_ok_Inr_iff Let_def dest!: mutate_success(1) replace_version(3))
  qed (use assms(2) in auto)
  ultimately show ?thesis by auto
qed

lemma run_op_stale:
  assumes "op_target op = Some (ty, i, v)" and "resource_version ty i (tables db) = Some w" and "w \<noteq> v"
  shows "fst (run_op env actor op db) = Inl (Version_conflict ty)"
  using assms
  by (cases op) (auto simp: summary_def op_defs assertCurrentVersion_stale mutate_stale)

section \<open>Reachable databases\<close>

inductive cp_reachable :: "control_plane \<Rightarrow> bool" where
  fresh: "cp_reachable empty_control_plane"
| mutation: "cp_reachable db \<Longrightarrow> run_op env actor op db = (res, db') \<Longrightarrow> cp_reachable db'"
| rejected: "cp_reachable db \<Longrightarrow>
    cp_reachable (recordRejectedAudit env actor action ty i metadata db)"
| retention: "cp_reachable db \<Longrightarrow> deleteAuditOlderThan cutoff db = (n, db') \<Longrightarrow> cp_reachable db'"

definition policies_ok :: "control_plane \<Rightarrow> bool" where
  "policies_ok db \<longleftrightarrow> map revision (policies db) = map int [1..<Suc (length (policies db))]"

lemma currentPolicy_revision:
  assumes "policies_ok db"
  shows "currentPolicy db = (if policies db = [] then None else Some (last (policies db)))"
    and "nextPolicyRevision db = int (length (policies db)) + 1"
proof -
  have rev_nth: "revision (policies db ! k) = int k + 1" if "k < length (policies db)" for k
  proof -
    have "revision (policies db ! k) = map revision (policies db) ! k" using that by simp
    also have "\<dots> = map int [1..<Suc (length (policies db))] ! k"
      using assms by (simp only: policies_ok_def)
    also have "\<dots> = int k + 1" using that by (simp del: upt_Suc)
    finally show ?thesis .
  qed
  show cur: "currentPolicy db = (if policies db = [] then None else Some (last (policies db)))"
  proof (cases "currentPolicy db")
    case None
    then have "policies db = []" by (simp add: currentPolicy_def latest_by_None_iff)
    with None show ?thesis by simp
  next
    case (Some p)
    let ?n = "length (policies db)"
    from latest_by_Some [OF Some [unfolded currentPolicy_def]]
    have p: "p \<in> set (policies db)" and top: "\<forall>q \<in> set (policies db). revision q \<le> revision p" by auto
    from p obtain k where k: "k < ?n" "p = policies db ! k" by (auto simp: in_set_conv_nth)
    have "policies db \<noteq> []" using k by auto
    moreover have "revision (policies db ! (?n - 1)) \<le> revision p" using top k by auto
    then have "?n - 1 \<le> k" using rev_nth [of k] rev_nth [of "?n - 1"] k by auto
    ultimately show ?thesis using Some k by (auto simp: last_conv_nth intro: arg_cong2 [where f = nth])
  qed
  show "nextPolicyRevision db = int (length (policies db)) + 1"
    using rev_nth [of "length (policies db) - 1"]
    by (simp add: nextPolicyRevision_def cur last_conv_nth)
qed

lemma policies_ok_snoc:
  "policies_ok db \<Longrightarrow> policies db' = policies db @ [p] \<Longrightarrow> revision p = nextPolicyRevision db \<Longrightarrow> policies_ok db'"
  by (simp add: policies_ok_def currentPolicy_revision)

lemma run_op_keeps_policies_ok:
  assumes "policies_ok db"
  shows "policies_ok (snd (run_op env actor op db))"
proof -
  obtain res db' where run: "run_op env actor op db = (res, db')" by fastforce
  show ?thesis
  proof (cases res)
    case (Inl e)
    then show ?thesis using run_op_error [of env actor op db e db'] run assms by (simp add: policies_ok_def)
  next
    case (Inr iv)
    obtain i v where iv: "iv = (i, v)" by fastforce
    show ?thesis
    proof (cases "op_publishes op")
      case True
      then show ?thesis using run_op_publishes [of env actor op db i v db'] policies_ok_snoc [OF assms] run Inr iv by auto
    next
      case False
      then show ?thesis using run_op_silent [of env actor op db i v db'] run Inr iv assms by (simp add: policies_ok_def)
    qed
  qed
qed

lemma reachable_invariant: "cp_reachable db \<Longrightarrow> tables_ok (tables db) \<and> policies_ok db"
proof (induction rule: cp_reachable.induct)
  case fresh
  then show ?case by (simp add: empty_control_plane_def empty_tables_ok policies_ok_def)
next
  case (mutation db env actor op res db')
  then show ?case
    using run_op_keeps_tables_ok [of db env actor op] run_op_keeps_policies_ok [of db env actor op] by simp
next
  case (rejected db env actor action ty i metadata)
  then show ?case by (simp add: recordRejectedAudit_def policies_ok_def)
next
  case (retention db cutoff n db')
  then show ?case by (auto simp: deleteAuditOlderThan_def Let_def policies_ok_def)
qed

section \<open>A concrete run\<close>

text \<open>One provider created and renamed, used by the witnesses below.\<close>

definition demo_env :: cp_env where
  "demo_env = \<lparr>cp_now = 1000, cp_uuid = (\<lambda>n. replicate (Suc n) (CHR ''u'')),
     cp_hash = (\<lambda>s. replicate (nat (sum_list (map prov_version (snap_providers s)))) (CHR ''h''))\<rparr>"

definition demo_create :: cp_op where
  "demo_create = Create_provider \<lparr>cprov_name = ''acme'', cprov_integrationMode = Direct, cprov_endpointPolicy = None,
     cprov_capabilityEvidence = None, cprov_requiredTermsRevision = None, cprov_provenanceRef = None\<rparr>"

definition demo_rename :: "string \<Rightarrow> cp_op" where
  "demo_rename nm = Update_provider ''u'' 1 \<lparr>uprov_name = Some nm, uprov_integrationMode = None,
     uprov_endpointPolicy = None, uprov_capabilityEvidence = None, uprov_requiredTermsRevision = None,
     uprov_provenanceRef = None, uprov_enabled = None\<rparr>"

definition demo_db :: control_plane where
  "demo_db = snd (run_op demo_env Actor_cli demo_create empty_control_plane)"

lemma demo_rename_value:
  "fst (run_op demo_env Actor_cli (demo_rename ''acme2'') demo_db) = Inr (''u'', 2)"
  by code_simp

section \<open>Properties\<close>

text \<open>C1: in every database the mutations can build, keys and names are unique, every account, pool,
  membership, health row and profile refers to rows that exist inside one provider, versions, budgets and
  failure counters are in range, and the JSON columns are free of secret keys.\<close>

theorem reachable_tables_ok:
  assumes "cp_reachable db"
  shows "tables_ok (tables db)"
  using reachable_invariant [OF assms] by simp

lemma demo_reachable: "cp_reachable demo_db"
  unfolding demo_db_def by (rule cp_reachable.mutation [OF cp_reachable.fresh]) (rule prod.collapse [symmetric])

theorem reachable_tables_ok_witness:
  "tables_ok (tables demo_db) \<and> map prov_name (t_providers (tables demo_db)) = [''acme'']"
proof
  show "tables_ok (tables demo_db)" by (rule reachable_tables_ok [OF demo_reachable])
  show "map prov_name (t_providers (tables demo_db)) = [''acme'']" by code_simp
qed

text \<open>C4: a mutation is all or nothing. A rejected one leaves tables and policies as they were and adds exactly
  one audit row, marked rejected, with the error's name; an accepted one adds exactly one audit row with the new
  version and, unless it only records a route outcome, publishes exactly one policy, the next in number, that is
  the snapshot of the new tables.\<close>

theorem mutation_all_or_nothing:
  "case run_op env actor op db of
     (Inl e, db') \<Rightarrow>
        tables db' = tables db \<and> policies db' = policies db
        \<and> (\<exists>row. audit_log db' = audit_log db @ [row] \<and> audit_outcome row = Audit_rejected
               \<and> audit_metadata row = Meta_code (cp_error_name e) \<and> audit_actor row = actor)
   | (Inr (i, v), db') \<Rightarrow>
        (\<exists>row. audit_log db' = audit_log db @ [row] \<and> audit_outcome row = Audit_ok \<and> audit_actor row = actor
               \<and> audit_resourceId row = Some i \<and> audit_metadata row = Meta_version v)
        \<and> (if op_publishes op
           then \<exists>p. policies db' = policies db @ [p] \<and> revision p = nextPolicyRevision db
                     \<and> snapshot p = policySnapshot (tables db')
           else policies db' = policies db)"
proof -
  obtain res db' where run: "run_op env actor op db = (res, db')" by fastforce
  show ?thesis
  proof (cases res)
    case (Inl e)
    then show ?thesis using run_op_error [of env actor op db e db'] by (simp add: run)
  next
    case (Inr iv)
    obtain i v where iv: "iv = (i, v)" by fastforce
    have ok: "run_op env actor op db = (Inr (i, v), db')" using run Inr iv by simp
    show ?thesis using run_op_audit [OF ok] run_op_publishes [OF ok] run_op_silent [OF ok] by (simp add: ok)
  qed
qed

text \<open>C5: no lost update. Of two writers that read the same version of a resource, the second to commit is
  refused with a version conflict and changes no table.\<close>

theorem no_lost_update:
  assumes "run_op env actor op db = (Inr r, db1)"
    and "op_target op = Some (ty, i, v)" and "op_target op2 = Some (ty, i, v)"
  shows "fst (run_op env2 actor2 op2 db1) = Inl (Version_conflict ty)
       \<and> tables (snd (run_op env2 actor2 op2 db1)) = tables db1"
proof -
  obtain j w where r: "r = (j, w)" by fastforce
  have "resource_version ty i (tables db1) = Some (v + 1)"
    using run_op_version [OF assms(1) [unfolded r] assms(2)] by simp
  then have stale: "fst (run_op env2 actor2 op2 db1) = Inl (Version_conflict ty)"
    by (rule run_op_stale [OF assms(3)]) simp
  moreover obtain db2 where "run_op env2 actor2 op2 db1 = (Inl (Version_conflict ty), db2)"
    using stale by (metis prod.collapse)
  ultimately show ?thesis using run_op_error [of env2 actor2 op2 db1 "Version_conflict ty" db2] by simp
qed

definition demo_db1 :: control_plane where
  "demo_db1 = snd (run_op demo_env Actor_cli (demo_rename ''acme2'') demo_db)"

theorem no_lost_update_witness:
  "fst (run_op demo_env Actor_browser (demo_rename ''acme3'') demo_db1) = Inl (Version_conflict ''provider'')"
proof (rule no_lost_update [THEN conjunct1])
  show "run_op demo_env Actor_cli (demo_rename ''acme2'') demo_db = (Inr (''u'', 2), demo_db1)"
    unfolding demo_db1_def using demo_rename_value by (metis prod.collapse)
  show "op_target (demo_rename ''acme2'') = Some (''provider'', ''u'', 1)" by code_simp
  show "op_target (demo_rename ''acme3'') = Some (''provider'', ''u'', 1)" by code_simp
qed

text \<open>policy revisions of a reachable control plane are numbered 1, 2, 3 and so on without a gap, in the
  order they were published, and the current policy is the last one published.\<close>

theorem policy_revisions_consecutive:
  assumes "cp_reachable db"
  shows "map revision (policies db) = map int [1..<Suc (length (policies db))]
       \<and> currentPolicy db = (if policies db = [] then None else Some (last (policies db)))"
  using reachable_invariant [OF assms] currentPolicy_revision(1) [of db] by (simp add: policies_ok_def)

theorem policy_revisions_consecutive_witness: "map revision (policies demo_db) = [1]"
proof -
  have "length (policies demo_db) = 1" by code_simp
  then show ?thesis using policy_revisions_consecutive [OF demo_reachable] by simp
qed

lemma find_replaceHealth:
  "healthById (health_accountId h) (replaceHealth h T) = Some h"
proof -
  have hit: "List.find (\<lambda>x. health_accountId x = health_accountId h)
          (map (\<lambda>x. if health_accountId x = health_accountId h then h else x) hs) = Some h"
    if "\<exists>x \<in> set hs. health_accountId x = health_accountId h" for hs
    using that by (induction hs) auto
  show ?thesis
  proof (cases "list_ex (\<lambda>x. health_accountId x = health_accountId h) (t_health T)")
    case True
    then show ?thesis using hit by (auto simp: healthById_def replaceHealth_def list_ex_iff)
  next
    case False
    then have "List.find (\<lambda>x. health_accountId x = health_accountId h) (t_health T) = None"
      by (auto simp: find_None_iff list_ex_iff)
    with False show ?thesis by (simp add: healthById_def replaceHealth_def find_append)
  qed
qed

lemma route_outcome_effect:
  assumes "recordRouteOutcome env i input actor db = (Inr a, db')"
  shows "\<exists>old h. accountById i (tables db) = Inr old \<and> healthById i (tables db') = Some h
     \<and> acc_version a = acc_version old + 1 \<and> acc_state a = acc_state old
     \<and> quotaClass a = get_or (quotaClass old) (in_quotaClass input)
     \<and> health_cooldownUntil h = acc_cooldownUntil a
     \<and> acc_cooldownUntil a = (if in_outcome input = Out_success then None
                              else get_or (acc_cooldownUntil old) (in_cooldownUntil input))
     \<and> lastOutcome h = Some (in_outcome input)
     \<and> consecutiveFailures h =
         (if in_outcome input = Out_success then 0
          else (case healthById i (tables db) of None \<Rightarrow> 0 | Some g \<Rightarrow> consecutiveFailures g) + 1)"
proof -
  let ?cool = "\<lambda>old. if in_outcome input = Out_success then None
                      else get_or (acc_cooldownUntil old) (in_cooldownUntil input)"
  let ?health = "get_or \<lparr>health_accountId = i, lastOutcome = None, lastOutcomeAt = None,
                         consecutiveFailures = 0, health_cooldownUntil = None\<rparr> (healthById i (tables db))"
  let ?h = "\<lambda>old. \<lparr>health_accountId = i, lastOutcome = Some (in_outcome input),
                  lastOutcomeAt = Some (cp_now env),
                  consecutiveFailures = (if in_outcome input = Out_success then 0
                                         else consecutiveFailures ?health + 1),
                  health_cooldownUntil = ?cool old\<rparr>"
  from mutate_success(1) [OF assms [unfolded recordRouteOutcome_def]]
  obtain old T1 where old: "accountById i (tables db) = Inr old"
    and a: "a = old\<lparr>quotaClass := get_or (quotaClass old) (in_quotaClass input), acc_cooldownUntil := ?cool old,
                acc_version := acc_version old + 1, acc_updatedAt := cp_now env\<rparr>"
    and T: "replaceHealth (?h old) T1 = tables db'"
    unfolding Let_def get_or_def [symmetric] bind_ok_Inr_iff by blast
  have "healthById i (tables db') = Some (?h old)" using find_replaceHealth [of "?h old" T1] T by simp
  then show ?thesis using old
    by (intro exI [of _ old] exI [of _ "?h old"]) (simp add: a split: option.splits)
qed

text \<open>recording a route outcome. The account's cooldown and its health row's cooldown are written together
  and agree: cleared by a success, else the given one (or the old one when none is given); the failure counter
  restarts at a success and otherwise grows by one; the quota class changes only when one is given.\<close>

theorem recordRouteOutcome_effect:
  assumes "recordRouteOutcome env i input actor db = (Inr a, db')"
  shows "\<exists>old h. accountById i (tables db) = Inr old \<and> healthById i (tables db') = Some h
     \<and> acc_version a = acc_version old + 1 \<and> acc_state a = acc_state old
     \<and> quotaClass a = get_or (quotaClass old) (in_quotaClass input)
     \<and> health_cooldownUntil h = acc_cooldownUntil a
     \<and> acc_cooldownUntil a = (if in_outcome input = Out_success then None
                              else get_or (acc_cooldownUntil old) (in_cooldownUntil input))
     \<and> lastOutcome h = Some (in_outcome input)
     \<and> consecutiveFailures h =
         (if in_outcome input = Out_success then 0
          else (case healthById i (tables db) of None \<Rightarrow> 0 | Some g \<Rightarrow> consecutiveFailures g) + 1)"
  by (rule route_outcome_effect [OF assms])

definition demo_account_db :: control_plane where
  "demo_account_db = snd (run_op demo_env Actor_cli (Create_account \<lparr>cacc_pseudonym = ''a'',
     cacc_providerId = ''u'', cacc_credentialHandle = ''h'', cacc_state = Some Ready, cacc_quotaClass = None\<rparr>)
     (demo_db\<lparr>policies := []\<rparr>))"

theorem recordRouteOutcome_effect_witness:
  "\<exists>a db' h. recordRouteOutcome demo_env ''uuu'' \<lparr>in_outcome = Out_quota, in_quotaClass = None,
       in_cooldownUntil = Some (Some (Instant 5))\<rparr> Actor_system demo_account_db = (Inr a, db')
     \<and> healthById ''uuu'' (tables db') = Some h \<and> consecutiveFailures h = 1"
proof -
  let ?r = "recordRouteOutcome demo_env ''uuu'' \<lparr>in_outcome = Out_quota, in_quotaClass = None,
       in_cooldownUntil = Some (Some (Instant 5))\<rparr> Actor_system demo_account_db"
  have "is_ok (fst ?r)" by code_simp
  then obtain a db' where run: "?r = (Inr a, db')"
    by (cases ?r) (auto simp: is_ok_def split: sum.splits)
  have "map_option consecutiveFailures (healthById ''uuu'' (tables demo_account_db)) = Some 0" by code_simp
  with recordRouteOutcome_effect [OF run] run show ?thesis by auto
qed

end
