(* ===== verification/Eligibility.thy ===== *)
theory Eligibility
  imports Control_Plane_Reachable
begin

text \<open>
  Who may serve a request: \<^verbatim>\<open>src/routing/eligibility/\<close> (the assessment of one account
  and the decision trace), \<^verbatim>\<open>src/routing/effective-route.ts\<close> (the bound route) and
  \<^verbatim>\<open>src/providers/commitment.ts\<close> (how far an attempt got).

  The capability snapshot of an account is the selected model's; the clock reading is an
  argument. A decision trace is also read as the JSON value the secret-free gate walks.
\<close>

section \<open>Assessment of one account\<close>

datatype eligibility_reason =
    Provider_disabled
  | Paused_account
  | Revoked_account
  | Auth_unready
  | Expired
  | Quota_exhausted
  | Cooling
  | Capability_incompatible
  | Terms_unaccepted
  | Generation_unbound

fun reason_text :: "eligibility_reason \<Rightarrow> string" where
  "reason_text Provider_disabled = ''provider-disabled''"
| "reason_text Paused_account = ''paused''"
| "reason_text Revoked_account = ''revoked''"
| "reason_text Auth_unready = ''auth-unready''"
| "reason_text Expired = ''expired''"
| "reason_text Quota_exhausted = ''quota-exhausted''"
| "reason_text Cooling = ''cooling''"
| "reason_text Capability_incompatible = ''capability-incompatible''"
| "reason_text Terms_unaccepted = ''terms-unaccepted''"
| "reason_text Generation_unbound = ''generation-unbound''"

record credential_snapshot =
  cred_present :: bool
  cred_generation :: int
  cred_expiresAt :: "date_text option"

record candidate_assessment =
  cand_accountId :: string
  cand_pseudonym :: string
  cand_credentialHandle :: string
  cand_generation :: int
  cand_pinOrder :: int
  cand_quotaClass :: string
  eligible :: bool
  reasons :: "eligibility_reason list"

record eligibility_input =
  el_account :: account_record
  el_provider :: "provider_record option"
  el_pinOrder :: int
  el_now :: int
  el_credential :: "credential_snapshot option"
  el_required :: "capability_requirement list"
  el_capabilities :: provider_capabilities
  el_health :: "health_record option"

definition boundGeneration :: "account_record \<Rightarrow> credential_snapshot option \<Rightarrow> int" where
  "boundGeneration account credential =
     (case credential of
        Some c \<Rightarrow> if 0 < cred_generation c then cred_generation c else credentialGeneration account
      | None \<Rightarrow> credentialGeneration account)"

definition isExpired :: "credential_snapshot option \<Rightarrow> int \<Rightarrow> bool" where
  "isExpired credential now =
     (case Option.bind credential cred_expiresAt of
        None \<Rightarrow> False
      | Some d \<Rightarrow> (case date_parse d of None \<Rightarrow> False | Some expires \<Rightarrow> expires \<le> now))"

definition isFuture :: "date_text option \<Rightarrow> int \<Rightarrow> bool" where
  "isFuture value now =
     (case value of
        None \<Rightarrow> False
      | Some d \<Rightarrow> (case date_parse d of None \<Rightarrow> False | Some parsed \<Rightarrow> now < parsed))"

definition isCooling :: "date_text option \<Rightarrow> date_text option \<Rightarrow> int \<Rightarrow> bool" where
  "isCooling accountCooldown healthCooldown now \<longleftrightarrow>
     isFuture accountCooldown now \<or> isFuture healthCooldown now"

definition provider_unusable :: "provider_record option \<Rightarrow> bool" where
  "provider_unusable p = (case p of None \<Rightarrow> True | Some r \<Rightarrow> \<not> prov_enabled r)"

definition eligibility_reasons :: "eligibility_input \<Rightarrow> eligibility_reason list" where
  "eligibility_reasons input =
     (let account = el_account input; credential = el_credential input; now = el_now input;
          generation = boundGeneration account credential;
          required_terms = Option.bind (el_provider input) requiredTermsRevision
      in (if provider_unusable (el_provider input) then [Provider_disabled] else [])
       @ (if acc_state account = Paused then [Paused_account] else [])
       @ (if acc_state account = Revoked then [Revoked_account] else [])
       @ (if acc_state account = Unready \<or> credential = None
             \<or> \<not> (case credential of None \<Rightarrow> False | Some c \<Rightarrow> cred_present c) then [Auth_unready] else [])
       @ (if generation < 1 then [Generation_unbound] else [])
       @ (if isExpired credential now then [Expired] else [])
       @ (if isCooling (acc_cooldownUntil account) (Option.bind (el_health input) health_cooldownUntil) now
          then [Cooling] else [])
       @ (if missingCapabilities (el_capabilities input) (el_required input) \<noteq> []
          then [Capability_incompatible] else [])
       @ (if required_terms \<noteq> None \<and> required_terms \<noteq> termsAcknowledgedRevision account
          then [Terms_unaccepted] else []))"

definition evaluateEligibility :: "eligibility_input \<Rightarrow> candidate_assessment" where
  "evaluateEligibility input =
     (let account = el_account input; rs = eligibility_reasons input
      in \<lparr>cand_accountId = acc_id account, cand_pseudonym = pseudonym account,
          cand_credentialHandle = credentialHandle account,
          cand_generation = boundGeneration account (el_credential input),
          cand_pinOrder = el_pinOrder input, cand_quotaClass = quotaClass account,
          eligible = (rs = []), reasons = rs\<rparr>)"

lemma evaluateEligibility_fields [simp]:
  "cand_accountId (evaluateEligibility input) = acc_id (el_account input)"
  "cand_pseudonym (evaluateEligibility input) = pseudonym (el_account input)"
  "cand_credentialHandle (evaluateEligibility input) = credentialHandle (el_account input)"
  "cand_generation (evaluateEligibility input) = boundGeneration (el_account input) (el_credential input)"
  "cand_pinOrder (evaluateEligibility input) = el_pinOrder input"
  "cand_quotaClass (evaluateEligibility input) = quotaClass (el_account input)"
  "eligible (evaluateEligibility input) \<longleftrightarrow> eligibility_reasons input = []"
  "reasons (evaluateEligibility input) = eligibility_reasons input"
  by (simp_all add: evaluateEligibility_def Let_def)

lemma missingCapabilities_Nil: "missingCapabilities caps req = [] \<longleftrightarrow> (\<forall>r \<in> set req. has_capability caps r)"
  by (auto simp: missingCapabilities_def filter_empty_conv)

text \<open>The specification of an eligible account, field by field.\<close>

definition may_serve :: "eligibility_input \<Rightarrow> bool" where
  "may_serve input \<longleftrightarrow>
     (\<exists>p. el_provider input = Some p \<and> prov_enabled p
        \<and> (\<forall>terms. requiredTermsRevision p = Some terms \<longrightarrow>
             termsAcknowledgedRevision (el_account input) = Some terms))
   \<and> acc_state (el_account input) = Ready
   \<and> (\<exists>c. el_credential input = Some c \<and> cred_present c
        \<and> (\<forall>t. cred_expiresAt c = Some (Instant t) \<longrightarrow> el_now input < t))
   \<and> 1 \<le> boundGeneration (el_account input) (el_credential input)
   \<and> (\<forall>t. acc_cooldownUntil (el_account input) = Some (Instant t) \<longrightarrow> t \<le> el_now input)
   \<and> (\<forall>h t. el_health input = Some h \<longrightarrow> health_cooldownUntil h = Some (Instant t) \<longrightarrow> t \<le> el_now input)
   \<and> (\<forall>r \<in> set (el_required input). has_capability (el_capabilities input) r)"

lemma isFuture_iff: "isFuture d now \<longleftrightarrow> (\<exists>t. d = Some (Instant t) \<and> now < t)"
  by (auto simp: isFuture_def split: option.splits elim: date_parse.elims)

lemma isExpired_iff:
  "isExpired c now \<longleftrightarrow> (\<exists>x t. c = Some x \<and> cred_expiresAt x = Some (Instant t) \<and> t \<le> now)"
  by (auto simp: isExpired_def bind_eq_Some_conv split: option.splits elim: date_parse.elims)

lemma account_state_Ready: "acc_state a = Ready \<longleftrightarrow> acc_state a \<notin> {Paused, Revoked, Unready}"
  by (cases "acc_state a") auto

lemma eligibility_reasons_Nil_iff:
  "eligibility_reasons input = [] \<longleftrightarrow>
     \<not> provider_unusable (el_provider input) \<and> acc_state (el_account input) = Ready
   \<and> (\<exists>c. el_credential input = Some c \<and> cred_present c)
   \<and> 1 \<le> boundGeneration (el_account input) (el_credential input)
   \<and> \<not> isExpired (el_credential input) (el_now input)
   \<and> \<not> isCooling (acc_cooldownUntil (el_account input)) (Option.bind (el_health input) health_cooldownUntil) (el_now input)
   \<and> missingCapabilities (el_capabilities input) (el_required input) = []
   \<and> (Option.bind (el_provider input) requiredTermsRevision = None
      \<or> Option.bind (el_provider input) requiredTermsRevision = termsAcknowledgedRevision (el_account input))"
  by (cases "acc_state (el_account input)"; cases "el_credential input")
    (auto simp: eligibility_reasons_def Let_def)

lemma terms_accepted_iff: "(x = None \<or> x = y) \<longleftrightarrow> (\<forall>t. x = Some t \<longrightarrow> y = Some t)"
  by (cases x) auto

lemma eligible_iff_may_serve: "eligibility_reasons input = [] \<longleftrightarrow> may_serve input"
  by (cases "el_provider input"; cases "el_health input")
    (auto simp: eligibility_reasons_Nil_iff terms_accepted_iff may_serve_def provider_unusable_def isExpired_iff
      isCooling_def isFuture_iff missingCapabilities_Nil not_less not_le)

section \<open>Decision traces\<close>

record trace_candidate =
  tc_accountPseudonym :: string
  tc_eligible :: bool
  tc_reasons :: "eligibility_reason list"

record trace_selected =
  ts_accountPseudonym :: string
  ts_credentialGeneration :: int

record decision_trace =
  dt_requestId :: string
  dt_policyRevision :: int
  dt_policyHash :: string
  dt_strategy :: pool_strategy
  dt_sourceRule :: string
  dt_candidates :: "trace_candidate list"
  dt_selected :: "trace_selected option"
  dt_decidedAt :: int

definition toTraceCandidates :: "candidate_assessment list \<Rightarrow> trace_candidate list" where
  "toTraceCandidates candidates =
     map (\<lambda>c. \<lparr>tc_accountPseudonym = cand_pseudonym c, tc_eligible = eligible c, tc_reasons = reasons c\<rparr>)
       candidates"

fun strategy_text :: "pool_strategy \<Rightarrow> string" where
  "strategy_text Manual = ''manual''"
| "strategy_text Round_robin = ''round-robin''"
| "strategy_text Fill_first = ''fill-first''"

text \<open>
  The trace as the object \<open>createDecisionTrace\<close> freezes, \<open>iso_text\<close> being \<open>toISOString\<close>.
  \<open>selected\<close> is left out when there is none.
\<close>

definition trace_json :: "(int \<Rightarrow> string) \<Rightarrow> decision_trace \<Rightarrow> json" where
  "trace_json iso_text trace =
     JObj ([(''requestId'', JStr (dt_requestId trace)),
            (''policyRevision'', JNum (of_int (dt_policyRevision trace))),
            (''policyHash'', JStr (dt_policyHash trace)),
            (''strategy'', JStr (strategy_text (dt_strategy trace))),
            (''sourceRule'', JStr (dt_sourceRule trace)),
            (''candidates'', JArr (map (\<lambda>c. JObj
               [(''accountPseudonym'', JStr (tc_accountPseudonym c)),
                (''eligible'', JBool (tc_eligible c)),
                (''reasons'', JArr (map (\<lambda>r. JStr (reason_text r)) (tc_reasons c)))])
               (dt_candidates trace))),
            (''decidedAt'', JStr (iso_text (dt_decidedAt trace)))]
           @ (case dt_selected trace of
                None \<Rightarrow> []
              | Some sel \<Rightarrow> [(''selected'', JObj
                  [(''accountPseudonym'', JStr (ts_accountPseudonym sel)),
                   (''credentialGeneration'', JNum (of_int (ts_credentialGeneration sel)))])]))"

definition createDecisionTrace :: "(int \<Rightarrow> string) \<Rightarrow> decision_trace \<Rightarrow> string + decision_trace" where
  "createDecisionTrace iso_text trace =
     (if assertSecretFree (trace_json iso_text trace) then Inr trace
      else Inl ''management DTO must not serialize secret or identity fields'')"

lemma trace_json_secret_free: "assertSecretFree (trace_json iso_text trace)"
  by (cases "dt_selected trace")
    (auto simp: trace_json_def assertSecretFree_JObj assertSecretFree_JArr FORBIDDEN_KEYS_def)

lemma createDecisionTrace_ok [simp]: "createDecisionTrace iso_text trace = Inr trace"
  by (simp add: createDecisionTrace_def trace_json_secret_free)

section \<open>Effective routes\<close>

record effective_route =
  er_requestId :: string
  er_providerId :: string
  er_modelId :: string
  er_adapterId :: string
  er_accountId :: string
  er_accountPseudonym :: string
  er_credentialHandle :: string
  er_credentialGeneration :: int
  er_sourceRule :: string
  er_policyRevision :: int
  er_policyHash :: string
  er_capabilitySnapshot :: provider_capabilities
  er_decidedAt :: date_text
  outputStarted :: bool
  er_reasoningEvidence :: "reasoning_capability_evidence option"
  er_resolvedReasoning :: "resolved_reasoning option"

text \<open>\<open>createEffectiveRoute\<close> copies and freezes: on values it is the identity.\<close>

definition createEffectiveRoute :: "effective_route \<Rightarrow> effective_route" where
  "createEffectiveRoute route = route"

definition markOutputStarted :: "effective_route \<Rightarrow> effective_route" where
  "markOutputStarted route = createEffectiveRoute (route\<lparr>outputStarted := True\<rparr>)"

definition toRouteRecord :: "effective_route \<Rightarrow> string \<Rightarrow> route_record" where
  "toRouteRecord route role =
     \<lparr>rr_role = role, rr_providerId = er_providerId route, rr_modelId = er_modelId route,
      rr_adapterId = er_adapterId route, rr_credentialRef = Handle_ref (er_credentialHandle route),
      rr_capabilities = er_capabilitySnapshot route, rr_reasoningEvidence = None\<rparr>"

definition toRouteDecision :: "effective_route \<Rightarrow> string \<Rightarrow> route_decision" where
  "toRouteDecision route configFingerprint =
     \<lparr>rd_requestId = er_requestId route, rd_providerId = er_providerId route,
      rd_modelId = er_modelId route, rd_adapterId = er_adapterId route,
      rd_credentialRef = Handle_ref (er_credentialHandle route),
      rd_sourceRule = er_sourceRule route, rd_configFingerprint = configFingerprint,
      rd_capabilitySnapshot = er_capabilitySnapshot route, rd_decidedAt = er_decidedAt route,
      rd_accountPseudonym = Some (er_accountPseudonym route),
      rd_credentialGeneration = Some (er_credentialGeneration route),
      rd_reasoningEvidence = er_reasoningEvidence route,
      rd_resolvedReasoning = er_resolvedReasoning route\<rparr>"

lemma markOutputStarted_fields [simp]:
  "outputStarted (markOutputStarted r)" "er_accountId (markOutputStarted r) = er_accountId r"
  "er_credentialGeneration (markOutputStarted r) = er_credentialGeneration r"
  "er_credentialHandle (markOutputStarted r) = er_credentialHandle r"
  by (simp_all add: markOutputStarted_def createEffectiveRoute_def)

section \<open>Commitment\<close>

datatype commitment_state =
    Not_sent
  | Sent_unacknowledged
  | Provider_accepted
  | Client_output_started
  | Tool_boundary
  | Unknown_commitment

definition commitmentAllowsRetry :: "commitment_state \<Rightarrow> bool" where
  "commitmentAllowsRetry state \<longleftrightarrow> state = Not_sent"

definition isAmbiguousCommitment :: "commitment_state \<Rightarrow> bool" where
  "isAmbiguousCommitment state \<longleftrightarrow> state = Unknown_commitment \<or> state = Sent_unacknowledged"

fun commitmentRank :: "commitment_state \<Rightarrow> nat" where
  "commitmentRank Not_sent = 0"
| "commitmentRank Sent_unacknowledged = 1"
| "commitmentRank Provider_accepted = 2"
| "commitmentRank Client_output_started = 3"
| "commitmentRank Tool_boundary = 4"
| "commitmentRank Unknown_commitment = 5"

definition isProviderCommitted :: "commitment_state \<Rightarrow> bool" where
  "isProviderCommitted state \<longleftrightarrow> commitmentRank Provider_accepted \<le> commitmentRank state"

text \<open>Commitment states in the order of \<open>commitmentRank\<close>.\<close>

instantiation commitment_state :: linorder
begin

definition less_eq_commitment_state :: "commitment_state \<Rightarrow> commitment_state \<Rightarrow> bool" where
  "less_eq_commitment_state a b \<longleftrightarrow> commitmentRank a \<le> commitmentRank b"

definition less_commitment_state :: "commitment_state \<Rightarrow> commitment_state \<Rightarrow> bool" where
  "less_commitment_state a b \<longleftrightarrow> commitmentRank a < commitmentRank b"

instance
proof
  fix a b :: commitment_state
  show "a \<le> b \<Longrightarrow> b \<le> a \<Longrightarrow> a = b"
    by (cases a; cases b) (simp_all add: less_eq_commitment_state_def)
qed (auto simp: less_eq_commitment_state_def less_commitment_state_def)

end

lemma retry_proof:
  "commitmentAllowsRetry state \<Longrightarrow> \<not> isAmbiguousCommitment state \<and> \<not> isProviderCommitted state"
  by (simp add: commitmentAllowsRetry_def isAmbiguousCommitment_def isProviderCommitted_def)

lemma commitment_trichotomy:
  "commitmentAllowsRetry state \<or> isAmbiguousCommitment state \<or> isProviderCommitted state"
  by (cases state) (simp_all add: commitmentAllowsRetry_def isAmbiguousCommitment_def isProviderCommitted_def)

section \<open>Properties\<close>

text \<open>C14: an account is eligible exactly when its provider is known and enabled and its required terms (if any)
  are the acknowledged ones, it is ready, it has a present and unexpired credential with a bound generation, no
  cooldown of its account or health row lies in the future, and the model has every required capability.\<close>

theorem eligibility_specification:
  "eligible (evaluateEligibility input) \<longleftrightarrow> may_serve input"
  by (simp add: eligible_iff_may_serve)

end
