(* ===== verification/Pools.thy ===== *)
theory Pools
  imports Eligibility
begin

text \<open>
  Choosing the account of a pool: \<^verbatim>\<open>src/routing/pools/quota.ts\<close>,
  \<^verbatim>\<open>strategies.ts\<close>, \<^verbatim>\<open>affinity.ts\<close>, \<^verbatim>\<open>assess.ts\<close> and
  \<^verbatim>\<open>selector.ts\<close>.

  A selection reads the live tables, the policy snapshot it was given, the session-affinity
  file and the round-robin cursors, and may change the last two. Selections are serialized
  by the selector's promise chain and read the store before their first \<open>await\<close>, so one
  selection is one step. SHA-256 and \<open>toISOString\<close> are the fields of \<open>select_env\<close>. A date
  in the affinity file is a date string; a file that is missing or is not JSON is a value of
  \<open>affinity_file\<close>. Writing the file is taken to succeed.
\<close>

section \<open>Quota classes\<close>

definition QUOTA_CLASS_ORDER :: "string list" where
  "QUOTA_CLASS_ORDER = [''healthy'', ''warning'', ''unknown'', ''exhausted'']"

fun index_of :: "'a \<Rightarrow> 'a list \<Rightarrow> nat option" where
  "index_of x [] = None"
| "index_of x (y # ys) = (if x = y then Some 0 else map_option Suc (index_of x ys))"

definition quotaRank :: "string \<Rightarrow> nat" where
  "quotaRank quota_class =
     (case index_of quota_class QUOTA_CLASS_ORDER of
        None \<Rightarrow> get_or 0 (index_of ''unknown'' QUOTA_CLASS_ORDER)
      | Some index \<Rightarrow> index)"

lemma quotaRank_value:
  "quotaRank q = (if q = ''healthy'' then 0 else if q = ''warning'' then 1 else if q = ''exhausted'' then 3 else 2)"
  by (simp add: quotaRank_def QUOTA_CLASS_ORDER_def)

section \<open>Strategies\<close>

definition MAX_SAFE_INTEGER :: int where
  "MAX_SAFE_INTEGER = 2 ^ 53 - 1"

text \<open>JavaScript's \<open>%\<close> keeps the sign of the dividend.\<close>

definition js_rem :: "int \<Rightarrow> int \<Rightarrow> int" where
  "js_rem a b = sgn a * (\<bar>a\<bar> mod \<bar>b\<bar>)"

lemma js_rem_normalised: "0 < n \<Longrightarrow> js_rem (js_rem c n + n) n = c mod n"
proof -
  assume n: "0 < n"
  have bound: "0 \<le> \<bar>c\<bar> mod n" "\<bar>c\<bar> mod n < n" using n by simp_all
  show ?thesis
  proof (cases "0 \<le> c")
    case True
    then have "js_rem c n = c mod n" using n by (cases "c = 0") (simp_all add: js_rem_def)
    moreover have "0 < c mod n + n" using n by (simp add: add_nonneg_pos)
    ultimately show ?thesis using n by (simp add: js_rem_def)
  next
    case False
    then have "js_rem c n = - (\<bar>c\<bar> mod n)" using n by (simp add: js_rem_def)
    moreover have "0 < n - \<bar>c\<bar> mod n" using bound by simp
    moreover have "\<bar>n - \<bar>c\<bar> mod n\<bar> = n - \<bar>c\<bar> mod n" using bound by simp
    ultimately have "js_rem (js_rem c n + n) n = (n - \<bar>c\<bar> mod n) mod n"
      using n by (simp add: js_rem_def)
    also have "\<dots> = c mod n" using False n by (simp add: mod_diff_right_eq mod_minus_eq)
    finally show ?thesis .
  qed
qed

definition eligibleCandidates :: "candidate_assessment list \<Rightarrow> string set \<Rightarrow> candidate_assessment list" where
  "eligibleCandidates candidates exclude =
     sort_key cand_pinOrder (filter (\<lambda>c. eligible c \<and> cand_accountId c \<notin> exclude) candidates)"

definition orderByQuotaThenPin :: "candidate_assessment list \<Rightarrow> candidate_assessment list" where
  "orderByQuotaThenPin candidates = sort_key (\<lambda>c. (quotaRank (cand_quotaClass c), cand_pinOrder c)) candidates"

definition designatedPin :: "candidate_assessment list \<Rightarrow> string option" where
  "designatedPin candidates =
     (case sort_key cand_pinOrder candidates of [] \<Rightarrow> None | c # _ \<Rightarrow> Some (cand_accountId c))"

definition selectManual ::
  "candidate_assessment list \<Rightarrow> string option \<Rightarrow> string set \<Rightarrow> candidate_assessment option" where
  "selectManual candidates pinnedAccountId exclude =
     (case or_else pinnedAccountId (designatedPin candidates) of
        None \<Rightarrow> None
      | Some pinId \<Rightarrow>
          if pinId \<in> exclude then None
          else List.find (\<lambda>c. cand_accountId c = pinId \<and> eligible c) candidates)"

definition selectFillFirst :: "candidate_assessment list \<Rightarrow> candidate_assessment option" where
  "selectFillFirst es = (case es of [] \<Rightarrow> None | c # _ \<Rightarrow> Some c)"

definition selectRoundRobin :: "candidate_assessment list \<Rightarrow> int \<Rightarrow> (candidate_assessment \<times> int) option" where
  "selectRoundRobin es cursor =
     (if es = [] then None
      else let n = int (length es); index = js_rem (js_rem cursor n + n) n
           in Some (es ! nat index, js_rem (index + 1) n))"

lemma selectRoundRobin_eq:
  "selectRoundRobin es cursor =
     (if es = [] then None
      else Some (es ! nat (cursor mod int (length es)), (cursor + 1) mod int (length es)))"
proof (cases "es = []")
  case False
  let ?n = "int (length es)"
  have n: "0 < ?n" using False by simp
  have "js_rem (cursor mod ?n + 1) ?n = (cursor mod ?n + 1) mod ?n"
    using n by (simp add: js_rem_def add_nonneg_pos)
  then have "js_rem (cursor mod ?n + 1) ?n = (cursor + 1) mod ?n" by (simp add: mod_add_left_eq)
  with False js_rem_normalised [OF n] show ?thesis by (simp add: selectRoundRobin_def Let_def)
qed (simp add: selectRoundRobin_def)

section \<open>What a strategy promises\<close>

text \<open>A strategy picks among the assessed candidates; \<open>total_pick\<close> never misses an eligible one.\<close>

locale account_pick =
  fixes pick :: "candidate_assessment list \<Rightarrow> string set \<Rightarrow> candidate_assessment option"
  assumes pick_sound: "pick cs exclude = Some c \<Longrightarrow> c \<in> set cs \<and> eligible c \<and> cand_accountId c \<notin> exclude"
begin

lemma pick_excluded: "pick cs exclude = Some c \<Longrightarrow> cand_accountId c \<notin> exclude"
  using pick_sound by blast

lemma pick_None: "\<forall>c \<in> set cs. eligible c \<longrightarrow> cand_accountId c \<in> exclude \<Longrightarrow> pick cs exclude = None"
  using pick_sound by (metis not_None_eq)

end

locale total_pick = account_pick +
  assumes pick_total: "pick cs exclude = None \<Longrightarrow> c \<in> set cs \<Longrightarrow> eligible c \<Longrightarrow> cand_accountId c \<in> exclude"
begin

lemma pick_None_iff: "pick cs exclude = None \<longleftrightarrow> (\<forall>c \<in> set cs. eligible c \<longrightarrow> cand_accountId c \<in> exclude)"
  using pick_total pick_None by blast

end

lemma set_eligibleCandidates [simp]:
  "set (eligibleCandidates cs exclude) = {c \<in> set cs. eligible c \<and> cand_accountId c \<notin> exclude}"
  by (auto simp: eligibleCandidates_def)

definition rotation_order :: "bool \<Rightarrow> candidate_assessment list \<Rightarrow> string set \<Rightarrow> candidate_assessment list" where
  "rotation_order quota_aware cs exclude =
     (let es = eligibleCandidates cs exclude in if quota_aware then orderByQuotaThenPin es else es)"

lemma set_rotation_order [simp]:
  "set (rotation_order quota_aware cs exclude) = {c \<in> set cs. eligible c \<and> cand_accountId c \<notin> exclude}"
  by (simp add: rotation_order_def Let_def orderByQuotaThenPin_def)

interpretation manual_pick: account_pick "\<lambda>cs exclude. selectManual cs pin exclude"
  by unfold_locales (auto simp: selectManual_def dest!: find_Some_in split: option.splits if_splits)

lemma rotation_order_Nil:
  "rotation_order quota_aware cs exclude = [] \<longleftrightarrow> (\<forall>c \<in> set cs. eligible c \<longrightarrow> cand_accountId c \<in> exclude)"
  unfolding set_empty [symmetric] set_rotation_order by auto

lemma in_rotation_order:
  "c \<in> set (rotation_order quota_aware cs exclude) \<Longrightarrow> c \<in> set cs \<and> eligible c \<and> cand_accountId c \<notin> exclude"
  by simp

lemma fill_first_in: "selectFillFirst es = Some c \<Longrightarrow> c \<in> set es"
  by (auto simp: selectFillFirst_def split: list.splits)

lemma fill_first_None [simp]: "selectFillFirst es = None \<longleftrightarrow> es = []"
  by (auto simp: selectFillFirst_def split: list.splits)

interpretation fill_first: total_pick "\<lambda>cs exclude. selectFillFirst (rotation_order quota_aware cs exclude)"
proof
  show "selectFillFirst (rotation_order quota_aware cs exclude) = Some c \<Longrightarrow>
          c \<in> set cs \<and> eligible c \<and> cand_accountId c \<notin> exclude" for cs exclude c
    by (rule in_rotation_order [OF fill_first_in])
qed (simp add: rotation_order_Nil)

lemma round_robin_in: "selectRoundRobin es cursor = Some (c, nxt) \<Longrightarrow> c \<in> set es"
  by (auto simp: selectRoundRobin_eq nat_less_iff split: if_splits intro!: nth_mem)

lemma round_robin_None [simp]: "selectRoundRobin es cursor = None \<longleftrightarrow> es = []"
  by (simp add: selectRoundRobin_eq)

lemma round_robin_Nil [simp]: "selectRoundRobin [] cursor = None"
  by simp

interpretation round_robin:
  total_pick "\<lambda>cs exclude. map_option fst (selectRoundRobin (rotation_order quota_aware cs exclude) cursor)"
proof
  show "map_option fst (selectRoundRobin (rotation_order quota_aware cs exclude) cursor) = Some c \<Longrightarrow>
          c \<in> set cs \<and> eligible c \<and> cand_accountId c \<notin> exclude" for cs exclude c
    by (rule in_rotation_order, rule round_robin_in [where nxt = "snd (the (selectRoundRobin (rotation_order quota_aware cs exclude) cursor))"])
      (auto simp del: set_rotation_order)
qed (simp add: rotation_order_Nil)

section \<open>Session affinity\<close>

record parsed_affinity =
  sessionEnabled :: bool
  sessionTtlSeconds :: int
  quotaAware :: bool
  pa_cooldownSeconds :: cooldown_seconds

record affinity_binding =
  ab_sessionKeyHash :: string
  ab_poolId :: string
  ab_accountId :: string
  ab_expiresAt :: date_text

text \<open>
  An entry of the file's \<open>sessions\<close> array: an object, with each of the four fields where
  it is a string, or anything else.
\<close>

datatype stored_item =
    Stored_object (so_sessionKeyHash: "string option") (so_poolId: "string option")
      (so_accountId: "string option") (so_expiresAt: "date_text option")
  | Stored_other json

datatype affinity_file = No_file | Unparsable_file | Sessions "stored_item list"

fun as_rat :: "json \<Rightarrow> rat option" where
  "as_rat (JNum r) = Some r"
| "as_rat _ = None"

definition positiveInteger :: "json option \<Rightarrow> int \<Rightarrow> int" where
  "positiveInteger value fallback =
     (case Option.bind value as_rat of
        None \<Rightarrow> fallback
      | Some r \<Rightarrow> if snd (quotient_of r) = 1 \<and> 0 \<le> r then fst (quotient_of r) else fallback)"

text \<open>\<open>isRecord(root[key]) ? root[key] : {}\<close>, the empty record being \<open>JObj []\<close>.\<close>

definition record_field :: "json \<Rightarrow> string \<Rightarrow> json option" where
  "record_field obj key = (case json_field obj key of Some j \<Rightarrow> if is_json_object j then Some j else None | None \<Rightarrow> None)"

definition parseAffinity :: "json option \<Rightarrow> parsed_affinity" where
  "parseAffinity value =
     (let root = (case value of Some j \<Rightarrow> if is_json_object j then j else JObj [] | None \<Rightarrow> JObj []);
          session = get_or (JObj []) (or_else (record_field root ''session'') (record_field root ''sessionAffinity''));
          cooldown = get_or (JObj []) (record_field root ''cooldownSeconds'')
      in \<lparr>sessionEnabled = (json_field session ''enabled'' = Some (JBool True)),
          sessionTtlSeconds = positiveInteger (json_field session ''ttlSeconds'') 0,
          quotaAware = (json_field root ''quotaAware'' = Some (JBool True)),
          pa_cooldownSeconds =
            \<lparr>cooldown_auth = positiveInteger (json_field cooldown ''auth'') (cooldown_auth DEFAULT_COOLDOWN_SECONDS),
             cooldown_quota = positiveInteger (json_field cooldown ''quota'') (cooldown_quota DEFAULT_COOLDOWN_SECONDS),
             cooldown_transient =
               positiveInteger (json_field cooldown ''transient'') (cooldown_transient DEFAULT_COOLDOWN_SECONDS)\<rparr>\<rparr>)"

fun asBinding :: "stored_item \<Rightarrow> affinity_binding option" where
  "asBinding (Stored_object (Some h) (Some p) (Some a) (Some e)) =
     Some \<lparr>ab_sessionKeyHash = h, ab_poolId = p, ab_accountId = a, ab_expiresAt = e\<rparr>"
| "asBinding _ = None"

definition binding_live :: "int \<Rightarrow> affinity_binding \<Rightarrow> bool" where
  "binding_live now b = (case date_parse (ab_expiresAt b) of None \<Rightarrow> False | Some t \<Rightarrow> now < t)"

definition affinity_load :: "int \<Rightarrow> affinity_file \<Rightarrow> affinity_binding list" where
  "affinity_load now file =
     (case file of
        Sessions items \<Rightarrow>
          concat (map (\<lambda>item. case asBinding item of
                                None \<Rightarrow> [] | Some b \<Rightarrow> if binding_live now b then [b] else []) items)
      | _ \<Rightarrow> [])"

definition affinity_save :: "affinity_binding list \<Rightarrow> affinity_file" where
  "affinity_save bindings =
     Sessions (map (\<lambda>b. Stored_object (Some (ab_sessionKeyHash b)) (Some (ab_poolId b)) (Some (ab_accountId b))
                          (Some (ab_expiresAt b))) bindings)"

definition affinity_remember :: "affinity_binding list \<Rightarrow> affinity_binding \<Rightarrow> affinity_file" where
  "affinity_remember current b =
     affinity_save (filter (\<lambda>item. ab_sessionKeyHash item \<noteq> ab_sessionKeyHash b) current @ [b])"

definition affinity_forget :: "affinity_binding list \<Rightarrow> string \<Rightarrow> affinity_file" where
  "affinity_forget current session_hash =
     affinity_save (filter (\<lambda>item. ab_sessionKeyHash item \<noteq> session_hash) current)"

lemma binding_eta:
  "\<lparr>ab_sessionKeyHash = ab_sessionKeyHash x, ab_poolId = ab_poolId x, ab_accountId = ab_accountId x,
    ab_expiresAt = ab_expiresAt x\<rparr> = (x :: affinity_binding)"
  by simp

lemma affinity_load_save [simp]: "affinity_load now (affinity_save bs) = filter (binding_live now) bs"
proof -
  have "concat (map (\<lambda>b. if binding_live now b then [b] else []) bs) = filter (binding_live now) bs"
    by (induction bs) auto
  then show ?thesis by (simp add: affinity_load_def affinity_save_def comp_def binding_eta)
qed

lemma positiveInteger_nonneg: "0 \<le> d \<Longrightarrow> 0 \<le> positiveInteger v d"
proof (cases "Option.bind v as_rat")
  case (Some r)
  assume d: "0 \<le> d"
  have "0 \<le> fst (quotient_of r)" if "0 \<le> r" "snd (quotient_of r) = 1"
  proof -
    have "r = of_int (fst (quotient_of r))"
      using quotient_of_div [of r "fst (quotient_of r)" 1] that(2) by (metis div_by_1 of_int_1 prod.collapse)
    then show ?thesis using that(1) by (metis of_int_0_le_iff)
  qed
  with d Some show ?thesis by (simp add: positiveInteger_def)
qed (simp add: positiveInteger_def)

section \<open>Selection input and candidates\<close>

record select_input =
  si_requestId :: string
  si_poolId :: string
  si_policy :: policy_revision
  si_required :: "capability_requirement list"
  si_capabilities :: provider_capabilities
  si_modelId :: string
  si_adapterId :: string
  si_role :: string
  si_credentials :: "string \<Rightarrow> credential_snapshot option"
  si_sessionKey :: "string option"
  si_pinnedAccountId :: "string option"
  si_excludeAccountIds :: "string list"
  si_reasoningEvidence :: "reasoning_capability_evidence option"
  si_resolvedReasoning :: "resolved_reasoning option"

text \<open>The errors of \<^verbatim>\<open>src/routing/errors.ts\<close>, and those of the control plane that pass through.\<close>

datatype routing_error =
    No_eligible_account string
  | Stale_route_binding string
  | Route_sealed
  | Control_plane_failure cp_error
  | Plain_failure string

fun routing_error_code :: "routing_error \<Rightarrow> string option" where
  "routing_error_code (No_eligible_account _) = Some ''no-eligible-account''"
| "routing_error_code (Stale_route_binding _) = Some ''stale-route-binding''"
| "routing_error_code Route_sealed = Some ''route-sealed''"
| "routing_error_code (Control_plane_failure e) = cp_error_code e"
| "routing_error_code (Plain_failure _) = None"

definition isRoutingError :: "routing_error \<Rightarrow> bool" where
  "isRoutingError e = (case e of Control_plane_failure _ \<Rightarrow> False | Plain_failure _ \<Rightarrow> False | _ \<Rightarrow> True)"

definition requirePool :: "policy_revision \<Rightarrow> string \<Rightarrow> routing_error + pool_record" where
  "requirePool policy poolId =
     (case List.find (\<lambda>p. pool_id p = poolId) (snap_pools (snapshot policy)) of
        None \<Rightarrow> Inl (Control_plane_failure (Validation ''pool was not found''))
      | Some p \<Rightarrow> Inr p)"

definition sourceRuleFor :: "pool_strategy \<Rightarrow> bool \<Rightarrow> string" where
  "sourceRuleFor strat by_affinity =
     (if by_affinity then ''pool:'' @ strategy_text strat @ '':affinity''
      else if strat = Manual then ''pool:manual:pin''
      else ''pool:'' @ strategy_text strat)"

definition liveAccount :: "cp_tables \<Rightarrow> string \<Rightarrow> policy_revision \<Rightarrow> account_record option" where
  "liveAccount T accountId policy =
     or_else (List.find (\<lambda>a. acc_id a = accountId) (listAccounts T))
       (List.find (\<lambda>a. acc_id a = accountId) (snap_accounts (snapshot policy)))"

definition liveProvider :: "cp_tables \<Rightarrow> string \<Rightarrow> policy_revision \<Rightarrow> provider_record option" where
  "liveProvider T providerId policy =
     or_else (List.find (\<lambda>p. prov_id p = providerId) (listProviders T))
       (List.find (\<lambda>p. prov_id p = providerId) (snap_providers (snapshot policy)))"

definition account_input ::
  "cp_tables \<Rightarrow> account_record \<Rightarrow> select_input \<Rightarrow> int \<Rightarrow> int option \<Rightarrow> eligibility_input" where
  "account_input T account input now pin =
     \<lparr>el_account = account, el_provider = liveProvider T (acc_providerId account) (si_policy input),
      el_pinOrder = get_or MAX_SAFE_INTEGER pin, el_now = now,
      el_credential = si_credentials input (credentialHandle account),
      el_required = si_required input, el_capabilities = si_capabilities input,
      el_health = healthById (acc_id account) T\<rparr>"

definition evaluateAccount ::
  "cp_tables \<Rightarrow> account_record \<Rightarrow> select_input \<Rightarrow> int \<Rightarrow> int option \<Rightarrow> candidate_assessment" where
  "evaluateAccount T account input now pin = evaluateEligibility (account_input T account input now pin)"

definition assess_membership ::
  "cp_tables \<Rightarrow> select_input \<Rightarrow> int \<Rightarrow> membership_record \<Rightarrow> candidate_assessment" where
  "assess_membership T input now m =
     (case liveAccount T (mem_accountId m) (si_policy input) of
        None \<Rightarrow> \<lparr>cand_accountId = mem_accountId m, cand_pseudonym = ''acct-unknown'',
                 cand_credentialHandle = [], cand_generation = 0,
                 cand_pinOrder = get_or MAX_SAFE_INTEGER (pinOrder m), cand_quotaClass = ''unknown'',
                 eligible = False, reasons = [Auth_unready]\<rparr>
      | Some account \<Rightarrow> evaluateAccount T account input now (pinOrder m))"

definition assessPool :: "cp_tables \<Rightarrow> pool_record \<Rightarrow> select_input \<Rightarrow> int \<Rightarrow> candidate_assessment list" where
  "assessPool T pool input now = map (assess_membership T input now) (memberships pool)"

definition assessAccount ::
  "cp_tables \<Rightarrow> string \<Rightarrow> pool_record \<Rightarrow> select_input \<Rightarrow> int \<Rightarrow> candidate_assessment option" where
  "assessAccount T accountId pool input now =
     (let m = List.find (\<lambda>m. mem_accountId m = accountId) (memberships pool)
      in map_option (\<lambda>account. evaluateAccount T account input now (Option.bind m pinOrder))
           (liveAccount T accountId (si_policy input)))"

definition bindRoute ::
  "select_input \<Rightarrow> pool_record \<Rightarrow> candidate_assessment \<Rightarrow> string \<Rightarrow> date_text \<Rightarrow> effective_route" where
  "bindRoute input pool selected sourceRule decidedAt =
     createEffectiveRoute
       \<lparr>er_requestId = si_requestId input, er_providerId = pool_providerId pool,
        er_modelId = si_modelId input, er_adapterId = si_adapterId input,
        er_accountId = cand_accountId selected, er_accountPseudonym = cand_pseudonym selected,
        er_credentialHandle = cand_credentialHandle selected,
        er_credentialGeneration = cand_generation selected, er_sourceRule = sourceRule,
        er_policyRevision = revision (si_policy input), er_policyHash = policy_hash (si_policy input),
        er_capabilitySnapshot = si_capabilities input, er_decidedAt = decidedAt, outputStarted = False,
        er_reasoningEvidence = si_reasoningEvidence input,
        er_resolvedReasoning = si_resolvedReasoning input\<rparr>"

section \<open>The selector\<close>

record select_env =
  se_sha256 :: "string \<Rightarrow> string"
  se_iso :: "int \<Rightarrow> string"

record selector_state =
  cursors :: "string \<Rightarrow> int option"
  affinityFile :: affinity_file

record select_result =
  sr_route :: effective_route
  sr_trace :: decision_trace

definition cursorFor :: "string \<Rightarrow> selector_state \<Rightarrow> int" where
  "cursorFor poolId st = get_or 0 (cursors st poolId)"

definition resetEphemeralState :: "selector_state \<Rightarrow> selector_state" where
  "resetEphemeralState st = st\<lparr>cursors := (\<lambda>_. None)\<rparr>"

definition applyStrategy ::
  "candidate_assessment list \<Rightarrow> pool_record \<Rightarrow> parsed_affinity \<Rightarrow> string option \<Rightarrow> string set \<Rightarrow> selector_state
    \<Rightarrow> candidate_assessment option \<times> selector_state" where
  "applyStrategy assessments pool affin pinned exclude st =
     (if strategy pool = Manual then (selectManual assessments pinned exclude, st)
      else
        let es = rotation_order (quotaAware affin) assessments exclude
        in if strategy pool = Fill_first then (selectFillFirst es, st)
           else (case selectRoundRobin es (cursorFor (pool_id pool) st) of
                   None \<Rightarrow> (None, st)
                 | Some (selected, nextCursor) \<Rightarrow>
                     (Some selected, st\<lparr>cursors := (cursors st)(pool_id pool := Some nextCursor)\<rparr>)))"

definition takeAffinity ::
  "candidate_assessment list \<Rightarrow> affinity_binding list \<Rightarrow> pool_record \<Rightarrow> parsed_affinity \<Rightarrow> string option
    \<Rightarrow> string set \<Rightarrow> selector_state \<Rightarrow> candidate_assessment option \<times> selector_state" where
  "takeAffinity assessments bindings pool affin sessionHash exclude st =
     (case sessionHash of
        None \<Rightarrow> (None, st)
      | Some hash \<Rightarrow>
          if \<not> sessionEnabled affin \<or> sessionTtlSeconds affin \<le> 0 \<or> strategy pool = Manual then (None, st)
          else (case List.find (\<lambda>b. ab_sessionKeyHash b = hash \<and> ab_poolId b = pool_id pool) bindings of
                  None \<Rightarrow> (None, st)
                | Some binding \<Rightarrow>
                    (case List.find (\<lambda>c. cand_accountId c = ab_accountId binding) assessments of
                       Some matched \<Rightarrow>
                         if eligible matched \<and> cand_accountId matched \<notin> exclude then (Some matched, st)
                         else (None, st\<lparr>affinityFile := affinity_forget bindings hash\<rparr>)
                     | None \<Rightarrow> (None, st\<lparr>affinityFile := affinity_forget bindings hash\<rparr>))))"

definition selection_trace ::
  "select_input \<Rightarrow> pool_record \<Rightarrow> string \<Rightarrow> candidate_assessment list \<Rightarrow> candidate_assessment option \<Rightarrow> int
    \<Rightarrow> decision_trace" where
  "selection_trace input pool sourceRule assessments selected now =
     \<lparr>dt_requestId = si_requestId input, dt_policyRevision = revision (si_policy input),
      dt_policyHash = policy_hash (si_policy input), dt_strategy = strategy pool,
      dt_sourceRule = sourceRule, dt_candidates = toTraceCandidates assessments,
      dt_selected = map_option (\<lambda>c. \<lparr>ts_accountPseudonym = cand_pseudonym c,
                                      ts_credentialGeneration = cand_generation c\<rparr>) selected,
      dt_decidedAt = now\<rparr>"

text \<open>\<open>selectLocked\<close>, which \<open>select\<close> runs after every earlier selection has settled.\<close>

definition selectLocked ::
  "select_env \<Rightarrow> cp_tables \<Rightarrow> int \<Rightarrow> select_input \<Rightarrow> selector_state \<Rightarrow> (routing_error + select_result) \<times> selector_state" where
  "selectLocked env T now input st =
     (case requirePool (si_policy input) (si_poolId input) of
        Inl e \<Rightarrow> (Inl e, st)
      | Inr pool \<Rightarrow>
          let affin = parseAffinity (affinity pool);
              assessments = assessPool T pool input now;
              exclude = set (si_excludeAccountIds input);
              bindings = affinity_load now (affinityFile st);
              sessionHash = map_option (se_sha256 env) (si_sessionKey input);
              (sticky, st1) = takeAffinity assessments bindings pool affin sessionHash exclude st;
              (selected, st2) =
                (case sticky of
                   Some c \<Rightarrow> (Some c, st1)
                 | None \<Rightarrow> applyStrategy assessments pool affin (si_pinnedAccountId input) exclude st1);
              sourceRule = sourceRuleFor (strategy pool) (sticky \<noteq> None)
          in case createDecisionTrace (se_iso env)
                    (selection_trace input pool sourceRule assessments selected now) of
               Inl message \<Rightarrow> (Inl (Plain_failure message), st2)
             | Inr trace \<Rightarrow>
                 (case selected of
                    None \<Rightarrow> (Inl (No_eligible_account (si_requestId input)), st2)
                  | Some c \<Rightarrow>
                      (Inr \<lparr>sr_route = bindRoute input pool c sourceRule (Instant now), sr_trace = trace\<rparr>,
                       case sessionHash of
                         None \<Rightarrow> st2
                       | Some hash \<Rightarrow>
                           if sessionEnabled affin \<and> 0 < sessionTtlSeconds affin
                           then st2\<lparr>affinityFile := affinity_remember bindings
                                  \<lparr>ab_sessionKeyHash = hash, ab_poolId = pool_id pool,
                                   ab_accountId = cand_accountId c,
                                   ab_expiresAt = Instant (now + sessionTtlSeconds affin * 1000)\<rparr>\<rparr>
                           else st2)))"

definition revalidate :: "cp_tables \<Rightarrow> int \<Rightarrow> effective_route \<Rightarrow> select_input \<Rightarrow> routing_error + unit" where
  "revalidate T now route input =
     bind_ok (requirePool (si_policy input) (si_poolId input)) (\<lambda>pool.
       case assessAccount T (er_accountId route) pool input now of
         None \<Rightarrow> Inl (Stale_route_binding ''eligible state changed before invoke'')
       | Some assessment \<Rightarrow>
           if \<not> eligible assessment then Inl (Stale_route_binding ''eligible state changed before invoke'')
           else if cand_generation assessment \<noteq> er_credentialGeneration route
           then Inl (Stale_route_binding ''credential generation changed before invoke'')
           else Inr ())"

section \<open>What a selection guarantees\<close>

lemma applyStrategy_sound:
  assumes "applyStrategy assessments pool affin pinned exclude st = (Some c, st')"
  shows "c \<in> set assessments \<and> eligible c \<and> cand_accountId c \<notin> exclude"
proof (cases "strategy pool = Manual")
  case True
  with assms show ?thesis by (auto simp: applyStrategy_def dest: manual_pick.pick_sound)
next
  case manual: False
  show ?thesis
  proof (cases "strategy pool = Fill_first")
    case True
    with assms manual have "selectFillFirst (rotation_order (quotaAware affin) assessments exclude) = Some c"
      by (simp add: applyStrategy_def Let_def)
    then show ?thesis by (rule fill_first.pick_sound)
  next
    case False
    with assms manual have "map_option fst (selectRoundRobin (rotation_order (quotaAware affin) assessments exclude)
        (cursorFor (pool_id pool) st)) = Some c"
      by (auto simp: applyStrategy_def Let_def split: option.splits)
    then show ?thesis by (rule round_robin.pick_sound)
  qed
qed

lemma applyStrategy_total:
  assumes "strategy pool \<noteq> Manual"
  shows "fst (applyStrategy assessments pool affin pinned exclude st) = None \<longleftrightarrow>
           (\<forall>c \<in> set assessments. eligible c \<longrightarrow> cand_accountId c \<in> exclude)"
  using assms fill_first.pick_None_iff [of "quotaAware affin" assessments exclude]
    round_robin.pick_None_iff [where quota_aware = "quotaAware affin" and cursor = "cursorFor (pool_id pool) st"
        and cs = assessments and exclude = exclude]
  by (auto simp: applyStrategy_def Let_def simp del: fill_first_None split: option.split)

lemma takeAffinity_sound:
  assumes "takeAffinity assessments bindings pool affin hash exclude st = (Some c, st')"
  shows "c \<in> set assessments \<and> eligible c \<and> cand_accountId c \<notin> exclude"
  using assms by (auto simp: takeAffinity_def dest: find_Some_in split: option.splits if_splits)

definition choose_account ::
  "select_env \<Rightarrow> cp_tables \<Rightarrow> int \<Rightarrow> select_input \<Rightarrow> pool_record \<Rightarrow> selector_state
    \<Rightarrow> bool \<times> candidate_assessment option \<times> selector_state" where
  "choose_account env T now input pool st =
     (let assessments = assessPool T pool input now;
          (sticky, st1) = takeAffinity assessments (affinity_load now (affinityFile st)) pool
             (parseAffinity (affinity pool)) (map_option (se_sha256 env) (si_sessionKey input))
             (set (si_excludeAccountIds input)) st
      in case sticky of
           Some c \<Rightarrow> (True, Some c, st1)
         | None \<Rightarrow> (False, applyStrategy assessments pool (parseAffinity (affinity pool))
                             (si_pinnedAccountId input) (set (si_excludeAccountIds input)) st1))"

definition remember_choice ::
  "select_env \<Rightarrow> int \<Rightarrow> select_input \<Rightarrow> pool_record \<Rightarrow> candidate_assessment \<Rightarrow> affinity_binding list
    \<Rightarrow> selector_state \<Rightarrow> selector_state" where
  "remember_choice env now input pool c bindings st =
     (let affin = parseAffinity (affinity pool) in
      case map_option (se_sha256 env) (si_sessionKey input) of
        None \<Rightarrow> st
      | Some hash \<Rightarrow>
          if sessionEnabled affin \<and> 0 < sessionTtlSeconds affin
          then st\<lparr>affinityFile := affinity_remember bindings
                 \<lparr>ab_sessionKeyHash = hash, ab_poolId = pool_id pool, ab_accountId = cand_accountId c,
                  ab_expiresAt = Instant (now + sessionTtlSeconds affin * 1000)\<rparr>\<rparr>
          else st)"

lemma selectLocked_eq:
  "selectLocked env T now input st =
     (case requirePool (si_policy input) (si_poolId input) of
        Inl e \<Rightarrow> (Inl e, st)
      | Inr pool \<Rightarrow>
          (case choose_account env T now input pool st of
             (sticky, None, st2) \<Rightarrow> (Inl (No_eligible_account (si_requestId input)), st2)
           | (sticky, Some c, st2) \<Rightarrow>
               (Inr \<lparr>sr_route = bindRoute input pool c (sourceRuleFor (strategy pool) sticky) (Instant now),
                     sr_trace = selection_trace input pool (sourceRuleFor (strategy pool) sticky)
                       (assessPool T pool input now) (Some c) now\<rparr>,
                remember_choice env now input pool c (affinity_load now (affinityFile st)) st2)))"
  unfolding selectLocked_def choose_account_def remember_choice_def Let_def createDecisionTrace_ok
  by (simp split: sum.split prod.split option.split)

lemma choose_account_sound:
  assumes "choose_account env T now input pool st = (sticky, Some c, st')"
  shows "c \<in> set (assessPool T pool input now) \<and> eligible c \<and> cand_accountId c \<notin> set (si_excludeAccountIds input)"
  using assms unfolding choose_account_def Let_def
  by (auto split: prod.splits option.splits dest: takeAffinity_sound applyStrategy_sound)

lemma choose_account_total:
  assumes "strategy pool \<noteq> Manual"
  shows "fst (snd (choose_account env T now input pool st)) = None \<longleftrightarrow>
     (\<forall>c \<in> set (assessPool T pool input now). eligible c \<longrightarrow> cand_accountId c \<in> set (si_excludeAccountIds input))"
proof -
  obtain sticky st1 where take: "takeAffinity (assessPool T pool input now) (affinity_load now (affinityFile st)) pool
             (parseAffinity (affinity pool)) (map_option (se_sha256 env) (si_sessionKey input))
             (set (si_excludeAccountIds input)) st = (sticky, st1)" by fastforce
  show ?thesis
  proof (cases sticky)
    case None
    with take applyStrategy_total [OF assms] show ?thesis by (simp add: choose_account_def)
  next
    case (Some c)
    then show ?thesis using takeAffinity_sound [OF take [unfolded Some]] take by (auto simp: choose_account_def)
  qed
qed

lemma selectLocked_Inr:
  assumes "selectLocked env T now input st = (Inr res, st')"
  obtains pool sticky c st2 where "requirePool (si_policy input) (si_poolId input) = Inr pool"
    and "choose_account env T now input pool st = (sticky, Some c, st2)"
    and "sr_route res = bindRoute input pool c (sourceRuleFor (strategy pool) sticky) (Instant now)"
    and "sr_trace res = selection_trace input pool (sourceRuleFor (strategy pool) sticky)
                       (assessPool T pool input now) (Some c) now"
    and "st' = remember_choice env now input pool c (affinity_load now (affinityFile st)) st2"
  using assms by (auto simp: selectLocked_eq split: sum.splits prod.splits option.splits)

lemma requirePool_Inr:
  "requirePool policy i = Inr pool \<Longrightarrow> pool \<in> set (snap_pools (snapshot policy)) \<and> pool_id pool = i"
  by (auto simp: requirePool_def dest: find_Some_in split: option.splits)

lemma liveAccount_id: "liveAccount T i policy = Some a \<Longrightarrow> acc_id a = i"
  by (auto simp: liveAccount_def or_else_def dest: find_Some_in split: option.splits)

lemma eligible_member:
  assumes "c \<in> set (assessPool T pool input now)" and "eligible c"
  obtains m account where "m \<in> set (memberships pool)"
    and "liveAccount T (mem_accountId m) (si_policy input) = Some account"
    and "c = evaluateAccount T account input now (pinOrder m)"
    and "may_serve (account_input T account input now (pinOrder m))"
    and "cand_accountId c = mem_accountId m"
  using assms liveAccount_id
  by (auto simp: assessPool_def assess_membership_def evaluateAccount_def eligible_iff_may_serve account_input_def
      split: option.splits)

section \<open>A concrete pool\<close>

text \<open>Two ready accounts of one provider in a pool with session affinity, used by the witnesses.\<close>

definition demo_caps :: provider_capabilities where
  "demo_caps = \<lparr>cap_streaming = True, cap_tools = True, cap_parallelTools = True, cap_images = False,
     cap_reasoning = False, cap_redactedReasoning = False, cap_structuredOutput = False,
     cap_tokenCounting = Exact_local\<rparr>"

definition demo_account :: "string \<Rightarrow> string \<Rightarrow> account_record" where
  "demo_account i quota = \<lparr>acc_id = i, pseudonym = ''p'' @ i, acc_providerId = ''prov'', credentialHandle = ''h'' @ i,
     credentialGeneration = 1, acc_state = Ready, pauseReason = None, quotaClass = quota, acc_cooldownUntil = None,
     termsRevision = None, termsAcknowledgedRevision = None, acc_version = 1, acc_createdAt = 0, acc_updatedAt = 0\<rparr>"

definition demo_provider :: provider_record where
  "demo_provider = \<lparr>prov_id = ''prov'', prov_name = ''prov'', integrationMode = Direct, endpointPolicy = None,
     capabilityEvidence = None, requiredTermsRevision = None, provenanceRef = None, prov_enabled = True,
     prov_version = 1, prov_createdAt = 0, prov_updatedAt = 0\<rparr>"

definition demo_pool :: "pool_strategy \<Rightarrow> bool \<Rightarrow> pool_record" where
  "demo_pool strat sessions = \<lparr>pool_id = ''pool'', pool_name = ''pool'', pool_providerId = ''prov'', strategy = strat,
     affinity = Some (JObj [(''session'', JObj [(''enabled'', JBool sessions), (''ttlSeconds'', JNum 60)]),
                            (''quotaAware'', JBool True)]),
     retryBudget = 1,
     memberships = [\<lparr>mem_poolId = ''pool'', mem_accountId = ''a'', pinOrder = Some 0\<rparr>,
                    \<lparr>mem_poolId = ''pool'', mem_accountId = ''b'', pinOrder = Some 1\<rparr>],
     pool_version = 1, pool_createdAt = 0, pool_updatedAt = 0\<rparr>"

definition demo_tables :: cp_tables where
  "demo_tables = empty_tables\<lparr>t_providers := [demo_provider],
     t_accounts := [demo_account ''a'' ''unknown'', demo_account ''b'' ''healthy'']\<rparr>"

definition demo_input :: "pool_strategy \<Rightarrow> bool \<Rightarrow> string list \<Rightarrow> select_input" where
  "demo_input strat sessions exclude = \<lparr>si_requestId = ''r'', si_poolId = ''pool'',
     si_policy = \<lparr>revision = 1, policy_hash = ''hash'', policy_createdAt = 0,
        snapshot = \<lparr>snap_providers = [], snap_accounts = [], snap_pools = [demo_pool strat sessions],
                    snap_profiles = []\<rparr>\<rparr>,
     si_required = [], si_capabilities = demo_caps, si_modelId = ''m'', si_adapterId = ''ad'', si_role = ''primary'',
     si_credentials = (\<lambda>_. Some \<lparr>cred_present = True, cred_generation = 2, cred_expiresAt = None\<rparr>),
     si_sessionKey = Some ''s'', si_pinnedAccountId = None, si_excludeAccountIds = exclude,
     si_reasoningEvidence = None, si_resolvedReasoning = None\<rparr>"

definition demo_select_env :: select_env where
  "demo_select_env = \<lparr>se_sha256 = id, se_iso = (\<lambda>_. ''date'')\<rparr>"

definition demo_selector :: selector_state where
  "demo_selector = \<lparr>cursors = (\<lambda>_. None), affinityFile = No_file\<rparr>"

lemma demo_select:
  "map_sum id (\<lambda>r. er_accountId (sr_route r))
     (fst (selectLocked demo_select_env demo_tables 100 (demo_input Fill_first True []) demo_selector)) = Inr ''b''"
  by code_simp

section \<open>Properties\<close>

text \<open>C18: a selection is sound. The route it binds names an account that is a member of the requested pool of
  the policy, is not excluded, and may serve the request now by its live record (ready, unexpired present
  credential, no cooldown, accepted terms, capable model); the route carries that account's pseudonym, credential
  handle and bound credential generation, which is at least 1, and output has not started on it.\<close>

theorem select_sound:
  assumes "selectLocked env T now input st = (Inr res, st')"
  shows "\<exists>pool m account. pool \<in> set (snap_pools (snapshot (si_policy input))) \<and> pool_id pool = si_poolId input
     \<and> m \<in> set (memberships pool) \<and> mem_accountId m \<notin> set (si_excludeAccountIds input)
     \<and> liveAccount T (mem_accountId m) (si_policy input) = Some account
     \<and> may_serve (account_input T account input now (pinOrder m))
     \<and> er_accountId (sr_route res) = mem_accountId m \<and> er_providerId (sr_route res) = pool_providerId pool
     \<and> er_accountPseudonym (sr_route res) = pseudonym account
     \<and> er_credentialHandle (sr_route res) = credentialHandle account
     \<and> er_credentialGeneration (sr_route res) =
         boundGeneration account (si_credentials input (credentialHandle account))
     \<and> 1 \<le> er_credentialGeneration (sr_route res) \<and> \<not> outputStarted (sr_route res)"
proof -
  from assms obtain pool sticky c st2 where pool: "requirePool (si_policy input) (si_poolId input) = Inr pool"
    and choice: "choose_account env T now input pool st = (sticky, Some c, st2)"
    and route: "sr_route res = bindRoute input pool c (sourceRuleFor (strategy pool) sticky) (Instant now)"
    by (rule selectLocked_Inr)
  note c = choose_account_sound [OF choice]
  from c obtain m account where m: "m \<in> set (memberships pool)"
      "liveAccount T (mem_accountId m) (si_policy input) = Some account"
      "c = evaluateAccount T account input now (pinOrder m)"
      "may_serve (account_input T account input now (pinOrder m))" "cand_accountId c = mem_accountId m"
    by (auto elim: eligible_member)
  have "1 \<le> cand_generation c" using m(3,4) by (simp add: evaluateAccount_def may_serve_def)
  with requirePool_Inr [OF pool] m c route show ?thesis
    by (intro exI [of _ pool] exI [of _ m] exI [of _ account])
      (auto simp: bindRoute_def createEffectiveRoute_def evaluateAccount_def account_input_def)
qed

theorem select_sound_witness:
  "\<exists>res st'. selectLocked demo_select_env demo_tables 100 (demo_input Fill_first True [''b'']) demo_selector = (Inr res, st')
     \<and> er_accountId (sr_route res) = ''a'' \<and> er_credentialGeneration (sr_route res) \<ge> 1"
proof -
  let ?r = "selectLocked demo_select_env demo_tables 100 (demo_input Fill_first True [''b'']) demo_selector"
  have "map_sum id (\<lambda>r. er_accountId (sr_route r)) (fst ?r) = Inr ''a''" by code_simp
  then obtain res st' where run: "?r = (Inr res, st')" and a: "er_accountId (sr_route res) = ''a''"
    by (cases ?r; cases "fst ?r") auto
  show ?thesis using run a select_sound [OF run] by auto
qed

text \<open>a pool that rotates (fill-first or round-robin) never refuses while it can serve: selection fails with
  no-eligible-account exactly when every member that may serve the request is excluded, and it fails in no other way
  once the pool is known.\<close>

theorem select_complete:
  assumes "requirePool (si_policy input) (si_poolId input) = Inr pool" and "strategy pool \<noteq> Manual"
  shows "fst (selectLocked env T now input st) = Inl e \<longleftrightarrow>
     e = No_eligible_account (si_requestId input)
     \<and> (\<forall>m \<in> set (memberships pool). \<forall>account. liveAccount T (mem_accountId m) (si_policy input) = Some account
          \<longrightarrow> may_serve (account_input T account input now (pinOrder m))
          \<longrightarrow> mem_accountId m \<in> set (si_excludeAccountIds input))"
proof -
  have "(\<forall>c \<in> set (assessPool T pool input now). eligible c \<longrightarrow> cand_accountId c \<in> set (si_excludeAccountIds input))
    \<longleftrightarrow> (\<forall>m \<in> set (memberships pool). \<forall>account. liveAccount T (mem_accountId m) (si_policy input) = Some account
          \<longrightarrow> may_serve (account_input T account input now (pinOrder m))
          \<longrightarrow> mem_accountId m \<in> set (si_excludeAccountIds input))"
    using liveAccount_id
    by (fastforce simp: assessPool_def assess_membership_def evaluateAccount_def eligible_iff_may_serve
        account_input_def split: option.splits)
  moreover have "fst (selectLocked env T now input st) = Inl e \<longleftrightarrow>
     e = No_eligible_account (si_requestId input) \<and> fst (snd (choose_account env T now input pool st)) = None"
    by (auto simp: selectLocked_eq assms(1) split: prod.splits option.splits)
  ultimately show ?thesis using choose_account_total [OF assms(2)] by simp
qed

theorem select_complete_witness:
  "fst (selectLocked demo_select_env demo_tables 100 (demo_input Round_robin False [''a'', ''b'']) demo_selector)
     = Inl (No_eligible_account ''r'')"
proof -
  let ?in = "demo_input Round_robin False [''a'', ''b'']"
  have p: "requirePool (si_policy ?in) (si_poolId ?in) = Inr (demo_pool Round_robin False)" by code_simp
  have "si_requestId ?in = ''r''" and "set (si_excludeAccountIds ?in) = {''a'', ''b''}"
    by (simp_all add: demo_input_def)
  moreover have "\<forall>m \<in> set (memberships (demo_pool Round_robin False)). mem_accountId m \<in> {''a'', ''b''}"
    by (simp add: demo_pool_def)
  ultimately show ?thesis using select_complete [OF p] by (simp add: demo_pool_def)
qed

text \<open>revalidation right after a selection, against the same tables at the same time, accepts the route: the
  stale-binding errors before an invocation can only come from a change in between.\<close>

theorem revalidate_after_select:
  assumes "selectLocked env T now input st = (Inr res, st')"
  shows "revalidate T now (sr_route res) input = Inr ()"
proof -
  from assms obtain pool sticky c st2 where pool: "requirePool (si_policy input) (si_poolId input) = Inr pool"
    and choice: "choose_account env T now input pool st = (sticky, Some c, st2)"
    and route: "sr_route res = bindRoute input pool c (sourceRuleFor (strategy pool) sticky) (Instant now)"
    by (rule selectLocked_Inr)
  have c: "c \<in> set (assessPool T pool input now)" "eligible c" using choose_account_sound [OF choice] by simp_all
  obtain m :: membership_record and account where m:
      "liveAccount T (mem_accountId m) (si_policy input) = Some account"
      "c = evaluateAccount T account input now (pinOrder m)"
      "may_serve (account_input T account input now (pinOrder m))" "cand_accountId c = mem_accountId m"
    by (rule eligible_member [OF c]) blast
  have "may_serve (account_input T account input now pin)" for pin
    using m(3) by (simp add: may_serve_def account_input_def)
  then show ?thesis
    using m pool route
    by (simp add: revalidate_def assessAccount_def bindRoute_def createEffectiveRoute_def evaluateAccount_def
        eligible_iff_may_serve account_input_def)
qed

theorem revalidate_after_select_witness:
  "\<exists>res st'. selectLocked demo_select_env demo_tables 100 (demo_input Manual True []) demo_selector = (Inr res, st')
     \<and> revalidate demo_tables 100 (sr_route res) (demo_input Manual True []) = Inr ()"
proof -
  let ?r = "selectLocked demo_select_env demo_tables 100 (demo_input Manual True []) demo_selector"
  have "is_ok (fst ?r)" by code_simp
  then obtain res st' where run: "?r = (Inr res, st')"
    by (cases ?r; cases "fst ?r") (auto simp: is_ok_def)
  show ?thesis using run revalidate_after_select [OF run] by auto
qed

text \<open>fill-first with quota awareness picks a best candidate: no eligible, non-excluded candidate has a better
  quota class than the picked one, nor the same class with a smaller pin order.\<close>

theorem fill_first_picks_best:
  assumes "selectFillFirst (rotation_order True cs exclude) = Some c"
    and "d \<in> set cs" and "eligible d" and "cand_accountId d \<notin> exclude"
  shows "quotaRank (cand_quotaClass c) < quotaRank (cand_quotaClass d)
       \<or> (quotaRank (cand_quotaClass c) = quotaRank (cand_quotaClass d) \<and> cand_pinOrder c \<le> cand_pinOrder d)"
proof -
  obtain rest where order: "sort_key (\<lambda>c. (quotaRank (cand_quotaClass c), cand_pinOrder c))
      (eligibleCandidates cs exclude) = c # rest"
    using assms(1)
    by (auto simp: selectFillFirst_def rotation_order_def orderByQuotaThenPin_def split: list.splits)
  have "(quotaRank (cand_quotaClass c), cand_pinOrder c) \<le> (quotaRank (cand_quotaClass d), cand_pinOrder d)"
    by (rule sort_key_head_least [OF order]) (simp add: assms(2-4))
  then show ?thesis by (auto simp: less_eq_prod_def)
qed

theorem fill_first_picks_best_witness:
  "quotaRank ''healthy'' < quotaRank ''unknown'' \<or> (quotaRank ''healthy'' = quotaRank ''unknown'' \<and> (1::int) \<le> 0)"
proof -
  let ?cs = "assessPool demo_tables (demo_pool Fill_first False) (demo_input Fill_first False []) 100"
  have pick: "map_option (\<lambda>c. (cand_quotaClass c, cand_pinOrder c)) (selectFillFirst (rotation_order True ?cs {}))
      = Some (''healthy'', 1)" by code_simp
  then obtain c where c: "selectFillFirst (rotation_order True ?cs {}) = Some c"
    and f: "cand_quotaClass c = ''healthy''" "cand_pinOrder c = 1" by auto
  have d: "?cs ! 0 \<in> set ?cs" by (rule nth_mem) code_simp
  have e: "eligible (?cs ! 0)" "cand_quotaClass (?cs ! 0) = ''unknown''" "cand_pinOrder (?cs ! 0) = 0" by code_simp+
  show ?thesis using fill_first_picks_best [OF c d e(1)] e(2,3) f by simp
qed

text \<open>The picks of consecutive round-robin selections over the same candidates.\<close>

fun round_robin_run :: "candidate_assessment list \<Rightarrow> int \<Rightarrow> nat \<Rightarrow> candidate_assessment list" where
  "round_robin_run es cursor 0 = []"
| "round_robin_run es cursor (Suc k) =
     (case selectRoundRobin es cursor of
        None \<Rightarrow> []
      | Some (c, nextCursor) \<Rightarrow> c # round_robin_run es nextCursor k)"

lemma round_robin_run_nth:
  assumes "es \<noteq> []"
  shows "round_robin_run es cursor k = map (\<lambda>j. es ! nat ((cursor + int j) mod int (length es))) [0..<k]"
proof (induction k arbitrary: cursor)
  case 0
  then show ?case by simp
next
  case (Suc k)
  let ?n = "int (length es)"
  have "round_robin_run es cursor (Suc k) = es ! nat (cursor mod ?n) # round_robin_run es ((cursor + 1) mod ?n) k"
    using assms by (simp add: selectRoundRobin_eq)
  also have "\<dots> = map (\<lambda>j. es ! nat ((cursor + int j) mod ?n)) (0 # map Suc [0..<k])"
    unfolding Suc.IH by (simp add: mod_add_left_eq add.assoc)
  also have "0 # map Suc [0..<k] = [0..<Suc k]" by (simp add: map_Suc_upt upt_conv_Cons del: upt_Suc)
  finally show ?case .
qed

text \<open>C36: round-robin is fair. From any stored cursor, as many consecutive picks as there are eligible candidates
  visit them all, in their order, starting at the cursor's position and wrapping around once.\<close>

theorem round_robin_fair:
  assumes "es \<noteq> []"
  shows "round_robin_run es cursor (length es) = rotate (nat (cursor mod int (length es))) es"
proof (rule nth_equalityI)
  let ?n = "int (length es)"
  show "length (round_robin_run es cursor (length es)) = length (rotate (nat (cursor mod ?n)) es)"
    by (simp add: round_robin_run_nth [OF assms])
  fix j assume "j < length (round_robin_run es cursor (length es))"
  then have j: "j < length es" by (simp add: round_robin_run_nth [OF assms])
  have "nat ((cursor + int j) mod ?n) = (nat (cursor mod ?n) + j) mod length es"
  proof -
    have "(cursor + int j) mod ?n = (cursor mod ?n + int j) mod ?n" by (simp add: mod_add_left_eq)
    also have "\<dots> = int ((nat (cursor mod ?n) + j) mod length es)"
      using assms by (simp add: zmod_int)
    finally show ?thesis by simp
  qed
  with j show "round_robin_run es cursor (length es) ! j = rotate (nat (cursor mod ?n)) es ! j"
    by (simp add: round_robin_run_nth [OF assms] nth_rotate)
qed

theorem round_robin_fair_witness:
  "map cand_accountId (round_robin_run
     (assessPool demo_tables (demo_pool Round_robin False) (demo_input Round_robin False []) 100) 3 2) = [''b'', ''a'']"
proof -
  let ?cs = "assessPool demo_tables (demo_pool Round_robin False) (demo_input Round_robin False []) 100"
  have n: "length ?cs = 2" by code_simp
  then have ne: "?cs \<noteq> []" by auto
  have ids: "map cand_accountId ?cs = [''a'', ''b'']" by code_simp
  have "map cand_accountId (round_robin_run ?cs 3 2) = rotate 1 (map cand_accountId ?cs)"
    using round_robin_fair [OF ne, of 3] n by (simp add: rotate_map)
  then show ?thesis by (simp add: ids)
qed

lemma find_remembered:
  assumes "binding_live now b"
  shows "List.find (\<lambda>x. ab_sessionKeyHash x = ab_sessionKeyHash b \<and> ab_poolId x = ab_poolId b)
           (affinity_load now (affinity_remember current b)) = Some b"
proof -
  have "List.find (\<lambda>x. ab_sessionKeyHash x = ab_sessionKeyHash b \<and> ab_poolId x = ab_poolId b)
          (filter (binding_live now) (filter (\<lambda>x. ab_sessionKeyHash x \<noteq> ab_sessionKeyHash b) current)) = None"
    by (auto simp: find_None_iff)
  then show ?thesis using assms by (simp add: affinity_remember_def find_append)
qed

lemma may_serve_pin: "may_serve (account_input T a input now pin) \<longleftrightarrow> may_serve (account_input T a input now None)"
  by (simp add: may_serve_def account_input_def)

lemma assess_membership_id: "cand_accountId (assess_membership T input now m) = mem_accountId m"
  by (auto simp: assess_membership_def evaluateAccount_def account_input_def split: option.split
      dest: liveAccount_id)

lemma assess_membership_live:
  assumes "liveAccount T (mem_accountId m) (si_policy input) = Some a"
  shows "eligible (assess_membership T input now m) \<longleftrightarrow> may_serve (account_input T a input now None)"
proof -
  have "assess_membership T input now m = evaluateAccount T a input now (pinOrder m)"
    by (simp add: assess_membership_def assms)
  then show ?thesis
    by (simp only: evaluateAccount_def evaluateEligibility_fields eligible_iff_may_serve) (rule may_serve_pin)
qed

lemma find_map_key:
  assumes "\<And>m. key (f m) = id_of m" and "m \<in> set ms" and "id_of m = i"
  shows "\<exists>k \<in> set ms. id_of k = i \<and> List.find (\<lambda>c. key c = i) (map f ms) = Some (f k)"
  using assms(2,3) by (induction ms) (auto simp: assms(1))

lemma find_member_assessment:
  assumes "m \<in> set (memberships pool)" and "mem_accountId m = i"
    and "liveAccount T i (si_policy input) = Some account"
    and "may_serve (account_input T account input now None)"
  shows "\<exists>c. List.find (\<lambda>c. cand_accountId c = i) (assessPool T pool input now) = Some c
            \<and> eligible c \<and> cand_accountId c = i"
proof -
  obtain k where k: "mem_accountId k = i"
    and hit: "List.find (\<lambda>c. cand_accountId c = i) (assessPool T pool input now) = Some (assess_membership T input now k)"
    unfolding assessPool_def
    using find_map_key [where key = cand_accountId and f = "assess_membership T input now" and id_of = mem_accountId,
      OF assess_membership_id assms(1,2)] by blast
  have "eligible (assess_membership T input now k)"
    by (simp only: assess_membership_live [OF assms(3) [folded k]] assms(4))
  then show ?thesis using hit k assess_membership_id by auto
qed

text \<open>session affinity holds. After a selection with a session key in a rotating pool with session affinity, and
  until the pool's time to live has passed, the next selection for the same session and pool picks the same account
  again, whatever the cursors and the other candidates, as long as that account may still serve and is not excluded.\<close>

theorem session_affinity_sticks:
  assumes first: "selectLocked env T now input st = (Inr res, st')"
    and pool: "requirePool (si_policy input) (si_poolId input) = Inr pool"
      "requirePool (si_policy input') (si_poolId input') = Inr pool"
    and session: "si_sessionKey input = Some key" "si_sessionKey input' = Some key"
    and affin: "strategy pool \<noteq> Manual" "sessionEnabled (parseAffinity (affinity pool))"
      "now \<le> now'" "now' < now + sessionTtlSeconds (parseAffinity (affinity pool)) * 1000"
    and live: "liveAccount T' (er_accountId (sr_route res)) (si_policy input') = Some account"
      "may_serve (account_input T' account input' now' None)"
      "er_accountId (sr_route res) \<notin> set (si_excludeAccountIds input')"
  shows "\<exists>res'. fst (selectLocked env T' now' input' st') = Inr res'
     \<and> er_accountId (sr_route res') = er_accountId (sr_route res)
     \<and> er_sourceRule (sr_route res') = ''pool:'' @ strategy_text (strategy pool) @ '':affinity''"
proof -
  let ?ttl = "sessionTtlSeconds (parseAffinity (affinity pool))"
  let ?hash = "se_sha256 env key"
  from first obtain sticky c st2 where choice: "choose_account env T now input pool st = (sticky, Some c, st2)"
    and route: "sr_route res = bindRoute input pool c (sourceRuleFor (strategy pool) sticky) (Instant now)"
    and st': "st' = remember_choice env now input pool c (affinity_load now (affinityFile st)) st2"
    by (rule selectLocked_Inr) (use pool in auto)
  have ttl: "0 < ?ttl" using affin(3,4) by simp
  have acct: "er_accountId (sr_route res) = cand_accountId c"
    by (simp add: route bindRoute_def createEffectiveRoute_def)
  let ?b = "\<lparr>ab_sessionKeyHash = ?hash, ab_poolId = pool_id pool, ab_accountId = cand_accountId c,
             ab_expiresAt = Instant (now + ?ttl * 1000)\<rparr>"
  have stored: "affinityFile st' = affinity_remember (affinity_load now (affinityFile st)) ?b"
    using session(1) affin(2) ttl by (simp add: st' remember_choice_def)
  have bound: "List.find (\<lambda>x. ab_sessionKeyHash x = ?hash \<and> ab_poolId x = pool_id pool)
      (affinity_load now' (affinityFile st')) = Some ?b"
    using find_remembered [of now' ?b] affin(4) by (simp add: stored binding_live_def)
  have "c \<in> set (assessPool T pool input now)" "eligible c" using choose_account_sound [OF choice] by simp_all
  then obtain m :: membership_record where m: "m \<in> set (memberships pool)" "mem_accountId m = cand_accountId c"
    by (rule eligible_member) simp
  from find_member_assessment [OF m, of T' input' account now'] live acct
  obtain c' where c': "List.find (\<lambda>x. cand_accountId x = cand_accountId c) (assessPool T' pool input' now') = Some c'"
      "eligible c'" "cand_accountId c' = cand_accountId c" by auto
  have "choose_account env T' now' input' pool st' = (True, Some c', st')"
    using bound c' live(3) session(2) affin(1,2) ttl acct
    by (simp add: choose_account_def takeAffinity_def)
  then show ?thesis
    using c'(3) acct pool(2)
    by (simp add: selectLocked_eq bindRoute_def createEffectiveRoute_def sourceRuleFor_def)
qed

theorem session_affinity_sticks_witness:
  "map_sum id (\<lambda>r. er_accountId (sr_route r))
     (fst (selectLocked demo_select_env demo_tables 200 (demo_input Round_robin True [])
       (snd (selectLocked demo_select_env demo_tables 100 (demo_input Round_robin True []) demo_selector)))) = Inr ''b''"
proof -
  let ?in = "demo_input Round_robin True []"
  let ?pool = "demo_pool Round_robin True"
  let ?r = "selectLocked demo_select_env demo_tables 100 ?in demo_selector"
  have v: "map_sum id (\<lambda>r. er_accountId (sr_route r)) (fst ?r) = Inr ''b''" by code_simp
  then obtain res st' where run: "?r = (Inr res, st')" and b: "er_accountId (sr_route res) = ''b''"
    by (cases ?r; cases "fst ?r") auto
  have pool: "requirePool (si_policy ?in) (si_poolId ?in) = Inr ?pool" by code_simp
  have affin: "sessionEnabled (parseAffinity (affinity ?pool))"
    "(200::int) < 100 + sessionTtlSeconds (parseAffinity (affinity ?pool)) * 1000" by code_simp+
  have live: "liveAccount demo_tables ''b'' (si_policy ?in) = Some (demo_account ''b'' ''healthy'')" by code_simp
  have "eligibility_reasons (account_input demo_tables (demo_account ''b'' ''healthy'') ?in 200 None) = []" by code_simp
  then have serve: "may_serve (account_input demo_tables (demo_account ''b'' ''healthy'') ?in 200 None)"
    by (simp add: eligible_iff_may_serve)
  have key: "si_sessionKey ?in = Some ''s''" "si_excludeAccountIds ?in = []" by (simp_all add: demo_input_def)
  have strat: "strategy ?pool \<noteq> Manual" by (simp add: demo_pool_def)
  from session_affinity_sticks [OF run pool pool key(1) key(1) strat affin(1) _ affin(2), of demo_tables
      "demo_account ''b'' ''healthy''"] live serve key(2) b run
  show ?thesis by auto
qed

text \<open>
  The binding is stored per session, not per session and pool: remembering a choice for one pool drops what the
  same session had in another, although \<open>takeAffinity\<close> looks bindings up by both.
\<close>

lemma remember_drops_other_pool:
  assumes "ab_poolId b \<noteq> other"
  shows "List.find (\<lambda>x. ab_sessionKeyHash x = ab_sessionKeyHash b \<and> ab_poolId x = other)
           (affinity_load now (affinity_remember current b)) = None"
  using assms by (auto simp: find_None_iff affinity_remember_def)

end
