(* ===== verification/Provider_Errors.thy ===== *)
theory Provider_Errors
  imports Eligibility
begin

text \<open>
  Provider failures crossing the adapter boundary: \<^verbatim>\<open>src/providers/provider-error.ts\<close>,
  \<^verbatim>\<open>provider-adapter.ts\<close> and the mapping onto the client's protocol in
  \<^verbatim>\<open>src/routes/provider-error-mapping.ts\<close>.

  The response is given by its status, its headers and its body as \<open>JSON.parse\<close> reads it
  (\<open>None\<close> when it throws); the bounded read of the body stream is I/O and not modelled.
  \<open>Number\<close> and \<open>Date.parse\<close> on header texts are arguments (\<open>None\<close> where they give \<open>NaN\<close> or
  an infinity), as is the clock.
\<close>

datatype status_class = Class_2xx | Class_4xx | Class_5xx | Class_transport | Class_protocol

record provider_rate_limit =
  rl_limit :: "rat option"
  rl_remaining :: "rat option"
  rl_resetSeconds :: "int option"

record provider_error_info =
  pei_statusCode :: int
  pei_code :: string
  pei_type :: "string option"
  pei_message :: string
  pei_param :: "string option"
  pei_retryAfterSeconds :: "int option"
  pei_rateLimit :: "provider_rate_limit option"

record provider_adapter_error =
  pae_code :: string
  pae_message :: string
  pae_info :: "provider_error_info option"
  pae_commitment :: commitment_state

definition MAX_MESSAGE_LENGTH :: nat where "MAX_MESSAGE_LENGTH = 300"
definition MAX_CODE_LENGTH :: nat where "MAX_CODE_LENGTH = 64"

record header_env =
  he_headers :: "string \<Rightarrow> string option"
  he_number :: "string \<Rightarrow> rat option"
  he_date :: "string \<Rightarrow> int option"
  he_now :: int

section \<open>Parsing a failed response\<close>

definition statusClassOf :: "int \<Rightarrow> status_class" where
  "statusClassOf code =
     (if 200 \<le> code \<and> code < 300 then Class_2xx
      else if 400 \<le> code \<and> code < 500 then Class_4xx
      else if 500 \<le> code \<and> code < 600 then Class_5xx
      else Class_protocol)"

definition boundedString :: "json option \<Rightarrow> nat \<Rightarrow> string option" where
  "boundedString value limit =
     (case value of
        Some (JStr s) \<Rightarrow> (let trimmed = js_trim s in if trimmed = [] then None else Some (take limit trimmed))
      | _ \<Rightarrow> None)"

definition headerNumber :: "header_env \<Rightarrow> string \<Rightarrow> rat option" where
  "headerNumber h key =
     (case he_headers h key of
        None \<Rightarrow> None
      | Some raw \<Rightarrow>
          (case he_number h raw of
             None \<Rightarrow> None
           | Some v \<Rightarrow> if 0 \<le> v then Some v else None))"

definition retryAfterSecondsOf :: "header_env \<Rightarrow> int option" where
  "retryAfterSecondsOf h =
     (case he_headers h ''retry-after'' of
        None \<Rightarrow> None
      | Some raw \<Rightarrow>
          let as_date = (case he_date h raw of
                           None \<Rightarrow> None
                         | Some parsed \<Rightarrow> Some (max 0 \<lceil>of_int (parsed - he_now h) / (1000 :: rat)\<rceil>))
          in (case he_number h raw of
                None \<Rightarrow> as_date
              | Some seconds \<Rightarrow> if 0 \<le> seconds then Some \<lceil>seconds\<rceil> else as_date))"

definition rateLimitOf :: "header_env \<Rightarrow> provider_rate_limit option" where
  "rateLimitOf h =
     (let limit = headerNumber h ''x-ratelimit-limit'';
          remaining = headerNumber h ''x-ratelimit-remaining'';
          resetSeconds = retryAfterSecondsOf h
      in if limit = None \<and> remaining = None \<and> resetSeconds = None then None
         else Some \<lparr>rl_limit = limit, rl_remaining = remaining, rl_resetSeconds = resetSeconds\<rparr>)"

definition as_record :: "json option \<Rightarrow> json option" where
  "as_record value = (case value of Some j \<Rightarrow> if is_json_object j then Some j else None | None \<Rightarrow> None)"

definition field_of :: "json option \<Rightarrow> string \<Rightarrow> json option" where
  "field_of value key = Option.bind value (\<lambda>j. json_field j key)"

definition codeForStatus :: "int \<Rightarrow> string" where
  "codeForStatus code =
     (if code = 401 \<or> code = 403 then ''authentication_error''
      else if code = 429 then ''rate_limit_error''
      else if 400 \<le> code \<and> code < 500 then ''invalid_request_error''
      else ''api_error'')"

text \<open>\<open>status_text\<close> is \<open>String(statusCode)\<close>.\<close>

definition parseProviderError ::
  "header_env \<Rightarrow> (int \<Rightarrow> string) \<Rightarrow> int \<Rightarrow> json option \<Rightarrow> provider_error_info" where
  "parseProviderError h status_text statusCode body =
     (let retryAfterSeconds = retryAfterSecondsOf h;
          rateLimit = rateLimitOf h;
          top = as_record body;
          errorField = (if top = None then None else as_record (field_of top ''error''));
          candidate = or_else errorField top;
          code0 = boundedString (field_of candidate ''code'') MAX_CODE_LENGTH;
          ty = boundedString (field_of candidate ''type'') MAX_CODE_LENGTH;
          messageCandidate = boundedString (field_of candidate ''message'') MAX_MESSAGE_LENGTH;
          param = boundedString (field_of candidate ''param'') MAX_CODE_LENGTH;
          code1 = (if code0 = None
                   then boundedString (if errorField = None then field_of top ''error'' else None) MAX_CODE_LENGTH
                   else code0);
          code2 = (if code1 = None \<and> ty \<noteq> None then ty else code1);
          message1 = (if messageCandidate = None then boundedString (field_of top ''message'') MAX_MESSAGE_LENGTH
                      else messageCandidate)
      in \<lparr>pei_statusCode = statusCode,
          pei_code = get_or (codeForStatus statusCode) code2,
          pei_type = ty,
          pei_message = get_or (''Provider request failed (HTTP '' @ status_text statusCode @ '')'') message1,
          pei_param = param,
          pei_retryAfterSeconds = retryAfterSeconds,
          pei_rateLimit = rateLimit\<rparr>)"

section \<open>Translation to the client's protocol\<close>

datatype error_target = Openai_target | Anthropic_target

text \<open>
  The value of \<open>known[code]\<close>: a code of the table, or what a plain object inherits from
  \<open>Object.prototype\<close> under that name (a function or an accessor, not a string).
\<close>

datatype protocol_code = Code string | Inherited string

definition known_codes :: "(string \<times> string) list" where
  "known_codes =
     [(''authentication_error'', ''authentication_error''),
      (''permission_error'', ''permission_error''),
      (''not_found_error'', ''not_found_error''),
      (''rate_limit_error'', ''rate_limit_error''),
      (''overloaded_error'', ''overloaded_error''),
      (''invalid_request_error'', ''invalid_request_error''),
      (''api_error'', ''api_error''),
      (''timeout_error'', ''timeout_error''),
      (''quota_exceeded'', ''rate_limit_error''),
      (''insufficient_quota'', ''rate_limit_error'')]"

definition object_prototype_keys :: "string list" where
  "object_prototype_keys =
     [''constructor'', ''__defineGetter__'', ''__defineSetter__'', ''hasOwnProperty'', ''__lookupGetter__'',
      ''__lookupSetter__'', ''isPrototypeOf'', ''propertyIsEnumerable'', ''toString'', ''valueOf'',
      ''__proto__'', ''toLocaleString'']"

definition known_code :: "string \<Rightarrow> protocol_code option" where
  "known_code code =
     (case map_of known_codes code of
        Some c \<Rightarrow> Some (Code c)
      | None \<Rightarrow> if code \<in> set object_prototype_keys then Some (Inherited code) else None)"

definition mapStatusForProtocol :: "int \<Rightarrow> error_target \<Rightarrow> int" where
  "mapStatusForProtocol code target =
     (let anthropic = (target = Anthropic_target) in
      if code = 401 \<or> code = 403 then 401
      else if code = 429 then 429
      else if code = 408 \<or> code = 504 then (if anthropic then 529 else 504)
      else if code = 503 \<or> code = 529 then (if anthropic then 529 else 503)
      else if 500 \<le> code then (if anthropic then 529 else 502)
      else if 400 \<le> code \<and> code < 500 then 400
      else (if anthropic then 529 else 502))"

definition codeForProtocol :: "string \<Rightarrow> int \<Rightarrow> error_target \<Rightarrow> protocol_code" where
  "codeForProtocol code statusCode target =
     (case known_code code of
        Some direct \<Rightarrow>
          if target = Anthropic_target \<and> code = ''overloaded_error'' then Code ''overloaded_error'' else direct
      | None \<Rightarrow>
          if target = Anthropic_target then
            Code (if statusCode = 401 \<or> statusCode = 403 then ''authentication_error''
                  else if statusCode = 429 then ''rate_limit_error''
                  else if statusCode = 503 \<or> statusCode = 529 then ''overloaded_error''
                  else if 400 \<le> statusCode \<and> statusCode < 500 then ''invalid_request_error''
                  else ''api_error'')
          else Code (codeForStatus statusCode))"

record translated_error =
  te_statusCode :: int
  te_code :: protocol_code
  te_type :: protocol_code
  te_message :: string
  te_param :: "string option"
  te_retryAfterSeconds :: "int option"

definition translateProviderError :: "provider_error_info \<Rightarrow> error_target \<Rightarrow> translated_error" where
  "translateProviderError info target =
     (let code = codeForProtocol (pei_code info) (pei_statusCode info) target
      in \<lparr>te_statusCode = mapStatusForProtocol (pei_statusCode info) target, te_code = code, te_type = code,
          te_message = pei_message info, te_param = pei_param info,
          te_retryAfterSeconds = pei_retryAfterSeconds info\<rparr>)"

section \<open>Commitment evidence\<close>

definition commitmentForHttpFailure :: "int \<Rightarrow> commitment_state" where
  "commitmentForHttpFailure status =
     (if 400 \<le> status \<and> status < 500 \<and> status \<noteq> 408 \<and> status \<noteq> 409 then Not_sent else Unknown_commitment)"

definition commitmentForTransportFailure :: "bool \<Rightarrow> commitment_state" where
  "commitmentForTransportFailure bodyStarted = (if bodyStarted then Unknown_commitment else Not_sent)"

text \<open>
  A thrown value as the gateway tells them apart: an adapter error, any other \<open>Error\<close> (its
  name, message and \<open>code\<close> where that is a string), or a value that is no \<open>Error\<close>.
\<close>

datatype thrown =
    Adapter_error provider_adapter_error
  | Other_error (oe_name: string) (oe_message: string) (oe_code: "string option")
  | Thrown_value

fun commitmentOf :: "thrown \<Rightarrow> commitment_state" where
  "commitmentOf (Adapter_error e) = pae_commitment e"
| "commitmentOf _ = Unknown_commitment"

definition providerFailure ::
  "string \<Rightarrow> provider_error_info option \<Rightarrow> commitment_state \<Rightarrow> string \<Rightarrow> provider_adapter_error" where
  "providerFailure code info commitment message =
     \<lparr>pae_code = code, pae_message = message, pae_info = info, pae_commitment = commitment\<rparr>"

section \<open>Error payloads of the routes\<close>

fun providerErrorInfoOf :: "thrown \<Rightarrow> provider_error_info option" where
  "providerErrorInfoOf (Adapter_error e) = pae_info e"
| "providerErrorInfoOf _ = None"

definition providerRetryAfterOf :: "thrown \<Rightarrow> int option" where
  "providerRetryAfterOf error = Option.bind (providerErrorInfoOf error) pei_retryAfterSeconds"

definition providerErrorStatus :: "thrown \<Rightarrow> error_target \<Rightarrow> int" where
  "providerErrorStatus error target =
     (case providerErrorInfoOf error of
        None \<Rightarrow> if target = Openai_target then 502 else 529
      | Some info \<Rightarrow> te_statusCode (translateProviderError info target))"

record error_payload =
  ep_type :: protocol_code
  ep_message :: string
  ep_param :: "string option"
  ep_code :: "protocol_code option"

definition providerErrorPayload :: "thrown \<Rightarrow> error_target \<Rightarrow> error_payload" where
  "providerErrorPayload error target =
     (case providerErrorInfoOf error of
        None \<Rightarrow>
          \<lparr>ep_type = Code (case error of Adapter_error e \<Rightarrow> pae_code e | _ \<Rightarrow> ''api_error''),
           ep_message = ''Gateway upstream failed'', ep_param = None, ep_code = None\<rparr>
      | Some info \<Rightarrow>
          let translated = translateProviderError info target in
          if target = Anthropic_target
          then \<lparr>ep_type = te_code translated, ep_message = te_message translated, ep_param = None, ep_code = None\<rparr>
          else \<lparr>ep_type = te_code translated, ep_message = te_message translated,
                ep_param = te_param translated, ep_code = Some (te_code translated)\<rparr>)"

section \<open>Lemmas\<close>

lemma boundedString_bounds: "boundedString v n = Some s \<Longrightarrow> 0 < n \<Longrightarrow> s \<noteq> [] \<and> length s \<le> n"
  by (auto simp: boundedString_def Let_def split: option.splits json.splits if_splits)

lemma codeForStatus_bounds: "codeForStatus code \<noteq> [] \<and> length (codeForStatus code) \<le> MAX_CODE_LENGTH"
  by (simp add: codeForStatus_def MAX_CODE_LENGTH_def)

lemma if_None_or_else:
  "(if x = None then y else x) = or_else x y" "(if x = None \<and> y \<noteq> None then y else x) = or_else x y"
  by (cases x; cases y; simp)+

definition bounded_by :: "nat \<Rightarrow> string option \<Rightarrow> bool" where
  "bounded_by n s \<longleftrightarrow> (case s of None \<Rightarrow> True | Some x \<Rightarrow> x \<noteq> [] \<and> length x \<le> n)"

lemma bounded_by_boundedString [simp]: "0 < n \<Longrightarrow> bounded_by n (boundedString v n)"
  using boundedString_bounds by (auto simp: bounded_by_def split: option.split)

lemma bounded_by_or_else [simp]: "bounded_by n x \<Longrightarrow> bounded_by n y \<Longrightarrow> bounded_by n (or_else x y)"
  by (auto simp: bounded_by_def split: option.splits)

lemma bounded_by_get_or:
  "bounded_by n x \<Longrightarrow> d \<noteq> [] \<Longrightarrow> length d \<le> n \<Longrightarrow> get_or d x \<noteq> [] \<and> length (get_or d x) \<le> n"
  by (auto simp: bounded_by_def split: option.splits)

section \<open>Properties\<close>

text \<open>C38: whatever a provider sends in a failed response, the metadata that crosses the boundary is bounded: code,
  type and param are non-empty and at most 64 characters, the message is non-empty and at most 300 characters (the
  status rendered in the generic message having at most 268), and the status is the response's own.\<close>

theorem parseProviderError_bounded:
  assumes "length (txt statusCode) \<le> 268"
  shows "let info = parseProviderError h txt statusCode body in
     pei_statusCode info = statusCode
     \<and> pei_code info \<noteq> [] \<and> length (pei_code info) \<le> 64
     \<and> pei_message info \<noteq> [] \<and> length (pei_message info) \<le> 300
     \<and> bounded_by 64 (pei_type info) \<and> bounded_by 64 (pei_param info)"
proof -
  have code: "pei_code (parseProviderError h txt statusCode body) \<noteq> []
      \<and> length (pei_code (parseProviderError h txt statusCode body)) \<le> MAX_CODE_LENGTH"
    unfolding parseProviderError_def Let_def if_None_or_else
    using codeForStatus_bounds [of statusCode]
    by (simp only: provider_error_info.simps, intro bounded_by_get_or)
      (simp_all add: MAX_CODE_LENGTH_def)
  have message: "pei_message (parseProviderError h txt statusCode body) \<noteq> []
      \<and> length (pei_message (parseProviderError h txt statusCode body)) \<le> MAX_MESSAGE_LENGTH"
    unfolding parseProviderError_def Let_def if_None_or_else
    using assms
    by (simp only: provider_error_info.simps, intro bounded_by_get_or)
      (simp_all add: MAX_MESSAGE_LENGTH_def)
  have rest: "pei_statusCode (parseProviderError h txt statusCode body) = statusCode"
    "bounded_by MAX_CODE_LENGTH (pei_type (parseProviderError h txt statusCode body))"
    "bounded_by MAX_CODE_LENGTH (pei_param (parseProviderError h txt statusCode body))"
    by (simp_all add: parseProviderError_def Let_def MAX_CODE_LENGTH_def)
  from code message rest show ?thesis by (simp add: MAX_CODE_LENGTH_def MAX_MESSAGE_LENGTH_def Let_def)
qed

theorem parseProviderError_bounded_witness:
  "length (pei_message (parseProviderError
     \<lparr>he_headers = (\<lambda>_. None), he_number = (\<lambda>_. None), he_date = (\<lambda>_. None), he_now = 0\<rparr>
     (\<lambda>_. ''500'') 500 None)) \<le> 300"
  using parseProviderError_bounded [of "\<lambda>_. ''500''" 500
      "\<lparr>he_headers = (\<lambda>_. None), he_number = (\<lambda>_. None), he_date = (\<lambda>_. None), he_now = 0\<rparr>" None]
  by (simp add: Let_def)

definition protocol_vocabulary :: "string set" where
  "protocol_vocabulary = snd ` set known_codes"

lemma codeForStatus_vocabulary: "codeForStatus code \<in> protocol_vocabulary"
  by (simp add: codeForStatus_def protocol_vocabulary_def known_codes_def)

lemma known_code_vocabulary:
  assumes "known_code c = Some d" and "c \<notin> set object_prototype_keys"
  shows "\<exists>x \<in> protocol_vocabulary. d = Code x"
proof -
  from assms obtain y where y: "map_of known_codes c = Some y" and d: "d = Code y"
    by (auto simp: known_code_def split: option.splits)
  have "(c, y) \<in> set known_codes" by (rule map_of_SomeD [OF y])
  then show ?thesis unfolding protocol_vocabulary_def d by force
qed

text \<open>translating a provider error keeps the client's protocol: the status is one the protocol uses, and
  translating it again changes nothing; the code is in the gateway's error vocabulary, unless the provider's code is
  the name of a member of \<open>Object.prototype\<close>; message, param and retry-after are passed on unchanged.\<close>

theorem translateProviderError_vocabulary:
  assumes "pei_code info \<notin> set object_prototype_keys"
  shows "let t = translateProviderError info target in
     te_statusCode t \<in> (if target = Anthropic_target then {400, 401, 429, 529} else {400, 401, 429, 502, 503, 504})
     \<and> mapStatusForProtocol (te_statusCode t) target = te_statusCode t
     \<and> (\<exists>c \<in> protocol_vocabulary. te_code t = Code c \<and> te_type t = Code c)
     \<and> te_message t = pei_message info \<and> te_param t = pei_param info
     \<and> te_retryAfterSeconds t = pei_retryAfterSeconds info"
proof -
  have status: "mapStatusForProtocol s target \<in>
      (if target = Anthropic_target then {400, 401, 429, 529} else {400, 401, 429, 502, 503, 504})" for s
    by (simp add: mapStatusForProtocol_def Let_def)
  have again: "mapStatusForProtocol (mapStatusForProtocol s target) target = mapStatusForProtocol s target" for s
    by (simp add: mapStatusForProtocol_def Let_def)
  have "\<exists>c \<in> protocol_vocabulary. codeForProtocol (pei_code info) (pei_statusCode info) target = Code c"
  proof (cases "known_code (pei_code info)")
    case None
    then show ?thesis
      using codeForStatus_vocabulary
      by (simp add: codeForProtocol_def) (simp add: protocol_vocabulary_def known_codes_def)
  next
    case (Some d)
    from known_code_vocabulary [OF Some assms] Some show ?thesis
      by (auto simp: codeForProtocol_def known_code_def known_codes_def)
  qed
  with status again show ?thesis by (auto simp: translateProviderError_def Let_def)
qed

theorem translateProviderError_vocabulary_witness:
  "te_code (translateProviderError \<lparr>pei_statusCode = 503, pei_code = ''server_busy'', pei_type = None,
     pei_message = ''m'', pei_param = None, pei_retryAfterSeconds = None, pei_rateLimit = None\<rparr> Anthropic_target)
     \<in> Code ` protocol_vocabulary"
  using translateProviderError_vocabulary [of "\<lparr>pei_statusCode = 503, pei_code = ''server_busy'', pei_type = None,
     pei_message = ''m'', pei_param = None, pei_retryAfterSeconds = None, pei_rateLimit = None\<rparr>" Anthropic_target]
  by (auto simp: Let_def object_prototype_keys_def)

text \<open>
  The lookup in the plain object \<open>known\<close> also finds what it inherits: a provider that answers with the code
  \<open>constructor\<close> gets a function as the translated code, for both protocols.
\<close>

lemma inherited_code_leaks:
  "pei_code info = ''constructor'' \<Longrightarrow> te_code (translateProviderError info target) = Inherited ''constructor''"
  by (simp add: translateProviderError_def codeForProtocol_def known_code_def known_codes_def object_prototype_keys_def
      Let_def)

text \<open>an HTTP failure allows a retry only when it is a deterministic refusal: exactly the 4xx statuses other than
  408 and 409. Those are answered to the client with a 4xx status; every other failure counts as ambiguous.\<close>

theorem http_failure_retry:
  "(commitmentAllowsRetry (commitmentForHttpFailure status) \<longleftrightarrow>
     (statusClassOf status = Class_4xx \<and> status \<notin> {408, 409}
      \<and> mapStatusForProtocol status target \<in> {400, 401, 429}))
   \<and> (isAmbiguousCommitment (commitmentForHttpFailure status) \<longleftrightarrow>
      \<not> commitmentAllowsRetry (commitmentForHttpFailure status))"
  by (auto simp: commitmentAllowsRetry_def commitmentForHttpFailure_def statusClassOf_def mapStatusForProtocol_def
      isAmbiguousCommitment_def Let_def)

end
