(* ===== verification/Pool_Execution.thy ===== *)
theory Pool_Execution
  imports Pools Provider_Errors "HOL-Library.Sublist"
begin

text \<open>
  Serving one request from a pool: \<^verbatim>\<open>src/routing/pools/retry.ts\<close> and
  \<^verbatim>\<open>execute.ts\<close>. \<open>streamPoolRequest\<close> selects an account, invokes the provider, buffers
  its events until rotation is impossible, records the outcome, and either finishes,
  rotates to another account or fails.

  What the program takes from outside is in \<open>exec_env\<close>: the clocks, the provider's stream
  for each attempt (its events and how it ends), and what other requests do to the shared
  store and selector before a selection, while it is awaited, and while the stream runs.
  The consumer is taken to read the stream to its end. The result lists everything the
  generator does: the events it yields, the traces and routes it reports, the routes it
  invoked, and the error it throws, if any. Attempts are numbered by \<open>rotationsUsed\<close>, and
  the loop runs at most \<open>retryBudget + 1\<close> times, which is its termination measure.
\<close>

section \<open>The retry policy\<close>

fun isOutputOrToolEvent :: "canonical_event \<Rightarrow> bool" where
  "isOutputOrToolEvent (Text_delta _ _ _) = True"
| "isOutputOrToolEvent (Reasoning_delta _ _ _) = True"
| "isOutputOrToolEvent (Tool_arguments_delta _ _ _ _) = True"
| "isOutputOrToolEvent (Content_started _ _ ct _ _ _) = (ct = Tool_call_content)"
| "isOutputOrToolEvent _ = False"

definition canRotate :: "bool \<Rightarrow> int \<Rightarrow> int \<Rightarrow> route_outcome_class \<Rightarrow> commitment_state \<Rightarrow> bool" where
  "canRotate started rotationsUsed budget outcome commitment =
     (if started then False
      else if budget \<le> rotationsUsed then False
      else if \<not> commitmentAllowsRetry commitment then False
      else outcome = Out_auth \<or> outcome = Out_quota \<or> outcome = Out_transient)"

section \<open>Errors\<close>

text \<open>
  What \<open>streamPoolRequest\<close> throws: an error of the selector, a \<open>RouteFailure\<close> of its own,
  what the provider's iterator threw, or an error of the store while recording an outcome.
\<close>

datatype exec_error =
    Routing_failed routing_error
  | Route_failure (rf_outcome: route_outcome_class) (rf_code: string) (rf_message: string)
      (rf_commitment: commitment_state)
  | Provider_threw thrown
  | Store_failed cp_error

fun isAbortError :: "exec_error \<Rightarrow> bool" where
  "isAbortError (Provider_threw (Adapter_error e)) = (pae_message e = ''client disconnected'')"
| "isAbortError (Provider_threw (Other_error nm msg _)) = (nm = ''AbortError'' \<or> msg = ''client disconnected'')"
| "isAbortError _ = False"

fun error_code :: "exec_error \<Rightarrow> string option" where
  "error_code (Provider_threw (Adapter_error e)) = Some (pae_code e)"
| "error_code (Provider_threw (Other_error _ _ code)) = code"
| "error_code (Provider_threw Thrown_value) = None"
| "error_code (Store_failed e) = cp_error_code e"
| "error_code (Route_failure _ code _ _) = Some code"
| "error_code (Routing_failed e) = routing_error_code e"

definition classifyThrown :: "exec_error \<Rightarrow> route_outcome_class" where
  "classifyThrown e = classifyProviderFailure (error_code e)"

fun thrown_commitment :: "exec_error \<Rightarrow> commitment_state" where
  "thrown_commitment (Provider_threw t) = commitmentOf t"
| "thrown_commitment (Route_failure _ _ _ c) = c"
| "thrown_commitment _ = Unknown_commitment"

fun as_error :: "exec_error \<Rightarrow> exec_error" where
  "as_error (Provider_threw Thrown_value) = Provider_threw (Other_error ''Error'' ''provider invoke failed'' None)"
| "as_error e = e"

section \<open>Recording an outcome\<close>

definition recordOutcome ::
  "cp_env \<Rightarrow> string \<Rightarrow> route_outcome_class \<Rightarrow> cooldown_seconds \<Rightarrow> control_plane \<Rightarrow> (cp_error + unit) \<times> control_plane" where
  "recordOutcome env accountId outcome seconds db =
     (let cooldown = (if outcome = Out_success then None else cooldownUntilFor outcome (cp_now env) seconds)
      in case accountById accountId (tables db) of
           Inl e \<Rightarrow> (Inl e, db)
         | Inr current \<Rightarrow>
             (case recordRouteOutcome env accountId
                     \<lparr>in_outcome = outcome, in_quotaClass = Some (nextQuotaClass outcome (quotaClass current)),
                      in_cooldownUntil = Some cooldown\<rparr> Actor_system db of
                (Inl e, db') \<Rightarrow> (Inl e, db')
              | (Inr _, db') \<Rightarrow> (Inr (), db')))"

section \<open>One attempt\<close>

record attempt_state =
  at_route :: effective_route
  at_live :: bool
  at_commitment :: commitment_state
  at_terminal :: bool
  at_buffer :: "canonical_event list"
  at_yielded :: "canonical_event list"
  at_reported :: "effective_route list"

definition start_attempt :: "effective_route \<Rightarrow> attempt_state" where
  "start_attempt route = \<lparr>at_route = route, at_live = False, at_commitment = Not_sent, at_terminal = False,
                          at_buffer = [], at_yielded = [], at_reported = []\<rparr>"

definition flush :: "attempt_state \<Rightarrow> attempt_state" where
  "flush st = st\<lparr>at_yielded := at_yielded st @ at_buffer st, at_reported := at_reported st @ [at_route st]\<rparr>"

fun advance_commitment :: "canonical_event \<Rightarrow> commitment_state \<Rightarrow> commitment_state" where
  "advance_commitment (Response_started _ _) c = (if c = Not_sent then Provider_accepted else c)"
| "advance_commitment (Content_started _ _ ct _ _ _) c = (if ct = Tool_call_content then Tool_boundary else c)"
| "advance_commitment (Text_delta _ _ _) c = Client_output_started"
| "advance_commitment (Reasoning_delta _ _ _) c = Client_output_started"
| "advance_commitment _ c = c"

text \<open>The loop body for one event, up to the test for \<open>response-failed\<close>.\<close>

definition absorb :: "canonical_event \<Rightarrow> attempt_state \<Rightarrow> attempt_state" where
  "absorb event st =
     (let commitment = advance_commitment event (at_commitment st);
          route = (if \<not> outputStarted (at_route st) \<and> isOutputOrToolEvent event
                   then markOutputStarted (at_route st) else at_route st);
          st1 = st\<lparr>at_commitment := commitment, at_route := route\<rparr>;
          st2 = (if at_live st1 then st1\<lparr>at_yielded := at_yielded st1 @ [event]\<rparr>
                 else let st3 = st1\<lparr>at_buffer := at_buffer st1 @ [event]\<rparr>
                      in if outputStarted route then (flush (st3\<lparr>at_live := True\<rparr>))\<lparr>at_buffer := []\<rparr> else st3)
      in case event of Response_completed _ _ \<Rightarrow> st2\<lparr>at_terminal := True\<rparr> | _ \<Rightarrow> st2)"

fun consume :: "canonical_event list \<Rightarrow> attempt_state \<Rightarrow> attempt_state \<times> (string \<times> string) option" where
  "consume [] st = (st, None)"
| "consume (event # rest) st =
     (case event of
        Response_failed _ code message \<Rightarrow> (absorb event st, Some (code, message))
      | _ \<Rightarrow> consume rest (absorb event st))"

text \<open>A failure after provider acceptance is committed; before it, a deterministic rejection.\<close>

definition failed_commitment :: "commitment_state \<Rightarrow> commitment_state" where
  "failed_commitment c =
     (if c = Provider_accepted \<or> c = Client_output_started \<or> c = Tool_boundary then Provider_accepted else Not_sent)"

datatype stream_end = Stream_ended | Stream_threw thrown

datatype attempt_end = Attempt_done | Attempt_rotates exec_error | Attempt_throws exec_error

record attempt_result =
  ar_state :: attempt_state
  ar_end :: attempt_end
  ar_db :: control_plane

text \<open>The \<open>catch\<close> block: its second half, for an error of the provider or the store, then the block.\<close>

definition settle_thrown ::
  "cp_env \<Rightarrow> cooldown_seconds \<Rightarrow> int \<Rightarrow> int \<Rightarrow> attempt_state \<Rightarrow> exec_error \<Rightarrow> control_plane \<Rightarrow> attempt_result" where
  "settle_thrown env seconds rotationsUsed budget st error db =
     (let outcome = classifyThrown error
      in case recordOutcome env (er_accountId (at_route st)) outcome seconds db of
           (Inl e, db') \<Rightarrow> \<lparr>ar_state = st, ar_end = Attempt_throws (Store_failed e), ar_db = db'\<rparr>
         | (Inr _, db') \<Rightarrow>
             if \<not> canRotate (outputStarted (at_route st)) rotationsUsed budget outcome (thrown_commitment error)
             then \<lparr>ar_state = flush st, ar_end = Attempt_throws (as_error error), ar_db = db'\<rparr>
             else \<lparr>ar_state = st, ar_end = Attempt_rotates (as_error error), ar_db = db'\<rparr>)"

fun rethrown :: "exec_error \<Rightarrow> bool" where
  "rethrown (Routing_failed Route_sealed) = True"
| "rethrown (Route_failure _ _ _ _) = True"
| "rethrown _ = False"

definition caught ::
  "cp_env \<Rightarrow> cooldown_seconds \<Rightarrow> int \<Rightarrow> int \<Rightarrow> attempt_state \<Rightarrow> exec_error \<Rightarrow> control_plane \<Rightarrow> attempt_result" where
  "caught env seconds rotationsUsed budget st error db =
     (if rethrown error then \<lparr>ar_state = flush st, ar_end = Attempt_throws error, ar_db = db\<rparr>
      else if isAbortError error then \<lparr>ar_state = st, ar_end = Attempt_throws error, ar_db = db\<rparr>
      else settle_thrown env seconds rotationsUsed budget st error db)"

text \<open>A provider failure or a truncated stream: record it, then rotate, or throw into the \<open>catch\<close>.\<close>

definition failed_attempt ::
  "cp_env \<Rightarrow> cooldown_seconds \<Rightarrow> int \<Rightarrow> int \<Rightarrow> attempt_state \<Rightarrow> route_outcome_class \<Rightarrow> string \<Rightarrow> string
    \<Rightarrow> control_plane \<Rightarrow> attempt_result" where
  "failed_attempt env seconds rotationsUsed budget st outcome code message db =
     (let commitment = failed_commitment (at_commitment st);
          failure = Route_failure outcome code message commitment
      in case recordOutcome env (er_accountId (at_route st)) outcome seconds db of
           (Inl e, db') \<Rightarrow> caught env seconds rotationsUsed budget st (Store_failed e) db'
         | (Inr _, db') \<Rightarrow>
             if canRotate (outputStarted (at_route st)) rotationsUsed budget outcome commitment
             then \<lparr>ar_state = st, ar_end = Attempt_rotates failure, ar_db = db'\<rparr>
             else caught env seconds rotationsUsed budget st
                    (if outputStarted (at_route st) then Routing_failed Route_sealed else failure) db')"

definition run_attempt ::
  "cp_env \<Rightarrow> cooldown_seconds \<Rightarrow> int \<Rightarrow> int \<Rightarrow> effective_route \<Rightarrow> canonical_event list \<times> stream_end
    \<Rightarrow> control_plane \<Rightarrow> attempt_result" where
  "run_attempt env seconds rotationsUsed budget route stream db =
     (case consume (fst stream) (start_attempt route) of
        (st, Some (code, message)) \<Rightarrow>
          failed_attempt env seconds rotationsUsed budget st (classifyProviderFailure (Some code)) code message db
      | (st, None) \<Rightarrow>
          (case snd stream of
             Stream_threw t \<Rightarrow> caught env seconds rotationsUsed budget st (Provider_threw t) db
           | Stream_ended \<Rightarrow>
               if \<not> at_terminal st
               then failed_attempt env seconds rotationsUsed budget st Out_transient ''incomplete-stream''
                      ''Provider stream ended without a terminal response'' db
               else (case recordOutcome env (er_accountId (at_route st)) Out_success seconds db of
                       (Inl e, db') \<Rightarrow> caught env seconds rotationsUsed budget st (Store_failed e) db'
                     | (Inr _, db') \<Rightarrow> \<lparr>ar_state = flush st, ar_end = Attempt_done, ar_db = db'\<rparr>)))"

section \<open>The request\<close>

record exec_world =
  ew_db :: control_plane
  ew_selector :: selector_state

record exec_env =
  xe_select :: select_env
  xe_cp :: "nat \<Rightarrow> cp_env"
  xe_selectClock :: "nat \<Rightarrow> int"
  xe_revalidateClock :: "nat \<Rightarrow> int"
  xe_before :: "nat \<Rightarrow> exec_world \<Rightarrow> exec_world"
  xe_awaited :: "nat \<Rightarrow> exec_world \<Rightarrow> exec_world"
  xe_streaming :: "nat \<Rightarrow> exec_world \<Rightarrow> exec_world"
  xe_invoke :: "nat \<Rightarrow> effective_route \<Rightarrow> canonical_event list \<times> stream_end"

record exec_result =
  xr_events :: "canonical_event list"
  xr_traces :: "decision_trace list"
  xr_routes :: "effective_route list"
  xr_invoked :: "effective_route list"
  xr_error :: "exec_error option"
  xr_world :: exec_world

definition stop_with :: "exec_error \<Rightarrow> decision_trace list \<Rightarrow> exec_world \<Rightarrow> exec_result" where
  "stop_with e traces w = \<lparr>xr_events = [], xr_traces = traces, xr_routes = [], xr_invoked = [],
                           xr_error = Some e, xr_world = w\<rparr>"

text \<open>One pass of the loop: what it does and, when it rotates, the error kept, the account tried and the world.\<close>

definition one_round ::
  "exec_env \<Rightarrow> select_input \<Rightarrow> int \<Rightarrow> cooldown_seconds \<Rightarrow> nat \<Rightarrow> string list \<Rightarrow> exec_error option \<Rightarrow> exec_world
    \<Rightarrow> exec_result \<times> (exec_error \<times> string \<times> exec_world) option" where
  "one_round env si budget seconds n tried lastError w =
     (let w0 = xe_before env n w
      in case selectLocked (xe_select env) (tables (ew_db w0)) (xe_selectClock env n)
                (si\<lparr>si_excludeAccountIds := tried\<rparr>) (ew_selector w0) of
           (Inl e, sel) \<Rightarrow>
             let w1 = w0\<lparr>ew_selector := sel\<rparr>
             in (case (e, lastError) of
                   (No_eligible_account _, Some last_err) \<Rightarrow> stop_with last_err [] w1
                 | _ \<Rightarrow> stop_with (Routing_failed e) [] w1, None)
         | (Inr selected, sel) \<Rightarrow>
             let route = sr_route selected;
                 w1 = xe_awaited env n (w0\<lparr>ew_selector := sel\<rparr>)
             in case revalidate (tables (ew_db w1)) (xe_revalidateClock env n) route si of
                  Inl e \<Rightarrow> (stop_with (Routing_failed e) [sr_trace selected] w1, None)
                | Inr _ \<Rightarrow>
                    let w2 = xe_streaming env n w1;
                        a = run_attempt (xe_cp env n) seconds (int n) budget route (xe_invoke env n route) (ew_db w2);
                        w3 = w2\<lparr>ew_db := ar_db a\<rparr>;
                        this_round = \<lparr>xr_events = at_yielded (ar_state a), xr_traces = [sr_trace selected],
                                xr_routes = at_reported (ar_state a), xr_invoked = [route],
                                xr_error = None, xr_world = w3\<rparr>
                    in (case ar_end a of
                          Attempt_done \<Rightarrow> (this_round, None)
                        | Attempt_throws e \<Rightarrow> (this_round\<lparr>xr_error := Some e\<rparr>, None)
                        | Attempt_rotates e \<Rightarrow>
                            (this_round, Some (e, er_accountId (at_route (ar_state a)), w3))))"

definition followed_by :: "exec_result \<Rightarrow> exec_result \<Rightarrow> exec_result" where
  "followed_by a b =
     \<lparr>xr_events = xr_events a @ xr_events b, xr_traces = xr_traces a @ xr_traces b,
      xr_routes = xr_routes a @ xr_routes b, xr_invoked = xr_invoked a @ xr_invoked b,
      xr_error = xr_error b, xr_world = xr_world b\<rparr>"

function stream_from ::
  "exec_env \<Rightarrow> select_input \<Rightarrow> int \<Rightarrow> cooldown_seconds \<Rightarrow> nat \<Rightarrow> string list \<Rightarrow> exec_error option \<Rightarrow> exec_world
    \<Rightarrow> exec_result" where
  "stream_from env si budget seconds n tried lastError w =
     (if \<not> int n < budget + 1
      then stop_with (get_or (Routing_failed (No_eligible_account (si_requestId si))) lastError) [] w
      else case one_round env si budget seconds n tried lastError w of
             (res, None) \<Rightarrow> res
           | (res, Some (e, accountId, w')) \<Rightarrow>
               followed_by res (stream_from env si budget seconds (Suc n) (tried @ [accountId]) (Some e) w'))"
  by pat_completeness auto

termination
  by (relation "measure (\<lambda>(env, si, budget, seconds, n, tried, lastError, w). nat (budget + 1 - int n))") auto

declare stream_from.simps [simp del]

definition requested_pool :: "select_input \<Rightarrow> pool_record option" where
  "requested_pool si = List.find (\<lambda>p. pool_id p = si_poolId si) (snap_pools (snapshot (si_policy si)))"

definition request_budget :: "select_input \<Rightarrow> int" where
  "request_budget si = (case requested_pool si of None \<Rightarrow> 0 | Some p \<Rightarrow> retryBudget p)"

definition streamPoolRequest :: "exec_env \<Rightarrow> select_input \<Rightarrow> exec_world \<Rightarrow> exec_result" where
  "streamPoolRequest env si w =
     stream_from env si (request_budget si)
       (pa_cooldownSeconds (parseAffinity (Option.bind (requested_pool si) affinity))) 0 [] None w"

record pool_execution =
  px_route :: effective_route
  px_traces :: "decision_trace list"
  px_events :: "canonical_event list"

definition executePoolRequest :: "exec_env \<Rightarrow> select_input \<Rightarrow> exec_world \<Rightarrow> exec_error + pool_execution" where
  "executePoolRequest env si w =
     (let r = streamPoolRequest env si w
      in case xr_error r of
           Some e \<Rightarrow> Inl e
         | None \<Rightarrow>
             if xr_routes r = [] then Inl (Routing_failed (No_eligible_account (si_requestId si)))
             else Inr \<lparr>px_route = last (xr_routes r), px_traces = xr_traces r, px_events = xr_events r\<rparr>)"

section \<open>Lemmas on one attempt\<close>

definition attempt_events :: "attempt_state \<Rightarrow> canonical_event list" where
  "attempt_events st = at_yielded st @ at_buffer st"

text \<open>Before output starts nothing was yielded; after it nothing is buffered.\<close>

definition attempt_ok :: "attempt_state \<Rightarrow> bool" where
  "attempt_ok st \<longleftrightarrow> (at_live st = outputStarted (at_route st))
     \<and> (\<not> at_live st \<longrightarrow> at_yielded st = [] \<and> at_reported st = [])
     \<and> (at_live st \<longrightarrow> at_buffer st = [])"

lemma start_attempt_ok: "\<not> outputStarted route \<Longrightarrow> attempt_ok (start_attempt route)"
  by (simp add: attempt_ok_def start_attempt_def)

lemma absorb_ok: "attempt_ok st \<Longrightarrow> attempt_ok (absorb event st)"
  by (cases event) (auto simp: attempt_ok_def absorb_def Let_def flush_def)

lemma absorb_events: "attempt_ok st \<Longrightarrow> attempt_events (absorb event st) = attempt_events st @ [event]"
  by (cases event) (auto simp: attempt_ok_def attempt_events_def absorb_def Let_def flush_def)

lemma absorb_account [simp]: "er_accountId (at_route (absorb event st)) = er_accountId (at_route st)"
  by (cases event) (auto simp: absorb_def Let_def flush_def)

lemma absorb_started:
  "outputStarted (at_route (absorb event st)) \<longleftrightarrow> outputStarted (at_route st) \<or> isOutputOrToolEvent event"
  by (cases event) (auto simp: absorb_def Let_def flush_def)

lemma absorb_commitment: "at_commitment (absorb event st) = advance_commitment event (at_commitment st)"
  by (cases event) (auto simp: absorb_def Let_def flush_def)

lemma absorb_terminal:
  "at_terminal (absorb event st) \<longleftrightarrow> at_terminal st \<or> (\<exists>b r. event = Response_completed b r)"
  by (cases event) (auto simp: absorb_def Let_def flush_def)

fun is_failed :: "canonical_event \<Rightarrow> bool" where
  "is_failed (Response_failed _ _ _) = True"
| "is_failed _ = False"

text \<open>The events an attempt looks at: up to and including the first \<open>response-failed\<close>.\<close>

fun seen_events :: "canonical_event list \<Rightarrow> canonical_event list" where
  "seen_events [] = []"
| "seen_events (event # rest) = (if is_failed event then [event] else event # seen_events rest)"

lemma seen_events_prefix: "prefix (seen_events evs) evs"
  by (induction evs) auto

lemma consume_facts:
  assumes "attempt_ok st" and "consume evs st = (st', failure)"
  shows "attempt_ok st'" and "attempt_events st' = attempt_events st @ seen_events evs"
    and "er_accountId (at_route st') = er_accountId (at_route st)"
    and "outputStarted (at_route st') \<longleftrightarrow> outputStarted (at_route st) \<or> (\<exists>e \<in> set (seen_events evs). isOutputOrToolEvent e)"
    and "failure = None \<longleftrightarrow> (\<forall>e \<in> set evs. \<not> is_failed e)"
    and "at_terminal st' \<longleftrightarrow> at_terminal st \<or> (\<exists>e \<in> set (seen_events evs). \<exists>b r. e = Response_completed b r)"
    and "at_commitment st' = fold advance_commitment (seen_events evs) (at_commitment st)"
  using assms
proof (induction evs arbitrary: st)
  case (Cons event rest)
  {
    case 1 show ?case
      using Cons.IH(1) [OF absorb_ok [OF 1(1)]] 1 by (cases event) (auto simp: absorb_ok)
  next
    case 2 show ?case
      using Cons.IH(2) [OF absorb_ok [OF 2(1)]] 2 absorb_events [OF 2(1)] by (cases event) auto
  next
    case 3 show ?case
      using Cons.IH(3) [OF absorb_ok [OF 3(1)]] 3 by (cases event) auto
  next
    case 4 show ?case
      using Cons.IH(4) [OF absorb_ok [OF 4(1)]] 4 absorb_started by (cases event) auto
  next
    case 5 show ?case
      using Cons.IH(5) [OF absorb_ok [OF 5(1)]] 5 by (cases event) auto
  next
    case 6 show ?case
      using Cons.IH(6) [OF absorb_ok [OF 6(1)]] 6 absorb_terminal by (cases event) auto
  next
    case 7 show ?case
      using Cons.IH(7) [OF absorb_ok [OF 7(1)]] 7 absorb_commitment by (cases event) auto
  }
qed (auto)

fun is_started :: "canonical_event \<Rightarrow> bool" where
  "is_started (Response_started _ _) = True"
| "is_started _ = False"

fun is_completed :: "canonical_event \<Rightarrow> bool" where
  "is_completed (Response_completed _ _) = True"
| "is_completed _ = False"

lemma is_completed_iff: "is_completed e \<longleftrightarrow> (\<exists>b r. e = Response_completed b r)"
  by (cases e) auto

lemma quiet_commitment:
  assumes "\<forall>e \<in> set evs. \<not> isOutputOrToolEvent e"
  shows "fold advance_commitment evs c =
           (if c = Not_sent \<and> (\<exists>e \<in> set evs. is_started e) then Provider_accepted else c)"
  using assms
proof (induction evs arbitrary: c)
  case (Cons e evs)
  then show ?case by (cases e) auto
qed simp

text \<open>
  What a rotation away from an attempt rests on: no output or tool event was seen, and the
  provider had not accepted the request (it never started a response), or the adapter threw
  an error that carries the evidence that nothing was sent.
\<close>

definition safe_to_discard :: "canonical_event list \<times> stream_end \<Rightarrow> bool" where
  "safe_to_discard stream \<longleftrightarrow>
     (\<forall>e \<in> set (seen_events (fst stream)). \<not> isOutputOrToolEvent e)
   \<and> (if (\<exists>e \<in> set (fst stream). is_failed e) \<or> snd stream = Stream_ended
      then \<forall>e \<in> set (seen_events (fst stream)). \<not> is_started e
      else \<exists>t. snd stream = Stream_threw t \<and> commitmentAllowsRetry (commitmentOf t))"

lemma flush_fields [simp]:
  "at_yielded (flush st) = attempt_events st" "at_route (flush st) = at_route st"
  "at_reported (flush st) = at_reported st @ [at_route st]"
  by (simp_all add: flush_def attempt_events_def)

lemma settle_thrown_facts:
  "ar_state (settle_thrown env seconds r budget st error db) \<in> {st, flush st}
   \<and> ar_end (settle_thrown env seconds r budget st error db) \<noteq> Attempt_done
   \<and> (\<forall>e. ar_end (settle_thrown env seconds r budget st error db) = Attempt_rotates e \<longrightarrow>
        ar_state (settle_thrown env seconds r budget st error db) = st
        \<and> canRotate (outputStarted (at_route st)) r budget (classifyThrown error) (thrown_commitment error))"
proof -
  obtain res db' where "recordOutcome env (er_accountId (at_route st)) (classifyThrown error) seconds db = (res, db')"
    by fastforce
  then show ?thesis by (cases res) (simp_all add: settle_thrown_def Let_def)
qed

lemma caught_facts:
  "ar_state (caught env seconds r budget st error db) \<in> {st, flush st}
   \<and> ar_end (caught env seconds r budget st error db) \<noteq> Attempt_done
   \<and> (\<forall>e. ar_end (caught env seconds r budget st error db) = Attempt_rotates e \<longrightarrow>
        ar_state (caught env seconds r budget st error db) = st \<and> \<not> rethrown error
        \<and> canRotate (outputStarted (at_route st)) r budget (classifyThrown error) (thrown_commitment error))"
  using settle_thrown_facts [of env seconds r budget st error db] by (simp add: caught_def)

lemma canRotate_iff:
  "canRotate started r budget outcome c \<longleftrightarrow>
     \<not> started \<and> r < budget \<and> c = Not_sent \<and> outcome \<in> {Out_auth, Out_quota, Out_transient}"
  by (auto simp: canRotate_def commitmentAllowsRetry_def)

lemma caught_store_never_rotates:
  "ar_end (caught env seconds r budget st (Store_failed x) db) \<noteq> Attempt_rotates e"
  using caught_facts [of env seconds r budget st "Store_failed x" db] by (auto simp: canRotate_iff)

lemma failed_attempt_facts:
  "ar_state (failed_attempt env seconds r budget st outcome code message db) \<in> {st, flush st}
   \<and> ar_end (failed_attempt env seconds r budget st outcome code message db) \<noteq> Attempt_done
   \<and> (\<forall>e. ar_end (failed_attempt env seconds r budget st outcome code message db) = Attempt_rotates e \<longrightarrow>
        ar_state (failed_attempt env seconds r budget st outcome code message db) = st
        \<and> canRotate (outputStarted (at_route st)) r budget outcome (failed_commitment (at_commitment st)))"
proof -
  obtain res db' where rec: "recordOutcome env (er_accountId (at_route st)) outcome seconds db = (res, db')"
    by fastforce
  show ?thesis
  proof (cases res)
    case (Inl x)
    then show ?thesis
      using caught_facts [of env seconds r budget st "Store_failed x" db'] caught_store_never_rotates rec
      by (simp add: failed_attempt_def)
  next
    case (Inr u)
    then show ?thesis using rec by (simp add: failed_attempt_def Let_def caught_def)
  qed
qed

lemma run_attempt_cases:
  assumes "consume (fst stream) (start_attempt route) = (st, failure)"
  obtains (failed) code message outcome where "failure = Some (code, message)"
      "run_attempt env seconds r budget route stream db = failed_attempt env seconds r budget st outcome code message db"
  | (threw) t where "failure = None" "snd stream = Stream_threw t"
      "run_attempt env seconds r budget route stream db = caught env seconds r budget st (Provider_threw t) db"
  | (truncated) outcome code message where "failure = None" "snd stream = Stream_ended" "\<not> at_terminal st"
      "run_attempt env seconds r budget route stream db = failed_attempt env seconds r budget st outcome code message db"
  | (unrecorded) e db' where "failure = None" "snd stream = Stream_ended" "at_terminal st"
      "run_attempt env seconds r budget route stream db = caught env seconds r budget st (Store_failed e) db'"
  | (succeeded) db' where "failure = None" "snd stream = Stream_ended" "at_terminal st"
      "run_attempt env seconds r budget route stream db =
         \<lparr>ar_state = flush st, ar_end = Attempt_done, ar_db = db'\<rparr>"
proof (cases failure)
  case (Some cm)
  obtain code message where "cm = (code, message)" by fastforce
  with Some assms failed show thesis by (simp add: run_attempt_def)
next
  case None
  show thesis
  proof (cases "snd stream")
    case (Stream_threw t)
    with None assms threw show thesis by (simp add: run_attempt_def)
  next
    case Stream_ended
    obtain res db' where rec: "recordOutcome env (er_accountId (at_route st)) Out_success seconds db = (res, db')"
      by fastforce
    have at_end: "run_attempt env seconds r budget route stream db =
        (if \<not> at_terminal st
         then failed_attempt env seconds r budget st Out_transient ''incomplete-stream''
                ''Provider stream ended without a terminal response'' db
         else (case res of
                 Inl e \<Rightarrow> caught env seconds r budget st (Store_failed e) db'
               | Inr _ \<Rightarrow> \<lparr>ar_state = flush st, ar_end = Attempt_done, ar_db = db'\<rparr>))"
      using None Stream_ended assms rec by (cases res) (simp_all add: run_attempt_def)
    show thesis
    proof (cases "at_terminal st")
      case False
      with at_end show thesis by (intro truncated [OF None Stream_ended False]) simp
    next
      case True
      show thesis
      proof (cases res)
        case (Inl e)
        with at_end True show thesis by (intro unrecorded [OF None Stream_ended True]) simp
      next
        case (Inr u)
        with at_end True show thesis by (intro succeeded [OF None Stream_ended True]) simp
      qed
    qed
  qed
qed

lemma run_attempt_state:
  assumes "consume (fst stream) (start_attempt route) = (st, failure)"
  shows "ar_state (run_attempt env seconds r budget route stream db) \<in> {st, flush st}"
  by (rule run_attempt_cases [OF assms, of env seconds r budget db])
    (simp_all only: caught_facts failed_attempt_facts attempt_result.simps insertI1 insertI2)

lemma run_attempt_yields:
  assumes "\<not> outputStarted route"
  shows "prefix (at_yielded (ar_state (run_attempt env seconds r budget route stream db))) (fst stream)"
    and "er_accountId (at_route (ar_state (run_attempt env seconds r budget route stream db))) = er_accountId route"
proof -
  obtain st failure where run: "consume (fst stream) (start_attempt route) = (st, failure)" by fastforce
  note facts = consume_facts [OF start_attempt_ok [OF assms] run]
  have all: "attempt_events st = seen_events (fst stream)"
    using facts(2) by (simp add: attempt_events_def start_attempt_def)
  have "prefix (at_yielded st) (attempt_events st)" by (simp add: attempt_events_def)
  with all seen_events_prefix have "prefix (at_yielded st) (fst stream)" "prefix (attempt_events st) (fst stream)"
    by (auto intro: prefix_order.trans)
  then show "prefix (at_yielded (ar_state (run_attempt env seconds r budget route stream db))) (fst stream)"
    using run_attempt_state [OF run, of env seconds r budget db] by auto
  show "er_accountId (at_route (ar_state (run_attempt env seconds r budget route stream db))) = er_accountId route"
    using run_attempt_state [OF run, of env seconds r budget db] facts(3) by (auto simp: start_attempt_def)
qed

lemma run_attempt_done:
  assumes "\<not> outputStarted route"
    and "ar_end (run_attempt env seconds r budget route stream db) = Attempt_done"
  shows "snd stream = Stream_ended \<and> (\<forall>e \<in> set (fst stream). \<not> is_failed e)
       \<and> (\<exists>e \<in> set (fst stream). is_completed e)
       \<and> at_yielded (ar_state (run_attempt env seconds r budget route stream db)) = fst stream"
proof -
  obtain st failure where run: "consume (fst stream) (start_attempt route) = (st, failure)" by fastforce
  note facts = consume_facts [OF start_attempt_ok [OF assms(1)] run]
  have seen: "(\<forall>e \<in> set evs. \<not> is_failed e) \<Longrightarrow> seen_events evs = evs" for evs
    by (induction evs) auto
  from run show ?thesis
  proof (cases rule: run_attempt_cases [where env = env and seconds = seconds and r = r and budget = budget and db = db])
    case (succeeded db')
    then show ?thesis using facts seen [of "fst stream"]
      by (auto simp: attempt_events_def start_attempt_def is_completed_iff)
  qed (use assms(2) caught_facts failed_attempt_facts in auto)
qed

lemma failed_attempt_rotates:
  assumes "ar_end (failed_attempt env seconds r budget st outcome code message db) = Attempt_rotates e"
  shows "ar_state (failed_attempt env seconds r budget st outcome code message db) = st"
    and "\<not> outputStarted (at_route st)" and "r < budget" and "failed_commitment (at_commitment st) = Not_sent"
  using failed_attempt_facts [of env seconds r budget st outcome code message db] assms
  by (simp_all add: canRotate_iff)

lemma caught_rotates:
  assumes "ar_end (caught env seconds r budget st error db) = Attempt_rotates e"
  shows "ar_state (caught env seconds r budget st error db) = st"
    and "\<not> outputStarted (at_route st)" and "r < budget" and "thrown_commitment error = Not_sent"
  using caught_facts [of env seconds r budget st error db] assms
  by (simp_all add: canRotate_iff)

lemma run_attempt_rotates:
  assumes "\<not> outputStarted route"
    and "ar_end (run_attempt env seconds r budget route stream db) = Attempt_rotates e"
  shows "safe_to_discard stream \<and> r < budget
       \<and> at_yielded (ar_state (run_attempt env seconds r budget route stream db)) = []
       \<and> at_reported (ar_state (run_attempt env seconds r budget route stream db)) = []"
proof -
  obtain st failure where run: "consume (fst stream) (start_attempt route) = (st, failure)" by fastforce
  note facts = consume_facts [OF start_attempt_ok [OF assms(1)] run]
  have start: "outputStarted (at_route (start_attempt route)) = False"
      "at_commitment (start_attempt route) = Not_sent"
    using assms(1) by (simp_all add: start_attempt_def)
  have silent: "(\<forall>e \<in> set (seen_events (fst stream)). \<not> isOutputOrToolEvent e) \<and> at_yielded st = [] \<and> at_reported st = []"
    if "\<not> outputStarted (at_route st)"
    using facts(1,4) that by (simp add: attempt_ok_def)
  have quiet: "\<forall>e \<in> set (seen_events (fst stream)). \<not> is_started e"
    if "failed_commitment (at_commitment st) = Not_sent" "\<not> outputStarted (at_route st)"
    using that(1) facts(7) quiet_commitment [of "seen_events (fst stream)" Not_sent] silent [OF that(2)] start(2)
    by (auto simp: failed_commitment_def split: if_splits)
  from run show ?thesis
  proof (cases rule: run_attempt_cases [where env = env and seconds = seconds and r = r and budget = budget and db = db])
    case (failed code message outcome)
    note rot = failed_attempt_rotates [OF assms(2) [unfolded failed(2)]]
    show ?thesis unfolding failed(2) rot(1)
      using rot silent [OF rot(2)] quiet [OF rot(4,2)] failed(1) facts(5) by (auto simp: safe_to_discard_def)
  next
    case (threw t)
    note rot = caught_rotates [OF assms(2) [unfolded threw(3)]]
    show ?thesis unfolding threw(3) rot(1)
      using rot silent [OF rot(2)] threw(1,2) facts(5)
      by (simp add: safe_to_discard_def commitmentAllowsRetry_def)
  next
    case (truncated outcome code message)
    note rot = failed_attempt_rotates [OF assms(2) [unfolded truncated(4)]]
    show ?thesis unfolding truncated(4) rot(1)
      using rot silent [OF rot(2)] quiet [OF rot(4,2)] truncated(2) by (simp add: safe_to_discard_def)
  next
    case (unrecorded x db')
    then show ?thesis using assms(2) caught_store_never_rotates by simp
  next
    case (succeeded db')
    then show ?thesis using assms(2) by simp
  qed
qed

section \<open>Lemmas on one round\<close>

definition complete_stream :: "canonical_event list \<times> stream_end \<Rightarrow> bool" where
  "complete_stream stream \<longleftrightarrow> snd stream = Stream_ended \<and> (\<forall>e \<in> set (fst stream). \<not> is_failed e)
     \<and> (\<exists>e \<in> set (fst stream). is_completed e)"

definition round_ok ::
  "exec_env \<Rightarrow> int \<Rightarrow> nat \<Rightarrow> string list \<Rightarrow> exec_result \<Rightarrow> (exec_error \<times> string \<times> exec_world) option \<Rightarrow> bool" where
  "round_ok env budget n tried res cont \<longleftrightarrow>
     (xr_invoked res = [] \<and> xr_events res = [] \<and> xr_error res \<noteq> None \<and> cont = None)
   \<or> (\<exists>route. xr_invoked res = [route] \<and> er_accountId route \<notin> set tried
        \<and> prefix (xr_events res) (fst (xe_invoke env n route))
        \<and> (case cont of
              Some (e, accountId, w') \<Rightarrow> accountId = er_accountId route \<and> int n < budget
                \<and> safe_to_discard (xe_invoke env n route) \<and> xr_events res = []
            | None \<Rightarrow> xr_error res = None \<longrightarrow>
                complete_stream (xe_invoke env n route) \<and> xr_events res = fst (xe_invoke env n route)))"

lemma selected_route:
  assumes "selectLocked senv T now (si\<lparr>si_excludeAccountIds := tried\<rparr>) sel = (Inr selected, sel')"
  shows "er_accountId (sr_route selected) \<notin> set tried \<and> \<not> outputStarted (sr_route selected)"
proof -
  from assms obtain pool sticky c st2 where
    choice: "choose_account senv T now (si\<lparr>si_excludeAccountIds := tried\<rparr>) pool sel = (sticky, Some c, st2)"
    and route: "sr_route selected = bindRoute (si\<lparr>si_excludeAccountIds := tried\<rparr>) pool c
                  (sourceRuleFor (strategy pool) sticky) (Instant now)"
    by (rule selectLocked_Inr)
  show ?thesis
    using choose_account_sound [OF choice] by (simp add: route bindRoute_def createEffectiveRoute_def)
qed

lemma stop_with_round_ok: "round_ok env budget n tried (stop_with e traces w) None"
  by (simp add: round_ok_def stop_with_def)

lemma invoked_round_ok:
  assumes "er_accountId route \<notin> set tried" and "\<not> outputStarted route"
    and a: "a = run_attempt cenv seconds (int n) budget route (xe_invoke env n route) db"
    and base: "xr_events base = at_yielded (ar_state a)" "xr_invoked base = [route]" "xr_error base = None"
  shows "case ar_end a of
           Attempt_done \<Rightarrow> round_ok env budget n tried base None
         | Attempt_throws e \<Rightarrow> round_ok env budget n tried (base\<lparr>xr_error := Some e\<rparr>) None
         | Attempt_rotates e \<Rightarrow>
             round_ok env budget n tried base (Some (e, er_accountId (at_route (ar_state a)), w'))"
proof (cases "ar_end a")
  case Attempt_done
  then show ?thesis
    using assms run_attempt_done [OF assms(2) Attempt_done [unfolded a]] run_attempt_yields(1) [OF assms(2)]
    by (simp add: round_ok_def complete_stream_def)
next
  case (Attempt_throws e)
  then show ?thesis
    using assms run_attempt_yields(1) [OF assms(2)] by (simp add: round_ok_def)
next
  case (Attempt_rotates e)
  then show ?thesis
    using assms run_attempt_rotates [OF assms(2) Attempt_rotates [unfolded a]] run_attempt_yields [OF assms(2)]
    by (simp add: round_ok_def)
qed

lemma one_round_ok:
  assumes "one_round env si budget seconds n tried lastError w = (res, cont)"
  shows "round_ok env budget n tried res cont"
proof -
  let ?w0 = "xe_before env n w"
  obtain r sel where sel: "selectLocked (xe_select env) (tables (ew_db ?w0)) (xe_selectClock env n)
      (si\<lparr>si_excludeAccountIds := tried\<rparr>) (ew_selector ?w0) = (r, sel)" by fastforce
  show ?thesis
  proof (cases r)
    case (Inl e)
    then obtain x w1 where "res = stop_with x [] w1" "cont = None"
      using assms sel by (cases e; cases lastError) (auto simp: one_round_def Let_def)
    then show ?thesis by (simp add: stop_with_round_ok)
  next
    case (Inr selected)
    let ?route = "sr_route selected"
    let ?w1 = "xe_awaited env n (?w0\<lparr>ew_selector := sel\<rparr>)"
    show ?thesis
    proof (cases "revalidate (tables (ew_db ?w1)) (xe_revalidateClock env n) ?route si")
      case (Inl e)
      then have "res = stop_with (Routing_failed e) [sr_trace selected] ?w1" "cont = None"
        using assms sel Inr by (auto simp: one_round_def Let_def)
      then show ?thesis by (simp add: stop_with_round_ok)
    next
      case ok: (Inr u)
      let ?w2 = "xe_streaming env n ?w1"
      define a where "a = run_attempt (xe_cp env n) seconds (int n) budget ?route (xe_invoke env n ?route) (ew_db ?w2)"
      define base where "base = \<lparr>xr_events = at_yielded (ar_state a), xr_traces = [sr_trace selected],
          xr_routes = at_reported (ar_state a), xr_invoked = [?route],
          xr_error = None, xr_world = ?w2\<lparr>ew_db := ar_db a\<rparr>\<rparr>"
      have run: "(res, cont) = (case ar_end a of
             Attempt_done \<Rightarrow> (base, None)
           | Attempt_throws e \<Rightarrow> (base\<lparr>xr_error := Some e\<rparr>, None)
           | Attempt_rotates e \<Rightarrow>
               (base, Some (e, er_accountId (at_route (ar_state a)), ?w2\<lparr>ew_db := ar_db a\<rparr>)))"
        using assms sel Inr ok unfolding one_round_def Let_def a_def base_def by simp
      note route = selected_route [OF sel [unfolded Inr]]
      from run invoked_round_ok [OF _ _ a_def, of tried base "?w2\<lparr>ew_db := ar_db a\<rparr>"] route
      show ?thesis by (cases "ar_end a") (simp_all add: base_def)
    qed
  qed
qed

section \<open>The whole request\<close>

text \<open>
  The attempts of a run in order: attempt \<open>n + k\<close> invoked route number \<open>k\<close>. All but the last
  were safe to discard, and what was yielded is a prefix of the last one's events.
\<close>

definition run_ok :: "exec_env \<Rightarrow> int \<Rightarrow> nat \<Rightarrow> string list \<Rightarrow> exec_result \<Rightarrow> bool" where
  "run_ok env budget n tried r \<longleftrightarrow>
     length (xr_invoked r) \<le> nat (budget + 1 - int n)
   \<and> distinct (tried @ map er_accountId (xr_invoked r))
   \<and> (\<forall>k. Suc k < length (xr_invoked r) \<longrightarrow> safe_to_discard (xe_invoke env (n + k) (xr_invoked r ! k)))
   \<and> (xr_invoked r = [] \<longrightarrow> xr_events r = [] \<and> xr_error r \<noteq> None)
   \<and> (xr_invoked r \<noteq> [] \<longrightarrow>
        (let final = xe_invoke env (n + length (xr_invoked r) - 1) (last (xr_invoked r))
         in prefix (xr_events r) (fst final)
            \<and> (xr_error r = None \<longrightarrow> complete_stream final \<and> xr_events r = fst final)))"

lemma run_ok_stop: "distinct tried \<Longrightarrow> run_ok env budget n tried (stop_with e traces w)"
  by (simp add: run_ok_def stop_with_def)

lemma run_ok_single:
  assumes "round_ok env budget n tried res None" and "distinct tried" and "int n < budget + 1"
  shows "run_ok env budget n tried res"
  using assms by (auto simp: round_ok_def run_ok_def)

lemma run_ok_rotate:
  assumes "round_ok env budget n tried res (Some (e, accountId, w'))" and "distinct tried" and "int n < budget + 1"
    and rest: "run_ok env budget (Suc n) (tried @ [accountId]) r"
    and last_error: "xr_invoked r = [] \<longrightarrow> xr_error r \<noteq> None"
  shows "run_ok env budget n tried (followed_by res r)"
proof -
  from assms(1) obtain route where route: "xr_invoked res = [route]" "accountId = er_accountId route"
    "er_accountId route \<notin> set tried" "int n < budget" "safe_to_discard (xe_invoke env n route)" "xr_events res = []"
    by (auto simp: round_ok_def)
  have inv: "xr_invoked (followed_by res r) = route # xr_invoked r" "xr_events (followed_by res r) = xr_events r"
    "xr_error (followed_by res r) = xr_error r"
    by (simp_all add: followed_by_def route)
  have "safe_to_discard (xe_invoke env (n + k) ((route # xr_invoked r) ! k))"
    if "Suc k < length (route # xr_invoked r)" for k
    using that rest route(5) by (cases k) (auto simp: run_ok_def)
  moreover have "length (route # xr_invoked r) \<le> nat (budget + 1 - int n)"
  proof -
    have "length (xr_invoked r) \<le> nat (budget - int n)" using rest by (simp add: run_ok_def)
    then show ?thesis using route(4) by simp
  qed
  moreover have "distinct (tried @ map er_accountId (route # xr_invoked r))"
    using rest route(2) by (simp add: run_ok_def)
  moreover have "let final = xe_invoke env (n + length (route # xr_invoked r) - 1) (last (route # xr_invoked r))
      in prefix (xr_events r) (fst final) \<and> (xr_error r = None \<longrightarrow> complete_stream final \<and> xr_events r = fst final)"
    using rest last_error by (cases "xr_invoked r = []") (auto simp: run_ok_def Let_def)
  ultimately show ?thesis unfolding run_ok_def inv by simp
qed

lemma stream_from_ok:
  "distinct tried \<Longrightarrow> run_ok env budget n tried (stream_from env si budget seconds n tried lastError w)"
proof (induction env si budget seconds n tried lastError w rule: stream_from.induct)
  case (1 env si budget seconds n tried lastError w)
  show ?case
  proof (cases "int n < budget + 1")
    case False
    then show ?thesis using run_ok_stop [OF "1.prems"] by (simp add: stream_from.simps)
  next
    case True
    obtain res cont where round: "one_round env si budget seconds n tried lastError w = (res, cont)" by fastforce
    note ok = one_round_ok [OF round]
    show ?thesis
    proof (cases cont)
      case None
      with round True have "stream_from env si budget seconds n tried lastError w = res"
        by (simp add: stream_from.simps)
      then show ?thesis using run_ok_single [OF ok [unfolded None] "1.prems" True] by simp
    next
      case (Some c)
      obtain e accountId w' where c: "c = (e, accountId, w')" by (cases c)
      let ?rest = "stream_from env si budget seconds (Suc n) (tried @ [accountId]) (Some e) w'"
      have eq: "stream_from env si budget seconds n tried lastError w = followed_by res ?rest"
        using round True Some c by (subst stream_from.simps) simp
      have "accountId \<notin> set tried" using ok Some c by (auto simp: round_ok_def)
      then have "distinct (tried @ [accountId])" using "1.prems" by simp
      then have rest: "run_ok env budget (Suc n) (tried @ [accountId]) ?rest"
        using "1.IH" True round Some c by simp
      show ?thesis unfolding eq
        by (rule run_ok_rotate [OF ok [unfolded Some c] "1.prems" True rest])
          (use rest in \<open>simp add: run_ok_def\<close>)
    qed
  qed
qed

lemma streamPoolRequest_ok: "run_ok env (request_budget si) 0 [] (streamPoolRequest env si w)"
  unfolding streamPoolRequest_def by (rule stream_from_ok) simp

section \<open>A concrete request\<close>

text \<open>The first account is rate-limited, the second answers; used by the witnesses.\<close>

definition demo_base :: event_base where
  "demo_base = \<lparr>ev_requestId = ''r'', ev_sequence = 0, ev_timestamp = Instant 0, ev_providerId = ''prov'',
                ev_modelId = ''m''\<rparr>"

definition demo_exec_env :: exec_env where
  "demo_exec_env = \<lparr>xe_select = demo_select_env, xe_cp = (\<lambda>_. demo_env), xe_selectClock = (\<lambda>_. 100),
     xe_revalidateClock = (\<lambda>_. 100), xe_before = (\<lambda>_ w. w), xe_awaited = (\<lambda>_ w. w), xe_streaming = (\<lambda>_ w. w),
     xe_invoke = (\<lambda>n _. if n = 0 then ([Response_failed demo_base ''rate_limit_error'' ''slow down''], Stream_ended)
        else ([Response_started demo_base ''x'', Text_delta demo_base 0 ''hi'', Response_completed demo_base ''stop''],
              Stream_ended))\<rparr>"

definition demo_world :: exec_world where
  "demo_world = \<lparr>ew_db = empty_control_plane\<lparr>tables := demo_tables\<rparr>, ew_selector = demo_selector\<rparr>"

definition demo_run :: exec_result where
  "demo_run = streamPoolRequest demo_exec_env (demo_input Fill_first False []) demo_world"

definition run_summary :: "exec_result \<Rightarrow> string list \<times> bool \<times> nat" where
  "run_summary r = (map er_accountId (xr_invoked r), xr_error r = None, length (xr_events r))"

lemma demo_run_summary: "run_summary demo_run = ([''b'', ''a''], True, 3)"
  by code_simp

lemma demo_run_values:
  "map er_accountId (xr_invoked demo_run) = [''b'', ''a''] \<and> xr_error demo_run = None \<and> length (xr_events demo_run) = 3"
  using demo_run_summary by (simp add: run_summary_def)

section \<open>Properties\<close>

text \<open>no discarded output. The events a pool request yields are a prefix of what the provider sent in the last
  attempt: nothing of an attempt that was rotated away from ever reaches the client, under any interleaving with
  other requests.\<close>

theorem events_from_last_attempt:
  "let r = streamPoolRequest env si w in
     if xr_invoked r = [] then xr_events r = []
     else prefix (xr_events r) (fst (xe_invoke env (length (xr_invoked r) - 1) (last (xr_invoked r))))"
  using streamPoolRequest_ok [of env si w] by (simp add: run_ok_def Let_def)

text \<open>C21: bounded, non-repeating failover. A pool request invokes providers at most \<open>retryBudget + 1\<close> times, and
  never the same account twice.\<close>

theorem attempts_bounded:
  "length (xr_invoked (streamPoolRequest env si w)) \<le> nat (request_budget si + 1)
   \<and> distinct (map er_accountId (xr_invoked (streamPoolRequest env si w)))"
  using streamPoolRequest_ok [of env si w] by (simp add: run_ok_def)

text \<open>C19: rotation needs proof. Every attempt but the last showed no output or tool event, and either failed or ended
  before the provider started a response, or threw an error carrying the evidence that nothing was sent.\<close>

theorem rotation_is_safe:
  assumes "Suc k < length (xr_invoked (streamPoolRequest env si w))"
  shows "safe_to_discard (xe_invoke env k (xr_invoked (streamPoolRequest env si w) ! k))"
  using streamPoolRequest_ok [of env si w] assms by (simp add: run_ok_def)

theorem rotation_is_safe_witness:
  "safe_to_discard (xe_invoke demo_exec_env 0 (xr_invoked demo_run ! 0))"
proof -
  have "length (xr_invoked demo_run) = 2" using demo_run_values by (metis length_map list.size(3,4) numeral_2_eq_2 One_nat_def add.right_neutral add_Suc_right)
  then show ?thesis
    using rotation_is_safe [of 0 demo_exec_env "demo_input Fill_first False []" demo_world]
    by (simp add: demo_run_def)
qed

text \<open>C20: no truncated success. A pool request that ends without an error yielded a whole stream: the last attempt's
  provider ended normally, sent a \<open>response-completed\<close> and no \<open>response-failed\<close>, and all its events were yielded.\<close>

theorem success_is_complete:
  assumes "xr_error (streamPoolRequest env si w) = None"
  shows "xr_invoked (streamPoolRequest env si w) \<noteq> []
     \<and> (let final = xe_invoke env (length (xr_invoked (streamPoolRequest env si w)) - 1)
                      (last (xr_invoked (streamPoolRequest env si w)))
        in complete_stream final \<and> xr_events (streamPoolRequest env si w) = fst final)"
  using streamPoolRequest_ok [of env si w] assms by (auto simp: run_ok_def Let_def)

theorem success_is_complete_witness:
  "complete_stream (xe_invoke demo_exec_env (length (xr_invoked demo_run) - 1) (last (xr_invoked demo_run)))
   \<and> length (xr_events demo_run) = 3"
  using success_is_complete [of demo_exec_env "demo_input Fill_first False []" demo_world] demo_run_values
  by (simp add: demo_run_def Let_def)

lemma recordOutcome_health:
  assumes "recordOutcome env i outcome seconds db = (Inr u, db')"
  shows "\<exists>h. healthById i (tables db') = Some h \<and> lastOutcome h = Some outcome
     \<and> health_cooldownUntil h =
         (if outcome = Out_success then None else cooldownUntilFor outcome (cp_now env) seconds)"
proof -
  from assms obtain current :: account_record and a where
    "recordRouteOutcome env i \<lparr>in_outcome = outcome, in_quotaClass = Some (nextQuotaClass outcome (quotaClass current)),
       in_cooldownUntil = Some (if outcome = Out_success then None
                                else cooldownUntilFor outcome (cp_now env) seconds)\<rparr> Actor_system db = (Inr a, db')"
    by (auto simp: recordOutcome_def Let_def split: sum.splits prod.splits)
  from route_outcome_effect [OF this] show ?thesis by auto
qed

lemma cooling_not_eligible:
  assumes "healthById i T = Some h" and "health_cooldownUntil h = Some (Instant t)" and "now < t"
    and "liveAccount T i policy = Some account" and "policy = si_policy input"
  shows "\<not> may_serve (account_input T account input now pin)"
  using assms liveAccount_id [OF assms(4)] by (auto simp: may_serve_def account_input_def)

text \<open>failures cool down. Once an auth, quota or transient failure with a positive cooldown is recorded for an
  account, no selection from the tables that result binds that account before the cooldown is over.\<close>

theorem failed_account_cools_down:
  assumes "recordOutcome cenv i outcome seconds db = (Inr u, db')"
    and "cooldownUntilFor outcome (cp_now cenv) seconds = Some (Instant t)" and "now < t"
    and "selectLocked env (tables db') now input st = (Inr res, st')"
  shows "er_accountId (sr_route res) \<noteq> i"
proof
  assume i: "er_accountId (sr_route res) = i"
  have "outcome \<noteq> Out_success" using assms(2) by (auto simp: cooldownUntilFor_def)
  with recordOutcome_health [OF assms(1)] assms(2) obtain h where
    h: "healthById i (tables db') = Some h" "health_cooldownUntil h = Some (Instant t)" by auto
  from assms(4) obtain pool sticky c st2 where
    choice: "choose_account env (tables db') now input pool st = (sticky, Some c, st2)"
    and route: "sr_route res = bindRoute input pool c (sourceRuleFor (strategy pool) sticky) (Instant now)"
    by (rule selectLocked_Inr)
  have c: "c \<in> set (assessPool (tables db') pool input now)" "eligible c"
    using choose_account_sound [OF choice] by simp_all
  have "cand_accountId c = i" using i by (simp add: route bindRoute_def createEffectiveRoute_def)
  then obtain m :: membership_record and account where m: "liveAccount (tables db') i (si_policy input) = Some account"
      "may_serve (account_input (tables db') account input now (pinOrder m))"
    using eligible_member [OF c] by metis
  then show False using cooling_not_eligible [OF h assms(3) m(1) refl] by simp
qed

theorem failed_account_cools_down_witness:
  "\<exists>db' res st'. recordOutcome demo_env ''b'' Out_quota DEFAULT_COOLDOWN_SECONDS (ew_db demo_world) = (Inr (), db')
     \<and> selectLocked demo_select_env (tables db') 2000 (demo_input Fill_first False []) demo_selector = (Inr res, st')
     \<and> er_accountId (sr_route res) \<noteq> ''b''"
proof -
  let ?r = "recordOutcome demo_env ''b'' Out_quota DEFAULT_COOLDOWN_SECONDS (ew_db demo_world)"
  let ?s = "selectLocked demo_select_env (tables (snd ?r)) 2000 (demo_input Fill_first False []) demo_selector"
  have "is_ok (fst ?r)" "is_ok (fst ?s)" by code_simp+
  then obtain res where run: "?r = (Inr (), snd ?r)" and sel: "?s = (Inr res, snd ?s)"
    by (cases ?r; cases "fst ?r"; cases ?s; cases "fst ?s") (auto simp: is_ok_def)
  have cool: "cooldownUntilFor Out_quota (cp_now demo_env) DEFAULT_COOLDOWN_SECONDS = Some (Instant 301000)"
    by code_simp
  from failed_account_cools_down [OF run cool _ sel] run sel show ?thesis by fastforce
qed

text \<open>
  The \<open>catch\<close> block looks only at the evidence the error carries, not at what the stream showed: an adapter that
  throws "not sent" after the provider started its response is rotated away from.
\<close>

lemma thrown_evidence_overrides_acceptance:
  assumes "commitmentOf t = Not_sent" and "classifyThrown (Provider_threw t) = Out_transient"
    and "\<not> isAbortError (Provider_threw t)" and "0 < budget"
    and "recordOutcome env (er_accountId (at_route st)) Out_transient seconds db = (Inr u, db')"
    and "at_commitment st = Provider_accepted" and "\<not> outputStarted (at_route st)"
  shows "ar_end (caught env seconds 0 budget st (Provider_threw t) db) = Attempt_rotates (as_error (Provider_threw t))"
  using assms by (simp add: caught_def settle_thrown_def Let_def canRotate_iff)

end
