(* ===== verification/Reasoning_Translation.thy ===== *)
theory Reasoning_Translation
  imports Core_Model
begin

text \<open>
  From a canonical reasoning intent to a model's own control:
  \<^verbatim>\<open>src/providers/reasoning.ts\<close>. A \<open>ReasoningTranslationError\<close> is its code and message
  on the left of the sum.
\<close>

datatype reasoning_error_code = Unsupported_reasoning | No_budget_policy

type_synonym reasoning_error = "reasoning_error_code \<times> string"

record resolve_options =
  budgetPolicy :: "reasoning_budget_policy option"
  bestEffort :: bool

fun intent_text :: "reasoning_intent \<Rightarrow> string" where
  "intent_text OFF = ''OFF''"
| "intent_text ECONOMY = ''ECONOMY''"
| "intent_text BALANCED = ''BALANCED''"
| "intent_text DEEP = ''DEEP''"
| "intent_text MAXIMUM = ''MAXIMUM''"
| "intent_text AUTO = ''AUTO''"

fun INTENT_RANK :: "reasoning_intent \<Rightarrow> nat" where
  "INTENT_RANK OFF = 0"
| "INTENT_RANK ECONOMY = 1"
| "INTENT_RANK BALANCED = 2"
| "INTENT_RANK DEEP = 3"
| "INTENT_RANK MAXIMUM = 4"
| "INTENT_RANK AUTO = 0"

definition NEUTRAL_INTENT :: reasoning_intent where
  "NEUTRAL_INTENT = BALANCED"

text \<open>\<open>String\<close> of an integer.\<close>

fun show_nat :: "nat \<Rightarrow> string" where
  "show_nat n = (if n < 10 then [char_of (48 + n)] else show_nat (n div 10) @ [char_of (48 + n mod 10)])"

declare show_nat.simps [simp del]

definition show_int :: "int \<Rightarrow> string" where
  "show_int i = (if i < 0 then ''-'' @ show_nat (nat (- i)) else show_nat (nat i))"

section \<open>Levels and budgets\<close>

definition nativeLevels :: "string list \<Rightarrow> string list" where
  "nativeLevels levels = filter (\<lambda>level. level \<noteq> ''none'' \<and> level \<noteq> ''off'') levels"

definition nearest_index :: "reasoning_intent \<Rightarrow> nat \<Rightarrow> nat" where
  "nearest_index i n =
     (case i of
        ECONOMY \<Rightarrow> 0
      | BALANCED \<Rightarrow> (n - 1) div 2
      | DEEP \<Rightarrow> if 3 \<le> n then n - 2 else n - 1
      | MAXIMUM \<Rightarrow> n - 1
      | _ \<Rightarrow> (n - 1) div 2)"

definition nearestLevel :: "reasoning_intent \<Rightarrow> string list \<Rightarrow> reasoning_error + string" where
  "nearestLevel i levels =
     (let usable = nativeLevels levels
      in if usable = [] then
           Inl (Unsupported_reasoning,
                ''discrete-effort control declares only non-reasoning levels; cannot translate ''
                @ intent_text i @ '' intent'')
         else Inr (usable ! nearest_index i (length usable)))"

definition budgetTokensFor :: "reasoning_intent \<Rightarrow> reasoning_budget_policy \<Rightarrow> int" where
  "budgetTokensFor i policy =
     (case i of
        ECONOMY \<Rightarrow> economy policy
      | BALANCED \<Rightarrow> balanced policy
      | DEEP \<Rightarrow> deep policy
      | MAXIMUM \<Rightarrow> maximum policy
      | _ \<Rightarrow> balanced policy)"

definition enabledControl ::
  "reasoning_capability_evidence \<Rightarrow> resolve_options \<Rightarrow> reasoning_error + native_reasoning_control" where
  "enabledControl capability options =
     (case controlKind capability of
        Discrete_effort \<Rightarrow>
          bind_ok (nearestLevel NEUTRAL_INTENT (get_or [] (effortLevels capability))) (\<lambda>level. Inr (Ctl_effort level))
      | Binary_control \<Rightarrow> Inr (Ctl_binary True)
      | Token_budget_control \<Rightarrow>
          (case budgetPolicy options of
             None \<Rightarrow> Inl (No_budget_policy,
               ''token-budget reasoning requires a reviewed per-model budget policy; cannot enable reasoning'')
           | Some policy \<Rightarrow> Inr (Ctl_budget (budgetTokensFor NEUTRAL_INTENT policy)))
      | Adaptive_control \<Rightarrow> Inr (Ctl_adaptive True)
      | No_control \<Rightarrow> Inl (Unsupported_reasoning,
               ''selected model does not support reasoning; cannot enable reasoning''))"

section \<open>The translation\<close>

definition resolved_as ::
  "reasoning_request \<Rightarrow> reasoning_intent \<Rightarrow> native_reasoning_control \<Rightarrow> reasoning_mapping_kind \<Rightarrow> string option
    \<Rightarrow> resolved_reasoning" where
  "resolved_as req i control kind reason =
     \<lparr>requested = req, canonicalIntent = i, effective_control = control, mappingKind = kind,
      fallbackReason = reason\<rparr>"

definition exact_effort :: "reasoning_request \<Rightarrow> reasoning_capability_evidence \<Rightarrow> string option" where
  "exact_effort req capability =
     (case sourceEffort req of
        None \<Rightarrow> None
      | Some effort \<Rightarrow>
          if controlKind capability = Discrete_effort \<and> effort \<in> set (get_or [] (effortLevels capability))
          then Some effort else None)"

definition effort_reason :: "reasoning_request \<Rightarrow> reasoning_intent \<Rightarrow> string \<Rightarrow> string" where
  "effort_reason req i level =
     (if sourceEffort req \<noteq> None \<and> Some level \<noteq> sourceEffort req
      then ''source effort '' @ get_or [] (sourceEffort req) @ '' is not natively supported; intent ''
           @ intent_text i @ '' mapped to nearest level '' @ level
      else ''intent '' @ intent_text i @ '' mapped to native level '' @ level)"

text \<open>The \<open>switch\<close> over the control kind, reached with a positive intent of a
  model that supports reasoning (so never with no control, the branch the \<open>switch\<close> leaves out).\<close>

definition resolve_by_kind ::
  "reasoning_request \<Rightarrow> reasoning_capability_evidence \<Rightarrow> resolve_options \<Rightarrow> reasoning_error + resolved_reasoning" where
  "resolve_by_kind req capability options =
     (let i = intent req in
      case controlKind capability of
        Discrete_effort \<Rightarrow>
          bind_ok (nearestLevel i (get_or [] (effortLevels capability))) (\<lambda>level.
            Inr (resolved_as req i (Ctl_effort level) Map_normalized
              (Some (effort_reason req i level))))
      | Binary_control \<Rightarrow>
          Inr (resolved_as req i (Ctl_binary True)
            (if INTENT_RANK DEEP \<le> INTENT_RANK i then Map_downgraded else Map_normalized)
            (Some (''binary reasoning control has no effort granularity; '' @ intent_text i @ '' mapped to enabled'')))
      | Adaptive_control \<Rightarrow>
          Inr (resolved_as req i (Ctl_adaptive True) Map_normalized
            (Some (''adaptive reasoning control has no effort granularity; '' @ intent_text i
                   @ '' mapped to adaptive enabled'')))
      | Token_budget_control \<Rightarrow>
          (case budgetPolicy options of
             None \<Rightarrow> Inl (No_budget_policy,
               ''token-budget reasoning requires a reviewed per-model budget policy; cannot translate ''
               @ intent_text i @ '' intent'')
           | Some policy \<Rightarrow>
               let tokens = budgetTokensFor i policy in
               Inr (resolved_as req i (Ctl_budget tokens) Map_normalized
                 (Some (''token-budget control; intent '' @ intent_text i
                        @ '' mapped through the reviewed budget policy to '' @ show_int tokens))))
      | No_control \<Rightarrow> Inl (Unsupported_reasoning, []))"

definition resolveReasoning ::
  "reasoning_request \<Rightarrow> reasoning_capability_evidence \<Rightarrow> resolve_options \<Rightarrow> reasoning_error + resolved_reasoning" where
  "resolveReasoning req capability options =
     (let i = intent req in
      if i = OFF then Inr (resolved_as req OFF Ctl_off Map_exact None)
      else if sourceMode req = Some Mode_adaptive then
        if adaptive capability then Inr (resolved_as req i (Ctl_adaptive True) Map_exact None)
        else bind_ok (enabledControl capability options) (\<lambda>control.
               Inr (resolved_as req i control Map_normalized
                 (Some ''adaptive source mode has no adaptive control; mapped to the nearest enabled control'')))
      else if i = AUTO then Inr (resolved_as req AUTO Ctl_provider_default Map_default None)
      else if \<not> supported capability \<or> controlKind capability = No_control then
        if bestEffort options then
          Inr (resolved_as req i Ctl_off Map_downgraded
            (Some ''selected model does not support reasoning; best-effort policy disabled reasoning''))
        else Inl (Unsupported_reasoning,
               ''selected model does not support reasoning; cannot translate '' @ intent_text i @ '' intent'')
      else (case exact_effort req capability of
              Some effort \<Rightarrow> Inr (resolved_as req i (Ctl_effort effort) Map_exact None)
            | None \<Rightarrow> resolve_by_kind req capability options))"

section \<open>Lemmas\<close>

lemma resolved_as_fields [simp]:
  "requested (resolved_as req i control kind reason) = req"
  "canonicalIntent (resolved_as req i control kind reason) = i"
  "effective_control (resolved_as req i control kind reason) = control"
  "mappingKind (resolved_as req i control kind reason) = kind"
  "fallbackReason (resolved_as req i control kind reason) = reason"
  by (simp_all add: resolved_as_def)

lemma nearest_index_bound: "0 < n \<Longrightarrow> nearest_index i n < n"
  by (cases i) (auto simp: nearest_index_def)

lemma nearestLevel_in:
  assumes "nearestLevel i levels = Inr level"
  shows "level \<in> set levels \<and> level \<noteq> ''none'' \<and> level \<noteq> ''off''"
proof -
  from assms have ne: "nativeLevels levels \<noteq> []"
    and level: "level = nativeLevels levels ! nearest_index i (length (nativeLevels levels))"
    by (auto simp: nearestLevel_def Let_def split: if_splits)
  then have "level \<in> set (nativeLevels levels)" using nearest_index_bound by simp
  then show ?thesis by (simp add: nativeLevels_def)
qed

text \<open>The controls a capability allows for a request under the given options.\<close>

fun control_allowed ::
  "reasoning_request \<Rightarrow> reasoning_capability_evidence \<Rightarrow> resolve_options \<Rightarrow> native_reasoning_control \<Rightarrow> bool" where
  "control_allowed req cap options Ctl_off \<longleftrightarrow>
     intent req = OFF \<or> (bestEffort options \<and> (\<not> supported cap \<or> controlKind cap = No_control))"
| "control_allowed req cap options Ctl_provider_default \<longleftrightarrow> intent req = AUTO"
| "control_allowed req cap options (Ctl_binary b) \<longleftrightarrow> b \<and> controlKind cap = Binary_control"
| "control_allowed req cap options (Ctl_adaptive b) \<longleftrightarrow> b \<and> (adaptive cap \<or> controlKind cap = Adaptive_control)"
| "control_allowed req cap options (Ctl_effort level) \<longleftrightarrow>
     controlKind cap = Discrete_effort \<and> level \<in> set (get_or [] (effortLevels cap))
     \<and> (sourceEffort req = Some level \<or> (level \<noteq> ''none'' \<and> level \<noteq> ''off''))"
| "control_allowed req cap options (Ctl_budget tokens) \<longleftrightarrow>
     controlKind cap = Token_budget_control
     \<and> (\<exists>p. budgetPolicy options = Some p \<and> tokens \<in> {economy p, balanced p, deep p, maximum p})"

lemma enabledControl_allowed: "enabledControl cap options = Inr c \<Longrightarrow> control_allowed req cap options c"
  by (auto simp: enabledControl_def bind_ok_Inr_iff budgetTokensFor_def NEUTRAL_INTENT_def
      dest: nearestLevel_in split: reasoning_control_kind.splits option.splits)

lemma budgetTokensFor_in: "budgetTokensFor i p \<in> {economy p, balanced p, deep p, maximum p}"
  by (cases i) (simp_all add: budgetTokensFor_def)

lemma resolve_by_kind_allowed:
  assumes "resolve_by_kind req cap options = Inr r"
  shows "control_allowed req cap options (effective_control r) \<and> requested r = req \<and> canonicalIntent r = intent req
     \<and> mappingKind r \<in> {Map_normalized, Map_downgraded} \<and> fallbackReason r \<noteq> None"
proof (cases "controlKind cap")
  case Discrete_effort
  with assms obtain level where "nearestLevel (intent req) (get_or [] (effortLevels cap)) = Inr level"
    and "r = resolved_as req (intent req) (Ctl_effort level) Map_normalized
               (Some (effort_reason req (intent req) level))"
    by (auto simp: resolve_by_kind_def Let_def bind_ok_Inr_iff)
  with nearestLevel_in [of "intent req" "get_or [] (effortLevels cap)" level] Discrete_effort show ?thesis by simp
next
  case Token_budget_control
  then show ?thesis using assms budgetTokensFor_in [of "intent req"]
    by (auto simp: resolve_by_kind_def Let_def split: option.splits)
qed (use assms in \<open>auto simp: resolve_by_kind_def Let_def split: if_splits\<close>)

section \<open>Properties\<close>

text \<open>C39: a translated reasoning request keeps the request and its intent, uses only a control the model declares
  (a level of its own list, never a disabling one unless it is the client's own, a budget of the reviewed policy, off only when asked
  for or under best effort), and is never silent: the mapping is exact or the provider default without a reason, or it
  carries the reason why it differs.\<close>

theorem resolved_control_is_declared:
  assumes "resolveReasoning req cap options = Inr r"
  shows "requested r = req \<and> canonicalIntent r = intent req \<and> control_allowed req cap options (effective_control r)
       \<and> (mappingKind r \<in> {Map_exact, Map_default} \<longleftrightarrow> fallbackReason r = None)"
proof -
  consider (off) "intent req = OFF" | (adaptive) "intent req \<noteq> OFF" "sourceMode req = Some Mode_adaptive"
    | (auto) "intent req = AUTO" "sourceMode req \<noteq> Some Mode_adaptive"
    | (unsupported) "intent req \<noteq> OFF" "intent req \<noteq> AUTO" "sourceMode req \<noteq> Some Mode_adaptive"
        "\<not> supported cap \<or> controlKind cap = No_control"
    | (positive) "intent req \<noteq> OFF" "intent req \<noteq> AUTO" "sourceMode req \<noteq> Some Mode_adaptive"
        "supported cap \<and> controlKind cap \<noteq> No_control"
    by blast
  then show ?thesis
  proof cases
    case adaptive
    then show ?thesis using assms enabledControl_allowed
      by (cases "intent req") (auto simp: resolveReasoning_def bind_ok_Inr_iff split: if_splits)
  next
    case positive
    show ?thesis
    proof (cases "exact_effort req cap")
      case None
      then show ?thesis using assms positive resolve_by_kind_allowed [of req cap options r]
        by (auto simp: resolveReasoning_def Let_def)
    next
      case (Some effort)
      then show ?thesis using assms positive
        by (auto simp: resolveReasoning_def Let_def exact_effort_def split: option.splits if_splits)
    qed
  qed (use assms in \<open>auto simp: resolveReasoning_def Let_def split: if_splits\<close>)
qed

definition demo_reasoning :: reasoning_capability_evidence where
  "demo_reasoning = \<lparr>supported = True, controlKind = Discrete_effort,
     effortLevels = Some [''none'', ''low'', ''medium'', ''high''], adaptive = False, tokenBudget = False,
     reasoningWithTools = True\<rparr>"

definition demo_request :: reasoning_request where
  "demo_request = \<lparr>intent = MAXIMUM, sourceMode = None, sourceEffort = Some ''xhigh'', explicit = True\<rparr>"

theorem resolved_control_is_declared_witness:
  "\<exists>r. resolveReasoning demo_request demo_reasoning \<lparr>budgetPolicy = None, bestEffort = False\<rparr> = Inr r
     \<and> effective_control r = Ctl_effort ''high'' \<and> fallbackReason r \<noteq> None"
proof -
  let ?o = "\<lparr>budgetPolicy = None, bestEffort = False\<rparr>"
  have "map_sum id (\<lambda>r. (effective_control r, mappingKind r)) (resolveReasoning demo_request demo_reasoning ?o)
      = Inr (Ctl_effort ''high'', Map_normalized)" by code_simp
  then obtain r where run: "resolveReasoning demo_request demo_reasoning ?o = Inr r"
    and r: "effective_control r = Ctl_effort ''high''" "mappingKind r = Map_normalized"
    by (cases "resolveReasoning demo_request demo_reasoning ?o") auto
  from resolved_control_is_declared [OF run] run r show ?thesis by auto
qed



text \<open>effort is monotone in intent: within one model's own levels a stronger positive intent never gets a level
  listed earlier, economy gets the first and maximum the last usable one.\<close>

theorem nearest_level_monotone:
  assumes "nativeLevels levels \<noteq> []" and "INTENT_RANK i \<le> INTENT_RANK j" and "{i, j} \<subseteq> {ECONOMY, BALANCED, DEEP, MAXIMUM}"
  shows "\<exists>m n. m \<le> n \<and> n < length (nativeLevels levels)
     \<and> nearestLevel i levels = Inr (nativeLevels levels ! m)
     \<and> nearestLevel j levels = Inr (nativeLevels levels ! n)
     \<and> (i = ECONOMY \<longrightarrow> m = 0) \<and> (j = MAXIMUM \<longrightarrow> n = length (nativeLevels levels) - 1)"
proof (intro exI conjI)
  let ?n = "length (nativeLevels levels)"
  have n: "0 < ?n" using assms(1) by simp
  show "nearest_index i ?n \<le> nearest_index j ?n"
    using assms(2,3) n by (cases i; cases j) (auto simp: nearest_index_def)
  show "nearest_index j ?n < ?n" by (rule nearest_index_bound [OF n])
qed (use assms(1) in \<open>simp_all add: nearestLevel_def Let_def nearest_index_def\<close>)

theorem nearest_level_monotone_witness:
  "\<exists>m n. m \<le> n \<and> n < 3
     \<and> nearestLevel DEEP [''none'', ''low'', ''medium'', ''high''] = Inr ([''low'', ''medium'', ''high''] ! m)
     \<and> nearestLevel MAXIMUM [''none'', ''low'', ''medium'', ''high''] = Inr ([''low'', ''medium'', ''high''] ! n)"
proof -
  have lv: "nativeLevels [''none'', ''low'', ''medium'', ''high''] = [''low'', ''medium'', ''high'']" by code_simp
  have len: "length [''low'', ''medium'', ''high''] = 3" by simp
  have hyps: "nativeLevels [''none'', ''low'', ''medium'', ''high''] \<noteq> []" "INTENT_RANK DEEP \<le> INTENT_RANK MAXIMUM"
    "{DEEP, MAXIMUM} \<subseteq> {ECONOMY, BALANCED, DEEP, MAXIMUM}" by (simp_all add: lv)
  show ?thesis using nearest_level_monotone [OF hyps, unfolded lv len] by blast
qed

text \<open>
  A binary control accepts even a maximum intent without best effort: the downgrade is recorded, not refused.
\<close>

lemma maximum_on_binary_is_downgraded:
  assumes "supported cap" and "controlKind cap = Binary_control" and "intent req = MAXIMUM"
    and "sourceMode req \<noteq> Some Mode_adaptive"
  shows "\<exists>r. resolveReasoning req cap \<lparr>budgetPolicy = None, bestEffort = False\<rparr> = Inr r \<and> mappingKind r = Map_downgraded"
  using assms by (simp add: resolveReasoning_def exact_effort_def resolve_by_kind_def Let_def split: option.split)

end
