(* ===== verification/Registry.thy ===== *)
theory Registry
  imports Control_Plane_Types
begin

text \<open>
  The reviewed model registry: \<^verbatim>\<open>src/registry/model-registry.ts\<close>, with the
  credential references (\<^verbatim>\<open>src/credentials/credential-ref.ts\<close>) and the helper-model
  map (\<^verbatim>\<open>src/profiles/helper-map.ts\<close>) that configured routes use.

  Evidence dates are the texts of the document. A configuration's routes and a profile's
  model roles are association lists in their entry order. A thrown \<open>Error\<close> is its message,
  a schema rejection the text \<open>schema\<close>. The tables keyed by a string are association
  lists: that a JavaScript object also answers for the members of \<open>Object.prototype\<close>
  (a model called \<open>constructor\<close>) is left out.
\<close>

section \<open>Credential references\<close>

definition is_upper :: "char \<Rightarrow> bool" where
  "is_upper c \<longleftrightarrow> 65 \<le> (of_char c :: nat) \<and> (of_char c :: nat) \<le> 90"

definition is_lower :: "char \<Rightarrow> bool" where
  "is_lower c \<longleftrightarrow> 97 \<le> (of_char c :: nat) \<and> (of_char c :: nat) \<le> 122"

definition is_digit :: "char \<Rightarrow> bool" where
  "is_digit c \<longleftrightarrow> 48 \<le> (of_char c :: nat) \<and> (of_char c :: nat) \<le> 57"

definition approvedEnvName :: "string \<Rightarrow> bool" where
  "approvedEnvName s \<longleftrightarrow>
     (case s of
        [] \<Rightarrow> False
      | c # rest \<Rightarrow> is_upper c \<and> 2 \<le> length rest \<and> length rest \<le> 127
                   \<and> list_all (\<lambda>d. is_upper d \<or> is_digit d \<or> d = CHR ''_'') rest)"

definition approvedHandle :: "string \<Rightarrow> bool" where
  "approvedHandle s \<longleftrightarrow>
     starts_with s ''cred-'' \<and> 1 \<le> length (drop 5 s) \<and> length (drop 5 s) \<le> 64
     \<and> list_all (\<lambda>d. is_upper d \<or> is_lower d \<or> is_digit d \<or> d = CHR ''_'' \<or> d = CHR ''-'') (drop 5 s)"

definition providerCredentialNames :: "(string \<times> string list) list" where
  "providerCredentialNames =
     [(''openrouter'', [''OPENROUTER_API_KEY'']), (''deepseek'', [''DEEPSEEK_API_KEY'']),
      (''opencode-go'', [''OPENCODE_GO_API_KEY'']), (''alibaba-token-plan'', [''ALIBABA_TOKEN_PLAN_API_KEY''])]"

definition parseCredentialRef :: "string \<Rightarrow> string + credential_ref" where
  "parseCredentialRef value =
     (let kind = takeWhile (\<lambda>c. c \<noteq> CHR '':'') value;
          payload = drop (Suc (length kind)) value
      in if kind = [] \<or> CHR '':'' \<notin> set value then Inl ''Credential reference must use kind:value syntax''
         else if kind = ''env'' then
           (if approvedEnvName payload then Inr (Env_ref payload) else Inl ''schema'')
         else if kind = ''handle'' then
           (if approvedHandle payload then Inr (Handle_ref payload) else Inl ''schema'')
         else Inl (''Unsupported credential reference kind: '' @ kind))"

definition assertProviderCredential :: "string \<Rightarrow> credential_ref \<Rightarrow> string + unit" where
  "assertProviderCredential provider ref =
     (case ref of
        Handle_ref _ \<Rightarrow>
          guard_ok (provider = ''codex'') ''Credential reference is not approved for the selected provider''
      | Env_ref nm \<Rightarrow>
          guard_ok (case map_of providerCredentialNames provider of None \<Rightarrow> False | Some allowed \<Rightarrow> nm \<in> set allowed)
            ''Credential reference is not approved for the selected provider''
      | Keychain_ref _ _ \<Rightarrow> Inr ())"

section \<open>Helper models and profile roles\<close>

definition HELPER_ROLES :: "(string \<times> string) list" where
  "HELPER_ROLES = [(''claude-haiku-4-5'', ''fast''), (''claude-sonnet-5'', ''primary''), (''claude-opus-4-8'', ''primary'')]"

definition helperRoleFor :: "string \<Rightarrow> string option" where
  "helperRoleFor requestedModel = map_of HELPER_ROLES (js_to_lower requestedModel)"

definition PROFILE_MODEL_ROLES :: "string list" where
  "PROFILE_MODEL_ROLES = [''primary'', ''fast'', ''reasoning'']"

definition resolveProfileRole :: "string \<Rightarrow> (string \<times> string) list \<Rightarrow> (string \<times> string) option" where
  "resolveProfileRole requestedModel roles =
     (let named = (if requestedModel \<in> set PROFILE_MODEL_ROLES then map_of roles requestedModel else None);
          exact = List.find (\<lambda>(_, m). m = requestedModel) roles;
          mapped = Option.bind (helperRoleFor requestedModel) (\<lambda>h. map_option (Pair h) (map_of roles h))
      in if named \<noteq> None \<and> named \<noteq> Some [] then map_option (Pair requestedModel) named
         else or_else exact mapped)"

section \<open>Model evidence\<close>

record model_identity =
  mi_accessProviderId :: string
  mi_upstreamModelId :: string
  mi_modelFamily :: "string option"

datatype compatibility_state = VERIFIED | EXPERIMENTAL | BROKEN

record compatibility_evidence =
  ce_state :: compatibility_state
  ce_baseline :: string
  ce_evidenceRef :: string
  ce_checkedAt :: string
  ce_claimRef :: "string option"

record model_evidence =
  me_logicalId :: string
  me_identity :: model_identity
  me_verifiedAt :: string
  me_fixtureVersion :: string
  me_tokenCounting :: token_counting_quality
  me_capabilities :: provider_capabilities
  me_limits :: model_limits
  me_reasoning :: reasoning_capability_evidence
  me_compatibility :: compatibility_evidence

record registry_document =
  registryRevision :: int
  registry_models :: "model_evidence list"

definition MODEL_REGISTRY_REVISION :: int where
  "MODEL_REGISTRY_REVISION = 5"

definition conservativeCapabilities :: provider_capabilities where
  "conservativeCapabilities =
     \<lparr>cap_streaming = True, cap_tools = True, cap_parallelTools = False, cap_images = False, cap_reasoning = True,
      cap_redactedReasoning = False, cap_structuredOutput = False, cap_tokenCounting = Conservative_estimate\<rparr>"

definition conservativeReasoning :: "provider_capabilities \<Rightarrow> reasoning_capability_evidence" where
  "conservativeReasoning capabilities =
     \<lparr>supported = cap_reasoning capabilities,
      controlKind = (if cap_reasoning capabilities then Binary_control else No_control),
      effortLevels = None, adaptive = False, tokenBudget = False, reasoningWithTools = False\<rparr>"

definition empty_limits :: model_limits where
  "empty_limits = \<lparr>contextWindow = None, maxOutput = None\<rparr>"

record reviewed_compatibility =
  rc_state :: "compatibility_state option"
  rc_baseline :: "string option"
  rc_evidenceRef :: string
  rc_checkedAt :: "string option"
  rc_claimRef :: "string option"

record reviewed_input =
  ri_accessProviderId :: string
  ri_upstreamModelId :: string
  ri_modelFamily :: "string option"
  ri_verifiedAt :: string
  ri_fixtureVersion :: string
  ri_capabilities :: provider_capabilities
  ri_compatibility :: "reviewed_compatibility option"
  ri_limits :: "model_limits option"
  ri_reasoning :: "reasoning_capability_evidence option"

definition logical_id :: "string \<Rightarrow> string \<Rightarrow> string" where
  "logical_id providerId modelId = providerId @ ''/'' @ modelId"

definition reviewedModel :: "reviewed_input \<Rightarrow> model_evidence" where
  "reviewedModel input =
     (let capabilities = ri_capabilities input;
          compatibility = get_or \<lparr>rc_state = None, rc_baseline = None, rc_evidenceRef = ri_fixtureVersion input,
                                  rc_checkedAt = None, rc_claimRef = None\<rparr> (ri_compatibility input)
      in \<lparr>me_logicalId = logical_id (ri_accessProviderId input) (ri_upstreamModelId input),
          me_identity = \<lparr>mi_accessProviderId = ri_accessProviderId input,
                         mi_upstreamModelId = ri_upstreamModelId input, mi_modelFamily = ri_modelFamily input\<rparr>,
          me_verifiedAt = ri_verifiedAt input, me_fixtureVersion = ri_fixtureVersion input,
          me_tokenCounting = cap_tokenCounting capabilities, me_capabilities = capabilities,
          me_limits = get_or empty_limits (ri_limits input),
          me_reasoning = get_or (conservativeReasoning capabilities) (ri_reasoning input),
          me_compatibility =
            \<lparr>ce_state = get_or EXPERIMENTAL (rc_state compatibility),
             ce_baseline = get_or ''claude-code-fake-upstream'' (rc_baseline compatibility),
             ce_evidenceRef = rc_evidenceRef compatibility,
             ce_checkedAt = get_or (ri_verifiedAt input) (rc_checkedAt compatibility),
             ce_claimRef = rc_claimRef compatibility\<rparr>\<rparr>)"

definition DIRECT_E2E_REF :: string where "DIRECT_E2E_REF = ''tests/e2e/claude-code/direct-provider.e2e.test.ts''"
definition CODEX_E2E_REF :: string where "CODEX_E2E_REF = ''tests/e2e/claude-code/codex-oauth.e2e.test.ts''"
definition CLINE_E2E_REF :: string where "CLINE_E2E_REF = ''tests/e2e/claude-code/cline-interop.e2e.test.ts''"

definition shipped :: "string \<Rightarrow> string \<Rightarrow> string \<Rightarrow> string \<Rightarrow> string \<Rightarrow> provider_capabilities \<Rightarrow> string \<Rightarrow> model_evidence" where
  "shipped provider model family verified fixture caps ref =
     reviewedModel
       \<lparr>ri_accessProviderId = provider, ri_upstreamModelId = model, ri_modelFamily = Some family,
        ri_verifiedAt = verified, ri_fixtureVersion = fixture, ri_capabilities = caps,
        ri_compatibility = Some \<lparr>rc_state = None, rc_baseline = None, rc_evidenceRef = ref, rc_checkedAt = None,
                                 rc_claimRef = None\<rparr>,
        ri_limits = None, ri_reasoning = None\<rparr>"

definition directProviderRegistry :: registry_document where
  "directProviderRegistry =
     \<lparr>registryRevision = MODEL_REGISTRY_REVISION,
      registry_models =
        [shipped ''openrouter'' ''nvidia/nemotron-3.5-lightning:free'' ''nvidia'' ''2026-08-13'' ''openai-chat-v1''
           conservativeCapabilities DIRECT_E2E_REF,
         shipped ''openrouter'' ''nvidia/nemotron-nano-12b-v2-vl:free'' ''nvidia'' ''2026-08-13'' ''openai-chat-v1''
           (conservativeCapabilities\<lparr>cap_images := True\<rparr>) DIRECT_E2E_REF,
         shipped ''openrouter'' ''openai/gpt-oss-20b:free'' ''openai'' ''2026-08-13'' ''openai-chat-v1''
           (conservativeCapabilities\<lparr>cap_structuredOutput := True\<rparr>) DIRECT_E2E_REF,
         shipped ''deepseek'' ''deepseek-v4-flash'' ''deepseek'' ''2026-08-13'' ''openai-chat-v1''
           (conservativeCapabilities\<lparr>cap_tools := False\<rparr>) DIRECT_E2E_REF,
         shipped ''codex'' ''gpt-5.4'' ''openai/codex'' ''2026-08-14'' ''codex-oauth-chat-v1''
           conservativeCapabilities CODEX_E2E_REF,
         shipped ''cline'' ''claude-sonnet-4-5'' ''anthropic'' ''2026-08-14'' ''cline-interop-chat-v1''
           conservativeCapabilities CLINE_E2E_REF,
         shipped ''cline'' ''gpt-5.6-terra'' ''openai/codex'' ''2026-08-21'' ''cline-interop-chat-v1''
           conservativeCapabilities CLINE_E2E_REF,
         shipped ''cline'' ''gpt-5.6-sol'' ''openai/codex'' ''2026-08-21'' ''cline-interop-chat-v1''
           conservativeCapabilities CLINE_E2E_REF,
         shipped ''cline'' ''deepseek-v4-pro'' ''deepseek'' ''2026-08-21'' ''cline-interop-chat-v1''
           (conservativeCapabilities\<lparr>cap_tools := False\<rparr>) CLINE_E2E_REF,
         shipped ''cline'' ''claude-opus-4-8'' ''anthropic'' ''2026-08-21'' ''cline-interop-chat-v1''
           conservativeCapabilities CLINE_E2E_REF,
         shipped ''cline'' ''claude-fable'' ''anthropic'' ''2026-08-21'' ''cline-interop-chat-v1''
           conservativeCapabilities CLINE_E2E_REF]\<rparr>"

section \<open>Lookups\<close>

definition findModelEvidence :: "registry_document \<Rightarrow> string \<Rightarrow> string \<Rightarrow> model_evidence option" where
  "findModelEvidence registry providerId modelId =
     List.find (\<lambda>m. me_logicalId m = logical_id providerId modelId) (registry_models registry)"

definition modelsForProvider :: "registry_document \<Rightarrow> string \<Rightarrow> model_evidence list" where
  "modelsForProvider registry providerId =
     filter (\<lambda>m. mi_accessProviderId (me_identity m) = providerId) (registry_models registry)"

definition modelsForFamily :: "registry_document \<Rightarrow> string \<Rightarrow> model_evidence list" where
  "modelsForFamily registry family =
     filter (\<lambda>m. mi_modelFamily (me_identity m) = Some family) (registry_models registry)"

definition modelsSatisfying :: "registry_document \<Rightarrow> (provider_capabilities \<Rightarrow> bool) \<Rightarrow> model_evidence list" where
  "modelsSatisfying registry predicate = filter (\<lambda>m. predicate (me_capabilities m)) (registry_models registry)"

definition modelsRequiringCapabilities ::
  "registry_document \<Rightarrow> capability_requirement list \<Rightarrow> model_evidence list" where
  "modelsRequiringCapabilities registry required =
     filter (\<lambda>m. missingCapabilities (me_capabilities m) required = []) (registry_models registry)"

definition modelsWithCompatibility :: "registry_document \<Rightarrow> compatibility_state list \<Rightarrow> model_evidence list" where
  "modelsWithCompatibility registry accepted =
     filter (\<lambda>m. ce_state (me_compatibility m) \<in> set accepted) (registry_models registry)"

section \<open>Configured routes\<close>

record config_route =
  cr_provider :: string
  cr_model :: string
  cr_credential :: string

fun routes_from ::
  "registry_document \<Rightarrow> (string \<times> config_route option) list \<Rightarrow> string + (string \<times> route_record) list" where
  "routes_from registry [] = Inr []"
| "routes_from registry ((role, None) # rest) = routes_from registry rest"
| "routes_from registry ((role, Some route) # rest) =
     (case findModelEvidence registry (cr_provider route) (cr_model route) of
        None \<Rightarrow> routes_from registry rest
      | Some evidence \<Rightarrow>
          bind_ok (parseCredentialRef (cr_credential route)) (\<lambda>ref.
          bind_ok (routes_from registry rest) (\<lambda>records.
            Inr ((role, \<lparr>rr_role = role, rr_providerId = cr_provider route, rr_modelId = cr_model route,
                         rr_adapterId = cr_provider route @ ''-direct'', rr_credentialRef = ref,
                         rr_capabilities = me_capabilities evidence,
                         rr_reasoningEvidence = Some (me_reasoning evidence)\<rparr>) # records))))"

definition routesFromConfig ::
  "(string \<times> config_route option) list \<Rightarrow> registry_document \<Rightarrow> string + (string \<times> route_record) list" where
  "routesFromConfig routes registry = routes_from registry routes"

definition resolveConfiguredRoute :: "(string \<times> route_record) list \<Rightarrow> string \<Rightarrow> route_record option" where
  "resolveConfiguredRoute routes requestedModel =
     (case or_else (map_of routes requestedModel)
             (List.find (\<lambda>r. rr_modelId r = requestedModel) (map snd routes)) of
        Some explicit_route \<Rightarrow> Some explicit_route
      | None \<Rightarrow> Option.bind (helperRoleFor requestedModel) (map_of routes))"

section \<open>Discovery and migration\<close>

record declared_metadata =
  dm_tools :: "bool option"
  dm_reasoning :: "bool option"
  dm_contextWindow :: "int option"
  dm_maxOutput :: "int option"

record discovery_candidate =
  dc_accessProviderId :: string
  dc_upstreamModelId :: string
  dc_modelFamily :: "string option"
  dc_observedLimits :: "model_limits option"
  dc_declared :: "declared_metadata option"

record discovery_snapshot =
  ds_source :: string
  ds_discoveredAt :: string
  ds_catalogueVersion :: "string option"
  ds_models :: "discovery_candidate list"

record proposed_candidate =
  pc_identity :: model_identity
  pc_proposedAt :: string
  pc_reason :: string
  pc_observedLimits :: "model_limits option"

record registry_proposal =
  known :: "model_evidence list"
  proposed :: "proposed_candidate list"

definition candidate_evidence :: "registry_document \<Rightarrow> discovery_candidate \<Rightarrow> model_evidence option" where
  "candidate_evidence registry c = findModelEvidence registry (dc_accessProviderId c) (dc_upstreamModelId c)"

definition propose_candidate :: "discovery_snapshot \<Rightarrow> discovery_candidate \<Rightarrow> proposed_candidate" where
  "propose_candidate snap c =
     \<lparr>pc_identity = \<lparr>mi_accessProviderId = dc_accessProviderId c, mi_upstreamModelId = dc_upstreamModelId c,
                     mi_modelFamily = dc_modelFamily c\<rparr>,
      pc_proposedAt = ds_discoveredAt snap, pc_reason = ''no-exact-evidence'',
      pc_observedLimits = dc_observedLimits c\<rparr>"

definition proposeRegistryChanges :: "discovery_snapshot \<Rightarrow> registry_document \<Rightarrow> registry_proposal" where
  "proposeRegistryChanges snap registry =
     foldl (\<lambda>acc c. case candidate_evidence registry c of
              Some evidence \<Rightarrow> acc\<lparr>known := known acc @ [evidence]\<rparr>
            | None \<Rightarrow> acc\<lparr>proposed := proposed acc @ [propose_candidate snap c]\<rparr>)
       \<lparr>known = [], proposed = []\<rparr> (ds_models snap)"

record legacy_model_evidence =
  le_logicalId :: string
  le_upstreamId :: string
  le_verifiedAt :: string
  le_fixtureVersion :: string
  le_tokenCounting :: token_counting_quality
  le_capabilities :: provider_capabilities

definition migrate_model :: "legacy_model_evidence \<Rightarrow> model_evidence" where
  "migrate_model m =
     \<lparr>me_logicalId = le_logicalId m,
      me_identity = \<lparr>mi_accessProviderId = takeWhile (\<lambda>c. c \<noteq> CHR ''/'') (le_logicalId m),
                     mi_upstreamModelId = le_upstreamId m, mi_modelFamily = None\<rparr>,
      me_verifiedAt = le_verifiedAt m, me_fixtureVersion = le_fixtureVersion m,
      me_tokenCounting = le_tokenCounting m, me_capabilities = le_capabilities m,
      me_limits = empty_limits, me_reasoning = conservativeReasoning (le_capabilities m),
      me_compatibility = \<lparr>ce_state = EXPERIMENTAL, ce_baseline = ''claude-code-fake-upstream'',
                          ce_evidenceRef = le_fixtureVersion m, ce_checkedAt = le_verifiedAt m, ce_claimRef = None\<rparr>\<rparr>"

definition migrateRegistryDocument :: "legacy_model_evidence list \<Rightarrow> int \<Rightarrow> registry_document" where
  "migrateRegistryDocument models rev_number =
     \<lparr>registryRevision = rev_number, registry_models = map migrate_model models\<rparr>"


section \<open>Exact evidence lookup\<close>

text \<open>
  A reviewed document: every row's logical id is built from its own identity, the access
  provider's name has no slash, and no logical id appears twice.
\<close>

definition row_wf :: "model_evidence \<Rightarrow> bool" where
  "row_wf m \<longleftrightarrow>
     me_logicalId m = logical_id (mi_accessProviderId (me_identity m)) (mi_upstreamModelId (me_identity m))
     \<and> CHR ''/'' \<notin> set (mi_accessProviderId (me_identity m))"

definition registry_wf :: "registry_document \<Rightarrow> bool" where
  "registry_wf registry \<longleftrightarrow>
     list_all row_wf (registry_models registry) \<and> distinct (map me_logicalId (registry_models registry))"

lemma takeWhile_slash_free: "CHR ''/'' \<notin> set p \<Longrightarrow> takeWhile (\<lambda>c. c \<noteq> CHR ''/'') (p @ CHR ''/'' # m) = p"
  by (induction p) auto

lemma logical_id_provider:
  "CHR ''/'' \<notin> set p \<Longrightarrow> takeWhile (\<lambda>c. c \<noteq> CHR ''/'') (logical_id p m) = p"
  by (simp add: logical_id_def takeWhile_slash_free)

lemma logical_id_inject:
  assumes "CHR ''/'' \<notin> set p" and "CHR ''/'' \<notin> set q"
  shows "logical_id p m = logical_id q n \<longleftrightarrow> p = q \<and> m = n"
proof
  assume eq: "logical_id p m = logical_id q n"
  with assms have "p = q" by (metis logical_id_provider)
  with eq show "p = q \<and> m = n" by (simp add: logical_id_def)
qed simp

lemma find_distinct_iff:
  assumes "distinct (map f xs)"
  shows "List.find (\<lambda>x. f x = k) xs = Some x \<longleftrightarrow> x \<in> set xs \<and> f x = k"
proof
  assume "x \<in> set xs \<and> f x = k"
  then show "List.find (\<lambda>x. f x = k) xs = Some x"
    using find_distinct_key [OF assms, of x] by auto
qed (use find_Some_in in fast)

lemma findModelEvidence_iff:
  assumes wf: "registry_wf registry" and slash: "CHR ''/'' \<notin> set providerId"
  shows "findModelEvidence registry providerId modelId = Some e \<longleftrightarrow>
           e \<in> set (registry_models registry) \<and> mi_accessProviderId (me_identity e) = providerId
           \<and> mi_upstreamModelId (me_identity e) = modelId"
proof -
  have "findModelEvidence registry providerId modelId = Some e \<longleftrightarrow>
          e \<in> set (registry_models registry) \<and> me_logicalId e = logical_id providerId modelId"
    using wf by (simp add: findModelEvidence_def registry_wf_def find_distinct_iff)
  moreover have "me_logicalId e = logical_id providerId modelId \<longleftrightarrow>
          mi_accessProviderId (me_identity e) = providerId \<and> mi_upstreamModelId (me_identity e) = modelId"
    if "e \<in> set (registry_models registry)"
    using wf that slash by (auto simp: registry_wf_def list_all_iff row_wf_def logical_id_inject)
  ultimately show ?thesis by blast
qed

lemma directProviderRegistry_wf: "registry_wf directProviderRegistry"
  by code_simp

text \<open>The evidence lookup is exact. In a reviewed registry document (every row's id built from its own provider and
  model, provider names without a slash, no row twice), asking for a slash-free provider and a model finds a row
  exactly when a row of that access provider and that upstream model is in the document: never another provider's
  row of the same upstream model, and never nothing when the row is there.\<close>

theorem findModelEvidence_exact:
  assumes "registry_wf registry" and "CHR ''/'' \<notin> set providerId"
  shows "findModelEvidence registry providerId modelId = Some e \<longleftrightarrow>
           e \<in> set (registry_models registry) \<and> mi_accessProviderId (me_identity e) = providerId
           \<and> mi_upstreamModelId (me_identity e) = modelId"
  using assms by (rule findModelEvidence_iff)

theorem findModelEvidence_exact_witness:
  "\<exists>e. findModelEvidence directProviderRegistry ''cline'' ''gpt-5.6-sol'' = Some e
       \<and> mi_accessProviderId (me_identity e) = ''cline''"
proof -
  let ?e = "shipped ''cline'' ''gpt-5.6-sol'' ''openai/codex'' ''2026-08-21'' ''cline-interop-chat-v1''
              conservativeCapabilities CLINE_E2E_REF"
  have "?e \<in> set (registry_models directProviderRegistry)"
    by (simp add: directProviderRegistry_def)
  moreover have ident: "mi_accessProviderId (me_identity ?e) = ''cline''
      \<and> mi_upstreamModelId (me_identity ?e) = ''gpt-5.6-sol''"
    by (simp add: shipped_def reviewedModel_def Let_def)
  ultimately have "findModelEvidence directProviderRegistry ''cline'' ''gpt-5.6-sol'' = Some ?e"
    using findModelEvidence_exact [OF directProviderRegistry_wf, of "''cline''" "''gpt-5.6-sol''" ?e] by simp
  with ident show ?thesis by blast
qed

text \<open>
  Without the side condition the lookup is not exact: the ids are compared after they are
  joined with a slash, so a provider name with a slash finds another provider's row.
\<close>

lemma lookup_joins_names:
  "map_option (\<lambda>e. mi_accessProviderId (me_identity e))
     (findModelEvidence directProviderRegistry ''openrouter/nvidia'' ''nemotron-3.5-lightning:free'') = Some ''openrouter''"
  by code_simp


section \<open>Routes come from evidence\<close>

definition backed :: "registry_document \<Rightarrow> string \<times> config_route option \<Rightarrow> bool" where
  "backed registry entry =
     (case snd entry of None \<Rightarrow> False
      | Some route \<Rightarrow> findModelEvidence registry (cr_provider route) (cr_model route) \<noteq> None)"

definition route_from_evidence :: "string \<Rightarrow> config_route \<Rightarrow> model_evidence \<Rightarrow> credential_ref \<Rightarrow> route_record" where
  "route_from_evidence role route evidence ref =
     \<lparr>rr_role = role, rr_providerId = cr_provider route, rr_modelId = cr_model route,
      rr_adapterId = cr_provider route @ ''-direct'', rr_credentialRef = ref,
      rr_capabilities = me_capabilities evidence, rr_reasoningEvidence = Some (me_reasoning evidence)\<rparr>"

lemma routes_from_keys:
  "routes_from registry routes = Inr records \<Longrightarrow> map fst records = map fst (filter (backed registry) routes)"
proof (induction registry routes arbitrary: records rule: routes_from.induct)
  case (3 registry role route rest)
  then show ?case
    by (auto simp: backed_def bind_ok_Inr_iff split: option.splits)
qed (auto simp: backed_def)

lemma routes_from_sound:
  "routes_from registry routes = Inr records \<Longrightarrow> (role, r) \<in> set records \<Longrightarrow>
     \<exists>route evidence ref. (role, Some route) \<in> set routes
       \<and> findModelEvidence registry (cr_provider route) (cr_model route) = Some evidence
       \<and> parseCredentialRef (cr_credential route) = Inr ref
       \<and> r = route_from_evidence role route evidence ref"
proof (induction registry routes arbitrary: records rule: routes_from.induct)
  case (3 registry role' route rest)
  show ?case
  proof (cases "findModelEvidence registry (cr_provider route) (cr_model route)")
    case None
    with 3 show ?thesis by (auto simp: bind_ok_Inr_iff; blast)
  next
    case (Some evidence)
    with "3.prems"(1) obtain ref records' where parsed: "parseCredentialRef (cr_credential route) = Inr ref"
      and rest: "routes_from registry rest = Inr records'"
      and split: "records = (role', route_from_evidence role' route evidence ref) # records'"
      by (auto simp: bind_ok_Inr_iff route_from_evidence_def)
    show ?thesis
    proof (cases "(role, r) \<in> set records'")
      case True
      then have "\<exists>route evidence ref. (role, Some route) \<in> set rest
          \<and> findModelEvidence registry (cr_provider route) (cr_model route) = Some evidence
          \<and> parseCredentialRef (cr_credential route) = Inr ref
          \<and> r = route_from_evidence role route evidence ref"
        by (rule "3.IH"(2) [OF Some rest])
      then show ?thesis by auto
    next
      case False
      with split "3.prems"(2) have "role = role' \<and> r = route_from_evidence role' route evidence ref" by auto
      with Some parsed show ?thesis by auto
    qed
  qed
qed auto


text \<open>A configured route is served only when reviewed evidence backs it. When the configuration's credentials parse,
  the roles with a route are exactly, in order, the configured roles whose (provider, model) has evidence, and each
  route's capabilities and reasoning controls are those of the evidence, its adapter and credential those of the entry.\<close>

theorem routesFromConfig_evidence_backed:
  assumes "routesFromConfig routes registry = Inr records"
  shows "map fst records = map fst (filter (backed registry) routes)
       \<and> (\<forall>(role, r) \<in> set records. \<exists>route evidence ref. (role, Some route) \<in> set routes
            \<and> findModelEvidence registry (cr_provider route) (cr_model route) = Some evidence
            \<and> parseCredentialRef (cr_credential route) = Inr ref
            \<and> r = route_from_evidence role route evidence ref)"
proof -
  have run: "routes_from registry routes = Inr records"
    using assms by (simp add: routesFromConfig_def)
  then show ?thesis
    using routes_from_keys [OF run] routes_from_sound [OF run] by blast
qed

definition demo_routes :: "(string \<times> config_route option) list" where
  "demo_routes =
     [(''primary'', Some \<lparr>cr_provider = ''deepseek'', cr_model = ''deepseek-v4-flash'',
                          cr_credential = ''env:DEEPSEEK_API_KEY''\<rparr>),
      (''fast'', None),
      (''reasoning'', Some \<lparr>cr_provider = ''deepseek'', cr_model = ''gpt-5.4'', cr_credential = ''nonsense''\<rparr>)]"

lemma demo_routes_run:
  "(case routesFromConfig demo_routes directProviderRegistry of Inl _ \<Rightarrow> [] | Inr records \<Rightarrow> map fst records)
     = [''primary'']"
  by code_simp

theorem routesFromConfig_evidence_backed_witness:
  "\<exists>records. routesFromConfig demo_routes directProviderRegistry = Inr records
     \<and> map fst records = map fst (filter (backed directProviderRegistry) demo_routes) \<and> records \<noteq> []"
proof -
  obtain records where run: "routesFromConfig demo_routes directProviderRegistry = Inr records"
    and "map fst records = [''primary'']"
    using demo_routes_run by (auto split: sum.splits)
  then have "records \<noteq> []" by auto
  with run routesFromConfig_evidence_backed [OF run] show ?thesis by blast
qed

section \<open>Credential references\<close>

definition credential_text :: "credential_ref \<Rightarrow> string" where
  "credential_text ref =
     (case ref of Env_ref nm \<Rightarrow> ''env:'' @ nm | Handle_ref h \<Rightarrow> ''handle:'' @ h | Keychain_ref s a \<Rightarrow> ''keychain:'' @ s @ a)"

definition credential_wf :: "credential_ref \<Rightarrow> bool" where
  "credential_wf ref =
     (case ref of Env_ref nm \<Rightarrow> approvedEnvName nm | Handle_ref h \<Rightarrow> approvedHandle h | Keychain_ref _ _ \<Rightarrow> False)"

lemma takeWhile_colon_split:
  "CHR '':'' \<in> set v \<Longrightarrow>
     v = takeWhile (\<lambda>c. c \<noteq> CHR '':'') v @ CHR '':'' # drop (Suc (length (takeWhile (\<lambda>c. c \<noteq> CHR '':'') v))) v"
  by (induction v) auto

lemma parse_credential_text:
  "credential_wf ref \<Longrightarrow> parseCredentialRef (credential_text ref) = Inr ref"
  by (cases ref) (simp_all add: credential_wf_def credential_text_def parseCredentialRef_def Let_def)

lemma parse_credential_only:
  assumes "parseCredentialRef v = Inr ref"
  shows "credential_wf ref \<and> v = credential_text ref"
proof -
  let ?kind = "takeWhile (\<lambda>c. c \<noteq> CHR '':'') v"
  have colon: "CHR '':'' \<in> set v"
    using assms by (auto simp: parseCredentialRef_def Let_def split: if_splits)
  obtain kind payload where kind: "?kind = kind" and payload: "drop (Suc (length ?kind)) v = payload" by simp
  have v: "v = kind @ CHR '':'' # payload"
    unfolding payload [symmetric] kind [symmetric] by (rule takeWhile_colon_split [OF colon])
  have "kind = ''env'' \<and> ref = Env_ref payload \<and> approvedEnvName payload
      \<or> kind = ''handle'' \<and> ref = Handle_ref payload \<and> approvedHandle payload"
    using assms unfolding parseCredentialRef_def Let_def unfolding payload unfolding kind by (auto split: if_splits)
  with v show ?thesis
    by (auto simp: credential_wf_def credential_text_def)
qed

text \<open>A credential reference is read exactly when it is the text of an approved reference: the reader accepts
  \<open>env:\<close> with a name of 3 to 128 upper-case characters, digits and underscores that starts with a letter, and
  \<open>handle:\<close> with a well-formed handle, returns that name or handle unchanged, and rejects everything else
  (a raw secret, a keychain text, a text with no kind).\<close>

theorem parseCredentialRef_exact:
  "parseCredentialRef v = Inr ref \<longleftrightarrow> credential_wf ref \<and> v = credential_text ref"
  using parse_credential_only [of v ref] parse_credential_text [of ref] by blast

lemma approved_names_parse:
  "list_all (\<lambda>(provider, names).
     list_all (\<lambda>nm. approvedEnvName nm \<and> assertProviderCredential provider (Env_ref nm) = Inr ()) names)
     providerCredentialNames"
  by code_simp

section \<open>Discovery only proposes\<close>

lemma proposeRegistryChanges_split:
  "known (proposeRegistryChanges snap registry) = List.map_filter (candidate_evidence registry) (ds_models snap)
   \<and> proposed (proposeRegistryChanges snap registry)
       = map (propose_candidate snap) (filter (\<lambda>c. candidate_evidence registry c = None) (ds_models snap))"
proof -
  have "foldl (\<lambda>acc c. case candidate_evidence registry c of
              Some evidence \<Rightarrow> acc\<lparr>known := known acc @ [evidence]\<rparr>
            | None \<Rightarrow> acc\<lparr>proposed := proposed acc @ [propose_candidate snap c]\<rparr>) \<lparr>known = ks, proposed = ps\<rparr> cs
      = \<lparr>known = ks @ List.map_filter (candidate_evidence registry) cs,
         proposed = ps @ map (propose_candidate snap) (filter (\<lambda>c. candidate_evidence registry c = None) cs)\<rparr>" for cs ks ps
    by (induction cs arbitrary: ks ps) (auto split: option.splits)
  then show ?thesis by (simp add: proposeRegistryChanges_def)
qed

lemma candidate_evidence_reviewed:
  "candidate_evidence registry c = Some e \<Longrightarrow> e \<in> set (registry_models registry)"
  by (auto simp: candidate_evidence_def findModelEvidence_def dest: find_Some_in)

lemma map_filter_lengths:
  "length (List.map_filter f cs) + length (filter (\<lambda>c. f c = None) cs) = length cs"
  by (induction cs) (auto split: option.splits)

lemma set_map_filter: "set (List.map_filter f cs) = {y. \<exists>c \<in> set cs. f c = Some y}"
  by (induction cs) (auto split: option.splits)

text \<open>A discovery run never trusts what a provider reports. Every discovered candidate is either answered with a
  row that already is in the reviewed document, or only proposed with the reason that no exact evidence exists; none
  is lost or counted twice, and every proposed identity has no evidence in the document.\<close>

theorem discovery_only_proposes:
  "set (known (proposeRegistryChanges snap registry)) \<subseteq> set (registry_models registry)
   \<and> length (known (proposeRegistryChanges snap registry)) + length (proposed (proposeRegistryChanges snap registry))
       = length (ds_models snap)
   \<and> (\<forall>p \<in> set (proposed (proposeRegistryChanges snap registry)).
        pc_reason p = ''no-exact-evidence''
        \<and> findModelEvidence registry (mi_accessProviderId (pc_identity p)) (mi_upstreamModelId (pc_identity p)) = None)"
  by (auto simp: proposeRegistryChanges_split set_map_filter map_filter_lengths propose_candidate_def
        candidate_evidence_def [symmetric] dest: candidate_evidence_reviewed)


definition demo_snapshot :: discovery_snapshot where
  "demo_snapshot =
     \<lparr>ds_source = ''probe'', ds_discoveredAt = ''2026-09-01'', ds_catalogueVersion = None,
      ds_models =
        [\<lparr>dc_accessProviderId = ''codex'', dc_upstreamModelId = ''gpt-5.4'', dc_modelFamily = None,
          dc_observedLimits = None, dc_declared = None\<rparr>,
         \<lparr>dc_accessProviderId = ''codex'', dc_upstreamModelId = ''gpt-6'', dc_modelFamily = None,
          dc_observedLimits = None, dc_declared = None\<rparr>]\<rparr>"

theorem discovery_only_proposes_witness:
  "length (known (proposeRegistryChanges demo_snapshot directProviderRegistry))
     + length (proposed (proposeRegistryChanges demo_snapshot directProviderRegistry)) = 2"
  using discovery_only_proposes [of demo_snapshot directProviderRegistry] by (simp add: demo_snapshot_def)

section \<open>Migration carries evidence over, never trust\<close>

definition legacy_wf :: "legacy_model_evidence \<Rightarrow> bool" where
  "legacy_wf m \<longleftrightarrow> le_logicalId m = takeWhile (\<lambda>c. c \<noteq> CHR ''/'') (le_logicalId m) @ ''/'' @ le_upstreamId m"

lemma migrate_model_wf: "legacy_wf m \<Longrightarrow> row_wf (migrate_model m)"
  by (auto simp: row_wf_def migrate_model_def logical_id_def legacy_wf_def dest: set_takeWhileD)

lemma migrate_keeps_rows:
  "map me_logicalId (registry_models (migrateRegistryDocument models n)) = map le_logicalId models"
  by (simp add: migrateRegistryDocument_def migrate_model_def)

lemma migrate_document_wf:
  "list_all legacy_wf models \<Longrightarrow> distinct (map le_logicalId models) \<Longrightarrow>
     registry_wf (migrateRegistryDocument models n)"
  unfolding registry_wf_def migrate_keeps_rows
  by (auto simp: migrateRegistryDocument_def list_all_iff migrate_model_wf)

lemma migrate_never_trusts:
  "row \<in> set (registry_models (migrateRegistryDocument models n)) \<Longrightarrow>
     ce_state (me_compatibility row) = EXPERIMENTAL \<and> ce_claimRef (me_compatibility row) = None
     \<and> mi_modelFamily (me_identity row) = None"
  by (auto simp: migrateRegistryDocument_def migrate_model_def)

text \<open>Migrating a legacy registry document keeps every row under its id and gives none of them trust: each migrated
  row is EXPERIMENTAL with no claim reference and no guessed family, and when the legacy ids spell provider and model
  the migrated document is a reviewed document, so its rows are found by exact lookup.\<close>

theorem migration_carries_no_trust:
  assumes "list_all legacy_wf models" and "distinct (map le_logicalId models)" and "m \<in> set models"
  shows "map me_logicalId (registry_models (migrateRegistryDocument models n)) = map le_logicalId models
       \<and> findModelEvidence (migrateRegistryDocument models n) (mi_accessProviderId (me_identity (migrate_model m)))
           (le_upstreamId m) = Some (migrate_model m)
       \<and> ce_state (me_compatibility (migrate_model m)) = EXPERIMENTAL
       \<and> ce_claimRef (me_compatibility (migrate_model m)) = None"
proof -
  have wf: "registry_wf (migrateRegistryDocument models n)"
    using assms(1,2) by (rule migrate_document_wf)
  have row: "migrate_model m \<in> set (registry_models (migrateRegistryDocument models n))"
    using assms(3) by (simp add: migrateRegistryDocument_def)
  have "CHR ''/'' \<notin> set (mi_accessProviderId (me_identity (migrate_model m)))"
    using wf row by (auto simp: registry_wf_def list_all_iff row_wf_def)
  then have "findModelEvidence (migrateRegistryDocument models n) (mi_accessProviderId (me_identity (migrate_model m)))
           (le_upstreamId m) = Some (migrate_model m)"
    using row by (simp add: findModelEvidence_iff [OF wf]) (simp add: migrate_model_def)
  with migrate_never_trusts [OF row] migrate_keeps_rows show ?thesis by blast
qed

definition demo_legacy :: legacy_model_evidence where
  "demo_legacy =
     \<lparr>le_logicalId = ''codex/gpt-5.4'', le_upstreamId = ''gpt-5.4'', le_verifiedAt = ''2026-08-14'',
      le_fixtureVersion = ''v1'', le_tokenCounting = Conservative_estimate, le_capabilities = conservativeCapabilities\<rparr>"

theorem migration_carries_no_trust_witness:
  "map_option me_logicalId (findModelEvidence (migrateRegistryDocument [demo_legacy] 5)
     (mi_accessProviderId (me_identity (migrate_model demo_legacy))) ''gpt-5.4'') = Some ''codex/gpt-5.4''"
  using migration_carries_no_trust [of "[demo_legacy]" demo_legacy 5]
  by (simp add: demo_legacy_def legacy_wf_def) (simp add: migrate_model_def)

end
