(* ===== verification/Claims.thy ===== *)
theory Claims
  imports Registry "HOL-Library.AList" "HOL-Library.Sublist"
begin

text \<open>
  Compatibility claims and their evidence: \<^verbatim>\<open>src/canary/types.ts\<close>, \<^verbatim>\<open>src/canary/claim.ts\<close>,
  \<^verbatim>\<open>src/canary/classify.ts\<close>, \<^verbatim>\<open>src/canary/proposals.ts\<close>, the adapter table of \<^verbatim>\<open>src/canary/run.ts\<close>
  and the claim store of \<^verbatim>\<open>src/canary/artifact.ts\<close>.

  The private directory of the claim store is an association list from file names to what a
  file holds: a document, or \<open>None\<close> where its text is no JSON or no claim document at all. A
  document that is written may still break the schema (an empty revision text), so reading
  validates it again. The SHA-256 of a claim key, from \<^verbatim>\<open>node:crypto\<close>, is a parameter.
  Dates are the texts of the documents; a thrown \<open>Error\<close> is its message.
\<close>

section \<open>Vocabulary\<close>

datatype evidence_layer = Layer_A | Layer_B | Layer_C

datatype evidence_result = Passed | Failed | Not_run

datatype auth_mode = Oauth | Direct_api_key | Interop_import | Bridge | Unknown_auth

datatype client_kind = Claude_code | Codex_cli

datatype canary_gate =
    Gate_text | Gate_streaming | Gate_cancellation | Gate_tools_single | Gate_tools_multi | Gate_tools_parallel
  | Gate_reasoning | Gate_reasoning_tools | Gate_model_discovery | Gate_session_attribution | Gate_subagent_routing
  | Gate_subagent_parallel | Gate_effort_signal | Gate_long_running_session

fun gate_text :: "canary_gate \<Rightarrow> string" where
  "gate_text Gate_text = ''text''"
| "gate_text Gate_streaming = ''streaming''"
| "gate_text Gate_cancellation = ''cancellation''"
| "gate_text Gate_tools_single = ''tools-single''"
| "gate_text Gate_tools_multi = ''tools-multi''"
| "gate_text Gate_tools_parallel = ''tools-parallel''"
| "gate_text Gate_reasoning = ''reasoning''"
| "gate_text Gate_reasoning_tools = ''reasoning-tools''"
| "gate_text Gate_model_discovery = ''model-discovery''"
| "gate_text Gate_session_attribution = ''session-attribution''"
| "gate_text Gate_subagent_routing = ''subagent-routing''"
| "gate_text Gate_subagent_parallel = ''subagent-parallel''"
| "gate_text Gate_effort_signal = ''effort-signal''"
| "gate_text Gate_long_running_session = ''long-running-session''"

definition CANARY_GATES :: "canary_gate list" where
  "CANARY_GATES =
     [Gate_text, Gate_streaming, Gate_cancellation, Gate_tools_single, Gate_tools_multi, Gate_tools_parallel,
      Gate_reasoning, Gate_reasoning_tools, Gate_model_discovery, Gate_session_attribution, Gate_subagent_routing,
      Gate_subagent_parallel, Gate_effort_signal, Gate_long_running_session]"

definition REQUIRED_VERIFIED_GATES :: "canary_gate list" where
  "REQUIRED_VERIFIED_GATES =
     [Gate_text, Gate_streaming, Gate_cancellation, Gate_tools_single, Gate_reasoning, Gate_model_discovery,
      Gate_session_attribution, Gate_effort_signal, Gate_long_running_session]"

text \<open>\<open>Set.prototype.add\<close> on the insertion order of the set.\<close>

definition js_add :: "'a \<Rightarrow> 'a list \<Rightarrow> 'a list" where
  "js_add x xs = (if x \<in> set xs then xs else xs @ [x])"

lemma set_js_add [simp]: "set (js_add x xs) = insert x (set xs)"
  by (auto simp: js_add_def)

lemma distinct_js_add [simp]: "distinct (js_add x xs) = distinct xs"
  by (simp add: js_add_def)

definition js_add_if :: "bool \<Rightarrow> 'a \<Rightarrow> 'a list \<Rightarrow> 'a list" where
  "js_add_if b x xs = (if b then js_add x xs else xs)"

lemma set_js_add_if [simp]: "set (js_add_if b x xs) = (if b then {x} else {}) \<union> set xs"
  by (simp add: js_add_if_def)

lemma distinct_js_add_if [simp]: "distinct (js_add_if b x xs) = distinct xs"
  by (simp add: js_add_if_def)

definition gatesRequiredForEvidence :: "provider_capabilities \<Rightarrow> reasoning_capability_evidence \<Rightarrow> canary_gate list" where
  "gatesRequiredForEvidence caps reasoning =
     js_add_if (cap_reasoning caps) Gate_reasoning
       (js_add_if (reasoningWithTools reasoning) Gate_reasoning_tools
         (js_add_if (cap_parallelTools caps) Gate_tools_parallel
           (js_add_if (cap_tools caps) Gate_tools_multi REQUIRED_VERIFIED_GATES)))"

datatype claim_feature = Gate_feature canary_gate | Config_overlay

definition CLAIM_FEATURES :: "claim_feature list" where
  "CLAIM_FEATURES = map Gate_feature CANARY_GATES @ [Config_overlay]"

fun feature_text :: "claim_feature \<Rightarrow> string" where
  "feature_text (Gate_feature g) = gate_text g"
| "feature_text Config_overlay = ''config-overlay''"

fun client_text :: "client_kind \<Rightarrow> string" where
  "client_text Claude_code = ''claude-code''"
| "client_text Codex_cli = ''codex-cli''"

fun auth_text :: "auth_mode \<Rightarrow> string" where
  "auth_text Oauth = ''oauth''"
| "auth_text Direct_api_key = ''direct-api-key''"
| "auth_text Interop_import = ''interop-import''"
| "auth_text Bridge = ''bridge''"
| "auth_text Unknown_auth = ''unknown''"

fun contract_text :: "fidelity_source_protocol \<Rightarrow> string" where
  "contract_text Anthropic_messages = ''anthropic-messages''"
| "contract_text Openai_responses = ''openai-responses''"

lemma gate_text_inject [simp]: "gate_text g = gate_text h \<longleftrightarrow> g = h"
  by (cases g; cases h) simp_all

lemma feature_text_inject [simp]: "feature_text f = feature_text g \<longleftrightarrow> f = g"
proof -
  have "gate_text h \<noteq> ''config-overlay''" for h by (cases h) simp_all
  then show ?thesis by (cases f; cases g) (auto dest: sym)
qed

lemma client_text_inject [simp]: "client_text a = client_text b \<longleftrightarrow> a = b"
  by (cases a; cases b) simp_all

lemma auth_text_inject [simp]: "auth_text a = auth_text b \<longleftrightarrow> a = b"
  by (cases a; cases b) simp_all

lemma contract_text_inject [simp]: "contract_text a = contract_text b \<longleftrightarrow> a = b"
  by (cases a; cases b) simp_all

section \<open>Claims\<close>

record claim_identity =
  ci_client :: client_kind
  ci_clientVersion :: string
  ci_sourceProtocol :: fidelity_source_protocol
  ci_protocolRevision :: string
  ci_adapterId :: string
  ci_accessProviderId :: string
  ci_authMode :: auth_mode
  ci_endpointContract :: fidelity_source_protocol
  ci_physicalModelId :: string
  ci_modelFamily :: "string option"

datatype evidence_kind = Deterministic_fake_matrix | Installed_client | Live_access_path

record evidence_environment =
  ee_platform :: string
  ee_nodeVersion :: string

record evidence_artifact =
  ea_claimKey :: string
  ea_feature :: claim_feature
  ea_layer :: evidence_layer
  ea_kind :: evidence_kind
  ea_fixtureRevision :: string
  ea_runnerVersion :: string
  ea_checkedAt :: string
  ea_result :: evidence_result
  ea_failureReason :: "string option"
  ea_environment :: "evidence_environment option"
  ea_ref :: "string option"
  ea_timingMs :: "rat option"

record claim_document =
  cd_schemaVersion :: nat
  cd_claimKey :: string
  cd_claimIdentity :: claim_identity
  cd_feature :: claim_feature
  cd_records :: "evidence_artifact list"

datatype claim_status = St_missing | St_not_run | St_passed | St_failed

definition CLAIM_SCHEMA_VERSION :: nat where "CLAIM_SCHEMA_VERSION = 1"

definition authModeForAdapter :: "string \<Rightarrow> auth_mode" where
  "authModeForAdapter adapterId =
     (if adapterId = ''codex-oauth'' then Oauth
      else if adapterId = ''cline-interop'' then Interop_import
      else if adapterId = ''openrouter-direct'' \<or> adapterId = ''deepseek-direct'' then Direct_api_key
      else Unknown_auth)"

definition endpointContractForClient :: "client_kind \<Rightarrow> fidelity_source_protocol" where
  "endpointContractForClient client = (if client = Claude_code then Anthropic_messages else Openai_responses)"

definition requiredLayersForAdapter :: "string \<Rightarrow> evidence_layer list" where
  "requiredLayersForAdapter adapterId =
     (if adapterId \<in> {''codex-oauth'', ''cline-interop'', ''openrouter-direct'', ''deepseek-direct''}
      then [Layer_A, Layer_B, Layer_C]
      else [Layer_A, Layer_B, Layer_C])"

definition adapterIdForProvider :: "string \<Rightarrow> string" where
  "adapterIdForProvider providerId =
     (if providerId = ''openrouter'' then ''openrouter-direct''
      else if providerId = ''deepseek'' then ''deepseek-direct''
      else if providerId = ''codex'' then ''codex-oauth''
      else if providerId = ''cline'' then ''cline-interop''
      else providerId @ ''-adapter'')"

definition claim_parts :: "claim_identity \<Rightarrow> claim_feature \<Rightarrow> string list" where
  "claim_parts identity feature =
     [''v2'', client_text (ci_client identity), ci_clientVersion identity, contract_text (ci_sourceProtocol identity),
      ci_protocolRevision identity, ci_adapterId identity, ci_accessProviderId identity,
      auth_text (ci_authMode identity), contract_text (ci_endpointContract identity), ci_physicalModelId identity,
      feature_text feature]"

fun join_bar :: "string list \<Rightarrow> string" where
  "join_bar [] = []"
| "join_bar [p] = p"
| "join_bar (p # ps) = p @ CHR ''|'' # join_bar ps"

definition key_part :: "string \<Rightarrow> bool" where
  "key_part p \<longleftrightarrow> p \<noteq> [] \<and> CHR ''|'' \<notin> set p"

definition claimKeyFor :: "claim_identity \<Rightarrow> claim_feature \<Rightarrow> string + string" where
  "claimKeyFor identity feature =
     (if list_all key_part (claim_parts identity feature) then Inr (join_bar (claim_parts identity feature))
      else Inl (''claim key parts must be non-empty strings without '' @ [CHR 0x27, CHR ''|'', CHR 0x27]))"

definition claimIdentityFor ::
  "client_kind \<Rightarrow> string \<Rightarrow> string \<Rightarrow> string \<Rightarrow> string \<Rightarrow> string \<Rightarrow> string option \<Rightarrow> claim_identity" where
  "claimIdentityFor client clientVersion fixtureRevision adapterId accessProviderId physicalModelId family =
     \<lparr>ci_client = client, ci_clientVersion = clientVersion, ci_sourceProtocol = endpointContractForClient client,
      ci_protocolRevision = fixtureRevision, ci_adapterId = adapterId, ci_accessProviderId = accessProviderId,
      ci_authMode = authModeForAdapter adapterId, ci_endpointContract = endpointContractForClient client,
      ci_physicalModelId = physicalModelId, ci_modelFamily = family\<rparr>"

definition emptyClaimDocument :: "claim_identity \<Rightarrow> claim_feature \<Rightarrow> string + claim_document" where
  "emptyClaimDocument claimIdentity feature =
     bind_ok (claimKeyFor claimIdentity feature) (\<lambda>claimKey.
       Inr \<lparr>cd_schemaVersion = CLAIM_SCHEMA_VERSION, cd_claimKey = claimKey, cd_claimIdentity = claimIdentity,
            cd_feature = feature, cd_records = []\<rparr>)"

section \<open>Status of a claim\<close>

definition records_status :: "evidence_artifact list \<Rightarrow> claim_status" where
  "records_status records =
     (if records = [] then St_missing
      else if \<exists>r \<in> set records. ea_result r = Failed then St_failed
      else if \<exists>r \<in> set records. ea_result r = Passed then St_passed
      else St_not_run)"

record layer_statuses =
  ls_A :: claim_status
  ls_B :: claim_status
  ls_C :: claim_status

definition layerStatuses :: "claim_document \<Rightarrow> layer_statuses" where
  "layerStatuses doc =
     (let of_layer = (\<lambda>l. records_status (filter (\<lambda>r. ea_layer r = l) (cd_records doc)))
      in \<lparr>ls_A = of_layer Layer_A, ls_B = of_layer Layer_B, ls_C = of_layer Layer_C\<rparr>)"

definition claimStatusFor :: "claim_document \<Rightarrow> claim_status" where
  "claimStatusFor doc =
     (let records = cd_records doc;
          required = requiredLayersForAdapter (ci_adapterId (cd_claimIdentity doc));
          present = map ea_layer records
      in if records = [] then St_missing
         else if \<exists>r \<in> set records. ea_result r = Failed then St_failed
         else if \<not> list_all (\<lambda>layer. layer \<in> set present) required then St_not_run
         else if \<exists>r \<in> set records. ea_result r = Passed then St_passed
         else St_not_run)"

definition sameObservation :: "evidence_artifact \<Rightarrow> evidence_artifact \<Rightarrow> bool" where
  "sameObservation left right \<longleftrightarrow>
     ea_layer left = ea_layer right \<and> ea_kind left = ea_kind right \<and> ea_result left = ea_result right
     \<and> ea_failureReason left = ea_failureReason right \<and> ea_runnerVersion left = ea_runnerVersion right
     \<and> ea_checkedAt left = ea_checkedAt right \<and> ea_fixtureRevision left = ea_fixtureRevision right
     \<and> ea_ref left = ea_ref right \<and> ea_timingMs left = ea_timingMs right
     \<and> ea_environment left = ea_environment right"

definition appendObservation :: "claim_document \<Rightarrow> evidence_artifact \<Rightarrow> claim_document" where
  "appendObservation doc record_new =
     (if \<exists>existing \<in> set (cd_records doc). sameObservation existing record_new then doc
      else doc\<lparr>cd_records := cd_records doc @ [record_new]\<rparr>)"

section \<open>The claim store\<close>

type_synonym claim_files = "(string \<times> claim_document option) list"

definition claim_path :: "(string \<Rightarrow> string) \<Rightarrow> string \<Rightarrow> string" where
  "claim_path sha claimKey = ''claim-'' @ sha claimKey @ ''.json''"

definition artifact_valid :: "evidence_artifact \<Rightarrow> bool" where
  "artifact_valid r \<longleftrightarrow>
     ea_claimKey r \<noteq> [] \<and> ea_fixtureRevision r \<noteq> [] \<and> ea_runnerVersion r \<noteq> [] \<and> ea_checkedAt r \<noteq> []"

definition identity_valid :: "claim_identity \<Rightarrow> bool" where
  "identity_valid i \<longleftrightarrow>
     ci_clientVersion i \<noteq> [] \<and> ci_protocolRevision i \<noteq> [] \<and> ci_adapterId i \<noteq> []
     \<and> ci_accessProviderId i \<noteq> [] \<and> ci_physicalModelId i \<noteq> []"

definition claim_document_valid :: "claim_document \<Rightarrow> bool" where
  "claim_document_valid doc \<longleftrightarrow>
     cd_schemaVersion doc = CLAIM_SCHEMA_VERSION \<and> cd_claimKey doc \<noteq> [] \<and> identity_valid (cd_claimIdentity doc)
     \<and> list_all artifact_valid (cd_records doc)"

definition loadClaim :: "(string \<Rightarrow> string) \<Rightarrow> claim_files \<Rightarrow> string \<Rightarrow> string + claim_document option" where
  "loadClaim sha files claimKey =
     (let malformed = Inl (''Malformed claim evidence artifact for key '' @ claimKey)
      in case map_of files (claim_path sha claimKey) of
           None \<Rightarrow> Inr None
         | Some None \<Rightarrow> malformed
         | Some (Some doc) \<Rightarrow> if claim_document_valid doc then Inr (Some doc) else malformed)"

definition writeClaim :: "(string \<Rightarrow> string) \<Rightarrow> claim_files \<Rightarrow> claim_document \<Rightarrow> claim_files" where
  "writeClaim sha files doc = AList.update (claim_path sha (cd_claimKey doc)) (Some doc) files"

definition findEvidence ::
  "(string \<Rightarrow> string) \<Rightarrow> claim_files \<Rightarrow> claim_identity \<Rightarrow> claim_feature \<Rightarrow> string + claim_document option" where
  "findEvidence sha files claimIdentity feature = bind_ok (claimKeyFor claimIdentity feature) (loadClaim sha files)"

definition with_ref :: "string option \<Rightarrow> evidence_artifact \<Rightarrow> evidence_artifact" where
  "with_ref ref r = (case ref of None \<Rightarrow> r | Some _ \<Rightarrow> r\<lparr>ea_ref := ref\<rparr>)"

definition appendClaim ::
  "(string \<Rightarrow> string) \<Rightarrow> string option \<Rightarrow> claim_document \<Rightarrow> claim_files \<Rightarrow> string + claim_files" where
  "appendClaim sha ref claim files =
     bind_ok (loadClaim sha files (cd_claimKey claim)) (\<lambda>loaded.
     bind_ok (case loaded of Some doc \<Rightarrow> Inr doc
              | None \<Rightarrow> emptyClaimDocument (cd_claimIdentity claim) (cd_feature claim)) (\<lambda>doc.
       Inr (writeClaim sha files (foldl (\<lambda>d r. appendObservation d (with_ref ref r)) doc (cd_records claim)))))"

fun appendRun ::
  "(string \<Rightarrow> string) \<Rightarrow> string option \<Rightarrow> claim_document list \<Rightarrow> claim_files \<Rightarrow> string option \<times> claim_files" where
  "appendRun sha ref [] files = (None, files)"
| "appendRun sha ref (claim # claims) files =
     (case appendClaim sha ref claim files of
        Inl e \<Rightarrow> (Some e, files)
      | Inr files' \<Rightarrow> appendRun sha ref claims files')"

fun read_claims :: "claim_files \<Rightarrow> string list \<Rightarrow> string + claim_document list" where
  "read_claims files [] = Inr []"
| "read_claims files (nm # names) =
     (case map_of files nm of
        None \<Rightarrow> read_claims files names
      | Some stored \<Rightarrow>
          (case stored of
             None \<Rightarrow> Inl (''Malformed claim evidence artifact: '' @ nm)
           | Some doc \<Rightarrow>
               if claim_document_valid doc then bind_ok (read_claims files names) (\<lambda>docs. Inr (doc # docs))
               else Inl (''Malformed claim evidence artifact: '' @ nm)))"

definition ends_with :: "string \<Rightarrow> string \<Rightarrow> bool" where
  "ends_with s suff \<longleftrightarrow> starts_with (rev s) (rev suff)"

definition listClaims :: "claim_files \<Rightarrow> string + claim_document list" where
  "listClaims files =
     read_claims files (sort (filter (\<lambda>nm. starts_with nm ''claim-'' \<and> ends_with nm ''.json'') (map fst files)))"

definition claim_summary :: "claim_files \<Rightarrow> string + nat \<times> nat" where
  "claim_summary files =
     bind_ok (listClaims files) (\<lambda>claims. Inr (length claims, sum_list (map (\<lambda>c. length (cd_records c)) claims)))"

section \<open>Classification of a canary run\<close>

record gate_result =
  gr_gate :: canary_gate
  gr_status :: evidence_result
  gr_reason :: "string option"

datatype canary_verdict = Verdict compatibility_state | Verdict_unknown

record classify_input =
  cl_results :: "gate_result list"
  cl_requiredGates :: "string list"
  cl_adapterId :: string
  cl_fakeMatrixRan :: bool

fun classify_results :: "string list \<Rightarrow> gate_result list \<Rightarrow> canary_verdict \<times> string" where
  "classify_results required [] = (Verdict EXPERIMENTAL, ''production-claim-not-established'')"
| "classify_results required (r # rs) =
     (if gate_text (gr_gate r) \<notin> set required then classify_results required rs
      else case gr_status r of
             Failed \<Rightarrow> (Verdict BROKEN, get_or ''required-gate-failed'' (gr_reason r))
           | Not_run \<Rightarrow> (Verdict_unknown, gate_text (gr_gate r) @ ''-not-run'')
           | Passed \<Rightarrow> classify_results required rs)"

definition classifyVerdict :: "classify_input \<Rightarrow> canary_verdict \<times> string" where
  "classifyVerdict input =
     (if \<not> cl_fakeMatrixRan input then (Verdict_unknown, ''fake-matrix-not-run'')
      else classify_results (cl_requiredGates input) (cl_results input))"

definition requiredGatesFor :: "provider_capabilities \<Rightarrow> reasoning_capability_evidence \<Rightarrow> string list" where
  "requiredGatesFor caps reasoning = map gate_text (gatesRequiredForEvidence caps reasoning)"

definition summarizeGates :: "gate_result list \<Rightarrow> nat \<times> nat \<times> nat" where
  "summarizeGates results =
     (length (filter (\<lambda>r. gr_status r = Passed) results), length (filter (\<lambda>r. gr_status r = Failed) results),
      length (filter (\<lambda>r. gr_status r = Not_run) results))"

section \<open>Proposals to the registry\<close>

record canary_evidence =
  cv_client :: client_kind
  cv_clientVersion :: string
  cv_sourceProtocol :: fidelity_source_protocol
  cv_protocolRevision :: string
  cv_accessProviderId :: string
  cv_adapterId :: string
  cv_authMode :: auth_mode
  cv_endpointContract :: fidelity_source_protocol
  cv_physicalModelId :: string
  cv_modelFamily :: "string option"
  cv_fixtureRevision :: string
  cv_testedGates :: "gate_result list"
  cv_checkedAt :: string
  cv_evidenceLayer :: evidence_layer
  cv_verdict :: canary_verdict
  cv_reason :: "string option"

record canary_proposal =
  cp_accessProviderId :: string
  cp_physicalModelId :: string
  cp_modelFamily :: "string option"
  cp_currentState :: "compatibility_state option"
  cp_proposedState :: compatibility_state
  cp_evidenceRef :: string
  cp_clientVersion :: string
  cp_checkedAt :: string
  cp_reason :: "string option"

fun verdictToCompatibilityState :: "canary_verdict \<Rightarrow> compatibility_state option" where
  "verdictToCompatibilityState (Verdict VERIFIED) = Some VERIFIED"
| "verdictToCompatibilityState (Verdict EXPERIMENTAL) = Some EXPERIMENTAL"
| "verdictToCompatibilityState (Verdict BROKEN) = Some BROKEN"
| "verdictToCompatibilityState Verdict_unknown = None"

definition evidence_identity :: "canary_evidence \<Rightarrow> claim_identity" where
  "evidence_identity evidence =
     \<lparr>ci_client = cv_client evidence, ci_clientVersion = cv_clientVersion evidence,
      ci_sourceProtocol = cv_sourceProtocol evidence, ci_protocolRevision = cv_protocolRevision evidence,
      ci_adapterId = cv_adapterId evidence, ci_accessProviderId = cv_accessProviderId evidence,
      ci_authMode = cv_authMode evidence, ci_endpointContract = cv_endpointContract evidence,
      ci_physicalModelId = cv_physicalModelId evidence, ci_modelFamily = cv_modelFamily evidence\<rparr>"

definition canaryEvidenceRef :: "canary_evidence \<Rightarrow> string + string" where
  "canaryEvidenceRef evidence =
     bind_ok (claimKeyFor (evidence_identity evidence) (Gate_feature Gate_text)) (\<lambda>claimKey.
       Inr (''canary-layer-a:'' @ claimKey @ '':'' @ cv_fixtureRevision evidence))"

definition proposeCanaryState :: "canary_evidence \<Rightarrow> registry_document \<Rightarrow> string + canary_proposal option" where
  "proposeCanaryState evidence registry =
     (let current = List.find (\<lambda>model. mi_accessProviderId (me_identity model) = cv_accessProviderId evidence
                                  \<and> mi_upstreamModelId (me_identity model) = cv_physicalModelId evidence)
                      (registry_models registry)
      in case verdictToCompatibilityState (cv_verdict evidence) of
           None \<Rightarrow> Inr None
         | Some proposedState \<Rightarrow>
             bind_ok (canaryEvidenceRef evidence) (\<lambda>ref.
               Inr (Some \<lparr>cp_accessProviderId = cv_accessProviderId evidence,
                          cp_physicalModelId = cv_physicalModelId evidence,
                          cp_modelFamily = cv_modelFamily evidence,
                          cp_currentState = map_option (\<lambda>m. ce_state (me_compatibility m)) current,
                          cp_proposedState = proposedState, cp_evidenceRef = ref,
                          cp_clientVersion = cv_clientVersion evidence, cp_checkedAt = cv_checkedAt evidence,
                          cp_reason = cv_reason evidence\<rparr>)))"

definition projectionStateForEvidence :: "model_evidence \<Rightarrow> compatibility_state" where
  "projectionStateForEvidence evidence = ce_state (me_compatibility evidence)"


section \<open>A claim key identifies its claim\<close>

lemma join_bar_Cons: "ps \<noteq> [] \<Longrightarrow> join_bar (p # ps) = p @ CHR ''|'' # join_bar ps"
  by (cases ps) simp_all

lemma bar_split:
  assumes "CHR ''|'' \<notin> set p" and "CHR ''|'' \<notin> set q"
  shows "p @ CHR ''|'' # s = q @ CHR ''|'' # t \<longleftrightarrow> p = q \<and> s = t"
  using assms
proof (induction p arbitrary: q)
  case Nil
  then show ?case by (cases q) auto
next
  case (Cons a p)
  then show ?case by (cases q) auto
qed

lemma join_bar_inject:
  "list_all key_part ps \<Longrightarrow> list_all key_part qs \<Longrightarrow> length ps = length qs \<Longrightarrow> join_bar ps = join_bar qs \<Longrightarrow> ps = qs"
proof (induction ps arbitrary: qs rule: join_bar.induct)
  case (2 p)
  then show ?case by (cases qs) auto
next
  case (3 p p' ps)
  obtain q q' qs' where qs: "qs = q # q' # qs'"
    using "3.prems"(3) by (cases qs; cases "tl qs") auto
  with "3.prems" have split: "p = q" "join_bar (p' # ps) = join_bar (q' # qs')"
    by (simp_all add: bar_split key_part_def)
  moreover have "p' # ps = q' # qs'"
    by (rule "3.IH") (use "3.prems" qs split in simp_all)
  ultimately show ?case using qs by simp
qed simp

definition same_claim :: "claim_identity \<Rightarrow> claim_identity \<Rightarrow> bool" where
  "same_claim i j \<longleftrightarrow> i\<lparr>ci_modelFamily := None\<rparr> = j\<lparr>ci_modelFamily := None\<rparr>"

lemma claim_parts_inject: "claim_parts i f = claim_parts j g \<longleftrightarrow> same_claim i j \<and> f = g"
  by (cases i; cases j) (auto simp: claim_parts_def same_claim_def)

lemma length_claim_parts [simp]: "length (claim_parts i f) = 11"
  by (simp add: claim_parts_def)

lemma claimKeyFor_inject:
  assumes "claimKeyFor i f = Inr k" and "claimKeyFor j g = Inr l"
  shows "k = l \<longleftrightarrow> same_claim i j \<and> f = g"
proof -
  have k: "list_all key_part (claim_parts i f)" "k = join_bar (claim_parts i f)"
    and l: "list_all key_part (claim_parts j g)" "l = join_bar (claim_parts j g)"
    using assms by (auto simp: claimKeyFor_def split: if_splits)
  then show ?thesis
    using join_bar_inject [OF k(1) l(1)] claim_parts_inject [of i f j g] by auto
qed

text \<open>The claim key is a faithful name of one claim. Two claims have the same key exactly when they are the same
  client, client version, protocols and revision, adapter, provider, authentication mode, endpoint contract, physical
  model and feature; the model family never takes part. So no evidence is reused across providers, models or features.\<close>

theorem claim_key_identifies:
  assumes "claimKeyFor i f = Inr k" and "claimKeyFor j g = Inr l"
  shows "k = l \<longleftrightarrow> same_claim i j \<and> f = g"
  using assms by (rule claimKeyFor_inject)

definition demo_identity :: claim_identity where
  "demo_identity =
     claimIdentityFor Claude_code ''claude-code-2.1.229'' ''fixtures-7'' ''codex-oauth'' ''codex'' ''gpt-5.4'' None"

lemma demo_identity_key:
  "is_ok (claimKeyFor demo_identity (Gate_feature Gate_text))
   \<and> is_ok (claimKeyFor (demo_identity\<lparr>ci_accessProviderId := ''cline''\<rparr>) (Gate_feature Gate_text))"
  by code_simp

theorem claim_key_identifies_witness:
  "\<exists>k l. claimKeyFor demo_identity (Gate_feature Gate_text) = Inr k
     \<and> claimKeyFor (demo_identity\<lparr>ci_accessProviderId := ''cline''\<rparr>) (Gate_feature Gate_text) = Inr l \<and> k \<noteq> l"
proof -
  obtain k l where k: "claimKeyFor demo_identity (Gate_feature Gate_text) = Inr k"
    and l: "claimKeyFor (demo_identity\<lparr>ci_accessProviderId := ''cline''\<rparr>) (Gate_feature Gate_text) = Inr l"
    using demo_identity_key by (auto simp: is_ok_def split: sum.splits)
  have "\<not> same_claim demo_identity (demo_identity\<lparr>ci_accessProviderId := ''cline''\<rparr>)"
    by (simp add: same_claim_def demo_identity_def claimIdentityFor_def)
  with claim_key_identifies [OF k l] k l show ?thesis by blast
qed

section \<open>The verdict of a canary run\<close>

definition decisive :: "string list \<Rightarrow> gate_result \<Rightarrow> bool" where
  "decisive required r \<longleftrightarrow> gate_text (gr_gate r) \<in> set required \<and> gr_status r \<noteq> Passed"

definition verdict_of :: "gate_result \<Rightarrow> canary_verdict" where
  "verdict_of r = (if gr_status r = Failed then Verdict BROKEN else Verdict_unknown)"

lemma classify_results_verdict:
  "fst (classify_results required rs) =
     (case List.find (decisive required) rs of None \<Rightarrow> Verdict EXPERIMENTAL | Some r \<Rightarrow> verdict_of r)"
  by (induction rs) (auto simp: decisive_def verdict_of_def split: evidence_result.splits)

lemma classifyVerdict_verdict:
  "fst (classifyVerdict input) =
     (if \<not> cl_fakeMatrixRan input then Verdict_unknown
      else case List.find (decisive (cl_requiredGates input)) (cl_results input) of
             None \<Rightarrow> Verdict EXPERIMENTAL | Some r \<Rightarrow> verdict_of r)"
  by (simp add: classifyVerdict_def classify_results_verdict)

lemma classifyVerdict_never_verified: "fst (classifyVerdict input) \<noteq> Verdict VERIFIED"
  by (simp add: classifyVerdict_verdict verdict_of_def split: option.splits)

text \<open>No observation grants trust. A canary run whose verdict becomes a registry proposal only ever proposes
  EXPERIMENTAL or BROKEN: EXPERIMENTAL exactly when the matrix ran and no reported required gate failed or was left
  out, BROKEN only on a failed required gate; an unknown verdict proposes nothing.\<close>

theorem observation_never_verifies:
  assumes "cv_verdict evidence = fst (classifyVerdict input)"
    and "proposeCanaryState evidence registry = Inr (Some p)"
  shows "(cp_proposedState p = EXPERIMENTAL
            \<and> cl_fakeMatrixRan input \<and> List.find (decisive (cl_requiredGates input)) (cl_results input) = None)
       \<or> (cp_proposedState p = BROKEN
            \<and> (\<exists>r. List.find (decisive (cl_requiredGates input)) (cl_results input) = Some r \<and> gr_status r = Failed))"
proof -
  have "verdictToCompatibilityState (fst (classifyVerdict input)) = Some (cp_proposedState p)"
    using assms by (auto simp: proposeCanaryState_def Let_def bind_ok_Inr_iff split: option.splits)
  then show ?thesis
    by (auto simp: classifyVerdict_verdict verdict_of_def split: if_splits option.splits)
qed

definition demo_gates :: "evidence_result \<Rightarrow> gate_result list" where
  "demo_gates st = [\<lparr>gr_gate = Gate_text, gr_status = Passed, gr_reason = None\<rparr>,
                    \<lparr>gr_gate = Gate_streaming, gr_status = st, gr_reason = None\<rparr>]"

definition demo_classify :: classify_input where
  "demo_classify = \<lparr>cl_results = demo_gates Failed, cl_requiredGates = [''text'', ''streaming''],
                    cl_adapterId = ''codex-oauth'', cl_fakeMatrixRan = True\<rparr>"

definition demo_evidence :: canary_evidence where
  "demo_evidence =
     \<lparr>cv_client = Claude_code, cv_clientVersion = ''claude-code-2.1.229'', cv_sourceProtocol = Anthropic_messages,
      cv_protocolRevision = ''fixtures-7'', cv_accessProviderId = ''codex'', cv_adapterId = ''codex-oauth'',
      cv_authMode = Oauth, cv_endpointContract = Anthropic_messages, cv_physicalModelId = ''gpt-5.4'',
      cv_modelFamily = None, cv_fixtureRevision = ''fixtures-7'', cv_testedGates = demo_gates Failed,
      cv_checkedAt = ''2026-09-01'', cv_evidenceLayer = Layer_A, cv_verdict = fst (classifyVerdict demo_classify),
      cv_reason = None\<rparr>"

lemma demo_proposal_made:
  "(case proposeCanaryState demo_evidence directProviderRegistry of Inr (Some p) \<Rightarrow> True | _ \<Rightarrow> False)
   \<and> List.find (decisive (cl_requiredGates demo_classify)) (cl_results demo_classify) \<noteq> None"
  by code_simp

theorem observation_never_verifies_witness:
  "\<exists>p. proposeCanaryState demo_evidence directProviderRegistry = Inr (Some p) \<and> cp_proposedState p = BROKEN"
proof -
  obtain p where p: "proposeCanaryState demo_evidence directProviderRegistry = Inr (Some p)"
    using demo_proposal_made by (auto split: sum.splits option.splits)
  have "cv_verdict demo_evidence = fst (classifyVerdict demo_classify)" by (simp add: demo_evidence_def)
  from observation_never_verifies [OF this p] demo_proposal_made p show ?thesis by auto
qed

text \<open>
  The comment of the classifier promises \<open>unknown\<close> for required gates that were not run. A
  required gate that has no result at all is not noticed, and a gate that was not run hides
  a later failed one.
\<close>

lemma absent_gate_is_experimental:
  "fst (classifyVerdict \<lparr>cl_results = [], cl_requiredGates = [''text'', ''streaming''],
          cl_adapterId = ''codex-oauth'', cl_fakeMatrixRan = True\<rparr>) = Verdict EXPERIMENTAL"
  by code_simp

lemma not_run_hides_failure:
  "fst (classifyVerdict \<lparr>cl_results = \<lparr>gr_gate = Gate_text, gr_status = Not_run, gr_reason = None\<rparr> # demo_gates Failed,
          cl_requiredGates = [''text'', ''streaming''], cl_adapterId = ''codex-oauth'', cl_fakeMatrixRan = True\<rparr>)
     = Verdict_unknown"
  by code_simp


section \<open>The claim store only appends\<close>

lemma sameObservation_refl [simp]: "sameObservation r r"
  by (simp add: sameObservation_def)

lemma append_keeps [simp]:
  "cd_claimKey (appendObservation d r) = cd_claimKey d" "cd_claimIdentity (appendObservation d r) = cd_claimIdentity d"
  "cd_feature (appendObservation d r) = cd_feature d" "cd_schemaVersion (appendObservation d r) = cd_schemaVersion d"
  by (simp_all add: appendObservation_def)

lemma append_prefix: "prefix (cd_records d) (cd_records (appendObservation d r))"
  by (simp add: appendObservation_def)

lemma append_observed: "\<exists>e \<in> set (cd_records (appendObservation d r)). sameObservation e r"
  by (auto simp: appendObservation_def)

abbreviation append_all :: "string option \<Rightarrow> claim_document \<Rightarrow> evidence_artifact list \<Rightarrow> claim_document" where
  "append_all ref \<equiv> foldl (\<lambda>d r. appendObservation d (with_ref ref r))"

lemma append_all_keeps [simp]:
  "cd_claimKey (append_all ref d rs) = cd_claimKey d" "cd_claimIdentity (append_all ref d rs) = cd_claimIdentity d"
  "cd_feature (append_all ref d rs) = cd_feature d" "cd_schemaVersion (append_all ref d rs) = cd_schemaVersion d"
  by (induction rs arbitrary: d) simp_all

lemma append_all_prefix: "prefix (cd_records d) (cd_records (append_all ref d rs))"
proof (induction rs arbitrary: d)
  case (Cons r rs)
  have "prefix (cd_records d) (cd_records (appendObservation d (with_ref ref r)))" by (rule append_prefix)
  also have "prefix \<dots> (cd_records (append_all ref (appendObservation d (with_ref ref r)) rs))" by (rule Cons.IH)
  finally show ?case by simp
qed simp

lemma append_all_observed:
  "r \<in> set rs \<Longrightarrow> \<exists>e \<in> set (cd_records (append_all ref d rs)). sameObservation e (with_ref ref r)"
proof (induction rs arbitrary: d)
  case (Cons r' rs)
  show ?case
  proof (cases "r \<in> set rs")
    case False
    with Cons.prems have "r = r'" by simp
    obtain e where e: "e \<in> set (cd_records (appendObservation d (with_ref ref r)))" "sameObservation e (with_ref ref r)"
      using append_observed by blast
    with append_all_prefix [of "appendObservation d (with_ref ref r)" ref rs] \<open>r = r'\<close> show ?thesis
      by (auto dest: set_mono_prefix)
  qed (simp add: Cons.IH)
qed simp

text \<open>
  A well-formed store: every document stands under the file name of its own key. A
  well-formed claim of a run: its key is the key of its identity and feature.
\<close>

definition claims_store_wf :: "(string \<Rightarrow> string) \<Rightarrow> claim_files \<Rightarrow> bool" where
  "claims_store_wf sha files \<longleftrightarrow> (\<forall>nm doc. map_of files nm = Some (Some doc) \<longrightarrow> nm = claim_path sha (cd_claimKey doc))"

definition claim_wf :: "claim_document \<Rightarrow> bool" where
  "claim_wf claim \<longleftrightarrow> claimKeyFor (cd_claimIdentity claim) (cd_feature claim) = Inr (cd_claimKey claim)"

definition grows :: "claim_files \<Rightarrow> claim_files \<Rightarrow> bool" where
  "grows files files' \<longleftrightarrow>
     (\<forall>nm stored. map_of files nm = Some stored \<longrightarrow>
        (case stored of None \<Rightarrow> map_of files' nm = Some None
         | Some doc \<Rightarrow> \<exists>doc'. map_of files' nm = Some (Some doc')
             \<and> cd_claimKey doc' = cd_claimKey doc \<and> cd_claimIdentity doc' = cd_claimIdentity doc
             \<and> cd_feature doc' = cd_feature doc \<and> prefix (cd_records doc) (cd_records doc')))"

lemma grows_refl: "grows files files"
  by (auto simp: grows_def split: option.splits)

lemma grows_trans:
  assumes "grows a b" and "grows b c"
  shows "grows a c"
proof -
  have "case stored of None \<Rightarrow> map_of c nm = Some None
         | Some doc \<Rightarrow> \<exists>doc'. map_of c nm = Some (Some doc')
             \<and> cd_claimKey doc' = cd_claimKey doc \<and> cd_claimIdentity doc' = cd_claimIdentity doc
             \<and> cd_feature doc' = cd_feature doc \<and> prefix (cd_records doc) (cd_records doc')"
    if held: "map_of a nm = Some stored" for nm stored
  proof (cases stored)
    case None
    with held assms show ?thesis unfolding grows_def by fastforce
  next
    case (Some doc)
    with held assms(1) obtain doc' where "map_of b nm = Some (Some doc')"
      and keep: "cd_claimKey doc' = cd_claimKey doc" "cd_claimIdentity doc' = cd_claimIdentity doc"
        "cd_feature doc' = cd_feature doc" "prefix (cd_records doc) (cd_records doc')"
      unfolding grows_def by fastforce
    with assms(2) obtain doc'' where "map_of c nm = Some (Some doc'')"
      "cd_claimKey doc'' = cd_claimKey doc'" "cd_claimIdentity doc'' = cd_claimIdentity doc'"
        "cd_feature doc'' = cd_feature doc'" "prefix (cd_records doc') (cd_records doc'')"
      unfolding grows_def by fastforce
    with keep Some show ?thesis by (auto intro: prefix_order.trans)
  qed
  then show ?thesis unfolding grows_def by blast
qed

lemma appendClaim_cases:
  assumes run: "appendClaim sha ref claim files = Inr files'" and wf: "claim_wf claim"
  obtains doc where "files' = AList.update (claim_path sha (cd_claimKey doc)) (Some (append_all ref doc (cd_records claim))) files"
    and "(map_of files (claim_path sha (cd_claimKey claim)) = Some (Some doc) \<and> claim_document_valid doc)
       \<or> (map_of files (claim_path sha (cd_claimKey claim)) = None \<and> emptyClaimDocument (cd_claimIdentity claim) (cd_feature claim) = Inr doc
            \<and> cd_claimKey doc = cd_claimKey claim)"
proof -
  obtain loaded doc where loaded: "loadClaim sha files (cd_claimKey claim) = Inr loaded"
    and doc: "(case loaded of Some doc \<Rightarrow> Inr doc | None \<Rightarrow> emptyClaimDocument (cd_claimIdentity claim) (cd_feature claim)) = Inr doc"
    and files': "files' = writeClaim sha files (append_all ref doc (cd_records claim))"
    using run by (auto simp: appendClaim_def bind_ok_Inr_iff)
  have "files' = AList.update (claim_path sha (cd_claimKey doc)) (Some (append_all ref doc (cd_records claim))) files"
    using files' by (simp add: writeClaim_def)
  moreover have "(map_of files (claim_path sha (cd_claimKey claim)) = Some (Some doc) \<and> claim_document_valid doc)
       \<or> (map_of files (claim_path sha (cd_claimKey claim)) = None \<and> emptyClaimDocument (cd_claimIdentity claim) (cd_feature claim) = Inr doc
            \<and> cd_claimKey doc = cd_claimKey claim)"
    using loaded doc wf
    by (auto simp: loadClaim_def Let_def claim_wf_def emptyClaimDocument_def split: option.splits if_splits)
  ultimately show thesis by (rule that)
qed

lemma appendClaim_grows:
  assumes run: "appendClaim sha ref claim files = Inr files'" and wf: "claim_wf claim"
    and store: "claims_store_wf sha files"
  shows "claims_store_wf sha files' \<and> grows files files'"
  using run wf
proof (rule appendClaim_cases)
  fix doc
  assume files': "files' = AList.update (claim_path sha (cd_claimKey doc)) (Some (append_all ref doc (cd_records claim))) files"
    and from_store: "(map_of files (claim_path sha (cd_claimKey claim)) = Some (Some doc) \<and> claim_document_valid doc)
       \<or> (map_of files (claim_path sha (cd_claimKey claim)) = None \<and> emptyClaimDocument (cd_claimIdentity claim) (cd_feature claim) = Inr doc
            \<and> cd_claimKey doc = cd_claimKey claim)"
  have path: "claim_path sha (cd_claimKey doc) = claim_path sha (cd_claimKey claim)"
    using from_store store by (auto simp: claims_store_wf_def)
  have "claims_store_wf sha files'"
    using store by (auto simp: files' claims_store_wf_def update_conv' split: if_splits)
  moreover have "grows files files'"
    using from_store grows_refl [of files]
    by (auto simp: files' path grows_def update_conv' append_all_prefix split: option.splits)
  ultimately show ?thesis by blast
qed

lemma appendRun_grows:
  "list_all claim_wf claims \<Longrightarrow> claims_store_wf sha files \<Longrightarrow> appendRun sha ref claims files = (e, files') \<Longrightarrow>
     claims_store_wf sha files' \<and> grows files files'"
proof (induction sha ref claims files rule: appendRun.induct)
  case (1 sha ref files)
  then show ?case by (simp add: grows_refl)
next
  case (2 sha ref claim claims files)
  show ?case
  proof (cases "appendClaim sha ref claim files")
    case (Inl e')
    with 2 show ?thesis by (simp add: grows_refl)
  next
    case (Inr mid)
    have "claims_store_wf sha mid \<and> grows files mid"
      using appendClaim_grows [OF Inr] "2.prems" by simp
    with 2 Inr show ?thesis by (auto intro: grows_trans)
  qed
qed


lemma appendRun_recorded:
  "list_all claim_wf claims \<Longrightarrow> claims_store_wf sha files \<Longrightarrow> appendRun sha ref claims files = (None, files') \<Longrightarrow>
     claim \<in> set claims \<Longrightarrow> r \<in> set (cd_records claim) \<Longrightarrow>
     \<exists>doc. map_of files' (claim_path sha (cd_claimKey claim)) = Some (Some doc)
       \<and> (\<exists>e \<in> set (cd_records doc). sameObservation e (with_ref ref r))"
proof (induction sha ref claims files rule: appendRun.induct)
  case (1 sha ref files)
  then show ?case by simp
next
  case (2 sha ref claim' claims files)
  from "2.prems"(3) obtain mid where mid: "appendClaim sha ref claim' files = Inr mid"
    and rest: "appendRun sha ref claims mid = (None, files')"
    by (auto split: sum.splits)
  have wf: "claim_wf claim'" "list_all claim_wf claims" using "2.prems"(1) by simp_all
  have mid_wf: "claims_store_wf sha mid"
    using appendClaim_grows [OF mid wf(1) "2.prems"(2)] by blast
  show ?case
  proof (cases "claim \<in> set claims")
    case True
    with "2.IH" [OF mid wf(2) mid_wf rest] "2.prems"(5) show ?thesis by blast
  next
    case False
    with "2.prems"(4) have claim: "claim = claim'" by simp
    have "\<exists>doc. map_of mid (claim_path sha (cd_claimKey claim)) = Some (Some doc)
       \<and> (\<exists>e \<in> set (cd_records doc). sameObservation e (with_ref ref r))"
      using mid wf(1)
    proof (rule appendClaim_cases)
      fix doc
      assume mid_is: "mid = AList.update (claim_path sha (cd_claimKey doc)) (Some (append_all ref doc (cd_records claim'))) files"
        and from_store: "(map_of files (claim_path sha (cd_claimKey claim')) = Some (Some doc) \<and> claim_document_valid doc)
         \<or> (map_of files (claim_path sha (cd_claimKey claim')) = None \<and> emptyClaimDocument (cd_claimIdentity claim') (cd_feature claim') = Inr doc
            \<and> cd_claimKey doc = cd_claimKey claim')"
      have "claim_path sha (cd_claimKey doc) = claim_path sha (cd_claimKey claim)"
        using from_store "2.prems"(2) claim by (auto simp: claims_store_wf_def)
      with append_all_observed [of r "cd_records claim'" ref doc] "2.prems"(5) claim show ?thesis
        by (auto simp: mid_is update_conv')
    qed
    then obtain doc where held: "map_of mid (claim_path sha (cd_claimKey claim)) = Some (Some doc)"
      and seen: "\<exists>e \<in> set (cd_records doc). sameObservation e (with_ref ref r)" by blast
    from appendRun_grows [OF wf(2) mid_wf rest] held obtain doc'
      where "map_of files' (claim_path sha (cd_claimKey claim)) = Some (Some doc')"
        and "prefix (cd_records doc) (cd_records doc')"
      unfolding grows_def by fastforce
    with seen show ?thesis by (auto dest: set_mono_prefix)
  qed
qed

text \<open>The evidence store only appends. From a store where every document stands under the file name of its own key,
  appending a run of well-formed claims keeps that and never rewrites, drops or reorders a stored observation, also
  when the run stops at an error; and when it ends without one, every observation of the run is recorded in the
  document of its own claim. No injectivity of the hash is assumed.\<close>

theorem evidence_append_only:
  assumes "list_all claim_wf claims" and "claims_store_wf sha files"
    and "appendRun sha ref claims files = (e, files')"
  shows "claims_store_wf sha files' \<and> grows files files'
       \<and> (e = None \<longrightarrow> (\<forall>claim \<in> set claims. \<forall>r \<in> set (cd_records claim).
            \<exists>doc. map_of files' (claim_path sha (cd_claimKey claim)) = Some (Some doc)
              \<and> (\<exists>e \<in> set (cd_records doc). sameObservation e (with_ref ref r))))"
  using appendRun_grows [OF assms] appendRun_recorded [OF assms(1,2)] assms(3) by blast

definition demo_artifact :: "evidence_layer \<Rightarrow> evidence_result \<Rightarrow> string \<Rightarrow> evidence_artifact" where
  "demo_artifact layer result checked =
     \<lparr>ea_claimKey = ''k'', ea_feature = Gate_feature Gate_text, ea_layer = layer, ea_kind = Deterministic_fake_matrix,
      ea_fixtureRevision = ''fixtures-7'', ea_runnerVersion = ''rly-canary-runner/2.0'', ea_checkedAt = checked,
      ea_result = result, ea_failureReason = None, ea_environment = None, ea_ref = None, ea_timingMs = None\<rparr>"

definition demo_key :: string where
  "demo_key = join_bar (claim_parts demo_identity (Gate_feature Gate_text))"

definition demo_claim :: "evidence_artifact list \<Rightarrow> claim_document" where
  "demo_claim records =
     \<lparr>cd_schemaVersion = CLAIM_SCHEMA_VERSION, cd_claimKey = demo_key, cd_claimIdentity = demo_identity,
      cd_feature = Gate_feature Gate_text, cd_records = records\<rparr>"

lemma demo_parts: "list_all key_part (claim_parts demo_identity (Gate_feature Gate_text))"
  by code_simp

lemma demo_claim_wf: "claim_wf (demo_claim records)"
  by (simp only: claim_wf_def demo_claim_def demo_key_def claimKeyFor_def demo_parts claim_document.simps if_True)

lemma demo_run_ok:
  "fst (appendRun (take 8) None [demo_claim [demo_artifact Layer_A Passed ''2026-09-01'']] []) = None"
  by code_simp

theorem evidence_append_only_witness:
  "\<exists>files'. appendRun (take 8) None [demo_claim [demo_artifact Layer_A Passed ''2026-09-01'']] [] = (None, files')
     \<and> claims_store_wf (take 8) files'"
proof -
  obtain files' where run: "appendRun (take 8) None [demo_claim [demo_artifact Layer_A Passed ''2026-09-01'']] [] = (None, files')"
    using demo_run_ok by (metis prod.collapse)
  have wf: "list_all claim_wf [demo_claim [demo_artifact Layer_A Passed ''2026-09-01'']]"
    by (simp add: demo_claim_wf)
  have store: "claims_store_wf (take 8) []" by (simp add: claims_store_wf_def)
  from evidence_append_only [OF wf store run] run show ?thesis by blast
qed

section \<open>Status\<close>

lemma all_layers: "(\<forall>layer. P layer) \<longleftrightarrow> P Layer_A \<and> P Layer_B \<and> P Layer_C"
proof
  assume "P Layer_A \<and> P Layer_B \<and> P Layer_C"
  then have "P layer" for layer by (cases layer) simp_all
  then show "\<forall>layer. P layer" ..
qed simp

lemma required_layers_all: "list_all P (requiredLayersForAdapter a) \<longleftrightarrow> (\<forall>layer. P layer)"
  by (simp add: requiredLayersForAdapter_def all_layers)

lemma claimStatusFor_passed_iff:
  "claimStatusFor doc = St_passed \<longleftrightarrow>
     (\<forall>r \<in> set (cd_records doc). ea_result r \<noteq> Failed) \<and> (\<exists>r \<in> set (cd_records doc). ea_result r = Passed)
     \<and> (\<forall>layer. \<exists>r \<in> set (cd_records doc). ea_layer r = layer)"
proof -
  have present: "layer \<in> set (map ea_layer rs) \<longleftrightarrow> (\<exists>r \<in> set rs. ea_layer r = layer)" for layer and rs :: "evidence_artifact list"
    by auto
  show ?thesis
    unfolding claimStatusFor_def Let_def required_layers_all present by (cases "cd_records doc = []") simp_all
qed

text \<open>
  The comment of \<open>claimStatusFor\<close> promises \<open>passed\<close> only when every required layer has a
  passing record. The code asks for some record of every layer and a passing record of any.
\<close>

lemma passed_with_unrun_layers:
  "claimStatusFor (demo_claim [demo_artifact Layer_A Passed ''d1'', demo_artifact Layer_B Not_run ''d2'',
                               demo_artifact Layer_C Not_run ''d3'']) = St_passed"
  by code_simp

end
