(* ===== verification/Compatibility.thy ===== *)
theory Compatibility
  imports Claims
begin

text \<open>
  The Effective Compatibility Registry: \<^verbatim>\<open>src/compatibility/\<close> (\<^verbatim>\<open>types.ts\<close>, \<^verbatim>\<open>features.ts\<close>,
  \<^verbatim>\<open>review.ts\<close>, \<^verbatim>\<open>quarantine.ts\<close>, \<^verbatim>\<open>freshness.ts\<close>, \<^verbatim>\<open>policy.ts\<close>, \<^verbatim>\<open>effective.ts\<close>, \<^verbatim>\<open>stores.ts\<close>,
  \<^verbatim>\<open>registry.ts\<close>).

  Three things are parameters: \<open>digest\<close>, the SHA-256 of the JSON text of an observation
  history; \<open>sha\<close>, the SHA-256 of a claim key; and \<open>parse_date\<close>, what \<open>Date.parse\<close> reads from
  a text (\<open>None\<close> for \<open>NaN\<close>), which for other than ISO texts depends on the engine. The private
  directories of the two stores are association lists from file names to documents, \<open>None\<close>
  where the text of a file is no such document. The promises a method awaits together are
  taken in the order they are written. A \<open>Map\<close> that a method returns is the list of the
  entries it is built from, in that order.
\<close>

section \<open>Types\<close>

record reasoning_requirement =
  rq_required :: bool
  rq_withTools :: bool

datatype decision_kind = Promote | Reject

record review_decision =
  vd_claimKey :: string
  vd_feature :: claim_feature
  vd_decision :: decision_kind
  vd_evidenceRevision :: string
  vd_reviewer :: string
  vd_source :: string
  vd_reason :: string
  vd_decidedAt :: string
  vd_decisionRevision :: int
  vd_rlyBuildVersion :: "string option"

record quarantine_record =
  qr_claimKey :: string
  qr_feature :: claim_feature
  qr_reason :: string
  qr_source :: string
  qr_quarantinedAt :: string
  qr_quarantineRevision :: int
  qr_rlyBuildVersion :: "string option"
  qr_liftedAt :: "string option"
  qr_liftedBy :: "string option"
  qr_liftReason :: "string option"

datatype effective_trust = Reviewed | No_trust | Rejected | Review_stale

datatype effective_health = Healthy | Degraded | Health_failed | Health_unknown

datatype effective_freshness = Fresh | Stale | Freshness_unknown

datatype effective_enforcement = Allowed | Blocked | Experimental_override | Quarantine_bypass

datatype effective_label =
  Label_trusted | Label_stale | Label_experimental | Label_untrusted | Label_quarantined | Label_missing

record decision_metadata =
  dm_decision :: decision_kind
  dm_decisionRevision :: int
  dm_reviewer :: string
  dm_source :: string
  dm_decidedAt :: string

record quarantine_metadata =
  qm_source :: string
  qm_quarantinedAt :: string
  qm_quarantineRevision :: int

record effective_compatibility =
  ec_claimKey :: string
  ec_feature :: claim_feature
  ec_effective :: effective_label
  ec_trust :: effective_trust
  ec_health :: effective_health
  ec_freshness :: effective_freshness
  ec_quarantine_active :: bool
  ec_enforcement :: effective_enforcement
  ec_layers :: layer_statuses
  ec_decision :: "decision_metadata option"
  ec_quarantineRecord :: "quarantine_metadata option"
  ec_trustReason :: "string option"
  ec_healthReason :: "string option"
  ec_freshnessReason :: "string option"
  ec_quarantineReason :: "string option"
  ec_enforcementReason :: "string option"

record access_config =
  ac_adapterId :: string
  ac_authMode :: auth_mode
  ac_endpointContract :: fidelity_source_protocol
  ac_sourceProtocol :: fidelity_source_protocol

record compatibility_policy =
  supportedClientBaseline :: "string option"
  pinnedProtocolRevision :: "string option"
  pinnedFixtureRevision :: "string option"
  maxEvidenceAgeMs :: "int option"
  rlyBuildVersion :: "string option"
  deprecatedModelFingerprints :: "string list option"
  providerAccessConfig :: "(string \<times> access_config) list option"
  legacySeedPolicy :: string
  allowQuarantineBypass_policy :: "bool option"

record resolution_input =
  in_claimKey :: string
  in_feature :: claim_feature
  in_claim :: "claim_document option"
  in_decisions :: "review_decision list"
  in_quarantines :: "quarantine_record list"
  in_policy :: compatibility_policy
  in_required :: bool
  in_experimentalOverride :: bool
  in_allowQuarantineBypass :: bool
  in_now :: string

section \<open>Required features\<close>

definition evidenceRevisionFor :: "(evidence_artifact list \<Rightarrow> string) \<Rightarrow> claim_document \<Rightarrow> string" where
  "evidenceRevisionFor digest doc = digest (cd_records doc)"

definition REQUIRED_RLY_FEATURES :: "claim_feature list" where
  "REQUIRED_RLY_FEATURES =
     map Gate_feature
       [Gate_text, Gate_streaming, Gate_cancellation, Gate_tools_single, Gate_reasoning, Gate_model_discovery,
        Gate_session_attribution, Gate_effort_signal, Gate_long_running_session]"

definition requiredFeaturesForCapabilities ::
  "capability_requirement list \<Rightarrow> reasoning_requirement option \<Rightarrow> claim_feature list" where
  "requiredFeaturesForCapabilities capabilities reasoning =
     (let has = (\<lambda>c. c \<in> set capabilities);
          wants = (case reasoning of None \<Rightarrow> False | Some r \<Rightarrow> rq_required r);
          withTools = (case reasoning of None \<Rightarrow> False | Some r \<Rightarrow> rq_withTools r);
          f0 = map Gate_feature [Gate_text, Gate_cancellation];
          f1 = js_add_if (has Req_streaming) (Gate_feature Gate_streaming) f0;
          f2 = js_add_if (has Req_tools) (Gate_feature Gate_tools_multi)
                 (js_add_if (has Req_tools) (Gate_feature Gate_tools_single) f1);
          f3 = js_add_if (has Req_parallelTools) (Gate_feature Gate_tools_parallel) f2;
          f4 = js_add_if (has Req_reasoning) (Gate_feature Gate_reasoning) f3;
          f5 = js_add_if (has Req_redactedReasoning) (Gate_feature Gate_reasoning) f4;
          f6 = js_add_if wants (Gate_feature Gate_reasoning) f5;
          f7 = js_add_if withTools (Gate_feature Gate_reasoning_tools) f6
      in js_add_if (has Req_reasoning \<and> withTools) (Gate_feature Gate_reasoning_tools) f7)"

definition requiredFeaturesForEvidence :: "provider_capabilities \<Rightarrow> reasoning_capability_evidence \<Rightarrow> claim_feature list" where
  "requiredFeaturesForEvidence caps reasoning =
     js_add_if (reasoningWithTools reasoning) (Gate_feature Gate_reasoning_tools)
       (js_add_if (cap_reasoning caps) (Gate_feature Gate_reasoning)
         (js_add_if (cap_parallelTools caps) (Gate_feature Gate_tools_parallel)
           (js_add_if (cap_tools caps) (Gate_feature Gate_tools_multi) REQUIRED_RLY_FEATURES)))"

section \<open>Reviews and quarantines\<close>

definition latestDecision :: "review_decision list \<Rightarrow> review_decision option" where
  "latestDecision decisions = latest_by (\<lambda>_. True) vd_decisionRevision decisions"

definition latestDecisionOfKind :: "review_decision list \<Rightarrow> decision_kind \<Rightarrow> review_decision option" where
  "latestDecisionOfKind decisions kind = latest_by (\<lambda>d. vd_decision d = kind) vd_decisionRevision decisions"

definition decisionCovers :: "review_decision option \<Rightarrow> string \<Rightarrow> bool" where
  "decisionCovers decision evidenceRevision =
     (case decision of None \<Rightarrow> False | Some d \<Rightarrow> vd_evidenceRevision d = evidenceRevision)"

definition nextDecisionRevision :: "review_decision list \<Rightarrow> int" where
  "nextDecisionRevision decisions = max_rev vd_decisionRevision decisions + 1"

definition latestQuarantine :: "quarantine_record list \<Rightarrow> quarantine_record option" where
  "latestQuarantine records = latest_by (\<lambda>r. qr_liftedAt r = None) qr_quarantineRevision records"

definition isQuarantined :: "quarantine_record list \<Rightarrow> bool" where
  "isQuarantined records \<longleftrightarrow> latestQuarantine records \<noteq> None"

definition nextQuarantineRevision :: "quarantine_record list \<Rightarrow> int" where
  "nextQuarantineRevision records = max_rev qr_quarantineRevision records + 1"

section \<open>Freshness\<close>

definition latest_text :: "string list \<Rightarrow> string option" where
  "latest_text ts = foldl (\<lambda>latest t. if get_or [] latest < t then Some t else latest) None ts"

definition latestCheckedAt :: "claim_document \<Rightarrow> string option" where
  "latestCheckedAt claim = latest_text (map ea_checkedAt (cd_records claim))"

definition latestFixtureRevision :: "claim_document \<Rightarrow> string option" where
  "latestFixtureRevision claim = latest_text (map ea_fixtureRevision (cd_records claim))"

definition differs :: "'a option \<Rightarrow> 'a \<Rightarrow> bool" where
  "differs pinned held = (case pinned of None \<Rightarrow> False | Some p \<Rightarrow> held \<noteq> p)"

definition evidence_too_old :: "(string \<Rightarrow> int option) \<Rightarrow> int option \<Rightarrow> string \<Rightarrow> string option \<Rightarrow> bool" where
  "evidence_too_old parse_date maxAge now checkedAt =
     (case (maxAge, checkedAt) of
        (Some limit, Some c) \<Rightarrow>
          (case (parse_date now, parse_date c) of (Some n, Some t) \<Rightarrow> limit < n - t | _ \<Rightarrow> False)
      | _ \<Rightarrow> False)"

definition access_drift :: "claim_identity \<Rightarrow> access_config \<Rightarrow> string option" where
  "access_drift identity config =
     (if ci_adapterId identity \<noteq> ac_adapterId config then Some ''adapter-drift''
      else if ci_authMode identity \<noteq> ac_authMode config then Some ''auth-mode-drift''
      else if ci_endpointContract identity \<noteq> ac_endpointContract config then Some ''endpoint-drift''
      else if ci_sourceProtocol identity \<noteq> ac_sourceProtocol config then Some ''protocol-drift''
      else None)"

text \<open>The reason a claim is stale; \<open>None\<close> is \<open>{ fresh: true }\<close>.\<close>

definition freshnessFor ::
  "(string \<Rightarrow> int option) \<Rightarrow> claim_document \<Rightarrow> review_decision list \<Rightarrow> compatibility_policy \<Rightarrow> string \<Rightarrow> string option" where
  "freshnessFor parse_date claim decisions policy now =
     (let identity = cd_claimIdentity claim;
          drift = Option.bind (Option.bind (providerAccessConfig policy) (\<lambda>m. map_of m (ci_accessProviderId identity)))
                    (access_drift identity)
      in if evidence_too_old parse_date (maxEvidenceAgeMs policy) now (latestCheckedAt claim) then Some ''evidence-age-exceeded''
         else if differs (supportedClientBaseline policy) (ci_clientVersion identity) then Some ''client-version-drift''
         else if differs (pinnedProtocolRevision policy) (ci_protocolRevision identity) then Some ''protocol-revision-drift''
         else if drift \<noteq> None then drift
         else if ci_physicalModelId identity \<in> set (get_or [] (deprecatedModelFingerprints policy))
         then Some ''model-fingerprint-drift''
         else if differs (map_option Some (pinnedFixtureRevision policy)) (latestFixtureRevision claim)
         then Some ''fixture-revision-drift''
         else if (case (rlyBuildVersion policy, Option.bind (latestDecision decisions) vd_rlyBuildVersion) of
                    (Some current, Some decided) \<Rightarrow> decided \<noteq> current | _ \<Rightarrow> False)
         then Some ''rly-build-drift''
         else None)"

section \<open>Policy\<close>

definition defaultCompatibilityPolicy :: compatibility_policy where
  "defaultCompatibilityPolicy =
     \<lparr>supportedClientBaseline = None, pinnedProtocolRevision = None, pinnedFixtureRevision = None,
      maxEvidenceAgeMs = None, rlyBuildVersion = None, deprecatedModelFingerprints = None,
      providerAccessConfig = None, legacySeedPolicy = ''seed-reference-only'', allowQuarantineBypass_policy = None\<rparr>"

datatype seed_hint = Trusted_seed | Seed_experimental | Seed_broken | Seed_unknown

definition seedHintForModel :: "model_evidence \<Rightarrow> seed_hint" where
  "seedHintForModel model =
     (case ce_state (me_compatibility model) of
        VERIFIED \<Rightarrow> if ce_claimRef (me_compatibility model) = None then Seed_experimental else Trusted_seed
      | EXPERIMENTAL \<Rightarrow> Seed_experimental
      | BROKEN \<Rightarrow> Seed_broken)"

definition isSeedOnlyModel :: "model_evidence \<Rightarrow> bool" where
  "isSeedOnlyModel model \<longleftrightarrow> ce_claimRef (me_compatibility model) = None"

section \<open>The effective answer\<close>

definition healthFromStatus :: "claim_status \<Rightarrow> bool \<Rightarrow> effective_health \<times> string option" where
  "healthFromStatus status hasAnyEvidence =
     (if \<not> hasAnyEvidence then (Health_unknown, None)
      else case status of
             St_passed \<Rightarrow> (Healthy, None)
           | St_failed \<Rightarrow> (Health_failed, Some ''failed-observation'')
           | St_not_run \<Rightarrow> (Degraded, Some ''required-layer-missing'')
           | St_missing \<Rightarrow> (Health_unknown, None))"

definition enforceEffective :: "effective_label \<Rightarrow> bool \<Rightarrow> bool \<Rightarrow> bool \<Rightarrow> effective_enforcement \<times> string option" where
  "enforceEffective label required experimentalOverride allowBypass =
     (if \<not> required then (Allowed, None)
      else case label of
             Label_trusted \<Rightarrow> (Allowed, None)
           | Label_quarantined \<Rightarrow>
               if allowBypass then (Quarantine_bypass, Some ''admin-quarantine-bypass'')
               else (Blocked, Some ''quarantined-fail-closed'')
           | Label_experimental \<Rightarrow>
               if experimentalOverride then (Experimental_override, Some ''explicit-experimental-override'')
               else (Blocked, Some ''unreviewed-experimental'')
           | Label_stale \<Rightarrow>
               if experimentalOverride then (Experimental_override, Some ''explicit-experimental-override'')
               else (Blocked, Some ''stale-positive-not-trusted'')
           | Label_untrusted \<Rightarrow> (Blocked, Some ''untrusted-required-feature'')
           | Label_missing \<Rightarrow> (Blocked, Some ''missing-evidence-fail-closed''))"

definition labelFor ::
  "(evidence_artifact list \<Rightarrow> string) \<Rightarrow> (string \<Rightarrow> int option) \<Rightarrow> resolution_input \<Rightarrow> effective_label" where
  "labelFor digest parse_date input =
     (if isQuarantined (in_quarantines input) then Label_quarantined
      else case in_claim input of
        None \<Rightarrow> Label_missing
      | Some claim \<Rightarrow>
          (let status = claimStatusFor claim
           in if status = St_failed then Label_untrusted
              else case latestDecision (in_decisions input) of
                     Some decision \<Rightarrow>
                       if vd_decision decision = Reject then Label_untrusted
                       else if \<not> decisionCovers (Some decision) (evidenceRevisionFor digest claim) then Label_untrusted
                       else if status \<noteq> St_passed then Label_untrusted
                       else if freshnessFor parse_date claim (in_decisions input) (in_policy input) (in_now input) \<noteq> None
                       then Label_stale
                       else Label_trusted
                   | None \<Rightarrow> if status = St_passed then Label_experimental else Label_untrusted))"

definition trustFor :: "claim_status \<Rightarrow> string \<Rightarrow> review_decision option \<Rightarrow> effective_trust \<times> string option" where
  "trustFor status evidenceRevision decision =
     (case decision of
        None \<Rightarrow> (No_trust, None)
      | Some d \<Rightarrow>
          if vd_decision d = Reject then (Rejected, Some ''explicit-rejection'')
          else if \<not> decisionCovers decision evidenceRevision then (Review_stale, Some ''evidence-updated-after-review'')
          else if status \<noteq> St_passed then (Review_stale, Some ''decision-contradicted-by-evidence'')
          else (Reviewed, None))"

definition missing_layers :: layer_statuses where
  "missing_layers = \<lparr>ls_A = St_missing, ls_B = St_missing, ls_C = St_missing\<rparr>"

definition decision_metadata_of :: "review_decision \<Rightarrow> decision_metadata" where
  "decision_metadata_of d =
     \<lparr>dm_decision = vd_decision d, dm_decisionRevision = vd_decisionRevision d, dm_reviewer = vd_reviewer d,
      dm_source = vd_source d, dm_decidedAt = vd_decidedAt d\<rparr>"

definition quarantine_metadata_of :: "quarantine_record \<Rightarrow> quarantine_metadata" where
  "quarantine_metadata_of q =
     \<lparr>qm_source = qr_source q, qm_quarantinedAt = qr_quarantinedAt q, qm_quarantineRevision = qr_quarantineRevision q\<rparr>"

definition resolveEffectiveCompatibility ::
  "(evidence_artifact list \<Rightarrow> string) \<Rightarrow> (string \<Rightarrow> int option) \<Rightarrow> resolution_input \<Rightarrow> effective_compatibility" where
  "resolveEffectiveCompatibility digest parse_date input =
     (let claim = in_claim input;
          status = (case claim of None \<Rightarrow> St_missing | Some c \<Rightarrow> claimStatusFor c);
          quarantine = latestQuarantine (in_quarantines input);
          decision = latestDecision (in_decisions input);
          revision_of = (case claim of None \<Rightarrow> [] | Some c \<Rightarrow> evidenceRevisionFor digest c);
          stale_reason = Option.bind claim (\<lambda>c. freshnessFor parse_date c (in_decisions input) (in_policy input) (in_now input));
          trust = trustFor status revision_of decision;
          health = healthFromStatus status (case claim of None \<Rightarrow> False | Some c \<Rightarrow> cd_records c \<noteq> []);
          label = labelFor digest parse_date input;
          enforced = enforceEffective label (in_required input) (in_experimentalOverride input)
                       (in_allowQuarantineBypass input)
      in \<lparr>ec_claimKey = in_claimKey input, ec_feature = in_feature input, ec_effective = label, ec_trust = fst trust,
          ec_health = fst health,
          ec_freshness = (if claim = None then Freshness_unknown else if stale_reason = None then Fresh else Stale),
          ec_quarantine_active = (quarantine \<noteq> None), ec_enforcement = fst enforced,
          ec_layers = (case claim of None \<Rightarrow> missing_layers | Some c \<Rightarrow> layerStatuses c),
          ec_decision = map_option decision_metadata_of decision,
          ec_quarantineRecord = map_option quarantine_metadata_of quarantine,
          ec_trustReason = snd trust, ec_healthReason = snd health, ec_freshnessReason = stale_reason,
          ec_quarantineReason = map_option qr_reason quarantine, ec_enforcementReason = snd enforced\<rparr>)"


section \<open>Stores\<close>

record 'r compat_document =
  doc_claimKey :: string
  doc_feature :: claim_feature
  doc_entries :: "'r list"

type_synonym 'r compat_files = "(string \<times> 'r compat_document option) list"

definition document_path :: "(string \<Rightarrow> string) \<Rightarrow> string \<Rightarrow> claim_feature \<Rightarrow> string" where
  "document_path sha claimKey feature = sha claimKey @ ''-'' @ feature_text feature @ ''.json''"

definition decision_valid :: "review_decision \<Rightarrow> bool" where
  "decision_valid d \<longleftrightarrow>
     vd_claimKey d \<noteq> [] \<and> vd_evidenceRevision d \<noteq> [] \<and> vd_reviewer d \<noteq> [] \<and> vd_source d \<noteq> []
     \<and> vd_reason d \<noteq> [] \<and> vd_decidedAt d \<noteq> [] \<and> 0 < vd_decisionRevision d"

definition quarantine_valid :: "quarantine_record \<Rightarrow> bool" where
  "quarantine_valid q \<longleftrightarrow>
     qr_claimKey q \<noteq> [] \<and> qr_reason q \<noteq> [] \<and> qr_source q \<noteq> [] \<and> qr_quarantinedAt q \<noteq> []
     \<and> 0 < qr_quarantineRevision q"

definition parse_document ::
  "('r \<Rightarrow> bool) \<Rightarrow> string \<Rightarrow> 'r compat_document option option \<Rightarrow> string + 'r list" where
  "parse_document valid error content =
     (case content of
        None \<Rightarrow> Inr []
      | Some stored \<Rightarrow>
          (case stored of
             None \<Rightarrow> Inl error
           | Some doc \<Rightarrow>
               if doc_claimKey doc \<noteq> [] \<and> list_all valid (doc_entries doc) then Inr (doc_entries doc) else Inl error))"

definition parseReviews ::
  "string \<Rightarrow> string \<Rightarrow> review_decision compat_document option option \<Rightarrow> string + review_decision list" where
  "parseReviews claimKey feature content =
     parse_document decision_valid (''Malformed review decision artifact for '' @ claimKey @ ''|'' @ feature) content"

definition parseQuarantines ::
  "string \<Rightarrow> string \<Rightarrow> quarantine_record compat_document option option \<Rightarrow> string + quarantine_record list" where
  "parseQuarantines claimKey feature content =
     parse_document quarantine_valid (''Malformed quarantine artifact for '' @ claimKey @ ''|'' @ feature) content"

definition decisionsFor ::
  "(string \<Rightarrow> string) \<Rightarrow> review_decision compat_files \<Rightarrow> string \<Rightarrow> claim_feature \<Rightarrow> string + review_decision list" where
  "decisionsFor sha files claimKey feature =
     parseReviews claimKey (feature_text feature) (map_of files (document_path sha claimKey feature))"

definition recordsFor ::
  "(string \<Rightarrow> string) \<Rightarrow> quarantine_record compat_files \<Rightarrow> string \<Rightarrow> claim_feature \<Rightarrow> string + quarantine_record list" where
  "recordsFor sha files claimKey feature =
     parseQuarantines claimKey (feature_text feature) (map_of files (document_path sha claimKey feature))"

definition write_document ::
  "(string \<Rightarrow> string) \<Rightarrow> string \<Rightarrow> claim_feature \<Rightarrow> 'r list \<Rightarrow> 'r compat_files \<Rightarrow> 'r compat_files" where
  "write_document sha claimKey feature entries files =
     AList.update (document_path sha claimKey feature)
       (Some \<lparr>doc_claimKey = claimKey, doc_feature = feature, doc_entries = entries\<rparr>) files"

text \<open>The revision of the given decision is not read: the input of the method has none.\<close>

definition addDecision ::
  "(string \<Rightarrow> string) \<Rightarrow> review_decision \<Rightarrow> review_decision compat_files \<Rightarrow> string + review_decision \<times> review_decision compat_files" where
  "addDecision sha input files =
     bind_ok (decisionsFor sha files (vd_claimKey input) (vd_feature input)) (\<lambda>existing.
       let decision = input\<lparr>vd_decisionRevision := nextDecisionRevision existing\<rparr>
       in Inr (decision, write_document sha (vd_claimKey input) (vd_feature input) (existing @ [decision]) files))"

definition quarantine ::
  "(string \<Rightarrow> string) \<Rightarrow> quarantine_record \<Rightarrow> quarantine_record compat_files \<Rightarrow> string + quarantine_record \<times> quarantine_record compat_files" where
  "quarantine sha input files =
     bind_ok (recordsFor sha files (qr_claimKey input) (qr_feature input)) (\<lambda>existing.
       let record_new = input\<lparr>qr_quarantineRevision := nextQuarantineRevision existing,
                               qr_liftedAt := None, qr_liftedBy := None, qr_liftReason := None\<rparr>
       in Inr (record_new, write_document sha (qr_claimKey input) (qr_feature input) (existing @ [record_new]) files))"

definition lift_record :: "string \<Rightarrow> string \<Rightarrow> string \<Rightarrow> quarantine_record \<Rightarrow> quarantine_record" where
  "lift_record now lifter why q = q\<lparr>qr_liftedAt := Some now, qr_liftedBy := Some lifter, qr_liftReason := Some why\<rparr>"

definition lift_entries :: "quarantine_record \<Rightarrow> quarantine_record \<Rightarrow> quarantine_record list \<Rightarrow> quarantine_record list" where
  "lift_entries active lifted existing =
     map (\<lambda>r. if qr_quarantineRevision r = qr_quarantineRevision active then lifted else r) existing"

definition lift ::
  "(string \<Rightarrow> string) \<Rightarrow> string \<Rightarrow> string \<Rightarrow> claim_feature \<Rightarrow> string \<Rightarrow> string \<Rightarrow> quarantine_record compat_files
     \<Rightarrow> string + quarantine_record \<times> quarantine_record compat_files" where
  "lift sha now claimKey feature lifter why files =
     bind_ok (recordsFor sha files claimKey feature) (\<lambda>existing.
       case latest_by (\<lambda>r. qr_liftedAt r = None) qr_quarantineRevision existing of
         None \<Rightarrow> Inl (''No active quarantine to lift for '' @ claimKey @ ''|'' @ feature_text feature)
       | Some active \<Rightarrow>
           Inr (lift_record now lifter why active,
                write_document sha claimKey feature
                  (lift_entries active (lift_record now lifter why active) existing) files))"

fun read_entries ::
  "(string \<Rightarrow> 'r compat_document option option \<Rightarrow> string + 'r list) \<Rightarrow> 'r compat_files \<Rightarrow> string list \<Rightarrow> string + 'r list" where
  "read_entries parse files [] = Inr []"
| "read_entries parse files (nm # names) =
     (case map_of files nm of
        None \<Rightarrow> read_entries parse files names
      | Some content \<Rightarrow>
          bind_ok (parse nm (Some content)) (\<lambda>entries.
          bind_ok (read_entries parse files names) (\<lambda>rest. Inr (entries @ rest))))"

definition json_names :: "'r compat_files \<Rightarrow> string list" where
  "json_names files = sort (filter (\<lambda>nm. ends_with nm ''.json'') (map fst files))"

definition listDecisions :: "review_decision compat_files \<Rightarrow> string + review_decision list" where
  "listDecisions files = read_entries (\<lambda>nm. parseReviews nm []) files (json_names files)"

definition reviews_summary :: "review_decision compat_files \<Rightarrow> string + nat \<times> nat \<times> nat" where
  "reviews_summary files =
     bind_ok (listDecisions files) (\<lambda>decisions.
       Inr (length decisions, length (filter (\<lambda>d. vd_decision d = Promote) decisions),
            length (filter (\<lambda>d. vd_decision d = Reject) decisions)))"

definition listRecords :: "quarantine_record compat_files \<Rightarrow> string + quarantine_record list" where
  "listRecords files = read_entries (\<lambda>nm. parseQuarantines nm []) files (json_names files)"

definition quarantines_summary :: "quarantine_record compat_files \<Rightarrow> string + nat \<times> nat" where
  "quarantines_summary files =
     bind_ok (listRecords files) (\<lambda>records.
       Inr (length records, length (filter (\<lambda>r. qr_liftedAt r = None) records)))"

section \<open>The registry\<close>

record ecr_state =
  ecr_claims :: claim_files
  ecr_reviews :: "review_decision compat_files"
  ecr_quarantines :: "quarantine_record compat_files"

record ecr_options =
  opt_policy :: compatibility_policy
  opt_client :: client_kind
  opt_adapterForProvider :: "string \<Rightarrow> string"
  opt_now :: string
  opt_sha :: "string \<Rightarrow> string"
  opt_digest :: "evidence_artifact list \<Rightarrow> string"
  opt_parse_date :: "string \<Rightarrow> int option"

record enforcement_context =
  ctx_required :: bool
  ctx_experimentalOverride :: bool

definition registry_claimIdentityFor :: "ecr_options \<Rightarrow> model_evidence \<Rightarrow> string + claim_identity" where
  "registry_claimIdentityFor opts row =
     (case (supportedClientBaseline (opt_policy opts), pinnedProtocolRevision (opt_policy opts)) of
        (Some baseline, Some pinned) \<Rightarrow>
          Inr (claimIdentityFor (opt_client opts) baseline pinned
                 (opt_adapterForProvider opts (mi_accessProviderId (me_identity row)))
                 (mi_accessProviderId (me_identity row)) (mi_upstreamModelId (me_identity row))
                 (mi_modelFamily (me_identity row)))
      | _ \<Rightarrow> Inl (''Compatibility policy must pin supportedClientBaseline and pinnedProtocolRevision ''
                   @ ''to derive claim identities''))"

definition resolve_claim ::
  "ecr_options \<Rightarrow> string \<Rightarrow> claim_feature \<Rightarrow> claim_document option \<Rightarrow> review_decision list \<Rightarrow> quarantine_record list
     \<Rightarrow> enforcement_context \<Rightarrow> effective_compatibility" where
  "resolve_claim opts claimKey feature claim decisions records context =
     resolveEffectiveCompatibility (opt_digest opts) (opt_parse_date opts)
       \<lparr>in_claimKey = claimKey, in_feature = feature, in_claim = claim, in_decisions = decisions,
        in_quarantines = records, in_policy = opt_policy opts, in_required = ctx_required context,
        in_experimentalOverride = ctx_experimentalOverride context,
        in_allowQuarantineBypass = get_or False (allowQuarantineBypass_policy (opt_policy opts)),
        in_now = opt_now opts\<rparr>"

definition effectiveForClaimKey ::
  "ecr_options \<Rightarrow> ecr_state \<Rightarrow> string \<Rightarrow> claim_feature \<Rightarrow> enforcement_context \<Rightarrow> string + effective_compatibility" where
  "effectiveForClaimKey opts s claimKey feature context =
     bind_ok (loadClaim (opt_sha opts) (ecr_claims s) claimKey) (\<lambda>claim.
     bind_ok (decisionsFor (opt_sha opts) (ecr_reviews s) claimKey feature) (\<lambda>decisions.
     bind_ok (recordsFor (opt_sha opts) (ecr_quarantines s) claimKey feature) (\<lambda>records.
       Inr (resolve_claim opts claimKey feature claim decisions records context))))"

definition seedAnswer :: "seed_hint \<Rightarrow> string \<Rightarrow> claim_feature \<Rightarrow> enforcement_context \<Rightarrow> effective_compatibility" where
  "seedAnswer seed claimKey feature context =
     (let broken = (seed = Seed_broken);
          enforcement = (if \<not> ctx_required context then Allowed else if broken then Blocked
                         else if ctx_experimentalOverride context then Experimental_override else Blocked)
      in \<lparr>ec_claimKey = claimKey, ec_feature = feature,
          ec_effective = (if broken then Label_untrusted else Label_experimental), ec_trust = No_trust,
          ec_health = (if broken then Health_failed else Health_unknown), ec_freshness = Freshness_unknown,
          ec_quarantine_active = False, ec_enforcement = enforcement, ec_layers = missing_layers,
          ec_decision = None, ec_quarantineRecord = None,
          ec_trustReason = (if broken then Some ''seed-broken-state'' else None),
          ec_healthReason = (if broken then Some ''seed-broken-state'' else None),
          ec_freshnessReason = None, ec_quarantineReason = None,
          ec_enforcementReason =
            (if enforcement = Blocked
             then Some (if broken then ''seed-broken-fail-closed'' else ''seed-unreviewed-required-feature'')
             else if enforcement = Experimental_override then Some ''explicit-experimental-override''
             else None)\<rparr>)"

fun map_ok :: "('a \<Rightarrow> 'e + 'b) \<Rightarrow> 'a list \<Rightarrow> 'e + 'b list" where
  "map_ok f [] = Inr []"
| "map_ok f (x # xs) = bind_ok (f x) (\<lambda>y. bind_ok (map_ok f xs) (\<lambda>ys. Inr (y # ys)))"

definition effectiveForIdentity ::
  "ecr_options \<Rightarrow> ecr_state \<Rightarrow> claim_identity \<Rightarrow> claim_feature list \<Rightarrow> enforcement_context
     \<Rightarrow> string + (claim_feature \<times> effective_compatibility) list" where
  "effectiveForIdentity opts s identity features context =
     map_ok (\<lambda>feature.
       bind_ok (claimKeyFor identity feature) (\<lambda>claimKey.
       bind_ok (effectiveForClaimKey opts s claimKey feature context) (\<lambda>answer. Inr (feature, answer)))) features"

definition model_feature ::
  "ecr_options \<Rightarrow> ecr_state \<Rightarrow> model_evidence \<Rightarrow> claim_identity \<Rightarrow> enforcement_context \<Rightarrow> claim_feature
     \<Rightarrow> string + effective_compatibility" where
  "model_feature opts s row identity context feature =
     bind_ok (claimKeyFor identity feature) (\<lambda>claimKey.
     bind_ok (findEvidence (opt_sha opts) (ecr_claims s) identity feature) (\<lambda>claim.
     bind_ok (decisionsFor (opt_sha opts) (ecr_reviews s) claimKey feature) (\<lambda>decisions.
     bind_ok (recordsFor (opt_sha opts) (ecr_quarantines s) claimKey feature) (\<lambda>records.
       Inr (if claim = None then seedAnswer (seedHintForModel row) claimKey feature context
            else resolve_claim opts claimKey feature claim decisions records context)))))"

definition effectiveForModel ::
  "ecr_options \<Rightarrow> ecr_state \<Rightarrow> model_evidence \<Rightarrow> claim_feature list \<Rightarrow> enforcement_context
     \<Rightarrow> string + (claim_feature \<times> effective_compatibility) list" where
  "effectiveForModel opts s row features context =
     bind_ok (registry_claimIdentityFor opts row) (\<lambda>identity.
       map_ok (\<lambda>feature. bind_ok (model_feature opts s row identity context feature) (\<lambda>answer. Inr (feature, answer)))
         features)"

definition snapshotForModels ::
  "ecr_options \<Rightarrow> ecr_state \<Rightarrow> model_evidence list \<Rightarrow> (model_evidence \<Rightarrow> claim_feature list) \<Rightarrow> enforcement_context
     \<Rightarrow> string + (string \<times> (claim_feature \<times> effective_compatibility) list) list" where
  "snapshotForModels opts s rows featuresFor context =
     map_ok (\<lambda>row. bind_ok (effectiveForModel opts s row (featuresFor row) context) (\<lambda>answers.
       Inr (me_logicalId row, answers))) rows"

section \<open>Revision logs\<close>

text \<open>
  What the decision log and the quarantine log promise their client: the latest live record
  is one with the greatest revision among the live ones, and the next revision is above every
  revision in use.
\<close>

locale revision_log =
  fixes rev_of :: "'r \<Rightarrow> int"
    and live :: "'r \<Rightarrow> bool"
    and latest :: "'r list \<Rightarrow> 'r option"
    and next_rev :: "'r list \<Rightarrow> int"
  assumes latest_live: "latest rs = Some r \<Longrightarrow> r \<in> set rs \<and> live r"
    and latest_greatest: "latest rs = Some r \<Longrightarrow> q \<in> set rs \<Longrightarrow> live q \<Longrightarrow> rev_of q \<le> rev_of r"
    and latest_none: "latest rs = None \<Longrightarrow> q \<in> set rs \<Longrightarrow> \<not> live q"
    and next_above: "q \<in> set rs \<Longrightarrow> rev_of q < next_rev rs"
    and next_positive: "0 < next_rev rs"
begin

lemma appended_is_latest:
  assumes "live r" and "rev_of r = next_rev rs"
  shows "latest (rs @ [r]) = Some r"
proof (cases "latest (rs @ [r])")
  case None
  with latest_none [of "rs @ [r]" r] assms(1) show ?thesis by simp
next
  case (Some l)
  from latest_live [OF Some] have l: "l \<in> set (rs @ [r])" "live l" by blast+
  have "next_rev rs \<le> rev_of l"
    using latest_greatest [OF Some, of r] assms by simp
  with l(1) next_above [of l rs] have "l = r" by auto
  with Some show ?thesis by simp
qed

lemma no_live_none: "\<forall>q \<in> set rs. \<not> live q \<Longrightarrow> latest rs = None"
  using latest_live by (cases "latest rs") auto

lemma live_some: "q \<in> set rs \<Longrightarrow> live q \<Longrightarrow> latest rs \<noteq> None"
  using latest_none by blast

lemma revisions_distinct_snoc:
  "distinct (map rev_of rs) \<Longrightarrow> rev_of r = next_rev rs \<Longrightarrow> distinct (map rev_of (rs @ [r]))"
  using next_above by (fastforce simp: less_le)

end

interpretation decision_log:
  revision_log vd_decisionRevision "\<lambda>_. True" latestDecision nextDecisionRevision
  by unfold_locales
     (auto simp: latestDecision_def nextDecisionRevision_def latest_by_None_iff max_rev_bound max_rev_nonneg
        zle_add1_eq_le dest: latest_by_Some)

interpretation quarantine_log:
  revision_log qr_quarantineRevision "\<lambda>r. qr_liftedAt r = None" latestQuarantine nextQuarantineRevision
  by unfold_locales
     (auto simp: latestQuarantine_def nextQuarantineRevision_def latest_by_None_iff max_rev_bound max_rev_nonneg
        zle_add1_eq_le dest: latest_by_Some)

section \<open>The effective label\<close>

lemma labelFor_trusted_iff:
  "labelFor digest parse_date input = Label_trusted \<longleftrightarrow>
     \<not> isQuarantined (in_quarantines input)
     \<and> (\<exists>c d. in_claim input = Some c \<and> latestDecision (in_decisions input) = Some d
          \<and> claimStatusFor c = St_passed \<and> vd_decision d = Promote
          \<and> vd_evidenceRevision d = evidenceRevisionFor digest c
          \<and> freshnessFor parse_date c (in_decisions input) (in_policy input) (in_now input) = None)"
  by (auto simp: labelFor_def Let_def decisionCovers_def split: option.splits decision_kind.splits)
     (metis decision_kind.exhaust)

lemma resolve_effective [simp]:
  "ec_effective (resolveEffectiveCompatibility digest parse_date input) = labelFor digest parse_date input"
  "ec_enforcement (resolveEffectiveCompatibility digest parse_date input) =
     fst (enforceEffective (labelFor digest parse_date input) (in_required input) (in_experimentalOverride input)
            (in_allowQuarantineBypass input))"
  "ec_trust (resolveEffectiveCompatibility digest parse_date input) =
     fst (trustFor (case in_claim input of None \<Rightarrow> St_missing | Some c \<Rightarrow> claimStatusFor c)
            (case in_claim input of None \<Rightarrow> [] | Some c \<Rightarrow> evidenceRevisionFor digest c) (latestDecision (in_decisions input)))"
  "ec_claimKey (resolveEffectiveCompatibility digest parse_date input) = in_claimKey input"
  "ec_feature (resolveEffectiveCompatibility digest parse_date input) = in_feature input"
  by (simp_all add: resolveEffectiveCompatibility_def Let_def)

text \<open>The effective answer trusts a claim exactly when no quarantine of it is active, its evidence document exists
  and passed, the latest review decision promoted exactly the current evidence, and nothing is stale. An unreviewed
  pass, a rejected or outdated review, missing evidence and a failed observation are never trusted.\<close>

theorem trusted_exactly_when_reviewed:
  "ec_effective (resolveEffectiveCompatibility digest parse_date input) = Label_trusted \<longleftrightarrow>
     \<not> isQuarantined (in_quarantines input)
     \<and> (\<exists>c d. in_claim input = Some c \<and> latestDecision (in_decisions input) = Some d
          \<and> claimStatusFor c = St_passed \<and> vd_decision d = Promote
          \<and> vd_evidenceRevision d = evidenceRevisionFor digest c
          \<and> freshnessFor parse_date c (in_decisions input) (in_policy input) (in_now input) = None)"
  by (simp add: labelFor_trusted_iff)



text \<open>New evidence revokes an old review. When a trusted claim receives a genuinely new observation, and the digest
  tells the two histories apart, the claim is no longer trusted, whatever the observation says: the label is
  untrusted, the trust dimension says the review is out of date, and a request that requires the feature is blocked.\<close>

theorem new_evidence_revokes_trust:
  assumes "ec_effective (resolveEffectiveCompatibility digest parse_date (input\<lparr>in_claim := Some c\<rparr>)) = Label_trusted"
    and "appendObservation c r \<noteq> c"
    and "digest (cd_records (appendObservation c r)) \<noteq> digest (cd_records c)"
  shows "let answer = resolveEffectiveCompatibility digest parse_date (input\<lparr>in_claim := Some (appendObservation c r)\<rparr>)
         in ec_effective answer = Label_untrusted \<and> ec_trust answer = Review_stale
            \<and> (in_required input \<longrightarrow> ec_enforcement answer = Blocked)"
proof -
  obtain d where free: "\<not> isQuarantined (in_quarantines input)"
    and d: "latestDecision (in_decisions input) = Some d" "vd_decision d = Promote"
      "vd_evidenceRevision d = evidenceRevisionFor digest c"
    using assms(1) by (auto simp: labelFor_trusted_iff)
  have uncovered: "\<not> decisionCovers (Some d) (evidenceRevisionFor digest (appendObservation c r))"
    using d(3) assms(3) by (simp add: decisionCovers_def evidenceRevisionFor_def)
  then have "labelFor digest parse_date (input\<lparr>in_claim := Some (appendObservation c r)\<rparr>) = Label_untrusted"
    using free d by (simp add: labelFor_def Let_def)
  moreover have "trustFor status (evidenceRevisionFor digest (appendObservation c r)) (Some d)
       = (Review_stale, Some ''evidence-updated-after-review'')" for status
    using d uncovered by (simp add: trustFor_def)
  ultimately show ?thesis
    using d(1) by (simp add: Let_def enforceEffective_def)
qed

section \<open>Reviews and quarantines take effect\<close>

lemma parse_written:
  "map_of (write_document sha k f rs files) (document_path sha k f) =
     Some (Some \<lparr>doc_claimKey = k, doc_feature = f, doc_entries = rs\<rparr>)"
  by (simp add: write_document_def update_conv')

lemma parse_other:
  "document_path sha k' f' \<noteq> document_path sha k f \<Longrightarrow>
     map_of (write_document sha k f rs files) (document_path sha k' f') = map_of files (document_path sha k' f')"
  by (simp add: write_document_def update_conv')

lemma recordsFor_written:
  "k \<noteq> [] \<Longrightarrow> list_all quarantine_valid rs \<Longrightarrow> recordsFor sha (write_document sha k f rs files) k f = Inr rs"
  by (simp add: recordsFor_def parseQuarantines_def parse_document_def parse_written)

lemma decisionsFor_written:
  "k \<noteq> [] \<Longrightarrow> list_all decision_valid rs \<Longrightarrow> decisionsFor sha (write_document sha k f rs files) k f = Inr rs"
  by (simp add: decisionsFor_def parseReviews_def parse_document_def parse_written)

lemma recordsFor_valid: "recordsFor sha files k f = Inr rs \<Longrightarrow> list_all quarantine_valid rs"
  by (auto simp: recordsFor_def parseQuarantines_def parse_document_def split: option.splits if_splits)

lemma decisionsFor_valid: "decisionsFor sha files k f = Inr rs \<Longrightarrow> list_all decision_valid rs"
  by (auto simp: decisionsFor_def parseReviews_def parse_document_def split: option.splits if_splits)

lemma document_path_inject:
  assumes "length (sha k) = length (sha k')" and "document_path sha k f = document_path sha k' f'"
  shows "sha k = sha k' \<and> f = f'"
  using assms by (simp add: document_path_def)

definition quarantine_input_ok :: "quarantine_record \<Rightarrow> bool" where
  "quarantine_input_ok q \<longleftrightarrow> qr_claimKey q \<noteq> [] \<and> qr_reason q \<noteq> [] \<and> qr_source q \<noteq> [] \<and> qr_quarantinedAt q \<noteq> []"

lemma quarantine_effect:
  assumes "quarantine sha q files = Inr (r, files')" and "quarantine_input_ok q"
  shows "\<exists>existing. recordsFor sha files (qr_claimKey q) (qr_feature q) = Inr existing
           \<and> recordsFor sha files' (qr_claimKey q) (qr_feature q) = Inr (existing @ [r])
           \<and> latestQuarantine (existing @ [r]) = Some r"
proof -
  obtain existing where existing: "recordsFor sha files (qr_claimKey q) (qr_feature q) = Inr existing"
    and r: "r = q\<lparr>qr_quarantineRevision := nextQuarantineRevision existing,
                    qr_liftedAt := None, qr_liftedBy := None, qr_liftReason := None\<rparr>"
    and files': "files' = write_document sha (qr_claimKey q) (qr_feature q) (existing @ [r]) files"
    using assms(1) by (auto simp: quarantine_def Let_def bind_ok_Inr_iff)
  have "quarantine_valid r"
    using assms(2) quarantine_log.next_positive [of existing]
    by (simp add: r quarantine_valid_def quarantine_input_ok_def)
  with existing have "recordsFor sha files' (qr_claimKey q) (qr_feature q) = Inr (existing @ [r])"
    using assms(2) by (simp add: files' recordsFor_written recordsFor_valid quarantine_input_ok_def)
  moreover have "latestQuarantine (existing @ [r]) = Some r"
    by (rule quarantine_log.appended_is_latest) (simp_all add: r)
  ultimately show ?thesis using existing by blast
qed

lemma quarantine_elsewhere:
  assumes "quarantine sha q files = Inr (r, files')"
    and "document_path sha k f \<noteq> document_path sha (qr_claimKey q) (qr_feature q)"
  shows "recordsFor sha files' k f = recordsFor sha files k f"
  using assms by (auto simp: quarantine_def Let_def bind_ok_Inr_iff recordsFor_def parse_other)

text \<open>A quarantine takes effect at once and only where it was set. After quarantining one claim and feature, asking
  for it answers \<open>quarantined\<close> (whatever the evidence and the reviews say) with its evidence, health and trust
  dimensions as before, and every other claim key or feature is answered exactly as before, as long as the hash
  gives texts of one length and does not confuse the two keys.\<close>

theorem quarantine_is_immediate_and_narrow:
  assumes "quarantine (opt_sha opts) q (ecr_quarantines s) = Inr (r, files')" and "quarantine_input_ok q"
    and "effectiveForClaimKey opts s (qr_claimKey q) (qr_feature q) context = Inr before"
    and "\<forall>k. length (opt_sha opts k) = 64" and "opt_sha opts k = opt_sha opts (qr_claimKey q) \<longrightarrow> k = qr_claimKey q"
  shows "(\<exists>answer. effectiveForClaimKey opts (s\<lparr>ecr_quarantines := files'\<rparr>) (qr_claimKey q) (qr_feature q) context = Inr answer
            \<and> ec_effective answer = Label_quarantined \<and> ec_trust answer = ec_trust before
            \<and> ec_health answer = ec_health before \<and> ec_layers answer = ec_layers before)
       \<and> ((k, f) \<noteq> (qr_claimKey q, qr_feature q) \<longrightarrow>
            effectiveForClaimKey opts (s\<lparr>ecr_quarantines := files'\<rparr>) k f context = effectiveForClaimKey opts s k f context)"
proof -
  obtain existing where rs: "recordsFor (opt_sha opts) (ecr_quarantines s) (qr_claimKey q) (qr_feature q) = Inr existing"
    "recordsFor (opt_sha opts) files' (qr_claimKey q) (qr_feature q) = Inr (existing @ [r])"
    and latest: "latestQuarantine (existing @ [r]) = Some r"
    using quarantine_effect [OF assms(1,2)] by blast
  obtain claim decisions where load: "loadClaim (opt_sha opts) (ecr_claims s) (qr_claimKey q) = Inr claim"
    "decisionsFor (opt_sha opts) (ecr_reviews s) (qr_claimKey q) (qr_feature q) = Inr decisions"
    and before: "before = resolve_claim opts (qr_claimKey q) (qr_feature q) claim decisions existing context"
    using assms(3) rs(1) by (auto simp: effectiveForClaimKey_def bind_ok_Inr_iff)
  have "effectiveForClaimKey opts (s\<lparr>ecr_quarantines := files'\<rparr>) (qr_claimKey q) (qr_feature q) context
      = Inr (resolve_claim opts (qr_claimKey q) (qr_feature q) claim decisions (existing @ [r]) context)"
    using load rs by (simp add: effectiveForClaimKey_def)
  moreover have "ec_effective (resolve_claim opts k' f' claim decisions (existing @ [r]) context) = Label_quarantined" for k' f'
    using latest by (simp add: resolve_claim_def labelFor_def isQuarantined_def)
  moreover have "effectiveForClaimKey opts (s\<lparr>ecr_quarantines := files'\<rparr>) k f context = effectiveForClaimKey opts s k f context"
    if "(k, f) \<noteq> (qr_claimKey q, qr_feature q)"
  proof -
    have "document_path (opt_sha opts) k f \<noteq> document_path (opt_sha opts) (qr_claimKey q) (qr_feature q)"
      using document_path_inject [of "opt_sha opts" k "qr_claimKey q"] assms(4,5) that by auto
    from quarantine_elsewhere [OF assms(1) this] show ?thesis by (simp add: effectiveForClaimKey_def)
  qed
  ultimately show ?thesis
    by (auto simp: before resolve_claim_def resolveEffectiveCompatibility_def Let_def)
qed


text \<open>The sample registry the witnesses run on: one claim that passed in every layer.\<close>

definition demo_sha :: "string \<Rightarrow> string" where
  "demo_sha k = take 64 (k @ replicate 64 (CHR ''0''))"

definition demo_digest :: "evidence_artifact list \<Rightarrow> string" where
  "demo_digest rs = replicate (Suc (length rs)) (CHR ''d'')"

definition demo_policy :: compatibility_policy where
  "demo_policy = defaultCompatibilityPolicy\<lparr>supportedClientBaseline := Some ''claude-code-2.1.229'',
                                            pinnedProtocolRevision := Some ''fixtures-7''\<rparr>"

definition demo_opts :: ecr_options where
  "demo_opts = \<lparr>opt_policy = demo_policy, opt_client = Claude_code, opt_adapterForProvider = adapterIdForProvider,
                opt_now = ''2026-09-02'', opt_sha = demo_sha, opt_digest = demo_digest, opt_parse_date = (\<lambda>_. None)\<rparr>"

definition demo_passed :: claim_document where
  "demo_passed = demo_claim [demo_artifact Layer_A Passed ''2026-09-01'', demo_artifact Layer_B Passed ''2026-09-01'',
                             demo_artifact Layer_C Passed ''2026-09-01'']"

definition demo_state :: ecr_state where
  "demo_state = \<lparr>ecr_claims = [(claim_path demo_sha demo_key, Some demo_passed)], ecr_reviews = [], ecr_quarantines = []\<rparr>"

definition demo_promotion :: review_decision where
  "demo_promotion =
     \<lparr>vd_claimKey = demo_key, vd_feature = Gate_feature Gate_text, vd_decision = Promote,
      vd_evidenceRevision = evidenceRevisionFor demo_digest demo_passed, vd_reviewer = ''owner'',
      vd_source = ''rly-compat-review'', vd_reason = ''layers-a-b-c-pass-review'', vd_decidedAt = ''2026-09-02'',
      vd_decisionRevision = 0, vd_rlyBuildVersion = None\<rparr>"

definition demo_quarantine :: quarantine_record where
  "demo_quarantine =
     \<lparr>qr_claimKey = demo_key, qr_feature = Gate_feature Gate_text, qr_reason = ''strong-reproducible-failure'',
      qr_source = ''runner-fail-fast'', qr_quarantinedAt = ''2026-09-02'', qr_quarantineRevision = 0,
      qr_rlyBuildVersion = None, qr_liftedAt = None, qr_liftedBy = None, qr_liftReason = None\<rparr>"

definition demo_context :: enforcement_context where
  "demo_context = \<lparr>ctx_required = True, ctx_experimentalOverride = True\<rparr>"

definition demo_input :: resolution_input where
  "demo_input =
     \<lparr>in_claimKey = demo_key, in_feature = Gate_feature Gate_text, in_claim = Some demo_passed,
      in_decisions = [demo_promotion\<lparr>vd_decisionRevision := 1\<rparr>], in_quarantines = [], in_policy = demo_policy,
      in_required = True, in_experimentalOverride = True, in_allowQuarantineBypass = False, in_now = ''2026-09-02''\<rparr>"

lemma demo_input_trusted:
  "ec_effective (resolveEffectiveCompatibility demo_digest (\<lambda>_. None) demo_input) = Label_trusted"
  by code_simp


theorem new_evidence_revokes_trust_witness:
  "ec_effective (resolveEffectiveCompatibility demo_digest (\<lambda>_. None)
     (demo_input\<lparr>in_claim := Some (appendObservation demo_passed (demo_artifact Layer_C Passed ''2026-09-03''))\<rparr>))
     = Label_untrusted"
proof -
  let ?r = "demo_artifact Layer_C Passed ''2026-09-03''"
  have same: "demo_input\<lparr>in_claim := Some demo_passed\<rparr> = demo_input" by (simp add: demo_input_def)
  have lengths: "length (cd_records (appendObservation demo_passed ?r)) = 4 \<and> length (cd_records demo_passed) = 3"
    by code_simp
  then have new: "appendObservation demo_passed ?r \<noteq> demo_passed" by auto
  have "demo_digest (cd_records (appendObservation demo_passed ?r)) \<noteq> demo_digest (cd_records demo_passed)"
    using lengths by (simp only: demo_digest_def) simp
  from new_evidence_revokes_trust [where input = demo_input and parse_date = "\<lambda>_. None", OF _ new this]
    demo_input_trusted same show ?thesis by (simp add: Let_def)
qed

lemma demo_quarantine_runs:
  "is_ok (quarantine demo_sha demo_quarantine []) \<and> quarantine_input_ok demo_quarantine
   \<and> is_ok (effectiveForClaimKey demo_opts demo_state demo_key (Gate_feature Gate_text) demo_context)"
  by code_simp

theorem quarantine_is_immediate_and_narrow_witness:
  "\<exists>r files' answer. quarantine demo_sha demo_quarantine [] = Inr (r, files')
     \<and> effectiveForClaimKey demo_opts (demo_state\<lparr>ecr_quarantines := files'\<rparr>) demo_key (Gate_feature Gate_text) demo_context
         = Inr answer
     \<and> ec_effective answer = Label_quarantined"
proof -
  obtain r files' before where q: "quarantine demo_sha demo_quarantine [] = Inr (r, files')"
    and before: "effectiveForClaimKey demo_opts demo_state demo_key (Gate_feature Gate_text) demo_context = Inr before"
    using demo_quarantine_runs by (auto simp: is_ok_def split: sum.splits)
  have ident: "opt_sha demo_opts = demo_sha" "ecr_quarantines demo_state = []"
    "qr_claimKey demo_quarantine = demo_key" "qr_feature demo_quarantine = Gate_feature Gate_text"
    by (simp_all add: demo_opts_def demo_state_def demo_quarantine_def)
  have "\<forall>k. length (opt_sha demo_opts k) = 64" by (auto simp: ident demo_sha_def)
  with quarantine_is_immediate_and_narrow [of demo_opts demo_quarantine demo_state r files' demo_context before
      demo_key "Gate_feature Gate_text"] q before demo_quarantine_runs
  show ?thesis by (auto simp: ident)
qed

section \<open>A promotion takes effect\<close>

definition decision_input_ok :: "review_decision \<Rightarrow> bool" where
  "decision_input_ok d \<longleftrightarrow>
     vd_claimKey d \<noteq> [] \<and> vd_evidenceRevision d \<noteq> [] \<and> vd_reviewer d \<noteq> [] \<and> vd_source d \<noteq> []
     \<and> vd_reason d \<noteq> [] \<and> vd_decidedAt d \<noteq> []"

lemma addDecision_effect:
  assumes "addDecision sha d files = Inr (d', files')" and "decision_input_ok d"
  shows "\<exists>existing. decisionsFor sha files (vd_claimKey d) (vd_feature d) = Inr existing
           \<and> decisionsFor sha files' (vd_claimKey d) (vd_feature d) = Inr (existing @ [d'])
           \<and> d' = d\<lparr>vd_decisionRevision := nextDecisionRevision existing\<rparr>
           \<and> latestDecision (existing @ [d']) = Some d'"
proof -
  obtain existing where existing: "decisionsFor sha files (vd_claimKey d) (vd_feature d) = Inr existing"
    and d': "d' = d\<lparr>vd_decisionRevision := nextDecisionRevision existing\<rparr>"
    and files': "files' = write_document sha (vd_claimKey d) (vd_feature d) (existing @ [d']) files"
    using assms(1) by (auto simp: addDecision_def Let_def bind_ok_Inr_iff)
  have "decision_valid d'"
    using assms(2) decision_log.next_positive [of existing]
    by (simp add: d' decision_valid_def decision_input_ok_def)
  with existing have "decisionsFor sha files' (vd_claimKey d) (vd_feature d) = Inr (existing @ [d'])"
    using assms(2) by (simp add: files' decisionsFor_written decisionsFor_valid decision_input_ok_def)
  moreover have "latestDecision (existing @ [d']) = Some d'"
    by (rule decision_log.appended_is_latest) (simp_all add: d')
  ultimately show ?thesis using existing d' by blast
qed

text \<open>An explicit review is what establishes trust, and rejecting takes it back. After a decision on the exact
  current evidence of a claim is recorded, the registry's answer for it is \<open>trusted\<close> when the decision promotes, the
  evidence passed, nothing quarantines it and nothing is stale under the new decision; after a rejection it is never
  trusted.\<close>

theorem review_takes_effect:
  assumes "addDecision (opt_sha opts) d (ecr_reviews s) = Inr (d', files')" and "decision_input_ok d"
    and "loadClaim (opt_sha opts) (ecr_claims s) (vd_claimKey d) = Inr (Some c)"
    and "vd_evidenceRevision d = evidenceRevisionFor (opt_digest opts) c"
    and "recordsFor (opt_sha opts) (ecr_quarantines s) (vd_claimKey d) (vd_feature d) = Inr records"
    and "\<not> isQuarantined records" and "claimStatusFor c = St_passed"
  shows "\<exists>answer decisions.
           effectiveForClaimKey opts (s\<lparr>ecr_reviews := files'\<rparr>) (vd_claimKey d) (vd_feature d) context = Inr answer
           \<and> decisionsFor (opt_sha opts) files' (vd_claimKey d) (vd_feature d) = Inr decisions
           \<and> (ec_effective answer = Label_trusted \<longleftrightarrow>
                vd_decision d = Promote
                \<and> freshnessFor (opt_parse_date opts) c decisions (opt_policy opts) (opt_now opts) = None)
           \<and> (vd_decision d = Reject \<longrightarrow> ec_trust answer = Rejected \<and> ec_effective answer = Label_untrusted)"
proof -
  obtain existing where decisions: "decisionsFor (opt_sha opts) files' (vd_claimKey d) (vd_feature d) = Inr (existing @ [d'])"
    and d': "d' = d\<lparr>vd_decisionRevision := nextDecisionRevision existing\<rparr>"
    and latest: "latestDecision (existing @ [d']) = Some d'"
    using addDecision_effect [OF assms(1,2)] by blast
  have run: "effectiveForClaimKey opts (s\<lparr>ecr_reviews := files'\<rparr>) (vd_claimKey d) (vd_feature d) context
      = Inr (resolve_claim opts (vd_claimKey d) (vd_feature d) (Some c) (existing @ [d']) records context)"
    using assms(3,5) decisions by (simp add: effectiveForClaimKey_def)
  have "ec_effective (resolve_claim opts (vd_claimKey d) (vd_feature d) (Some c) (existing @ [d']) records context) = Label_trusted
      \<longleftrightarrow> vd_decision d = Promote
        \<and> freshnessFor (opt_parse_date opts) c (existing @ [d']) (opt_policy opts) (opt_now opts) = None"
    using latest assms(4,6,7) by (simp add: resolve_claim_def labelFor_trusted_iff d')
  moreover have "vd_decision d = Reject \<longrightarrow>
      ec_trust (resolve_claim opts (vd_claimKey d) (vd_feature d) (Some c) (existing @ [d']) records context) = Rejected
      \<and> ec_effective (resolve_claim opts (vd_claimKey d) (vd_feature d) (Some c) (existing @ [d']) records context) = Label_untrusted"
    using latest assms(6,7) by (simp add: resolve_claim_def trustFor_def labelFor_def Let_def d')
  ultimately show ?thesis using run decisions by blast
qed

lemma demo_review_runs:
  "is_ok (addDecision demo_sha demo_promotion []) \<and> decision_input_ok demo_promotion
   \<and> loadClaim demo_sha (ecr_claims demo_state) demo_key = Inr (Some demo_passed)
   \<and> claimStatusFor demo_passed = St_passed"
  by code_simp

theorem review_takes_effect_witness:
  "\<exists>d' files' answer. addDecision demo_sha demo_promotion [] = Inr (d', files')
     \<and> effectiveForClaimKey demo_opts (demo_state\<lparr>ecr_reviews := files'\<rparr>) demo_key (Gate_feature Gate_text) demo_context
         = Inr answer"
proof -
  obtain d' files' where add: "addDecision demo_sha demo_promotion [] = Inr (d', files')"
    using demo_review_runs by (auto simp: is_ok_def split: sum.splits)
  have ident: "opt_sha demo_opts = demo_sha" "opt_digest demo_opts = demo_digest" "ecr_reviews demo_state = []"
    "ecr_quarantines demo_state = []" "vd_claimKey demo_promotion = demo_key"
    "vd_feature demo_promotion = Gate_feature Gate_text"
    "vd_evidenceRevision demo_promotion = evidenceRevisionFor demo_digest demo_passed"
    by (simp_all add: demo_opts_def demo_state_def demo_promotion_def)
  have empty: "recordsFor demo_sha [] demo_key (Gate_feature Gate_text) = Inr []" "\<not> isQuarantined []"
    by (simp_all add: recordsFor_def parseQuarantines_def parse_document_def isQuarantined_def latestQuarantine_def)
  from review_takes_effect [of demo_opts demo_promotion demo_state d' files' demo_passed "[]" demo_context]
    add demo_review_runs empty show ?thesis by (auto simp: ident)
qed


section \<open>A model is trusted feature by feature\<close>

lemma map_ok_in:
  "map_ok f xs = Inr ys \<Longrightarrow> y \<in> set ys \<Longrightarrow> \<exists>x \<in> set xs. f x = Inr y"
  by (induction xs arbitrary: ys) (auto simp: bind_ok_Inr_iff)

lemma seed_never_trusted: "ec_effective (seedAnswer seed k f ctx) \<noteq> Label_trusted \<and> ec_trust (seedAnswer seed k f ctx) = No_trust"
  by (simp add: seedAnswer_def Let_def)

lemma model_feature_trusted:
  assumes "model_feature opts s row identity ctx f = Inr a" and "ec_effective a = Label_trusted"
  shows "\<exists>k c decisions d records. claimKeyFor identity f = Inr k \<and> loadClaim (opt_sha opts) (ecr_claims s) k = Inr (Some c)
           \<and> claimStatusFor c = St_passed
           \<and> decisionsFor (opt_sha opts) (ecr_reviews s) k f = Inr decisions \<and> latestDecision decisions = Some d
           \<and> vd_decision d = Promote \<and> vd_evidenceRevision d = evidenceRevisionFor (opt_digest opts) c
           \<and> recordsFor (opt_sha opts) (ecr_quarantines s) k f = Inr records \<and> \<not> isQuarantined records"
proof -
  obtain k claim decisions records where k: "claimKeyFor identity f = Inr k"
    and load: "loadClaim (opt_sha opts) (ecr_claims s) k = Inr claim"
      "decisionsFor (opt_sha opts) (ecr_reviews s) k f = Inr decisions"
      "recordsFor (opt_sha opts) (ecr_quarantines s) k f = Inr records"
    and a: "a = (if claim = None then seedAnswer (seedHintForModel row) k f ctx
                 else resolve_claim opts k f claim decisions records ctx)"
    using assms(1) by (auto simp: model_feature_def findEvidence_def bind_ok_Inr_iff)
  have "claim \<noteq> None" using assms(2) seed_never_trusted [of "seedHintForModel row" k f ctx] by (auto simp: a split: if_splits)
  with assms(2) a have "ec_effective (resolve_claim opts k f claim decisions records ctx) = Label_trusted" by simp
  with k load show ?thesis by (auto simp: resolve_claim_def labelFor_trusted_iff)
qed

text \<open>Whatever a registry row's static state says, a feature of a model is answered \<open>trusted\<close> only on its own exact
  claim: there is a stored claim document under the key of this client, protocol, adapter, provider, model and
  feature, it passed, the latest stored decision for that key and feature promotes exactly that evidence, and no
  stored quarantine of it is active.\<close>

theorem model_trust_needs_own_claim:
  assumes "effectiveForModel opts s row features context = Inr answers" and "(f, a) \<in> set answers"
    and "ec_effective a = Label_trusted"
  shows "\<exists>identity k c decisions d records. registry_claimIdentityFor opts row = Inr identity
           \<and> claimKeyFor identity f = Inr k \<and> loadClaim (opt_sha opts) (ecr_claims s) k = Inr (Some c)
           \<and> claimStatusFor c = St_passed
           \<and> decisionsFor (opt_sha opts) (ecr_reviews s) k f = Inr decisions \<and> latestDecision decisions = Some d
           \<and> vd_decision d = Promote \<and> vd_evidenceRevision d = evidenceRevisionFor (opt_digest opts) c
           \<and> recordsFor (opt_sha opts) (ecr_quarantines s) k f = Inr records \<and> \<not> isQuarantined records"
proof -
  obtain identity where identity: "registry_claimIdentityFor opts row = Inr identity"
    and answers: "map_ok (\<lambda>f. bind_ok (model_feature opts s row identity context f) (\<lambda>answer. Inr (f, answer))) features = Inr answers"
    using assms(1) by (auto simp: effectiveForModel_def bind_ok_Inr_iff)
  have "model_feature opts s row identity context f = Inr a"
    using map_ok_in [OF answers assms(2)] by (auto simp: bind_ok_Inr_iff)
  from model_feature_trusted [OF this assms(3)] identity show ?thesis by blast
qed

definition demo_row :: model_evidence where
  "demo_row = shipped ''codex'' ''gpt-5.4'' ''openai/codex'' ''2026-08-14'' ''codex-oauth-chat-v1'' conservativeCapabilities CODEX_E2E_REF"

definition demo_reviewed_state :: ecr_state where
  "demo_reviewed_state = demo_state\<lparr>ecr_reviews :=
     (case addDecision demo_sha demo_promotion [] of Inl _ \<Rightarrow> [] | Inr (_, files) \<Rightarrow> files)\<rparr>"

lemma demo_model_answers:
  "(case effectiveForModel demo_opts demo_reviewed_state demo_row [Gate_feature Gate_text] demo_context of
      Inl _ \<Rightarrow> [] | Inr answers \<Rightarrow> map (\<lambda>(f, a). (f, ec_effective a)) answers) = [(Gate_feature Gate_text, Label_trusted)]"
  by code_simp

theorem model_trust_needs_own_claim_witness:
  "\<exists>identity k c. registry_claimIdentityFor demo_opts demo_row = Inr identity
     \<and> claimKeyFor identity (Gate_feature Gate_text) = Inr k \<and> loadClaim demo_sha (ecr_claims demo_state) k = Inr (Some c)
     \<and> claimStatusFor c = St_passed"
proof -
  obtain a where run: "effectiveForModel demo_opts demo_reviewed_state demo_row [Gate_feature Gate_text] demo_context
      = Inr [(Gate_feature Gate_text, a)]" and trusted: "ec_effective a = Label_trusted"
    using demo_model_answers by (auto split: sum.splits)
  have ident: "opt_sha demo_opts = demo_sha" "ecr_claims demo_reviewed_state = ecr_claims demo_state"
    by (simp_all add: demo_opts_def demo_reviewed_state_def)
  from model_trust_needs_own_claim [OF run _ trusted] show ?thesis
    by (force simp: ident)
qed

section \<open>Two gaps of the quarantine\<close>

text \<open>
  A model without a claim document is answered from its seed, and the quarantine records
  read for it are dropped: with the experimental override the quarantined path is let
  through, although the documented precedence puts an active quarantine first, as
  \<open>effectiveForClaimKey\<close> does on the same state.
\<close>

definition demo_quarantined_state :: ecr_state where
  "demo_quarantined_state = \<lparr>ecr_claims = [], ecr_reviews = [], ecr_quarantines =
     (case quarantine demo_sha demo_quarantine [] of Inl _ \<Rightarrow> [] | Inr (_, files) \<Rightarrow> files)\<rparr>"

lemma seed_ignores_quarantine:
  "(case effectiveForModel demo_opts demo_quarantined_state demo_row [Gate_feature Gate_text] demo_context of
      Inr [(_, a)] \<Rightarrow> (ec_effective a, ec_enforcement a) = (Label_experimental, Experimental_override) | _ \<Rightarrow> False)"
  by code_simp

lemma claim_key_sees_quarantine:
  "(case effectiveForClaimKey demo_opts demo_quarantined_state demo_key (Gate_feature Gate_text) demo_context of
      Inr a \<Rightarrow> (ec_effective a, ec_enforcement a) = (Label_quarantined, Blocked) | _ \<Rightarrow> False)"
  by code_simp

text \<open>Lifting ends only the latest active quarantine: with two recorded, the claim stays quarantined.\<close>

lemma lift_leaves_older_active:
  "(case bind_ok (quarantine demo_sha demo_quarantine []) (\<lambda>(_, files).
         bind_ok (quarantine demo_sha demo_quarantine files) (\<lambda>(_, files).
         bind_ok (lift demo_sha ''2026-09-03'' demo_key (Gate_feature Gate_text) ''owner'' ''fixed'' files) (\<lambda>(_, files).
           recordsFor demo_sha files demo_key (Gate_feature Gate_text)))) of
      Inr records \<Rightarrow> isQuarantined records \<and> length records = 2 | Inl _ \<Rightarrow> False)"
  by code_simp


section \<open>Histories\<close>

definition history_wf :: "('r \<Rightarrow> int) \<Rightarrow> 'r list \<Rightarrow> bool" where
  "history_wf rev_of rs \<longleftrightarrow> map rev_of rs = map int [1..<Suc (length rs)]"

definition histories_wf :: "('r \<Rightarrow> int) \<Rightarrow> 'r compat_files \<Rightarrow> bool" where
  "histories_wf rev_of files \<longleftrightarrow> (\<forall>nm doc. map_of files nm = Some (Some doc) \<longrightarrow> history_wf rev_of (doc_entries doc))"

lemma max_rev_map: "max_rev f xs = foldl max 0 (map f xs)"
  by (simp add: max_rev_def foldl_map)

lemma history_max: "history_wf rev_of rs \<Longrightarrow> max_rev rev_of rs = int (length rs)"
proof -
  have "foldl max 0 (map int [1..<Suc n]) = int n" for n
    by (induction n) (simp_all add: max_def)
  then show "history_wf rev_of rs \<Longrightarrow> ?thesis"
    by (simp only: history_wf_def max_rev_map)
qed

lemma history_snoc: "history_wf rev_of rs \<Longrightarrow> rev_of r = max_rev rev_of rs + 1 \<Longrightarrow> history_wf rev_of (rs @ [r])"
  by (simp add: history_max) (simp add: history_wf_def)

lemma histories_update:
  "histories_wf rev_of files \<Longrightarrow> history_wf rev_of rs \<Longrightarrow> histories_wf rev_of (write_document sha k f rs files)"
  by (auto simp: histories_wf_def write_document_def update_conv')

lemma parse_document_history:
  "parse_document valid e (map_of files nm) = Inr rs \<Longrightarrow> histories_wf rev_of files \<Longrightarrow> history_wf rev_of rs"
  by (auto simp: parse_document_def histories_wf_def history_wf_def split: option.splits if_splits)

lemma recordsFor_history:
  "recordsFor sha files k f = Inr rs \<Longrightarrow> histories_wf qr_quarantineRevision files \<Longrightarrow> history_wf qr_quarantineRevision rs"
  unfolding recordsFor_def parseQuarantines_def by (rule parse_document_history)

lemma decisionsFor_history:
  "decisionsFor sha files k f = Inr rs \<Longrightarrow> histories_wf vd_decisionRevision files \<Longrightarrow> history_wf vd_decisionRevision rs"
  unfolding decisionsFor_def parseReviews_def by (rule parse_document_history)

lemma lift_record_rev [simp]: "qr_quarantineRevision (lift_record now lifter why q) = qr_quarantineRevision q"
  by (simp add: lift_record_def)

lemma lift_entries_revs:
  "map qr_quarantineRevision (lift_entries active (lift_record now lifter why active) rs) = map qr_quarantineRevision rs"
  by (simp add: lift_entries_def)

lemma lift_entries_length [simp]: "length (lift_entries active lifted rs) = length rs"
  by (simp add: lift_entries_def)

lemma quarantine_history:
  "histories_wf qr_quarantineRevision files \<Longrightarrow> quarantine sha q files = Inr (r, files') \<Longrightarrow>
     histories_wf qr_quarantineRevision files'"
  by (auto simp: quarantine_def Let_def bind_ok_Inr_iff nextQuarantineRevision_def
        intro!: histories_update history_snoc dest: recordsFor_history)

lemma lift_history:
  "histories_wf qr_quarantineRevision files \<Longrightarrow> lift sha now k f lifter why files = Inr (r, files') \<Longrightarrow>
     histories_wf qr_quarantineRevision files'"
proof -
  assume wf: "histories_wf qr_quarantineRevision files" and run: "lift sha now k f lifter why files = Inr (r, files')"
  then obtain existing active where existing: "recordsFor sha files k f = Inr existing"
    and files': "files' = write_document sha k f (lift_entries active (lift_record now lifter why active) existing) files"
    by (auto simp: lift_def bind_ok_Inr_iff split: option.splits)
  have "history_wf qr_quarantineRevision existing" using existing wf by (rule recordsFor_history)
  then have "history_wf qr_quarantineRevision (lift_entries active (lift_record now lifter why active) existing)"
    by (simp add: history_wf_def lift_entries_revs)
  with wf show ?thesis unfolding files' by (rule histories_update)
qed

lemma addDecision_history:
  "histories_wf vd_decisionRevision files \<Longrightarrow> addDecision sha d files = Inr (d', files') \<Longrightarrow>
     histories_wf vd_decisionRevision files'"
  by (auto simp: addDecision_def Let_def bind_ok_Inr_iff nextDecisionRevision_def
        intro!: histories_update history_snoc dest: decisionsFor_history)

text \<open>The two logs as one machine: every way its documents change is a step.\<close>

datatype log_op =
    Add_decision review_decision
  | Add_quarantine quarantine_record
  | Lift_quarantine string string claim_feature string string

fun run_log_op :: "(string \<Rightarrow> string) \<Rightarrow> log_op \<Rightarrow> ecr_state \<Rightarrow> string + ecr_state" where
  "run_log_op sha (Add_decision d) s =
     bind_ok (addDecision sha d (ecr_reviews s)) (\<lambda>(_, files). Inr (s\<lparr>ecr_reviews := files\<rparr>))"
| "run_log_op sha (Add_quarantine q) s =
     bind_ok (quarantine sha q (ecr_quarantines s)) (\<lambda>(_, files). Inr (s\<lparr>ecr_quarantines := files\<rparr>))"
| "run_log_op sha (Lift_quarantine now k f lifter why) s =
     bind_ok (lift sha now k f lifter why (ecr_quarantines s)) (\<lambda>(_, files). Inr (s\<lparr>ecr_quarantines := files\<rparr>))"

inductive log_reachable :: "(string \<Rightarrow> string) \<Rightarrow> ecr_state \<Rightarrow> bool" for sha where
  log_init: "ecr_reviews s = [] \<Longrightarrow> ecr_quarantines s = [] \<Longrightarrow> log_reachable sha s"
| log_step: "log_reachable sha s \<Longrightarrow> run_log_op sha op s = Inr s' \<Longrightarrow> log_reachable sha s'"

lemma log_reachable_wf:
  "log_reachable sha s \<Longrightarrow>
     histories_wf vd_decisionRevision (ecr_reviews s) \<and> histories_wf qr_quarantineRevision (ecr_quarantines s)"
proof (induction rule: log_reachable.induct)
  case (log_init s)
  then show ?case by (simp add: histories_wf_def)
next
  case (log_step s op s')
  then show ?case
    by (cases op) (auto simp: bind_ok_Inr_iff intro: addDecision_history quarantine_history lift_history)
qed

text \<open>In every state the two stores reach from empty directories by recording decisions, quarantining and lifting,
  the decisions read for a claim and feature have exactly the revisions 1, 2, 3, ... in order, and so have the
  quarantine records: no operation skips, repeats or reorders a revision, and the next one is the length plus one.\<close>

theorem histories_are_consecutive:
  assumes "log_reachable sha s"
    and "decisionsFor sha (ecr_reviews s) k f = Inr decisions" and "recordsFor sha (ecr_quarantines s) k f = Inr records"
  shows "map vd_decisionRevision decisions = map int [1..<Suc (length decisions)]
       \<and> nextDecisionRevision decisions = int (length decisions) + 1
       \<and> map qr_quarantineRevision records = map int [1..<Suc (length records)]
       \<and> nextQuarantineRevision records = int (length records) + 1"
proof -
  have d: "history_wf vd_decisionRevision decisions" and q: "history_wf qr_quarantineRevision records"
    using log_reachable_wf [OF assms(1)] decisionsFor_history [OF assms(2)] recordsFor_history [OF assms(3)] by blast+
  have "nextDecisionRevision decisions = int (length decisions) + 1"
    "nextQuarantineRevision records = int (length records) + 1"
    using history_max [OF d] history_max [OF q] by (simp_all add: nextDecisionRevision_def nextQuarantineRevision_def)
  with d q show ?thesis unfolding history_wf_def by blast
qed

lemma demo_reviewed_reads:
  "(case decisionsFor demo_sha (ecr_reviews demo_reviewed_state) demo_key (Gate_feature Gate_text) of
      Inl _ \<Rightarrow> 0 | Inr decisions \<Rightarrow> length decisions) = 1
   \<and> is_ok (addDecision demo_sha demo_promotion [])"
  by code_simp

theorem histories_are_consecutive_witness:
  "\<exists>decisions. decisionsFor demo_sha (ecr_reviews demo_reviewed_state) demo_key (Gate_feature Gate_text) = Inr decisions
     \<and> map vd_decisionRevision decisions = [1]"
proof -
  obtain decisions where reads: "decisionsFor demo_sha (ecr_reviews demo_reviewed_state) demo_key (Gate_feature Gate_text)
      = Inr decisions" and one: "length decisions = 1"
    using demo_reviewed_reads by (auto split: sum.splits)
  have init: "log_reachable demo_sha demo_state"
    by (rule log_init) (simp_all add: demo_state_def)
  have "run_log_op demo_sha (Add_decision demo_promotion) demo_state = Inr demo_reviewed_state"
    using demo_reviewed_reads
    by (cases "addDecision demo_sha demo_promotion []")
       (auto simp: demo_reviewed_state_def demo_state_def is_ok_def)
  with init have reach: "log_reachable demo_sha demo_reviewed_state" by (rule log_step)
  have records: "recordsFor demo_sha (ecr_quarantines demo_reviewed_state) demo_key (Gate_feature Gate_text) = Inr []"
    by (simp add: demo_reviewed_state_def demo_state_def recordsFor_def parseQuarantines_def parse_document_def)
  from histories_are_consecutive [OF reach reads records] reads one show ?thesis by (simp add: upt_rec)
qed

end
