(* ===== verification/Model_Selection.thy ===== *)
theory Model_Selection
  imports Compatibility
begin

text \<open>
  Model selection: \<^verbatim>\<open>src/routing/model-selection/\<close> (\<^verbatim>\<open>types.ts\<close>, \<^verbatim>\<open>errors.ts\<close>,
  \<^verbatim>\<open>selector.ts\<close>), the choice of one reviewed model for a request before any account.

  A \<open>Map\<close> of effective answers is an association list with distinct keys. The check that a
  trace has no secret key is left out: the keys of a trace are fixed and none is on the list.
  A \<open>ModelSelectionError\<close> is its code and its message.
\<close>

section \<open>Types\<close>

type_synonym effective_snapshot = "(string \<times> (claim_feature \<times> effective_compatibility) list) list"

record model_selection_input =
  ms_accessProviderId :: string
  ms_preferredFamily :: "string option"
  ms_exactModelId :: "string option"
  ms_requiredCapabilities :: "capability_requirement list"
  ms_reasoning :: "reasoning_requirement option"
  ms_allowExperimental :: bool

record model_candidate_assessment =
  mc_logicalId :: string
  mc_accessProviderId :: string
  mc_modelId :: string
  mc_modelFamily :: "string option"
  mc_compatibilityState :: compatibility_state
  mc_capabilityPass :: bool
  mc_missingCapabilities :: "capability_requirement list option"
  mc_reasoningPass :: bool
  mc_reasoningFailure :: "string option"
  mc_compatibilityPass :: bool
  mc_compatibilityFailure :: "string option"
  mc_authority_ecr :: bool
  mc_effectiveLabel :: "effective_label option"
  mc_enforcementReason :: "string option"
  mc_selected :: bool

record model_selection_trace =
  mt_exact :: bool
  mt_selectedLogicalId :: string
  mt_reason :: string
  mt_candidates :: "model_candidate_assessment list"

record model_selection_result =
  mr_model :: model_evidence
  mr_decision :: model_selection_trace

datatype model_selection_failure =
    Unknown_exact_model | No_trusted_evidence | Capability_unsupported | Reasoning_unsupported
  | Reasoning_translation_unsupported | Reasoning_budget_policy_missing | Compatibility_rejected
  | No_eligible_candidate

fun model_failure_code :: "model_selection_failure \<Rightarrow> string" where
  "model_failure_code Unknown_exact_model = ''unknown-exact-model''"
| "model_failure_code No_trusted_evidence = ''no-trusted-evidence''"
| "model_failure_code Capability_unsupported = ''capability-unsupported''"
| "model_failure_code Reasoning_unsupported = ''reasoning-unsupported''"
| "model_failure_code Reasoning_translation_unsupported = ''reasoning-translation-unsupported''"
| "model_failure_code Reasoning_budget_policy_missing = ''reasoning-budget-policy-missing''"
| "model_failure_code Compatibility_rejected = ''compatibility-rejected''"
| "model_failure_code No_eligible_candidate = ''no-eligible-candidate''"

type_synonym model_selection_error = "model_selection_failure \<times> string"

definition model_selection_error_of :: "model_selection_failure \<Rightarrow> string option \<Rightarrow> model_selection_error" where
  "model_selection_error_of code message =
     (code, get_or (''Model selection failed: '' @ model_failure_code code) message)"

section \<open>Assessment of one candidate\<close>

definition reasoningFailure :: "reasoning_requirement \<Rightarrow> model_evidence \<Rightarrow> string option" where
  "reasoningFailure reasoning model =
     (if rq_required reasoning \<and> \<not> supported (me_reasoning model) then Some ''reasoning-not-supported''
      else if rq_withTools reasoning \<and> \<not> reasoningWithTools (me_reasoning model)
      then Some ''reasoning-with-tools-not-supported''
      else None)"

definition compatibilityFailure :: "model_evidence \<Rightarrow> bool \<Rightarrow> bool \<Rightarrow> string option" where
  "compatibilityFailure model exact allowExperimental =
     (case ce_state (me_compatibility model) of
        BROKEN \<Rightarrow> Some ''broken''
      | EXPERIMENTAL \<Rightarrow> if exact \<or> allowExperimental then None else Some ''experimental''
      | VERIFIED \<Rightarrow> None)"

record effective_failure =
  ef_failure :: "string option"
  ef_effectiveLabel :: "effective_label option"
  ef_enforcementReason :: "string option"

fun feature_scan ::
  "(effective_compatibility \<Rightarrow> bool) \<Rightarrow> (claim_feature \<Rightarrow> effective_compatibility option) \<Rightarrow> claim_feature list
     \<Rightarrow> effective_compatibility option \<times> effective_compatibility option \<times> bool
     \<Rightarrow> effective_compatibility option \<times> effective_compatibility option \<times> bool" where
  "feature_scan is_blocked answers [] acc = acc"
| "feature_scan is_blocked answers (feature # features) (worst, blocked, missingRequired) =
     (case answers feature of
        None \<Rightarrow> feature_scan is_blocked answers features (worst, blocked, True)
      | Some result \<Rightarrow>
          feature_scan is_blocked answers features
            (or_else worst (Some result),
             if is_blocked result \<and> blocked = None then Some result else blocked,
             missingRequired))"

definition effectiveCompatibilityFailure ::
  "model_evidence \<Rightarrow> model_selection_input \<Rightarrow> bool \<Rightarrow> effective_snapshot \<Rightarrow> bool \<Rightarrow> effective_failure" where
  "effectiveCompatibilityFailure model input exact effective allowBypass =
     (let features = requiredFeaturesForCapabilities (ms_requiredCapabilities input) (ms_reasoning input);
          answers = get_or [] (map_of effective (me_logicalId model));
          enforce = (\<lambda>label. enforceEffective label True (ms_allowExperimental input \<or> exact) allowBypass)
      in if answers = [] then
           \<lparr>ef_failure = compatibilityFailure model exact (ms_allowExperimental input), ef_effectiveLabel = None,
            ef_enforcementReason = None\<rparr>
         else
           (case feature_scan (\<lambda>r. fst (enforce (ec_effective r)) = Blocked) (map_of answers) features (None, None, False) of
              (worst, blocked, missingRequired) \<Rightarrow>
                if missingRequired then
                  \<lparr>ef_failure = Some ''experimental'', ef_effectiveLabel = None,
                   ef_enforcementReason = Some ''missing-ecr-data-for-required-feature''\<rparr>
                else case blocked of
                  Some b \<Rightarrow>
                    \<lparr>ef_failure = Some (if ec_effective b = Label_quarantined then ''broken'' else ''experimental''),
                     ef_effectiveLabel = Some (ec_effective b),
                     ef_enforcementReason = Some (get_or ''blocked-required-feature'' (snd (enforce (ec_effective b))))\<rparr>
                | None \<Rightarrow>
                    \<lparr>ef_failure = None, ef_effectiveLabel = map_option ec_effective worst,
                     ef_enforcementReason =
                       (case worst of
                          None \<Rightarrow> None
                        | Some w \<Rightarrow>
                            if fst (enforce (ec_effective w)) = Quarantine_bypass
                               \<or> fst (enforce (ec_effective w)) = Experimental_override
                            then snd (enforce (ec_effective w)) else None)\<rparr>))"

definition assess ::
  "model_selection_input \<Rightarrow> bool \<Rightarrow> effective_snapshot option \<Rightarrow> bool \<Rightarrow> model_evidence \<Rightarrow> model_candidate_assessment" where
  "assess input exact effective allowBypass model =
     (let missing = missingCapabilities (me_capabilities model) (ms_requiredCapabilities input);
          reasoning = get_or \<lparr>rq_required = False, rq_withTools = False\<rparr> (ms_reasoning input);
          reasoningFail = reasoningFailure reasoning model;
          ecr = map_option (\<lambda>e. effectiveCompatibilityFailure model input exact e allowBypass) effective;
          compatFail = or_else (Option.bind ecr ef_failure)
                         (if effective = None then compatibilityFailure model exact (ms_allowExperimental input) else None)
      in \<lparr>mc_logicalId = me_logicalId model, mc_accessProviderId = mi_accessProviderId (me_identity model),
          mc_modelId = mi_upstreamModelId (me_identity model), mc_modelFamily = mi_modelFamily (me_identity model),
          mc_compatibilityState = ce_state (me_compatibility model), mc_capabilityPass = (missing = []),
          mc_missingCapabilities = (if missing = [] then None else Some missing),
          mc_reasoningPass = (reasoningFail = None), mc_reasoningFailure = reasoningFail,
          mc_compatibilityPass = (compatFail = None), mc_compatibilityFailure = compatFail,
          mc_authority_ecr = (case effective of None \<Rightarrow> False | Some e \<Rightarrow> map_of e (me_logicalId model) \<noteq> None),
          mc_effectiveLabel = Option.bind ecr ef_effectiveLabel,
          mc_enforcementReason = Option.bind ecr ef_enforcementReason, mc_selected = False\<rparr>)"

fun failureFor :: "model_candidate_assessment list \<Rightarrow> model_selection_failure" where
  "failureFor [] = No_eligible_candidate"
| "failureFor (a # rest) =
     (if get_or [] (mc_missingCapabilities a) \<noteq> [] then Capability_unsupported
      else if mc_reasoningFailure a \<noteq> None then Reasoning_unsupported
      else if mc_compatibilityFailure a \<noteq> None then Compatibility_rejected
      else failureFor rest)"

section \<open>Selection\<close>

definition selection_candidates ::
  "model_selection_input \<Rightarrow> registry_document \<Rightarrow> model_selection_error + model_evidence list" where
  "selection_candidates input registry =
     (case ms_exactModelId input of
        Some exactModelId \<Rightarrow>
          (case findModelEvidence registry (ms_accessProviderId input) exactModelId of
             None \<Rightarrow> Inl (Unknown_exact_model,
                      ''No trusted evidence for '' @ ms_accessProviderId input @ ''/'' @ exactModelId)
           | Some evidence \<Rightarrow> Inr [evidence])
      | None \<Rightarrow>
          (let providerModels = modelsForProvider registry (ms_accessProviderId input)
           in if providerModels = [] then
                Inl (No_trusted_evidence,
                     ''No trusted model evidence for access provider '' @ ms_accessProviderId input)
              else case ms_preferredFamily input of
                     None \<Rightarrow> Inr providerModels
                   | Some family \<Rightarrow>
                       (let familyModels = filter (\<lambda>m. mi_modelFamily (me_identity m) = Some family) providerModels
                        in if familyModels = [] then
                             Inl (No_eligible_candidate,
                                  ''No '' @ family @ '' family candidate for access provider '' @ ms_accessProviderId input)
                           else Inr familyModels)))"

definition assessment_passes :: "model_candidate_assessment \<Rightarrow> bool" where
  "assessment_passes a \<longleftrightarrow> mc_capabilityPass a \<and> mc_reasoningPass a \<and> mc_compatibilityPass a"

definition selectModel ::
  "model_selection_input \<Rightarrow> registry_document \<Rightarrow> effective_snapshot option \<Rightarrow> bool
     \<Rightarrow> model_selection_error + model_selection_result" where
  "selectModel input registry effective allowBypass =
     bind_ok (selection_candidates input registry) (\<lambda>candidates.
       let exact = (ms_exactModelId input \<noteq> None);
           assessments = map (assess input exact effective allowBypass) candidates
       in case filter assessment_passes assessments of
            [] \<Rightarrow> Inl (model_selection_error_of (failureFor assessments) None)
          | e # _ \<Rightarrow>
              (case List.find (\<lambda>m. me_logicalId m = mc_logicalId e) candidates of
                 None \<Rightarrow> Inl (model_selection_error_of No_eligible_candidate None)
               | Some selected \<Rightarrow>
                   Inr \<lparr>mr_model = selected,
                        mr_decision =
                          \<lparr>mt_exact = exact, mt_selectedLogicalId = me_logicalId selected,
                           mt_reason =
                             (if exact then ''exact-evidence''
                              else if ms_preferredFamily input = None then ''capability-and-compatibility-match''
                              else ''family-capability-and-compatibility-match''),
                           mt_candidates =
                             map (\<lambda>a. if mc_logicalId a = me_logicalId selected then a\<lparr>mc_selected := True\<rparr> else a)
                               assessments\<rparr>\<rparr>))"

section \<open>What a selected model satisfies\<close>

text \<open>The conditions of eligibility, stated on the model and the request alone.\<close>

definition reasoning_served :: "model_selection_input \<Rightarrow> model_evidence \<Rightarrow> bool" where
  "reasoning_served input model \<longleftrightarrow>
     (case ms_reasoning input of None \<Rightarrow> True
      | Some r \<Rightarrow> (rq_required r \<longrightarrow> supported (me_reasoning model))
                 \<and> (rq_withTools r \<longrightarrow> reasoningWithTools (me_reasoning model)))"

definition state_accepted :: "model_selection_input \<Rightarrow> model_evidence \<Rightarrow> bool" where
  "state_accepted input model \<longleftrightarrow>
     ce_state (me_compatibility model) = VERIFIED
     \<or> ce_state (me_compatibility model) = EXPERIMENTAL \<and> (ms_exactModelId input \<noteq> None \<or> ms_allowExperimental input)"

definition answers_accepted ::
  "model_selection_input \<Rightarrow> bool \<Rightarrow> (claim_feature \<times> effective_compatibility) list \<Rightarrow> bool" where
  "answers_accepted input allowBypass answers \<longleftrightarrow>
     (\<forall>f \<in> set (requiredFeaturesForCapabilities (ms_requiredCapabilities input) (ms_reasoning input)).
        case map_of answers f of None \<Rightarrow> False
        | Some a \<Rightarrow> ec_effective a = Label_trusted
            \<or> ec_effective a \<in> {Label_experimental, Label_stale} \<and> (ms_allowExperimental input \<or> ms_exactModelId input \<noteq> None)
            \<or> ec_effective a = Label_quarantined \<and> allowBypass)"

definition may_select :: "model_selection_input \<Rightarrow> effective_snapshot option \<Rightarrow> bool \<Rightarrow> model_evidence \<Rightarrow> bool" where
  "may_select input effective allowBypass model \<longleftrightarrow>
     missingCapabilities (me_capabilities model) (ms_requiredCapabilities input) = [] \<and> reasoning_served input model
     \<and> (let answers = (case effective of None \<Rightarrow> [] | Some e \<Rightarrow> get_or [] (map_of e (me_logicalId model)))
        in if answers = [] then state_accepted input model else answers_accepted input allowBypass answers)"

lemma feature_scan_spec:
  "feature_scan is_blocked answers features (w, b, m) = (w', b', m') \<Longrightarrow>
     (m' \<longleftrightarrow> m \<or> (\<exists>f \<in> set features. answers f = None))
     \<and> (b' = None \<longleftrightarrow> b = None \<and> (\<forall>f \<in> set features. \<forall>r. answers f = Some r \<longrightarrow> \<not> is_blocked r))"
proof (induction features arbitrary: w b m)
  case (Cons f features)
  then show ?case by (cases "answers f") (fastforce split: if_splits)+
qed simp

lemma blocked_iff:
  "fst (enforceEffective label True override bypass) \<noteq> Blocked \<longleftrightarrow>
     label = Label_trusted \<or> label \<in> {Label_experimental, Label_stale} \<and> override \<or> label = Label_quarantined \<and> bypass"
  by (cases label) (simp_all add: enforceEffective_def)


lemma snd_enforce_blocked:
  "fst (enforceEffective label True override bypass) = Blocked \<longleftrightarrow>
     \<not> (label = Label_trusted \<or> label \<in> {Label_experimental, Label_stale} \<and> override \<or> label = Label_quarantined \<and> bypass)"
  using blocked_iff [of label override bypass] by blast

lemma state_accepted_iff:
  "compatibilityFailure model (ms_exactModelId input \<noteq> None) (ms_allowExperimental input) = None
     \<longleftrightarrow> state_accepted input model"
  by (auto simp: compatibilityFailure_def state_accepted_def split: compatibility_state.splits)

lemma effective_failure_iff:
  assumes "get_or [] (map_of effective (me_logicalId model)) \<noteq> []"
  shows "ef_failure (effectiveCompatibilityFailure model input (ms_exactModelId input \<noteq> None) effective bypass) = None
     \<longleftrightarrow> answers_accepted input bypass (get_or [] (map_of effective (me_logicalId model)))"
proof -
  let ?answers = "get_or [] (map_of effective (me_logicalId model))"
  let ?features = "requiredFeaturesForCapabilities (ms_requiredCapabilities input) (ms_reasoning input)"
  let ?blocked = "\<lambda>r. fst (enforceEffective (ec_effective r) True
                       (ms_allowExperimental input \<or> ms_exactModelId input \<noteq> None) bypass) = Blocked"
  obtain w b m where scan: "feature_scan ?blocked (map_of ?answers) ?features (None, None, False) = (w, b, m)"
    by (metis prod_cases3)
  have "m \<longleftrightarrow> (\<exists>f \<in> set ?features. map_of ?answers f = None)"
    and "b = None \<longleftrightarrow> (\<forall>f \<in> set ?features. \<forall>r. map_of ?answers f = Some r \<longrightarrow> \<not> ?blocked r)"
    using feature_scan_spec [OF scan] by simp_all
  moreover have "ef_failure (effectiveCompatibilityFailure model input (ms_exactModelId input \<noteq> None) effective bypass) = None
      \<longleftrightarrow> \<not> m \<and> b = None"
    using assms scan by (simp add: effectiveCompatibilityFailure_def Let_def split: option.splits)
  ultimately show ?thesis
    unfolding answers_accepted_def snd_enforce_blocked by (fastforce split: option.splits)
qed

lemma assessment_passes_iff:
  "assessment_passes (assess input (ms_exactModelId input \<noteq> None) effective bypass model)
     \<longleftrightarrow> may_select input effective bypass model"
proof -
  let ?a = "assess input (ms_exactModelId input \<noteq> None) effective bypass model"
  have reasoning: "mc_reasoningPass ?a \<longleftrightarrow> reasoning_served input model"
    by (cases "ms_reasoning input") (auto simp: assess_def Let_def reasoningFailure_def reasoning_served_def)
  have capability: "mc_capabilityPass ?a
      \<longleftrightarrow> missingCapabilities (me_capabilities model) (ms_requiredCapabilities input) = []"
    by (simp add: assess_def Let_def)
  have compat: "mc_compatibilityPass ?a \<longleftrightarrow>
      (let answers = (case effective of None \<Rightarrow> [] | Some e \<Rightarrow> get_or [] (map_of e (me_logicalId model)))
       in if answers = [] then state_accepted input model else answers_accepted input bypass answers)"
  proof (cases effective)
    case None
    then show ?thesis by (simp del: not_None_eq add: assess_def Let_def state_accepted_iff)
  next
    case (Some e)
    show ?thesis
    proof (cases "get_or [] (map_of e (me_logicalId model)) = []")
      case True
      with Some show ?thesis
        by (simp del: not_None_eq add: assess_def Let_def effectiveCompatibilityFailure_def state_accepted_iff)
    next
      case False
      with Some effective_failure_iff [OF False] show ?thesis by (simp add: assess_def Let_def)
    qed
  qed
  show ?thesis
    unfolding assessment_passes_def may_select_def reasoning capability compat by blast
qed

lemma assess_logicalId [simp]: "mc_logicalId (assess input exact effective bypass model) = me_logicalId model"
  by (simp add: assess_def Let_def)

lemma assess_unselected [simp]: "\<not> mc_selected (assess input exact effective bypass model)"
  by (simp add: assess_def Let_def)

section \<open>Selection against its reference\<close>

text \<open>The rows a request ranges over, in the document's order.\<close>

definition selection_domain :: "registry_document \<Rightarrow> model_selection_input \<Rightarrow> model_evidence list" where
  "selection_domain registry input =
     filter (\<lambda>m. mi_accessProviderId (me_identity m) = ms_accessProviderId input
        \<and> (case ms_exactModelId input of
              Some exactModelId \<Rightarrow> mi_upstreamModelId (me_identity m) = exactModelId
            | None \<Rightarrow> (case ms_preferredFamily input of None \<Rightarrow> True
                      | Some family \<Rightarrow> mi_modelFamily (me_identity m) = Some family)))
       (registry_models registry)"

lemma filter_unique:
  assumes "distinct xs" and "x \<in> set xs" and "P x" and "\<And>y. y \<in> set xs \<Longrightarrow> P y \<Longrightarrow> y = x"
  shows "filter P xs = [x]"
proof -
  have members: "set (filter P xs) = {x}" unfolding set_filter using assms(2-4) by blast
  have "distinct (filter P xs)" using assms(1) by (rule distinct_filter)
  with members show ?thesis
  proof (cases "filter P xs")
    case (Cons y ys)
    with members have "y = x" and "set ys \<subseteq> {x}" by auto
    moreover have "x \<notin> set ys" using \<open>distinct (filter P xs)\<close> Cons \<open>y = x\<close> by auto
    ultimately have "ys = []" by (cases ys) auto
    with Cons \<open>y = x\<close> show ?thesis by simp
  qed simp
qed

lemma selection_candidates_domain:
  assumes wf: "registry_wf registry" and slash: "CHR ''/'' \<notin> set (ms_accessProviderId input)"
  shows "(case selection_candidates input registry of Inl _ \<Rightarrow> [] | Inr cs \<Rightarrow> cs) = selection_domain registry input"
proof (cases "ms_exactModelId input")
  case None
  show ?thesis
  proof (cases "ms_preferredFamily input")
    case (Some family)
    have "filter (\<lambda>m. mi_modelFamily (me_identity m) = Some family) (modelsForProvider registry (ms_accessProviderId input))
        = selection_domain registry input"
      using None Some by (simp add: modelsForProvider_def selection_domain_def conj_commute)
    moreover have "modelsForProvider registry (ms_accessProviderId input) = [] \<Longrightarrow> selection_domain registry input = []"
      by (auto simp: modelsForProvider_def selection_domain_def filter_empty_conv)
    ultimately show ?thesis
      using None Some by (auto simp: selection_candidates_def Let_def)
  qed (use None in \<open>auto simp: selection_candidates_def modelsForProvider_def selection_domain_def Let_def\<close>)
next
  case (Some exactModelId)
  let ?P = "\<lambda>m. mi_accessProviderId (me_identity m) = ms_accessProviderId input
              \<and> mi_upstreamModelId (me_identity m) = exactModelId"
  have domain: "selection_domain registry input = filter ?P (registry_models registry)"
    using Some by (simp add: selection_domain_def)
  note found = findModelEvidence_iff [OF wf slash, of exactModelId]
  show ?thesis
  proof (cases "findModelEvidence registry (ms_accessProviderId input) exactModelId")
    case None
    with found have "filter ?P (registry_models registry) = []" by (auto simp: filter_empty_conv)
    with None Some domain show ?thesis by (simp add: selection_candidates_def)
  next
    case (Some e)
    have e: "e \<in> set (registry_models registry)" "?P e" using found Some by blast+
    have "distinct (registry_models registry)" using wf by (simp add: registry_wf_def distinct_map)
    then have "filter ?P (registry_models registry) = [e]"
    proof (rule filter_unique [OF _ e(1)])
      show "?P e" by (rule e(2))
    next
      fix y
      assume "y \<in> set (registry_models registry)" and "?P y"
      with found [of y] Some show "y = e" by simp
    qed
    with Some \<open>ms_exactModelId input = Some exactModelId\<close> domain show ?thesis
      by (simp add: selection_candidates_def)
  qed
qed

lemma selection_candidates_distinct:
  assumes "registry_wf registry" and "selection_candidates input registry = Inr cs"
  shows "distinct (map me_logicalId cs)"
  using assms
  by (auto simp: selection_candidates_def registry_wf_def modelsForProvider_def Let_def distinct_map_filter
      split: option.splits if_splits)

lemma selectModel_candidates:
  assumes "registry_wf registry" and cs: "selection_candidates input registry = Inr cs"
  shows "(case selectModel input registry effective bypass of Inl _ \<Rightarrow> None | Inr r \<Rightarrow> Some (mr_model r))
       = List.find (may_select input effective bypass) cs"
proof -
  let ?assess = "assess input (ms_exactModelId input \<noteq> None) effective bypass"
  have passed: "filter assessment_passes (map ?assess cs) = map ?assess (filter (may_select input effective bypass) cs)"
    by (simp del: not_None_eq add: filter_map o_def assessment_passes_iff)
  show ?thesis
  proof (cases "filter (may_select input effective bypass) cs")
    case Nil
    with passed cs show ?thesis by (simp del: not_None_eq add: selectModel_def find_filter_hd Let_def)
  next
    case (Cons m ms)
    then have "m \<in> set cs" using filter_eq_ConsD [OF Cons] by auto
    then have "List.find (\<lambda>x. me_logicalId x = me_logicalId m) cs = Some m"
      using find_distinct_key selection_candidates_distinct [OF assms] by fast
    with Cons passed cs show ?thesis by (simp del: not_None_eq add: selectModel_def find_filter_hd Let_def)
  qed
qed

lemma selectModel_first:
  assumes "registry_wf registry" and "CHR ''/'' \<notin> set (ms_accessProviderId input)"
  shows "(case selectModel input registry effective bypass of Inl _ \<Rightarrow> None | Inr r \<Rightarrow> Some (mr_model r))
       = List.find (may_select input effective bypass) (selection_domain registry input)"
proof (cases "selection_candidates input registry")
  case (Inl e)
  with selection_candidates_domain [OF assms] show ?thesis by (simp add: selectModel_def)
next
  case (Inr cs)
  with selection_candidates_domain [OF assms] selectModel_candidates [OF assms(1) Inr] show ?thesis by simp
qed

text \<open>C34: Model selection is the first eligible row of the document. In a reviewed registry, for a provider name without
  a slash, the selected model is the first row in document order, among the provider's rows (the pinned one, or the
  preferred family's when one is asked for), that has every required capability, serves the reasoning asked for and is
  accepted by the compatibility authority; and there is an error exactly when no such row exists.\<close>

theorem selectModel_first_eligible:
  assumes "registry_wf registry" and "CHR ''/'' \<notin> set (ms_accessProviderId input)"
  shows "(case selectModel input registry effective bypass of Inl _ \<Rightarrow> None | Inr r \<Rightarrow> Some (mr_model r))
       = List.find (may_select input effective bypass) (selection_domain registry input)"
  using assms by (rule selectModel_first)

text \<open>A request that pins \<open>gpt-5.6-sol\<close>, and one that asks for a model with tools and no opt-in.\<close>

definition demo_pin :: model_selection_input where
  "demo_pin =
     \<lparr>ms_accessProviderId = ''cline'', ms_preferredFamily = None, ms_exactModelId = Some ''gpt-5.6-sol'',
      ms_requiredCapabilities = [Req_tools], ms_reasoning = None, ms_allowExperimental = False\<rparr>"

definition demo_request :: model_selection_input where
  "demo_request = demo_pin\<lparr>ms_exactModelId := None\<rparr>"

lemma demo_pin_selects:
  "map_option me_logicalId (case selectModel demo_pin directProviderRegistry None False of
      Inl _ \<Rightarrow> None | Inr r \<Rightarrow> Some (mr_model r)) = Some ''cline/gpt-5.6-sol''"
  by code_simp

lemma demo_request_rejected:
  "(case selectModel demo_request directProviderRegistry None False of Inl e \<Rightarrow> Some (fst e) | Inr _ \<Rightarrow> None)
     = Some Compatibility_rejected"
  by code_simp

theorem selectModel_first_eligible_witness:
  "map_option me_logicalId (List.find (may_select demo_pin None False) (selection_domain directProviderRegistry demo_pin))
     = Some ''cline/gpt-5.6-sol''"
proof -
  have "CHR ''/'' \<notin> set (ms_accessProviderId demo_pin)" by code_simp
  from selectModel_first_eligible [OF directProviderRegistry_wf this] demo_pin_selects show ?thesis
    by simp
qed

section \<open>What is never selected\<close>

lemma selection_candidates_rows:
  "selection_candidates input registry = Inr cs \<Longrightarrow> set cs \<subseteq> set (registry_models registry)"
  by (auto simp: selection_candidates_def findModelEvidence_def modelsForProvider_def Let_def
      split: option.splits if_splits dest: find_Some_in)

lemma selectModel_sound:
  assumes "registry_wf registry" and "selectModel input registry effective bypass = Inr r"
  shows "mr_model r \<in> set (registry_models registry) \<and> may_select input effective bypass (mr_model r)"
proof -
  obtain cs where cs: "selection_candidates input registry = Inr cs"
    using assms(2) by (auto simp: selectModel_def bind_ok_Inr_iff)
  from selectModel_candidates [OF assms(1) cs, of effective bypass] assms(2)
  have "List.find (may_select input effective bypass) cs = Some (mr_model r)" by simp
  with selection_candidates_rows [OF cs] show ?thesis by (auto dest: find_Some_in)
qed

definition authority_answers ::
  "effective_snapshot option \<Rightarrow> model_evidence \<Rightarrow> (claim_feature \<times> effective_compatibility) list" where
  "authority_answers effective model = (case effective of None \<Rightarrow> [] | Some e \<Rightarrow> get_or [] (map_of e (me_logicalId model)))"

text \<open>No opt-in reaches a broken path. Over a reviewed registry, a selected model is a row of it with every required
  capability; without answers of the compatibility registry its reviewed state is not BROKEN; and with answers, every
  feature the request requires has an answer, none of them untrusted or missing, and none of them quarantined unless the
  administrative bypass is on. The experimental override and an exact pin change none of this.\<close>

theorem selected_never_broken:
  assumes "registry_wf registry" and "selectModel input registry effective bypass = Inr r"
  shows "mr_model r \<in> set (registry_models registry)
     \<and> (\<forall>c \<in> set (ms_requiredCapabilities input). has_capability (me_capabilities (mr_model r)) c)
     \<and> (authority_answers effective (mr_model r) = [] \<longrightarrow> ce_state (me_compatibility (mr_model r)) \<noteq> BROKEN)
     \<and> (authority_answers effective (mr_model r) \<noteq> [] \<longrightarrow>
         (\<forall>f \<in> set (requiredFeaturesForCapabilities (ms_requiredCapabilities input) (ms_reasoning input)).
            \<exists>a. map_of (authority_answers effective (mr_model r)) f = Some a
              \<and> ec_effective a \<notin> {Label_untrusted, Label_missing}
              \<and> (ec_effective a = Label_quarantined \<longrightarrow> bypass)))"
proof -
  let ?answers = "authority_answers effective (mr_model r)"
  note sound = selectModel_sound [OF assms]
  then have accepted: "if ?answers = [] then state_accepted input (mr_model r) else answers_accepted input bypass ?answers"
    by (simp add: may_select_def authority_answers_def Let_def)
  have "\<exists>a. map_of ?answers f = Some a \<and> ec_effective a \<notin> {Label_untrusted, Label_missing}
          \<and> (ec_effective a = Label_quarantined \<longrightarrow> bypass)"
    if "?answers \<noteq> []"
      and "f \<in> set (requiredFeaturesForCapabilities (ms_requiredCapabilities input) (ms_reasoning input))" for f
    using accepted that by (force simp: answers_accepted_def split: option.splits)
  with sound accepted show ?thesis
    by (auto simp: may_select_def missingCapabilities_Nil_iff state_accepted_def split: if_splits)
qed

theorem selected_never_broken_witness:
  "\<exists>r. selectModel demo_pin directProviderRegistry None False = Inr r
     \<and> ce_state (me_compatibility (mr_model r)) \<noteq> BROKEN \<and> has_capability (me_capabilities (mr_model r)) Req_tools"
proof -
  obtain r where run: "selectModel demo_pin directProviderRegistry None False = Inr r"
    using demo_pin_selects by (auto split: sum.splits)
  from selected_never_broken [OF directProviderRegistry_wf this] run show ?thesis
    by (auto simp: authority_answers_def demo_pin_def)
qed

section \<open>The trace\<close>

text \<open>The trace names the choice. Over a reviewed registry, the trace of a selection names the selected row and marks
  exactly one assessment as selected: the one of the selected row, which passed capability, reasoning and
  compatibility.\<close>

theorem selection_trace_marks_choice:
  assumes "registry_wf registry" and "selectModel input registry effective bypass = Inr r"
  shows "mt_selectedLogicalId (mr_decision r) = me_logicalId (mr_model r)
     \<and> (\<exists>a. filter mc_selected (mt_candidates (mr_decision r)) = [a] \<and> mc_logicalId a = me_logicalId (mr_model r)
          \<and> assessment_passes a)"
proof -
  obtain cs where cs: "selection_candidates input registry = Inr cs"
    using assms(2) by (auto simp: selectModel_def bind_ok_Inr_iff)
  let ?assess = "assess input (ms_exactModelId input \<noteq> None) effective bypass"
  let ?mark = "\<lambda>a. if mc_logicalId a = me_logicalId (mr_model r) then a\<lparr>mc_selected := True\<rparr> else a"
  let ?model = "mr_model r"
  have trace: "mt_selectedLogicalId (mr_decision r) = me_logicalId ?model
      \<and> mt_candidates (mr_decision r) = map (\<lambda>m. ?mark (?assess m)) cs"
    using assms(2) cs by (auto simp del: not_None_eq simp: selectModel_def Let_def split: list.splits option.splits)
  from selectModel_candidates [OF assms(1) cs, of effective bypass] assms(2)
  have "List.find (may_select input effective bypass) cs = Some ?model" by simp
  then have chosen: "?model \<in> set cs" "may_select input effective bypass ?model" by (auto dest: find_Some_in)
  have keys: "distinct (map me_logicalId cs)" using assms(1) cs by (rule selection_candidates_distinct)
  have one: "filter (\<lambda>m. me_logicalId m = me_logicalId ?model) cs = [?model]"
    using keys chosen(1) by (intro filter_unique) (auto simp: distinct_map dest: inj_onD)
  have "filter mc_selected (mt_candidates (mr_decision r)) = map (\<lambda>m. ?mark (?assess m)) (filter (\<lambda>m. me_logicalId m = me_logicalId ?model) cs)"
    unfolding conjunct2 [OF trace] filter_map o_def by (rule arg_cong [where f = "map _"]) (rule filter_cong, auto)
  with one have "filter mc_selected (mt_candidates (mr_decision r)) = [(?assess ?model)\<lparr>mc_selected := True\<rparr>]"
    by (simp del: not_None_eq)
  moreover have "assessment_passes ((?assess ?model)\<lparr>mc_selected := True\<rparr>)"
    using chosen(2) assessment_passes_iff [of input effective bypass ?model] by (simp add: assessment_passes_def)
  ultimately show ?thesis using trace by simp
qed

theorem selection_trace_marks_choice_witness:
  "\<exists>r. selectModel demo_pin directProviderRegistry None False = Inr r \<and> mt_selectedLogicalId (mr_decision r) = ''cline/gpt-5.6-sol''"
proof -
  obtain r where run: "selectModel demo_pin directProviderRegistry None False = Inr r"
    using demo_pin_selects by (auto split: sum.splits)
  with selection_trace_marks_choice [OF directProviderRegistry_wf this] demo_pin_selects show ?thesis
    by simp
qed

text \<open>
  The label in the trace is the first required feature's answer, not the worst: a path whose text feature is trusted
  reports \<open>trusted\<close> while its cancellation feature is let through by the override only, and the trace then gives no
  reason either.
\<close>

definition demo_answer :: "claim_feature \<Rightarrow> effective_label \<Rightarrow> effective_compatibility" where
  "demo_answer feature label =
     \<lparr>ec_claimKey = ''k'', ec_feature = feature, ec_effective = label, ec_trust = No_trust, ec_health = Health_unknown,
      ec_freshness = Freshness_unknown, ec_quarantine_active = False, ec_enforcement = Allowed, ec_layers = missing_layers,
      ec_decision = None, ec_quarantineRecord = None, ec_trustReason = None, ec_healthReason = None,
      ec_freshnessReason = None, ec_quarantineReason = None, ec_enforcementReason = None\<rparr>"

definition demo_effective :: effective_snapshot where
  "demo_effective =
     [(''cline/gpt-5.6-sol'',
       [(Gate_feature Gate_text, demo_answer (Gate_feature Gate_text) Label_trusted),
        (Gate_feature Gate_cancellation, demo_answer (Gate_feature Gate_cancellation) Label_stale)])]"

definition demo_plain :: model_selection_input where
  "demo_plain = demo_pin\<lparr>ms_requiredCapabilities := []\<rparr>"

lemma trace_label_is_first_not_worst:
  "(case selectModel demo_plain directProviderRegistry (Some demo_effective) False of Inl _ \<Rightarrow> []
    | Inr r \<Rightarrow> map (\<lambda>a. (mc_effectiveLabel a, mc_enforcementReason a)) (mt_candidates (mr_decision r)))
     = [(Some Label_trusted, None)]"
  by code_simp

end
