(* ===== verification/Model_Tiers.thy ===== *)
theory Model_Tiers
  imports Model_Selection
begin

text \<open>
  Logical tiers and model intent: \<^verbatim>\<open>src/routing/model-tiers/\<close> (\<^verbatim>\<open>types.ts\<close>, \<^verbatim>\<open>errors.ts\<close>,
  \<^verbatim>\<open>mapping.ts\<close>, \<^verbatim>\<open>resolver.ts\<close>) and \<^verbatim>\<open>src/routing/model-intent/\<close> (\<^verbatim>\<open>types.ts\<close>,
  \<^verbatim>\<open>errors.ts\<close>, \<^verbatim>\<open>classify.ts\<close>), with the projection prefix of
  \<^verbatim>\<open>src/routing/model-projection/types.ts\<close>.

  The entries of a mapping policy are an association list. The dependencies of the resolver
  are a record whose fields are what the code uses after its defaults. Traces are records of
  fixed keys, none of which the secret-key check refuses, so that check is left out.
\<close>

section \<open>Tiers\<close>

datatype logical_tier = Haiku | Sonnet | Opus | Fable

fun tier_text :: "logical_tier \<Rightarrow> string" where
  "tier_text Haiku = ''haiku''"
| "tier_text Sonnet = ''sonnet''"
| "tier_text Opus = ''opus''"
| "tier_text Fable = ''fable''"

definition LOGICAL_TIERS :: "logical_tier list" where
  "LOGICAL_TIERS = [Haiku, Sonnet, Opus, Fable]"

definition isLogicalTier :: "string \<Rightarrow> bool" where
  "isLogicalTier v \<longleftrightarrow> v \<in> set (map tier_text LOGICAL_TIERS)"

definition parseLogicalTier :: "string \<Rightarrow> logical_tier option" where
  "parseLogicalTier v = List.find (\<lambda>t. tier_text t = v) LOGICAL_TIERS"

fun TIER_ORDER :: "logical_tier \<Rightarrow> int" where
  "TIER_ORDER Haiku = 0"
| "TIER_ORDER Sonnet = 1"
| "TIER_ORDER Opus = 2"
| "TIER_ORDER Fable = 3"

record tier_resolution_context =
  tc_requestedTier :: logical_tier
  tc_accessProviderId :: string
  tc_parentModelId :: "string option"
  tc_modelFamily :: "string option"
  tc_explicitUserMapping :: "string option"
  tc_allowCrossFamilyFallback :: bool
  tc_allowCrossProviderFallback :: bool

datatype tier_mapping_source = User_override | Reviewed_mapping | Derived | Fallback

record tier_mapping_policy =
  tp_revision :: int
  tp_entries :: "(string \<times> string) list"

record tier_resolution_trace =
  tt_requestedTier :: logical_tier
  tt_accessProviderId :: string
  tt_modelFamily :: "string option"
  tt_parentModelId :: "string option"
  tt_mappingSource :: tier_mapping_source
  tt_selectedLogicalId :: string
  tt_reason :: string
  tt_mappingRevision :: int
  tt_registryRevision :: int
  tt_fallbackReason :: "string option"
  tt_assessments :: "model_candidate_assessment list option"

record tier_resolution_result =
  tr_model :: model_evidence
  tr_trace :: tier_resolution_trace

datatype tier_resolution_failure =
  Unknown_tier | Family_unknown | Override_rejected | Mapping_invalid | Tier_unavailable

fun tier_failure_code :: "tier_resolution_failure \<Rightarrow> string" where
  "tier_failure_code Unknown_tier = ''unknown-tier''"
| "tier_failure_code Family_unknown = ''family-unknown''"
| "tier_failure_code Override_rejected = ''override-rejected''"
| "tier_failure_code Mapping_invalid = ''mapping-invalid''"
| "tier_failure_code Tier_unavailable = ''tier-unavailable''"

record tier_resolution_error =
  te_code :: tier_resolution_failure
  te_message :: string
  te_causeCode :: "string option"

section \<open>The mapping\<close>

definition tierMappingKey :: "string \<Rightarrow> string \<Rightarrow> logical_tier \<Rightarrow> string" where
  "tierMappingKey accessProviderId modelFamily tier =
     accessProviderId @ ''|'' @ modelFamily @ ''|'' @ tier_text tier"

definition DEFAULT_TIER_MAPPING_REVISION :: int where
  "DEFAULT_TIER_MAPPING_REVISION = 1"

definition TIER_ENTRIES :: "(string \<times> string) list" where
  "TIER_ENTRIES =
     [(''cline|openai/codex|fable'', ''gpt-5.6-sol''), (''cline|deepseek|fable'', ''deepseek-v4-pro''),
      (''cline|anthropic|fable'', ''claude-fable''), (''cline|anthropic|opus'', ''claude-opus-4-8''),
      (''cline|anthropic|sonnet'', ''claude-sonnet-4-5'')]"

definition defaultTierMapping :: tier_mapping_policy where
  "defaultTierMapping = \<lparr>tp_revision = DEFAULT_TIER_MAPPING_REVISION, tp_entries = TIER_ENTRIES\<rparr>"

section \<open>The resolver\<close>

record tier_dependencies =
  td_registry :: registry_document
  td_mapping :: tier_mapping_policy
  td_requiredCapabilities :: "capability_requirement list"
  td_reasoning :: "reasoning_requirement option"
  td_allowExperimental :: bool
  td_effective :: "effective_snapshot option"
  td_fallbackProviderIds :: "string list option"

definition tier_mapped :: "tier_dependencies \<Rightarrow> string \<Rightarrow> string \<Rightarrow> logical_tier \<Rightarrow> string option" where
  "tier_mapped deps provider family tier = map_of (tp_entries (td_mapping deps)) (tierMappingKey provider family tier)"

definition base_selection :: "tier_dependencies \<Rightarrow> string \<Rightarrow> model_selection_input" where
  "base_selection deps provider =
     \<lparr>ms_accessProviderId = provider, ms_preferredFamily = None, ms_exactModelId = None,
      ms_requiredCapabilities = td_requiredCapabilities deps, ms_reasoning = td_reasoning deps,
      ms_allowExperimental = td_allowExperimental deps\<rparr>"

definition tier_select :: "tier_dependencies \<Rightarrow> model_selection_input \<Rightarrow> model_selection_error + model_selection_result" where
  "tier_select deps input = selectModel input (td_registry deps) (td_effective deps) False"

definition resolveFamily :: "tier_resolution_context \<Rightarrow> registry_document \<Rightarrow> string option" where
  "resolveFamily context registry =
     (let parent = Option.bind (tc_parentModelId context) (findModelEvidence registry (tc_accessProviderId context));
          parent_family = Option.bind parent (\<lambda>p. mi_modelFamily (me_identity p));
          families = js_uniq (List.map_filter (\<lambda>m. mi_modelFamily (me_identity m))
                       (modelsForProvider registry (tc_accessProviderId context)))
      in or_else (tc_modelFamily context)
          (or_else parent_family (if length families = 1 then Some (hd families) else None)))"

definition exactTarget ::
  "tier_dependencies \<Rightarrow> model_selection_input \<Rightarrow> string \<Rightarrow> tier_resolution_failure \<Rightarrow> string
     \<Rightarrow> tier_resolution_error + model_evidence" where
  "exactTarget deps base modelId failure message =
     (case tier_select deps (base\<lparr>ms_exactModelId := Some modelId\<rparr>) of
        Inr r \<Rightarrow> Inr (mr_model r)
      | Inl (code, _) \<Rightarrow>
          Inl \<lparr>te_code = failure, te_message = message @ '' ('' @ model_failure_code code @ '')'',
               te_causeCode = Some (model_failure_code code)\<rparr>)"

definition settled ::
  "tier_resolution_context \<Rightarrow> tier_dependencies \<Rightarrow> string option \<Rightarrow> model_evidence \<Rightarrow> tier_mapping_source \<Rightarrow> string
     \<Rightarrow> string option \<Rightarrow> model_candidate_assessment list option \<Rightarrow> tier_resolution_result" where
  "settled context deps family model mappingSource reason fallback_reason assessments =
     \<lparr>tr_model = model,
      tr_trace =
        \<lparr>tt_requestedTier = tc_requestedTier context, tt_accessProviderId = tc_accessProviderId context,
         tt_modelFamily = family, tt_parentModelId = tc_parentModelId context, tt_mappingSource = mappingSource,
         tt_selectedLogicalId = me_logicalId model, tt_reason = reason,
         tt_mappingRevision = tp_revision (td_mapping deps),
         tt_registryRevision = registryRevision (td_registry deps), tt_fallbackReason = fallback_reason,
         tt_assessments = assessments\<rparr>\<rparr>"

definition fallback_target ::
  "tier_resolution_context \<Rightarrow> tier_dependencies \<Rightarrow> string option \<Rightarrow> string \<Rightarrow> model_evidence option" where
  "fallback_target context deps family providerId =
     (let providerSelection = base_selection deps providerId
      in case Option.bind family (\<lambda>f. tier_mapped deps providerId f (tc_requestedTier context)) of
           None \<Rightarrow>
             (case tier_select deps (providerSelection\<lparr>ms_preferredFamily := family\<rparr>) of
                Inl _ \<Rightarrow> None | Inr r \<Rightarrow> Some (mr_model r))
         | Some mapped \<Rightarrow>
             (case exactTarget deps providerSelection mapped Tier_unavailable (''Fallback mapping rejected for '' @ providerId) of
                Inl _ \<Rightarrow> None | Inr model \<Rightarrow> Some model))"

fun fallback_providers ::
  "tier_resolution_context \<Rightarrow> tier_dependencies \<Rightarrow> string option \<Rightarrow> string list \<Rightarrow> tier_resolution_result option" where
  "fallback_providers context deps family [] = None"
| "fallback_providers context deps family (providerId # rest) =
     (if providerId = tc_accessProviderId context then fallback_providers context deps family rest
      else case fallback_target context deps family providerId of
             None \<Rightarrow> fallback_providers context deps family rest
           | Some model \<Rightarrow>
               Some (settled context deps family model Fallback ''fallback-cross-provider''
                       (Some (''cross-provider (explicitly enabled): '' @ providerId)) None))"

definition fallbackOrFail ::
  "tier_resolution_context \<Rightarrow> tier_dependencies \<Rightarrow> string option \<Rightarrow> string
     \<Rightarrow> tier_resolution_error + tier_resolution_result" where
  "fallbackOrFail context deps family cause =
     (let cross_family =
            (if tc_allowCrossFamilyFallback context \<and> family \<noteq> None then
               (case tier_select deps (base_selection deps (tc_accessProviderId context)) of
                  Inl _ \<Rightarrow> None
                | Inr r \<Rightarrow>
                    Some (settled context deps family (mr_model r) Fallback ''fallback-cross-family''
                            (Some ''cross-family (explicitly enabled)'') (Some (mt_candidates (mr_decision r)))))
             else None);
          cross_provider =
            (if tc_allowCrossProviderFallback context
             then Option.bind (td_fallbackProviderIds deps) (fallback_providers context deps family) else None)
      in case or_else cross_family cross_provider of
           Some result \<Rightarrow> Inr result
         | None \<Rightarrow>
             Inl \<lparr>te_code = Tier_unavailable,
                  te_message = ''No eligible tier target for '' @ tc_accessProviderId context @ ''/''
                    @ get_or ''unknown-family'' family @ '' tier '' @ tier_text (tc_requestedTier context),
                  te_causeCode = Some cause\<rparr>)"

definition resolveTier ::
  "tier_resolution_context \<Rightarrow> tier_dependencies \<Rightarrow> tier_resolution_error + tier_resolution_result" where
  "resolveTier context deps =
     (let provider = tc_accessProviderId context;
          family = resolveFamily context (td_registry deps);
          base = base_selection deps provider
      in case tc_explicitUserMapping context of
           Some mapped \<Rightarrow>
             bind_ok (exactTarget deps base mapped Override_rejected (''User override rejected for '' @ provider @ ''/'' @ mapped))
               (\<lambda>model. Inr (settled context deps family model User_override ''explicit-user-mapping'' None None))
         | None \<Rightarrow>
             (case family of
                None \<Rightarrow> fallbackOrFail context deps family ''family-unknown''
              | Some f \<Rightarrow>
                  (case tier_mapped deps provider f (tc_requestedTier context) of
                     Some mapped \<Rightarrow>
                       bind_ok (exactTarget deps base mapped Mapping_invalid
                                  (''Reviewed tier mapping for '' @ provider @ ''|'' @ f @ ''|''
                                   @ tier_text (tc_requestedTier context)
                                   @ '' no longer has trusted/compatible evidence''))
                         (\<lambda>model. Inr (settled context deps family model Reviewed_mapping ''reviewed-mapping-match'' None None))
                   | None \<Rightarrow>
                       (case tier_select deps (base\<lparr>ms_preferredFamily := Some f\<rparr>) of
                          Inr r \<Rightarrow>
                            Inr (settled context deps family (mr_model r) Derived ''deterministic-family-candidate'' None
                                   (Some (mt_candidates (mr_decision r))))
                        | Inl (code, _) \<Rightarrow> fallbackOrFail context deps family (model_failure_code code)))))"

section \<open>Model intent\<close>

definition RLY_MODEL_PREFIX :: string where "RLY_MODEL_PREFIX = ''claude-rly-''"

definition isProjectionId :: "string \<Rightarrow> bool" where
  "isProjectionId modelId \<longleftrightarrow> starts_with modelId RLY_MODEL_PREFIX"

definition RLY_TIER_NAMESPACE :: string where "RLY_TIER_NAMESPACE = ''rly-tier:''"

text \<open>
  The client's aliases are the tier names, so an alias is the tier it is mapped to. The
  provenance tag of an intent follows from its constructor.
\<close>

datatype model_intent =
    Exact_projection string
  | Rly_logical_tier logical_tier string
  | Client_native_alias logical_tier string
  | Exact_client_model string
  | Inherit string
  | Default string

fun sourceSelector :: "model_intent \<Rightarrow> string" where
  "sourceSelector (Exact_projection s) = s"
| "sourceSelector (Rly_logical_tier t s) = s"
| "sourceSelector (Client_native_alias t s) = s"
| "sourceSelector (Exact_client_model s) = s"
| "sourceSelector (Inherit s) = s"
| "sourceSelector (Default s) = s"

fun intent_source :: "model_intent \<Rightarrow> string" where
  "intent_source (Exact_projection s) = ''projection-namespace''"
| "intent_source (Rly_logical_tier t s) = ''rly-tier-namespace''"
| "intent_source (Client_native_alias t s) = ''client-native-alias-contract''"
| "intent_source (Exact_client_model s) = ''exact-model''"
| "intent_source (Inherit s) = ''inherit''"
| "intent_source (Default s) = ''default''"

datatype model_intent_failure =
  Unknown_namespace | Unsupported_client_alias | Invalid_projection | Conflicting_selector_sources

definition parseRlyTierSelector :: "string \<Rightarrow> string option" where
  "parseRlyTierSelector selector =
     (if starts_with selector RLY_TIER_NAMESPACE then Some (drop (length RLY_TIER_NAMESPACE) selector) else None)"

definition classifyModelIntent :: "string \<Rightarrow> (model_intent_failure \<times> string) + model_intent" where
  "classifyModelIntent selector =
     (if starts_with selector RLY_TIER_NAMESPACE then
        (case Option.bind (parseRlyTierSelector selector) parseLogicalTier of
           None \<Rightarrow> Inl (Unknown_namespace, ''Unknown RLY logical tier namespace selector: '' @ selector)
         | Some tier \<Rightarrow> Inr (Rly_logical_tier tier selector))
      else if isProjectionId selector then Inr (Exact_projection selector)
      else case parseLogicalTier selector of
             Some alias \<Rightarrow> Inr (Client_native_alias alias selector)
           | None \<Rightarrow>
               (if selector = [] \<or> selector = ''default'' then Inr (Default selector)
                else if selector = ''inherit'' then Inr (Inherit selector)
                else Inr (Exact_client_model selector)))"


section \<open>Intent: the namespaces do not overlap\<close>

lemma parseLogicalTier_iff: "parseLogicalTier v = Some t \<longleftrightarrow> v = tier_text t"
  by (cases t) (auto simp: parseLogicalTier_def LOGICAL_TIERS_def)

lemma parseLogicalTier_None_iff: "parseLogicalTier v = None \<longleftrightarrow> (\<forall>t. v \<noteq> tier_text t)"
  by (metis not_None_eq parseLogicalTier_iff)

lemma isLogicalTier_iff: "isLogicalTier v \<longleftrightarrow> parseLogicalTier v \<noteq> None"
  by (auto simp: isLogicalTier_def parseLogicalTier_def LOGICAL_TIERS_def)

lemma tier_text_inject: "tier_text t = tier_text u \<longleftrightarrow> t = u"
  by (metis option.inject parseLogicalTier_iff)

lemma tier_text_plain: "\<not> starts_with (tier_text t) RLY_TIER_NAMESPACE" "\<not> isProjectionId (tier_text t)"
  by (cases t; simp add: starts_with_def RLY_TIER_NAMESPACE_def isProjectionId_def RLY_MODEL_PREFIX_def)+

lemma namespaces_disjoint: "starts_with s RLY_TIER_NAMESPACE \<Longrightarrow> \<not> isProjectionId s"
  by (auto simp: starts_with_iff isProjectionId_def RLY_TIER_NAMESPACE_def RLY_MODEL_PREFIX_def)

text \<open>The selector namespaces are disjoint and exact. A selector is an explicit logical tier exactly when it is the
  prefix rly-tier: followed by a tier's name, a client alias exactly when it is the bare name, a projection exactly when
  it starts with claude-rly-; the only error is the rly-tier: prefix with anything else behind it, and every intent
  keeps the selector it was read from. So the bare alias and the explicit tier of the same name are different intents.\<close>

theorem intent_namespaces:
  "(classifyModelIntent s = Inr (Rly_logical_tier t s) \<longleftrightarrow> s = ''rly-tier:'' @ tier_text t)
   \<and> (classifyModelIntent s = Inr (Client_native_alias t s) \<longleftrightarrow> s = tier_text t)
   \<and> (classifyModelIntent s = Inr (Exact_projection s) \<longleftrightarrow> starts_with s ''claude-rly-'')
   \<and> (\<not> is_ok (classifyModelIntent s) \<longleftrightarrow> starts_with s ''rly-tier:'' \<and> (\<forall>u. s \<noteq> ''rly-tier:'' @ tier_text u))
   \<and> (case classifyModelIntent s of Inl e \<Rightarrow> fst e = Unknown_namespace | Inr i \<Rightarrow> sourceSelector i = s)"
proof (cases "starts_with s RLY_TIER_NAMESPACE")
  case True
  then obtain r where s: "s = RLY_TIER_NAMESPACE @ r" by (auto simp: starts_with_iff)
  have run: "classifyModelIntent s =
      (case parseLogicalTier r of None \<Rightarrow> Inl (Unknown_namespace, ''Unknown RLY logical tier namespace selector: '' @ s)
       | Some tier \<Rightarrow> Inr (Rly_logical_tier tier s))"
    using True by (simp add: classifyModelIntent_def parseRlyTierSelector_def) (simp add: s)
  moreover have "s \<noteq> tier_text t" using True tier_text_plain by metis
  moreover have "\<not> starts_with s ''claude-rly-''"
    using namespaces_disjoint [OF True] by (simp add: isProjectionId_def RLY_MODEL_PREFIX_def)
  ultimately show ?thesis
    using True parseLogicalTier_iff [of r] parseLogicalTier_None_iff [of r]
    by (cases "parseLogicalTier r") (auto simp: s is_ok_def RLY_TIER_NAMESPACE_def)
next
  case False
  then have "s \<noteq> ''rly-tier:'' @ u" for u
    using starts_with_append [of RLY_TIER_NAMESPACE u] by (auto simp: RLY_TIER_NAMESPACE_def)
  moreover have "\<not> starts_with s ''rly-tier:''" using False by (simp add: RLY_TIER_NAMESPACE_def)
  moreover have "isProjectionId s \<longleftrightarrow> starts_with s ''claude-rly-''"
    by (simp add: isProjectionId_def RLY_MODEL_PREFIX_def)
  ultimately show ?thesis
    using False parseLogicalTier_iff [of s] tier_text_plain(2)
    by (cases "parseLogicalTier s") (auto simp: classifyModelIntent_def is_ok_def)
qed

section \<open>The mapping key\<close>

lemma append_bar_inject:
  "CHR ''|'' \<notin> set a \<Longrightarrow> CHR ''|'' \<notin> set b \<Longrightarrow> a @ ''|'' @ x = b @ ''|'' @ y \<longleftrightarrow> a = b \<and> x = y"
proof (induction a arbitrary: b)
  case Nil
  then show ?case by (cases b) auto
next
  case (Cons c cs)
  then show ?case by (cases b) auto
qed

lemma tierMappingKey_inject:
  assumes "CHR ''|'' \<notin> set p \<union> set f" and "CHR ''|'' \<notin> set q \<union> set g"
  shows "tierMappingKey p f t = tierMappingKey q g u \<longleftrightarrow> p = q \<and> f = g \<and> t = u"
  using assms by (simp add: tierMappingKey_def append_bar_inject [simplified] tier_text_inject)

section \<open>Resolution against its reference\<close>

definition tier_pick :: "tier_dependencies \<Rightarrow> model_selection_input \<Rightarrow> model_evidence option" where
  "tier_pick deps input =
     List.find (may_select input (td_effective deps) False) (selection_domain (td_registry deps) input)"

lemma tier_select_pick:
  assumes "registry_wf (td_registry deps)" and "CHR ''/'' \<notin> set (ms_accessProviderId input)"
  shows "tier_pick deps input = (case tier_select deps input of Inl _ \<Rightarrow> None | Inr r \<Rightarrow> Some (mr_model r))"
  unfolding tier_select_def tier_pick_def using selectModel_first [OF assms] by simp

lemma base_selection_fields [simp]:
  "ms_accessProviderId (base_selection deps p) = p" "ms_preferredFamily (base_selection deps p) = None"
  "ms_exactModelId (base_selection deps p) = None"
  by (simp_all add: base_selection_def)

text \<open>Which selection a request stands for, before any fallback, and the error when it finds nothing.\<close>

definition tier_plan ::
  "tier_resolution_context \<Rightarrow> tier_dependencies
     \<Rightarrow> (tier_mapping_source \<times> model_selection_input \<times> tier_resolution_failure) option" where
  "tier_plan context deps =
     (let provider = tc_accessProviderId context; base = base_selection deps provider
      in case tc_explicitUserMapping context of
           Some mapped \<Rightarrow> Some (User_override, base\<lparr>ms_exactModelId := Some mapped\<rparr>, Override_rejected)
         | None \<Rightarrow>
             (case resolveFamily context (td_registry deps) of
                None \<Rightarrow> None
              | Some f \<Rightarrow>
                  (case tier_mapped deps provider f (tc_requestedTier context) of
                     Some mapped \<Rightarrow> Some (Reviewed_mapping, base\<lparr>ms_exactModelId := Some mapped\<rparr>, Mapping_invalid)
                   | None \<Rightarrow> Some (Derived, base\<lparr>ms_preferredFamily := Some f\<rparr>, Tier_unavailable))))"

definition tier_wf :: "tier_resolution_context \<Rightarrow> tier_dependencies \<Rightarrow> bool" where
  "tier_wf context deps \<longleftrightarrow>
     registry_wf (td_registry deps) \<and> CHR ''/'' \<notin> set (tc_accessProviderId context)
     \<and> list_all (\<lambda>p. CHR ''/'' \<notin> set p) (get_or [] (td_fallbackProviderIds deps))"

definition tier_outcome ::
  "tier_resolution_error + tier_resolution_result \<Rightarrow> tier_resolution_failure + (tier_mapping_source \<times> model_evidence)" where
  "tier_outcome r =
     (case r of Inl e \<Rightarrow> Inl (te_code e) | Inr res \<Rightarrow> Inr (tt_mappingSource (tr_trace res), tr_model res))"

lemma settled_simps [simp]:
  "tr_model (settled context deps family model source reason fb assessments) = model"
  "tt_mappingSource (tr_trace (settled context deps family model source reason fb assessments)) = source"
  "tt_fallbackReason (tr_trace (settled context deps family model source reason fb assessments)) = fb"
  by (simp_all add: settled_def)

lemma pinned_outcome:
  assumes wf: "tier_wf context deps"
  shows "tier_outcome (bind_ok (exactTarget deps (base_selection deps (tc_accessProviderId context)) mapped failure message)
           (\<lambda>model. Inr (settled context deps family model source reason None None)))
      = (case tier_pick deps ((base_selection deps (tc_accessProviderId context))\<lparr>ms_exactModelId := Some mapped\<rparr>) of
           None \<Rightarrow> Inl failure | Some m \<Rightarrow> Inr (source, m))"
proof -
  let ?input = "(base_selection deps (tc_accessProviderId context))\<lparr>ms_exactModelId := Some mapped\<rparr>"
  have "tier_pick deps ?input = (case tier_select deps ?input of Inl _ \<Rightarrow> None | Inr r \<Rightarrow> Some (mr_model r))"
    using wf by (intro tier_select_pick) (simp_all add: tier_wf_def)
  then show ?thesis
    by (cases "tier_select deps ?input") (auto simp: exactTarget_def tier_outcome_def)
qed

lemma fallback_refused:
  assumes "\<not> tc_allowCrossFamilyFallback context" and "\<not> tc_allowCrossProviderFallback context"
  shows "tier_outcome (fallbackOrFail context deps family cause) = Inl Tier_unavailable"
  using assms by (simp add: fallbackOrFail_def tier_outcome_def)

text \<open>C35: Tier resolution implements its contract. Over a reviewed registry, with both fallbacks off, the answer is that
  of one planned selection: the user's mapping when there is one (refused as override-rejected), else the reviewed
  mapping of provider, family and tier when there is one (refused as mapping-invalid), else the family's own candidates
  on the same provider, and tier-unavailable when the family is unknown or nothing is eligible. The model is the first
  eligible row of the planned selection.\<close>

theorem resolveTier_contract:
  assumes "tier_wf context deps" and "\<not> tc_allowCrossFamilyFallback context"
    and "\<not> tc_allowCrossProviderFallback context"
  shows "tier_outcome (resolveTier context deps) =
     (case tier_plan context deps of
        None \<Rightarrow> Inl Tier_unavailable
      | Some (source, input, failure) \<Rightarrow>
          (case tier_pick deps input of None \<Rightarrow> Inl failure | Some m \<Rightarrow> Inr (source, m)))"
proof (cases "tc_explicitUserMapping context")
  case (Some mapped)
  then show ?thesis by (simp add: resolveTier_def tier_plan_def Let_def pinned_outcome [OF assms(1)])
next
  case explicit_none: None
  show ?thesis
  proof (cases "resolveFamily context (td_registry deps)")
    case None
    with explicit_none show ?thesis
      by (simp add: resolveTier_def tier_plan_def Let_def fallback_refused [OF assms(2,3)])
  next
    case (Some f)
    let ?input = "(base_selection deps (tc_accessProviderId context))\<lparr>ms_preferredFamily := Some f\<rparr>"
    have pick: "tier_pick deps ?input = (case tier_select deps ?input of Inl _ \<Rightarrow> None | Inr r \<Rightarrow> Some (mr_model r))"
      using assms(1) by (intro tier_select_pick) (simp_all add: tier_wf_def)
    show ?thesis
    proof (cases "tier_mapped deps (tc_accessProviderId context) f (tc_requestedTier context)")
      case None
      with explicit_none Some pick fallback_refused [OF assms(2,3)] show ?thesis
        by (cases "tier_select deps ?input") (auto simp: resolveTier_def tier_plan_def Let_def, simp add: tier_outcome_def)
    next
      case mapped: (Some mapped)
      with explicit_none Some show ?thesis
        by (simp add: resolveTier_def tier_plan_def Let_def pinned_outcome [OF assms(1)])
    qed
  qed
qed

section \<open>Pins are final, fallbacks are named\<close>

text \<open>A pin is final. When the user mapped the tier, or the reviewed mapping has an entry for provider, family and
  tier, the resolution either answers that very model of that very provider, without a fallback reason, or fails with
  override-rejected or mapping-invalid: no fallback flag makes it answer another model.\<close>

theorem tier_pin_is_final:
  assumes "tier_wf context deps" and "tier_plan context deps = Some (source, input, failure)" and "source \<noteq> Derived"
  shows "case resolveTier context deps of
     Inl e \<Rightarrow> te_code e = failure \<and> failure \<in> {Override_rejected, Mapping_invalid}
   | Inr res \<Rightarrow>
       mi_accessProviderId (me_identity (tr_model res)) = tc_accessProviderId context
       \<and> Some (mi_upstreamModelId (me_identity (tr_model res))) = ms_exactModelId input
       \<and> tt_mappingSource (tr_trace res) = source \<and> tt_fallbackReason (tr_trace res) = None"
proof -
  obtain mapped message family reason where
    run: "resolveTier context deps =
        bind_ok (exactTarget deps (base_selection deps (tc_accessProviderId context)) mapped failure message)
          (\<lambda>model. Inr (settled context deps family model source reason None None))"
    and input: "input = (base_selection deps (tc_accessProviderId context))\<lparr>ms_exactModelId := Some mapped\<rparr>"
    and failure: "failure \<in> {Override_rejected, Mapping_invalid}"
    using assms(2,3) by (auto simp: tier_plan_def resolveTier_def Let_def split: option.splits)
  have picked: "tier_pick deps input = (case tier_select deps input of Inl _ \<Rightarrow> None | Inr r \<Rightarrow> Some (mr_model r))"
    using assms(1) by (intro tier_select_pick) (simp_all add: tier_wf_def input)
  show ?thesis
  proof (cases "tier_select deps input")
    case (Inl e)
    with run input failure show ?thesis by (cases e) (auto simp: exactTarget_def)
  next
    case (Inr r)
    with picked have "tier_pick deps input = Some (mr_model r)" by simp
    then have "mr_model r \<in> set (selection_domain (td_registry deps) input)"
      unfolding tier_pick_def by (auto dest: find_Some_in)
    with run input Inr show ?thesis by (simp add: exactTarget_def selection_domain_def)
  qed
qed

lemma tier_select_row:
  assumes "registry_wf (td_registry deps)" and "CHR ''/'' \<notin> set (ms_accessProviderId input)"
    and "tier_select deps input = Inr r"
  shows "mr_model r \<in> set (selection_domain (td_registry deps) input)"
proof -
  have "tier_pick deps input = Some (mr_model r)" using tier_select_pick [OF assms(1,2)] assms(3) by simp
  then show ?thesis unfolding tier_pick_def by (auto dest: find_Some_in)
qed

lemma tier_select_provider:
  assumes "registry_wf (td_registry deps)" and "CHR ''/'' \<notin> set (ms_accessProviderId input)"
    and "tier_select deps input = Inr r"
  shows "mi_accessProviderId (me_identity (mr_model r)) = ms_accessProviderId input"
  using tier_select_row [OF assms] by (simp add: selection_domain_def)

lemma exactTarget_provider:
  assumes "registry_wf (td_registry deps)" and "CHR ''/'' \<notin> set provider"
    and "exactTarget deps (base_selection deps provider) mapped failure message = Inr m"
  shows "mi_accessProviderId (me_identity m) = provider"
proof -
  let ?input = "(base_selection deps provider)\<lparr>ms_exactModelId := Some mapped\<rparr>"
  obtain r where run: "tier_select deps ?input = Inr r" and m: "m = mr_model r"
    using assms(3) by (auto simp: exactTarget_def split: sum.splits)
  have "CHR ''/'' \<notin> set (ms_accessProviderId ?input)" using assms(2) by simp
  from tier_select_provider [OF assms(1) this run] m show ?thesis by simp
qed

lemma fallback_target_provider:
  assumes wf: "registry_wf (td_registry deps)" and slash: "CHR ''/'' \<notin> set provider"
    and found: "fallback_target context deps family provider = Some m"
  shows "mi_accessProviderId (me_identity m) = provider"
proof (cases "Option.bind family (\<lambda>f. tier_mapped deps provider f (tc_requestedTier context))")
  case None
  let ?input = "(base_selection deps provider)\<lparr>ms_preferredFamily := family\<rparr>"
  obtain r where run: "tier_select deps ?input = Inr r" and m: "m = mr_model r"
    using found None by (auto simp: fallback_target_def Let_def split: sum.splits)
  have "CHR ''/'' \<notin> set (ms_accessProviderId ?input)" using slash by simp
  from tier_select_provider [OF wf this run] m show ?thesis by simp
next
  case (Some mapped)
  with found have "exactTarget deps (base_selection deps provider) mapped Tier_unavailable
      (''Fallback mapping rejected for '' @ provider) = Inr m"
    by (simp add: fallback_target_def Let_def split: sum.splits)
  with wf slash show ?thesis by (rule exactTarget_provider)
qed

lemma fallback_providers_found:
  "fallback_providers context deps family providers = Some res \<Longrightarrow>
     \<exists>p \<in> set providers. p \<noteq> tc_accessProviderId context \<and> fallback_target context deps family p = Some (tr_model res)
       \<and> tt_mappingSource (tr_trace res) = Fallback
       \<and> tt_fallbackReason (tr_trace res) = Some (''cross-provider (explicitly enabled): '' @ p)"
  by (induction providers) (auto split: if_splits option.splits)

text \<open>What a fallback may answer, given its flags.\<close>

definition fallback_permitted :: "tier_resolution_context \<Rightarrow> tier_dependencies \<Rightarrow> tier_resolution_result \<Rightarrow> bool" where
  "fallback_permitted context deps res \<longleftrightarrow>
     (let p = mi_accessProviderId (me_identity (tr_model res)); reason = tt_fallbackReason (tr_trace res)
      in if p = tc_accessProviderId context
         then tc_allowCrossFamilyFallback context \<and> resolveFamily context (td_registry deps) \<noteq> None
              \<and> reason = Some ''cross-family (explicitly enabled)''
         else tc_allowCrossProviderFallback context \<and> p \<in> set (get_or [] (td_fallbackProviderIds deps))
              \<and> reason = Some (''cross-provider (explicitly enabled): '' @ p))"

lemma fallbackOrFail_permitted:
  assumes wf: "tier_wf context deps"
    and run: "fallbackOrFail context deps (resolveFamily context (td_registry deps)) cause = Inr res"
  shows "tt_mappingSource (tr_trace res) = Fallback \<and> fallback_permitted context deps res"
proof -
  let ?family = "resolveFamily context (td_registry deps)" and ?own = "tc_accessProviderId context"
  have wfs: "registry_wf (td_registry deps)" "CHR ''/'' \<notin> set ?own"
    "\<forall>p \<in> set (get_or [] (td_fallbackProviderIds deps)). CHR ''/'' \<notin> set p"
    using wf by (simp_all add: tier_wf_def list_all_iff)
  consider
    (family) r where "tc_allowCrossFamilyFallback context" "?family \<noteq> None"
      "tier_select deps (base_selection deps ?own) = Inr r" "tr_model res = mr_model r"
      "tt_mappingSource (tr_trace res) = Fallback"
      "tt_fallbackReason (tr_trace res) = Some ''cross-family (explicitly enabled)''"
  | (provider) ids where "tc_allowCrossProviderFallback context" "td_fallbackProviderIds deps = Some ids"
      "fallback_providers context deps ?family ids = Some res"
    using run by (auto simp: fallbackOrFail_def Let_def or_else_def split: if_splits sum.splits option.splits bind_splits)
  then show ?thesis
  proof cases
    case family
    with tier_select_provider [OF wfs(1) _ family(3)] wfs(2) show ?thesis
      by (simp add: fallback_permitted_def Let_def)
  next
    case provider
    from fallback_providers_found [OF provider(3)] obtain p where p: "p \<in> set ids" "p \<noteq> ?own"
      "fallback_target context deps ?family p = Some (tr_model res)" "tt_mappingSource (tr_trace res) = Fallback"
      "tt_fallbackReason (tr_trace res) = Some (''cross-provider (explicitly enabled): '' @ p)" by blast
    have "mi_accessProviderId (me_identity (tr_model res)) = p"
      using wfs p(1) provider(2) by (intro fallback_target_provider [OF wfs(1) _ p(3)]) simp
    with p provider show ?thesis by (simp add: fallback_permitted_def Let_def)
  qed
qed

text \<open>No silent substitution. A resolved tier is on the requested access provider, and without a fallback reason, unless
  its trace says fallback; and a fallback stays on the provider only with the cross-family flag and a known family, and
  leaves it only with the cross-provider flag, for a provider of the explicit list, named in the fallback reason. A
  derived answer is in the resolved family.\<close>

theorem tier_no_silent_substitution:
  assumes "tier_wf context deps" and "resolveTier context deps = Inr res"
  shows "if tt_mappingSource (tr_trace res) = Fallback then fallback_permitted context deps res
     else mi_accessProviderId (me_identity (tr_model res)) = tc_accessProviderId context
        \<and> tt_fallbackReason (tr_trace res) = None
        \<and> (tt_mappingSource (tr_trace res) = Derived
            \<longrightarrow> mi_modelFamily (me_identity (tr_model res)) = resolveFamily context (td_registry deps))"
proof -
  let ?own = "tc_accessProviderId context"
  have wfs: "registry_wf (td_registry deps)" "CHR ''/'' \<notin> set ?own" using assms(1) by (simp_all add: tier_wf_def)
  consider
    (pinned) mapped failure message m where
      "exactTarget deps (base_selection deps ?own) mapped failure message = Inr m" "tr_model res = m"
      "tt_mappingSource (tr_trace res) \<in> {User_override, Reviewed_mapping}" "tt_fallbackReason (tr_trace res) = None"
  | (derived) f r where "resolveFamily context (td_registry deps) = Some f"
      "tier_select deps ((base_selection deps ?own)\<lparr>ms_preferredFamily := Some f\<rparr>) = Inr r"
      "tr_model res = mr_model r" "tt_mappingSource (tr_trace res) = Derived" "tt_fallbackReason (tr_trace res) = None"
  | (fallback) cause where "fallbackOrFail context deps (resolveFamily context (td_registry deps)) cause = Inr res"
    using assms(2) by (auto simp: resolveTier_def Let_def bind_ok_Inr_iff split: option.splits sum.splits)
  then show ?thesis
  proof cases
    case pinned
    with exactTarget_provider [OF wfs pinned(1)] show ?thesis by auto
  next
    case derived
    with tier_select_row [OF wfs(1) _ derived(2)] wfs(2) show ?thesis by (simp add: selection_domain_def)
  next
    case fallback
    with fallbackOrFail_permitted [OF assms(1)] show ?thesis by simp
  qed
qed

section \<open>The shipped mapping\<close>

definition shipped_dependencies :: tier_dependencies where
  "shipped_dependencies =
     \<lparr>td_registry = directProviderRegistry, td_mapping = defaultTierMapping, td_requiredCapabilities = [],
      td_reasoning = None, td_allowExperimental = False, td_effective = None, td_fallbackProviderIds = None\<rparr>"

definition tier_context :: "string \<Rightarrow> string option \<Rightarrow> string option \<Rightarrow> logical_tier \<Rightarrow> tier_resolution_context" where
  "tier_context provider parent family tier =
     \<lparr>tc_requestedTier = tier, tc_accessProviderId = provider, tc_parentModelId = parent, tc_modelFamily = family,
      tc_explicitUserMapping = None, tc_allowCrossFamilyFallback = False, tc_allowCrossProviderFallback = False\<rparr>"

definition shipped_paths :: "(string \<times> string) list" where
  "shipped_paths =
     js_uniq (List.map_filter (\<lambda>m. map_option (Pair (mi_accessProviderId (me_identity m))) (mi_modelFamily (me_identity m)))
       (registry_models directProviderRegistry))"

text \<open>The shipped mapping resolves, inside its family. For every tier and every path (provider and family) of the shipped
  registry, the tier resolves exactly when the shipped mapping has an entry for it, the answer comes from that entry,
  and it is a model of that provider and that family; a tier without an entry fails with tier-unavailable, because
  no shipped model is VERIFIED.\<close>

theorem shipped_tiers_stay_in_family:
  "list_all (\<lambda>tier. list_all (\<lambda>(provider, family).
       case tier_mapped shipped_dependencies provider family tier of
         Some target \<Rightarrow>
           (case resolveTier (tier_context provider None (Some family) tier) shipped_dependencies of
              Inl _ \<Rightarrow> False
            | Inr res \<Rightarrow> tt_mappingSource (tr_trace res) = Reviewed_mapping
                \<and> me_identity (tr_model res)
                    = \<lparr>mi_accessProviderId = provider, mi_upstreamModelId = target, mi_modelFamily = Some family\<rparr>)
       | None \<Rightarrow>
           (case resolveTier (tier_context provider None (Some family) tier) shipped_dependencies of
              Inl e \<Rightarrow> te_code e = Tier_unavailable | Inr _ \<Rightarrow> False))
     shipped_paths) LOGICAL_TIERS"
  by code_simp

lemma shipped_wf: "tier_wf (tier_context ''cline'' parent family tier) shipped_dependencies"
  using directProviderRegistry_wf by (simp add: tier_wf_def tier_context_def shipped_dependencies_def)

definition demo_tier :: tier_resolution_context where
  "demo_tier = tier_context ''cline'' (Some ''gpt-5.6-terra'') None Fable"

lemma demo_tier_wf: "tier_wf demo_tier shipped_dependencies"
  unfolding demo_tier_def by (rule shipped_wf)

lemma demo_tier_plan:
  "(case tier_plan demo_tier shipped_dependencies of
      Some (source, input, failure) \<Rightarrow> source = Reviewed_mapping \<and> failure = Mapping_invalid
        \<and> ms_exactModelId input = Some ''gpt-5.6-sol''
        \<and> map_option me_logicalId (tier_pick shipped_dependencies input) = Some ''cline/gpt-5.6-sol''
    | None \<Rightarrow> False)"
  by code_simp

theorem resolveTier_contract_witness:
  "\<exists>m. tier_outcome (resolveTier demo_tier shipped_dependencies) = Inr (Reviewed_mapping, m)
     \<and> me_logicalId m = ''cline/gpt-5.6-sol''"
proof -
  have "\<not> tc_allowCrossFamilyFallback demo_tier" "\<not> tc_allowCrossProviderFallback demo_tier"
    by (simp_all add: demo_tier_def tier_context_def)
  from resolveTier_contract [OF demo_tier_wf this] demo_tier_plan show ?thesis
    by (auto split: option.splits prod.splits)
qed

lemma demo_tier_ok: "is_ok (resolveTier demo_tier shipped_dependencies)"
  by code_simp

theorem tier_pin_is_final_witness:
  "\<exists>res. resolveTier demo_tier shipped_dependencies = Inr res
     \<and> mi_upstreamModelId (me_identity (tr_model res)) = ''gpt-5.6-sol'' \<and> tt_fallbackReason (tr_trace res) = None"
proof -
  obtain res where run: "resolveTier demo_tier shipped_dependencies = Inr res"
    using demo_tier_ok by (auto simp: is_ok_def split: sum.splits)
  obtain source input failure where plan: "tier_plan demo_tier shipped_dependencies = Some (source, input, failure)"
    and pinned: "source \<noteq> Derived" "ms_exactModelId input = Some ''gpt-5.6-sol''"
    using demo_tier_plan by (auto split: option.splits)
  from tier_pin_is_final [OF demo_tier_wf plan pinned(1)] run pinned(2) show ?thesis by auto
qed

theorem tier_no_silent_substitution_witness:
  "\<exists>res. resolveTier demo_tier shipped_dependencies = Inr res
     \<and> (if tt_mappingSource (tr_trace res) = Fallback then fallback_permitted demo_tier shipped_dependencies res
        else mi_accessProviderId (me_identity (tr_model res)) = ''cline'')"
proof -
  obtain res where run: "resolveTier demo_tier shipped_dependencies = Inr res"
    using demo_tier_ok by (auto simp: is_ok_def split: sum.splits)
  from tier_no_silent_substitution [OF demo_tier_wf this] run show ?thesis
    by (auto simp: demo_tier_def tier_context_def split: if_splits)
qed

end
