(* ===== verification/Model_Projection.thy ===== *)
theory Model_Projection
  imports Model_Tiers Control_Plane_Reachable
begin

text \<open>
  The discovery projection: \<^verbatim>\<open>src/routing/model-projection/\<close> (\<^verbatim>\<open>types.ts\<close>, \<^verbatim>\<open>project.ts\<close>),
  the model universe a launch session pins and the way back from a projection id to its target.

  Two parameters: \<open>sha\<close>, the hexadecimal SHA-256 of \<^verbatim>\<open>node:crypto\<close>, and \<open>collate\<close>, the sort
  key \<open>localeCompare\<close> compares by. Case conversion is that of ASCII. The tables of labels are
  association lists: the names of \<open>Object.prototype\<close> are left out.
\<close>

section \<open>Types\<close>

record provider_pool_binding =
  pb_providerId :: string
  pb_providerName :: string
  pb_poolId :: string

record model_universe_snapshot =
  mu_policyRevision :: int
  mu_policyHash :: string
  mu_registryRevision :: int
  mu_bindings :: "provider_pool_binding list"
  mu_experimentalModels :: bool

record model_projection =
  mp_id :: string
  mp_displayName :: string
  mp_providerId :: string
  mp_providerName :: string
  mp_poolId :: string
  mp_upstreamModelId :: string
  mp_modelFamily :: "string option"
  mp_compatibilityState :: compatibility_state
  mp_effectiveLabel :: "effective_label option"
  mp_verifiedAt :: string

record model_projection_trace =
  pt_projectionId :: string
  pt_displayName :: string
  pt_providerId :: string
  pt_upstreamModelId :: string
  pt_poolId :: string
  pt_policyRevision :: int
  pt_registryRevision :: int

section \<open>Labels and ids\<close>

definition PROVIDER_LABELS :: "(string \<times> string) list" where
  "PROVIDER_LABELS =
     [(''openrouter'', ''OpenRouter''), (''deepseek'', ''DeepSeek''), (''codex'', ''Codex''), (''cline'', ''ClinePass''),
      (''gemini'', ''Gemini''), (''antigravity'', ''Antigravity''), (''claude'', ''Claude''),
      (''opencode-go'', ''OpenCode Go''), (''alibaba'', ''Alibaba'')]"

definition MODEL_LABELS :: "(string \<times> string) list" where
  "MODEL_LABELS =
     [(''gpt-5.6-sol'', ''GPT-5.6 Sol''), (''gpt-5.6-terra'', ''GPT-5.6 Terra''), (''gpt-5.4'', ''GPT-5.4''),
      (''deepseek-v4-pro'', ''DeepSeek V4 Pro''), (''deepseek-v4-flash'', ''DeepSeek V4 Flash''),
      (''claude-sonnet-4-5'', ''Claude Sonnet 4.5''), (''claude-opus-4-8'', ''Claude Opus 4.8''),
      (''claude-fable'', ''Claude Fable''),
      (''nvidia/nemotron-3.5-lightning:free'', ''NVIDIA Nemotron 3.5 Lightning (Free)''),
      (''nvidia/nemotron-nano-12b-v2-vl:free'', ''NVIDIA Nemotron Nano 12B V2 VL (Free)''),
      (''openai/gpt-oss-20b:free'', ''OpenAI GPT-OSS 20B (Free)'')]"

definition ACRONYMS :: "string list" where
  "ACRONYMS = [''gpt'', ''api'', ''ai'', ''cli'', ''ui'', ''json'', ''oss'', ''vl'', ''id'']"

definition js_upper_char :: "char \<Rightarrow> char" where
  "js_upper_char c = (if is_lower c then char_of (of_char c - 32 :: nat) else c)"

definition label_separator :: "char \<Rightarrow> bool" where
  "label_separator c \<longleftrightarrow> c \<in> {CHR ''-'', CHR ''_'', CHR ''/'', CHR '':''}"

fun word_tokens :: "string \<Rightarrow> string \<Rightarrow> string list" where
  "word_tokens [] cur = (if cur = [] then [] else [rev cur])"
| "word_tokens (c # cs) cur =
     (if label_separator c then (if cur = [] then [] else [rev cur]) @ word_tokens cs []
      else word_tokens cs (c # cur))"

definition humanize_token :: "string \<Rightarrow> string" where
  "humanize_token t =
     (case t of
        [] \<Rightarrow> []
      | c # rest \<Rightarrow>
          if is_digit c then t
          else if js_to_lower t \<in> set ACRONYMS then map js_upper_char (js_to_lower t)
          else js_upper_char c # rest)"

fun join_words :: "string list \<Rightarrow> string" where
  "join_words [] = []"
| "join_words [w] = w"
| "join_words (w # ws) = w @ '' '' @ join_words ws"

definition humanizeModelId :: "string \<Rightarrow> string" where
  "humanizeModelId upstreamModelId = join_words (map humanize_token (word_tokens upstreamModelId []))"

definition providerDisplayName :: "string \<Rightarrow> string" where
  "providerDisplayName providerName = get_or (humanizeModelId providerName) (map_of PROVIDER_LABELS providerName)"

definition modelDisplayName :: "string \<Rightarrow> string" where
  "modelDisplayName upstreamModelId = get_or (humanizeModelId upstreamModelId) (map_of MODEL_LABELS upstreamModelId)"

text \<open>\<open>replace(/[^a-z0-9]+/g, "-")\<close>: every run of other characters becomes one dash.\<close>

fun dash_runs :: "bool \<Rightarrow> string \<Rightarrow> string" where
  "dash_runs in_run [] = []"
| "dash_runs in_run (c # cs) =
     (if is_lower c \<or> is_digit c then c # dash_runs False cs
      else if in_run then dash_runs True cs
      else CHR ''-'' # dash_runs True cs)"

definition strip_dashes :: "string \<Rightarrow> string" where
  "strip_dashes s = rev (dropWhile (\<lambda>c. c = CHR ''-'') (rev (dropWhile (\<lambda>c. c = CHR ''-'') s)))"

definition providerSlug :: "string \<Rightarrow> string" where
  "providerSlug providerName =
     (let slug = strip_dashes (dash_runs False (js_to_lower providerName))
      in if slug = [] then ''provider'' else slug)"

definition projectionIdFor :: "(string \<Rightarrow> string) \<Rightarrow> string \<Rightarrow> string \<Rightarrow> string" where
  "projectionIdFor sha providerName upstreamModelId =
     RLY_MODEL_PREFIX @ providerSlug providerName @ ''-'' @ take 12 (sha (providerName @ CHR 0x00 # upstreamModelId))"

section \<open>Projection of the registry\<close>

text \<open>A \<open>Map\<close> of answers is iterated in insertion order.\<close>

fun label_rank :: "effective_label \<Rightarrow> nat" where
  "label_rank Label_trusted = 0"
| "label_rank Label_experimental = 1"
| "label_rank Label_stale = 2"
| "label_rank Label_untrusted = 3"
| "label_rank Label_missing = 4"
| "label_rank Label_quarantined = 5"

definition worstEffectiveLabel :: "(claim_feature \<times> effective_compatibility) list \<Rightarrow> effective_label" where
  "worstEffectiveLabel answers =
     foldl (\<lambda>worst (_, result). if label_rank worst < label_rank (ec_effective result) then ec_effective result else worst)
       Label_missing answers"

definition projectionFor ::
  "(string \<Rightarrow> string) \<Rightarrow> provider_pool_binding \<Rightarrow> model_evidence
     \<Rightarrow> (claim_feature \<times> effective_compatibility) list option \<Rightarrow> model_projection" where
  "projectionFor sha binding evidence effective =
     (let upstream = mi_upstreamModelId (me_identity evidence)
      in \<lparr>mp_id = projectionIdFor sha (pb_providerName binding) upstream,
          mp_displayName = modelDisplayName upstream @ '' ('' @ providerDisplayName (pb_providerName binding) @ '')'',
          mp_providerId = pb_providerId binding, mp_providerName = pb_providerName binding,
          mp_poolId = pb_poolId binding, mp_upstreamModelId = upstream,
          mp_modelFamily = mi_modelFamily (me_identity evidence),
          mp_compatibilityState = ce_state (me_compatibility evidence),
          mp_effectiveLabel = map_option worstEffectiveLabel effective,
          mp_verifiedAt = me_verifiedAt evidence\<rparr>)"

definition projectionEligible ::
  "model_evidence \<Rightarrow> (claim_feature \<times> effective_compatibility) list \<Rightarrow> bool \<Rightarrow> bool" where
  "projectionEligible evidence effective experimentalModels =
     (let features = requiredFeaturesForEvidence (me_capabilities evidence) (me_reasoning evidence);
          results = List.map_filter (map_of effective) features
      in if list_ex (\<lambda>r. ec_quarantine_active r \<or> ec_effective r = Label_quarantined) results then False
         else if list_all (\<lambda>r. ec_effective r = Label_trusted) results then True
         else if \<not> experimentalModels then False
         else list_all (\<lambda>r. ec_effective r = Label_experimental \<or> ec_effective r = Label_stale) results)"

definition seed_projected :: "model_evidence \<Rightarrow> bool \<Rightarrow> bool" where
  "seed_projected evidence experimentalModels \<longleftrightarrow>
     \<not> (ce_state (me_compatibility evidence) = BROKEN
        \<or> ce_state (me_compatibility evidence) = EXPERIMENTAL \<and> \<not> experimentalModels)"

definition project_row ::
  "(string \<Rightarrow> string) \<Rightarrow> bool \<Rightarrow> effective_snapshot option \<Rightarrow> provider_pool_binding \<Rightarrow> model_evidence
     \<Rightarrow> model_projection option" where
  "project_row sha experimentalModels effective binding evidence =
     (case effective of
        None \<Rightarrow> if seed_projected evidence experimentalModels then Some (projectionFor sha binding evidence None) else None
      | Some answers_of \<Rightarrow>
          (let answers = get_or [] (map_of answers_of (me_logicalId evidence))
           in if answers = [] then
                (if seed_projected evidence experimentalModels then Some (projectionFor sha binding evidence None) else None)
              else if projectionEligible evidence answers experimentalModels
                   then Some (projectionFor sha binding evidence (Some answers))
                   else None))"

definition projectModelUniverse ::
  "(string \<Rightarrow> string) \<Rightarrow> (string \<Rightarrow> 'k::linorder) \<Rightarrow> registry_document \<Rightarrow> model_universe_snapshot
     \<Rightarrow> effective_snapshot option \<Rightarrow> model_projection list" where
  "projectModelUniverse sha collate registry universe effective =
     concat (map (\<lambda>binding.
         List.map_filter (project_row sha (mu_experimentalModels universe) effective binding)
           (modelsForProvider registry (pb_providerName binding)))
       (sort_key (\<lambda>b. collate (pb_providerName b)) (mu_bindings universe)))"

definition resolveProjection ::
  "(string \<Rightarrow> string) \<Rightarrow> (string \<Rightarrow> 'k::linorder) \<Rightarrow> string \<Rightarrow> model_universe_snapshot \<Rightarrow> registry_document
     \<Rightarrow> effective_snapshot option \<Rightarrow> (model_projection \<times> provider_pool_binding \<times> model_evidence) option" where
  "resolveProjection sha collate projectionId universe registry effective =
     (if \<not> isProjectionId projectionId then None
      else case List.find (\<lambda>p. mp_id p = projectionId) (projectModelUniverse sha collate registry universe effective) of
             None \<Rightarrow> None
           | Some projection \<Rightarrow>
               (case List.find (\<lambda>b. pb_providerName b = mp_providerName projection \<and> pb_poolId b = mp_poolId projection)
                       (mu_bindings universe) of
                  None \<Rightarrow> None
                | Some binding \<Rightarrow>
                    (case findModelEvidence registry (mp_providerName projection) (mp_upstreamModelId projection) of
                       None \<Rightarrow> None
                     | Some evidence \<Rightarrow> Some (projection, binding, evidence))))"

definition createModelProjectionTrace :: "model_projection \<Rightarrow> model_universe_snapshot \<Rightarrow> model_projection_trace" where
  "createModelProjectionTrace projection universe =
     \<lparr>pt_projectionId = mp_id projection, pt_displayName = mp_displayName projection,
      pt_providerId = mp_providerId projection, pt_upstreamModelId = mp_upstreamModelId projection,
      pt_poolId = mp_poolId projection, pt_policyRevision = mu_policyRevision universe,
      pt_registryRevision = mu_registryRevision universe\<rparr>"

section \<open>The universe a session pins\<close>

definition ready_accounts :: "policy_snapshot \<Rightarrow> string list" where
  "ready_accounts snap = map acc_id (filter (\<lambda>a. acc_state a = Ready) (snap_accounts snap))"

definition poolIsEligible :: "policy_snapshot \<Rightarrow> string \<Rightarrow> bool" where
  "poolIsEligible snap poolId =
     (case List.find (\<lambda>p. pool_id p = poolId) (snap_pools snap) of
        None \<Rightarrow> False
      | Some pool \<Rightarrow> list_ex (\<lambda>m. mem_accountId m \<in> set (ready_accounts snap)) (memberships pool))"

definition addBinding ::
  "string \<Rightarrow> provider_record \<Rightarrow> (string \<times> provider_pool_binding) list \<Rightarrow> (string \<times> provider_pool_binding) list" where
  "addBinding poolId provider bindings =
     AList.update (prov_id provider)
       \<lparr>pb_providerId = prov_id provider, pb_providerName = prov_name provider, pb_poolId = poolId\<rparr> bindings"

definition profile_binding ::
  "policy_snapshot \<Rightarrow> profile_record option \<Rightarrow> (string \<times> provider_pool_binding) list" where
  "profile_binding snap profile =
     (case Option.bind profile prof_poolId of
        None \<Rightarrow> []
      | Some poolId \<Rightarrow>
          (case List.find (\<lambda>p. pool_id p = poolId) (snap_pools snap) of
             None \<Rightarrow> []
           | Some pool \<Rightarrow>
               (case List.find (\<lambda>p. prov_id p = pool_providerId pool) (snap_providers snap) of
                  None \<Rightarrow> []
                | Some provider \<Rightarrow>
                    if prov_enabled provider \<and> poolIsEligible snap (pool_id pool)
                    then addBinding (pool_id pool) provider [] else [])))"

definition eligible_pools :: "policy_snapshot \<Rightarrow> string \<Rightarrow> pool_record list" where
  "eligible_pools snap providerId =
     filter (\<lambda>p. pool_providerId p = providerId \<and> poolIsEligible snap (pool_id p)) (snap_pools snap)"

definition default_binding ::
  "policy_snapshot \<Rightarrow> (string \<times> provider_pool_binding) list \<Rightarrow> provider_record
     \<Rightarrow> (string \<times> provider_pool_binding) list" where
  "default_binding snap bindings provider =
     (if map_of bindings (prov_id provider) \<noteq> None \<or> \<not> prov_enabled provider then bindings
      else case eligible_pools snap (prov_id provider) of
             [pool] \<Rightarrow> addBinding (pool_id pool) provider bindings
           | _ \<Rightarrow> bindings)"

definition compileModelUniverseSnapshot ::
  "(string \<Rightarrow> 'k::linorder) \<Rightarrow> policy_revision \<Rightarrow> registry_document \<Rightarrow> profile_record option \<Rightarrow> bool option
     \<Rightarrow> model_universe_snapshot" where
  "compileModelUniverseSnapshot collate policy registry profile experimentalModels =
     (let snap = snapshot policy;
          bindings = foldl (default_binding snap) (profile_binding snap profile) (snap_providers snap)
      in \<lparr>mu_policyRevision = revision policy, mu_policyHash = policy_hash policy,
          mu_registryRevision = registryRevision registry,
          mu_bindings = sort_key (\<lambda>b. collate (pb_providerName b)) (map snd bindings),
          mu_experimentalModels = get_or False experimentalModels\<rparr>)"

section \<open>What is projected\<close>

lemma projection_row_iff:
  "p \<in> set (projectModelUniverse sha collate registry universe effective) \<longleftrightarrow>
     (\<exists>b \<in> set (mu_bindings universe). \<exists>e \<in> set (modelsForProvider registry (pb_providerName b)).
        project_row sha (mu_experimentalModels universe) effective b e = Some p)"
  by (auto simp: projectModelUniverse_def set_map_filter)

text \<open>When a row may be shown, on the row and its answers alone.\<close>

definition may_project :: "bool \<Rightarrow> effective_snapshot option \<Rightarrow> model_evidence \<Rightarrow> bool" where
  "may_project experimental effective e \<longleftrightarrow>
     (if authority_answers effective e = [] then
        ce_state (me_compatibility e) = VERIFIED \<or> ce_state (me_compatibility e) = EXPERIMENTAL \<and> experimental
      else
        (let answered = {a. \<exists>f \<in> set (requiredFeaturesForEvidence (me_capabilities e) (me_reasoning e)).
                              map_of (authority_answers effective e) f = Some a}
         in (\<forall>a \<in> answered. \<not> ec_quarantine_active a)
            \<and> ((\<forall>a \<in> answered. ec_effective a = Label_trusted)
               \<or> experimental \<and> (\<forall>a \<in> answered. ec_effective a \<in> {Label_experimental, Label_stale}))))"

lemma seed_projected_iff:
  "seed_projected e experimental \<longleftrightarrow>
     ce_state (me_compatibility e) = VERIFIED \<or> ce_state (me_compatibility e) = EXPERIMENTAL \<and> experimental"
  by (cases "ce_state (me_compatibility e)") (simp_all add: seed_projected_def)

lemma projectionEligible_iff:
  "projectionEligible e answers experimental \<longleftrightarrow>
     (let answered = {a. \<exists>f \<in> set (requiredFeaturesForEvidence (me_capabilities e) (me_reasoning e)). map_of answers f = Some a}
      in (\<forall>a \<in> answered. \<not> ec_quarantine_active a)
         \<and> ((\<forall>a \<in> answered. ec_effective a = Label_trusted)
            \<or> experimental \<and> (\<forall>a \<in> answered. ec_effective a \<in> {Label_experimental, Label_stale})))"
proof -
  let ?features = "requiredFeaturesForEvidence (me_capabilities e) (me_reasoning e)"
  let ?results = "set (List.map_filter (map_of answers) ?features)"
  have answered: "?results = {a. \<exists>f \<in> set ?features. map_of answers f = Some a}"
    by (rule set_eqI) (simp add: set_map_filter)
  have "projectionEligible e answers experimental \<longleftrightarrow>
      (\<forall>a \<in> ?results. \<not> ec_quarantine_active a \<and> ec_effective a \<noteq> Label_quarantined)
      \<and> ((\<forall>a \<in> ?results. ec_effective a = Label_trusted)
         \<or> experimental \<and> (\<forall>a \<in> ?results. ec_effective a = Label_experimental \<or> ec_effective a = Label_stale))"
    unfolding projectionEligible_def Let_def list_all_iff list_ex_iff by meson
  then show ?thesis
    unfolding answered [symmetric] Let_def by fastforce
qed

lemma project_row_iff:
  "(\<exists>p. project_row sha experimental effective b e = Some p) \<longleftrightarrow> may_project experimental effective e"
  by (cases effective)
    (auto simp: project_row_def may_project_def authority_answers_def Let_def seed_projected_iff projectionEligible_iff)

lemma project_row_fields:
  "project_row sha experimental effective b e = Some p \<Longrightarrow>
     mp_id p = projectionIdFor sha (pb_providerName b) (mi_upstreamModelId (me_identity e))
     \<and> mp_providerId p = pb_providerId b \<and> mp_providerName p = pb_providerName b \<and> mp_poolId p = pb_poolId b
     \<and> mp_upstreamModelId p = mi_upstreamModelId (me_identity e)"
  by (auto simp: project_row_def projectionFor_def Let_def split: option.splits if_splits)

text \<open>The projected universe is exact. An id is shown to the client exactly when some pinned binding and some row of the
  registry for that binding's provider give it and the row may be shown: without answers of the compatibility registry
  it is VERIFIED, or EXPERIMENTAL with the opt-in, and never BROKEN; with answers, none of the answered required
  features is quarantined, and they are all trusted, or with the opt-in all experimental or stale.\<close>

theorem projection_gate:
  "i \<in> mp_id ` set (projectModelUniverse sha collate registry universe effective) \<longleftrightarrow>
     (\<exists>b \<in> set (mu_bindings universe). \<exists>e \<in> set (registry_models registry).
        mi_accessProviderId (me_identity e) = pb_providerName b
        \<and> i = projectionIdFor sha (pb_providerName b) (mi_upstreamModelId (me_identity e))
        \<and> may_project (mu_experimentalModels universe) effective e)"
proof
  assume "i \<in> mp_id ` set (projectModelUniverse sha collate registry universe effective)"
  then obtain p b e where "i = mp_id p" and b: "b \<in> set (mu_bindings universe)"
    and e: "e \<in> set (modelsForProvider registry (pb_providerName b))"
    and row: "project_row sha (mu_experimentalModels universe) effective b e = Some p"
    by (auto simp: projection_row_iff)
  moreover have "may_project (mu_experimentalModels universe) effective e"
    using row project_row_iff by blast
  ultimately show "\<exists>b \<in> set (mu_bindings universe). \<exists>e \<in> set (registry_models registry).
      mi_accessProviderId (me_identity e) = pb_providerName b
      \<and> i = projectionIdFor sha (pb_providerName b) (mi_upstreamModelId (me_identity e))
      \<and> may_project (mu_experimentalModels universe) effective e"
    using project_row_fields [OF row] by (auto simp: modelsForProvider_def)
next
  assume "\<exists>b \<in> set (mu_bindings universe). \<exists>e \<in> set (registry_models registry).
      mi_accessProviderId (me_identity e) = pb_providerName b
      \<and> i = projectionIdFor sha (pb_providerName b) (mi_upstreamModelId (me_identity e))
      \<and> may_project (mu_experimentalModels universe) effective e"
  then obtain b e where b: "b \<in> set (mu_bindings universe)" and e: "e \<in> set (modelsForProvider registry (pb_providerName b))"
    and i: "i = projectionIdFor sha (pb_providerName b) (mi_upstreamModelId (me_identity e))"
    and may: "may_project (mu_experimentalModels universe) effective e"
    by (auto simp: modelsForProvider_def)
  obtain p where row: "project_row sha (mu_experimentalModels universe) effective b e = Some p"
    using may project_row_iff by blast
  with b e have "p \<in> set (projectModelUniverse sha collate registry universe effective)"
    unfolding projection_row_iff by blast
  moreover have "i = mp_id p" using i project_row_fields [OF row] by simp
  ultimately show "i \<in> mp_id ` set (projectModelUniverse sha collate registry universe effective)" by blast
qed

section \<open>Resolving a projection id\<close>

lemma projection_id_namespace: "isProjectionId (projectionIdFor sha provider model)"
  by (simp add: isProjectionId_def projectionIdFor_def)

definition universe_wf :: "registry_document \<Rightarrow> model_universe_snapshot \<Rightarrow> bool" where
  "universe_wf registry universe \<longleftrightarrow>
     registry_wf registry \<and> list_all (\<lambda>b. CHR ''/'' \<notin> set (pb_providerName b)) (mu_bindings universe)
     \<and> distinct (map pb_providerName (mu_bindings universe))"

lemma binding_found:
  assumes "distinct (map pb_providerName bindings)" and "b \<in> set bindings"
  shows "List.find (\<lambda>x. pb_providerName x = pb_providerName b \<and> pb_poolId x = pb_poolId b) bindings = Some b"
proof -
  have "List.find (\<lambda>x. pb_providerName x = pb_providerName b) bindings = Some b"
    using assms by (rule find_distinct_key)
  moreover have "x = b" if "x \<in> set bindings" "pb_providerName x = pb_providerName b" for x
    using assms that by (auto simp: distinct_map dest: inj_onD)
  ultimately show ?thesis by (metis (mono_tags, lifting) find_cong_set)
qed

lemma resolve_row:
  assumes wf: "universe_wf registry universe"
    and ids: "distinct (map mp_id (projectModelUniverse sha collate registry universe effective))"
    and b: "b \<in> set (mu_bindings universe)" and e: "e \<in> set (modelsForProvider registry (pb_providerName b))"
    and row: "project_row sha (mu_experimentalModels universe) effective b e = Some p"
  shows "resolveProjection sha collate (mp_id p) universe registry effective = Some (p, b, e)"
proof -
  have member: "p \<in> set (projectModelUniverse sha collate registry universe effective)"
    using b e row by (auto simp: projection_row_iff)
  have bindings: "distinct (map pb_providerName (mu_bindings universe))" and registry: "registry_wf registry"
    and slash: "CHR ''/'' \<notin> set (pb_providerName b)"
    using wf b by (auto simp: universe_wf_def list_all_iff)
  have fields: "mp_id p = projectionIdFor sha (pb_providerName b) (mi_upstreamModelId (me_identity e))"
      "mp_providerName p = pb_providerName b" "mp_poolId p = pb_poolId b"
      "mp_upstreamModelId p = mi_upstreamModelId (me_identity e)"
    using project_row_fields [OF row] by simp_all
  have "findModelEvidence registry (pb_providerName b) (mi_upstreamModelId (me_identity e)) = Some e"
    unfolding findModelEvidence_iff [OF registry slash] using e by (simp add: modelsForProvider_def)
  with fields find_distinct_key [OF ids member] binding_found [OF bindings b] projection_id_namespace show ?thesis
    by (simp add: resolveProjection_def)
qed

text \<open>A projection id resolves to what was shown. Take a universe over a reviewed registry whose bindings name every
  provider once and whose ids do not collide. Every shown entry's id is classified as an exact projection and resolves
  to that entry, its pinned binding and the registry row of that provider and that upstream model.\<close>

theorem projection_round_trip:
  assumes "universe_wf registry universe"
    and "distinct (map mp_id (projectModelUniverse sha collate registry universe effective))"
    and "p \<in> set (projectModelUniverse sha collate registry universe effective)"
  shows "classifyModelIntent (mp_id p) = Inr (Exact_projection (mp_id p))
     \<and> (\<exists>b e. resolveProjection sha collate (mp_id p) universe registry effective = Some (p, b, e)
          \<and> b \<in> set (mu_bindings universe) \<and> e \<in> set (registry_models registry)
          \<and> mp_poolId p = pb_poolId b \<and> mi_accessProviderId (me_identity e) = pb_providerName b
          \<and> mi_upstreamModelId (me_identity e) = mp_upstreamModelId p)"
proof -
  obtain b e where b: "b \<in> set (mu_bindings universe)" and e: "e \<in> set (modelsForProvider registry (pb_providerName b))"
    and row: "project_row sha (mu_experimentalModels universe) effective b e = Some p"
    using assms(3) by (auto simp: projection_row_iff)
  have "isProjectionId (mp_id p)" using project_row_fields [OF row] projection_id_namespace by simp
  then have "classifyModelIntent (mp_id p) = Inr (Exact_projection (mp_id p))"
    using namespaces_disjoint by (auto simp: classifyModelIntent_def)
  with resolve_row [OF assms(1,2) b e row] project_row_fields [OF row] b e show ?thesis
    by (auto simp: modelsForProvider_def)
qed

section \<open>The pinned bindings\<close>

definition policy_wf :: "policy_snapshot \<Rightarrow> bool" where
  "policy_wf snap \<longleftrightarrow> distinct (map prov_id (snap_providers snap)) \<and> distinct (map pool_id (snap_pools snap))"

text \<open>The pool a provider is bound to: the profile's own eligible pool, else its only eligible one.\<close>

definition bound_pool :: "policy_snapshot \<Rightarrow> profile_record option \<Rightarrow> string \<Rightarrow> string option" where
  "bound_pool snap profile providerId =
     (case filter (\<lambda>p. Option.bind profile prof_poolId = Some (pool_id p)) (eligible_pools snap providerId) of
        own # _ \<Rightarrow> Some (pool_id own)
      | [] \<Rightarrow> (case eligible_pools snap providerId of [only] \<Rightarrow> Some (pool_id only) | _ \<Rightarrow> None))"

definition provider_binding :: "provider_record \<Rightarrow> string \<Rightarrow> provider_pool_binding" where
  "provider_binding provider poolId =
     \<lparr>pb_providerId = prov_id provider, pb_providerName = prov_name provider, pb_poolId = poolId\<rparr>"

lemma default_binding_lookup:
  "map_of (default_binding snap bindings provider) i =
     (if map_of bindings i = None \<and> i = prov_id provider \<and> prov_enabled provider
      then (case eligible_pools snap i of [pool] \<Rightarrow> Some (provider_binding provider (pool_id pool)) | _ \<Rightarrow> None)
      else map_of bindings i)"
  by (auto simp: default_binding_def addBinding_def provider_binding_def update_conv' split: list.splits)

lemma default_bindings_lookup:
  assumes "distinct (map prov_id providers)" and "provider \<in> set providers"
  shows "map_of (foldl (default_binding snap) bindings providers) (prov_id provider) =
     (case map_of bindings (prov_id provider) of
        Some b \<Rightarrow> Some b
      | None \<Rightarrow>
          if prov_enabled provider
          then (case eligible_pools snap (prov_id provider) of
                  [pool] \<Rightarrow> Some (provider_binding provider (pool_id pool)) | _ \<Rightarrow> None)
          else None)"
  using assms
proof (induction providers arbitrary: bindings)
  case (Cons q qs)
  show ?case
  proof (cases "q = provider")
    case True
    have rest: "map_of (foldl (default_binding snap) bs qs) (prov_id provider) = map_of bs (prov_id provider)" for bs
      using Cons.prems(1) True
    proof (induction qs arbitrary: bs)
      case (Cons r rs)
      then have "map_of (default_binding snap bs r) (prov_id provider) = map_of bs (prov_id provider)"
        by (simp add: default_binding_lookup)
      with Cons show ?case by simp
    qed simp
    with True show ?thesis by (auto simp: default_binding_lookup split: option.splits list.splits)
  next
    case False
    with Cons.prems have "provider \<in> set qs" and "prov_id provider \<noteq> prov_id q" by (auto simp: rev_image_eqI)
    with Cons.IH [of "default_binding snap bindings q"] Cons.prems(1) show ?thesis
      by (simp add: default_binding_lookup)
  qed
qed simp

lemma default_bindings_keys:
  "map_of (foldl (default_binding snap) bindings providers) i \<noteq> None \<Longrightarrow>
     map_of bindings i \<noteq> None \<or> i \<in> set (map prov_id providers)"
proof (induction providers arbitrary: bindings)
  case (Cons q qs)
  then have "map_of (default_binding snap bindings q) i \<noteq> None \<or> i \<in> set (map prov_id qs)" by simp
  moreover have "map_of (default_binding snap bindings q) i \<noteq> None \<Longrightarrow> map_of bindings i \<noteq> None \<or> i = prov_id q"
    unfolding default_binding_lookup by (simp split: if_splits)
  ultimately show ?case by auto
qed simp

definition bindings_wf :: "(string \<times> provider_pool_binding) list \<Rightarrow> bool" where
  "bindings_wf bindings \<longleftrightarrow> distinct (map fst bindings) \<and> (\<forall>(i, b) \<in> set bindings. pb_providerId b = i)"

lemma addBinding_wf: "bindings_wf bindings \<Longrightarrow> bindings_wf (addBinding poolId provider bindings)"
proof -
  assume wf: "bindings_wf bindings"
  then have "distinct (map fst (addBinding poolId provider bindings))"
    by (simp add: bindings_wf_def addBinding_def distinct_update)
  moreover have "pb_providerId b = i" if "(i, b) \<in> set (addBinding poolId provider bindings)" for i b
  proof -
    have "map_of (addBinding poolId provider bindings) i = Some b"
      using that \<open>distinct (map fst (addBinding poolId provider bindings))\<close> by simp
    then show ?thesis
      using wf by (auto simp: addBinding_def update_conv' bindings_wf_def split: if_splits dest: map_of_SomeD)
  qed
  ultimately show ?thesis by (auto simp: bindings_wf_def)
qed

lemma default_binding_wf:
  assumes "bindings_wf bindings"
  shows "bindings_wf (default_binding snap bindings provider)"
proof -
  have "default_binding snap bindings provider = bindings
      \<or> (\<exists>pool :: pool_record. default_binding snap bindings provider = addBinding (pool_id pool) provider bindings)"
    unfolding default_binding_def by (auto split: list.splits)
  with assms addBinding_wf show ?thesis by metis
qed

lemma default_bindings_wf: "bindings_wf bindings \<Longrightarrow> bindings_wf (foldl (default_binding snap) bindings providers)"
proof (induction providers arbitrary: bindings)
  case (Cons q qs)
  then show ?case using default_binding_wf by simp
qed simp

lemma profile_binding_wf: "bindings_wf (profile_binding snap profile)"
  by (auto simp: profile_binding_def bindings_wf_def addBinding_def split: option.splits)

lemma profile_binding_lookup:
  assumes wf: "policy_wf snap" and provider: "provider \<in> set (snap_providers snap)"
  shows "map_of (profile_binding snap profile) (prov_id provider) =
     (if prov_enabled provider
      then (case filter (\<lambda>p. Option.bind profile prof_poolId = Some (pool_id p)) (eligible_pools snap (prov_id provider)) of
              own # _ \<Rightarrow> Some (provider_binding provider (pool_id own)) | [] \<Rightarrow> None)
      else None)"
proof (cases "Option.bind profile prof_poolId")
  case None
  then show ?thesis by (simp add: profile_binding_def)
next
  case (Some k)
  let ?own = "filter (\<lambda>p. Some k = Some (pool_id p)) (eligible_pools snap (prov_id provider))"
  show ?thesis
  proof (cases "List.find (\<lambda>p. pool_id p = k) (snap_pools snap)")
    case None
    then have "?own = []" by (auto simp: find_None_iff eligible_pools_def filter_empty_conv)
    with None Some show ?thesis by (simp add: profile_binding_def)
  next
    case (Some pool)
    note pool = find_Some_in [OF Some]
    have pools: "distinct (map pool_id (snap_pools snap))" and providers: "distinct (map prov_id (snap_providers snap))"
      using wf by (simp_all add: policy_wf_def)
    have only: "q = pool" if "q \<in> set (snap_pools snap)" "pool_id q = k" for q
      using pools pool that by (metis distinct_map inj_onD)
    have own: "?own = (if pool_providerId pool = prov_id provider \<and> poolIsEligible snap k then [pool] else [])"
    proof (cases "pool_providerId pool = prov_id provider \<and> poolIsEligible snap k")
      case True
      then have "filter (\<lambda>p. pool_id p = k) (eligible_pools snap (prov_id provider)) = [pool]"
        using pools pool only by (intro filter_unique) (auto simp: eligible_pools_def distinct_map)
      then show ?thesis using True by (simp add: eq_commute)
    next
      case False
      then show ?thesis using only by (auto simp: filter_empty_conv eligible_pools_def)
    qed
    show ?thesis
    proof (cases "pool_providerId pool = prov_id provider")
      case True
      have "List.find (\<lambda>p. prov_id p = prov_id provider) (snap_providers snap) = Some provider"
        using providers provider by (rule find_distinct_key)
      with True \<open>Option.bind profile prof_poolId = Some k\<close> Some own pool show ?thesis
        by (simp add: profile_binding_def addBinding_def provider_binding_def)
    next
      case False
      have "map_of (profile_binding snap profile) (prov_id provider) = None"
        using False \<open>Option.bind profile prof_poolId = Some k\<close> Some
        by (auto simp: profile_binding_def addBinding_def split: option.splits dest: find_Some_in)
      with False own \<open>Option.bind profile prof_poolId = Some k\<close> show ?thesis by simp
    qed
  qed
qed

lemma compiled_lookup:
  assumes wf: "policy_wf snap" and provider: "provider \<in> set (snap_providers snap)"
  shows "map_of (foldl (default_binding snap) (profile_binding snap profile) (snap_providers snap)) (prov_id provider) =
     (if prov_enabled provider then map_option (provider_binding provider) (bound_pool snap profile (prov_id provider)) else None)"
proof -
  have "distinct (map prov_id (snap_providers snap))" using wf by (simp add: policy_wf_def)
  from default_bindings_lookup [OF this provider, of snap "profile_binding snap profile"]
    profile_binding_lookup [OF wf provider, of profile]
  show ?thesis by (simp add: bound_pool_def split: list.splits option.splits)
qed

lemma compiled_wf: "bindings_wf (foldl (default_binding snap) (profile_binding snap profile) providers)"
  using profile_binding_wf by (rule default_bindings_wf)

lemma compiled_members:
  assumes "policy_wf snap"
  shows "b \<in> set (map snd (foldl (default_binding snap) (profile_binding snap profile) (snap_providers snap))) \<longleftrightarrow>
     (\<exists>provider k. b = provider_binding provider k \<and> provider \<in> set (snap_providers snap)
        \<and> prov_enabled provider \<and> bound_pool snap profile (prov_id provider) = Some k)"
proof
  let ?alist = "foldl (default_binding snap) (profile_binding snap profile) (snap_providers snap)"
  assume "b \<in> set (map snd ?alist)"
  then obtain i where found: "map_of ?alist i = Some b" using compiled_wf by (fastforce simp: bindings_wf_def)
  then have "map_of (profile_binding snap profile) i \<noteq> None \<or> i \<in> set (map prov_id (snap_providers snap))"
    using default_bindings_keys [of snap "profile_binding snap profile" "snap_providers snap" i] by simp
  moreover have "i \<in> set (map prov_id (snap_providers snap))" if "map_of (profile_binding snap profile) i \<noteq> None"
    using that by (auto simp: profile_binding_def addBinding_def split: option.splits if_splits
        dest: find_Some_in [OF sym])
  ultimately obtain provider where provider: "provider \<in> set (snap_providers snap)" "i = prov_id provider" by auto
  from compiled_lookup [OF assms provider(1), of profile] found provider(2)
  show "\<exists>provider k. b = provider_binding provider k \<and> provider \<in> set (snap_providers snap)
      \<and> prov_enabled provider \<and> bound_pool snap profile (prov_id provider) = Some k"
    using provider(1) by (auto split: if_splits)
next
  let ?alist = "foldl (default_binding snap) (profile_binding snap profile) (snap_providers snap)"
  assume "\<exists>provider k. b = provider_binding provider k \<and> provider \<in> set (snap_providers snap)
      \<and> prov_enabled provider \<and> bound_pool snap profile (prov_id provider) = Some k"
  then obtain provider where "provider \<in> set (snap_providers snap)" "map_of ?alist (prov_id provider) = Some b"
    using compiled_lookup [OF assms, of _ profile] by auto
  then have "(prov_id provider, b) \<in> set ?alist" by (intro map_of_SomeD)
  then show "b \<in> set (map snd ?alist)" by force
qed

text \<open>The pinned bindings are forced. In a policy whose provider ids and pool ids are distinct, the universe binds exactly
  the enabled providers that have a pool to bind, each once: the profile's own pool when it is the provider's and has a
  ready account, else the provider's only pool with a ready account. A provider with several such pools and no
  profile pool is bound to none of them.\<close>

theorem universe_bindings_forced:
  assumes "policy_wf (snapshot policy)"
  shows "set (mu_bindings (compileModelUniverseSnapshot collate policy registry profile experimental))
       = {provider_binding provider k | provider k. provider \<in> set (snap_providers (snapshot policy))
            \<and> prov_enabled provider \<and> bound_pool (snapshot policy) profile (prov_id provider) = Some k}
     \<and> distinct (map pb_providerId (mu_bindings (compileModelUniverseSnapshot collate policy registry profile experimental)))"
proof (intro conjI set_eqI)
  let ?alist = "foldl (default_binding (snapshot policy)) (profile_binding (snapshot policy) profile)
                  (snap_providers (snapshot policy))"
  have bindings: "mu_bindings (compileModelUniverseSnapshot collate policy registry profile experimental)
      = sort_key (\<lambda>b. collate (pb_providerName b)) (map snd ?alist)"
    by (simp add: compileModelUniverseSnapshot_def Let_def)
  show "b \<in> set (mu_bindings (compileModelUniverseSnapshot collate policy registry profile experimental)) \<longleftrightarrow>
      b \<in> {provider_binding provider k | provider k. provider \<in> set (snap_providers (snapshot policy))
            \<and> prov_enabled provider \<and> bound_pool (snapshot policy) profile (prov_id provider) = Some k}" for b
    unfolding bindings set_sort mem_Collect_eq by (rule compiled_members [OF assms])
  have keys: "distinct (map fst ?alist)" and ids: "map pb_providerId (map snd ?alist) = map fst ?alist"
    using compiled_wf [of "snapshot policy" profile "snap_providers (snapshot policy)"]
    by (auto simp: bindings_wf_def)
  then have "distinct (map snd ?alist)" "inj_on pb_providerId (set (map snd ?alist))"
    unfolding ids [symmetric] by (simp_all only: distinct_map)
  then show "distinct (map pb_providerId (mu_bindings (compileModelUniverseSnapshot collate policy registry profile experimental)))"
    unfolding bindings by (simp add: distinct_map)
qed

section \<open>Examples and divergences\<close>

text \<open>
  The label of a shown entry says nothing: the scan starts at \<open>missing\<close>, which all labels but
  \<open>quarantined\<close> are better than, so it answers \<open>missing\<close> for a wholly trusted path.
\<close>

lemma worst_step:
  "w \<in> {Label_missing, Label_quarantined} \<Longrightarrow>
     (if label_rank w < label_rank l then l else w)
       = (if w = Label_quarantined \<or> l = Label_quarantined then Label_quarantined else Label_missing)"
  by (cases l) auto

lemma worst_fold:
  "w \<in> {Label_missing, Label_quarantined} \<Longrightarrow>
     foldl (\<lambda>worst (_, result). if label_rank worst < label_rank (ec_effective result) then ec_effective result else worst)
       w answers
     = (if w = Label_quarantined \<or> list_ex (\<lambda>(_, a). ec_effective a = Label_quarantined) answers
        then Label_quarantined else Label_missing)"
proof (induction answers arbitrary: w)
  case (Cons a answers)
  obtain f r where a: "a = (f, r)" by (cases a)
  show ?case
    using Cons.prems Cons.IH [of "if w = Label_quarantined \<or> ec_effective r = Label_quarantined then Label_quarantined else Label_missing"]
    by (simp only: a foldl_Cons prod.case worst_step) simp
qed auto

lemma worst_label_is_missing:
  "worstEffectiveLabel answers =
     (if list_ex (\<lambda>(_, a). ec_effective a = Label_quarantined) answers then Label_quarantined else Label_missing)"
  unfolding worstEffectiveLabel_def by (subst worst_fold) simp_all

definition demo_row :: model_evidence where
  "demo_row = shipped ''cline'' ''gpt-5.6-sol'' ''openai/codex'' ''2026-08-21'' ''cline-interop-chat-v1''
                conservativeCapabilities CLINE_E2E_REF"

definition demo_answers :: "effective_label \<Rightarrow> effective_label \<Rightarrow> (claim_feature \<times> effective_compatibility) list" where
  "demo_answers text_label other =
     map (\<lambda>f. (f, demo_answer f (if f = Gate_feature Gate_text then text_label else other)))
       (requiredFeaturesForEvidence (me_capabilities demo_row) (me_reasoning demo_row))"

text \<open>Earning trust for one feature hides a path the opt-in showed.\<close>

lemma partly_trusted_is_hidden:
  "projectionEligible demo_row (demo_answers Label_experimental Label_experimental) True
     \<and> \<not> projectionEligible demo_row (demo_answers Label_trusted Label_experimental) True"
  by code_simp

text \<open>Answers for none of the required features count as trust in all of them.\<close>

lemma unanswered_features_are_shown:
  "projectionEligible demo_row [(Config_overlay, demo_answer Config_overlay Label_untrusted)] False"
  by code_simp

definition demo_binding :: provider_pool_binding where
  "demo_binding = \<lparr>pb_providerId = ''p1'', pb_providerName = ''cline'', pb_poolId = ''k1''\<rparr>"

definition demo_universe :: model_universe_snapshot where
  "demo_universe =
     \<lparr>mu_policyRevision = 1, mu_policyHash = ''h'', mu_registryRevision = 5, mu_bindings = [demo_binding],
      mu_experimentalModels = True\<rparr>"

definition demo_registry :: registry_document where
  "demo_registry = \<lparr>registryRevision = 5, registry_models = [demo_row]\<rparr>"

lemma demo_universe_runs:
  "universe_wf demo_registry demo_universe"
  "map mp_upstreamModelId (projectModelUniverse rev length demo_registry demo_universe None) = [''gpt-5.6-sol'']"
  by code_simp+

theorem projection_round_trip_witness:
  "\<exists>p b e. resolveProjection rev length (mp_id p) demo_universe demo_registry None = Some (p, b, e)
     \<and> mp_upstreamModelId p = ''gpt-5.6-sol''"
proof -
  obtain p where shown: "projectModelUniverse rev length demo_registry demo_universe None = [p]"
    and model: "mp_upstreamModelId p = ''gpt-5.6-sol''"
    using demo_universe_runs(2) by auto
  from shown have "distinct (map mp_id (projectModelUniverse rev length demo_registry demo_universe None))"
    "p \<in> set (projectModelUniverse rev length demo_registry demo_universe None)" by simp_all
  from projection_round_trip [OF demo_universe_runs(1) this] model show ?thesis by blast
qed

definition demo_account :: "string \<Rightarrow> account_state \<Rightarrow> account_record" where
  "demo_account i state =
     \<lparr>acc_id = i, pseudonym = i, acc_providerId = ''p1'', credentialHandle = i, credentialGeneration = 1, acc_state = state,
      pauseReason = None, quotaClass = ''healthy'', acc_cooldownUntil = None, termsRevision = None,
      termsAcknowledgedRevision = None, acc_version = 1, acc_createdAt = 0, acc_updatedAt = 0\<rparr>"

definition demo_pool :: "string \<Rightarrow> string \<Rightarrow> pool_record" where
  "demo_pool i account =
     \<lparr>pool_id = i, pool_name = i, pool_providerId = ''p1'', strategy = Manual, affinity = None, retryBudget = 0,
      memberships = [\<lparr>mem_poolId = i, mem_accountId = account, pinOrder = None\<rparr>], pool_version = 1,
      pool_createdAt = 0, pool_updatedAt = 0\<rparr>"

definition demo_provider :: provider_record where
  "demo_provider =
     \<lparr>prov_id = ''p1'', prov_name = ''cline'', integrationMode = Direct, endpointPolicy = None, capabilityEvidence = None,
      requiredTermsRevision = None, provenanceRef = None, prov_enabled = True, prov_version = 1, prov_createdAt = 0,
      prov_updatedAt = 0\<rparr>"

definition demo_compiled_policy :: policy_revision where
  "demo_compiled_policy =
     \<lparr>revision = 1, policy_hash = ''h'', policy_createdAt = 0,
      snapshot = \<lparr>snap_providers = [demo_provider],
                  snap_accounts = [demo_account ''a1'' Ready, demo_account ''a2'' Paused],
                  snap_pools = [demo_pool ''k1'' ''a1'', demo_pool ''k2'' ''a2''], snap_profiles = []\<rparr>\<rparr>"

theorem universe_bindings_forced_witness:
  "demo_binding \<in> set (mu_bindings (compileModelUniverseSnapshot length demo_compiled_policy directProviderRegistry None None))"
proof -
  have wf: "policy_wf (snapshot demo_compiled_policy)"
    and bound: "bound_pool (snapshot demo_compiled_policy) None (prov_id demo_provider) = Some ''k1''"
    and listed: "snap_providers (snapshot demo_compiled_policy) = [demo_provider]"
    and built: "provider_binding demo_provider ''k1'' = demo_binding" "prov_enabled demo_provider"
    by code_simp+
  show ?thesis
    unfolding conjunct1 [OF universe_bindings_forced [OF wf]] using bound listed built by force
qed

end
