(* ===== verification/Canonical_Request.thy ===== *)
theory Canonical_Request
  imports Core_Model
begin

text \<open>
  The canonical request of \<^verbatim>\<open>src/core/canonical-request.ts\<close>: what a decoded client request
  is before routing. A model role is its text. A number of the wire that is not a count is a
  rational; a schema or a tool input is a JSON value.
\<close>

datatype canonical_content =
    Text_part string
  | Image_part string string
  | Tool_call_part string string json
  | Tool_result_part string "canonical_content list" bool
  | Reasoning_part string "string option"
  | Redacted_reasoning_part string

record canonical_tool =
  tool_name :: string
  tool_description :: "string option"
  tool_inputSchema :: json

datatype canonical_tool_choice = Choice_auto | Choice_any | Choice_none | Choice_tool string

datatype message_role = User_role | Assistant_role

record canonical_message =
  msg_role :: message_role
  msg_content :: "canonical_content list"

record request_source =
  src_protocol :: fidelity_source_protocol
  src_protocolVersion :: "string option"
  src_clientName :: "string option"
  src_clientVersion :: "string option"

record request_inference =
  inf_maxOutputTokens :: "int option"
  inf_temperature :: "rat option"
  inf_topP :: "rat option"
  inf_stopSequences :: "string list option"
  inf_thinking :: "reasoning_source_mode option"
  inf_reasoning :: "reasoning_request option"

datatype cache_scope = Cache_system | Cache_message

record request_metadata =
  meta_beta :: "string list option"
  meta_cacheControl :: "(cache_scope \<times> nat) list option"

record canonical_request =
  cq_id :: string
  cq_source :: request_source
  cq_requestedModel :: string
  cq_modelRole :: string
  cq_system :: "canonical_content list"
  cq_input :: "canonical_content list"
  cq_messages :: "canonical_message list"
  cq_tools :: "canonical_tool list"
  cq_toolChoice :: "canonical_tool_choice option"
  cq_stream :: bool
  cq_store :: "bool option"
  cq_include :: "string list option"
  cq_inference :: request_inference
  cq_metadata :: request_metadata
  cq_continuation :: "string option"
  cq_agent :: "agent_context option"
  cq_fidelity :: "fidelity_envelope option"

definition empty_inference :: request_inference where
  "empty_inference =
     \<lparr>inf_maxOutputTokens = None, inf_temperature = None, inf_topP = None, inf_stopSequences = None,
      inf_thinking = None, inf_reasoning = None\<rparr>"

end
