(* ===== verification/Profiles.thy ===== *)
theory Profiles
  imports Model_Projection
begin

text \<open>
  Profiles and launch sessions: \<^verbatim>\<open>src/profiles/schema.ts\<close>, \<^verbatim>\<open>activate.ts\<close>, \<^verbatim>\<open>errors.ts\<close>,
  \<^verbatim>\<open>sessions.ts\<close>, \<^verbatim>\<open>agent-contexts.ts\<close>, \<^verbatim>\<open>traces.ts\<close>, the issuing handler of \<^verbatim>\<open>http.ts\<close>,
  and what \<^verbatim>\<open>src/runtime/gateway-server.ts\<close> pins for a session.

  A schema rejection (\<open>ZodError\<close>) is the text \<open>schema\<close> on the left of a sum. The two session
  registries are association lists in insertion order; which leases are active is an argument
  of every operation that asks. A token is the value of the random source given to \<open>issue\<close>.
\<close>

section \<open>Policies of a profile\<close>

record capability_policy =
  cpol_streaming :: "bool option"
  cpol_tools :: "bool option"
  cpol_parallelTools :: "bool option"
  cpol_images :: "bool option"
  cpol_reasoning :: "bool option"
  cpol_redactedReasoning :: "bool option"
  cpol_structuredOutput :: "bool option"
  cpol_tokenCounting :: "token_counting_quality option"

definition empty_capability_policy :: capability_policy where
  "empty_capability_policy =
     \<lparr>cpol_streaming = None, cpol_tools = None, cpol_parallelTools = None, cpol_images = None, cpol_reasoning = None,
      cpol_redactedReasoning = None, cpol_structuredOutput = None, cpol_tokenCounting = None\<rparr>"

record launch_policy =
  lp_executable :: "string option"
  lp_env :: "(string \<times> string) list option"
  lp_model :: "string option"

definition flag_of :: "(string \<times> json) list \<Rightarrow> string \<Rightarrow> string + bool option" where
  "flag_of kvs key =
     (case map_of kvs key of
        None \<Rightarrow> Inr None
      | Some v \<Rightarrow> (case v of JBool b \<Rightarrow> Inr (Some b) | _ \<Rightarrow> Inl ''schema''))"

definition token_counting_of :: "(string \<times> json) list \<Rightarrow> string \<Rightarrow> string + token_counting_quality option" where
  "token_counting_of kvs key =
     (case map_of kvs key of
        None \<Rightarrow> Inr None
      | Some v \<Rightarrow>
          (case v of
             JStr s \<Rightarrow>
               if s = ''upstream'' then Inr (Some Upstream)
               else if s = ''exact-local'' then Inr (Some Exact_local)
               else if s = ''conservative-estimate'' then Inr (Some Conservative_estimate)
               else if s = ''unsupported'' then Inr (Some Unsupported_counting)
               else Inl ''schema''
           | _ \<Rightarrow> Inl ''schema''))"

definition capability_keys :: "string list" where
  "capability_keys =
     [''streaming'', ''tools'', ''parallelTools'', ''images'', ''reasoning'', ''redactedReasoning'',
      ''structuredOutput'', ''tokenCounting'']"

definition parse_capability_object :: "(string \<times> json) list \<Rightarrow> string + capability_policy" where
  "parse_capability_object kvs =
     (if \<not> list_all (\<lambda>(k, _). k \<in> set capability_keys) kvs then Inl ''schema''
      else bind_ok (flag_of kvs ''streaming'') (\<lambda>a. bind_ok (flag_of kvs ''tools'') (\<lambda>b.
           bind_ok (flag_of kvs ''parallelTools'') (\<lambda>c. bind_ok (flag_of kvs ''images'') (\<lambda>d.
           bind_ok (flag_of kvs ''reasoning'') (\<lambda>e. bind_ok (flag_of kvs ''redactedReasoning'') (\<lambda>f.
           bind_ok (flag_of kvs ''structuredOutput'') (\<lambda>g. bind_ok (token_counting_of kvs ''tokenCounting'') (\<lambda>h.
             Inr \<lparr>cpol_streaming = a, cpol_tools = b, cpol_parallelTools = c, cpol_images = d, cpol_reasoning = e,
                  cpol_redactedReasoning = f, cpol_structuredOutput = g, cpol_tokenCounting = h\<rparr>)))))))))"

definition parseCapabilityPolicy :: "json option \<Rightarrow> string + capability_policy" where
  "parseCapabilityPolicy v =
     (case v of
        None \<Rightarrow> Inr empty_capability_policy
      | Some j \<Rightarrow>
          (case j of
             JNull \<Rightarrow> Inr empty_capability_policy
           | JObj kvs \<Rightarrow> parse_capability_object kvs
           | _ \<Rightarrow> Inl ''schema''))"

definition text_of :: "(string \<times> json) list \<Rightarrow> string \<Rightarrow> string + string option" where
  "text_of kvs key =
     (case map_of kvs key of
        None \<Rightarrow> Inr None
      | Some v \<Rightarrow> (case v of JStr s \<Rightarrow> if s = [] then Inl ''schema'' else Inr (Some s) | _ \<Rightarrow> Inl ''schema''))"

fun string_entries :: "(string \<times> json) list \<Rightarrow> string + (string \<times> string) list" where
  "string_entries [] = Inr []"
| "string_entries ((k, v) # rest) =
     (case v of JStr s \<Rightarrow> bind_ok (string_entries rest) (\<lambda>es. Inr ((k, s) # es)) | _ \<Rightarrow> Inl ''schema'')"

definition env_of :: "(string \<times> json) list \<Rightarrow> string \<Rightarrow> string + (string \<times> string) list option" where
  "env_of kvs key =
     (case map_of kvs key of
        None \<Rightarrow> Inr None
      | Some v \<Rightarrow> (case v of JObj es \<Rightarrow> bind_ok (string_entries es) (\<lambda>x. Inr (Some x)) | _ \<Rightarrow> Inl ''schema''))"

definition parse_launch_object :: "(string \<times> json) list \<Rightarrow> string + launch_policy" where
  "parse_launch_object kvs =
     (if \<not> list_all (\<lambda>(k, _). k \<in> {''executable'', ''env'', ''model''}) kvs then Inl ''schema''
      else bind_ok (text_of kvs ''executable'') (\<lambda>executable.
           bind_ok (env_of kvs ''env'') (\<lambda>env.
           bind_ok (text_of kvs ''model'') (\<lambda>model.
             Inr \<lparr>lp_executable = executable, lp_env = env, lp_model = model\<rparr>))))"

definition parseLaunchPolicy :: "json option \<Rightarrow> string + launch_policy" where
  "parseLaunchPolicy v =
     (case v of
        None \<Rightarrow> Inr \<lparr>lp_executable = None, lp_env = None, lp_model = None\<rparr>
      | Some j \<Rightarrow>
          (case j of
             JNull \<Rightarrow> Inr \<lparr>lp_executable = None, lp_env = None, lp_model = None\<rparr>
           | JObj kvs \<Rightarrow> parse_launch_object kvs
           | _ \<Rightarrow> Inl ''schema''))"

definition applyCapabilityPolicy :: "provider_capabilities \<Rightarrow> capability_policy \<Rightarrow> provider_capabilities" where
  "applyCapabilityPolicy base policy =
     \<lparr>cap_streaming = get_or (cap_streaming base) (cpol_streaming policy),
      cap_tools = get_or (cap_tools base) (cpol_tools policy),
      cap_parallelTools = get_or (cap_parallelTools base) (cpol_parallelTools policy),
      cap_images = get_or (cap_images base) (cpol_images policy),
      cap_reasoning = get_or (cap_reasoning base) (cpol_reasoning policy),
      cap_redactedReasoning = get_or (cap_redactedReasoning base) (cpol_redactedReasoning policy),
      cap_structuredOutput = get_or (cap_structuredOutput base) (cpol_structuredOutput policy),
      cap_tokenCounting = get_or (cap_tokenCounting base) (cpol_tokenCounting policy)\<rparr>"

section \<open>Activation\<close>

datatype profile_error_code =
    Profile_not_found | Profile_not_claude | Profile_has_no_pool | Role_unmapped | Capability_rejected
  | Invalid_launch_policy | Profile_tier_unavailable | Model_unavailable

record profile_error =
  pe_code :: profile_error_code
  pe_message :: string
  pe_modelFailure :: "model_selection_failure option"
  pe_tierFailure :: "tier_resolution_failure option"
  pe_tierCause :: "string option"
  pe_intentFailure :: "model_intent_failure option"

definition profile_error_of :: "profile_error_code \<Rightarrow> profile_error" where
  "profile_error_of code =
     \<lparr>pe_code = code, pe_message = ''Profile cannot be activated'', pe_modelFailure = None, pe_tierFailure = None,
      pe_tierCause = None, pe_intentFailure = None\<rparr>"

record activated_profile =
  ap_profile :: profile_record
  ap_poolId :: string
  ap_role :: string
  ap_modelId :: string
  ap_capabilities :: provider_capabilities
  ap_launchPolicy :: launch_policy

definition findProfileByName :: "profile_record list \<Rightarrow> string \<Rightarrow> profile_record option" where
  "findProfileByName profiles nm = List.find (\<lambda>p. prof_name p = nm) profiles"

definition findProfileById :: "profile_record list \<Rightarrow> string \<Rightarrow> profile_record option" where
  "findProfileById profiles i = List.find (\<lambda>p. prof_id p = i) profiles"

definition inspectLaunchableProfile ::
  "profile_record list \<Rightarrow> string \<Rightarrow> bool \<Rightarrow> profile_error + (profile_record \<times> launch_policy \<times> string)" where
  "inspectLaunchableProfile profiles nm requireClaude =
     (case findProfileByName profiles nm of
        None \<Rightarrow> Inl (profile_error_of Profile_not_found)
      | Some profile \<Rightarrow>
          if requireClaude \<and> harness profile \<noteq> Harness_claude then Inl (profile_error_of Profile_not_claude)
          else case prof_poolId profile of
                 None \<Rightarrow> Inl (profile_error_of Profile_has_no_pool)
               | Some poolId \<Rightarrow>
                   (case parseLaunchPolicy (launchPolicy profile) of
                      Inl _ \<Rightarrow> Inl (profile_error_of Invalid_launch_policy)
                    | Inr policy \<Rightarrow> Inr (profile, policy, poolId)))"

record activation_input =
  ai_name :: "string option"
  ai_profileId :: "string option"
  ai_requestedModel :: string
  ai_required :: "capability_requirement list"
  ai_baseCapabilities :: provider_capabilities
  ai_requireClaude :: bool
  ai_resolved :: "(string \<times> string) option"

definition activateProfile :: "profile_record list \<Rightarrow> activation_input \<Rightarrow> profile_error + activated_profile" where
  "activateProfile profiles input =
     (let named = Option.bind (ai_profileId input) (\<lambda>i. map_option prof_name (findProfileById profiles i))
      in bind_ok (inspectLaunchableProfile profiles (get_or [] (or_else named (ai_name input))) (ai_requireClaude input))
           (\<lambda>(profile, launch, poolId).
              if (case ai_profileId input of None \<Rightarrow> False | Some i \<Rightarrow> prof_id profile \<noteq> i)
              then Inl (profile_error_of Profile_not_found)
              else case or_else (ai_resolved input) (resolveProfileRole (ai_requestedModel input) (modelRoles profile)) of
                     None \<Rightarrow> Inl (profile_error_of Role_unmapped)
                   | Some (role, modelId) \<Rightarrow>
                       (case parseCapabilityPolicy (capabilityPolicy profile) of
                          Inl _ \<Rightarrow> Inl (profile_error_of Invalid_launch_policy)
                        | Inr policy \<Rightarrow>
                            (let capabilities = applyCapabilityPolicy (ai_baseCapabilities input) policy
                             in if missingCapabilities capabilities (ai_required input) \<noteq> []
                                then Inl (profile_error_of Capability_rejected)
                                else Inr \<lparr>ap_profile = profile, ap_poolId = poolId, ap_role = role, ap_modelId = modelId,
                                          ap_capabilities = capabilities, ap_launchPolicy = launch\<rparr>))))"

section \<open>What a session pins\<close>

record pinned_profile =
  pin_profileId :: string
  pin_profileName :: string
  pin_harness :: harness_name
  pin_modelRoles :: "(string \<times> string) list"
  pin_capabilityPolicy :: "json option"
  pin_launchPolicy :: "json option"

record pinned_pool =
  pin_poolId :: string
  pin_poolName :: string
  pin_poolProviderId :: string
  pin_strategy :: pool_strategy
  pin_retryBudget :: int
  pin_affinity :: "json option"
  pin_memberships :: "string list"

record pinned_provider =
  pin_providerId :: string
  pin_providerName :: string
  pin_integrationMode :: integration_mode
  pin_endpointPolicy :: "string option"
  pin_enabled :: bool

record session_policy_snapshot =
  sps_profile :: pinned_profile
  sps_pool :: pinned_pool
  sps_provider :: pinned_provider

definition sessionPolicySnapshot :: "policy_revision option \<Rightarrow> profile_record \<Rightarrow> session_policy_snapshot" where
  "sessionPolicySnapshot policy profile =
     (let pool = Option.bind policy (\<lambda>p.
            List.find (\<lambda>item. Some (pool_id item) = prof_poolId profile) (snap_pools (snapshot p)));
          provider = Option.bind policy (\<lambda>p. Option.bind pool (\<lambda>k.
            List.find (\<lambda>item. prov_id item = pool_providerId k) (snap_providers (snapshot p))))
      in \<lparr>sps_profile =
            \<lparr>pin_profileId = prof_id profile, pin_profileName = prof_name profile, pin_harness = harness profile,
             pin_modelRoles = modelRoles profile, pin_capabilityPolicy = capabilityPolicy profile,
             pin_launchPolicy = launchPolicy profile\<rparr>,
          sps_pool =
            \<lparr>pin_poolId = get_or [] (map_option pool_id pool), pin_poolName = get_or [] (map_option pool_name pool),
             pin_poolProviderId = get_or [] (map_option pool_providerId pool),
             pin_strategy = get_or Fill_first (map_option strategy pool),
             pin_retryBudget = get_or 0 (map_option retryBudget pool),
             pin_affinity = Option.bind pool affinity,
             pin_memberships = map mem_accountId (get_or [] (map_option memberships pool))\<rparr>,
          sps_provider =
            \<lparr>pin_providerId = get_or [] (map_option prov_id provider),
             pin_providerName = get_or [] (map_option prov_name provider),
             pin_integrationMode = get_or Direct (map_option integrationMode provider),
             pin_endpointPolicy = Option.bind provider endpointPolicy,
             pin_enabled = get_or False (map_option prov_enabled provider)\<rparr>\<rparr>)"

definition compileBinding ::
  "(string \<Rightarrow> 'k::linorder) \<Rightarrow> policy_revision option \<Rightarrow> registry_document \<Rightarrow> bool \<Rightarrow> profile_record
     \<Rightarrow> model_universe_snapshot \<times> session_policy_snapshot" where
  "compileBinding collate policy registry experimentalModels profile =
     (case policy of
        None \<Rightarrow>
          (\<lparr>mu_policyRevision = 0, mu_policyHash = [], mu_registryRevision = registryRevision registry, mu_bindings = [],
            mu_experimentalModels = False\<rparr>, sessionPolicySnapshot policy profile)
      | Some p \<Rightarrow>
          (compileModelUniverseSnapshot collate p registry (Some profile) (Some experimentalModels),
           sessionPolicySnapshot policy profile))"

record launch_session =
  sn_profileId :: string
  sn_profileName :: string
  sn_leaseId :: string
  sn_viewId :: string
  sn_modelUniverse :: model_universe_snapshot
  sn_binding :: session_policy_snapshot

definition frozen_profile :: "session_policy_snapshot \<Rightarrow> profile_record" where
  "frozen_profile binding =
     (let p = sps_profile binding; k = sps_pool binding
      in \<lparr>prof_id = pin_profileId p, prof_name = pin_profileName p, harness = pin_harness p,
          prof_providerId = Some (pin_poolProviderId k), prof_poolId = Some (pin_poolId k),
          modelRoles = pin_modelRoles p, capabilityPolicy = pin_capabilityPolicy p, launchPolicy = pin_launchPolicy p,
          prof_version = 0, prof_createdAt = 0, prof_updatedAt = 0\<rparr>)"

definition frozen_pool :: "session_policy_snapshot \<Rightarrow> pool_record" where
  "frozen_pool binding =
     (let k = sps_pool binding
      in \<lparr>pool_id = pin_poolId k, pool_name = pin_poolName k, pool_providerId = pin_poolProviderId k,
          strategy = pin_strategy k, affinity = pin_affinity k, retryBudget = pin_retryBudget k,
          memberships = map (\<lambda>a. \<lparr>mem_poolId = pin_poolId k, mem_accountId = a, pinOrder = None\<rparr>) (pin_memberships k),
          pool_version = 0, pool_createdAt = 0, pool_updatedAt = 0\<rparr>)"

definition frozen_provider :: "session_policy_snapshot \<Rightarrow> provider_record" where
  "frozen_provider binding =
     (let q = sps_provider binding
      in \<lparr>prov_id = pin_providerId q, prov_name = pin_providerName q, integrationMode = pin_integrationMode q,
          endpointPolicy = pin_endpointPolicy q, capabilityEvidence = None, requiredTermsRevision = None,
          provenanceRef = None, prov_enabled = pin_enabled q, prov_version = 0, prov_createdAt = 0,
          prov_updatedAt = 0\<rparr>)"

definition upsert :: "('a \<Rightarrow> string) \<Rightarrow> 'a list \<Rightarrow> 'a \<Rightarrow> 'a list" where
  "upsert key items frozen = filter (\<lambda>item. key item \<noteq> key frozen) items @ [frozen]"

definition applySessionBinding :: "policy_revision \<Rightarrow> launch_session \<Rightarrow> policy_revision" where
  "applySessionBinding policy session =
     (let binding = sn_binding session; snap = snapshot policy
      in policy\<lparr>snapshot := snap\<lparr>snap_profiles := upsert prof_id (snap_profiles snap) (frozen_profile binding),
                                  snap_pools := upsert pool_id (snap_pools snap) (frozen_pool binding),
                                  snap_providers := upsert prov_id (snap_providers snap) (frozen_provider binding)\<rparr>\<rparr>)"

section \<open>Launch sessions\<close>

definition DEFAULT_CLAUDE_VIEW_ID :: string where "DEFAULT_CLAUDE_VIEW_ID = ''default''"

definition deriveClaudeViewId :: "(string \<Rightarrow> string) \<Rightarrow> string \<Rightarrow> string" where
  "deriveClaudeViewId sha profileId =
     (if profileId = [] \<or> profileId = DEFAULT_CLAUDE_VIEW_ID then DEFAULT_CLAUDE_VIEW_ID
      else take 16 (sha (''rly:claude-view:'' @ profileId)))"

type_synonym session_table = "(string \<times> launch_session) list"

record issue_input =
  iss_profileId :: string
  iss_profileName :: string
  iss_leaseId :: string
  iss_modelUniverse :: model_universe_snapshot
  iss_binding :: session_policy_snapshot

definition issue ::
  "(string \<Rightarrow> string) \<Rightarrow> (string \<Rightarrow> bool) \<Rightarrow> string \<Rightarrow> issue_input \<Rightarrow> session_table \<Rightarrow> string + session_table" where
  "issue sha leaseActive token input sessions =
     (if \<not> leaseActive (iss_leaseId input) then Inl ''lease-not-active''
      else Inr (AList.update (sha token)
                 \<lparr>sn_profileId = iss_profileId input, sn_profileName = iss_profileName input,
                  sn_leaseId = iss_leaseId input, sn_viewId = deriveClaudeViewId sha (iss_profileId input),
                  sn_modelUniverse = iss_modelUniverse input, sn_binding = iss_binding input\<rparr> sessions))"

definition resolve_session ::
  "(string \<Rightarrow> string) \<Rightarrow> (string \<Rightarrow> bool) \<Rightarrow> string \<Rightarrow> session_table \<Rightarrow> launch_session option \<times> session_table" where
  "resolve_session sha leaseActive token sessions =
     (case map_of sessions (sha token) of
        None \<Rightarrow> (None, sessions)
      | Some session \<Rightarrow>
          if leaseActive (sn_leaseId session) then (Some session, sessions)
          else (None, AList.delete (sha token) sessions))"

definition dropLease :: "string \<Rightarrow> session_table \<Rightarrow> session_table" where
  "dropLease leaseId sessions = filter (\<lambda>(_, session). sn_leaseId session \<noteq> leaseId) sessions"

section \<open>Issuing a session\<close>

datatype issue_response =
    Issue_unauthorized
  | Issue_update_pending string
  | Issue_invalid
  | Issue_lease_not_active
  | Issue_rejected int profile_error_code
  | Issued profile_record launch_policy string

definition activationStatus :: "profile_error_code \<Rightarrow> int" where
  "activationStatus code = (if code = Profile_not_found then 404 else 400)"

text \<open>
  \<open>body\<close> is the profile name and lease id the schema accepts, if it does; \<open>leaseActive\<close> is
  asked twice, by the handler and by the registry.
\<close>

definition issue_handler ::
  "(string \<Rightarrow> string) \<Rightarrow> (string \<Rightarrow> bool) \<Rightarrow> (profile_record \<Rightarrow> model_universe_snapshot \<times> session_policy_snapshot)
     \<Rightarrow> bool \<Rightarrow> string option \<Rightarrow> (string \<times> string) option \<Rightarrow> profile_record list \<Rightarrow> string \<Rightarrow> session_table
     \<Rightarrow> issue_response \<times> session_table" where
  "issue_handler sha leaseActive compile authorized refused body profiles token sessions =
     (if \<not> authorized then (Issue_unauthorized, sessions)
      else case refused of
        Some reason \<Rightarrow> (Issue_update_pending reason, sessions)
      | None \<Rightarrow>
          (case body of
             None \<Rightarrow> (Issue_invalid, sessions)
           | Some (profileName, leaseId) \<Rightarrow>
               (case inspectLaunchableProfile profiles profileName True of
                  Inl e \<Rightarrow> (Issue_rejected (activationStatus (pe_code e)) (pe_code e), sessions)
                | Inr (profile, launch, _) \<Rightarrow>
                    if \<not> leaseActive leaseId then (Issue_lease_not_active, sessions)
                    else
                      (let compiled = compile profile
                       in case issue sha leaseActive token
                                 \<lparr>iss_profileId = prof_id profile, iss_profileName = prof_name profile,
                                  iss_leaseId = leaseId, iss_modelUniverse = fst compiled,
                                  iss_binding = snd compiled\<rparr> sessions of
                            Inl _ \<Rightarrow> (Issue_lease_not_active, sessions)
                          | Inr sessions' \<Rightarrow> (Issued profile launch token, sessions')))))"

section \<open>Agent execution contexts\<close>

datatype context_role = Main_agent | Sub_agent

record execution_context =
  xc_claudeSessionId :: string
  xc_agentId :: string
  xc_parentAgentId :: "string option"
  xc_role :: context_role
  xc_leaseId :: string
  xc_profileId :: string
  xc_profileName :: string
  xc_accessProviderId :: string
  xc_resolvedModelId :: string
  xc_modelFamily :: "string option"
  xc_effectiveTier :: "logical_tier option"
  xc_mappingRevision :: "int option"
  xc_registryRevision :: "int option"
  xc_updatedAt :: date_text

type_synonym context_table = "(string \<times> execution_context) list"

datatype parent_context_source = From_parent_agent | From_session_default | From_profile_default

record parent_execution_reference =
  pr_context :: execution_context
  pr_source :: parent_context_source

definition context_prefix :: "launch_session \<Rightarrow> string \<Rightarrow> string" where
  "context_prefix session claudeSession = sn_leaseId session @ ''|'' @ claudeSession @ ''|''"

definition context_key :: "launch_session \<Rightarrow> string \<Rightarrow> string \<Rightarrow> string" where
  "context_key session claudeSession agent = context_prefix session claudeSession @ agent"

definition record_context ::
  "(string \<Rightarrow> bool) \<Rightarrow> launch_session \<Rightarrow> execution_context \<Rightarrow> context_table \<Rightarrow> context_table" where
  "record_context leaseActive session context contexts =
     (if xc_agentId context = [] \<or> xc_claudeSessionId context = [] then contexts
      else if \<not> leaseActive (sn_leaseId session) then contexts
      else AList.update (context_key session (xc_claudeSessionId context) (xc_agentId context))
             (context\<lparr>xc_leaseId := sn_leaseId session, xc_profileId := sn_profileId session,
                      xc_profileName := sn_profileName session\<rparr>) contexts)"

definition resolve_context ::
  "(string \<Rightarrow> bool) \<Rightarrow> launch_session \<Rightarrow> string \<Rightarrow> string \<Rightarrow> context_table \<Rightarrow> execution_context option \<times> context_table" where
  "resolve_context leaseActive session claudeSession agent contexts =
     (let key = context_key session claudeSession agent
      in case map_of contexts key of
           None \<Rightarrow> (None, contexts)
         | Some context \<Rightarrow>
             if leaseActive (xc_leaseId context) then (Some context, contexts) else (None, AList.delete key contexts))"

definition contextsForSession ::
  "(string \<Rightarrow> bool) \<Rightarrow> launch_session \<Rightarrow> string \<Rightarrow> context_table \<Rightarrow> execution_context list \<times> context_table" where
  "contextsForSession leaseActive session claudeSession contexts =
     (let mine = (\<lambda>key. starts_with key (context_prefix session claudeSession))
      in (map snd (filter (\<lambda>(key, c). mine key \<and> leaseActive (xc_leaseId c)) contexts),
          filter (\<lambda>(key, c). \<not> (mine key \<and> \<not> leaseActive (xc_leaseId c))) contexts))"

definition mainContext ::
  "(string \<Rightarrow> bool) \<Rightarrow> launch_session \<Rightarrow> string \<Rightarrow> context_table \<Rightarrow> execution_context option \<times> context_table" where
  "mainContext leaseActive session claudeSession contexts =
     (case contextsForSession leaseActive session claudeSession contexts of
        (entries, contexts') \<Rightarrow> (List.find (\<lambda>c. xc_role c = Main_agent) entries, contexts'))"

definition drop_lease_contexts :: "string \<Rightarrow> context_table \<Rightarrow> context_table" where
  "drop_lease_contexts leaseId contexts = filter (\<lambda>(_, c). xc_leaseId c \<noteq> leaseId) contexts"

section \<open>The trace ring\<close>

definition ring_push :: "nat \<Rightarrow> 'a list \<Rightarrow> 'a \<Rightarrow> 'a list" where
  "ring_push limit items stored =
     (let grown = items @ [stored] in if limit < length grown then tl grown else grown)"

definition ring_list :: "('a \<Rightarrow> string) \<Rightarrow> string option \<Rightarrow> 'a list \<Rightarrow> 'a list" where
  "ring_list name_of profileName items =
     (case profileName of None \<Rightarrow> items | Some nm \<Rightarrow> filter (\<lambda>t. name_of t = nm) items)"

lemma ring_push_drop:
  assumes "k \<le> length xs"
  shows "ring_push limit (drop k xs) x = (if limit < length xs - k + 1 then drop (Suc k) (xs @ [x]) else drop k xs @ [x])"
proof -
  have "drop k xs @ [x] = drop k (xs @ [x])" using assms by simp
  then have "tl (drop k xs @ [x]) = drop (Suc k) (xs @ [x])" by (simp only: drop_Suc tl_drop)
  then show ?thesis using assms by (simp add: ring_push_def Let_def)
qed

text \<open>The ring keeps exactly the last \<open>limit\<close> traces, in order.\<close>

lemma ring_keeps_last: "foldl (ring_push limit) [] xs = drop (length xs - limit) xs"
proof (induction xs rule: rev_induct)
  case (snoc x xs)
  have "foldl (ring_push limit) [] (xs @ [x]) = ring_push limit (drop (length xs - limit) xs) x"
    using snoc by simp
  also have "\<dots> = drop (length (xs @ [x]) - limit) (xs @ [x])"
    by (subst ring_push_drop) (auto simp: Suc_diff_le not_less)
  finally show ?case .
qed simp

section \<open>A session's target does not move\<close>

lemma find_upsert:
  "List.find (\<lambda>x. key x = key frozen) (upsert key items frozen) = Some frozen"
proof -
  have "List.find (\<lambda>x. key x = key frozen) (filter (\<lambda>item. key item \<noteq> key frozen) items) = None"
    by (auto simp: find_None_iff)
  then show ?thesis by (simp add: upsert_def find_append)
qed

lemma upsert_only: "x \<in> set (upsert key items frozen) \<Longrightarrow> key x = key frozen \<Longrightarrow> x = frozen"
  by (auto simp: upsert_def)

lemma frozen_ids [simp]:
  "prof_id (frozen_profile b) = pin_profileId (sps_profile b)" "pool_id (frozen_pool b) = pin_poolId (sps_pool b)"
  "prov_id (frozen_provider b) = pin_providerId (sps_provider b)"
  "prof_poolId (frozen_profile b) = Some (pin_poolId (sps_pool b))"
  by (simp_all add: frozen_profile_def frozen_pool_def frozen_provider_def Let_def)

lemma overlay_lists:
  "snap_profiles (snapshot (applySessionBinding policy session))
     = upsert prof_id (snap_profiles (snapshot policy)) (frozen_profile (sn_binding session))"
  "snap_pools (snapshot (applySessionBinding policy session))
     = upsert pool_id (snap_pools (snapshot policy)) (frozen_pool (sn_binding session))"
  "snap_providers (snapshot (applySessionBinding policy session))
     = upsert prov_id (snap_providers (snapshot policy)) (frozen_provider (sn_binding session))"
  by (simp_all add: applySessionBinding_def Let_def)

lemma overlay_targets:
  "findProfileById (snap_profiles (snapshot (applySessionBinding policy session))) (pin_profileId (sps_profile (sn_binding session)))
     = Some (frozen_profile (sn_binding session))"
  "List.find (\<lambda>p. pool_id p = pin_poolId (sps_pool (sn_binding session)))
     (snap_pools (snapshot (applySessionBinding policy session))) = Some (frozen_pool (sn_binding session))"
  "List.find (\<lambda>p. prov_id p = pin_providerId (sps_provider (sn_binding session)))
     (snap_providers (snapshot (applySessionBinding policy session))) = Some (frozen_provider (sn_binding session))"
  using find_upsert [of prof_id "frozen_profile (sn_binding session)"]
    find_upsert [of pool_id "frozen_pool (sn_binding session)"]
    find_upsert [of prov_id "frozen_provider (sn_binding session)"]
  by (simp_all add: findProfileById_def overlay_lists)

lemma inspect_facts:
  "inspectLaunchableProfile profiles nm requireClaude = Inr (profile, launch, poolId) \<Longrightarrow>
     profile \<in> set profiles \<and> prof_name profile = nm \<and> prof_poolId profile = Some poolId
     \<and> (requireClaude \<longrightarrow> harness profile = Harness_claude) \<and> parseLaunchPolicy (launchPolicy profile) = Inr launch"
  by (auto simp: inspectLaunchableProfile_def findProfileByName_def split: option.splits if_splits sum.splits
      dest: find_Some_in)

lemma activate_facts:
  assumes "activateProfile profiles input = Inr a"
  shows "ap_profile a \<in> set profiles \<and> prof_poolId (ap_profile a) = Some (ap_poolId a)
     \<and> (case ai_profileId input of None \<Rightarrow> True | Some i \<Rightarrow> prof_id (ap_profile a) = i)
     \<and> (ai_requireClaude input \<longrightarrow> harness (ap_profile a) = Harness_claude)
     \<and> missingCapabilities (ap_capabilities a) (ai_required input) = []
     \<and> Some (ap_role a, ap_modelId a)
         = or_else (ai_resolved input) (resolveProfileRole (ai_requestedModel input) (modelRoles (ap_profile a)))"
  using assms
  by (auto simp: activateProfile_def Let_def bind_ok_Inr_iff split: if_splits option.splits sum.splits
      dest!: inspect_facts)

text \<open>An active session's target does not move. Whatever the current policy is, activating the session's profile over
  the overlaid policy either fails or answers the profile as it was pinned, with the pinned pool; and the pinned pool
  and provider are found in the overlay as they were pinned. Edits, renames and removals after the session was issued
  cannot change its model roles, pool or provider.\<close>

theorem session_target_is_pinned:
  assumes "ai_profileId input = Some (pin_profileId (sps_profile (sn_binding session)))"
    and "activateProfile (snap_profiles (snapshot (applySessionBinding policy session))) input = Inr a"
  shows "ap_profile a = frozen_profile (sn_binding session) \<and> ap_poolId a = pin_poolId (sps_pool (sn_binding session))
     \<and> List.find (\<lambda>p. pool_id p = ap_poolId a) (snap_pools (snapshot (applySessionBinding policy session)))
         = Some (frozen_pool (sn_binding session))
     \<and> List.find (\<lambda>p. prov_id p = pin_providerId (sps_provider (sn_binding session)))
         (snap_providers (snapshot (applySessionBinding policy session))) = Some (frozen_provider (sn_binding session))"
proof -
  note facts = activate_facts [OF assms(2)]
  then have "ap_profile a = frozen_profile (sn_binding session)"
    using assms(1) by (intro upsert_only [of _ prof_id "snap_profiles (snapshot policy)"]) (simp_all add: overlay_lists)
  moreover from this facts have "ap_poolId a = pin_poolId (sps_pool (sn_binding session))" by simp
  ultimately show ?thesis using overlay_targets [where policy = policy and session = session] by simp
qed

section \<open>Sessions live with their lease\<close>

datatype session_op =
    Session_issue "string \<Rightarrow> bool" string issue_input
  | Session_resolve "string \<Rightarrow> bool" string
  | Session_drop string

fun session_step :: "(string \<Rightarrow> string) \<Rightarrow> session_op \<Rightarrow> session_table \<Rightarrow> session_table" where
  "session_step sha (Session_issue leaseActive token input) t =
     (case issue sha leaseActive token input t of Inl _ \<Rightarrow> t | Inr t' \<Rightarrow> t')"
| "session_step sha (Session_resolve leaseActive token) t = snd (resolve_session sha leaseActive token t)"
| "session_step sha (Session_drop leaseId) t = dropLease leaseId t"

fun issues_for :: "string \<Rightarrow> session_op \<Rightarrow> bool" where
  "issues_for leaseId (Session_issue _ _ input) \<longleftrightarrow> iss_leaseId input = leaseId"
| "issues_for leaseId _ \<longleftrightarrow> False"

definition lease_absent :: "string \<Rightarrow> session_table \<Rightarrow> bool" where
  "lease_absent leaseId t \<longleftrightarrow> list_all (\<lambda>(_, s). sn_leaseId s \<noteq> leaseId) t"

lemma set_alist_update: "set (AList.update k v t) \<subseteq> insert (k, v) (set t)"
  by (induction t) auto

lemma set_alist_delete: "set (AList.delete k t) \<subseteq> set t"
  by (induction t) auto

lemma session_step_absent:
  assumes absent: "lease_absent leaseId t" and "\<not> issues_for leaseId op"
  shows "lease_absent leaseId (session_step sha op t)"
proof (cases op)
  case (Session_issue leaseActive token input)
  show ?thesis
  proof (cases "issue sha leaseActive token input t")
    case (Inr t')
    then obtain s where t': "t' = AList.update (sha token) s t" and s: "sn_leaseId s = iss_leaseId input"
      by (auto simp: issue_def split: if_splits)
    have "sn_leaseId x \<noteq> leaseId" if "(k, x) \<in> set t'" for k x
      using set_alist_update [of "sha token" s t] that t' s absent assms(2) Session_issue
      by (auto simp: lease_absent_def list_all_iff)
    with Inr Session_issue show ?thesis by (auto simp: lease_absent_def list_all_iff)
  qed (use absent Session_issue in simp)
next
  case (Session_resolve leaseActive token)
  with absent set_alist_delete [of "sha token" t] show ?thesis
    by (auto simp: lease_absent_def list_all_iff resolve_session_def split: option.splits if_splits)
next
  case (Session_drop l)
  with absent show ?thesis by (auto simp: lease_absent_def dropLease_def list_all_iff)
qed

lemma session_run_absent:
  "lease_absent leaseId t \<Longrightarrow> list_all (\<lambda>op. \<not> issues_for leaseId op) ops \<Longrightarrow> lease_absent leaseId (fold (session_step sha) ops t)"
  by (induction ops arbitrary: t) (simp_all add: session_step_absent)

lemma dropped_absent: "lease_absent leaseId (dropLease leaseId t)"
  by (auto simp: lease_absent_def dropLease_def list_all_iff)

text \<open>A token lives as long as its lease. A resolved session was stored under the token's hash and its lease is active at
  that moment; a session whose lease is found inactive is forgotten; and once a lease is dropped, no token resolves to
  a session of that lease again, whatever is issued, resolved or dropped afterwards, unless a new session is issued
  for it.\<close>

theorem sessions_live_with_lease:
  assumes "list_all (\<lambda>op. \<not> issues_for leaseId op) ops"
  shows "(case fst (resolve_session sha leaseActive token t) of
            Some s \<Rightarrow> map_of t (sha token) = Some s \<and> leaseActive (sn_leaseId s)
          | None \<Rightarrow> map_of (snd (resolve_session sha leaseActive token t)) (sha token) = None)
     \<and> (case fst (resolve_session sha leaseActive token (fold (session_step sha) ops (dropLease leaseId t))) of
          Some s \<Rightarrow> sn_leaseId s \<noteq> leaseId | None \<Rightarrow> True)"
proof -
  have "lease_absent leaseId (fold (session_step sha) ops (dropLease leaseId t))"
    using dropped_absent assms by (rule session_run_absent)
  then show ?thesis
    by (auto simp: resolve_session_def lease_absent_def list_all_iff delete_conv' split: option.splits
        dest: map_of_SomeD)
qed

definition demo_issue :: issue_input where
  "demo_issue =
     \<lparr>iss_profileId = ''pr1'', iss_profileName = ''work'', iss_leaseId = ''l1'', iss_modelUniverse = demo_universe,
      iss_binding = sessionPolicySnapshot None
        \<lparr>prof_id = ''pr1'', prof_name = ''work'', harness = Harness_claude, prof_providerId = None, prof_poolId = Some ''k1'',
         modelRoles = [(''primary'', ''gpt-5.6-sol'')], capabilityPolicy = None, launchPolicy = None, prof_version = 1,
         prof_createdAt = 0, prof_updatedAt = 0\<rparr>\<rparr>"

definition demo_sessions :: session_table where
  "demo_sessions = (case issue rev (\<lambda>_. True) ''tok'' demo_issue [] of Inl _ \<Rightarrow> [] | Inr t \<Rightarrow> t)"

lemma demo_token_resolves:
  "map_option sn_leaseId (fst (resolve_session rev (\<lambda>_. True) ''tok'' demo_sessions)) = Some ''l1''"
  by code_simp

theorem sessions_live_with_lease_witness:
  "case fst (resolve_session rev (\<lambda>_. True) ''tok''
        (fold (session_step rev) [Session_resolve (\<lambda>_. True) ''tok''] (dropLease ''l1'' demo_sessions))) of
     Some s \<Rightarrow> sn_leaseId s \<noteq> ''l1'' | None \<Rightarrow> True"
proof -
  have "list_all (\<lambda>op. \<not> issues_for ''l1'' op) [Session_resolve (\<lambda>_. True) ''tok'']" by simp
  from conjunct2 [OF sessions_live_with_lease [OF this]] show ?thesis .
qed

section \<open>Agent contexts stay in their session\<close>

definition contexts_wf :: "context_table \<Rightarrow> bool" where
  "contexts_wf contexts \<longleftrightarrow>
     list_all (\<lambda>(key, c). key = xc_leaseId c @ ''|'' @ xc_claudeSessionId c @ ''|'' @ xc_agentId c
        \<and> xc_agentId c \<noteq> [] \<and> xc_claudeSessionId c \<noteq> []) contexts"

lemma record_context_wf: "contexts_wf contexts \<Longrightarrow> contexts_wf (record_context leaseActive session context contexts)"
  using set_alist_update [of "context_key session (xc_claudeSessionId context) (xc_agentId context)"
      "context\<lparr>xc_leaseId := sn_leaseId session, xc_profileId := sn_profileId session, xc_profileName := sn_profileName session\<rparr>"
      contexts]
  by (fastforce simp: contexts_wf_def record_context_def list_all_iff context_key_def context_prefix_def)

lemma resolve_context_wf: "contexts_wf contexts \<Longrightarrow> contexts_wf (snd (resolve_context leaseActive session cs agent contexts))"
  using set_alist_delete [of "context_key session cs agent" contexts]
  by (auto simp: contexts_wf_def resolve_context_def list_all_iff Let_def split: option.splits)

lemma main_context_wf: "contexts_wf contexts \<Longrightarrow> contexts_wf (snd (mainContext leaseActive session cs contexts))"
  by (auto simp: contexts_wf_def mainContext_def contextsForSession_def list_all_iff Let_def)

lemma drop_contexts_wf: "contexts_wf contexts \<Longrightarrow> contexts_wf (drop_lease_contexts leaseId contexts)"
  by (auto simp: contexts_wf_def drop_lease_contexts_def list_all_iff)

definition bar_free :: "string \<Rightarrow> bool" where
  "bar_free s \<longleftrightarrow> CHR ''|'' \<notin> set s"

lemma context_key_parts:
  assumes "bar_free l" "bar_free c" "bar_free l'" "bar_free c'"
  shows "l @ ''|'' @ c @ ''|'' @ a = l' @ ''|'' @ c' @ ''|'' @ a' \<longleftrightarrow> l = l' \<and> c = c' \<and> a = a'"
  using assms append_bar_inject [of l l'] append_bar_inject [of c c'] by (simp add: bar_free_def)

lemma resolved_context:
  assumes wf: "contexts_wf contexts" and found: "fst (resolve_context leaseActive session cs agent contexts) = Some c"
    and free: "bar_free (sn_leaseId session)" "bar_free cs"
      "list_all (\<lambda>(_, c). bar_free (xc_leaseId c) \<and> bar_free (xc_claudeSessionId c)) contexts"
  shows "leaseActive (xc_leaseId c) \<and> xc_leaseId c = sn_leaseId session \<and> xc_claudeSessionId c = cs \<and> xc_agentId c = agent"
proof -
  have member: "(context_key session cs agent, c) \<in> set contexts" and active: "leaseActive (xc_leaseId c)"
    using found by (auto simp: resolve_context_def Let_def split: option.splits if_splits dest: map_of_SomeD)
  then have "context_key session cs agent = xc_leaseId c @ ''|'' @ xc_claudeSessionId c @ ''|'' @ xc_agentId c"
    and "bar_free (xc_leaseId c)" "bar_free (xc_claudeSessionId c)"
    using wf free(3) by (auto simp: contexts_wf_def list_all_iff)
  then show ?thesis
    using active free(1,2) context_key_parts [of "sn_leaseId session" cs "xc_leaseId c" "xc_claudeSessionId c" agent "xc_agentId c"]
    by (simp add: context_key_def context_prefix_def)
qed

lemma main_context:
  assumes wf: "contexts_wf contexts" and found: "fst (mainContext leaseActive session cs contexts) = Some c"
    and free: "bar_free (sn_leaseId session)" "bar_free cs"
      "list_all (\<lambda>(_, c). bar_free (xc_leaseId c) \<and> bar_free (xc_claudeSessionId c)) contexts"
  shows "leaseActive (xc_leaseId c) \<and> xc_leaseId c = sn_leaseId session \<and> xc_claudeSessionId c = cs \<and> xc_role c = Main_agent"
proof -
  obtain key where member: "(key, c) \<in> set contexts" and main: "xc_role c = Main_agent"
    and mine: "starts_with key (context_prefix session cs)" and active: "leaseActive (xc_leaseId c)"
    using found by (auto simp: mainContext_def contextsForSession_def Let_def dest!: find_Some_in)
  have "key = xc_leaseId c @ ''|'' @ xc_claudeSessionId c @ ''|'' @ xc_agentId c"
    and "bar_free (xc_leaseId c)" "bar_free (xc_claudeSessionId c)"
    using wf free(3) member unfolding contexts_wf_def list_all_iff by fast+
  moreover obtain rest where "key = sn_leaseId session @ ''|'' @ cs @ ''|'' @ rest"
    using mine by (auto simp: starts_with_iff context_prefix_def)
  ultimately have "xc_leaseId c = sn_leaseId session \<and> xc_claudeSessionId c = cs"
    using context_key_parts [of "xc_leaseId c" "xc_claudeSessionId c" "sn_leaseId session" cs "xc_agentId c" rest] free(1,2)
    by simp
  with active main show ?thesis by simp
qed

section \<open>An example session\<close>

definition demo_profile :: "string \<Rightarrow> string \<Rightarrow> profile_record" where
  "demo_profile i nm =
     \<lparr>prof_id = i, prof_name = nm, harness = Harness_claude, prof_providerId = Some ''p1'', prof_poolId = Some ''k1'',
      modelRoles = [(''primary'', ''gpt-5.6-sol'')], capabilityPolicy = None, launchPolicy = None, prof_version = 1,
      prof_createdAt = 0, prof_updatedAt = 0\<rparr>"

definition demo_session :: launch_session where
  "demo_session =
     \<lparr>sn_profileId = ''pr1'', sn_profileName = ''work'', sn_leaseId = ''l1'', sn_viewId = ''v'',
      sn_modelUniverse = demo_universe,
      sn_binding = sessionPolicySnapshot (Some demo_compiled_policy) (demo_profile ''pr1'' ''work'')\<rparr>"

definition demo_policy_with :: "profile_record list \<Rightarrow> policy_revision" where
  "demo_policy_with profiles = demo_compiled_policy\<lparr>snapshot := (snapshot demo_compiled_policy)\<lparr>snap_profiles := profiles\<rparr>\<rparr>"

definition demo_activation :: activation_input where
  "demo_activation =
     \<lparr>ai_name = Some ''work'', ai_profileId = Some ''pr1'', ai_requestedModel = ''primary'', ai_required = [Req_tools],
      ai_baseCapabilities = conservativeCapabilities, ai_requireClaude = True, ai_resolved = None\<rparr>"

definition activated_summary :: "profile_error + activated_profile \<Rightarrow> profile_error_code + (string \<times> string \<times> string)" where
  "activated_summary r = (case r of Inl e \<Rightarrow> Inl (pe_code e) | Inr a \<Rightarrow> Inr (ap_poolId a, ap_role a, ap_modelId a))"

lemma demo_removed_profile_serves:
  "activated_summary (activateProfile (snap_profiles (snapshot (applySessionBinding (demo_policy_with []) demo_session)))
     demo_activation) = Inr (''k1'', ''primary'', ''gpt-5.6-sol'')"
  by code_simp

theorem session_target_is_pinned_witness:
  "\<exists>a. activateProfile (snap_profiles (snapshot (applySessionBinding (demo_policy_with []) demo_session))) demo_activation = Inr a
     \<and> ap_profile a = frozen_profile (sn_binding demo_session)"
proof -
  obtain a where run: "activateProfile (snap_profiles (snapshot (applySessionBinding (demo_policy_with []) demo_session)))
      demo_activation = Inr a"
    using demo_removed_profile_serves by (auto simp: activated_summary_def split: sum.splits)
  have "ai_profileId demo_activation = Some (pin_profileId (sps_profile (sn_binding demo_session)))" by code_simp
  from session_target_is_pinned [OF this run] run show ?thesis by blast
qed

text \<open>
  A profile that was removed keeps serving its session. One that was renamed does not, once
  another profile has taken its name: the pinned profile is looked up by id, then again by
  the name it had, and the other profile is found first.
\<close>

lemma renamed_profile_loses_session:
  "activated_summary (activateProfile (snap_profiles (snapshot (applySessionBinding
      (demo_policy_with [demo_profile ''pr1'' ''old'', demo_profile ''pr2'' ''work'']) demo_session))) demo_activation)
   = Inl Profile_not_found"
  by code_simp

text \<open>
  Agent and session ids come from request headers. They are joined with a bar, so a session
  whose id contains one can read a context of another session.
\<close>

definition demo_context :: "string \<Rightarrow> string \<Rightarrow> execution_context" where
  "demo_context session agent =
     \<lparr>xc_claudeSessionId = session, xc_agentId = agent, xc_parentAgentId = None, xc_role = Main_agent, xc_leaseId = [],
      xc_profileId = [], xc_profileName = [], xc_accessProviderId = ''cline'', xc_resolvedModelId = ''gpt-5.6-sol'',
      xc_modelFamily = None, xc_effectiveTier = None, xc_mappingRevision = None, xc_registryRevision = None,
      xc_updatedAt = Instant 0\<rparr>"

lemma contexts_join_ids:
  "map_option xc_claudeSessionId (fst (mainContext (\<lambda>_. True) demo_session ''s''
     (record_context (\<lambda>_. True) demo_session (demo_context ''s|t'' ''a'') []))) = Some ''s|t''"
  by code_simp

end
