(* ===== verification/Model_Decision.thy ===== *)
theory Model_Decision
  imports Profiles Reasoning_Translation
begin

text \<open>
  The decision record a routed request carries: \<^verbatim>\<open>src/routing/model-decision/\<close> (\<^verbatim>\<open>types.ts\<close>,
  \<^verbatim>\<open>assemble.ts\<close>, \<^verbatim>\<open>describe.ts\<close>) and the intent trace of \<^verbatim>\<open>src/routing/model-intent/types.ts\<close>.

  The child environment is an association list. The arrow in two of the detail texts is
  written \<open>->\<close>. \<open>collate\<close> is the sort key of \<open>localeCompare\<close>. Reading the persisted view
  model from its settings file is an argument of the assembly (its result); the description
  keeps the native control where the code prints its JSON.
\<close>

section \<open>Types\<close>

datatype model_intent_kind =
  Kind_exact_projection | Kind_rly_logical_tier | Kind_client_native_alias | Kind_exact_client_model | Kind_inherit
  | Kind_default

fun intent_kind_text :: "model_intent_kind \<Rightarrow> string" where
  "intent_kind_text Kind_exact_projection = ''EXACT_PROJECTION''"
| "intent_kind_text Kind_rly_logical_tier = ''RLY_LOGICAL_TIER''"
| "intent_kind_text Kind_client_native_alias = ''CLIENT_NATIVE_ALIAS''"
| "intent_kind_text Kind_exact_client_model = ''EXACT_CLIENT_MODEL''"
| "intent_kind_text Kind_inherit = ''INHERIT''"
| "intent_kind_text Kind_default = ''DEFAULT''"

fun intent_kind :: "model_intent \<Rightarrow> model_intent_kind" where
  "intent_kind (Exact_projection s) = Kind_exact_projection"
| "intent_kind (Rly_logical_tier t s) = Kind_rly_logical_tier"
| "intent_kind (Client_native_alias t s) = Kind_client_native_alias"
| "intent_kind (Exact_client_model s) = Kind_exact_client_model"
| "intent_kind (Inherit s) = Kind_inherit"
| "intent_kind (Default s) = Kind_default"

record model_intent_trace =
  it_kind :: model_intent_kind
  it_sourceSelector :: string
  it_source :: string
  it_tier :: "logical_tier option"
  it_alias :: "logical_tier option"
  it_modelId :: "string option"
  it_role :: "string option"

datatype precedence_source =
    Src_exact_projection | Src_explicit_rly_tier | Src_client_native_alias | Src_exact_client_model
  | Src_subagent_inherit | Src_profile_policy | Src_env_settings_ownership | Src_persisted_rly_view | Src_default

definition PRECEDENCE_ORDER :: "precedence_source list" where
  "PRECEDENCE_ORDER =
     [Src_exact_projection, Src_explicit_rly_tier, Src_client_native_alias, Src_exact_client_model, Src_subagent_inherit,
      Src_profile_policy, Src_env_settings_ownership, Src_persisted_rly_view, Src_default]"

datatype decision_resolution_path =
    Projection_reverse_map | Tier_resolver | Client_alias_contract | Profile_role_mapping | Profile_default_role
  | Parent_context | Profile_default_fallback | Persisted_view_state | Env_ownership | Default_path

datatype conflict_kind =
    Persisted_view_model_vs_request | Projection_vs_view_state | Launch_policy_vs_request
  | Subagent_request_vs_parent_context | Gateway_contract_env_present

record model_decision_conflict =
  cf_kind :: conflict_kind
  cf_detail :: string

record model_decision_reason =
  rs_code :: string
  rs_detail :: string

record blocked_alternative =
  ba_logicalId :: string
  ba_physicalModelId :: string
  ba_modelFamily :: "string option"
  ba_compatibilityState :: compatibility_state
  ba_blockedBy :: "string list"
  ba_effectiveLabel :: "effective_label option"
  ba_enforcementReason :: "string option"

record feature_answer =
  fa_effective :: effective_label
  fa_enforcement :: effective_enforcement

record model_decision_compatibility =
  mdc_authority_ecr :: bool
  mdc_selectedLogicalId :: string
  mdc_effectiveLabel :: "effective_label option"
  mdc_enforcementReason :: "string option"
  mdc_seedState :: "compatibility_state option"
  mdc_features :: "(claim_feature \<times> feature_answer) list option"

record settings_ownership_summary =
  so_rlyOwned :: nat
  so_conflicting :: "string list"
  so_safePassThrough :: nat
  so_unsupported :: "string list"
  so_userOverride :: nat
  so_gatewayEnvKeys :: "string list"

record parent_summary =
  ps_parentModelId :: string
  ps_parentModelFamily :: "string option"
  ps_contextSource :: parent_context_source

record decision_input =
  di_requestId :: string
  di_profileId :: string
  di_profileName :: string
  di_viewId :: string
  di_intent :: model_intent_trace
  di_resolvedModelId :: string
  di_logicalId :: string
  di_accessProviderId :: string
  di_adapterId :: string
  di_modelFamily :: "string option"
  di_poolId :: string
  di_policyRevision :: int
  di_policyHash :: string
  di_registryRevision :: "int option"
  di_mappingRevision :: "int option"
  di_sessionUniverseRevision :: int
  di_experimentalModels :: bool
  di_reasoning :: resolved_reasoning
  di_selection :: model_selection_trace
  di_tier :: "tier_resolution_trace option"
  di_projection :: "model_projection_trace option"
  di_clientAlias :: "(logical_tier \<times> logical_tier) option"
  di_parent :: "parent_summary option"
  di_profileRole :: "string option"
  di_launchPolicyModel :: "string option"
  di_persistedViewModel :: "string option"
  di_environmentOwnership :: "settings_ownership_summary option"
  di_effectiveFeatures :: "(claim_feature \<times> feature_answer) list option"
  di_tierAssessments :: "model_candidate_assessment list option"
  di_decidedAt :: date_text

record decision_precedence =
  dp_order :: "precedence_source list"
  dp_winner :: precedence_source
  dp_resolvedThrough :: decision_resolution_path
  dp_conflicts :: "model_decision_conflict list"

record decision_target =
  dt_accessProviderId :: string
  dt_physicalModelId :: string
  dt_logicalId :: string
  dt_modelFamily :: "string option"
  dt_adapterId :: string

record decision_provenance =
  dv_projection :: "model_projection_trace option"
  dv_tier :: "tier_resolution_trace option"
  dv_clientAlias :: "(logical_tier \<times> logical_tier) option"
  dv_exactClientModel :: bool
  dv_inherit :: "parent_summary option"
  dv_profileRole :: "string option"
  dv_launchPolicyModel :: "string option"
  dv_persistedViewModel :: "string option"
  dv_environmentOwnership :: "settings_ownership_summary option"
  dv_defaulted :: bool

record decision_pool_binding =
  db_poolId :: string
  db_providerId :: string
  db_policyRevision :: int
  db_policyHash :: string
  db_experimentalModels :: bool

record decision_revisions =
  dr_policyRevision :: int
  dr_policyHash :: string
  dr_registryRevision :: "int option"
  dr_mappingRevision :: "int option"
  dr_sessionUniverseRevision :: int

definition MODEL_DECISION_SCHEMA_VERSION :: nat where "MODEL_DECISION_SCHEMA_VERSION = 1"

record effective_model_decision =
  ed_schemaVersion :: nat
  ed_requestId :: string
  ed_profileId :: string
  ed_profileName :: string
  ed_viewId :: string
  ed_intent :: model_intent_trace
  ed_precedence :: decision_precedence
  ed_target :: decision_target
  ed_provenance :: decision_provenance
  ed_reasoning :: resolved_reasoning
  ed_compatibility :: model_decision_compatibility
  ed_poolBinding :: decision_pool_binding
  ed_revisions :: decision_revisions
  ed_reasons :: "model_decision_reason list"
  ed_blockedAlternatives :: "blocked_alternative list"
  ed_decidedAt :: date_text

section \<open>Precedence and conflicts\<close>

fun precedenceSourceForIntent :: "model_intent_kind \<Rightarrow> precedence_source" where
  "precedenceSourceForIntent Kind_exact_projection = Src_exact_projection"
| "precedenceSourceForIntent Kind_rly_logical_tier = Src_explicit_rly_tier"
| "precedenceSourceForIntent Kind_client_native_alias = Src_client_native_alias"
| "precedenceSourceForIntent Kind_exact_client_model = Src_exact_client_model"
| "precedenceSourceForIntent Kind_inherit = Src_subagent_inherit"
| "precedenceSourceForIntent Kind_default = Src_profile_policy"

definition precedenceWinnerFor :: "decision_input \<Rightarrow> precedence_source \<times> decision_resolution_path" where
  "precedenceWinnerFor input =
     (case it_kind (di_intent input) of
        Kind_exact_projection \<Rightarrow>
          if di_persistedViewModel input = Some (it_sourceSelector (di_intent input))
          then (Src_persisted_rly_view, Persisted_view_state) else (Src_exact_projection, Projection_reverse_map)
      | Kind_rly_logical_tier \<Rightarrow> (Src_explicit_rly_tier, Tier_resolver)
      | Kind_client_native_alias \<Rightarrow> (Src_client_native_alias, Client_alias_contract)
      | Kind_exact_client_model \<Rightarrow> (Src_exact_client_model, Profile_role_mapping)
      | Kind_inherit \<Rightarrow>
          if di_parent input = None then (Src_profile_policy, Profile_default_fallback)
          else (Src_subagent_inherit, Parent_context)
      | Kind_default \<Rightarrow> (Src_profile_policy, Profile_default_role))"

definition CONFLICT_ORDER :: "conflict_kind list" where
  "CONFLICT_ORDER =
     [Projection_vs_view_state, Persisted_view_model_vs_request, Launch_policy_vs_request,
      Subagent_request_vs_parent_context, Gateway_contract_env_present]"

fun conflict_rank :: "conflict_kind \<Rightarrow> nat" where
  "conflict_rank Projection_vs_view_state = 0"
| "conflict_rank Persisted_view_model_vs_request = 1"
| "conflict_rank Launch_policy_vs_request = 2"
| "conflict_rank Subagent_request_vs_parent_context = 3"
| "conflict_rank Gateway_contract_env_present = 4"

fun join_commas :: "string list \<Rightarrow> string" where
  "join_commas [] = []"
| "join_commas [w] = w"
| "join_commas (w # ws) = w @ '','' @ join_commas ws"

definition view_conflict :: "decision_input \<Rightarrow> model_decision_conflict list" where
  "view_conflict input =
     (let selector = it_sourceSelector (di_intent input)
      in case di_persistedViewModel input of
           None \<Rightarrow> []
         | Some persisted \<Rightarrow>
             if persisted = selector then []
             else if it_kind (di_intent input) = Kind_exact_projection then
               [\<lparr>cf_kind = Projection_vs_view_state,
                 cf_detail = ''requested projection '' @ selector @ '' is not the owning view''
                   @ [CHR 0x27] @ ''s persisted model '' @ persisted
                   @ ''; resolved through the pinned session universe only''\<rparr>]
             else
               [\<lparr>cf_kind = Persisted_view_model_vs_request,
                 cf_detail = ''owning view persists '' @ persisted @ '' but the request selector was '' @ selector
                   @ ''; explicit request selection wins''\<rparr>])"

definition launch_conflict :: "decision_input \<Rightarrow> model_decision_conflict list" where
  "launch_conflict input =
     (let selector = it_sourceSelector (di_intent input)
      in case di_launchPolicyModel input of
           None \<Rightarrow> []
         | Some pinned \<Rightarrow>
             if pinned = selector then []
             else [\<lparr>cf_kind = Launch_policy_vs_request,
                     cf_detail = ''launch policy pins '' @ pinned @ '' but the request selector was '' @ selector
                       @ ''; explicit request selection wins''\<rparr>])"

definition parent_conflict :: "decision_input \<Rightarrow> model_decision_conflict list" where
  "parent_conflict input =
     (case di_parent input of
        None \<Rightarrow> []
      | Some parent \<Rightarrow>
          if it_kind (di_intent input) \<noteq> Kind_inherit \<and> di_resolvedModelId input \<noteq> ps_parentModelId parent
          then [\<lparr>cf_kind = Subagent_request_vs_parent_context,
                 cf_detail = ''subagent explicitly selected '' @ di_resolvedModelId input
                   @ '' while the frozen parent context holds '' @ ps_parentModelId parent
                   @ ''; the child intent wins and the parent is not mutated''\<rparr>]
          else [])"

definition env_conflict :: "decision_input \<Rightarrow> model_decision_conflict list" where
  "env_conflict input =
     (case di_environmentOwnership input of
        None \<Rightarrow> []
      | Some own \<Rightarrow>
          if so_gatewayEnvKeys own = [] then []
          else [\<lparr>cf_kind = Gateway_contract_env_present,
                 cf_detail = ''child environment carries RLY-owned gateway-contract env keys ('' @ join_commas (so_gatewayEnvKeys own)
                   @ ''); RLY-owned by contract, stripped from native settings''\<rparr>])"

definition detectConflicts :: "decision_input \<Rightarrow> model_decision_conflict list" where
  "detectConflicts input =
     sort_key (\<lambda>c. conflict_rank (cf_kind c))
       (view_conflict input @ launch_conflict input @ parent_conflict input @ env_conflict input)"

definition GATEWAY_CONTRACT_ENV_KEYS :: "string list" where
  "GATEWAY_CONTRACT_ENV_KEYS =
     [''ANTHROPIC_BASE_URL'', ''ANTHROPIC_AUTH_TOKEN'', ''ANTHROPIC_API_KEY'', ''OPENAI_BASE_URL'', ''OPENAI_API_KEY'',
      ''CODEX_HOME'', ''CODEX_API_KEY'', ''CLAUDE_CODE_ENABLE_GATEWAY_MODEL_DISCOVERY'']"

definition environmentOwnershipSummary :: "(string \<times> string) list \<Rightarrow> settings_ownership_summary" where
  "environmentOwnershipSummary environment =
     (let keys = map fst environment; gateway = filter (\<lambda>k. k \<in> set GATEWAY_CONTRACT_ENV_KEYS) keys
      in \<lparr>so_rlyOwned = length gateway, so_conflicting = [],
          so_safePassThrough =
            length (filter (\<lambda>k. k \<notin> set GATEWAY_CONTRACT_ENV_KEYS
              \<and> (starts_with k ''ANTHROPIC_'' \<or> starts_with k ''OPENAI_'' \<or> starts_with k ''CODEX_''
                 \<or> starts_with k ''RLY_'')) keys),
          so_unsupported = [], so_userOverride = 0, so_gatewayEnvKeys = gateway\<rparr>)"

definition rlyOwnedModel :: "json \<Rightarrow> string option" where
  "rlyOwnedModel settings =
     (case json_field settings ''model'' of
        Some (JStr model) \<Rightarrow> if starts_with model RLY_MODEL_PREFIX then Some model else None
      | _ \<Rightarrow> None)"

definition readPersistedViewModel :: "json option \<Rightarrow> string option" where
  "readPersistedViewModel settings = Option.bind settings rlyOwnedModel"

section \<open>Blocked alternatives and reasons\<close>

definition blocked_by :: "model_candidate_assessment \<Rightarrow> string list" where
  "blocked_by a =
     (if get_or [] (mc_missingCapabilities a) \<noteq> [] then [''capability-unsupported''] else [])
     @ (if mc_reasoningFailure a \<noteq> None then [''reasoning-unsupported''] else [])
     @ (if mc_compatibilityFailure a \<noteq> None then [''compatibility-rejected''] else [])"

definition blocked_of :: "model_candidate_assessment \<Rightarrow> blocked_alternative" where
  "blocked_of a =
     \<lparr>ba_logicalId = mc_logicalId a, ba_physicalModelId = mc_modelId a, ba_modelFamily = mc_modelFamily a,
      ba_compatibilityState = mc_compatibilityState a, ba_blockedBy = blocked_by a,
      ba_effectiveLabel = mc_effectiveLabel a, ba_enforcementReason = mc_enforcementReason a\<rparr>"

definition blockedAlternativesFor :: "model_selection_trace \<Rightarrow> blocked_alternative list" where
  "blockedAlternativesFor selection =
     map blocked_of (filter (\<lambda>a. \<not> mc_selected a \<and> blocked_by a \<noteq> []) (mt_candidates selection))"

definition add_blocked ::
  "(string \<times> blocked_alternative) list \<Rightarrow> model_candidate_assessment \<Rightarrow> (string \<times> blocked_alternative) list" where
  "add_blocked merged a =
     (if mc_selected a \<or> blocked_by a = [] then merged
      else case map_of merged (mc_logicalId a) of
             Some existing \<Rightarrow>
               if length (blocked_by a) < length (ba_blockedBy existing) then merged
               else AList.update (mc_logicalId a) (blocked_of a) merged
           | None \<Rightarrow> AList.update (mc_logicalId a) (blocked_of a) merged)"

definition blockedAlternativesForInput :: "(string \<Rightarrow> 'k::linorder) \<Rightarrow> decision_input \<Rightarrow> blocked_alternative list" where
  "blockedAlternativesForInput collate input =
     sort_key (\<lambda>b. collate (ba_logicalId b))
       (map snd (foldl add_blocked [] (mt_candidates (di_selection input) @ get_or [] (di_tierAssessments input))))"

fun mapping_source_text :: "tier_mapping_source \<Rightarrow> string" where
  "mapping_source_text User_override = ''user-override''"
| "mapping_source_text Reviewed_mapping = ''reviewed-mapping''"
| "mapping_source_text Derived = ''derived''"
| "mapping_source_text Fallback = ''fallback''"

fun mapping_kind_text :: "reasoning_mapping_kind \<Rightarrow> string" where
  "mapping_kind_text Map_exact = ''exact''"
| "mapping_kind_text Map_normalized = ''normalized''"
| "mapping_kind_text Map_downgraded = ''downgraded''"
| "mapping_kind_text Map_default = ''default''"

fun context_source_text :: "parent_context_source \<Rightarrow> string" where
  "context_source_text From_parent_agent = ''parent-agent''"
| "context_source_text From_session_default = ''session-default''"
| "context_source_text From_profile_default = ''profile-default''"

fun label_text :: "effective_label \<Rightarrow> string" where
  "label_text Label_trusted = ''trusted''"
| "label_text Label_stale = ''stale''"
| "label_text Label_experimental = ''experimental''"
| "label_text Label_untrusted = ''untrusted''"
| "label_text Label_quarantined = ''quarantined''"
| "label_text Label_missing = ''missing''"

definition selected_assessment :: "decision_input \<Rightarrow> model_candidate_assessment option" where
  "selected_assessment input = List.find mc_selected (mt_candidates (di_selection input))"

definition authority_reason :: "decision_input \<Rightarrow> model_decision_reason" where
  "authority_reason input =
     (case selected_assessment input of
        Some a \<Rightarrow>
          if mc_authority_ecr a
          then \<lparr>rs_code = ''ecr-authority'',
                rs_detail = ''Effective Compatibility Registry authority: ''
                  @ (case mc_effectiveLabel a of None \<Rightarrow> ''unknown'' | Some l \<Rightarrow> label_text l)
                  @ (case mc_enforcementReason a of None \<Rightarrow> [] | Some r \<Rightarrow> '' ('' @ r @ '')'')\<rparr>
          else \<lparr>rs_code = ''seed-authority'',
                rs_detail = ''no ECR snapshot; legacy static compatibility state is seed/reference only''\<rparr>
      | None \<Rightarrow>
          \<lparr>rs_code = ''seed-authority'',
           rs_detail = ''no ECR snapshot; legacy static compatibility state is seed/reference only''\<rparr>)"

definition tier_alternative_blocked :: "model_candidate_assessment \<Rightarrow> bool" where
  "tier_alternative_blocked a \<longleftrightarrow>
     \<not> mc_selected a \<and> (mc_compatibilityFailure a \<noteq> None \<or> mc_reasoningFailure a \<noteq> None
                        \<or> get_or [] (mc_missingCapabilities a) \<noteq> [])"

definition reason_if :: "bool \<Rightarrow> string \<Rightarrow> string \<Rightarrow> model_decision_reason list" where
  "reason_if wanted code detail = (if wanted then [\<lparr>rs_code = code, rs_detail = detail\<rparr>] else [])"

definition reasonsFor :: "decision_input \<Rightarrow> model_decision_reason list" where
  "reasonsFor input =
     (let tiers = get_or [] (di_tierAssessments input)
      in reason_if True ''intent-resolved''
           (''selector classified as '' @ intent_kind_text (it_kind (di_intent input)) @ '' from '' @ it_source (di_intent input))
       @ reason_if True ''frozen-model-target''
           (''physical target frozen ('' @ di_accessProviderId input @ ''/'' @ di_resolvedModelId input
            @ '') before account selection'')
       @ (case di_tier input of
            None \<Rightarrow> []
          | Some t \<Rightarrow> reason_if True ''tier-resolved''
              (''logical tier '' @ tier_text (tt_requestedTier t) @ '' resolved via ''
               @ mapping_source_text (tt_mappingSource t) @ '' mapping''))
       @ (case di_projection input of
            None \<Rightarrow> []
          | Some p \<Rightarrow> reason_if True ''projection-reverse-mapped''
              (''projection '' @ pt_projectionId p @ '' reverse-mapped to one exact access-provider/model target''))
       @ (case di_parent input of
            None \<Rightarrow> []
          | Some p \<Rightarrow> reason_if (it_kind (di_intent input) = Kind_inherit) ''parent-context-inherited''
              (''inherited frozen parent model '' @ ps_parentModelId p @ '' (''
               @ context_source_text (ps_contextSource p) @ '')''))
       @ reason_if True ''reasoning-mapped''
           (''reasoning intent '' @ intent_text (canonicalIntent (di_reasoning input)) @ '' mapped ''
            @ mapping_kind_text (mappingKind (di_reasoning input)) @ '' to native control'')
       @ [authority_reason input]
       @ reason_if True ''pool-pinned''
           (''provider->pool binding '' @ di_poolId input @ '' pinned; account selection happens downstream in the pool'')
       @ (case di_persistedViewModel input of
            None \<Rightarrow> []
          | Some m \<Rightarrow> reason_if True ''persisted-view-state''
              (''RLY view '' @ di_viewId input @ '' persists projection '' @ m))
       @ (case di_environmentOwnership input of
            None \<Rightarrow> []
          | Some own \<Rightarrow> reason_if (0 < so_rlyOwned own) ''env-ownership''
              (''child environment: '' @ show_nat (so_rlyOwned own) @ '' RLY-owned gateway keys, ''
               @ show_nat (so_safePassThrough own) @ '' pass-through''))
       @ reason_if (list_ex tier_alternative_blocked tiers) ''blocked-alternatives-considered''
           (show_nat (length (filter (\<lambda>a. \<not> mc_selected a) tiers))
            @ '' alternative tier candidates evaluated and blocked by #68 eligibility''))"

section \<open>Assembly and description\<close>

definition decision_compatibility :: "decision_input \<Rightarrow> model_decision_compatibility" where
  "decision_compatibility input =
     (let selected = selected_assessment input
      in \<lparr>mdc_authority_ecr = get_or False (map_option mc_authority_ecr selected),
          mdc_selectedLogicalId = mt_selectedLogicalId (di_selection input),
          mdc_effectiveLabel = Option.bind selected mc_effectiveLabel,
          mdc_enforcementReason = Option.bind selected mc_enforcementReason,
          mdc_seedState = map_option mc_compatibilityState selected,
          mdc_features = (if di_effectiveFeatures input = Some [] then None else di_effectiveFeatures input)\<rparr>)"

definition assembleEffectiveModelDecision :: "(string \<Rightarrow> 'k::linorder) \<Rightarrow> decision_input \<Rightarrow> effective_model_decision" where
  "assembleEffectiveModelDecision collate input =
     (let (winner, resolvedThrough) = precedenceWinnerFor input; kind = it_kind (di_intent input)
      in \<lparr>ed_schemaVersion = MODEL_DECISION_SCHEMA_VERSION, ed_requestId = di_requestId input,
          ed_profileId = di_profileId input, ed_profileName = di_profileName input, ed_viewId = di_viewId input,
          ed_intent = di_intent input,
          ed_precedence = \<lparr>dp_order = PRECEDENCE_ORDER, dp_winner = winner, dp_resolvedThrough = resolvedThrough,
                           dp_conflicts = detectConflicts input\<rparr>,
          ed_target = \<lparr>dt_accessProviderId = di_accessProviderId input, dt_physicalModelId = di_resolvedModelId input,
                       dt_logicalId = di_logicalId input, dt_modelFamily = di_modelFamily input,
                       dt_adapterId = di_adapterId input\<rparr>,
          ed_provenance = \<lparr>dv_projection = di_projection input, dv_tier = di_tier input,
                           dv_clientAlias = di_clientAlias input, dv_exactClientModel = (kind = Kind_exact_client_model),
                           dv_inherit = di_parent input, dv_profileRole = di_profileRole input,
                           dv_launchPolicyModel = di_launchPolicyModel input,
                           dv_persistedViewModel = di_persistedViewModel input,
                           dv_environmentOwnership = di_environmentOwnership input,
                           dv_defaulted = (kind = Kind_default \<or> kind = Kind_inherit \<and> di_parent input = None)\<rparr>,
          ed_reasoning = di_reasoning input, ed_compatibility = decision_compatibility input,
          ed_poolBinding = \<lparr>db_poolId = di_poolId input, db_providerId = di_accessProviderId input,
                            db_policyRevision = di_policyRevision input, db_policyHash = di_policyHash input,
                            db_experimentalModels = di_experimentalModels input\<rparr>,
          ed_revisions = \<lparr>dr_policyRevision = di_policyRevision input, dr_policyHash = di_policyHash input,
                          dr_registryRevision = di_registryRevision input,
                          dr_mappingRevision = di_mappingRevision input,
                          dr_sessionUniverseRevision = di_sessionUniverseRevision input\<rparr>,
          ed_reasons = reasonsFor input, ed_blockedAlternatives = blockedAlternativesForInput collate input,
          ed_decidedAt = di_decidedAt input\<rparr>)"

record described_provenance =
  dd_projectionId :: "string option"
  dd_tier :: "logical_tier option"
  dd_alias :: "logical_tier option"
  dd_parentModelId :: "string option"
  dd_contextSource :: "parent_context_source option"
  dd_profileRole :: "string option"
  dd_launchPolicyModel :: "string option"
  dd_persistedViewModel :: "string option"
  dd_defaulted :: bool

record model_decision_description =
  md_schemaVersion :: nat
  md_requestId :: string
  md_profileName :: string
  md_viewId :: string
  md_intent :: model_intent_trace
  md_winner :: precedence_source
  md_resolvedThrough :: decision_resolution_path
  md_conflicts :: "model_decision_conflict list"
  md_target :: decision_target
  md_provenance :: described_provenance
  md_canonicalIntent :: reasoning_intent
  md_mappingKind :: reasoning_mapping_kind
  md_control :: native_reasoning_control
  md_fallbackReason :: "string option"
  md_authority_ecr :: bool
  md_effectiveLabel :: "effective_label option"
  md_enforcementReason :: "string option"
  md_seedState :: "compatibility_state option"
  md_poolId :: string
  md_providerId :: string
  md_policyRevision :: int
  md_experimentalModels :: bool
  md_revisionsPolicy :: int
  md_registryRevision :: "int option"
  md_mappingRevision :: "int option"
  md_sessionUniverseRevision :: int
  md_reasons :: "model_decision_reason list"
  md_blockedAlternatives :: "(string \<times> string \<times> string option \<times> string list \<times> effective_label option \<times> string option) list"
  md_decidedAt :: date_text

definition describeModelDecision :: "effective_model_decision \<Rightarrow> model_decision_description" where
  "describeModelDecision d =
     (let v = ed_provenance d; c = ed_compatibility d; r = ed_reasoning d
      in \<lparr>md_schemaVersion = ed_schemaVersion d, md_requestId = ed_requestId d, md_profileName = ed_profileName d,
          md_viewId = ed_viewId d, md_intent = ed_intent d, md_winner = dp_winner (ed_precedence d),
          md_resolvedThrough = dp_resolvedThrough (ed_precedence d), md_conflicts = dp_conflicts (ed_precedence d),
          md_target = ed_target d,
          md_provenance =
            \<lparr>dd_projectionId = map_option pt_projectionId (dv_projection v),
             dd_tier = map_option tt_requestedTier (dv_tier v), dd_alias = map_option fst (dv_clientAlias v),
             dd_parentModelId = map_option ps_parentModelId (dv_inherit v),
             dd_contextSource = map_option ps_contextSource (dv_inherit v), dd_profileRole = dv_profileRole v,
             dd_launchPolicyModel = dv_launchPolicyModel v, dd_persistedViewModel = dv_persistedViewModel v,
             dd_defaulted = dv_defaulted v\<rparr>,
          md_canonicalIntent = canonicalIntent r, md_mappingKind = mappingKind r, md_control = effective_control r,
          md_fallbackReason = fallbackReason r, md_authority_ecr = mdc_authority_ecr c,
          md_effectiveLabel = mdc_effectiveLabel c, md_enforcementReason = mdc_enforcementReason c,
          md_seedState = mdc_seedState c, md_poolId = db_poolId (ed_poolBinding d),
          md_providerId = db_providerId (ed_poolBinding d), md_policyRevision = db_policyRevision (ed_poolBinding d),
          md_experimentalModels = db_experimentalModels (ed_poolBinding d),
          md_revisionsPolicy = dr_policyRevision (ed_revisions d), md_registryRevision = dr_registryRevision (ed_revisions d),
          md_mappingRevision = dr_mappingRevision (ed_revisions d),
          md_sessionUniverseRevision = dr_sessionUniverseRevision (ed_revisions d), md_reasons = ed_reasons d,
          md_blockedAlternatives =
            map (\<lambda>b. (ba_logicalId b, ba_physicalModelId b, ba_modelFamily b, ba_blockedBy b, ba_effectiveLabel b,
                      ba_enforcementReason b)) (ed_blockedAlternatives d),
          md_decidedAt = ed_decidedAt d\<rparr>)"

section \<open>Every disagreement is recorded, once\<close>

text \<open>When two sources disagree, without the texts.\<close>

fun disagree :: "decision_input \<Rightarrow> conflict_kind \<Rightarrow> bool" where
  "disagree input Projection_vs_view_state \<longleftrightarrow>
     it_kind (di_intent input) = Kind_exact_projection
     \<and> di_persistedViewModel input \<notin> {None, Some (it_sourceSelector (di_intent input))}"
| "disagree input Persisted_view_model_vs_request \<longleftrightarrow>
     it_kind (di_intent input) \<noteq> Kind_exact_projection
     \<and> di_persistedViewModel input \<notin> {None, Some (it_sourceSelector (di_intent input))}"
| "disagree input Launch_policy_vs_request \<longleftrightarrow>
     di_launchPolicyModel input \<notin> {None, Some (it_sourceSelector (di_intent input))}"
| "disagree input Subagent_request_vs_parent_context \<longleftrightarrow>
     it_kind (di_intent input) \<noteq> Kind_inherit
     \<and> map_option ps_parentModelId (di_parent input) \<notin> {None, Some (di_resolvedModelId input)}"
| "disagree input Gateway_contract_env_present \<longleftrightarrow>
     map_option so_gatewayEnvKeys (di_environmentOwnership input) \<notin> {None, Some []}"

lemma conflict_kinds:
  "map cf_kind (view_conflict input) =
     filter (disagree input) [Projection_vs_view_state, Persisted_view_model_vs_request]"
  "map cf_kind (launch_conflict input) = filter (disagree input) [Launch_policy_vs_request]"
  "map cf_kind (parent_conflict input) = filter (disagree input) [Subagent_request_vs_parent_context]"
  "map cf_kind (env_conflict input) = filter (disagree input) [Gateway_contract_env_present]"
  by (auto simp: view_conflict_def launch_conflict_def parent_conflict_def env_conflict_def Let_def
      split: option.splits)

lemma sorted_map_filter_sub: "sorted (map f xs) \<Longrightarrow> sorted (map f (filter P xs))"
  by (induction xs) auto

text \<open>Every disagreement is recorded, once, in the documented order. The conflicts of a decision are exactly the kinds of
  conflict whose two sources disagree (the view's persisted model, the launch policy's model, the frozen parent's
  model, the gateway's environment keys, each against the request), each once, ordered by the fixed list.\<close>

theorem conflicts_are_exact:
  "map cf_kind (detectConflicts input) = filter (disagree input) CONFLICT_ORDER"
proof -
  let ?all = "view_conflict input @ launch_conflict input @ parent_conflict input @ env_conflict input"
  have kinds: "map cf_kind ?all = filter (disagree input) CONFLICT_ORDER"
    unfolding map_append conflict_kinds CONFLICT_ORDER_def by simp
  have "sorted (map conflict_rank CONFLICT_ORDER)" by (simp add: CONFLICT_ORDER_def)
  then have "sorted (map conflict_rank (map cf_kind ?all))" unfolding kinds by (rule sorted_map_filter_sub)
  then have "sorted (map (\<lambda>c. conflict_rank (cf_kind c)) ?all)" by (simp only: map_map o_def)
  then have "detectConflicts input = ?all" unfolding detectConflicts_def by (rule sort_key_id_if_sorted)
  with kinds show ?thesis by simp
qed

section \<open>Blocked alternatives\<close>

lemma add_blocked_keys:
  "distinct (map fst m) \<Longrightarrow> list_all (\<lambda>(i, b). i = ba_logicalId b) m \<Longrightarrow>
     distinct (map fst (add_blocked m a)) \<and> list_all (\<lambda>(i, b). i = ba_logicalId b) (add_blocked m a)"
proof -
  assume keys: "distinct (map fst m)" and ids: "list_all (\<lambda>(i, b). i = ba_logicalId b) m"
  have "list_all (\<lambda>(i, b). i = ba_logicalId b) (AList.update (mc_logicalId a) (blocked_of a) m)"
    using set_alist_update [of "mc_logicalId a" "blocked_of a" m] ids
    by (auto simp: list_all_iff blocked_of_def)
  with keys ids show ?thesis by (simp add: add_blocked_def distinct_update split: option.splits)
qed

lemma blocked_fold_keys:
  "distinct (map fst m) \<Longrightarrow> list_all (\<lambda>(i, b). i = ba_logicalId b) m \<Longrightarrow>
     distinct (map fst (foldl add_blocked m as)) \<and> list_all (\<lambda>(i, b). i = ba_logicalId b) (foldl add_blocked m as)"
proof (induction as arbitrary: m)
  case (Cons a as)
  with add_blocked_keys [OF Cons.prems, of a] show ?case by simp
qed simp

lemma blocked_fold_source:
  "(i, b) \<in> set (foldl add_blocked m as) \<Longrightarrow>
     (i, b) \<in> set m \<or> (\<exists>a \<in> set as. \<not> mc_selected a \<and> blocked_by a \<noteq> [] \<and> b = blocked_of a)"
proof (induction as arbitrary: m)
  case (Cons a as)
  then have "(i, b) \<in> set (add_blocked m a) \<or> (\<exists>a \<in> set as. \<not> mc_selected a \<and> blocked_by a \<noteq> [] \<and> b = blocked_of a)"
    by simp
  moreover have "(i, b) \<in> set m \<or> \<not> mc_selected a \<and> blocked_by a \<noteq> [] \<and> b = blocked_of a" if "(i, b) \<in> set (add_blocked m a)"
    using that set_alist_update [of "mc_logicalId a" "blocked_of a" m]
    by (auto simp: add_blocked_def split: if_splits option.splits)
  ultimately show ?case by auto
qed simp

text \<open>The alternatives name each model once, and only models some assessment did not select and rejected.\<close>

lemma blocked_alternatives_sound:
  "distinct (map ba_logicalId (blockedAlternativesForInput collate input))
     \<and> (\<forall>b \<in> set (blockedAlternativesForInput collate input).
          \<exists>a \<in> set (mt_candidates (di_selection input) @ get_or [] (di_tierAssessments input)).
            \<not> mc_selected a \<and> blocked_by a \<noteq> [] \<and> b = blocked_of a)"
proof -
  let ?m = "foldl add_blocked [] (mt_candidates (di_selection input) @ get_or [] (di_tierAssessments input))"
  have keys: "distinct (map fst ?m)" and ids: "map ba_logicalId (map snd ?m) = map fst ?m"
    using blocked_fold_keys [of "[]" "mt_candidates (di_selection input) @ get_or [] (di_tierAssessments input)"]
    by (auto simp: list_all_iff simp del: foldl_append)
  then have "distinct (map snd ?m)" "inj_on ba_logicalId (set (map snd ?m))"
    unfolding ids [symmetric] by (simp_all only: distinct_map)
  then have "distinct (map ba_logicalId (blockedAlternativesForInput collate input))"
    unfolding blockedAlternativesForInput_def by (simp add: distinct_map del: foldl_append)
  moreover have "\<exists>a \<in> set (mt_candidates (di_selection input) @ get_or [] (di_tierAssessments input)).
      \<not> mc_selected a \<and> blocked_by a \<noteq> [] \<and> b = blocked_of a"
    if "b \<in> set (blockedAlternativesForInput collate input)" for b
  proof -
    from that obtain i where "(i, b) \<in> set ?m"
      unfolding blockedAlternativesForInput_def by (auto simp del: foldl_append)
    from blocked_fold_source [OF this] show ?thesis by simp
  qed
  ultimately show ?thesis by blast
qed

end
