(* ===== verification/Provider_Catalog.thy ===== *)
theory Provider_Catalog
  imports Registry Provider_Errors
begin

text \<open>
  The provider catalog (\<^verbatim>\<open>src/providers/catalog.ts\<close>) and the choice of an adapter for a provider
  (\<^verbatim>\<open>src/providers/dispatch.ts\<close>).

  \<open>url_of\<close> is \<open>new URL\<close>: the protocol, the host name and the port an endpoint parses to, or
  \<open>None\<close> where the constructor throws. An adapter is what its constructor is given: its id, the
  endpoint and which of the two scoped secrets it holds. A thrown \<open>ProviderAdapterError\<close> is on the
  left of the sum.
\<close>

section \<open>The catalog\<close>

fun mode_text :: "integration_mode \<Rightarrow> string" where
  "mode_text Direct = ''direct''"
| "mode_text integration_mode.Oauth = ''oauth''"
| "mode_text integration_mode.Bridge = ''bridge''"

datatype provider_ownership = Direct_api | Project_oauth | Attested_bridge | Explicit_interop
datatype provider_import_mode = Import_none | Explicit_readonly | Opt_in_interoperability
datatype credential_provider = Cred_codex | Cred_gemini | Cred_claude | Cred_cline

record provider_contract =
  pc_id :: string
  pc_name :: string
  pc_adapterId :: string
  pc_integrationMode :: integration_mode
  pc_ownership :: provider_ownership
  pc_importMode :: provider_import_mode
  pc_credentialProvider :: "credential_provider option"
  pc_termsGated :: bool
  pc_defaultTermsRevision :: "string option"
  pc_localOnly :: bool
  pc_defaultEndpoint :: string
  pc_capabilities :: provider_capabilities

definition catalog_conservative :: provider_capabilities where
  "catalog_conservative =
     \<lparr>cap_streaming = True, cap_tools = True, cap_parallelTools = False, cap_images = False, cap_reasoning = True,
      cap_redactedReasoning = False, cap_structuredOutput = False, cap_tokenCounting = Conservative_estimate\<rparr>"

definition claude_capabilities :: provider_capabilities where
  "claude_capabilities =
     \<lparr>cap_streaming = False, cap_tools = False, cap_parallelTools = False, cap_images = False, cap_reasoning = False,
      cap_redactedReasoning = False, cap_structuredOutput = False, cap_tokenCounting = Conservative_estimate\<rparr>"

text \<open>What \<open>entry\<close> makes of the fields every entry names; the optional ones are set on the result.\<close>

definition catalog_entry :: "string \<Rightarrow> string \<Rightarrow> integration_mode \<Rightarrow> provider_ownership \<Rightarrow> string \<Rightarrow> provider_contract" where
  "catalog_entry i adapterId mode ownership endpoint =
     \<lparr>pc_id = i, pc_name = i, pc_adapterId = adapterId, pc_integrationMode = mode, pc_ownership = ownership,
      pc_importMode = Import_none, pc_credentialProvider = None, pc_termsGated = False, pc_defaultTermsRevision = None,
      pc_localOnly = False, pc_defaultEndpoint = endpoint, pc_capabilities = catalog_conservative\<rparr>"

definition PROVIDER_CATALOG :: "provider_contract list" where
  "PROVIDER_CATALOG =
     [catalog_entry ''openrouter'' ''openrouter-direct'' Direct Direct_api ''https://openrouter.ai/api/v1'',
      catalog_entry ''deepseek'' ''deepseek-direct'' Direct Direct_api ''https://api.deepseek.com'',
      (catalog_entry ''codex'' ''codex-oauth'' integration_mode.Oauth Project_oauth ''https://chatgpt.com/backend-api/codex'')
        \<lparr>pc_importMode := Explicit_readonly, pc_credentialProvider := Some Cred_codex\<rparr>,
      (catalog_entry ''gemini'' ''gemini-oauth'' integration_mode.Oauth Project_oauth
         ''https://generativelanguage.googleapis.com/v1beta/openai'')
        \<lparr>pc_importMode := Explicit_readonly, pc_credentialProvider := Some Cred_gemini\<rparr>,
      (catalog_entry ''antigravity'' ''antigravity-bridge'' integration_mode.Bridge Attested_bridge ''http://127.0.0.1:17874'')
        \<lparr>pc_localOnly := True\<rparr>,
      (catalog_entry ''cline'' ''cline-interop'' integration_mode.Oauth Explicit_interop [])
        \<lparr>pc_importMode := Opt_in_interoperability, pc_credentialProvider := Some Cred_cline, pc_localOnly := True\<rparr>,
      (catalog_entry ''claude'' ''claude-oauth'' integration_mode.Oauth Project_oauth ''https://api.anthropic.com'')
        \<lparr>pc_importMode := Explicit_readonly, pc_credentialProvider := Some Cred_claude, pc_capabilities := claude_capabilities\<rparr>,
      catalog_entry ''opencode-go'' ''opencode-go-direct'' Direct Direct_api ''https://opencode.ai/zen/go/v1'',
      (catalog_entry ''alibaba'' ''alibaba-direct'' Direct Direct_api ''https://dashscope.aliyuncs.com/compatible-mode/v1'')
        \<lparr>pc_termsGated := True, pc_localOnly := True, pc_defaultTermsRevision := Some ''alibaba-terms-1''\<rparr>]"

definition providerContract :: "string \<Rightarrow> provider_contract option" where
  "providerContract nm = List.find (\<lambda>item. pc_name item = nm \<or> pc_id item = nm) PROVIDER_CATALOG"

definition catalog_adapterIdForProvider :: "string \<Rightarrow> integration_mode \<Rightarrow> thrown + string" where
  "catalog_adapterIdForProvider nm mode =
     (case providerContract nm of
        Some contract \<Rightarrow>
          if pc_integrationMode contract = mode then Inr (pc_adapterId contract)
          else Inl (Adapter_error (providerFailure ''unavailable'' None Unknown_commitment
                      (''unknown provider '' @ nm @ ''/'' @ mode_text mode)))
      | None \<Rightarrow> Inl (Adapter_error (providerFailure ''unavailable'' None Unknown_commitment
                      (''unknown provider '' @ nm @ ''/'' @ mode_text mode))))"

section \<open>Endpoint policies\<close>

record parsed_url =
  url_protocol :: string
  url_hostname :: string
  url_port :: "int option"

definition PROTECTED_PORTS :: "int list" where "PROTECTED_PORTS = [10100, 8317, 17870]"

text \<open>The port a URL is checked with: its own, else the default of its scheme (\<open>None\<close> is \<open>NaN\<close>).\<close>

definition endpoint_port :: "parsed_url \<Rightarrow> int option" where
  "endpoint_port url =
     (case url_port url of
        Some p \<Rightarrow> Some p
      | None \<Rightarrow> if url_protocol url = ''https:'' then Some 443 else if url_protocol url = ''http:'' then Some 80 else None)"

definition assertSafeEndpointPolicy :: "(string \<Rightarrow> parsed_url option) \<Rightarrow> string \<Rightarrow> cp_error + unit" where
  "assertSafeEndpointPolicy url_of endpoint =
     (case url_of endpoint of
        None \<Rightarrow> Inl (Validation ''endpoint policy must be a URL'')
      | Some url \<Rightarrow>
          if (case endpoint_port url of None \<Rightarrow> False | Some p \<Rightarrow> p \<in> set PROTECTED_PORTS)
          then Inl (Validation ''endpoint policy cannot use a protected port'')
          else if url_hostname url \<noteq> ''127.0.0.1'' \<and> url_protocol url \<noteq> ''https:''
          then Inl (Validation ''endpoint policy must be loopback or https'')
          else Inr ())"

definition non_empty :: "string option \<Rightarrow> string option" where
  "non_empty v = (if v = Some [] then None else v)"

definition applyCatalogDefaults ::
  "(string \<Rightarrow> parsed_url option) \<Rightarrow> string \<Rightarrow> integration_mode \<Rightarrow> string option \<Rightarrow> string option
     \<Rightarrow> cp_error + (string \<times> string option)" where
  "applyCatalogDefaults url_of nm mode endpoint terms =
     (case providerContract nm of
        None \<Rightarrow> Inl (Validation (''unknown provider '' @ nm))
      | Some contract \<Rightarrow>
          if pc_integrationMode contract \<noteq> mode
          then Inl (Validation (''provider '' @ nm @ '' requires integration mode '' @ mode_text (pc_integrationMode contract)))
          else (case or_else (non_empty endpoint) (non_empty (Some (pc_defaultEndpoint contract))) of
                  None \<Rightarrow> Inl (Validation (''provider '' @ nm @ '' requires an endpoint policy''))
                | Some policy \<Rightarrow>
                    bind_ok (assertSafeEndpointPolicy url_of policy) (\<lambda>_.
                      Inr (policy, or_else terms (pc_defaultTermsRevision contract)))))"

section \<open>Dispatch\<close>

definition adapterIdFor :: "provider_record \<Rightarrow> thrown + string" where
  "adapterIdFor provider = catalog_adapterIdForProvider (prov_name provider) (integrationMode provider)"

record adapter_handle =
  ah_adapterId :: string
  ah_endpoint :: "string option"
  ah_accessToken :: bool
  ah_accountId :: bool

definition requireToken :: "string \<Rightarrow> bool \<Rightarrow> thrown + unit" where
  "requireToken adapterId token =
     guard_ok token (Adapter_error (providerFailure ''unauthenticated'' None Unknown_commitment
       (adapterId @ '' requires a request-scoped credential'')))"

definition createProviderAdapter :: "provider_record \<Rightarrow> bool \<Rightarrow> bool \<Rightarrow> thrown + adapter_handle" where
  "createProviderAdapter provider token account =
     bind_ok (adapterIdFor provider) (\<lambda>a.
       let handle = \<lparr>ah_adapterId = a, ah_endpoint = endpointPolicy provider, ah_accessToken = False, ah_accountId = False\<rparr>
       in if a \<in> {''gemini-oauth'', ''cline-interop''}
          then bind_ok (requireToken a token) (\<lambda>_. Inr (handle\<lparr>ah_accessToken := True\<rparr>))
          else if a = ''claude-oauth''
          then bind_ok (requireToken a token) (\<lambda>_.
                 Inr (handle\<lparr>ah_accessToken := True,
                             ah_endpoint := Some (get_or ''https://api.anthropic.com'' (endpointPolicy provider))\<rparr>))
          else if a = ''codex-oauth''
          then bind_ok (requireToken a token) (\<lambda>_. Inr (handle\<lparr>ah_accessToken := True, ah_accountId := account\<rparr>))
          else if a = ''antigravity-bridge''
          then Inr (handle\<lparr>ah_endpoint := Some (get_or ''http://127.0.0.1:17874'' (endpointPolicy provider)),
                           ah_accessToken := token\<rparr>)
          else if a \<in> {''opencode-go-direct'', ''alibaba-direct'', ''deepseek-direct'', ''openrouter-direct''}
          then Inr handle
          else Inl (Adapter_error (providerFailure ''unavailable'' None Unknown_commitment (''unknown adapter '' @ a))))"

section \<open>Lemmas\<close>

lemma catalog_names: "distinct (map pc_name PROVIDER_CATALOG)" "distinct (map pc_adapterId PROVIDER_CATALOG)"
  by code_simp+

lemma catalog_id_is_name: "c \<in> set PROVIDER_CATALOG \<Longrightarrow> pc_id c = pc_name c"
  by (auto simp: PROVIDER_CATALOG_def catalog_entry_def)

lemma providerContract_iff: "providerContract nm = Some c \<longleftrightarrow> c \<in> set PROVIDER_CATALOG \<and> pc_name c = nm"
proof -
  have same: "providerContract nm = List.find (\<lambda>item. pc_name item = nm) PROVIDER_CATALOG"
    unfolding providerContract_def by (rule find_cong_set) (auto simp: catalog_id_is_name)
  show ?thesis
  proof
    assume "providerContract nm = Some c"
    then show "c \<in> set PROVIDER_CATALOG \<and> pc_name c = nm" unfolding same by (auto dest: find_Some_in)
  next
    assume "c \<in> set PROVIDER_CATALOG \<and> pc_name c = nm"
    then show "providerContract nm = Some c"
      unfolding same using find_distinct_key [OF catalog_names(1)] by auto
  qed
qed

lemma adapterId_iff:
  "catalog_adapterIdForProvider nm mode = Inr a \<longleftrightarrow>
     (\<exists>c \<in> set PROVIDER_CATALOG. pc_name c = nm \<and> pc_integrationMode c = mode \<and> pc_adapterId c = a)"
proof -
  have "catalog_adapterIdForProvider nm mode = Inr a \<longleftrightarrow>
      (\<exists>c. providerContract nm = Some c \<and> pc_integrationMode c = mode \<and> pc_adapterId c = a)"
    by (auto simp: catalog_adapterIdForProvider_def split: option.splits)
  then show ?thesis by (auto simp: providerContract_iff)
qed

text \<open>An OAuth adapter is one that asks for a token.\<close>

lemma oauth_adapters:
  "c \<in> set PROVIDER_CATALOG \<Longrightarrow>
     (pc_integrationMode c = integration_mode.Oauth \<longleftrightarrow>
        pc_adapterId c \<in> {''gemini-oauth'', ''cline-interop'', ''claude-oauth'', ''codex-oauth''})
     \<and> (pc_integrationMode c \<noteq> integration_mode.Oauth \<longrightarrow>
        pc_adapterId c \<in> {''antigravity-bridge'', ''opencode-go-direct'', ''alibaba-direct'', ''deepseek-direct'', ''openrouter-direct''})"
  by (auto simp: PROVIDER_CATALOG_def catalog_entry_def)

lemma createProviderAdapter_dispatches:
  assumes "c \<in> set PROVIDER_CATALOG" "pc_name c = prov_name provider" "pc_integrationMode c = integrationMode provider"
  shows "if integrationMode provider = integration_mode.Oauth \<and> \<not> token
         then \<exists>e. createProviderAdapter provider token account = Inl e
         else \<exists>h. createProviderAdapter provider token account = Inr h \<and> ah_adapterId h = pc_adapterId c"
proof -
  have "adapterIdFor provider = Inr (pc_adapterId c)"
    unfolding adapterIdFor_def adapterId_iff using assms by auto
  then show ?thesis
    using oauth_adapters [OF assms(1)] assms(3)
    by (cases token) (auto simp: createProviderAdapter_def requireToken_def Let_def)
qed

text \<open>Every provider the catalog knows has an adapter. A provider is given the adapter a exactly when a catalog entry
  has its name and its integration mode and names a, and, for an OAuth provider, a request-scoped token is there;
  no adapter id of the catalog is left without a constructor.\<close>

theorem dispatch_exact:
  "(\<exists>h. createProviderAdapter provider token account = Inr h \<and> ah_adapterId h = a) \<longleftrightarrow>
     (integrationMode provider, token) \<noteq> (integration_mode.Oauth, False)
     \<and> (\<exists>c. c \<in> set PROVIDER_CATALOG \<and> pc_name c = prov_name provider \<and> pc_integrationMode c = integrationMode provider
            \<and> pc_adapterId c = a)"
proof (cases "\<exists>c. c \<in> set PROVIDER_CATALOG \<and> pc_name c = prov_name provider \<and> pc_integrationMode c = integrationMode provider")
  case True
  then obtain c where c: "c \<in> set PROVIDER_CATALOG" "pc_name c = prov_name provider" "pc_integrationMode c = integrationMode provider"
    by blast
  then have only: "c' = c" if "c' \<in> set PROVIDER_CATALOG" "pc_name c' = prov_name provider" for c'
    using that catalog_names(1) by (auto simp: distinct_map inj_on_def)
  then have entry: "(\<exists>c'. c' \<in> set PROVIDER_CATALOG \<and> pc_name c' = prov_name provider
      \<and> pc_integrationMode c' = integrationMode provider \<and> pc_adapterId c' = a) \<longleftrightarrow> pc_adapterId c = a"
    using c by metis
  from createProviderAdapter_dispatches [OF c, of token account] show ?thesis
    unfolding entry by (cases "integrationMode provider = integration_mode.Oauth"; cases token) (auto simp del: set_simps)
next
  case False
  then have "\<exists>e. adapterIdFor provider = Inl e"
    unfolding adapterIdFor_def using adapterId_iff by (metis (no_types, lifting) old.sum.exhaust)
  with False show ?thesis by (auto simp: createProviderAdapter_def)
qed

text \<open>An endpoint that is stored is safe. Whatever the caller proposes, the endpoint policy the catalog accepts for a
  provider parses as a URL, never points at a port the gateway itself uses, and is loopback or https; the provider
  is one of the catalog, in its own integration mode, and a terms-gated provider has a terms revision.\<close>

theorem accepted_endpoint_is_safe:
  assumes "applyCatalogDefaults url_of nm mode endpoint terms = Inr (policy, revision')"
  shows "\<exists>url contract. url_of policy = Some url \<and> endpoint_port url \<notin> Some ` set PROTECTED_PORTS
           \<and> (url_hostname url = ''127.0.0.1'' \<or> url_protocol url = ''https:'')
           \<and> contract \<in> set PROVIDER_CATALOG \<and> pc_name contract = nm \<and> pc_integrationMode contract = mode
           \<and> (revision' = None \<longrightarrow> \<not> pc_termsGated contract) \<and> policy \<noteq> []"
proof -
  from assms obtain contract where c: "providerContract nm = Some contract"
    by (auto simp: applyCatalogDefaults_def split: option.splits)
  from assms c have mode: "pc_integrationMode contract = mode"
    by (auto simp: applyCatalogDefaults_def split: if_splits)
  from assms c mode have policy: "or_else (non_empty endpoint) (non_empty (Some (pc_defaultEndpoint contract))) = Some policy"
    and safe: "assertSafeEndpointPolicy url_of policy = Inr ()"
    and terms: "revision' = or_else terms (pc_defaultTermsRevision contract)"
    by (auto simp: applyCatalogDefaults_def bind_ok_Inr_iff split: option.splits)
  from c have member: "contract \<in> set PROVIDER_CATALOG" "pc_name contract = nm" by (auto simp: providerContract_iff)
  then have gated: "pc_defaultTermsRevision contract = None \<longrightarrow> \<not> pc_termsGated contract"
    by (auto simp: PROVIDER_CATALOG_def catalog_entry_def)
  have "policy \<noteq> []" using policy by (auto simp: or_else_def non_empty_def split: option.splits if_splits)
  moreover from terms gated have "revision' = None \<longrightarrow> \<not> pc_termsGated contract"
    by (auto simp: or_else_def split: option.splits)
  moreover obtain url where "url_of policy = Some url" "endpoint_port url \<notin> Some ` set PROTECTED_PORTS"
      "url_hostname url = ''127.0.0.1'' \<or> url_protocol url = ''https:''"
    using safe by (auto simp: assertSafeEndpointPolicy_def split: option.splits if_splits)
  ultimately show ?thesis using member mode by blast
qed

definition demo_url :: "string \<Rightarrow> parsed_url option" where
  "demo_url s =
     (if s = ''http://127.0.0.1:17874'' then Some \<lparr>url_protocol = ''http:'', url_hostname = ''127.0.0.1'', url_port = Some 17874\<rparr>
      else if s = ''http://127.0.0.1:17870'' then Some \<lparr>url_protocol = ''http:'', url_hostname = ''127.0.0.1'', url_port = Some 17870\<rparr>
      else None)"

lemma demo_endpoint: "applyCatalogDefaults demo_url ''antigravity'' integration_mode.Bridge None None = Inr (''http://127.0.0.1:17874'', None)"
  by code_simp

theorem accepted_endpoint_is_safe_witness:
  "demo_url ''http://127.0.0.1:17874'' \<noteq> None
     \<and> applyCatalogDefaults demo_url ''antigravity'' integration_mode.Bridge (Some ''http://127.0.0.1:17870'') None
         = Inl (Validation ''endpoint policy cannot use a protected port'')"
proof
  obtain url where "demo_url ''http://127.0.0.1:17874'' = Some url"
    using accepted_endpoint_is_safe [OF demo_endpoint] by blast
  then show "demo_url ''http://127.0.0.1:17874'' \<noteq> None" by (rule ssubst) simp
qed code_simp

end
