(* ===== verification/Route_Resolution.thy ===== *)
theory Route_Resolution
  imports Model_Decision Provider_Catalog Pool_Execution Canonical_Request
begin

text \<open>
  The route of one request of a launch session: \<^verbatim>\<open>src/profiles/resolve-route.ts\<close>, from the
  session's frozen binding through model intent, compatibility snapshot, tier resolution, exact
  model selection, reasoning translation, activation and the decision record to the input of the
  account selector.

  What the code awaits is a field of \<open>route_env\<close>: the credential metadata \<open>broker.prepare\<close> returns
  (\<open>None\<close> where it throws), the settings file of a view, the current policy and the compatibility
  stores. The registry of agent contexts is threaded; \<open>ru_meanwhile\<close> is what other requests do to
  it between the reading of the parent and the recording of this request's own context.
\<close>

section \<open>Environment and results\<close>

datatype route_error =
    Profile_failed profile_error
  | Adapter_failed thrown
  | Unsupported_route "capability_requirement list"
  | Compatibility_failed string

record credential_answer =
  cm_generation :: int
  cm_expiresAt :: "date_text option"

record 'k route_env =
  ru_collate :: "string \<Rightarrow> 'k"
  ru_sha :: "string \<Rightarrow> string"
  ru_policy :: "policy_revision option"
  ru_required :: "capability_requirement list"
  ru_compatibility :: "(ecr_options \<times> ecr_state) option"
  ru_hasContexts :: bool
  ru_leaseActive :: "string \<Rightarrow> bool"
  ru_leaseActiveLater :: "string \<Rightarrow> bool"
  ru_meanwhile :: "context_table \<Rightarrow> context_table"
  ru_environment :: "(string \<times> string) list"
  ru_prepare :: "string \<Rightarrow> credential_answer option"
  ru_settings :: "string \<Rightarrow> json option"
  ru_configFingerprint :: string
  ru_now :: int

record agent_trace_linkage =
  al_claudeSessionPseudonym :: string
  al_agentPseudonym :: string
  al_parentAgentPseudonym :: "string option"
  al_contextSource :: parent_context_source
  al_parentModelId :: "string option"
  al_parentModelFamily :: "string option"

record resolved_route =
  rp_route :: route_record
  rp_decision :: effective_model_decision
  rp_request :: canonical_request
  rp_select :: select_input
  rp_provider :: provider_record
  rp_selection :: model_selection_trace
  rp_reasoning :: resolved_reasoning
  rp_tier :: "tier_resolution_trace option"
  rp_agentLinkage :: "agent_trace_linkage option"
  rp_projection :: "model_projection_trace option"
  rp_intent :: model_intent_trace

definition profile_failure :: "profile_error_code \<Rightarrow> string \<Rightarrow> profile_error" where
  "profile_failure code message = (profile_error_of code)\<lparr>pe_message := message\<rparr>"

section \<open>Requirements and parents\<close>

definition reasoningRequirementFrom ::
  "canonical_request \<Rightarrow> capability_requirement list \<Rightarrow> reasoning_requirement option" where
  "reasoningRequirementFrom request required =
     (case inf_reasoning (cq_inference request) of
        Some r \<Rightarrow>
          if intent r \<noteq> OFF \<and> intent r \<noteq> AUTO
          then Some \<lparr>rq_required = True, rq_withTools = (cq_tools request \<noteq> [])\<rparr>
          else if Req_reasoning \<in> set required then Some \<lparr>rq_required = True, rq_withTools = False\<rparr> else None
      | None \<Rightarrow> if Req_reasoning \<in> set required then Some \<lparr>rq_required = True, rq_withTools = False\<rparr> else None)"

definition PARENT_ROLE_ORDER :: "string list" where
  "PARENT_ROLE_ORDER = [''primary'', ''reasoning'', ''fast''] @ map tier_text LOGICAL_TIERS"

definition parentModelForProfile :: "(string \<times> string) list \<Rightarrow> string option" where
  "parentModelForProfile roles =
     Option.bind (List.find (\<lambda>role. map_of roles role \<noteq> None) PARENT_ROLE_ORDER) (map_of roles)"

definition resolveParentExecutionReference ::
  "(string \<Rightarrow> bool) \<Rightarrow> agent_context option \<Rightarrow> launch_session \<Rightarrow> bool \<Rightarrow> context_table
     \<Rightarrow> parent_execution_reference option \<times> context_table" where
  "resolveParentExecutionReference leaseActive agent session registry contexts =
     (case (Option.bind agent claudeSessionId, Option.bind agent parentAgentId, registry) of
        (Some claudeSession, Some parent, True) \<Rightarrow>
          (case resolve_context leaseActive session claudeSession parent contexts of
             (Some context, contexts') \<Rightarrow> (Some \<lparr>pr_context = context, pr_source = From_parent_agent\<rparr>, contexts')
           | (None, contexts') \<Rightarrow>
               (case mainContext leaseActive session claudeSession contexts' of
                  (Some context, contexts'') \<Rightarrow>
                    (Some \<lparr>pr_context = context, pr_source = From_session_default\<rparr>, contexts'')
                | (None, contexts'') \<Rightarrow> (None, contexts'')))
      | _ \<Rightarrow> (None, contexts))"

definition agentPseudonym :: "(string \<Rightarrow> string) \<Rightarrow> string \<Rightarrow> string" where
  "agentPseudonym sha v = take 16 (sha v)"

definition agentTraceLinkage ::
  "(string \<Rightarrow> string) \<Rightarrow> agent_context option \<Rightarrow> parent_execution_reference option \<Rightarrow> agent_trace_linkage option" where
  "agentTraceLinkage sha agent parent =
     map_option (\<lambda>a.
       \<lparr>al_claudeSessionPseudonym = agentPseudonym sha (get_or ''session'' (or_else (claudeSessionId a) (agentId a))),
        al_agentPseudonym = agentPseudonym sha (get_or ''agent'' (or_else (agentId a) (claudeSessionId a))),
        al_parentAgentPseudonym = map_option (agentPseudonym sha) (parentAgentId a),
        al_contextSource = get_or From_profile_default (map_option pr_source parent),
        al_parentModelId = map_option (\<lambda>p. xc_resolvedModelId (pr_context p)) parent,
        al_parentModelFamily = Option.bind parent (\<lambda>p. xc_modelFamily (pr_context p))\<rparr>) agent"

section \<open>Intent, tiers and models\<close>

fun intent_failure_code :: "model_intent_failure \<Rightarrow> string" where
  "intent_failure_code Unknown_namespace = ''unknown-namespace''"
| "intent_failure_code Unsupported_client_alias = ''unsupported-client-alias''"
| "intent_failure_code Invalid_projection = ''invalid-projection''"
| "intent_failure_code Conflicting_selector_sources = ''conflicting-selector-sources''"

definition classifyIntentForRequest :: "string \<Rightarrow> profile_error + model_intent" where
  "classifyIntentForRequest selector =
     (case classifyModelIntent selector of
        Inl (code, _) \<Rightarrow>
          Inl ((profile_failure Role_unmapped
                 (''Model intent classification failed ('' @ intent_failure_code code @ '': '' @ selector @ '')''))
               \<lparr>pe_intentFailure := Some code\<rparr>)
      | Inr i \<Rightarrow> Inr i)"

record tier_route =
  tz_tier :: logical_tier
  tz_modelId :: string
  tz_trace :: tier_resolution_trace

definition tier_request_context ::
  "logical_tier \<Rightarrow> string \<Rightarrow> profile_record \<Rightarrow> execution_context option \<Rightarrow> tier_resolution_context" where
  "tier_request_context tier providerName profile parent =
     \<lparr>tc_requestedTier = tier, tc_accessProviderId = providerName,
      tc_parentModelId = or_else (map_option xc_resolvedModelId parent) (parentModelForProfile (modelRoles profile)),
      tc_modelFamily = Option.bind parent xc_modelFamily,
      tc_explicitUserMapping = map_of (modelRoles profile) (tier_text tier),
      tc_allowCrossFamilyFallback = False, tc_allowCrossProviderFallback = False\<rparr>"

definition tier_request_dependencies ::
  "canonical_request \<Rightarrow> capability_requirement list \<Rightarrow> effective_snapshot option \<Rightarrow> tier_dependencies" where
  "tier_request_dependencies canonical required effective =
     \<lparr>td_registry = directProviderRegistry, td_mapping = defaultTierMapping, td_requiredCapabilities = required,
      td_reasoning = reasoningRequirementFrom canonical required, td_allowExperimental = False,
      td_effective = effective, td_fallbackProviderIds = None\<rparr>"

definition resolveTierForRequest ::
  "logical_tier \<Rightarrow> canonical_request \<Rightarrow> string \<Rightarrow> profile_record \<Rightarrow> capability_requirement list
     \<Rightarrow> execution_context option \<Rightarrow> effective_snapshot option \<Rightarrow> profile_error + tier_route" where
  "resolveTierForRequest tier canonical providerName profile required parent effective =
     (case resolveTier (tier_request_context tier providerName profile parent)
             (tier_request_dependencies canonical required effective) of
        Inl e \<Rightarrow>
          Inl ((profile_failure Profile_tier_unavailable
                 (''Tier resolution failed ('' @ tier_failure_code (tier_resolution_error.te_code e) @ '': '' @ providerName @ ''/''
                  @ tier_text tier @ '')''))
               \<lparr>pe_tierFailure := Some (tier_resolution_error.te_code e), pe_tierCause := te_causeCode e\<rparr>)
      | Inr r \<Rightarrow>
          Inr \<lparr>tz_tier = tier, tz_modelId = mi_upstreamModelId (me_identity (tr_model r)), tz_trace = tr_trace r\<rparr>)"

definition intentTraceFor ::
  "model_intent \<Rightarrow> logical_tier option \<Rightarrow> logical_tier option \<Rightarrow> string option \<Rightarrow> string option \<Rightarrow> model_intent_trace" where
  "intentTraceFor i tier alias modelId role =
     \<lparr>it_kind = intent_kind i, it_sourceSelector = sourceSelector i, it_source = intent_source i, it_tier = tier,
      it_alias = alias, it_modelId = modelId, it_role = role\<rparr>"

record intent_resolution =
  ir_role :: string
  ir_modelId :: string
  ir_tier :: "tier_route option"
  ir_trace :: model_intent_trace

definition role_resolution :: "model_intent \<Rightarrow> string \<times> string \<Rightarrow> intent_resolution" where
  "role_resolution i mapped =
     (case mapped of (role, modelId) \<Rightarrow>
        \<lparr>ir_role = role, ir_modelId = modelId, ir_tier = None,
         ir_trace = intentTraceFor i None None (Some modelId) (Some role)\<rparr>)"

definition tier_resolution :: "model_intent \<Rightarrow> logical_tier option \<Rightarrow> tier_route \<Rightarrow> intent_resolution" where
  "tier_resolution i alias r =
     \<lparr>ir_role = tier_text (tz_tier r), ir_modelId = tz_modelId r, ir_tier = Some r,
      ir_trace = intentTraceFor i (Some (tz_tier r)) alias None None\<rparr>"

definition resolveModelIntent ::
  "model_intent \<Rightarrow> canonical_request \<Rightarrow> string \<Rightarrow> profile_record \<Rightarrow> capability_requirement list
     \<Rightarrow> execution_context option \<Rightarrow> effective_snapshot option \<Rightarrow> profile_error + intent_resolution" where
  "resolveModelIntent i canonical providerName profile required parent effective =
     (let mapped = (\<lambda>m. case m of
            None \<Rightarrow> Inl (profile_error_of Role_unmapped) | Some r \<Rightarrow> Inr (role_resolution i r))
      in case i of
           Rly_logical_tier tier _ \<Rightarrow>
             bind_ok (resolveTierForRequest tier canonical providerName profile required parent effective)
               (\<lambda>r. Inr (tier_resolution i None r))
         | Client_native_alias tier _ \<Rightarrow>
             bind_ok (resolveTierForRequest tier canonical providerName profile required parent effective)
               (\<lambda>r. Inr (tier_resolution i (Some tier) r))
         | Exact_projection projectionId \<Rightarrow>
             Inl (profile_failure Model_unavailable
               (''Projection selector reached profile resolution ('' @ projectionId @ '')''))
         | Exact_client_model modelId \<Rightarrow> mapped (resolveProfileRole modelId (modelRoles profile))
         | Default _ \<Rightarrow> mapped (resolveProfileRole ''primary'' (modelRoles profile))
         | Inherit _ \<Rightarrow>
             mapped (map_option
               (Pair (get_or ''primary'' (map_option tier_text (Option.bind parent xc_effectiveTier))))
               (or_else (map_option xc_resolvedModelId parent) (map_of (modelRoles profile) ''primary''))))"

definition translationFailureCode :: "reasoning_error_code \<Rightarrow> model_selection_failure" where
  "translationFailureCode code =
     (if code = No_budget_policy then Reasoning_budget_policy_missing else Reasoning_translation_unsupported)"

fun reasoning_error_text :: "reasoning_error_code \<Rightarrow> string" where
  "reasoning_error_text Unsupported_reasoning = ''unsupported-reasoning''"
| "reasoning_error_text No_budget_policy = ''no-budget-policy''"

definition exact_selection :: "string \<Rightarrow> string \<Rightarrow> capability_requirement list \<Rightarrow> canonical_request \<Rightarrow> model_selection_input" where
  "exact_selection modelId providerId required request =
     \<lparr>ms_accessProviderId = providerId, ms_preferredFamily = None, ms_exactModelId = Some modelId,
      ms_requiredCapabilities = required, ms_reasoning = reasoningRequirementFrom request required,
      ms_allowExperimental = False\<rparr>"

definition selectModelForRequest ::
  "string \<Rightarrow> string \<Rightarrow> capability_requirement list \<Rightarrow> canonical_request \<Rightarrow> registry_document
     \<Rightarrow> effective_snapshot option \<Rightarrow> bool \<Rightarrow> profile_error + model_selection_result" where
  "selectModelForRequest modelId providerId required request registry effective allowBypass =
     (case selectModel (exact_selection modelId providerId required request) registry effective allowBypass of
        Inl (code, _) \<Rightarrow>
          Inl ((profile_failure Capability_rejected
                 (''Model selection failed ('' @ model_failure_code code @ '': '' @ providerId @ ''/'' @ modelId @ '')''))
               \<lparr>pe_modelFailure := Some code\<rparr>)
      | Inr r \<Rightarrow> Inr r)"

definition translate_for_route ::
  "canonical_request \<Rightarrow> string \<Rightarrow> model_evidence \<Rightarrow> profile_error + resolved_reasoning" where
  "translate_for_route canonical providerName evidence =
     (case resolveReasoning
             (get_or (reasoningRequestFromWire \<lparr>wire_thinking = None, wire_effort = None\<rparr>) (inf_reasoning (cq_inference canonical)))
             (me_reasoning evidence) \<lparr>budgetPolicy = None, bestEffort = False\<rparr> of
        Inl (code, _) \<Rightarrow>
          Inl ((profile_failure Capability_rejected
                 (''Reasoning translation failed ('' @ reasoning_error_text code @ '': '' @ providerName @ ''/''
                  @ mi_upstreamModelId (me_identity evidence) @ '')''))
               \<lparr>pe_modelFailure := Some (translationFailureCode code)\<rparr>)
      | Inr r \<Rightarrow> Inr r)"

section \<open>Compatibility and credentials\<close>

definition effectiveSnapshotFor ::
  "'k route_env \<Rightarrow> string \<Rightarrow> canonical_request \<Rightarrow> registry_document \<Rightarrow> string + effective_snapshot option" where
  "effectiveSnapshotFor env providerId request registry =
     (case ru_compatibility env of
        None \<Rightarrow> Inr None
      | Some (opts, s) \<Rightarrow>
          bind_ok (snapshotForModels opts s (modelsForProvider registry providerId)
                     (\<lambda>_. requiredFeaturesForCapabilities (ru_required env) (reasoningRequirementFrom request (ru_required env)))
                     \<lparr>ctx_required = False, ctx_experimentalOverride = False\<rparr>)
            (\<lambda>rows. Inr (Some rows)))"

definition bypass_allowed :: "'k route_env \<Rightarrow> bool" where
  "bypass_allowed env =
     (case ru_compatibility env of
        None \<Rightarrow> False
      | Some (opts, _) \<Rightarrow> get_or False (allowQuarantineBypass_policy (opt_policy opts)))"

definition effectiveFeatureAnswers :: "effective_snapshot \<Rightarrow> string \<Rightarrow> (claim_feature \<times> feature_answer) list option" where
  "effectiveFeatureAnswers snap logicalId =
     (case map_of snap logicalId of
        None \<Rightarrow> None
      | Some [] \<Rightarrow> None
      | Some answers \<Rightarrow>
          Some (map (\<lambda>(f, a). (f, \<lparr>fa_effective = ec_effective a, fa_enforcement = ec_enforcement a\<rparr>)) answers))"

definition envCredentialName :: "string \<Rightarrow> string option" where
  "envCredentialName handle = (if starts_with handle ''env:'' then Some (drop 4 handle) else None)"

definition snapshotForAccount :: "'k route_env \<Rightarrow> account_record \<Rightarrow> credential_snapshot" where
  "snapshotForAccount env account =
     (case envCredentialName (credentialHandle account) of
        Some envName \<Rightarrow>
          \<lparr>cred_present = (map_of (ru_environment env) envName \<notin> {None, Some []}),
           cred_generation = max (credentialGeneration account) 1, cred_expiresAt = None\<rparr>
      | None \<Rightarrow>
          (case ru_prepare env (credentialHandle account) of
             None \<Rightarrow> \<lparr>cred_present = False, cred_generation = 0, cred_expiresAt = None\<rparr>
           | Some metadata \<Rightarrow>
               \<lparr>cred_present = (1 \<le> cm_generation metadata), cred_generation = cm_generation metadata,
                cred_expiresAt = cm_expiresAt metadata\<rparr>))"

definition credentialSnapshots :: "'k route_env \<Rightarrow> account_record list \<Rightarrow> string \<Rightarrow> credential_snapshot option" where
  "credentialSnapshots env accounts =
     map_of (rev (map (\<lambda>a. (credentialHandle a, snapshotForAccount env a)) accounts))"

definition pool_members :: "account_record list \<Rightarrow> pool_record \<Rightarrow> account_record list" where
  "pool_members accounts pool = filter (\<lambda>a. acc_id a \<in> mem_accountId ` set (memberships pool)) accounts"

section \<open>A request of a profile\<close>

definition lift_error :: "('e \<Rightarrow> 'f) \<Rightarrow> 'e + 'a \<Rightarrow> 'f + 'a" where
  "lift_error f r = (case r of Inl e \<Rightarrow> Inl (f e) | Inr x \<Rightarrow> Inr x)"

record route_base =
  rb_policy :: policy_revision
  rb_sessionPolicy :: policy_revision
  rb_profile :: profile_record
  rb_pool :: pool_record
  rb_provider :: provider_record

text \<open>The pinned profile, pool and provider of the session, before any routing.\<close>

definition session_base :: "'k route_env \<Rightarrow> launch_session \<Rightarrow> profile_error + route_base" where
  "session_base env session =
     (case ru_policy env of
        None \<Rightarrow> Inl (profile_error_of Profile_not_found)
      | Some policy \<Rightarrow>
          (let sessionPolicy = applySessionBinding policy session; snap = snapshot sessionPolicy;
               named = get_or (sn_profileName session)
                         (map_option prof_name (findProfileById (snap_profiles snap) (sn_profileId session)))
           in bind_ok (inspectLaunchableProfile (snap_profiles snap) named True) (\<lambda>(profile, _, poolId).
                case List.find (\<lambda>item. pool_id item = poolId) (snap_pools snap) of
                  None \<Rightarrow> Inl (profile_error_of Profile_has_no_pool)
                | Some pool \<Rightarrow>
                    (case List.find (\<lambda>item. prov_id item = pool_providerId pool) (snap_providers snap) of
                       None \<Rightarrow> Inl (profile_error_of Profile_has_no_pool)
                     | Some provider \<Rightarrow>
                         Inr \<lparr>rb_policy = policy, rb_sessionPolicy = sessionPolicy, rb_profile = profile, rb_pool = pool,
                              rb_provider = provider\<rparr>))))"

record route_plan =
  pn_intent :: model_intent
  pn_resolution :: intent_resolution
  pn_effective :: "effective_snapshot option"
  pn_selection :: model_selection_result
  pn_reasoning :: resolved_reasoning
  pn_activated :: activated_profile
  pn_adapterId :: string
  pn_route :: route_record

definition route_of :: "string \<Rightarrow> string \<Rightarrow> string \<Rightarrow> string \<Rightarrow> provider_capabilities \<Rightarrow> model_evidence \<Rightarrow> route_record" where
  "route_of role providerName modelId adapterId capabilities evidence =
     \<lparr>rr_role = role, rr_providerId = providerName, rr_modelId = modelId, rr_adapterId = adapterId,
      rr_credentialRef = Handle_ref ''cred-profile-policy'', rr_capabilities = capabilities,
      rr_reasoningEvidence = Some (me_reasoning evidence)\<rparr>"

definition decide_for ::
  "'k route_env \<Rightarrow> canonical_request \<Rightarrow> route_record \<Rightarrow> resolved_reasoning \<Rightarrow> route_error + route_decision" where
  "decide_for env canonical route reasoning =
     lift_error Unsupported_route (decideRoute
       \<lparr>dr_requestId = cq_id canonical, dr_route = route, dr_required = ru_required env,
        dr_configFingerprint = ru_configFingerprint env, dr_now = ru_now env, dr_accountPseudonym = None,
        dr_credentialGeneration = None, dr_resolvedReasoning = Some reasoning\<rparr>)"

definition plan_route ::
  "'k route_env \<Rightarrow> canonical_request \<Rightarrow> launch_session \<Rightarrow> route_base \<Rightarrow> execution_context option
     \<Rightarrow> route_error + route_plan" where
  "plan_route env canonical session base parent =
     (let required = ru_required env; providerName = prov_name (rb_provider base)
      in bind_ok (lift_error Profile_failed (classifyIntentForRequest (cq_requestedModel canonical))) (\<lambda>i.
         bind_ok (lift_error Compatibility_failed
                    (effectiveSnapshotFor env providerName canonical directProviderRegistry)) (\<lambda>effective.
         bind_ok (lift_error Profile_failed
                    (resolveModelIntent i canonical providerName (rb_profile base) required parent effective)) (\<lambda>resolution.
         bind_ok (lift_error Profile_failed
                    (selectModelForRequest (ir_modelId resolution) providerName required canonical directProviderRegistry
                       effective (bypass_allowed env))) (\<lambda>selection.
         bind_ok (lift_error Profile_failed (translate_for_route canonical providerName (mr_model selection))) (\<lambda>reasoning.
         bind_ok (lift_error Profile_failed
                    (activateProfile (snap_profiles (snapshot (rb_sessionPolicy base)))
                       \<lparr>ai_name = Some (sn_profileName session), ai_profileId = Some (sn_profileId session),
                        ai_requestedModel = cq_requestedModel canonical, ai_required = required,
                        ai_baseCapabilities = me_capabilities (mr_model selection), ai_requireClaude = True,
                        ai_resolved = Some (ir_role resolution, ir_modelId resolution)\<rparr>)) (\<lambda>activated.
         bind_ok (lift_error Adapter_failed (adapterIdFor (rb_provider base))) (\<lambda>adapterId.
           let route = route_of (ap_role activated) providerName (ap_modelId activated) adapterId
                         (ap_capabilities activated) (mr_model selection)
           in bind_ok (decide_for env canonical route reasoning) (\<lambda>_.
                Inr \<lparr>pn_intent = i, pn_resolution = resolution, pn_effective = effective, pn_selection = selection,
                     pn_reasoning = reasoning, pn_activated = activated, pn_adapterId = adapterId,
                     pn_route = route\<rparr>)))))))))"

definition client_alias :: "model_intent \<Rightarrow> (logical_tier \<times> logical_tier) option" where
  "client_alias i = (case i of Client_native_alias tier _ \<Rightarrow> Some (tier, tier) | _ \<Rightarrow> None)"

definition profile_decision_input ::
  "'k route_env \<Rightarrow> canonical_request \<Rightarrow> launch_session \<Rightarrow> route_base \<Rightarrow> parent_execution_reference option
     \<Rightarrow> route_plan \<Rightarrow> decision_input" where
  "profile_decision_input env canonical session base parent plan =
     (let tier = map_option tz_trace (ir_tier (pn_resolution plan)); evidence = mr_model (pn_selection plan)
      in \<lparr>di_requestId = cq_id canonical, di_profileId = sn_profileId session, di_profileName = sn_profileName session,
          di_viewId = sn_viewId session, di_intent = ir_trace (pn_resolution plan),
          di_resolvedModelId = ap_modelId (pn_activated plan), di_logicalId = me_logicalId evidence,
          di_accessProviderId = prov_name (rb_provider base), di_adapterId = pn_adapterId plan,
          di_modelFamily = mi_modelFamily (me_identity evidence), di_poolId = ap_poolId (pn_activated plan),
          di_policyRevision = revision (rb_policy base), di_policyHash = policy_hash (rb_policy base),
          di_registryRevision = Some (get_or (registryRevision directProviderRegistry) (map_option tt_registryRevision tier)),
          di_mappingRevision = map_option tt_mappingRevision tier,
          di_sessionUniverseRevision = mu_policyRevision (sn_modelUniverse session),
          di_experimentalModels = mu_experimentalModels (sn_modelUniverse session),
          di_reasoning = pn_reasoning plan, di_selection = mr_decision (pn_selection plan), di_tier = tier,
          di_projection = None, di_clientAlias = client_alias (pn_intent plan),
          di_parent = map_option (\<lambda>p. \<lparr>ps_parentModelId = xc_resolvedModelId (pr_context p),
                                          ps_parentModelFamily = xc_modelFamily (pr_context p),
                                          ps_contextSource = pr_source p\<rparr>) parent,
          di_profileRole = Some (ap_role (pn_activated plan)),
          di_launchPolicyModel = lp_model (ap_launchPolicy (pn_activated plan)),
          di_persistedViewModel = readPersistedViewModel (ru_settings env (sn_viewId session)),
          di_environmentOwnership = Some (environmentOwnershipSummary (ru_environment env)),
          di_effectiveFeatures = Option.bind (pn_effective plan) (\<lambda>e. effectiveFeatureAnswers e (me_logicalId evidence)),
          di_tierAssessments = Option.bind tier tt_assessments, di_decidedAt = Instant (ru_now env)\<rparr>)"

definition own_context ::
  "'k route_env \<Rightarrow> string \<Rightarrow> string \<Rightarrow> string option \<Rightarrow> route_base \<Rightarrow> route_plan \<Rightarrow> execution_context" where
  "own_context env claudeSession agent parentAgent base plan =
     (let tier = ir_tier (pn_resolution plan)
      in \<lparr>xc_claudeSessionId = claudeSession, xc_agentId = agent, xc_parentAgentId = parentAgent,
          xc_role = (if parentAgent = None then Main_agent else Sub_agent), xc_leaseId = [], xc_profileId = [],
          xc_profileName = [], xc_accessProviderId = prov_name (rb_provider base),
          xc_resolvedModelId = ap_modelId (pn_activated plan),
          xc_modelFamily = mi_modelFamily (me_identity (mr_model (pn_selection plan))),
          xc_effectiveTier = map_option tz_tier tier,
          xc_mappingRevision = map_option (\<lambda>r. tt_mappingRevision (tz_trace r)) tier,
          xc_registryRevision = map_option (\<lambda>r. tt_registryRevision (tz_trace r)) tier,
          xc_updatedAt = Instant (ru_now env)\<rparr>)"

definition record_own_context ::
  "'k route_env \<Rightarrow> canonical_request \<Rightarrow> launch_session \<Rightarrow> route_base \<Rightarrow> route_plan \<Rightarrow> context_table \<Rightarrow> context_table" where
  "record_own_context env canonical session base plan contexts =
     (case (ru_hasContexts env, Option.bind (cq_agent canonical) claudeSessionId, Option.bind (cq_agent canonical) agentId) of
        (True, Some claudeSession, Some agent) \<Rightarrow>
          record_context (ru_leaseActiveLater env) session
            (own_context env claudeSession agent (Option.bind (cq_agent canonical) parentAgentId) base plan) contexts
      | _ \<Rightarrow> contexts)"

definition account_selection ::
  "'k route_env \<Rightarrow> canonical_request \<Rightarrow> launch_session \<Rightarrow> policy_revision \<Rightarrow> account_record list \<Rightarrow> string
     \<Rightarrow> route_record \<Rightarrow> resolved_reasoning \<Rightarrow> select_input" where
  "account_selection env canonical session policy members poolId route reasoning =
     \<lparr>si_requestId = cq_id canonical, si_poolId = poolId, si_policy = policy, si_required = ru_required env,
      si_capabilities = rr_capabilities route, si_modelId = rr_modelId route, si_adapterId = rr_adapterId route,
      si_role = rr_role route, si_credentials = credentialSnapshots env members,
      si_sessionKey = Some (sn_leaseId session), si_pinnedAccountId = None, si_excludeAccountIds = [],
      si_reasoningEvidence = rr_reasoningEvidence route, si_resolvedReasoning = Some reasoning\<rparr>"

definition resolveProfileRoute ::
  "('k::linorder) route_env \<Rightarrow> canonical_request \<Rightarrow> launch_session \<Rightarrow> context_table
     \<Rightarrow> (route_error + resolved_route) \<times> context_table" where
  "resolveProfileRoute env canonical session contexts =
     (case session_base env session of
        Inl e \<Rightarrow> (Inl (Profile_failed e), contexts)
      | Inr base \<Rightarrow>
          (case resolveParentExecutionReference (ru_leaseActive env) (cq_agent canonical) session (ru_hasContexts env)
                  contexts of
             (parent, pruned) \<Rightarrow>
               (case plan_route env canonical session base (map_option pr_context parent) of
                  Inl e \<Rightarrow> (Inl e, ru_meanwhile env pruned)
                | Inr plan \<Rightarrow>
                    (let input = profile_decision_input env canonical session base parent plan;
                         snap = snapshot (rb_sessionPolicy base); route = pn_route plan
                     in (Inr \<lparr>rp_route = route, rp_decision = assembleEffectiveModelDecision (ru_collate env) input,
                              rp_request = canonical\<lparr>cq_requestedModel := rr_modelId route, cq_modelRole := rr_role route\<rparr>,
                              rp_select = account_selection env canonical session (rb_sessionPolicy base)
                                (pool_members (snap_accounts snap) (rb_pool base)) (ap_poolId (pn_activated plan)) route
                                (pn_reasoning plan),
                              rp_provider = rb_provider base, rp_selection = mr_decision (pn_selection plan),
                              rp_reasoning = pn_reasoning plan, rp_tier = di_tier input,
                              rp_agentLinkage = agentTraceLinkage (ru_sha env) (cq_agent canonical) parent,
                              rp_projection = None, rp_intent = di_intent input\<rparr>,
                         record_own_context env canonical session base plan (ru_meanwhile env pruned))))))"

section \<open>A request for a projected model\<close>








section \<open>Invoking the selected route\<close>

record invocation =
  iv_adapter :: adapter_handle
  iv_request :: canonical_request
  iv_decision :: route_decision

text \<open>\<open>bind_credential\<close> is \<open>broker.bind\<close>: what it throws, or whether the credential has an account id.\<close>

definition invokeSelected ::
  "(string \<Rightarrow> int \<Rightarrow> thrown + bool) \<Rightarrow> string \<Rightarrow> canonical_request \<Rightarrow> effective_route \<Rightarrow> provider_record
     \<Rightarrow> thrown + invocation" where
  "invokeSelected bind_credential configFingerprint request route provider =
     (let decision = toRouteDecision route configFingerprint;
          bound = bind_credential (er_credentialHandle route) (er_credentialGeneration route);
          invoke = (\<lambda>d adapter. Inr \<lparr>iv_adapter = adapter, iv_request = request, iv_decision = d\<rparr>)
      in case integrationMode provider of
           integration_mode.Oauth \<Rightarrow>
             bind_ok bound (\<lambda>account. bind_ok (createProviderAdapter provider True account) (invoke decision))
         | integration_mode.Bridge \<Rightarrow>
             (case bound of
                Inl _ \<Rightarrow> bind_ok (createProviderAdapter provider False False) (invoke decision)
              | Inr account \<Rightarrow> bind_ok (createProviderAdapter provider True account) (invoke decision))
         | Direct \<Rightarrow>
             (case envCredentialName (er_credentialHandle route) of
                None \<Rightarrow> bind_ok (createProviderAdapter provider False False) (invoke decision)
              | Some envName \<Rightarrow>
                  (case parseCredentialRef (''env:'' @ envName) of
                     Inl message \<Rightarrow> Inl (Other_error ''ZodError'' message None)
                   | Inr credential \<Rightarrow>
                       bind_ok (createProviderAdapter provider False False)
                         (invoke (decision\<lparr>rd_credentialRef := credential\<rparr>)))))"

section \<open>What the selector may invoke\<close>

text \<open>A route that stays inside a selection: its model, adapter and reasoning, an account of its pool.\<close>

definition route_within :: "select_input \<Rightarrow> effective_route \<Rightarrow> bool" where
  "route_within si r \<longleftrightarrow>
     er_modelId r = si_modelId si \<and> er_adapterId r = si_adapterId si \<and> er_requestId r = si_requestId si
     \<and> er_capabilitySnapshot r = si_capabilities si \<and> er_resolvedReasoning r = si_resolvedReasoning si
     \<and> (\<exists>pool. requirePool (si_policy si) (si_poolId si) = Inr pool \<and> er_providerId r = pool_providerId pool
           \<and> er_accountId r \<in> mem_accountId ` set (memberships pool))"

lemma selected_within:
  assumes "selectLocked senv T now (si\<lparr>si_excludeAccountIds := tried\<rparr>) sel = (Inr selected, sel')"
  shows "route_within si (sr_route selected)"
proof -
  let ?si = "si\<lparr>si_excludeAccountIds := tried\<rparr>"
  from assms obtain pool sticky c st2 where pool: "requirePool (si_policy ?si) (si_poolId ?si) = Inr pool"
    and choice: "choose_account senv T now ?si pool sel = (sticky, Some c, st2)"
    and route: "sr_route selected = bindRoute ?si pool c (sourceRuleFor (strategy pool) sticky) (Instant now)"
    by (rule selectLocked_Inr)
  obtain m where "m \<in> set (memberships pool)" "cand_accountId c = mem_accountId m"
    using choose_account_sound [OF choice] by (auto elim: eligible_member)
  then show ?thesis
    using pool by (auto simp: route_within_def route bindRoute_def createEffectiveRoute_def)
qed

lemma one_round_within:
  assumes "one_round env si budget seconds n tried lastError w = (res, cont)"
  shows "\<forall>r \<in> set (xr_invoked res). route_within si r"
proof -
  let ?w0 = "xe_before env n w"
  obtain r sel where sel: "selectLocked (xe_select env) (tables (ew_db ?w0)) (xe_selectClock env n)
      (si\<lparr>si_excludeAccountIds := tried\<rparr>) (ew_selector ?w0) = (r, sel)" by fastforce
  show ?thesis
  proof (cases r)
    case (Inl e)
    then obtain x w1 where "res = stop_with x [] w1"
      using assms sel by (cases e; cases lastError) (auto simp: one_round_def Let_def)
    then show ?thesis by (simp add: stop_with_def)
  next
    case (Inr selected)
    have "set (xr_invoked res) \<subseteq> {sr_route selected}"
      using assms sel Inr by (auto simp: one_round_def Let_def stop_with_def split: sum.splits attempt_end.splits)
    with selected_within [OF sel [unfolded Inr]] show ?thesis by auto
  qed
qed

lemma stream_from_within:
  "\<forall>r \<in> set (xr_invoked (stream_from env si budget seconds n tried lastError w)). route_within si r"
proof (induction env si budget seconds n tried lastError w rule: stream_from.induct)
  case (1 env si budget seconds n tried lastError w)
  obtain res cont where round: "one_round env si budget seconds n tried lastError w = (res, cont)" by fastforce
  note within = one_round_within [OF round]
  show ?case
  proof (cases "int n < budget + 1")
    case False
    then show ?thesis by (simp add: stream_from.simps stop_with_def)
  next
    case True
    then show ?thesis
    proof (cases cont)
      case None
      with round True within show ?thesis by (simp add: stream_from.simps)
    next
      case (Some c)
      obtain e accountId w' where c: "c = (e, accountId, w')" by (cases c)
      have "\<forall>r \<in> set (xr_invoked (stream_from env si budget seconds (Suc n) (tried @ [accountId]) (Some e) w')). route_within si r"
        using "1.IH" True round Some c by simp
      with round True Some c within show ?thesis by (subst stream_from.simps) (auto simp: followed_by_def)
    qed
  qed
qed

section \<open>Facts of the two plans\<close>

lemma lift_error_Inr [simp, outcome_simps]: "lift_error f r = Inr x \<longleftrightarrow> r = Inr x"
  by (cases r) (auto simp: lift_error_def)

lemma route_of_fields [simp]:
  "rr_role (route_of role p m a caps e) = role" "rr_providerId (route_of role p m a caps e) = p"
  "rr_modelId (route_of role p m a caps e) = m" "rr_adapterId (route_of role p m a caps e) = a"
  "rr_capabilities (route_of role p m a caps e) = caps"
  "rr_reasoningEvidence (route_of role p m a caps e) = Some (me_reasoning e)"
  by (simp_all add: route_of_def)

lemma account_selection_fields [simp]:
  "si_requestId (account_selection env c s policy ms k r x) = cq_id c"
  "si_poolId (account_selection env c s policy ms k r x) = k"
  "si_policy (account_selection env c s policy ms k r x) = policy"
  "si_required (account_selection env c s policy ms k r x) = ru_required env"
  "si_capabilities (account_selection env c s policy ms k r x) = rr_capabilities r"
  "si_modelId (account_selection env c s policy ms k r x) = rr_modelId r"
  "si_adapterId (account_selection env c s policy ms k r x) = rr_adapterId r"
  "si_sessionKey (account_selection env c s policy ms k r x) = Some (sn_leaseId s)"
  "si_resolvedReasoning (account_selection env c s policy ms k r x) = Some x"
  by (simp_all add: account_selection_def)

lemma exact_selection_fields [simp]:
  "ms_exactModelId (exact_selection m p required request) = Some m"
  "ms_accessProviderId (exact_selection m p required request) = p"
  "ms_requiredCapabilities (exact_selection m p required request) = required"
  "ms_reasoning (exact_selection m p required request) = reasoningRequirementFrom request required"
  "ms_allowExperimental (exact_selection m p required request) = False"
  by (simp_all add: exact_selection_def)

lemma selectModelForRequest_Inr:
  "selectModelForRequest m p required request registry effective bypass = Inr r \<longleftrightarrow>
     selectModel (exact_selection m p required request) registry effective bypass = Inr r"
  by (auto simp: selectModelForRequest_def split: sum.splits)

text \<open>An exact selection answers the pinned model of the pinned provider.\<close>

lemma exact_model:
  assumes wf: "registry_wf registry" and slash: "CHR ''/'' \<notin> set p"
    and sel: "selectModelForRequest m p required request registry effective bypass = Inr r"
  shows "mi_upstreamModelId (me_identity (mr_model r)) = m \<and> mi_accessProviderId (me_identity (mr_model r)) = p
     \<and> may_select (exact_selection m p required request) effective bypass (mr_model r)
     \<and> mr_model r \<in> set (registry_models registry)"
proof -
  have "CHR ''/'' \<notin> set (ms_accessProviderId (exact_selection m p required request))" using slash by simp
  from selectModel_first [OF wf this, of effective bypass] sel
  have "List.find (may_select (exact_selection m p required request) effective bypass)
      (selection_domain registry (exact_selection m p required request)) = Some (mr_model r)"
    by (simp add: selectModelForRequest_Inr)
  then show ?thesis by (auto simp: selection_domain_def dest!: find_Some_in)
qed

lemma decide_for_Inr: "decide_for env canonical route reasoning = Inr d \<Longrightarrow> missingCapabilities (rr_capabilities route) (ru_required env) = []"
  by (auto simp: decide_for_def decideRoute_def Let_def lift_error_def split: sum.splits if_splits)

lemma plan_route_facts:
  assumes "plan_route env canonical session base parent = Inr plan"
  shows "selectModelForRequest (ir_modelId (pn_resolution plan)) (prov_name (rb_provider base)) (ru_required env) canonical
           directProviderRegistry (pn_effective plan) (bypass_allowed env) = Inr (pn_selection plan)"
    and "effectiveSnapshotFor env (prov_name (rb_provider base)) canonical directProviderRegistry = Inr (pn_effective plan)"
    and "classifyIntentForRequest (cq_requestedModel canonical) = Inr (pn_intent plan)"
    and "resolveModelIntent (pn_intent plan) canonical (prov_name (rb_provider base)) (rb_profile base) (ru_required env)
           parent (pn_effective plan) = Inr (pn_resolution plan)"
    and "translate_for_route canonical (prov_name (rb_provider base)) (mr_model (pn_selection plan)) = Inr (pn_reasoning plan)"
    and "activateProfile (snap_profiles (snapshot (rb_sessionPolicy base)))
           \<lparr>ai_name = Some (sn_profileName session), ai_profileId = Some (sn_profileId session),
            ai_requestedModel = cq_requestedModel canonical, ai_required = ru_required env,
            ai_baseCapabilities = me_capabilities (mr_model (pn_selection plan)), ai_requireClaude = True,
            ai_resolved = Some (ir_role (pn_resolution plan), ir_modelId (pn_resolution plan))\<rparr> = Inr (pn_activated plan)"
    and "adapterIdFor (rb_provider base) = Inr (pn_adapterId plan)"
    and "pn_route plan = route_of (ap_role (pn_activated plan)) (prov_name (rb_provider base)) (ap_modelId (pn_activated plan))
           (pn_adapterId plan) (ap_capabilities (pn_activated plan)) (mr_model (pn_selection plan))"
    and "missingCapabilities (rr_capabilities (pn_route plan)) (ru_required env) = []"
  using assms by (auto simp: plan_route_def Let_def bind_ok_Inr_iff dest: decide_for_Inr)

lemma plan_route_model:
  assumes "plan_route env canonical session base parent = Inr plan"
  shows "ap_modelId (pn_activated plan) = ir_modelId (pn_resolution plan)" "ap_role (pn_activated plan) = ir_role (pn_resolution plan)"
  using activate_facts [OF plan_route_facts(6) [OF assms]] by auto

lemma resolveProfileRoute_Inr:
  assumes "resolveProfileRoute env canonical session contexts = (Inr r, contexts')"
  obtains base parent pruned plan where "session_base env session = Inr base"
    and "resolveParentExecutionReference (ru_leaseActive env) (cq_agent canonical) session (ru_hasContexts env) contexts = (parent, pruned)"
    and "plan_route env canonical session base (map_option pr_context parent) = Inr plan"
    and "rp_route r = pn_route plan" and "rp_provider r = rb_provider base"
    and "rp_select r = account_selection env canonical session (rb_sessionPolicy base)
           (pool_members (snap_accounts (snapshot (rb_sessionPolicy base))) (rb_pool base)) (ap_poolId (pn_activated plan))
           (pn_route plan) (pn_reasoning plan)"
    and "rp_decision r = assembleEffectiveModelDecision (ru_collate env)
           (profile_decision_input env canonical session base parent plan)"
    and "rp_request r = canonical\<lparr>cq_requestedModel := rr_modelId (pn_route plan), cq_modelRole := rr_role (pn_route plan)\<rparr>"
    and "contexts' = record_own_context env canonical session base plan (ru_meanwhile env pruned)"
  using assms by (auto simp: resolveProfileRoute_def Let_def split: sum.splits prod.splits)

section \<open>A session serves its pinned target only\<close>

definition binding_wf :: "launch_session \<Rightarrow> bool" where
  "binding_wf session \<longleftrightarrow>
     pin_profileId (sps_profile (sn_binding session)) = sn_profileId session
     \<and> pin_poolProviderId (sps_pool (sn_binding session)) = pin_providerId (sps_provider (sn_binding session))"

text \<open>A binding compiled from a policy in which the profile's pool and its provider exist is well-formed.\<close>

lemma compiled_binding_wf:
  assumes "pool \<in> set (snap_pools (snapshot policy))" "Some (pool_id pool) = prof_poolId profile"
    and "distinct (map pool_id (snap_pools (snapshot policy)))"
    and "provider \<in> set (snap_providers (snapshot policy))" "prov_id provider = pool_providerId pool"
    and "sn_binding session = sessionPolicySnapshot (Some policy) profile" "sn_profileId session = prof_id profile"
  shows "binding_wf session"
proof -
  have found: "List.find (\<lambda>item. Some (pool_id item) = prof_poolId profile) (snap_pools (snapshot policy)) = Some pool"
    using find_distinct_key [OF assms(3,1)] unfolding assms(2) [symmetric] by simp
  obtain q where q: "List.find (\<lambda>item. prov_id item = pool_providerId pool) (snap_providers (snapshot policy)) = Some q"
    using assms(4,5) by (cases "List.find (\<lambda>item. prov_id item = pool_providerId pool) (snap_providers (snapshot policy))")
      (auto simp: find_None_iff)
  then have "prov_id q = pool_providerId pool" by (auto dest: find_Some_in)
  with found q assms(6,7) show ?thesis by (simp add: binding_wf_def sessionPolicySnapshot_def Let_def)
qed

lemma session_base_facts:
  assumes "session_base env session = Inr base"
  obtains policy launch poolId where "ru_policy env = Some policy" and "rb_policy base = policy"
    and "rb_sessionPolicy base = applySessionBinding policy session"
    and "inspectLaunchableProfile (snap_profiles (snapshot (rb_sessionPolicy base)))
           (get_or (sn_profileName session)
             (map_option prof_name (findProfileById (snap_profiles (snapshot (rb_sessionPolicy base))) (sn_profileId session)))) True
         = Inr (rb_profile base, launch, poolId)"
    and "List.find (\<lambda>item. pool_id item = poolId) (snap_pools (snapshot (rb_sessionPolicy base))) = Some (rb_pool base)"
    and "List.find (\<lambda>item. prov_id item = pool_providerId (rb_pool base)) (snap_providers (snapshot (rb_sessionPolicy base)))
         = Some (rb_provider base)"
proof -
  obtain policy where policy: "ru_policy env = Some policy" using assms by (auto simp: session_base_def split: option.splits)
  let ?s = "applySessionBinding policy session"
  obtain profile launch poolId where inspected: "inspectLaunchableProfile (snap_profiles (snapshot ?s))
      (get_or (sn_profileName session) (map_option prof_name (findProfileById (snap_profiles (snapshot ?s)) (sn_profileId session)))) True
      = Inr (profile, launch, poolId)"
    using assms policy by (auto simp: session_base_def Let_def bind_ok_Inr_iff)
  with assms policy obtain pool provider where
      "List.find (\<lambda>item. pool_id item = poolId) (snap_pools (snapshot ?s)) = Some pool"
      "List.find (\<lambda>item. prov_id item = pool_providerId pool) (snap_providers (snapshot ?s)) = Some provider"
      "base = \<lparr>rb_policy = policy, rb_sessionPolicy = ?s, rb_profile = profile, rb_pool = pool, rb_provider = provider\<rparr>"
    by (simp add: session_base_def Let_def split: option.splits)
  with policy inspected that show thesis by simp
qed

lemma activate_inspects:
  assumes "activateProfile profiles input = Inr a"
  shows "\<exists>launch. inspectLaunchableProfile profiles
           (get_or [] (or_else (Option.bind (ai_profileId input) (\<lambda>i. map_option prof_name (findProfileById profiles i))) (ai_name input)))
           (ai_requireClaude input) = Inr (ap_profile a, launch, ap_poolId a)"
  using assms by (auto simp: activateProfile_def Let_def bind_ok_Inr_iff split: if_splits option.splits sum.splits)

lemma planned_base_is_pinned:
  assumes base: "session_base env session = Inr base" and plan: "plan_route env canonical session base parent = Inr plan"
    and wf: "binding_wf session"
  shows "rb_profile base = frozen_profile (sn_binding session) \<and> ap_profile (pn_activated plan) = frozen_profile (sn_binding session)
     \<and> rb_pool base = frozen_pool (sn_binding session) \<and> rb_provider base = frozen_provider (sn_binding session)
     \<and> ap_poolId (pn_activated plan) = pin_poolId (sps_pool (sn_binding session))"
proof -
  obtain policy launch poolId where policy: "rb_sessionPolicy base = applySessionBinding policy session"
    and inspected: "inspectLaunchableProfile (snap_profiles (snapshot (rb_sessionPolicy base)))
           (get_or (sn_profileName session)
             (map_option prof_name (findProfileById (snap_profiles (snapshot (rb_sessionPolicy base))) (sn_profileId session)))) True
         = Inr (rb_profile base, launch, poolId)"
    and pool: "List.find (\<lambda>item. pool_id item = poolId) (snap_pools (snapshot (rb_sessionPolicy base))) = Some (rb_pool base)"
    and provider: "List.find (\<lambda>item. prov_id item = pool_providerId (rb_pool base))
           (snap_providers (snapshot (rb_sessionPolicy base))) = Some (rb_provider base)"
    using base by (rule session_base_facts)
  note active = plan_route_facts(6) [OF plan]
  from activate_inspects [OF active] inspected
  have same: "ap_profile (pn_activated plan) = rb_profile base" "ap_poolId (pn_activated plan) = poolId"
    by (auto simp: or_else_def get_or_def split: option.splits)
  have "ap_profile (pn_activated plan) = frozen_profile (sn_binding session)"
    using activate_facts [OF active] wf
    by (intro upsert_only [of _ prof_id "snap_profiles (snapshot policy)"]) (auto simp: policy overlay_lists binding_wf_def)
  moreover from this activate_facts [OF active]
  have poolId: "ap_poolId (pn_activated plan) = pin_poolId (sps_pool (sn_binding session))" by simp
  ultimately have profile: "rb_profile base = frozen_profile (sn_binding session)" using same by simp
  have "rb_pool base = frozen_pool (sn_binding session)"
    using pool poolId same overlay_targets(2) [of session policy] by (simp add: policy)
  moreover from this have "rb_provider base = frozen_provider (sn_binding session)"
    using provider wf overlay_targets(3) [of session policy]
    by (simp add: policy binding_wf_def frozen_pool_def Let_def)
  ultimately show ?thesis using profile same poolId by simp
qed

lemma frozen_fields [simp]:
  "prov_name (frozen_provider b) = pin_providerName (sps_provider b)"
  "modelRoles (frozen_profile b) = pin_modelRoles (sps_profile b)"
  "pool_providerId (frozen_pool b) = pin_poolProviderId (sps_pool b)"
  "mem_accountId ` set (memberships (frozen_pool b)) = set (pin_memberships (sps_pool b))"
  by (simp_all add: frozen_profile_def frozen_pool_def frozen_provider_def Let_def image_image)

text \<open>C2: An active session is served by its pinned target only. Whatever the current policy is, if a request of a session
  is routed at all, its provider is the pinned provider, and every account it is then sent to, in any run of the pool
  execution with its failovers, is a member of the pinned pool, on the pinned provider, with the one model the
  decision record names.\<close>

theorem session_served_by_pinned_target:
  assumes "binding_wf session" and "resolveProfileRoute env canonical session contexts = (Inr r, contexts')"
  shows "rp_provider r = frozen_provider (sn_binding session)
     \<and> (\<forall>route \<in> set (xr_invoked (streamPoolRequest xe (rp_select r) w)).
          er_modelId route = dt_physicalModelId (ed_target (rp_decision r))
          \<and> er_providerId route = pin_providerId (sps_provider (sn_binding session))
          \<and> er_accountId route \<in> set (pin_memberships (sps_pool (sn_binding session))))"
proof -
  obtain base parent pruned plan where base: "session_base env session = Inr base"
    and plan: "plan_route env canonical session base (map_option pr_context parent) = Inr plan"
    and provider: "rp_provider r = rb_provider base"
    and sel: "rp_select r = account_selection env canonical session (rb_sessionPolicy base)
           (pool_members (snap_accounts (snapshot (rb_sessionPolicy base))) (rb_pool base)) (ap_poolId (pn_activated plan))
           (pn_route plan) (pn_reasoning plan)"
    and decision: "rp_decision r = assembleEffectiveModelDecision (ru_collate env)
           (profile_decision_input env canonical session base parent plan)"
    using assms(2) by (rule resolveProfileRoute_Inr)
  obtain policy where policy: "rb_sessionPolicy base = applySessionBinding policy session"
    using base by (rule session_base_facts)
  note pinned = planned_base_is_pinned [OF base plan assms(1)]
  have target: "dt_physicalModelId (ed_target (rp_decision r)) = ap_modelId (pn_activated plan)"
    by (simp add: decision assembleEffectiveModelDecision_def profile_decision_input_def Let_def split: prod.splits)
  have pool: "requirePool (si_policy (rp_select r)) (si_poolId (rp_select r)) = Inr (frozen_pool (sn_binding session))"
    using overlay_targets(2) [of session policy] pinned by (simp add: sel policy requirePool_def)
  have "er_modelId route = ap_modelId (pn_activated plan) \<and> er_providerId route = pin_providerId (sps_provider (sn_binding session))
      \<and> er_accountId route \<in> set (pin_memberships (sps_pool (sn_binding session)))"
    if "route \<in> set (xr_invoked (streamPoolRequest xe (rp_select r) w))" for route
  proof -
    from that have "route_within (rp_select r) route" unfolding streamPoolRequest_def using stream_from_within by blast
    with pool assms(1) show ?thesis
      using plan_route_facts(8) [OF plan] by (auto simp: route_within_def binding_wf_def sel)
  qed
  with target pinned provider show ?thesis by simp
qed

text \<open>C3: A routed model was approved for the request. The model of a routed request is a reviewed row of the registry for
  the pinned provider, it may serve exactly this request (its capabilities, its reasoning and tools, the answers of the
  compatibility authority), the profile's own capability policy still grants every required capability, and the route,
  the rewritten request, the decision record and the account selection all name this one model.\<close>

theorem routed_model_was_approved:
  assumes "binding_wf session" and "resolveProfileRoute env canonical session contexts = (Inr r, contexts')"
    and "CHR ''/'' \<notin> set (pin_providerName (sps_provider (sn_binding session)))"
  shows "\<exists>evidence effective.
       evidence \<in> set (registry_models directProviderRegistry)
       \<and> mi_accessProviderId (me_identity evidence) = pin_providerName (sps_provider (sn_binding session))
       \<and> mi_upstreamModelId (me_identity evidence) = rr_modelId (rp_route r)
       \<and> effectiveSnapshotFor env (pin_providerName (sps_provider (sn_binding session))) canonical directProviderRegistry
           = Inr effective
       \<and> may_select (exact_selection (rr_modelId (rp_route r)) (pin_providerName (sps_provider (sn_binding session)))
            (ru_required env) canonical) effective (bypass_allowed env) evidence
       \<and> missingCapabilities (rr_capabilities (rp_route r)) (ru_required env) = []
       \<and> cq_requestedModel (rp_request r) = rr_modelId (rp_route r)
       \<and> si_modelId (rp_select r) = rr_modelId (rp_route r)
       \<and> dt_physicalModelId (ed_target (rp_decision r)) = rr_modelId (rp_route r)
       \<and> dt_logicalId (ed_target (rp_decision r)) = me_logicalId evidence"
proof -
  obtain base parent pruned plan where base: "session_base env session = Inr base"
    and plan: "plan_route env canonical session base (map_option pr_context parent) = Inr plan"
    and route: "rp_route r = pn_route plan"
    and sel: "rp_select r = account_selection env canonical session (rb_sessionPolicy base)
           (pool_members (snap_accounts (snapshot (rb_sessionPolicy base))) (rb_pool base)) (ap_poolId (pn_activated plan))
           (pn_route plan) (pn_reasoning plan)"
    and decision: "rp_decision r = assembleEffectiveModelDecision (ru_collate env)
           (profile_decision_input env canonical session base parent plan)"
    and request: "rp_request r = canonical\<lparr>cq_requestedModel := rr_modelId (pn_route plan), cq_modelRole := rr_role (pn_route plan)\<rparr>"
    using assms(2) by (rule resolveProfileRoute_Inr)
  have nm: "prov_name (rb_provider base) = pin_providerName (sps_provider (sn_binding session))"
    using planned_base_is_pinned [OF base plan assms(1)] by simp
  note facts = plan_route_facts [OF plan] plan_route_model [OF plan]
  have model: "rr_modelId (pn_route plan) = ir_modelId (pn_resolution plan)" using facts(8,10) by simp
  note exact = exact_model [OF directProviderRegistry_wf assms(3) facts(1) [unfolded nm]]
  have target: "dt_physicalModelId (ed_target (rp_decision r)) = ap_modelId (pn_activated plan)"
      "dt_logicalId (ed_target (rp_decision r)) = me_logicalId (mr_model (pn_selection plan))"
    by (simp_all add: decision assembleEffectiveModelDecision_def profile_decision_input_def Let_def split: prod.splits)
  show ?thesis
    using exact facts(2,9) facts(10) model target
    by (intro exI [of _ "mr_model (pn_selection plan)"] exI [of _ "pn_effective plan"])
      (simp add: route sel request nm)
qed

section \<open>Agents\<close>

lemma parent_reference_cases:
  assumes "resolveParentExecutionReference leaseActive agent session registry contexts = (Some p, contexts')"
  obtains (exact) a cs i where "agent = Some a" "claudeSessionId a = Some cs" "parentAgentId a = Some i"
      "fst (resolve_context leaseActive session cs i contexts) = Some (pr_context p)" "pr_source p = From_parent_agent"
  | (main) a cs i where "agent = Some a" "claudeSessionId a = Some cs" "parentAgentId a = Some i"
      "fst (resolve_context leaseActive session cs i contexts) = None"
      "fst (mainContext leaseActive session cs (snd (resolve_context leaseActive session cs i contexts))) = Some (pr_context p)"
      "pr_source p = From_session_default"
  using assms
  by (cases agent) (auto simp: resolveParentExecutionReference_def split: option.splits prod.splits bool.splits)

text \<open>
  The recorded context of a routed agent is the one a child of it finds.
\<close>

lemma recorded_context_found:
  assumes "ru_hasContexts env" "ru_leaseActiveLater env (sn_leaseId session)" "leaseActive (sn_leaseId session)"
    and "cq_agent canonical = Some a" "claudeSessionId a = Some cs" "agentId a = Some i" "cs \<noteq> []" "i \<noteq> []"
  shows "\<exists>c. fst (resolve_context leaseActive session cs i (record_own_context env canonical session base plan contexts)) = Some c
      \<and> xc_resolvedModelId c = ap_modelId (pn_activated plan)
      \<and> xc_modelFamily c = mi_modelFamily (me_identity (mr_model (pn_selection plan)))"
  using assms
  by (simp add: record_own_context_def record_context_def own_context_def resolve_context_def update_conv' Let_def)

lemma inherit_classified: "classifyIntentForRequest ''inherit'' = Inr (Inherit ''inherit'')"
  by code_simp

lemma inherited_model:
  assumes "cq_requestedModel canonical = ''inherit''" and plan: "plan_route env canonical session base (Some c) = Inr plan"
  shows "ap_modelId (pn_activated plan) = xc_resolvedModelId c"
proof -
  have "pn_intent plan = Inherit ''inherit''"
    using plan_route_facts(3) [OF plan] assms(1) inherit_classified by simp
  then have "ir_modelId (pn_resolution plan) = xc_resolvedModelId c"
    using plan_route_facts(4) [OF plan] by (simp add: resolveModelIntent_def role_resolution_def Let_def) (metis intent_resolution.select_convs(2))
  then show ?thesis using plan_route_model(1) [OF plan] by simp
qed

text \<open>C27: A subagent inherits its parent's model. Once an agent's request has been routed and its context recorded, a
  request of one of its subagents in the same session that asks to inherit is, if it is routed, routed to the very
  model its parent was routed to, whatever the profile, the policy or the compatibility answers have become since.\<close>

theorem subagent_inherits_parent_model:
  assumes parent: "resolveProfileRoute env canonical session contexts = (Inr r, contexts')"
    and "ru_hasContexts env" "ru_leaseActiveLater env (sn_leaseId session)"
    and "cq_agent canonical = Some a" "claudeSessionId a = Some cs" "agentId a = Some i" "cs \<noteq> []" "i \<noteq> []"
    and child: "resolveProfileRoute env' sub session contexts' = (Inr r', contexts'')"
    and "ru_hasContexts env'" "ru_leaseActive env' (sn_leaseId session)"
    and "cq_agent sub = Some b" "claudeSessionId b = Some cs" "parentAgentId b = Some i"
    and "cq_requestedModel sub = ''inherit''"
  shows "rr_modelId (rp_route r') = rr_modelId (rp_route r) \<and> cq_requestedModel (rp_request r') = rr_modelId (rp_route r)"
proof -
  obtain base plan pruned where plan: "rp_route r = pn_route plan" "plan_route env canonical session base pruned = Inr plan"
    and table: "contexts' = record_own_context env canonical session base plan (ru_meanwhile env (snd
        (resolveParentExecutionReference (ru_leaseActive env) (cq_agent canonical) session (ru_hasContexts env) contexts)))"
    using parent by (rule resolveProfileRoute_Inr) force
  obtain base' parent' pruned' plan' where
    ref: "resolveParentExecutionReference (ru_leaseActive env') (cq_agent sub) session (ru_hasContexts env') contexts' = (parent', pruned')"
    and plan': "plan_route env' sub session base' (map_option pr_context parent') = Inr plan'"
    and routed: "rp_route r' = pn_route plan'"
      "rp_request r' = sub\<lparr>cq_requestedModel := rr_modelId (pn_route plan'), cq_modelRole := rr_role (pn_route plan')\<rparr>"
    using child by (rule resolveProfileRoute_Inr)
  obtain c where found: "fst (resolve_context (ru_leaseActive env') session cs i contexts') = Some c"
    and model: "xc_resolvedModelId c = ap_modelId (pn_activated plan)"
    using recorded_context_found [of env session "ru_leaseActive env'", OF assms(2,3,11,4-8)] unfolding table by blast
  have "map_option pr_context parent' = Some c"
    using ref found assms(10,12-14)
    by (cases "resolve_context (ru_leaseActive env') session cs i contexts'") (auto simp: resolveParentExecutionReference_def)
  then have "ap_modelId (pn_activated plan') = ap_modelId (pn_activated plan)"
    using inherited_model [OF assms(15) plan' [unfolded \<open>map_option pr_context parent' = Some c\<close>]] model by simp
  then show ?thesis
    using routed plan plan_route_facts(8) [OF plan(2)] plan_route_facts(8) [OF plan'] by simp
qed

text \<open>No agent reads another lease's or session's context. Over the contexts that the registry itself wrote, with ids free
  of the key separator, the parent a subagent's request resolves to is a live context of this very lease and client
  session: the context of the named parent agent, or a main agent's context.\<close>

theorem parent_context_is_own:
  assumes "contexts_wf contexts" and "bar_free (sn_leaseId session)"
    and "list_all (\<lambda>(_, c). bar_free (xc_leaseId c) \<and> bar_free (xc_claudeSessionId c)) contexts"
    and "bar_free (get_or [] (Option.bind agent claudeSessionId))"
    and "resolveParentExecutionReference leaseActive agent session registry contexts = (Some p, contexts')"
  shows "leaseActive (sn_leaseId session) \<and> xc_leaseId (pr_context p) = sn_leaseId session
     \<and> Some (xc_claudeSessionId (pr_context p)) = Option.bind agent claudeSessionId
     \<and> (if pr_source p = From_parent_agent then Some (xc_agentId (pr_context p)) = Option.bind agent parentAgentId
        else xc_role (pr_context p) = Main_agent)"
  using assms(5)
proof (cases rule: parent_reference_cases)
  case (exact a cs i)
  with resolved_context [OF assms(1) exact(4) assms(2) _ assms(3)] assms(4) show ?thesis by auto
next
  case (main a cs i)
  let ?rest = "snd (resolve_context leaseActive session cs i contexts)"
  have sub: "set ?rest \<subseteq> set contexts"
    using set_alist_delete [of "context_key session cs i" contexts]
    by (auto simp: resolve_context_def Let_def split: option.splits)
  then have "list_all (\<lambda>(_, c). bar_free (xc_leaseId c) \<and> bar_free (xc_claudeSessionId c)) ?rest"
    using assms(3) by (auto simp: list_all_iff)
  with main_context [OF resolve_context_wf [OF assms(1)] main(5) assms(2)] main assms(4) show ?thesis by auto
qed

section \<open>Projected models\<close>





section \<open>Example requests\<close>

text \<open>A session on \<open>cline\<close>, pinned before its profile was removed from the policy.\<close>

definition route_demo_policy :: policy_revision where
  "route_demo_policy = demo_compiled_policy\<lparr>snapshot := (snapshot demo_compiled_policy)
     \<lparr>snap_providers := [Model_Projection.demo_provider\<lparr>integrationMode := integration_mode.Oauth\<rparr>]\<rparr>\<rparr>"

definition route_demo_session :: launch_session where
  "route_demo_session = demo_session\<lparr>sn_binding := sessionPolicySnapshot (Some route_demo_policy) (demo_profile ''pr1'' ''work'')\<rparr>"

definition route_demo_agent :: "string \<Rightarrow> string option \<Rightarrow> agent_context" where
  "route_demo_agent agent parent = \<lparr>claudeSessionId = Some ''s1'', agentId = Some agent, parentAgentId = parent\<rparr>"

definition route_demo_request :: "string \<Rightarrow> agent_context \<Rightarrow> canonical_request" where
  "route_demo_request model agent =
     \<lparr>cq_id = ''r1'', cq_source = \<lparr>src_protocol = Anthropic_messages, src_protocolVersion = None, src_clientName = None,
        src_clientVersion = None\<rparr>, cq_requestedModel = model, cq_modelRole = ''unknown'', cq_system = [], cq_input = [],
      cq_messages = [], cq_tools = [], cq_toolChoice = None, cq_stream = True, cq_store = None, cq_include = None,
      cq_inference = empty_inference, cq_metadata = \<lparr>meta_beta = None, meta_cacheControl = None\<rparr>, cq_continuation = None,
      cq_agent = Some agent, cq_fidelity = None\<rparr>"

definition route_demo_env :: "string route_env" where
  "route_demo_env =
     \<lparr>ru_collate = id, ru_sha = id, ru_policy = Some route_demo_policy, ru_required = [Req_tools], ru_compatibility = None,
      ru_hasContexts = True, ru_leaseActive = (\<lambda>_. True), ru_leaseActiveLater = (\<lambda>_. True), ru_meanwhile = id,
      ru_environment = [], ru_prepare = (\<lambda>_. Some \<lparr>cm_generation = 1, cm_expiresAt = None\<rparr>), ru_settings = (\<lambda>_. None),
      ru_configFingerprint = ''f'', ru_now = 0\<rparr>"

definition route_demo_main :: canonical_request where
  "route_demo_main = route_demo_request ''rly-tier:fable'' (route_demo_agent ''a1'' None)"

definition route_demo_sub :: canonical_request where
  "route_demo_sub = route_demo_request ''inherit'' (route_demo_agent ''a2'' (Some ''a1''))"

definition routed_model :: "(route_error + resolved_route) \<times> context_table \<Rightarrow> string option" where
  "routed_model x = (case fst x of Inl _ \<Rightarrow> None | Inr r \<Rightarrow> Some (rr_modelId (rp_route r)))"

lemma route_demo_runs:
  "routed_model (resolveProfileRoute route_demo_env route_demo_main route_demo_session []) = Some ''gpt-5.6-sol''"
  "routed_model (resolveProfileRoute route_demo_env route_demo_sub route_demo_session
      (snd (resolveProfileRoute route_demo_env route_demo_main route_demo_session []))) = Some ''gpt-5.6-sol''"
  by code_simp+

lemma routed_model_Inr: "routed_model (x, contexts) = Some m \<Longrightarrow> \<exists>r. x = Inr r \<and> rr_modelId (rp_route r) = m"
  by (cases x) (auto simp: routed_model_def)

lemma route_demo_routed:
  obtains r contexts where "resolveProfileRoute route_demo_env route_demo_main route_demo_session [] = (Inr r, contexts)"
    and "rr_modelId (rp_route r) = ''gpt-5.6-sol''"
  using route_demo_runs(1) routed_model_Inr by (metis surj_pair)

lemma route_demo_binding_wf: "binding_wf route_demo_session"
  by code_simp

theorem session_served_by_pinned_target_witness:
  "\<exists>r contexts. resolveProfileRoute route_demo_env route_demo_main route_demo_session [] = (Inr r, contexts)
     \<and> rp_provider r = frozen_provider (sn_binding route_demo_session)"
  by (rule route_demo_routed) (use session_served_by_pinned_target [OF route_demo_binding_wf] in blast)

theorem routed_model_was_approved_witness:
  "\<exists>evidence. evidence \<in> set (registry_models directProviderRegistry)
     \<and> mi_accessProviderId (me_identity evidence) = pin_providerName (sps_provider (sn_binding route_demo_session))
     \<and> mi_upstreamModelId (me_identity evidence) = ''gpt-5.6-sol''"
proof (rule route_demo_routed)
  fix r contexts
  assume "resolveProfileRoute route_demo_env route_demo_main route_demo_session [] = (Inr r, contexts)"
    and model: "rr_modelId (rp_route r) = ''gpt-5.6-sol''"
  moreover have "CHR ''/'' \<notin> set (pin_providerName (sps_provider (sn_binding route_demo_session)))" by code_simp
  ultimately show ?thesis using routed_model_was_approved [OF route_demo_binding_wf] model by metis
qed

theorem subagent_inherits_parent_model_witness:
  "\<exists>r' contexts' contexts''. resolveProfileRoute route_demo_env route_demo_sub route_demo_session contexts' = (Inr r', contexts'')
     \<and> rr_modelId (rp_route r') = ''gpt-5.6-sol''"
proof (rule route_demo_routed)
  fix r contexts'
  assume parent: "resolveProfileRoute route_demo_env route_demo_main route_demo_session [] = (Inr r, contexts')"
    and model: "rr_modelId (rp_route r) = ''gpt-5.6-sol''"
  obtain r' contexts'' where child: "resolveProfileRoute route_demo_env route_demo_sub route_demo_session contexts' = (Inr r', contexts'')"
    using route_demo_runs(2) routed_model_Inr unfolding parent by (metis surj_pair snd_conv)
  have "rr_modelId (rp_route r') = rr_modelId (rp_route r) \<and> cq_requestedModel (rp_request r') = rr_modelId (rp_route r)"
    by (rule subagent_inherits_parent_model [OF parent _ _ _ _ _ _ _ child, where a = "route_demo_agent ''a1'' None"
          and b = "route_demo_agent ''a2'' (Some ''a1'')"])
      (simp_all add: route_demo_env_def route_demo_main_def route_demo_sub_def route_demo_request_def route_demo_agent_def)
  with child model show ?thesis by auto
qed

definition route_demo_contexts :: context_table where
  "route_demo_contexts =
     record_context (\<lambda>_. True) route_demo_session (demo_context ''s1'' ''a1'') []"

lemma route_demo_reference:
  "map_option (\<lambda>p. (xc_agentId (pr_context p), pr_source p)) (fst (resolveParentExecutionReference (\<lambda>_. True)
     (Some (route_demo_agent ''a2'' (Some ''a1''))) route_demo_session True route_demo_contexts)) = Some (''a1'', From_parent_agent)"
  by code_simp

theorem parent_context_is_own_witness:
  "\<exists>p contexts'. resolveParentExecutionReference (\<lambda>_. True) (Some (route_demo_agent ''a2'' (Some ''a1''))) route_demo_session True
       route_demo_contexts = (Some p, contexts') \<and> xc_leaseId (pr_context p) = sn_leaseId route_demo_session"
proof -
  obtain p contexts' where run: "resolveParentExecutionReference (\<lambda>_. True) (Some (route_demo_agent ''a2'' (Some ''a1'')))
      route_demo_session True route_demo_contexts = (Some p, contexts')"
    using route_demo_reference
    by (cases "resolveParentExecutionReference (\<lambda>_. True) (Some (route_demo_agent ''a2'' (Some ''a1''))) route_demo_session True
        route_demo_contexts") (auto simp del: not_None_eq)
  have "contexts_wf route_demo_contexts" "bar_free (sn_leaseId route_demo_session)"
      "list_all (\<lambda>(_, c). bar_free (xc_leaseId c) \<and> bar_free (xc_claudeSessionId c)) route_demo_contexts"
      "bar_free (get_or [] (Option.bind (Some (route_demo_agent ''a2'' (Some ''a1''))) claudeSessionId))"
    by code_simp+
  from parent_context_is_own [OF this run] run show ?thesis by blast
qed






text \<open>
  Discovery lists a session's models with the answers of the compatibility registry; a request
  resolves its projection id without them. A model that is trusted by review while its seed
  state is EXPERIMENTAL is listed for a session without the opt-in, and its id is refused.
\<close>

definition trusted_universe :: model_universe_snapshot where
  "trusted_universe = demo_universe\<lparr>mu_experimentalModels := False\<rparr>"

lemma listed_model_is_refused:
  "map mp_id (projectModelUniverse (\<lambda>_. ''h'') (id :: string \<Rightarrow> string) demo_registry trusted_universe
      (Some [(me_logicalId demo_row, demo_answers Label_trusted Label_trusted)])) = [projectionIdFor (\<lambda>_. ''h'') ''cline'' ''gpt-5.6-sol'']
   \<and> resolveProjection (\<lambda>_. ''h'') (id :: string \<Rightarrow> string) (projectionIdFor (\<lambda>_. ''h'') ''cline'' ''gpt-5.6-sol'') trusted_universe
       demo_registry None = None"
  by code_simp

end
