(* ===== verification/Model_Discovery.thy ===== *)
theory Model_Discovery
  imports Profiles Reasoning_Translation
begin

text \<open>
  Model discovery: \<^verbatim>\<open>src/routes/anthropic-models-route.ts\<close>, the page of projected models a client
  is shown.

  \<open>date_of\<close> is \<open>new Date\<close> on the text of an evidence date. Strings are compared by code unit. The
  query is what the schema is given: \<open>limit\<close> after the coercion to a number (\<open>Some None\<close> is \<open>NaN\<close>)
  and the two cursors.
\<close>

section \<open>The route\<close>

record models_query =
  mq_limit :: "rat option option"
  mq_before :: "string option"
  mq_after :: "string option"

record models_query_parsed =
  mqp_limit :: "nat option"
  mqp_before :: "string option"
  mqp_after :: "string option"

definition parse_limit :: "rat option option \<Rightarrow> nat option option" where
  "parse_limit v =
     (case v of
        None \<Rightarrow> Some None
      | Some None \<Rightarrow> None
      | Some (Some r) \<Rightarrow>
          (case quotient_of r of (n, d) \<Rightarrow> if d = 1 \<and> 1 \<le> n \<and> n \<le> 100 then Some (Some (nat n)) else None))"

definition modelsQuerySchema :: "models_query \<Rightarrow> models_query_parsed option" where
  "modelsQuerySchema q =
     (if mq_before q = Some [] \<or> mq_after q = Some [] then None
      else map_option (\<lambda>l. \<lparr>mqp_limit = l, mqp_before = mq_before q, mqp_after = mq_after q\<rparr>) (parse_limit (mq_limit q)))"

definition projectionCreatedAt :: "(string \<Rightarrow> int option) \<Rightarrow> model_projection \<Rightarrow> date_text" where
  "projectionCreatedAt date_of projection = Instant (get_or 0 (date_of (mp_verifiedAt projection)))"

definition discoveryNote ::
  "registry_document \<Rightarrow> model_universe_snapshot \<Rightarrow> model_projection list \<Rightarrow> string option" where
  "discoveryNote registry universe projections =
     (if projections \<noteq> [] then None
      else if mu_bindings universe = [] then
        Some ''No enabled provider with a ready account pool is bound; model discovery is empty.''
      else
        (let configured = foldl (\<lambda>sum b. sum + length (modelsForProvider registry (pb_providerName b))) 0 (mu_bindings universe)
         in if configured = 0 then
              Some ''No reviewed model is available for the bound providers; model discovery is empty.''
            else
              Some (''All '' @ show_nat configured
                @ '' configured model(s) are EXPERIMENTAL without reviewed compatibility evidence. Enable gateway.modelDiscovery.experimentalModels=true to expose them, or wait for canary review.'')))"

record model_entry =
  en_id :: string
  en_displayName :: string
  en_createdAt :: date_text

record models_page =
  pg_data :: "model_entry list"
  pg_hasMore :: bool
  pg_firstId :: "string option"
  pg_lastId :: "string option"
  pg_note :: "string option"

datatype models_response = Models_invalid | Models_unavailable | Models_failed string | Models_page models_page

definition page_window :: "models_query_parsed \<Rightarrow> model_projection list \<Rightarrow> model_projection list" where
  "page_window q projections =
     filter (\<lambda>p. case mqp_before q of None \<Rightarrow> True | Some b \<Rightarrow> mp_id p < b)
       (filter (\<lambda>p. case mqp_after q of None \<Rightarrow> True | Some a \<Rightarrow> a < mp_id p) projections)"

definition models_page_of ::
  "(string \<Rightarrow> int option) \<Rightarrow> models_query_parsed \<Rightarrow> string option \<Rightarrow> model_projection list \<Rightarrow> models_page" where
  "models_page_of date_of q note projections =
     (let limit = get_or 20 (mqp_limit q); window = page_window q projections; page = take limit window
      in \<lparr>pg_data = map (\<lambda>p. \<lparr>en_id = mp_id p, en_displayName = mp_displayName p,
                               en_createdAt = projectionCreatedAt date_of p\<rparr>) page,
          pg_hasMore = (limit < length window),
          pg_firstId = (case page of [] \<Rightarrow> None | p # _ \<Rightarrow> Some (mp_id p)),
          pg_lastId = (if page = [] then None else Some (mp_id (last page))), pg_note = note\<rparr>)"

definition discovery_universe ::
  "(string \<Rightarrow> 'k::linorder) \<Rightarrow> registry_document \<Rightarrow> bool \<Rightarrow> launch_session option \<Rightarrow> policy_revision
     \<Rightarrow> model_universe_snapshot" where
  "discovery_universe collate registry experimentalModels session policy =
     (case session of
        Some s \<Rightarrow> sn_modelUniverse s
      | None \<Rightarrow> compileModelUniverseSnapshot collate policy registry None (Some experimentalModels))"

definition discovery_snapshot_for :: "(ecr_options \<times> ecr_state) option \<Rightarrow> registry_document \<Rightarrow> string + effective_snapshot option" where
  "discovery_snapshot_for compatibility registry =
     (case compatibility of
        None \<Rightarrow> Inr None
      | Some (opts, s) \<Rightarrow>
          bind_ok (snapshotForModels opts s (registry_models registry)
                     (\<lambda>row. requiredFeaturesForEvidence (me_capabilities row) (me_reasoning row))
                     \<lparr>ctx_required = False, ctx_experimentalOverride = False\<rparr>)
            (\<lambda>rows. Inr (Some rows)))"

definition models_handler ::
  "(string \<Rightarrow> string) \<Rightarrow> (string \<Rightarrow> 'k::linorder) \<Rightarrow> (string \<Rightarrow> int option) \<Rightarrow> (ecr_options \<times> ecr_state) option
     \<Rightarrow> registry_document \<Rightarrow> bool \<Rightarrow> launch_session option \<Rightarrow> policy_revision option \<Rightarrow> models_query \<Rightarrow> models_response" where
  "models_handler sha collate date_of compatibility registry experimentalModels session policy query =
     (case modelsQuerySchema query of
        None \<Rightarrow> Models_invalid
      | Some q \<Rightarrow>
          (case policy of
             None \<Rightarrow> Models_unavailable
           | Some p \<Rightarrow>
               (let universe = discovery_universe collate registry experimentalModels session p
                in case discovery_snapshot_for compatibility registry of
                     Inl e \<Rightarrow> Models_failed e
                   | Inr effective \<Rightarrow>
                       (let projections = projectModelUniverse sha collate registry universe effective
                        in Models_page (models_page_of date_of q (discoveryNote registry universe projections) projections)))))"

section \<open>Paging\<close>

text \<open>A client that follows \<open>last_id\<close> until a page says there is nothing more.\<close>

fun follow_pages :: "nat \<Rightarrow> nat \<Rightarrow> string option \<Rightarrow> model_projection list \<Rightarrow> string list" where
  "follow_pages 0 limit cursor projections = []"
| "follow_pages (Suc fuel) limit cursor projections =
     (let page = models_page_of (\<lambda>_. None) \<lparr>mqp_limit = Some limit, mqp_before = None, mqp_after = cursor\<rparr> None projections
      in map en_id (pg_data page)
         @ (if pg_hasMore page then follow_pages fuel limit (pg_lastId page) projections else []))"

lemma sorted_after_last:
  fixes key :: "'a \<Rightarrow> 'b::linorder"
  assumes "sorted_wrt (\<lambda>p q. key p < key q) ws" "0 < n" "n < length ws"
  shows "filter (\<lambda>p. key (last (take n ws)) < key p) ws = drop n ws"
proof -
  have split: "ws = take n ws @ drop n ws" by simp
  have last: "last (take n ws) \<in> set (take n ws)" using assms(2,3) by (intro last_in_set) auto
  have sorted: "sorted_wrt (\<lambda>p q. key p < key q) (take n ws @ drop n ws)" using assms(1) by simp
  then have upto: "\<not> key (last (take n ws)) < key p" if "p \<in> set (take n ws)" for p
  proof -
    have "sorted_wrt (\<lambda>p q. key p < key q) (take n ws)" using sorted by (simp add: sorted_wrt_append)
    then have "sorted_wrt (\<lambda>p q. key p < key q) (butlast (take n ws) @ [last (take n ws)])"
      using last by (metis append_butlast_last_id empty_iff list.set(1))
    then have "\<forall>q \<in> set (butlast (take n ws)). key q < key (last (take n ws))" by (simp add: sorted_wrt_append)
    moreover have "p \<in> set (butlast (take n ws)) \<or> p = last (take n ws)"
      using that by (metis append_butlast_last_id empty_iff in_set_butlastD list.set(1) rotate1.simps(2) set_ConsD set_rotate1)
    ultimately show ?thesis by auto
  qed
  have behind: "key (last (take n ws)) < key p" if "p \<in> set (drop n ws)" for p
    using sorted last that unfolding sorted_wrt_append by blast
  have "filter (\<lambda>p. key (last (take n ws)) < key p) ws
      = filter (\<lambda>p. key (last (take n ws)) < key p) (take n ws) @ filter (\<lambda>p. key (last (take n ws)) < key p) (drop n ws)"
    by (metis filter_append split)
  also have "filter (\<lambda>p. key (last (take n ws)) < key p) (take n ws) = []" using upto by (simp add: filter_empty_conv)
  also have "filter (\<lambda>p. key (last (take n ws)) < key p) (drop n ws) = drop n ws" using behind by (simp add: filter_id_conv)
  finally show ?thesis by simp
qed

text \<open>Over a list in id order the pages are the whole list.\<close>

lemma page_after_fields:
  "map en_id (pg_data (models_page_of d \<lparr>mqp_limit = Some limit, mqp_before = None, mqp_after = cursor\<rparr> note ps)) =
     map mp_id (take limit (page_window \<lparr>mqp_limit = Some limit, mqp_before = None, mqp_after = cursor\<rparr> ps))"
  "pg_hasMore (models_page_of d \<lparr>mqp_limit = Some limit, mqp_before = None, mqp_after = cursor\<rparr> note ps) =
     (limit < length (page_window \<lparr>mqp_limit = Some limit, mqp_before = None, mqp_after = cursor\<rparr> ps))"
  "limit < length (page_window \<lparr>mqp_limit = Some limit, mqp_before = None, mqp_after = cursor\<rparr> ps) \<Longrightarrow> 0 < limit \<Longrightarrow>
     pg_lastId (models_page_of d \<lparr>mqp_limit = Some limit, mqp_before = None, mqp_after = cursor\<rparr> note ps) =
     Some (mp_id (last (take limit (page_window \<lparr>mqp_limit = Some limit, mqp_before = None, mqp_after = cursor\<rparr> ps))))"
  by (auto simp: models_page_of_def Let_def o_def)

lemma follow_pages_sorted:
  assumes "sorted_wrt (\<lambda>p q. mp_id p < mp_id q) projections" "0 < limit"
  shows "length (page_window \<lparr>mqp_limit = Some limit, mqp_before = None, mqp_after = cursor\<rparr> projections) \<le> fuel * limit \<Longrightarrow>
     follow_pages fuel limit cursor projections
     = map mp_id (page_window \<lparr>mqp_limit = Some limit, mqp_before = None, mqp_after = cursor\<rparr> projections)"
proof (induction fuel arbitrary: cursor)
  case 0
  then show ?case by simp
next
  case (Suc fuel)
  let ?q = "\<lambda>c. \<lparr>mqp_limit = Some limit, mqp_before = None, mqp_after = c\<rparr>"
  let ?w = "page_window (?q cursor) projections"
  show ?case
  proof (cases "limit < length ?w")
    case False
    then show ?thesis by (simp add: page_after_fields Let_def)
  next
    case True
    let ?next = "Some (mp_id (last (take limit ?w)))"
    have sorted: "sorted_wrt (\<lambda>p q. mp_id p < mp_id q) ?w" using assms(1) by (simp add: page_window_def sorted_wrt_filter)
    have "last (take limit ?w) \<in> set ?w" using True assms(2) by (metis last_in_set in_set_takeD length_greater_0_conv less_nat_zero_code take_eq_Nil neq0_conv)
    moreover have "case cursor of None \<Rightarrow> True | Some a \<Rightarrow> a < mp_id p" if "p \<in> set ?w" for p
      using that by (simp add: page_window_def)
    ultimately have above: "(case cursor of None \<Rightarrow> True | Some a \<Rightarrow> a < mp_id (last (take limit ?w)))" by blast
    have "page_window (?q ?next) projections = filter (\<lambda>p. mp_id (last (take limit ?w)) < mp_id p) ?w"
      using above by (auto simp: page_window_def intro!: filter_cong split: option.splits)
    also have "\<dots> = drop limit ?w" using sorted_after_last [OF sorted assms(2) True] by simp
    finally have rest: "page_window (?q ?next) projections = drop limit ?w" .
    have "length (drop limit ?w) \<le> fuel * limit" using Suc.prems by simp
    then have "follow_pages fuel limit ?next projections = map mp_id (drop limit ?w)" using Suc.IH [of ?next] rest by simp
    then show ?thesis
      using True assms(2) by (simp add: page_after_fields Let_def flip: map_append)
  qed
qed

text \<open>
  The list is in the order of the bindings and of the registry, not of the ids. A client that
  follows \<open>last_id\<close> misses the entries whose ids come earlier.
\<close>

definition demo_listed :: "string \<Rightarrow> model_projection" where
  "demo_listed i = (projectionFor (\<lambda>_. i) demo_binding demo_row None)"

lemma paging_skips_entries:
  "map mp_id [demo_listed ''c'', demo_listed ''a'', demo_listed ''b'']
     = [''claude-rly-cline-c'', ''claude-rly-cline-a'', ''claude-rly-cline-b'']
   \<and> follow_pages 9 1 None [demo_listed ''c'', demo_listed ''a'', demo_listed ''b''] = [''claude-rly-cline-c'']"
  by code_simp

end
