(* ===== verification/Lease_Manager.thy ===== *)
theory Lease_Manager
  imports Profiles
begin

text \<open>
  The launcher leases of an owned gateway: \<^verbatim>\<open>src/runtime/lease-manager.ts\<close>.

  A timer is the time it is due at, with what its callback captured; a callback runs at or after
  that time. Every operation takes the present time. The map of expiries is an association list in
  insertion order. The promise of \<open>waitForIdle\<close> is left out: only its side effect on the timer is
  modelled.
\<close>

section \<open>The manager\<close>

record lease_options =
  lo_ttlMs :: int
  lo_idleGraceMs :: int

record lease_manager =
  lm_expiresAt :: "(string \<times> int) list"
  lm_timer :: "int option"
  lm_idle :: "(int \<times> nat) option"
  lm_generation :: nat
  lm_stopping :: bool

definition empty_lease_manager :: lease_manager where
  "empty_lease_manager = \<lparr>lm_expiresAt = [], lm_timer = None, lm_idle = None, lm_generation = 0, lm_stopping = False\<rparr>"

definition scheduleExpiry :: "int \<Rightarrow> lease_manager \<Rightarrow> lease_manager" where
  "scheduleExpiry now lm =
     lm\<lparr>lm_timer := (case map snd (lm_expiresAt lm) of
                      [] \<Rightarrow> None
                    | e # es \<Rightarrow> Some (now + max 0 (foldl min e es - now)))\<rparr>"

definition cancelIdle :: "lease_manager \<Rightarrow> lease_manager" where
  "cancelIdle lm = lm\<lparr>lm_idle := None\<rparr>"

definition scheduleIdleIfEmpty :: "lease_options \<Rightarrow> int \<Rightarrow> lease_manager \<Rightarrow> lease_manager" where
  "scheduleIdleIfEmpty opts now lm =
     (if lm_expiresAt lm \<noteq> [] \<or> lm_idle lm \<noteq> None then lm
      else lm\<lparr>lm_idle := Some (now + lo_idleGraceMs opts, lm_generation lm)\<rparr>)"

definition add_lease :: "lease_options \<Rightarrow> int \<Rightarrow> string \<Rightarrow> lease_manager \<Rightarrow> string + lease_manager" where
  "add_lease opts now leaseId lm =
     (if lm_stopping lm then Inl ''Gateway is stopping''
      else Inr (scheduleExpiry now
             ((cancelIdle (lm\<lparr>lm_generation := lm_generation lm + 1\<rparr>))
                \<lparr>lm_expiresAt := AList.update leaseId (now + lo_ttlMs opts) (lm_expiresAt lm)\<rparr>)))"

definition renew_lease :: "lease_options \<Rightarrow> int \<Rightarrow> string \<Rightarrow> lease_manager \<Rightarrow> string + lease_manager" where
  "renew_lease opts now leaseId lm =
     (if map_of (lm_expiresAt lm) leaseId = None then Inl ''Lease is not active'' else add_lease opts now leaseId lm)"

definition release_lease :: "lease_options \<Rightarrow> int \<Rightarrow> string \<Rightarrow> lease_manager \<Rightarrow> lease_manager" where
  "release_lease opts now leaseId lm =
     scheduleIdleIfEmpty opts now (scheduleExpiry now (lm\<lparr>lm_expiresAt := AList.delete leaseId (lm_expiresAt lm)\<rparr>))"

definition has_lease :: "int \<Rightarrow> string \<Rightarrow> lease_manager \<Rightarrow> bool" where
  "has_lease now leaseId lm \<longleftrightarrow> now < get_or 0 (map_of (lm_expiresAt lm) leaseId)"

definition dispose_leases :: "lease_manager \<Rightarrow> lease_manager" where
  "dispose_leases lm = lm\<lparr>lm_timer := None, lm_idle := None\<rparr>"

text \<open>The callback of the expiry timer: the leases it drops, each reported to \<open>onExpire\<close>.\<close>

definition expire_leases :: "lease_options \<Rightarrow> int \<Rightarrow> lease_manager \<Rightarrow> string list \<times> lease_manager" where
  "expire_leases opts now lm =
     (map fst (filter (\<lambda>(_, e). e \<le> now) (lm_expiresAt lm)),
      scheduleIdleIfEmpty opts now
        (scheduleExpiry now (lm\<lparr>lm_expiresAt := filter (\<lambda>(_, e). \<not> e \<le> now) (lm_expiresAt lm)\<rparr>)))"

definition stillIdle :: "nat \<Rightarrow> lease_manager \<Rightarrow> bool" where
  "stillIdle generation lm \<longleftrightarrow> lm_expiresAt lm = [] \<and> lm_generation lm = generation"

text \<open>The callback of the idle timer: whether \<open>onIdle\<close> is called.\<close>

definition fire_idle :: "nat \<Rightarrow> lease_manager \<Rightarrow> bool \<times> lease_manager" where
  "fire_idle generation lm =
     (let lm' = lm\<lparr>lm_idle := None\<rparr>
      in if stillIdle generation lm' then (True, lm'\<lparr>lm_stopping := True\<rparr>) else (False, lm'))"

section \<open>Runs\<close>

datatype lease_event =
    Lease_add string
  | Lease_renew string
  | Lease_release string
  | Lease_expiry_timer
  | Lease_idle_timer
  | Lease_wait_idle

text \<open>One event at a time. A timer that is not due, and a rejected request, change nothing.\<close>

fun lease_step :: "lease_options \<Rightarrow> int \<Rightarrow> lease_event \<Rightarrow> lease_manager \<Rightarrow> lease_manager" where
  "lease_step opts now (Lease_add i) lm = (case add_lease opts now i lm of Inl _ \<Rightarrow> lm | Inr lm' \<Rightarrow> lm')"
| "lease_step opts now (Lease_renew i) lm = (case renew_lease opts now i lm of Inl _ \<Rightarrow> lm | Inr lm' \<Rightarrow> lm')"
| "lease_step opts now (Lease_release i) lm = release_lease opts now i lm"
| "lease_step opts now Lease_expiry_timer lm =
     (case lm_timer lm of Some t \<Rightarrow> if t \<le> now then snd (expire_leases opts now lm) else lm | None \<Rightarrow> lm)"
| "lease_step opts now Lease_idle_timer lm =
     (case lm_idle lm of Some (t, g) \<Rightarrow> if t \<le> now then snd (fire_idle g lm) else lm | None \<Rightarrow> lm)"
| "lease_step opts now Lease_wait_idle lm = scheduleIdleIfEmpty opts now lm"

inductive lease_reachable :: "lease_options \<Rightarrow> int \<Rightarrow> lease_manager \<Rightarrow> bool" for opts where
  lease_start: "lease_reachable opts now empty_lease_manager"
| lease_event: "lease_reachable opts now lm \<Longrightarrow> now \<le> later \<Longrightarrow> lease_reachable opts later (lease_step opts later ev lm)"

inductive_cases lease_reachableE: "lease_reachable opts now lm"

fun run_leases :: "lease_options \<Rightarrow> (int \<times> lease_event) list \<Rightarrow> lease_manager \<Rightarrow> lease_manager" where
  "run_leases opts [] lm = lm"
| "run_leases opts ((now, ev) # evs) lm = run_leases opts evs (lease_step opts now ev lm)"

section \<open>The invariant\<close>

definition timer_ok :: "lease_manager \<Rightarrow> bool" where
  "timer_ok lm \<longleftrightarrow>
     (case lm_timer lm of
        None \<Rightarrow> lm_expiresAt lm = []
      | Some t \<Rightarrow> \<exists>e \<in> snd ` set (lm_expiresAt lm). e \<le> t)"

definition idle_ok :: "lease_manager \<Rightarrow> bool" where
  "idle_ok lm \<longleftrightarrow>
     (case lm_idle lm of
        None \<Rightarrow> lm_generation lm = 0 \<or> lm_expiresAt lm \<noteq> [] \<or> lm_stopping lm
      | Some (t, g) \<Rightarrow> lm_expiresAt lm = [] \<and> g = lm_generation lm)"

definition lease_inv :: "lease_manager \<Rightarrow> bool" where
  "lease_inv lm \<longleftrightarrow>
     distinct (map fst (lm_expiresAt lm)) \<and> timer_ok lm \<and> idle_ok lm \<and> (lm_stopping lm \<longrightarrow> lm_expiresAt lm = [])"

lemma foldl_min_in: "foldl min e es \<in> set (e # es)" for e :: int
  by (induction es arbitrary: e) (auto simp: min_def)

lemma scheduleExpiry_fields [simp]:
  "lm_expiresAt (scheduleExpiry now lm) = lm_expiresAt lm" "lm_idle (scheduleExpiry now lm) = lm_idle lm"
  "lm_generation (scheduleExpiry now lm) = lm_generation lm" "lm_stopping (scheduleExpiry now lm) = lm_stopping lm"
  by (simp_all add: scheduleExpiry_def)

lemma scheduleExpiry_timer: "timer_ok (scheduleExpiry now lm)"
proof (cases "map snd (lm_expiresAt lm)")
  case Nil
  then show ?thesis by (simp add: timer_ok_def scheduleExpiry_def)
next
  case (Cons e es)
  have "foldl min e es \<in> snd ` set (lm_expiresAt lm)" using foldl_min_in [of e es] Cons by (metis set_map)
  moreover have "foldl min e es \<le> now + max 0 (foldl min e es - now)" by simp
  ultimately have "\<exists>e' \<in> snd ` set (lm_expiresAt lm). e' \<le> now + max 0 (foldl min e es - now)" by (rule bexI [rotated])
  then show ?thesis by (simp add: timer_ok_def scheduleExpiry_def Cons)
qed

lemma scheduleIdle_fields [simp]:
  "lm_expiresAt (scheduleIdleIfEmpty opts now lm) = lm_expiresAt lm"
  "lm_timer (scheduleIdleIfEmpty opts now lm) = lm_timer lm"
  "lm_generation (scheduleIdleIfEmpty opts now lm) = lm_generation lm"
  "lm_stopping (scheduleIdleIfEmpty opts now lm) = lm_stopping lm"
  by (simp_all add: scheduleIdleIfEmpty_def)

lemma scheduleIdle_idle:
  assumes "lm_idle lm = None \<or> idle_ok lm"
  shows "idle_ok (scheduleIdleIfEmpty opts now lm)"
  using assms by (auto simp: idle_ok_def scheduleIdleIfEmpty_def split: option.splits)

lemma timer_ok_scheduleIdle [simp]: "timer_ok (scheduleIdleIfEmpty opts now lm) = timer_ok lm"
  by (simp add: timer_ok_def split: option.splits)

lemma expiresAt_update_ne: "AList.update k v xs \<noteq> []"
  by (cases xs) auto

lemma add_lease_inv: "lease_inv lm \<Longrightarrow> add_lease opts now i lm = Inr lm' \<Longrightarrow> lease_inv lm'"
  using scheduleExpiry_timer
  by (auto simp: lease_inv_def add_lease_def cancelIdle_def idle_ok_def distinct_update expiresAt_update_ne split: if_splits)

lemma emptied_inv:
  assumes inv: "lease_inv lm" and sub: "set es \<subseteq> set (lm_expiresAt lm)" and dist: "distinct (map fst es)"
  shows "lease_inv (scheduleIdleIfEmpty opts now (scheduleExpiry now (lm\<lparr>lm_expiresAt := es\<rparr>)))"
proof -
  have "es = []" if "lm_expiresAt lm = []" using sub that by simp
  then have "lm_idle (lm\<lparr>lm_expiresAt := es\<rparr>) = None \<or> idle_ok (scheduleExpiry now (lm\<lparr>lm_expiresAt := es\<rparr>))"
    using inv by (auto simp: lease_inv_def idle_ok_def split: option.splits)
  then have "idle_ok (scheduleIdleIfEmpty opts now (scheduleExpiry now (lm\<lparr>lm_expiresAt := es\<rparr>)))"
    by (intro scheduleIdle_idle) simp
  moreover have "lm_stopping lm \<longrightarrow> es = []" using inv sub by (auto simp: lease_inv_def)
  ultimately show ?thesis using dist scheduleExpiry_timer by (simp add: lease_inv_def)
qed

lemma lease_step_inv: "lease_inv lm \<Longrightarrow> lease_inv (lease_step opts now ev lm)"
proof (cases ev)
  case (Lease_add i)
  assume "lease_inv lm"
  with Lease_add show ?thesis by (auto split: sum.splits intro: add_lease_inv)
next
  case (Lease_renew i)
  assume "lease_inv lm"
  with Lease_renew show ?thesis by (auto simp: renew_lease_def split: sum.splits if_splits intro: add_lease_inv)
next
  case (Lease_release i)
  assume inv: "lease_inv lm"
  have "set (AList.delete i (lm_expiresAt lm)) \<subseteq> set (lm_expiresAt lm)" using set_alist_delete [of i "lm_expiresAt lm"] by auto
  moreover have "distinct (map fst (AList.delete i (lm_expiresAt lm)))" using inv by (simp add: lease_inv_def distinct_delete)
  ultimately show ?thesis using emptied_inv [OF inv] Lease_release by (simp add: release_lease_def)
next
  case Lease_expiry_timer
  assume inv: "lease_inv lm"
  have "distinct (map fst (filter (\<lambda>(_, e). \<not> e \<le> now) (lm_expiresAt lm)))"
    using inv by (simp add: lease_inv_def distinct_map_filter)
  with inv emptied_inv [OF inv, of "filter (\<lambda>(_, e). \<not> e \<le> now) (lm_expiresAt lm)"] Lease_expiry_timer show ?thesis
    by (auto simp: expire_leases_def split: option.splits)
next
  case Lease_idle_timer
  assume inv: "lease_inv lm"
  then show ?thesis
    using Lease_idle_timer
    by (auto simp: lease_inv_def idle_ok_def timer_ok_def fire_idle_def stillIdle_def Let_def split: option.splits)
next
  case Lease_wait_idle
  assume "lease_inv lm"
  with Lease_wait_idle scheduleIdle_idle show ?thesis by (simp add: lease_inv_def)
qed

lemma lease_reachable_inv: "lease_reachable opts now lm \<Longrightarrow> lease_inv lm"
proof (induction rule: lease_reachable.induct)
  case (lease_start now)
  then show ?case by (simp add: lease_inv_def empty_lease_manager_def timer_ok_def idle_ok_def)
next
  case (lease_event now lm later ev)
  then show ?case by (intro lease_step_inv)
qed

section \<open>What the manager promises\<close>

lemma has_lease_member: "has_lease now i lm \<Longrightarrow> 0 \<le> now \<Longrightarrow> lm_expiresAt lm \<noteq> []"
  by (auto simp: has_lease_def)

text \<open>A gateway never stops under a live lease, and never outlives its leases. In every reachable state: while some lease
  is held the manager is not stopping and no idle shutdown is pending; once it is stopping no lease is held and every
  further lease is refused; and a manager that had a lease and has none left, and is not stopping, has its idle
  shutdown pending.\<close>

theorem idle_shutdown_exact:
  assumes "lease_reachable opts now lm"
  shows "(lm_expiresAt lm \<noteq> [] \<longrightarrow> \<not> lm_stopping lm \<and> lm_idle lm = None \<and> lm_timer lm \<noteq> None)
     \<and> (lm_stopping lm \<longrightarrow> (\<forall>t i. 0 \<le> t \<longrightarrow> \<not> has_lease t i lm \<and> add_lease opts t i lm = Inl ''Gateway is stopping''))
     \<and> (0 < lm_generation lm \<and> lm_expiresAt lm = [] \<and> \<not> lm_stopping lm \<longrightarrow> lm_idle lm \<noteq> None)"
proof -
  have inv: "lease_inv lm" using assms by (rule lease_reachable_inv)
  have "\<not> has_lease t i lm" if "lm_stopping lm" "0 \<le> t" for t i
    using inv that has_lease_member by (auto simp: lease_inv_def)
  then show ?thesis using inv
    by (auto simp: lease_inv_def timer_ok_def idle_ok_def add_lease_def simp del: not_None_eq split: option.splits)
qed

definition demo_lease_options :: lease_options where
  "demo_lease_options = \<lparr>lo_ttlMs = 15000, lo_idleGraceMs = 2000\<rparr>"

lemma run_leases_reachable:
  "lease_reachable opts now lm \<Longrightarrow> sorted (now # map fst evs)
    \<Longrightarrow> lease_reachable opts (last (now # map fst evs)) (run_leases opts evs lm)"
proof (induction evs arbitrary: now lm)
  case (Cons x evs)
  obtain t ev where x: "x = (t, ev)" by (cases x)
  have "lease_reachable opts t (lease_step opts t ev lm)"
    using Cons.prems x by (auto intro: lease_reachable.lease_event)
  then show ?case using Cons.IH [of t "lease_step opts t ev lm"] Cons.prems(2) x by simp
qed simp

lemma demo_leases_run:
  "run_leases demo_lease_options
     [(100, Lease_add ''a''), (200, Lease_release ''a''), (300, Lease_add ''b''), (2200, Lease_idle_timer),
      (15300, Lease_expiry_timer), (17300, Lease_idle_timer)] empty_lease_manager
   = \<lparr>lm_expiresAt = [], lm_timer = None, lm_idle = None, lm_generation = 2, lm_stopping = True\<rparr>"
  by code_simp

theorem idle_shutdown_exact_witness:
  "add_lease demo_lease_options 17400 ''c''
     \<lparr>lm_expiresAt = [], lm_timer = None, lm_idle = None, lm_generation = 2, lm_stopping = True\<rparr>
   = Inl ''Gateway is stopping''"
proof -
  have "lease_reachable demo_lease_options 17300
          \<lparr>lm_expiresAt = [], lm_timer = None, lm_idle = None, lm_generation = 2, lm_stopping = True\<rparr>"
    using run_leases_reachable [OF lease_reachable.lease_start [of _ 0], of "[(100, Lease_add ''a''), (200, Lease_release ''a''),
      (300, Lease_add ''b''), (2200, Lease_idle_timer), (15300, Lease_expiry_timer), (17300, Lease_idle_timer)]"
      demo_lease_options]
    unfolding demo_leases_run by simp
  from idle_shutdown_exact [OF this] show ?thesis by simp
qed

text \<open>
  Nothing leads out of stopping: a gateway whose idle shutdown fails, because the startup lock
  is held or its file is torn, keeps running, refuses every lease and never tries again.
\<close>

lemma stopping_is_final:
  "lm_stopping lm \<Longrightarrow> lm_stopping (lease_step opts now ev lm)"
  by (cases ev) (auto simp: add_lease_def renew_lease_def release_lease_def expire_leases_def fire_idle_def Let_def
      split: sum.splits option.splits if_splits)

text \<open>
  Renewing asks only for the entry: a lease whose expiry timer is late is renewed although it
  is no longer active.
\<close>

lemma renew_revives_expired:
  "let lm = run_leases demo_lease_options [(100, Lease_add ''a'')] empty_lease_manager
   in \<not> has_lease 15200 ''a'' lm \<and> has_lease 15200 ''a'' (lease_step demo_lease_options 15200 (Lease_renew ''a'') lm)"
  by code_simp

lemma lease_survives_step:
  assumes "e \<le> get_or 0 (map_of (lm_expiresAt lm) i)" "distinct (map fst (lm_expiresAt lm))" "now < e" "ev \<noteq> Lease_release i"
    and "0 \<le> lo_ttlMs opts" "e \<le> start + lo_ttlMs opts" "start \<le> now" "0 < e"
  shows "e \<le> get_or 0 (map_of (lm_expiresAt (lease_step opts now ev lm)) i)
     \<and> distinct (map fst (lm_expiresAt (lease_step opts now ev lm)))"
proof -
  have add: "e \<le> get_or 0 (map_of (lm_expiresAt lm') i) \<and> distinct (map fst (lm_expiresAt lm'))"
    if "add_lease opts now j lm = Inr lm'" for j lm'
    using that assms by (auto simp: add_lease_def cancelIdle_def update_conv' distinct_update split: if_splits)
  show ?thesis
  proof (cases ev)
    case (Lease_add j)
    with add [of j] assms(1,2) show ?thesis by (auto split: sum.splits)
  next
    case (Lease_renew j)
    with add [of j] assms(1,2) show ?thesis by (auto simp: renew_lease_def split: sum.splits if_splits)
  next
    case (Lease_release j)
    with assms(1,2,4) show ?thesis by (simp add: release_lease_def delete_conv' distinct_delete)
  next
    case Lease_expiry_timer
    have "map_of (filter (\<lambda>(_, x). \<not> x \<le> now) (lm_expiresAt lm)) i = map_of (lm_expiresAt lm) i"
    proof -
      obtain x where x: "map_of (lm_expiresAt lm) i = Some x" "e \<le> x" using assms(1,8) by (cases "map_of (lm_expiresAt lm) i") auto
      then have "(i, x) \<in> set (filter (\<lambda>(_, x). \<not> x \<le> now) (lm_expiresAt lm))" using assms(3) by (auto dest: map_of_SomeD)
      moreover have "distinct (map fst (filter (\<lambda>(_, x). \<not> x \<le> now) (lm_expiresAt lm)))"
        using assms(2) by (simp add: distinct_map_filter)
      ultimately show ?thesis using x(1) by (simp add: map_of_is_SomeI)
    qed
    with Lease_expiry_timer assms(1,2) show ?thesis
      by (auto simp: expire_leases_def distinct_map_filter split: option.splits)
  next
    case Lease_idle_timer
    with assms(1,2) show ?thesis by (auto simp: fire_idle_def Let_def split: option.splits)
  next
    case Lease_wait_idle
    with assms(1,2) show ?thesis by simp
  qed
qed

text \<open>A lease is live for its whole time to live. After a lease is granted at a time, whatever happens then at times within
  the time to live of the grant (other leases, renewals, late or early timers, shutdown attempts), short of releasing
  this very lease, it is still active.\<close>

theorem lease_lives_for_ttl:
  assumes "lease_reachable opts before lm" and "add_lease opts now i lm = Inr lm'"
    and "\<forall>(t, ev) \<in> set evs. now \<le> t \<and> t < now + lo_ttlMs opts \<and> ev \<noteq> Lease_release i"
    and "0 \<le> now" and "t < now + lo_ttlMs opts" and "0 \<le> t"
  shows "has_lease t i (run_leases opts evs lm')"
proof -
  let ?e = "now + lo_ttlMs opts"
  have e: "0 < ?e" using assms(5,6) by simp
  have ttl: "0 \<le> lo_ttlMs opts" if "evs \<noteq> []" using assms(3) that by (cases evs) auto
  have dist: "distinct (map fst (lm_expiresAt lm))" using lease_reachable_inv [OF assms(1)] by (simp add: lease_inv_def)
  have "?e \<le> get_or 0 (map_of (lm_expiresAt lm') i) \<and> distinct (map fst (lm_expiresAt lm'))"
    using assms(2) dist by (auto simp: add_lease_def cancelIdle_def update_conv' distinct_update split: if_splits)
  then have "?e \<le> get_or 0 (map_of (lm_expiresAt (run_leases opts evs lm')) i)"
    using assms(3) ttl
  proof (induction evs arbitrary: lm')
    case (Cons x evs)
    obtain t ev where x: "x = (t, ev)" by (cases x)
    have at: "now \<le> t" "t < ?e" "ev \<noteq> Lease_release i" using Cons.prems(2) x by auto
    have "?e \<le> get_or 0 (map_of (lm_expiresAt (lease_step opts t ev lm')) i) \<and> distinct (map fst (lm_expiresAt (lease_step opts t ev lm')))"
      using Cons.prems(1,3) at e by (intro lease_survives_step [where start = now]) auto
    then show ?case using Cons.IH [of "lease_step opts t ev lm'"] Cons.prems(2,3) x by simp
  qed simp
  then show ?thesis using assms(5) by (simp add: has_lease_def)
qed

theorem lease_lives_for_ttl_witness:
  "has_lease 15099 ''a''
     (run_leases demo_lease_options
        [(200, Lease_add ''b''), (300, Lease_release ''b''), (2200, Lease_idle_timer), (15000, Lease_expiry_timer)]
        \<lparr>lm_expiresAt = [(''a'', 15100)], lm_timer = Some 15100, lm_idle = None, lm_generation = 1, lm_stopping = False\<rparr>)"
  by (rule lease_lives_for_ttl [OF lease_reachable.lease_start [of demo_lease_options 0], where now = 100])
     (auto simp: add_lease_def empty_lease_manager_def demo_lease_options_def scheduleExpiry_def cancelIdle_def)

end
