(* ===== verification/Runtime_Lock.thy ===== *)
theory Runtime_Lock
  imports Prelude
begin

text \<open>
  The lock files of a runtime directory: \<open>#acquireLock\<close>, \<open>readLockIfPresent\<close>,
  \<open>unlinkIfUnchanged\<close> and \<open>RuntimeLock.release\<close> of \<^verbatim>\<open>src/runtime/runtime-store.ts\<close>, as they
  run in several processes at once.

  Every file operation is one step of one process, and the processes are interleaved in any
  order. A process acquires once, so its number stands for its lock id and for the inode it
  creates. The text at the path is the record of a process, JSON that is no lock record, or text
  that is no JSON, such as the empty file between its creation and the first write. Two texts have
  the same hash exactly when they are equal. \<open>attest p c\<close> is the stale-lock attestation process
  \<open>p\<close> was given, on what it decoded; a lock taken without one has the constant \<open>False\<close>.
\<close>

section \<open>Steps\<close>

datatype lock_text = Lock_of nat | Other_json | Not_json

datatype lock_pc =
    Opening nat
  | Writing
  | Held
  | Reading nat
  | Attesting nat "lock_text option"
  | Rereading nat lock_text
  | Unlinking nat
  | Refused
  | Threw_syntax
  | Threw_missing
  | Release_reading
  | Release_unlinking
  | Released

record lock_world =
  lw_file :: "(nat \<times> lock_text) option"
  lw_pc :: "nat \<Rightarrow> lock_pc"

fun decoded_lock :: "lock_text option \<Rightarrow> nat option" where
  "decoded_lock (Some (Lock_of q)) = Some q"
| "decoded_lock _ = None"

text \<open>The next attempt of the three, or the error after the last.\<close>

definition next_attempt :: "nat \<Rightarrow> lock_pc" where
  "next_attempt k = (if Suc k < 3 then Opening (Suc k) else Refused)"

definition write_own :: "nat \<Rightarrow> (nat \<times> lock_text) option \<Rightarrow> (nat \<times> lock_text) option" where
  "write_own p f = (case f of Some (i, t) \<Rightarrow> if i = p then Some (p, Lock_of p) else f | None \<Rightarrow> None)"

fun lock_step :: "(nat \<Rightarrow> nat option \<Rightarrow> bool) \<Rightarrow> nat \<Rightarrow> (nat \<times> lock_text) option \<Rightarrow> lock_pc \<Rightarrow> (nat \<times> lock_text) option \<times> lock_pc" where
  "lock_step attest p f (Opening k) =
     (case f of None \<Rightarrow> (Some (p, Not_json), Writing) | Some _ \<Rightarrow> (f, Reading k))"
| "lock_step attest p f Writing = (write_own p f, if f = None then Threw_missing else Held)"
| "lock_step attest p f (Reading k) = (f, Attesting k (map_option snd f))"
| "lock_step attest p f (Attesting k t) =
     (f, if \<not> attest p (decoded_lock t) then Refused
         else case t of None \<Rightarrow> next_attempt k | Some u \<Rightarrow> Rereading k u)"
| "lock_step attest p f (Rereading k t) =
     (f, case f of
           None \<Rightarrow> next_attempt k
         | Some (_, u) \<Rightarrow> if u = Not_json then Threw_syntax else if u \<noteq> t then next_attempt k else Unlinking k)"
| "lock_step attest p f (Unlinking k) = (None, next_attempt k)"
| "lock_step attest p f Held = (f, Release_reading)"
| "lock_step attest p f Release_reading =
     (f, case f of
           Some (_, Lock_of q) \<Rightarrow> if q = p then Release_unlinking else Released
         | None \<Rightarrow> Released
         | Some _ \<Rightarrow> Threw_syntax)"
| "lock_step attest p f Release_unlinking = (None, Released)"
| "lock_step attest p f pc = (f, pc)"

definition step_process :: "(nat \<Rightarrow> nat option \<Rightarrow> bool) \<Rightarrow> nat \<Rightarrow> lock_world \<Rightarrow> lock_world" where
  "step_process attest p w =
     (let (f, pc) = lock_step attest p (lw_file w) (lw_pc w p)
      in \<lparr>lw_file = f, lw_pc = (lw_pc w)(p := pc)\<rparr>)"

definition lock_start :: "(nat \<times> lock_text) option \<Rightarrow> lock_world" where
  "lock_start f = \<lparr>lw_file = f, lw_pc = (\<lambda>_. Opening 0)\<rparr>"

definition run_locks :: "(nat \<Rightarrow> nat option \<Rightarrow> bool) \<Rightarrow> nat list \<Rightarrow> lock_world \<Rightarrow> lock_world" where
  "run_locks attest schedule w = foldl (\<lambda>w p. step_process attest p w) w schedule"

inductive lock_reachable :: "(nat \<Rightarrow> nat option \<Rightarrow> bool) \<Rightarrow> lock_world \<Rightarrow> bool" for attest where
  lock_init: "lock_reachable attest (lock_start f)"
| lock_move: "lock_reachable attest w \<Longrightarrow> lock_reachable attest (step_process attest p w)"

text \<open>Between creating the file and unlinking it a process owns the lock.\<close>

definition owns_lock :: "lock_pc \<Rightarrow> bool" where
  "owns_lock pc \<longleftrightarrow> pc \<in> {Writing, Held, Release_reading, Release_unlinking}"

section \<open>Mutual exclusion without stale-lock recovery\<close>

definition lock_inv :: "lock_world \<Rightarrow> bool" where
  "lock_inv w \<longleftrightarrow>
     (\<forall>p. owns_lock (lw_pc w p) \<longrightarrow>
        (case lw_file w of
           Some (i, t) \<Rightarrow> i = p \<and> (lw_pc w p \<noteq> Writing \<longrightarrow> t = Lock_of p)
         | None \<Rightarrow> False))
     \<and> (\<forall>p. (\<forall>k t. lw_pc w p \<noteq> Rereading k t) \<and> (\<forall>k. lw_pc w p \<noteq> Unlinking k))"

lemma lock_inv_keep:
  assumes "lock_inv w" and "lock_step attest p (lw_file w) (lw_pc w p) = (lw_file w, pc)"
    and "owns_lock pc \<Longrightarrow> owns_lock (lw_pc w p) \<and> (lw_pc w p = Writing \<longrightarrow> pc = Writing)"
    and "\<And>k t. pc \<noteq> Rereading k t" "\<And>k. pc \<noteq> Unlinking k"
  shows "lock_inv (step_process attest p w)"
  using assms unfolding lock_inv_def by (auto simp: step_process_def split: option.splits)

lemma lock_step_inv:
  assumes inv: "lock_inv w"
  shows "lock_inv (step_process (\<lambda>_ _. False) p w)"
proof -
  have own: "i = q \<and> (lw_pc w q \<noteq> Writing \<longrightarrow> t = Lock_of q)"
    if "owns_lock (lw_pc w q)" "lw_file w = Some (i, t)" for q i t
    using inv that unfolding lock_inv_def by fastforce
  have there: "lw_file w \<noteq> None" if "owns_lock (lw_pc w q)" for q
    using inv that by (cases "lw_file w") (auto simp: lock_inv_def)
  have steal: "lw_pc w q \<noteq> Rereading k t" "lw_pc w q \<noteq> Unlinking k" for q k t
    using inv unfolding lock_inv_def by blast+
  show ?thesis
  proof (cases "lw_pc w p")
    case (Opening k)
    show ?thesis
    proof (cases "lw_file w")
      case None
      then have "\<not> owns_lock (lw_pc w q)" for q using there by blast
      then show ?thesis using None Opening steal
        by (auto simp: lock_inv_def step_process_def owns_lock_def)
    next
      case (Some x)
      with Opening own there steal show ?thesis
        by (auto simp: lock_inv_def step_process_def owns_lock_def split: option.splits)
    qed
  next
    case Writing
    then have "owns_lock (lw_pc w p)" by (simp add: owns_lock_def)
    with there obtain i t where at_path: "lw_file w = Some (i, t)" by fastforce
    with own [OF \<open>owns_lock (lw_pc w p)\<close> at_path] have "i = p" by blast
    then have others: "\<not> owns_lock (lw_pc w q)" if "q \<noteq> p" for q using own [of q i t] at_path that by blast
    show ?thesis using Writing at_path \<open>i = p\<close> others steal
      by (auto simp: lock_inv_def step_process_def write_own_def owns_lock_def)
  next
    case Held
    show ?thesis by (rule lock_inv_keep [OF inv, where pc = Release_reading]) (simp_all add: Held owns_lock_def)
  next
    case (Reading k)
    show ?thesis
    proof (rule lock_inv_keep [OF inv, where pc = "snd (lock_step (\<lambda>_ _. False) p (lw_file w) (Reading k))"])
    qed (auto simp: Reading owns_lock_def next_attempt_def split: option.splits)
  next
    case (Attesting k t)
    show ?thesis
    proof (rule lock_inv_keep [OF inv, where pc = "snd (lock_step (\<lambda>_ _. False) p (lw_file w) (Attesting k t))"])
    qed (auto simp: Attesting owns_lock_def next_attempt_def split: option.splits)
  next
    case Release_reading
    then have "owns_lock (lw_pc w p)" by (simp add: owns_lock_def)
    with there obtain i t where at_path: "lw_file w = Some (i, t)" by fastforce
    with own [OF \<open>owns_lock (lw_pc w p)\<close> at_path] Release_reading show ?thesis
      by (intro lock_inv_keep [OF inv, where pc = Release_unlinking]) (simp_all add: owns_lock_def)
  next
    case Release_unlinking
    then have "owns_lock (lw_pc w p)" by (simp add: owns_lock_def)
    with there obtain i t where at_path: "lw_file w = Some (i, t)" by fastforce
    with own [OF \<open>owns_lock (lw_pc w p)\<close> at_path] have "i = p" by blast
    then have others: "\<not> owns_lock (lw_pc w q)" if "q \<noteq> p" for q using own [of q i t] at_path that by blast
    show ?thesis using Release_unlinking others steal
      by (auto simp: lock_inv_def step_process_def owns_lock_def)
  qed (use steal in \<open>auto intro!: lock_inv_keep [OF inv] simp: owns_lock_def\<close>)
qed

lemma lock_reachable_inv: "lock_reachable attest w \<Longrightarrow> attest = (\<lambda>_ _. False) \<Longrightarrow> lock_inv w"
proof (induction rule: lock_reachable.induct)
  case (lock_init f)
  then show ?case by (simp add: lock_inv_def lock_start_def owns_lock_def)
next
  case (lock_move w p)
  then show ?case by (simp add: lock_step_inv)
qed

text \<open>A lock taken without stale-lock recovery is exclusive. The lease lock and the lock of a shutdown never treat a lock as
  stale. Then, in every interleaving of any number of processes, from any file that was there before, at most one of
  them is between creating the lock file and removing it, and while one is, the file at the path is its own.\<close>

theorem unattested_lock_is_exclusive:
  assumes "lock_reachable (\<lambda>_ _. False) w" and "owns_lock (lw_pc w p)"
  shows "(\<forall>q. owns_lock (lw_pc w q) \<longrightarrow> q = p) \<and> map_option fst (lw_file w) = Some p
     \<and> (lw_pc w p \<noteq> Writing \<longrightarrow> lw_file w = Some (p, Lock_of p))"
proof -
  have inv: "lock_inv w" using lock_reachable_inv [OF assms(1)] by simp
  with assms(2) obtain i t where at_path: "lw_file w = Some (i, t)" and own: "i = p" "lw_pc w p \<noteq> Writing \<longrightarrow> t = Lock_of p"
    by (cases "lw_file w") (auto simp: lock_inv_def)
  moreover have "q = p" if "owns_lock (lw_pc w q)" for q using inv that at_path own(1) by (auto simp: lock_inv_def)
  ultimately show ?thesis by simp
qed

definition alone :: "nat \<Rightarrow> nat \<Rightarrow> nat list" where
  "alone n p = replicate n p"

lemma demo_lock_held: "lw_pc (run_locks (\<lambda>_ _. False) [0, 1, 1, 0, 1] (lock_start None)) 0 = Held"
  by code_simp

lemma run_locks_reachable: "lock_reachable attest w \<Longrightarrow> lock_reachable attest (run_locks attest schedule w)"
proof (induction schedule arbitrary: w)
  case (Cons p ps)
  then show ?case using lock_move [of attest w p] by (simp add: run_locks_def)
qed (simp add: run_locks_def)

theorem unattested_lock_is_exclusive_witness:
  "lw_file (run_locks (\<lambda>_ _. False) [0, 1, 1, 0, 1] (lock_start None)) = Some (0, Lock_of 0)"
proof -
  let ?w = "run_locks (\<lambda>_ _. False) [0, 1, 1, 0, 1] (lock_start None)"
  have "lock_reachable (\<lambda>_ _. False) ?w" by (intro run_locks_reachable lock_init)
  moreover have "owns_lock (lw_pc ?w 0)" unfolding demo_lock_held by (simp add: owns_lock_def)
  ultimately show ?thesis using unattested_lock_is_exclusive [of ?w 0] demo_lock_held by simp
qed

section \<open>Recovery of a stale lock\<close>

text \<open>
  One process alone gets a free lock, replaces the lock of a dead process and is refused the
  lock of a live one; it is done after at most ten steps.
\<close>

definition dead_owner :: "(nat \<Rightarrow> bool) \<Rightarrow> nat \<Rightarrow> nat option \<Rightarrow> bool" where
  "dead_owner dead p owner = (case owner of None \<Rightarrow> True | Some q \<Rightarrow> dead q)"

lemma step_process_own:
  "step_process attest p \<lparr>lw_file = f, lw_pc = pcs\<rparr> =
     \<lparr>lw_file = fst (lock_step attest p f (pcs p)), lw_pc = pcs(p := snd (lock_step attest p f (pcs p)))\<rparr>"
  by (simp add: step_process_def split: prod.splits)

lemma run_alone_Suc: "run_locks attest (alone (Suc n) p) w = run_locks attest (alone n p) (step_process attest p w)"
  by (simp add: run_locks_def alone_def)

lemma run_alone_0: "run_locks attest (alone 0 p) w = w"
  by (simp add: run_locks_def alone_def)

lemmas run_alone_simps = run_alone_Suc run_alone_0 step_process_own lock_start_def next_attempt_def write_own_def dead_owner_def
  eval_nat_numeral

text \<open>A launcher alone gets every lock that no live process holds. With the launchers' attestation, a process that runs
  alone holds the lock after two steps if no file is there, and after seven if the file is the lock of a dead process
  or JSON that is no lock; the lock of a live process is refused and left as it is.\<close>

theorem lone_launcher_recovers:
  "run_locks (dead_owner dead) (alone 2 p) (lock_start None)
     = \<lparr>lw_file = Some (p, Lock_of p), lw_pc = (\<lambda>_. Opening 0)(p := Held)\<rparr>
   \<and> run_locks (dead_owner dead) (alone 7 p) (lock_start (Some (i, Other_json)))
     = \<lparr>lw_file = Some (p, Lock_of p), lw_pc = (\<lambda>_. Opening 0)(p := Held)\<rparr>
   \<and> run_locks (dead_owner dead) (alone (if dead q then 7 else 3) p) (lock_start (Some (i, Lock_of q)))
     = (if dead q then \<lparr>lw_file = Some (p, Lock_of p), lw_pc = (\<lambda>_. Opening 0)(p := Held)\<rparr>
        else \<lparr>lw_file = Some (i, Lock_of q), lw_pc = (\<lambda>_. Opening 0)(p := Refused)\<rparr>)"
  by (intro conjI) (simp_all add: run_alone_simps)

text \<open>
  A lock file that is no JSON, as a process leaves it that dies between creating and writing
  it, is judged stale by the attestation, and then the second reading throws: no launcher gets
  past it. The same reading fails a launcher that meets another one in that moment.
\<close>

lemma torn_lock_blocks:
  "run_locks (dead_owner dead) (alone 4 p) (lock_start (Some (i, Not_json)))
     = \<lparr>lw_file = Some (i, Not_json), lw_pc = (\<lambda>_. Opening 0)(p := Threw_syntax)\<rparr>"
  by (simp add: run_alone_simps)

text \<open>
  Two launchers that recover the same stale lock can both end up holding it: the second one
  removes the file the first has created, which it had checked before.
\<close>

lemma stale_lock_granted_twice:
  "let w = run_locks (dead_owner (\<lambda>q. q = 9)) (alone 4 0 @ alone 4 1 @ alone 3 0 @ alone 3 1) (lock_start (Some (9, Lock_of 9)))
   in lw_pc w 0 = Held \<and> lw_pc w 1 = Held \<and> lw_file w = Some (1, Lock_of 1)"
  by code_simp

end
