(* ===== verification/Update_State.thy ===== *)
theory Update_State
  imports Reasoning_Translation
begin

text \<open>
  The durable state of a self-update: \<^verbatim>\<open>src/runtime/update/types.ts\<close>, \<^verbatim>\<open>policy.ts\<close> and the
  recovery and the guarded transition of \<^verbatim>\<open>store.ts\<close>.

  A time is its text. The state file is absent, unreadable (no JSON, or refused by the schema) or
  a record; a record is written only when the schema accepts it. The schema's checks of times are
  left out: every time in a record comes from \<open>toISOString\<close>.
\<close>

section \<open>Records\<close>

datatype update_state =
    Up_idle | Up_installing | Up_pending_activation | Up_activating | Up_active | Up_rollback_required
  | Up_recovery_required | Up_failed

fun update_state_text :: "update_state \<Rightarrow> string" where
  "update_state_text Up_idle = ''idle''"
| "update_state_text Up_installing = ''installing''"
| "update_state_text Up_pending_activation = ''pending-activation''"
| "update_state_text Up_activating = ''activating''"
| "update_state_text Up_active = ''active''"
| "update_state_text Up_rollback_required = ''rollback-required''"
| "update_state_text Up_recovery_required = ''recovery-required''"
| "update_state_text Up_failed = ''failed''"

datatype migration_class = Mig_none | Mig_backward_compatible_expand | Mig_transactional_replace | Mig_forward_only

datatype transaction_phase =
    Ph_staged | Ph_draining | Ph_switching | Ph_probation | Ph_committing | Ph_committed | Ph_rolling_back
  | Ph_recovery_required

fun phase_text :: "transaction_phase \<Rightarrow> string" where
  "phase_text Ph_staged = ''staged''"
| "phase_text Ph_draining = ''draining''"
| "phase_text Ph_switching = ''switching''"
| "phase_text Ph_probation = ''probation''"
| "phase_text Ph_committing = ''committing''"
| "phase_text Ph_committed = ''committed''"
| "phase_text Ph_rolling_back = ''rolling-back''"
| "phase_text Ph_recovery_required = ''recovery-required''"

record activation_result =
  ar_ok :: bool
  ar_attemptedAt :: string
  ar_reason :: "string option"

record update_transaction =
  tx_phase :: transaction_phase
  tx_startedAt :: string
  tx_updatedAt :: string
  tx_candidateVersion :: string
  tx_candidateArtifactId :: string
  tx_previousVersion :: "string option"
  tx_previousArtifactId :: "string option"
  tx_rollbackAttempts :: nat
  tx_lastRollbackOutcome :: "activation_result option"
  tx_recoveryReason :: "string option"

record update_state_record =
  us_state :: update_state
  us_currentVersion :: string
  us_pendingVersion :: "string option"
  us_previousVersion :: "string option"
  us_currentArtifactId :: "string option"
  us_pendingArtifactId :: "string option"
  us_previousArtifactId :: "string option"
  us_updatedAt :: string
  us_lastActivationResult :: "activation_result option"
  us_lastRollbackResult :: "activation_result option"
  us_failureReason :: "string option"
  us_transaction :: "update_transaction option"

record candidate_manifest =
  cdm_version :: string
  cdm_stateVersion :: int
  cdm_migrationClass :: "migration_class option"
  cdm_migrationForwardOnly :: "bool option"

definition artifactIdSchema :: "string \<Rightarrow> bool" where
  "artifactIdSchema s \<longleftrightarrow> length s = 64 \<and> list_all (\<lambda>c. c \<in> set ''0123456789abcdef'') s"

definition text_or_absent :: "string option \<Rightarrow> bool" where
  "text_or_absent t = (case t of None \<Rightarrow> True | Some s \<Rightarrow> s \<noteq> [])"

definition artifact_or_absent :: "string option \<Rightarrow> bool" where
  "artifact_or_absent t = (case t of None \<Rightarrow> True | Some s \<Rightarrow> artifactIdSchema s)"

definition updateTransactionSchema :: "update_transaction \<Rightarrow> bool" where
  "updateTransactionSchema tx \<longleftrightarrow>
     tx_candidateVersion tx \<noteq> [] \<and> artifactIdSchema (tx_candidateArtifactId tx)
     \<and> text_or_absent (tx_previousVersion tx) \<and> artifact_or_absent (tx_previousArtifactId tx)"

definition updateStateRecordSchema :: "update_state_record \<Rightarrow> bool" where
  "updateStateRecordSchema r \<longleftrightarrow>
     us_currentVersion r \<noteq> [] \<and> text_or_absent (us_pendingVersion r) \<and> text_or_absent (us_previousVersion r)
     \<and> artifact_or_absent (us_currentArtifactId r) \<and> artifact_or_absent (us_pendingArtifactId r)
     \<and> artifact_or_absent (us_previousArtifactId r)
     \<and> (case us_transaction r of None \<Rightarrow> True | Some tx \<Rightarrow> updateTransactionSchema tx)"

section \<open>Policy\<close>

definition RUNTIME_PROTOCOL_VERSION :: int where "RUNTIME_PROTOCOL_VERSION = 1"

definition migrationClassOf :: "candidate_manifest option \<Rightarrow> migration_class" where
  "migrationClassOf manifest =
     (case Option.bind manifest cdm_migrationClass of
        Some c \<Rightarrow> c
      | None \<Rightarrow>
          if Option.bind manifest cdm_migrationForwardOnly = Some True then Mig_forward_only
          else Mig_backward_compatible_expand)"

definition migrationPreflight :: "update_state_record \<Rightarrow> migration_class \<Rightarrow> string option" where
  "migrationPreflight r c =
     (if c \<noteq> Mig_forward_only then None
      else Some (''candidate migration is forward-only and rollback-unsafe (candidate ''
                 @ get_or ''unknown'' (us_pendingVersion r)
                 @ '' -> state would not be restorable) update refused before activating; the previous version remains serving''))"

definition is_digit_char :: "char \<Rightarrow> bool" where
  "is_digit_char c \<longleftrightarrow> 48 \<le> (of_char c :: nat) \<and> (of_char c :: nat) \<le> 57"

definition majorVersion :: "string \<Rightarrow> int" where
  "majorVersion version =
     (case takeWhile is_digit_char (js_trim version) of
        [] \<Rightarrow> - 1
      | ds \<Rightarrow> foldl (\<lambda>n c. 10 * n + (of_char c - 48)) 0 ds)"

definition runtimeProtocolCompatible :: "string \<Rightarrow> string \<Rightarrow> bool" where
  "runtimeProtocolCompatible cli runtime \<longleftrightarrow> majorVersion cli = majorVersion runtime"

definition stateVersionsCompatible :: "int \<Rightarrow> int option \<Rightarrow> bool" where
  "stateVersionsCompatible cli runtime \<longleftrightarrow> runtime = None \<or> runtime = Some cli"

datatype launch_refusal = Update_pending | Runtime_version_mismatch

text \<open>\<open>None\<close> is an allowed launch.\<close>

definition launchPolicy_decision :: "update_state_record option \<Rightarrow> string \<Rightarrow> string \<Rightarrow> launch_refusal option" where
  "launchPolicy_decision update cli runtime =
     (case update of
        None \<Rightarrow> None
      | Some r \<Rightarrow>
          if us_state r \<noteq> Up_pending_activation \<and> us_state r \<noteq> Up_activating then None
          else if runtimeProtocolCompatible cli runtime then None
          else Some (if majorVersion cli = - 1 then Runtime_version_mismatch else Update_pending))"

section \<open>Recovery\<close>

definition recoverTransaction :: "update_state_record \<Rightarrow> update_state_record" where
  "recoverTransaction r =
     (case us_transaction r of
        None \<Rightarrow> r
      | Some tx \<Rightarrow>
          (case tx_phase tx of
             Ph_committed \<Rightarrow>
               r\<lparr>us_state := Up_active, us_currentVersion := tx_candidateVersion tx, us_pendingVersion := None,
                 us_currentArtifactId := Some (tx_candidateArtifactId tx), us_pendingArtifactId := None,
                 us_previousArtifactId := tx_previousArtifactId tx,
                 us_lastActivationResult := Some \<lparr>ar_ok = True, ar_attemptedAt = tx_updatedAt tx, ar_reason = None\<rparr>,
                 us_failureReason := None\<rparr>
           | Ph_staged \<Rightarrow> r\<lparr>us_state := Up_pending_activation, us_failureReason := None\<rparr>
           | Ph_draining \<Rightarrow> r\<lparr>us_state := Up_pending_activation, us_failureReason := None\<rparr>
           | Ph_rolling_back \<Rightarrow>
               if 1 \<le> tx_rollbackAttempts tx
               then r\<lparr>us_state := Up_recovery_required,
                      us_failureReason := Some ''rollback was interrupted after the bounded attempt; run rly doctor''\<rparr>
               else r\<lparr>us_state := Up_rollback_required,
                      us_failureReason := Some ''rollback was interrupted; one bounded rollback attempt will resume''\<rparr>
           | Ph_recovery_required \<Rightarrow> r\<lparr>us_state := Up_recovery_required\<rparr>
           | phase \<Rightarrow>
               r\<lparr>us_state := Up_rollback_required,
                 us_failureReason := Some (''activation transaction was interrupted during '' @ phase_text phase
                   @ ''; rollback to the previous known-good version is required'')\<rparr>))"

definition recoverUpdateState :: "update_state_record \<Rightarrow> update_state_record" where
  "recoverUpdateState r =
     (if us_transaction r \<noteq> None then recoverTransaction r
      else case us_state r of
             Up_installing \<Rightarrow>
               r\<lparr>us_state := Up_failed,
                 us_failureReason := Some ''update installation was interrupted; re-run rly update to retry''\<rparr>
           | Up_pending_activation \<Rightarrow>
               if us_pendingVersion r = None
               then r\<lparr>us_state := Up_failed,
                      us_failureReason := Some ''pending activation lost its candidate reference; re-run rly update''\<rparr>
               else r
           | Up_activating \<Rightarrow>
               if us_previousVersion r = None
               then r\<lparr>us_state := Up_failed,
                      us_failureReason := Some ''activation interrupted without a rollback reference; run rly doctor''\<rparr>
               else r\<lparr>us_state := Up_rollback_required,
                      us_failureReason := Some ''activation was interrupted; rollback to the previous version is required''\<rparr>
           | _ \<Rightarrow> r)"

section \<open>The state file\<close>

datatype update_file = No_file | Malformed_file | Stored update_state_record

fun read_update :: "update_file \<Rightarrow> string + update_state_record option" where
  "read_update No_file = Inr None"
| "read_update Malformed_file = Inl ''malformed update state''"
| "read_update (Stored r) = Inr (Some r)"

definition write_update :: "update_state_record \<Rightarrow> string + update_file" where
  "write_update r = (if updateStateRecordSchema r then Inr (Stored r) else Inl ''schema'')"

text \<open>\<open>None\<close> among the expected states is the missing file.\<close>

definition transitionUnderLock ::
  "update_state option list \<Rightarrow> (update_state_record option \<Rightarrow> update_state_record) \<Rightarrow> update_file
     \<Rightarrow> string + update_state_record" where
  "transitionUnderLock expected update f =
     bind_ok (read_update f) (\<lambda>current.
       let observed = map_option us_state current
       in if expected \<noteq> [] \<and> observed \<notin> set expected
          then Inl (''update state transition blocked: found ''
                    @ (case observed of None \<Rightarrow> ''none'' | Some s \<Rightarrow> update_state_text s))
          else let next = update current in bind_ok (write_update next) (\<lambda>_. Inr next))"

section \<open>Facts\<close>

lemma transitionUnderLock_Inr [outcome_simps]:
  "transitionUnderLock expected update f = Inr next \<longleftrightarrow>
     (\<exists>current. read_update f = Inr current \<and> (expected = [] \<or> map_option us_state current \<in> set expected)
        \<and> next = update current \<and> updateStateRecordSchema next)"
  by (auto simp: transitionUnderLock_def write_update_def bind_ok_Inr_iff Let_def split: if_splits)

lemma recoverTransaction_transaction [simp]: "us_transaction (recoverTransaction r) = us_transaction r"
  by (cases "us_transaction r"; cases "tx_phase (the (us_transaction r))") (simp_all add: recoverTransaction_def)

lemma recovered_transaction [simp]: "us_transaction (recoverUpdateState r) = us_transaction r"
  by (cases "us_transaction r"; cases "us_state r") (simp_all add: recoverUpdateState_def)

lemma recoverTransaction_schema:
  "us_transaction r = Some tx \<Longrightarrow> updateStateRecordSchema r \<Longrightarrow> updateStateRecordSchema (recoverTransaction r)"
  by (cases "tx_phase tx")
     (simp_all add: recoverTransaction_def updateStateRecordSchema_def updateTransactionSchema_def text_or_absent_def
       artifact_or_absent_def)

lemma recovered_schema: "updateStateRecordSchema r \<Longrightarrow> updateStateRecordSchema (recoverUpdateState r)"
proof (cases "us_transaction r")
  case None
  assume "updateStateRecordSchema r"
  with None show ?thesis
    by (cases "us_state r") (simp_all add: recoverUpdateState_def updateStateRecordSchema_def text_or_absent_def)
next
  case (Some tx)
  assume "updateStateRecordSchema r"
  with Some show ?thesis using recoverTransaction_schema by (simp add: recoverUpdateState_def)
qed

lemma recover_with_journal:
  assumes "us_transaction r = Some tx"
  shows "recoverUpdateState r = recoverTransaction r"
  using assms by (simp add: recoverUpdateState_def)

lemma recoverTransaction_idem: "us_transaction r = Some tx \<Longrightarrow> recoverTransaction (recoverTransaction r) = recoverTransaction r"
  by (cases "tx_phase tx") (simp_all add: recoverTransaction_def)

lemma recover_idem: "recoverUpdateState (recoverUpdateState r) = recoverUpdateState r"
proof (cases "us_transaction r")
  case None
  then show ?thesis by (cases "us_state r") (simp_all add: recoverUpdateState_def)
next
  case (Some tx)
  then have "us_transaction (recoverTransaction r) = Some tx" using recovered_transaction [of r] by (simp add: recover_with_journal)
  with Some show ?thesis by (simp add: recover_with_journal recoverTransaction_idem)
qed

lemma recover_state:
  assumes "us_transaction r = Some tx"
  shows "us_state (recoverUpdateState r) =
      (if tx_phase tx \<in> {Ph_staged, Ph_draining} then Up_pending_activation
       else if tx_phase tx \<in> {Ph_switching, Ph_probation, Ph_committing} then Up_rollback_required
       else if tx_phase tx = Ph_rolling_back \<and> tx_rollbackAttempts tx = 0 then Up_rollback_required
       else if tx_phase tx = Ph_committed then Up_active else Up_recovery_required)"
    and "us_currentVersion (recoverUpdateState r) =
      (if tx_phase tx = Ph_committed then tx_candidateVersion tx else us_currentVersion r)"
  using assms by (cases "tx_phase tx"; simp add: recover_with_journal recoverTransaction_def)+

text \<open>Recovery decides once, by the journal. The recovered state of a record with a transaction depends on the phase and the
  number of rollback attempts alone, whatever state the record claims: before the switch the activation resumes; from
  the switch to the commit it must be rolled back; a rollback that was interrupted is final after its one attempt; only
  the committed phase makes the candidate current. And recovering a recovered record changes nothing.\<close>

theorem recovery_follows_journal:
  "recoverUpdateState (recoverUpdateState r) = recoverUpdateState r
   \<and> (\<forall>tx. us_transaction r = Some tx \<longrightarrow>
        us_state (recoverUpdateState r) =
          (if tx_phase tx \<in> {Ph_staged, Ph_draining} then Up_pending_activation
           else if tx_phase tx \<in> {Ph_switching, Ph_probation, Ph_committing} then Up_rollback_required
           else if tx_phase tx = Ph_rolling_back \<and> tx_rollbackAttempts tx = 0 then Up_rollback_required
           else if tx_phase tx = Ph_committed then Up_active else Up_recovery_required)
        \<and> us_currentVersion (recoverUpdateState r) =
            (if tx_phase tx = Ph_committed then tx_candidateVersion tx else us_currentVersion r))"
  using recover_idem recover_state by blast

definition demo_artifact :: "char \<Rightarrow> string" where
  "demo_artifact c = replicate 64 c"

definition demo_transaction :: update_transaction where
  "demo_transaction =
     \<lparr>tx_phase = Ph_probation, tx_startedAt = ''t'', tx_updatedAt = ''t'', tx_candidateVersion = ''2.0.0'',
      tx_candidateArtifactId = demo_artifact (CHR ''b''), tx_previousVersion = Some ''1.0.0'',
      tx_previousArtifactId = Some (demo_artifact (CHR ''a'')), tx_rollbackAttempts = 0, tx_lastRollbackOutcome = None,
      tx_recoveryReason = None\<rparr>"

definition demo_update_record :: update_state_record where
  "demo_update_record =
     \<lparr>us_state = Up_activating, us_currentVersion = ''1.0.0'', us_pendingVersion = Some ''2.0.0'', us_previousVersion = None,
      us_currentArtifactId = None, us_pendingArtifactId = Some (demo_artifact (CHR ''b'')), us_previousArtifactId = None,
      us_updatedAt = ''t'', us_lastActivationResult = None, us_lastRollbackResult = None, us_failureReason = None,
      us_transaction = Some demo_transaction\<rparr>"

theorem recovery_follows_journal_witness:
  "us_state (recoverUpdateState demo_update_record) = Up_rollback_required"
  using recovery_follows_journal [of demo_update_record]
  by (simp add: demo_update_record_def demo_transaction_def)

text \<open>A launch is refused only while an update is pending or activating, and only across major versions.\<close>

lemma launchPolicy_decision_iff:
  "launchPolicy_decision update cli runtime \<noteq> None \<longleftrightarrow>
     (\<exists>r. update = Some r \<and> us_state r \<in> {Up_pending_activation, Up_activating} \<and> majorVersion cli \<noteq> majorVersion runtime)"
  by (auto simp: launchPolicy_decision_def runtimeProtocolCompatible_def split: option.splits)

end
