(* ===== verification/Crash_Runs.thy ===== *)
theory Crash_Runs
  imports Prelude
begin

text \<open>
  Operations on files as runs: the list of states an operation leaves on disk, one for each
  change, and its result. A crash or a failing call leaves any of these states; what is proved of
  every state of a run therefore holds whenever the process dies.
\<close>

section \<open>Runs\<close>

text \<open>Steps in sequence: the states of all of them, the last of them being where the next starts.\<close>

definition then_step ::
  "'s \<Rightarrow> 's list \<times> ('e + 'a) \<Rightarrow> ('s \<Rightarrow> 'a \<Rightarrow> 's list \<times> ('e + 'b)) \<Rightarrow> 's list \<times> ('e + 'b)" where
  "then_step s first rest =
     (case first of
        (ss, Inl e) \<Rightarrow> (ss, Inl e)
      | (ss, Inr x) \<Rightarrow> (case rest (last (s # ss)) x of (ts, r) \<Rightarrow> (ss @ ts, r)))"

definition pure_step :: "'e + 'a \<Rightarrow> 's list \<times> ('e + 'a)" where
  "pure_step r = ([], r)"

section \<open>Reasoning about runs\<close>

text \<open>\<open>keeps I\<close>: every state a run leaves satisfies \<open>I\<close>. \<open>returns Q\<close>: so does the last with the value, when it returns.\<close>

definition keeps :: "('s \<Rightarrow> bool) \<Rightarrow> 's list \<times> ('e + 'a) \<Rightarrow> bool" where
  "keeps I run \<longleftrightarrow> (\<forall>s\<in>set (fst run). I s)"

definition returns :: "'s \<Rightarrow> ('s \<Rightarrow> 'a \<Rightarrow> bool) \<Rightarrow> 's list \<times> ('e + 'a) \<Rightarrow> bool" where
  "returns s Q run \<longleftrightarrow> (case snd run of Inl _ \<Rightarrow> True | Inr x \<Rightarrow> Q (last (s # fst run)) x)"

lemma last_Cons_append: "last (s # ss @ ts) = last (last (s # ss) # ts)"
  by (cases ts rule: rev_cases) simp_all

lemma then_step_simps:
  "then_step s (ss, Inl e) k = (ss, Inl e)"
  "then_step s (ss, Inr x) k = (ss @ fst (k (last (s # ss)) x), snd (k (last (s # ss)) x))"
  by (simp_all add: then_step_def split: prod.splits del: last.simps)

lemma then_pure:
  "then_step s (pure_step (Inl e)) k = pure_step (Inl e)"
  "then_step s (pure_step (Inr x)) k = k s x"
  by (simp_all add: pure_step_def then_step_simps)

lemma keeps_last: "I s \<Longrightarrow> keeps I (ss, r) \<Longrightarrow> I (last (s # ss))"
  by (cases ss rule: rev_cases) (auto simp: keeps_def)

lemma keeps_pure [intro]: "keeps I (pure_step r)"
  by (simp add: keeps_def pure_step_def)

lemma keeps_then:
  assumes "I s" and "keeps I m" and "\<And>s' x. I s' \<Longrightarrow> keeps I (k s' x)"
  shows "keeps I (then_step s m k)"
proof (cases m)
  case (Pair ss r)
  with assms have "I (last (s # ss))" by (simp add: keeps_last del: last.simps)
  with Pair assms show ?thesis
    by (cases r) (auto simp: then_step_simps keeps_def simp del: last.simps)
qed

lemma returns_pure [simp]: "returns s Q (pure_step (Inr x)) \<longleftrightarrow> Q s x" "returns s Q (pure_step (Inl e))"
  by (simp_all add: returns_def pure_step_def)

lemma returns_pureI: "(\<And>x. r = Inr x \<Longrightarrow> Q s x) \<Longrightarrow> returns s Q (pure_step r)"
  by (cases r) simp_all

lemma returns_then:
  assumes "returns s R m" and "\<And>s' x. R s' x \<Longrightarrow> returns s' Q (k s' x)"
  shows "returns s Q (then_step s m k)"
proof (cases m)
  case (Pair ss r)
  show ?thesis
  proof (cases r)
    case (Inr x)
    with assms(1) Pair have "R (last (s # ss)) x" by (simp add: returns_def)
    then have "returns (last (s # ss)) Q (k (last (s # ss)) x)" by (rule assms(2))
    then show ?thesis
      using Pair Inr by (simp add: then_step_simps returns_def last_Cons_append del: last.simps append_assoc split: sum.splits)
  qed (use Pair in \<open>simp add: then_step_simps returns_def\<close>)
qed

lemma returns_then_pure: "(\<And>x. r = Inr x \<Longrightarrow> returns s Q (k s x)) \<Longrightarrow> returns s Q (then_step s (pure_step r) k)"
  by (cases r) (simp_all add: then_pure)

lemma keeps_then_pure: "(\<And>x. r = Inr x \<Longrightarrow> keeps I (k s x)) \<Longrightarrow> keeps I (then_step s (pure_step r) k)"
  by (cases r) (simp_all add: then_pure keeps_pure)

lemma returns_mono: "returns s R m \<Longrightarrow> (\<And>s' x. R s' x \<Longrightarrow> Q s' x) \<Longrightarrow> returns s Q m"
  by (auto simp: returns_def split: sum.splits)

lemma returns_keeps: "I s \<Longrightarrow> keeps I m \<Longrightarrow> returns s (\<lambda>s' _. I s') m"
  by (cases m) (auto simp: returns_def keeps_last simp del: last.simps split: sum.splits)

lemma returns_both: "returns s Q m \<Longrightarrow> returns s R m \<Longrightarrow> returns s (\<lambda>s' x. Q s' x \<and> R s' x) m"
  by (auto simp: returns_def split: sum.splits)

lemma returns_any: "returns s (\<lambda>_ _. True) m"
  by (simp add: returns_def split: sum.splits)

lemmas run_intros = keeps_then keeps_then_pure keeps_pure returns_then returns_then_pure

text \<open>The states a crash of a run can leave: the one before it, or any of its own.\<close>

definition crash_states :: "'s \<Rightarrow> 's list \<times> ('e + 'a) \<Rightarrow> 's set" where
  "crash_states s run = insert s (set (fst run))"

lemma keeps_crash: "I s \<Longrightarrow> keeps I run \<Longrightarrow> s' \<in> crash_states s run \<Longrightarrow> I s'"
  by (auto simp: crash_states_def keeps_def)

lemma last_is_crash_state: "last (s # fst run) \<in> crash_states s run"
  by (cases run) (auto simp: crash_states_def)

end
