(* ===== verification/Deployment_Store.thy ===== *)
theory Deployment_Store
  imports Update_State Crash_Runs
begin

text \<open>
  The immutable deployment store of the self-update: \<^verbatim>\<open>src/runtime/update/installer.ts\<close>, without
  the migration of the layout that preceded it (its outcome is the field \<open>ds_layout\<close>).

  A candidate directory is a tree of named entries; \<open>collate\<close> is the sort key of
  \<open>localeCompare\<close> and \<open>sha\<close> is SHA-256. The store maps artifact ids to deployments and has three
  references. Replacing a reference can fail before or after its rename (the directory is synced
  after it); \<open>ds_io\<close> holds the outcomes of the next replacements, and all succeed once it is empty. A failed copy of a candidate leaves no deployment.
  An operation returns the states it leaves on disk, one for each change, and its result: a crash
  can leave any of them.
\<close>

section \<open>The identity of a tree\<close>

datatype tree_entry =
    Tree_file string
  | Tree_directory "(string \<times> tree_entry) list"
  | Tree_link string
  | Tree_special

fun join_path :: "string list \<Rightarrow> string" where
  "join_path [] = []"
| "join_path [s] = s"
| "join_path (s # ss) = s @ ''/'' @ join_path ss"

text \<open>Resolving a path of segments, as \<open>path.resolve\<close> does from the root of the file system.\<close>

fun resolve_segments :: "string list \<Rightarrow> string list \<Rightarrow> string list" where
  "resolve_segments acc [] = rev acc"
| "resolve_segments acc (s # ss) =
     (if s = [] \<or> s = ''.'' then resolve_segments acc ss
      else if s = ''..'' then resolve_segments (tl acc) ss
      else resolve_segments (s # acc) ss)"

fun split_slash :: "string \<Rightarrow> string list" where
  "split_slash [] = [[]]"
| "split_slash (c # s) =
     (if c = CHR ''/'' then [] # split_slash s
      else case split_slash s of [] \<Rightarrow> [[c]] | w # ws \<Rightarrow> (c # w) # ws)"

definition is_letter :: "char \<Rightarrow> bool" where
  "is_letter c \<longleftrightarrow> (65 \<le> (of_char c :: nat) \<and> of_char c \<le> (90 :: nat)) \<or> (97 \<le> (of_char c :: nat) \<and> of_char c \<le> (122 :: nat))"

fun has_drive :: "string \<Rightarrow> bool" where
  "has_drive (a # b # _) \<longleftrightarrow> is_letter a \<and> b = CHR '':''"
| "has_drive _ \<longleftrightarrow> False"

text \<open>The link is in the directory \<open>dir\<close> of the tree at \<open>base\<close>.\<close>

definition isSelfContainedLink :: "string list \<Rightarrow> string list \<Rightarrow> string \<Rightarrow> bool" where
  "isSelfContainedLink base dir target \<longleftrightarrow>
     target \<noteq> [] \<and> \<not> starts_with target ''/'' \<and> \<not> has_drive target
     \<and> take (length base) (resolve_segments [] (base @ dir @ split_slash target)) = base"

fun collect_ok :: "('e + 'a list) list \<Rightarrow> 'e + 'a list" where
  "collect_ok [] = Inr []"
| "collect_ok (r # rs) = bind_ok r (\<lambda>xs. bind_ok (collect_ok rs) (\<lambda>ys. Inr (xs @ ys)))"

fun entry_digests ::
  "(string \<Rightarrow> string) \<Rightarrow> (string \<Rightarrow> 'k::linorder) \<Rightarrow> string list \<Rightarrow> string list \<Rightarrow> string \<Rightarrow> tree_entry
     \<Rightarrow> string + (string \<times> string) list" where
  "entry_digests sha collate base dir nm (Tree_link target) =
     (if isSelfContainedLink base dir target then Inr [(join_path (dir @ [nm]), ''link:'' @ target)]
      else Inl (''candidate contains an unsafe symlink ('' @ join_path (dir @ [nm]) @ '' -> '' @ target
                @ ''); refusing non-self-contained deployment''))"
| "entry_digests sha collate base dir nm (Tree_directory es) =
     collect_ok (map snd (sort_key (\<lambda>r. collate (fst r))
       (map (\<lambda>(n, e). (n, entry_digests sha collate base (dir @ [nm]) n e)) es)))"
| "entry_digests sha collate base dir nm Tree_special =
     Inl (''candidate contains a non-file entry; refusing deployment: '' @ join_path (dir @ [nm]))"
| "entry_digests sha collate base dir nm (Tree_file contents) = Inr [(join_path (dir @ [nm]), sha contents)]"

definition treeFileDigests ::
  "(string \<Rightarrow> string) \<Rightarrow> (string \<Rightarrow> 'k::linorder) \<Rightarrow> string list \<Rightarrow> (string \<times> tree_entry) list
     \<Rightarrow> string + (string \<times> string) list" where
  "treeFileDigests sha collate base es =
     collect_ok (map snd (sort_key (\<lambda>r. collate (fst r)) (map (\<lambda>(n, e). (n, entry_digests sha collate base [] n e)) es)))"

definition NUL :: char where "NUL = CHR 0x00"

definition digest_text :: "(string \<times> string) list \<Rightarrow> string" where
  "digest_text ds = concat (map (\<lambda>(path, digest). path @ [NUL] @ digest @ [NUL]) ds)"

definition computeArtifactId ::
  "(string \<Rightarrow> string) \<Rightarrow> (string \<Rightarrow> 'k::linorder) \<Rightarrow> string list \<Rightarrow> (string \<times> tree_entry) list \<Rightarrow> string + string" where
  "computeArtifactId sha collate base es =
     bind_ok (treeFileDigests sha collate base es) (\<lambda>ds. Inr (sha (digest_text ds)))"

section \<open>Deployments and references\<close>

record deployment_metadata =
  dm_artifactId :: string
  dm_product :: string
  dm_version :: string

text \<open>
  An entry of the store: whether it is a real directory, whether it is private to the user, its metadata and manifest
  (\<open>None\<close>: missing or malformed) and whether the entrypoint is there.
\<close>

record deployment =
  dep_directory :: bool
  dep_private :: bool
  dep_metadata :: "deployment_metadata option"
  dep_manifest :: "candidate_manifest option"
  dep_entrypoint :: bool

datatype reference_target = To_version string | Outside_store string

datatype io_outcome = Io_done | Io_failed_before | Io_failed_after

record deployment_store =
  ds_layout :: "string option"
  ds_deployments :: "(string \<times> deployment) list"
  ds_staged :: "reference_target option"
  ds_active :: "reference_target option"
  ds_previous :: "reference_target option"
  ds_io :: "io_outcome list"

record install_result =
  in_version :: string
  in_artifactId :: string
  in_previousVersion :: "string option"
  in_previousArtifactId :: "string option"

record candidate_source =
  cs_version :: string
  cs_tree :: "(string \<times> tree_entry) list"
  cs_manifest :: "candidate_manifest option"
  cs_entrypoint :: bool
  cs_copy_error :: "string option"

record candidate_verification =
  cv_ok :: bool
  cv_version :: string
  cv_artifactId :: "string option"
  cv_reason :: "string option"

definition validateDeployment :: "deployment_store \<Rightarrow> string \<Rightarrow> string + deployment_metadata" where
  "validateDeployment s artifactId =
     (case map_of (ds_deployments s) artifactId of
        None \<Rightarrow> Inl ''deployment is missing; run rly update to re-install or rly doctor''
      | Some d \<Rightarrow>
          if \<not> dep_directory d then Inl ''deployment is not a real directory; run rly doctor''
          else if \<not> dep_private d then Inl ''deployment directory must be current-user private (0700); run rly doctor''
          else (case dep_metadata d of
                  None \<Rightarrow> Inl ''deployment metadata is missing or malformed; run rly doctor''
                | Some m \<Rightarrow>
                    if dm_artifactId m \<noteq> artifactId
                    then Inl ''deployment metadata identity does not match its directory; run rly doctor''
                    else if dep_manifest d = None \<and> \<not> dep_entrypoint d
                    then Inl ''deployment layout is incomplete; run rly doctor''
                    else Inr m))"

definition resolveRef :: "deployment_store \<Rightarrow> reference_target option \<Rightarrow> string + (string \<times> string) option" where
  "resolveRef s ref =
     (case ref of
        None \<Rightarrow> Inr None
      | Some (Outside_store target) \<Rightarrow> Inl (''reference escapes the immutable store ('' @ target @ ''); run rly doctor'')
      | Some (To_version artifactId) \<Rightarrow>
          if \<not> artifactIdSchema artifactId
          then Inl (''reference points at a non-immutable name ('' @ artifactId @ ''); run rly doctor'')
          else bind_ok (validateDeployment s artifactId) (\<lambda>m. Inr (Some (artifactId, dm_version m))))"

datatype which_reference = Staged_ref | Active_ref | Previous_ref

definition set_reference :: "which_reference \<Rightarrow> reference_target option \<Rightarrow> deployment_store \<Rightarrow> deployment_store" where
  "set_reference which ref s =
     (case which of
        Staged_ref \<Rightarrow> s\<lparr>ds_staged := ref\<rparr> | Active_ref \<Rightarrow> s\<lparr>ds_active := ref\<rparr> | Previous_ref \<Rightarrow> s\<lparr>ds_previous := ref\<rparr>)"

text \<open>One atomic replacement, or removal, of a reference.\<close>

definition replace_reference ::
  "which_reference \<Rightarrow> string option \<Rightarrow> deployment_store \<Rightarrow> deployment_store list \<times> (string + unit)" where
  "replace_reference which artifactId s =
     (let s' = s\<lparr>ds_io := tl (ds_io s)\<rparr>; changed = set_reference which (map_option To_version artifactId) s'
      in case ds_io s of
           [] \<Rightarrow> ([changed], Inr ())
         | Io_done # _ \<Rightarrow> ([changed], Inr ())
         | Io_failed_before # _ \<Rightarrow> ([s'], Inl ''reference replacement failed'')
         | Io_failed_after # _ \<Rightarrow> ([changed], Inl ''reference replacement failed''))"

definition ensureRuntimeLayout :: "deployment_store \<Rightarrow> string + unit" where
  "ensureRuntimeLayout s = (case ds_layout s of None \<Rightarrow> Inr () | Some e \<Rightarrow> Inl e)"

definition installed_as :: "string \<Rightarrow> string \<Rightarrow> (string \<times> string) option \<Rightarrow> install_result" where
  "installed_as version artifactId displaced =
     \<lparr>in_version = version, in_artifactId = artifactId, in_previousVersion = map_option snd displaced,
      in_previousArtifactId = map_option fst displaced\<rparr>"

definition PRODUCT_NAME :: string where "PRODUCT_NAME = ''rly-gateway''"

definition installCandidate ::
  "(string \<Rightarrow> string) \<Rightarrow> (string \<Rightarrow> 'k::linorder) \<Rightarrow> string list \<Rightarrow> candidate_source \<Rightarrow> deployment_store
     \<Rightarrow> deployment_store list \<times> (string + install_result)" where
  "installCandidate sha collate base source s =
     then_step s (pure_step (bind_ok (ensureRuntimeLayout s) (\<lambda>_.
        bind_ok (guard_ok (cs_manifest source \<noteq> None \<or> cs_entrypoint source) ''not a valid RLY runtime candidate'') (\<lambda>_.
          computeArtifactId sha collate base (cs_tree source))))) (\<lambda>s artifactId.
     then_step s
       (case map_of (ds_deployments s) artifactId of
          Some d \<Rightarrow> ([], if dep_directory d then Inr () else Inl ''the deployment directory could not be created'')
        | None \<Rightarrow>
            (case cs_copy_error source of
               Some e \<Rightarrow> ([], Inl e)
             | None \<Rightarrow>
                 ([s\<lparr>ds_deployments := (artifactId,
                       \<lparr>dep_directory = True, dep_private = True,
                        dep_metadata = Some \<lparr>dm_artifactId = artifactId, dm_product = PRODUCT_NAME,
                          dm_version = (case cs_manifest source of None \<Rightarrow> cs_version source | Some m \<Rightarrow> cdm_version m)\<rparr>,
                        dep_manifest = cs_manifest source, dep_entrypoint = cs_entrypoint source\<rparr>)
                     # ds_deployments s\<rparr>], Inr ()))) (\<lambda>s _.
     then_step s (pure_step (validateDeployment s artifactId)) (\<lambda>s m.
     then_step s (replace_reference Staged_ref (Some artifactId) s) (\<lambda>s _.
     then_step s (pure_step (resolveRef s (ds_active s))) (\<lambda>s active.
       pure_step (Inr (installed_as (dm_version m) artifactId active)))))))"

definition verifyCandidate :: "deployment_store \<Rightarrow> string + candidate_verification" where
  "verifyCandidate s =
     bind_ok (ensureRuntimeLayout s) (\<lambda>_. bind_ok (resolveRef s (ds_staged s)) (\<lambda>staged.
       case staged of
         None \<Rightarrow>
           Inr \<lparr>cv_ok = False, cv_version = ''none'', cv_artifactId = None,
                cv_reason = Some ''no staged candidate is selected''\<rparr>
       | Some (artifactId, version) \<Rightarrow>
           (case validateDeployment s artifactId of
              Inl e \<Rightarrow>
                Inr \<lparr>cv_ok = False, cv_version = version, cv_artifactId = None,
                     cv_reason = Some (''staged candidate deployment is missing or malformed: '' @ e @ ''; run rly doctor'')\<rparr>
            | Inr m \<Rightarrow>
                if dm_product m \<noteq> PRODUCT_NAME
                then Inr \<lparr>cv_ok = False, cv_version = version, cv_artifactId = None,
                          cv_reason = Some (''candidate product is '' @ dm_product m @ '', not '' @ PRODUCT_NAME)\<rparr>
                else Inr \<lparr>cv_ok = True, cv_version = version, cv_artifactId = Some artifactId, cv_reason = None\<rparr>)))"

definition activateStaged :: "deployment_store \<Rightarrow> deployment_store list \<times> (string + install_result)" where
  "activateStaged s =
     then_step s (pure_step (bind_ok (ensureRuntimeLayout s) (\<lambda>_. resolveRef s (ds_staged s)))) (\<lambda>s staged.
       case staged of
         None \<Rightarrow> pure_step (Inl ''no staged candidate is available to activate; re-run rly update'')
       | Some (artifactId, version) \<Rightarrow>
           then_step s (pure_step (resolveRef s (ds_active s))) (\<lambda>s active.
             if map_option fst active = Some artifactId then pure_step (Inr (installed_as version artifactId active))
             else then_step s (replace_reference Previous_ref (map_option fst active) s) (\<lambda>s _.
                  then_step s (replace_reference Active_ref (Some artifactId) s) (\<lambda>s _.
                    pure_step (Inr (installed_as version artifactId active))))))"

definition setActiveReferences ::
  "string \<Rightarrow> string option \<Rightarrow> deployment_store \<Rightarrow> deployment_store list \<times> (string + unit)" where
  "setActiveReferences activeId previousId s =
     then_step s (pure_step (bind_ok (ensureRuntimeLayout s) (\<lambda>_. bind_ok (validateDeployment s activeId) (\<lambda>_.
        case previousId of None \<Rightarrow> Inr () | Some i \<Rightarrow> bind_ok (validateDeployment s i) (\<lambda>_. Inr ()))))) (\<lambda>s _.
     then_step s (replace_reference Previous_ref previousId s) (\<lambda>s _.
       replace_reference Active_ref (Some activeId) s))"

definition restorePrevious :: "deployment_store \<Rightarrow> deployment_store list \<times> (string + install_result)" where
  "restorePrevious s =
     then_step s (pure_step (bind_ok (ensureRuntimeLayout s) (\<lambda>_. resolveRef s (ds_previous s)))) (\<lambda>s previous.
       case previous of
         None \<Rightarrow> pure_step (Inl ''no previous known-good version is available for rollback'')
       | Some (artifactId, version) \<Rightarrow>
           then_step s (pure_step (resolveRef s (ds_active s))) (\<lambda>s active.
           then_step s (replace_reference Active_ref (Some artifactId) s) (\<lambda>s _.
           then_step s (replace_reference Previous_ref (map_option fst active) s) (\<lambda>s _.
             pure_step (Inr (installed_as version artifactId active))))))"

definition readManifest :: "deployment_store \<Rightarrow> string + candidate_manifest option" where
  "readManifest s =
     bind_ok (ensureRuntimeLayout s) (\<lambda>_. bind_ok (resolveRef s (ds_staged s)) (\<lambda>staged.
       Inr (Option.bind staged (\<lambda>(artifactId, _). Option.bind (map_of (ds_deployments s) artifactId) dep_manifest))))"

section \<open>The laws of the store\<close>

lemma set_reference_fields [simp]:
  "ds_active (set_reference which ref s) = (if which = Active_ref then ref else ds_active s)"
  "ds_staged (set_reference which ref s) = (if which = Staged_ref then ref else ds_staged s)"
  "ds_previous (set_reference which ref s) = (if which = Previous_ref then ref else ds_previous s)"
  "ds_deployments (set_reference which ref s) = ds_deployments s"
  "ds_layout (set_reference which ref s) = ds_layout s"
  by (cases which; simp add: set_reference_def)+

lemma replace_keeps:
  "(\<And>s'. s' = s\<lparr>ds_io := tl (ds_io s)\<rparr> \<Longrightarrow> I s' \<and> I (set_reference which (map_option To_version i) s')) \<Longrightarrow>
     keeps I (replace_reference which i s)"
  by (auto simp: keeps_def replace_reference_def Let_def split: list.splits io_outcome.splits)

lemma replace_returns:
  "(\<And>s'. s' = s\<lparr>ds_io := tl (ds_io s)\<rparr> \<Longrightarrow> Q (set_reference which (map_option To_version i) s') ()) \<Longrightarrow>
     returns s Q (replace_reference which i s)"
  by (auto simp: returns_def replace_reference_def Let_def split: list.splits io_outcome.splits)

text \<open>Installing a candidate leaves the serving and the previous reference alone, at every step.\<close>

lemma install_keeps_serving:
  assumes "s' \<in> set (fst (installCandidate sha collate base source s))"
  shows "ds_active s' = ds_active s \<and> ds_previous s' = ds_previous s"
proof -
  let ?I = "\<lambda>t. ds_active t = ds_active s \<and> ds_previous t = ds_previous s"
  have add: "keeps ?I (case map_of (ds_deployments t) a of Some d \<Rightarrow> ([], r d)
      | None \<Rightarrow> (case cs_copy_error source of Some e \<Rightarrow> ([], Inl e)
                 | None \<Rightarrow> ([t\<lparr>ds_deployments := d # ds_deployments t\<rparr>], Inr ())))" if "?I t"
    for t a d and r :: "deployment \<Rightarrow> string + unit"
    using that by (auto simp: keeps_def split: option.splits)
  have "keeps ?I (installCandidate sha collate base source s)"
    unfolding installCandidate_def by (intro keeps_then keeps_pure add replace_keeps) auto
  with assms show ?thesis by (auto simp: keeps_def)
qed

lemma resolveRef_Some: "resolveRef s ref = Inr (Some (a, v)) \<Longrightarrow> ref = Some (To_version a)"
  by (auto simp: resolveRef_def bind_ok_Inr_iff split: option.splits reference_target.splits if_splits)

lemma installed_as_artifactId [simp]: "in_artifactId (installed_as v a d) = a"
  by (simp add: installed_as_def)

lemma activate_points:
  "returns s (\<lambda>s' i. ds_active s' = Some (To_version (in_artifactId i))) (activateStaged s)"
proof -
  have switch: "returns s (\<lambda>s' i. ds_active s' = Some (To_version (in_artifactId i)))
      (then_step s (replace_reference Previous_ref p s) (\<lambda>s _. then_step s (replace_reference Active_ref (Some a) s)
         (\<lambda>s _. pure_step (Inr (installed_as v a c)))))" for s p a v c
    by (rule returns_then [OF returns_any], rule returns_then [where R = "\<lambda>s' _. ds_active s' = Some (To_version a)"])
       (auto intro: replace_returns)
  show ?thesis
    unfolding activateStaged_def
    by (intro returns_then_pure)
       (auto split: option.splits intro!: returns_then_pure switch dest!: resolveRef_Some)
qed

text \<open>Every step of the switch serves the reference before or the staged one.\<close>

lemma activate_serves:
  assumes "s' \<in> set (fst (activateStaged s))"
  shows "ds_active s' = ds_active s \<or> ds_active s' = ds_staged s"
proof -
  let ?I = "\<lambda>t. ds_active t = ds_active s \<or> ds_active t = ds_staged s"
  have "keeps ?I (activateStaged s)"
    unfolding activateStaged_def
    by (intro keeps_then_pure)
       (auto split: option.splits intro!: keeps_then_pure keeps_pure keeps_then replace_keeps
         simp: bind_ok_Inr_iff dest!: resolveRef_Some)
  with assms show ?thesis by (auto simp: keeps_def)
qed

lemma set_active_points:
  "returns s (\<lambda>s' _. ds_active s' = Some (To_version a)) (setActiveReferences a p s)"
  unfolding setActiveReferences_def
  by (rule returns_then_pure, rule returns_then [OF returns_any], rule replace_returns) simp

lemma set_active_serves:
  assumes "s' \<in> set (fst (setActiveReferences a p s))"
  shows "ds_active s' = ds_active s \<or> ds_active s' = Some (To_version a)"
proof -
  let ?I = "\<lambda>t. ds_active t = ds_active s \<or> ds_active t = Some (To_version a)"
  have "keeps ?I (setActiveReferences a p s)"
    unfolding setActiveReferences_def
    by (intro keeps_then_pure) (auto intro!: keeps_then replace_keeps)
  with assms show ?thesis by (auto simp: keeps_def)
qed

lemma restore_points:
  "returns s (\<lambda>s' i. ds_active s' = Some (To_version (in_artifactId i))) (restorePrevious s)"
proof -
  have switch: "returns s (\<lambda>s' i. ds_active s' = Some (To_version (in_artifactId i)))
      (then_step s (replace_reference Active_ref (Some a) s) (\<lambda>s _. then_step s (replace_reference Previous_ref p s)
         (\<lambda>s _. pure_step (Inr (installed_as v a c)))))" for s p a v c
    by (rule returns_then [where R = "\<lambda>s' _. ds_active s' = Some (To_version a)"], rule replace_returns, simp,
        rule returns_then [where R = "\<lambda>s' _. ds_active s' = Some (To_version a)"])
       (auto intro: replace_returns)
  show ?thesis
    unfolding restorePrevious_def
    by (intro returns_then_pure) (auto split: option.splits intro!: returns_then_pure switch)
qed

end
