(* ===== verification/Gateway_Identity.thy ===== *)
theory Gateway_Identity
  imports Update_State Deployment_Store
begin

text \<open>
  How a process knows a running gateway: \<^verbatim>\<open>src/runtime/build-identity.ts\<close>,
  \<^verbatim>\<open>gateway-attestation.ts\<close>, \<^verbatim>\<open>ownership-record.ts\<close>, the identity answer of
  \<^verbatim>\<open>gateway-server.ts\<close> and \<^verbatim>\<open>management/auth.ts\<close>, and the inspection and acquisition of
  \<^verbatim>\<open>gateway-lifecycle.ts\<close>.

  \<open>sha\<close> and \<open>hmac\<close> (key, text) are the hash functions. A listener is what it answers to an
  identity challenge (\<open>None\<close>: it refuses, fails or sends no JSON) and whether it answers at all; what is
  not decoded from the answer is not checked by the code either. \<open>started\<close> is the start time the
  operating system reports for a process id. The heartbeat timer of a reused gateway is left out.
\<close>

section \<open>Build identity\<close>

record build_identity =
  bi_product :: string
  bi_semanticVersion :: string
  bi_commitRevision :: string
  bi_buildId :: string
  bi_releaseChannel :: string
  bi_controlProtocolVersion :: int
  bi_dataProtocolVersion :: int
  bi_stateSchemaVersion :: int
  bi_artifactId :: "string option"

definition RUNTIME_VERSION :: string where "RUNTIME_VERSION = ''0.1.0''"

definition STATE_SCHEMA_VERSION :: int where "STATE_SCHEMA_VERSION = 2"

definition defaultBuildIdentity :: build_identity where
  "defaultBuildIdentity =
     \<lparr>bi_product = PRODUCT_NAME, bi_semanticVersion = RUNTIME_VERSION, bi_commitRevision = ''dev'', bi_buildId = ''dev'',
      bi_releaseChannel = ''dev'', bi_controlProtocolVersion = 1, bi_dataProtocolVersion = 1,
      bi_stateSchemaVersion = STATE_SCHEMA_VERSION, bi_artifactId = None\<rparr>"

record build_meta =
  bm_semanticVersion :: string
  bm_commitRevision :: string
  bm_buildId :: string
  bm_releaseChannel :: string
  bm_controlProtocolVersion :: int
  bm_dataProtocolVersion :: int
  bm_stateSchemaVersion :: int

definition buildIdentityFromMeta :: "build_meta \<Rightarrow> build_identity" where
  "buildIdentityFromMeta m =
     \<lparr>bi_product = PRODUCT_NAME, bi_semanticVersion = bm_semanticVersion m, bi_commitRevision = bm_commitRevision m,
      bi_buildId = bm_buildId m, bi_releaseChannel = bm_releaseChannel m,
      bi_controlProtocolVersion = bm_controlProtocolVersion m, bi_dataProtocolVersion = bm_dataProtocolVersion m,
      bi_stateSchemaVersion = bm_stateSchemaVersion m, bi_artifactId = None\<rparr>"

definition currentBuildIdentity :: "build_meta option \<Rightarrow> (string \<times> string) list \<Rightarrow> build_identity" where
  "currentBuildIdentity meta environment =
     (let identity = (case meta of None \<Rightarrow> defaultBuildIdentity | Some m \<Rightarrow> buildIdentityFromMeta m)
      in case map_of environment ''RLY_SERVING_ARTIFACT'' of
           Some artifact \<Rightarrow> if artifactIdSchema artifact then identity\<lparr>bi_artifactId := Some artifact\<rparr> else identity
         | None \<Rightarrow> identity)"

fun join_with :: "string \<Rightarrow> string list \<Rightarrow> string" where
  "join_with sep [] = []"
| "join_with sep [s] = s"
| "join_with sep (s # ss) = s @ sep @ join_with sep ss"

definition identity_parts :: "build_identity \<Rightarrow> string list" where
  "identity_parts b =
     [bi_product b, bi_semanticVersion b, bi_commitRevision b, bi_buildId b, bi_releaseChannel b,
      show_int (bi_controlProtocolVersion b), show_int (bi_dataProtocolVersion b), show_int (bi_stateSchemaVersion b),
      get_or [] (bi_artifactId b)]"

definition buildIdentityDigest :: "(string \<Rightarrow> string) \<Rightarrow> build_identity \<Rightarrow> string" where
  "buildIdentityDigest sha b = sha (join_with [NUL] (identity_parts b))"

definition exactIdentityMatch :: "(string \<Rightarrow> string) \<Rightarrow> build_identity \<Rightarrow> build_identity \<Rightarrow> bool" where
  "exactIdentityMatch sha left right \<longleftrightarrow> buildIdentityDigest sha left = buildIdentityDigest sha right"

definition artifactIdentity :: "build_identity \<Rightarrow> string" where
  "artifactIdentity b = get_or (bi_commitRevision b @ '':'' @ bi_buildId b) (bi_artifactId b)"

definition sameSemanticVersionDifferentArtifact :: "build_identity \<Rightarrow> build_identity \<Rightarrow> bool" where
  "sameSemanticVersionDifferentArtifact left right \<longleftrightarrow>
     bi_semanticVersion left = bi_semanticVersion right \<and> artifactIdentity left \<noteq> artifactIdentity right"

section \<open>Identity answers and their proofs\<close>

record update_metadata =
  um_state :: string
  um_pendingVersion :: "string option"
  um_previousVersion :: "string option"
  um_phase :: "string option"

record gateway_identity =
  gi_product :: "string option"
  gi_instanceId :: "string option"
  gi_configFingerprint :: "string option"
  gi_protocolVersion :: "int option"
  gi_runtimeVersion :: "string option"
  gi_resident :: "bool option"
  gi_stateVersion :: "int option"
  gi_activeSessions :: "int option"
  gi_draining :: "bool option"
  gi_update :: "update_metadata option"
  gi_build :: "build_identity option"
  gi_proof :: "string option"

definition identity_proof :: "(string \<Rightarrow> string \<Rightarrow> string) \<Rightarrow> string \<Rightarrow> string \<Rightarrow> string \<Rightarrow> string \<Rightarrow> string \<Rightarrow> string" where
  "identity_proof hmac product token challenge instanceId configFingerprint =
     hmac token (join_with [CHR 0x0A] [product, ''1'', challenge, instanceId, configFingerprint])"

definition createIdentityProof :: "(string \<Rightarrow> string \<Rightarrow> string) \<Rightarrow> string \<Rightarrow> string \<Rightarrow> string \<Rightarrow> string \<Rightarrow> string" where
  "createIdentityProof hmac = identity_proof hmac ''rly-gateway''"

definition createManagementIdentityProof :: "(string \<Rightarrow> string \<Rightarrow> string) \<Rightarrow> string \<Rightarrow> string \<Rightarrow> string \<Rightarrow> string \<Rightarrow> string" where
  "createManagementIdentityProof hmac = identity_proof hmac ''rly-gateway-management''"

fun hex_value :: "char \<Rightarrow> nat option" where
  "hex_value c =
     (let n = of_char c
      in if 48 \<le> n \<and> n \<le> 57 then Some (n - 48) else if 97 \<le> n \<and> n \<le> 102 then Some (n - 87)
         else if 65 \<le> n \<and> n \<le> 70 then Some (n - 55) else None)"

text \<open>\<open>Buffer.from(text, "hex")\<close> stops at the first pair that is no byte.\<close>

fun hex_bytes :: "string \<Rightarrow> nat list" where
  "hex_bytes (a # b # s) =
     (case (hex_value a, hex_value b) of (Some x, Some y) \<Rightarrow> (16 * x + y) # hex_bytes s | _ \<Rightarrow> [])"
| "hex_bytes _ = []"

definition safeHexEqual :: "string \<Rightarrow> string \<Rightarrow> bool" where
  "safeHexEqual left right \<longleftrightarrow> hex_bytes left = hex_bytes right"

type_synonym listener = "string \<Rightarrow> gateway_identity option"

definition identityChallenge ::
  "(string \<Rightarrow> string \<Rightarrow> string) \<Rightarrow> string \<Rightarrow> string \<Rightarrow> string \<Rightarrow> listener \<Rightarrow> gateway_identity option" where
  "identityChallenge hmac product challenge secret answer =
     (case answer challenge of
        None \<Rightarrow> None
      | Some i \<Rightarrow>
          (case gi_proof i of
             None \<Rightarrow> None
           | Some p \<Rightarrow>
               if gi_product i = Some product \<and> gi_protocolVersion i = Some 1
                  \<and> safeHexEqual p (identity_proof hmac product secret challenge (get_or [] (gi_instanceId i))
                                      (get_or [] (gi_configFingerprint i)))
               then Some i else None))"

definition challengePattern :: "string \<Rightarrow> bool" where
  "challengePattern s \<longleftrightarrow>
     32 \<le> length s \<and> length s \<le> 128
     \<and> list_all (\<lambda>c. is_letter c \<or> is_digit_char c \<or> c = CHR ''_'' \<or> c = CHR ''-'') s"

record identity_options =
  io_authToken :: string
  io_instanceId :: string
  io_configFingerprint :: string
  io_runtimeVersion :: "string option"
  io_stateVersion :: "int option"
  io_resident :: "bool option"
  io_buildIdentity :: "build_identity option"
  io_sessions :: nat
  io_draining :: bool
  io_update :: "update_state_record option"

text \<open>The identity route of the gateway; \<open>None\<close> is the rejection of the challenge.\<close>

definition identity_route :: "(string \<Rightarrow> string \<Rightarrow> string) \<Rightarrow> identity_options \<Rightarrow> listener" where
  "identity_route hmac opts challenge =
     (if \<not> challengePattern challenge then None
      else Some
        \<lparr>gi_product = Some ''rly-gateway'', gi_instanceId = Some (io_instanceId opts),
         gi_configFingerprint = Some (io_configFingerprint opts), gi_protocolVersion = Some 1,
         gi_runtimeVersion = Some (get_or RUNTIME_VERSION (io_runtimeVersion opts)), gi_resident = io_resident opts,
         gi_stateVersion = io_stateVersion opts, gi_activeSessions = Some (int (io_sessions opts)),
         gi_draining = Some (io_draining opts),
         gi_update = Some
           \<lparr>um_state = (case io_update opts of None \<Rightarrow> ''idle'' | Some u \<Rightarrow> update_state_text (us_state u)),
            um_pendingVersion = Option.bind (io_update opts) us_pendingVersion,
            um_previousVersion = Option.bind (io_update opts) us_previousVersion,
            um_phase = map_option (\<lambda>tx. phase_text (tx_phase tx)) (Option.bind (io_update opts) us_transaction)\<rparr>,
         gi_build = io_buildIdentity opts,
         gi_proof = Some (createIdentityProof hmac (io_authToken opts) challenge (io_instanceId opts)
                            (io_configFingerprint opts))\<rparr>)"

text \<open>The identity route of the management listener.\<close>

definition management_identity_route :: "(string \<Rightarrow> string \<Rightarrow> string) \<Rightarrow> string \<Rightarrow> string \<Rightarrow> string \<Rightarrow> listener" where
  "management_identity_route hmac token instanceId configFingerprint challenge =
     (if \<not> challengePattern challenge then None
      else Some
        \<lparr>gi_product = Some ''rly-gateway-management'', gi_instanceId = Some instanceId,
         gi_configFingerprint = Some configFingerprint, gi_protocolVersion = Some 1, gi_runtimeVersion = None,
         gi_resident = None, gi_stateVersion = None, gi_activeSessions = None, gi_draining = None, gi_update = None,
         gi_build = None,
         gi_proof = Some (createManagementIdentityProof hmac token challenge instanceId configFingerprint)\<rparr>)"

section \<open>Ownership\<close>

record ownership_record =
  ow_pid :: int
  ow_processStartedAt :: string
  ow_instanceId :: string
  ow_port :: int
  ow_executableFingerprint :: string
  ow_configFingerprint :: string
  ow_nonceHash :: string
  ow_ownerLauncherPid :: int
  ow_leases :: "string list"

record process_identity =
  pi_pid :: int
  pi_processStartedAt :: string

definition matchesProcessIdentity :: "ownership_record \<Rightarrow> process_identity option \<Rightarrow> bool" where
  "matchesProcessIdentity r observed \<longleftrightarrow>
     (case observed of None \<Rightarrow> False | Some p \<Rightarrow> ow_pid r = pi_pid p \<and> ow_processStartedAt r = pi_processStartedAt p)"

record ownership_expectation =
  ox_pid :: int
  ox_processStartedAt :: string
  ox_instanceId :: string
  ox_port :: int
  ox_executableFingerprint :: string
  ox_configFingerprint :: string

definition canReuseInstance :: "ownership_record \<Rightarrow> ownership_expectation \<Rightarrow> bool" where
  "canReuseInstance r x \<longleftrightarrow>
     ow_pid r = ox_pid x \<and> ow_processStartedAt r = ox_processStartedAt x \<and> ow_instanceId r = ox_instanceId x
     \<and> ow_port r = ox_port x \<and> ow_executableFingerprint r = ox_executableFingerprint x
     \<and> ow_configFingerprint r = ox_configFingerprint x"

definition findReusableOwnership ::
  "ownership_record option \<Rightarrow> ownership_expectation \<Rightarrow> (int \<Rightarrow> process_identity option) option \<Rightarrow> ownership_record option" where
  "findReusableOwnership r expected started =
     (case (r, started) of
        (Some r, Some lookup) \<Rightarrow>
          if canReuseInstance r expected \<and> matchesProcessIdentity r (lookup (ow_pid r)) then Some r else None
      | _ \<Rightarrow> None)"

definition EXECUTABLE_FINGERPRINT :: "(string \<Rightarrow> string) \<Rightarrow> string" where
  "EXECUTABLE_FINGERPRINT sha = sha ''rly-gateway:0.1.0''"

definition buildMatchesRecord :: "(string \<Rightarrow> string) \<Rightarrow> ownership_record \<Rightarrow> gateway_identity \<Rightarrow> bool" where
  "buildMatchesRecord sha r i =
     (if ow_executableFingerprint r = EXECUTABLE_FINGERPRINT sha then gi_build i = None
      else case gi_build i of None \<Rightarrow> False | Some b \<Rightarrow> buildIdentityDigest sha b = ow_executableFingerprint r)"

definition reusableRecord :: "(string \<Rightarrow> string) \<Rightarrow> ownership_record \<Rightarrow> gateway_identity \<Rightarrow> string \<Rightarrow> bool" where
  "reusableRecord sha r i configFingerprint \<longleftrightarrow>
     Some (ow_instanceId r) = gi_instanceId i \<and> ow_configFingerprint r = configFingerprint
     \<and> gi_configFingerprint i = Some configFingerprint \<and> buildMatchesRecord sha r i"

section \<open>Inspection\<close>

text \<open>
  One view of the machine: the three artifacts of the runtime directory (reading one can fail), the two listeners,
  the answer to a probe of their health, the start times of processes and the status of an authorised request
  (\<open>Inl\<close>: the request throws).
\<close>

record gateway_net =
  gn_record :: "string + ownership_record option"
  gn_secret :: "string + string option"
  gn_managementSecret :: "string + string option"
  gn_gateway :: listener
  gn_management :: listener
  gn_gatewayUp :: bool
  gn_managementUp :: bool
  gn_started :: "int \<Rightarrow> string option"
  gn_request :: "string \<Rightarrow> string \<Rightarrow> string + nat"

type_synonym macs = "(string \<Rightarrow> string \<Rightarrow> string) \<times> (string \<Rightarrow> string)"

definition attestedIdentities ::
  "(string \<Rightarrow> string \<Rightarrow> string) \<Rightarrow> string \<times> string \<Rightarrow> gateway_net \<Rightarrow> string \<Rightarrow> string
     \<Rightarrow> (gateway_identity \<times> gateway_identity option) option" where
  "attestedIdentities hmac challenges net secret managementSecret =
     map_option
       (\<lambda>i. (i, identityChallenge hmac ''rly-gateway-management'' (snd challenges) managementSecret (gn_management net)))
       (identityChallenge hmac ''rly-gateway'' (fst challenges) secret (gn_gateway net))"

datatype runtime_inspection =
    Not_running
  | Attested_compatible bool "string option" string "build_identity option"
  | Attested_incompatible
  | Occupied_foreign
  | Stale_record

fun inspection_text :: "runtime_inspection \<Rightarrow> string" where
  "inspection_text Not_running = ''not-running''"
| "inspection_text (Attested_compatible _ _ _ _) = ''attested-compatible''"
| "inspection_text Attested_incompatible = ''attested-incompatible''"
| "inspection_text Occupied_foreign = ''occupied-foreign''"
| "inspection_text Stale_record = ''stale-record''"

text \<open>The three reads, and the artifacts together when all are there.\<close>

definition read_artifacts :: "gateway_net \<Rightarrow> string + (ownership_record option \<times> (ownership_record \<times> string \<times> string) option)" where
  "read_artifacts net =
     bind_ok (gn_record net) (\<lambda>r. bind_ok (gn_secret net) (\<lambda>s. bind_ok (gn_managementSecret net) (\<lambda>m.
       Inr (r, case (r, s, m) of
                 (Some r, Some s, Some m) \<Rightarrow> if s \<noteq> [] \<and> m \<noteq> [] then Some (r, s, m) else None
               | _ \<Rightarrow> None))))"

definition unattested_state :: "gateway_net \<Rightarrow> ownership_record option \<Rightarrow> runtime_inspection" where
  "unattested_state net r =
     (if gn_gatewayUp net \<or> gn_managementUp net then Occupied_foreign
      else if r \<noteq> None then Stale_record else Not_running)"

definition inspectRuntimeGateway ::
  "macs \<Rightarrow> string \<times> string \<Rightarrow> string \<Rightarrow> gateway_net \<Rightarrow> string + runtime_inspection" where
  "inspectRuntimeGateway macs challenges configFingerprint net =
     bind_ok (read_artifacts net) (\<lambda>(found, stored).
       case stored of
         None \<Rightarrow> Inr (unattested_state net found)
       | Some (r, secret, managementSecret) \<Rightarrow>
           (case attestedIdentities (fst macs) challenges net secret managementSecret of
              None \<Rightarrow> Inr (unattested_state net found)
            | Some (i, m) \<Rightarrow>
                if (case m of
                      None \<Rightarrow> False
                    | Some m \<Rightarrow> reusableRecord (snd macs) r i configFingerprint \<and> gi_instanceId m = gi_instanceId i
                                \<and> gn_started net (ow_pid r) = Some (ow_processStartedAt r))
                then Inr (Attested_compatible (gi_resident i = Some True) (gi_runtimeVersion i) (ow_instanceId r) (gi_build i))
                else Inr Attested_incompatible))"

definition inspectGateway :: "macs \<Rightarrow> string \<times> string \<Rightarrow> string \<Rightarrow> gateway_net \<Rightarrow> string + string" where
  "inspectGateway macs challenges configFingerprint net =
     bind_ok (inspectRuntimeGateway macs challenges configFingerprint net) (\<lambda>i. Inr (inspection_text i))"

section \<open>Acquisition\<close>

text \<open>
  What acquiring a gateway does to the outside: a lease request with its bearer secret, the removal of stale
  artifacts, and the start of a gateway of its own.
\<close>

datatype acquire_effect = Post_lease string string | Remove_artifacts string | Start_owned string

record gateway_handle =
  gh_authToken :: string
  gh_managementToken :: string
  gh_instanceId :: string
  gh_leaseId :: string
  gh_reused :: bool
  gh_resident :: bool
  gh_runtimeVersion :: "string option"

definition tryReuseAttestedGateway ::
  "macs \<Rightarrow> string \<times> string \<Rightarrow> string \<Rightarrow> gateway_net \<Rightarrow> ownership_record \<times> string \<times> string \<Rightarrow> string
     \<Rightarrow> acquire_effect list \<times> (string + gateway_handle option)" where
  "tryReuseAttestedGateway macs challenges configFingerprint net = (\<lambda>(r, secret, managementSecret) leaseId.
     case attestedIdentities (fst macs) challenges net secret managementSecret of
       None \<Rightarrow> ([], Inr None)
     | Some (i, None) \<Rightarrow> ([], Inl ''Configured management port is occupied by a foreign or unattested listener'')
     | Some (i, Some m) \<Rightarrow>
         if \<not> reusableRecord (snd macs) r i configFingerprint \<or> gi_instanceId m \<noteq> gi_instanceId i
            \<or> gi_configFingerprint m \<noteq> Some configFingerprint
         then ([], Inl ''Configured gateway listener is attested but incompatible'')
         else if gn_started net (ow_pid r) \<noteq> Some (ow_processStartedAt r)
         then ([], Inl ''Gateway ownership record has stale process identity'')
         else ([Post_lease leaseId secret],
               case gn_request net (''/leases/'' @ leaseId) secret of
                 Inl e \<Rightarrow> Inl e
               | Inr status \<Rightarrow>
                   if 200 \<le> status \<and> status < 300
                   then Inr (Some \<lparr>gh_authToken = secret, gh_managementToken = managementSecret,
                                   gh_instanceId = ow_instanceId r, gh_leaseId = leaseId, gh_reused = True,
                                   gh_resident = False, gh_runtimeVersion = gi_runtimeVersion i\<rparr>)
                   else Inl ''Gateway lease post failed''))"

text \<open>
  The body of \<open>acquireGatewayOnce\<close> under the startup lock. \<open>start\<close> is the outcome of starting an owned gateway,
  \<open>remove\<close> that of removing the stale artifacts.
\<close>

definition acquireGatewayOnce ::
  "macs \<Rightarrow> string \<times> string \<Rightarrow> string \<Rightarrow> gateway_net \<Rightarrow> (string \<Rightarrow> string + unit) \<Rightarrow> (string \<Rightarrow> string + gateway_handle) \<Rightarrow> string
     \<Rightarrow> acquire_effect list \<times> (string + gateway_handle)" where
  "acquireGatewayOnce macs challenges configFingerprint net remove start leaseId =
     (case read_artifacts net of
        Inl e \<Rightarrow> ([], Inl e)
      | Inr (found, stored) \<Rightarrow>
          (case (case stored of
                   None \<Rightarrow> ([], Inr None)
                 | Some a \<Rightarrow> tryReuseAttestedGateway macs challenges configFingerprint net a leaseId) of
             (effects, Inl e) \<Rightarrow> (effects, Inl e)
           | (effects, Inr (Some handle)) \<Rightarrow> (effects, Inr handle)
           | (effects, Inr None) \<Rightarrow>
               if gn_gatewayUp net
               then (effects, Inl ''Configured gateway port is occupied by a foreign or unattested listener'')
               else if gn_managementUp net
               then (effects, Inl ''Configured management port is occupied by a foreign or unattested listener'')
               else (case found of
                       None \<Rightarrow> (effects @ [Start_owned leaseId], start leaseId)
                     | Some r \<Rightarrow>
                         (case remove (ow_instanceId r) of
                            Inl e \<Rightarrow> (effects @ [Remove_artifacts (ow_instanceId r)], Inl e)
                          | Inr _ \<Rightarrow>
                              (effects @ [Remove_artifacts (ow_instanceId r), Start_owned leaseId], start leaseId)))))"

text \<open>The record a started gateway writes of itself.\<close>

definition owned_record ::
  "(string \<Rightarrow> string) \<Rightarrow> process_identity \<Rightarrow> int \<Rightarrow> string \<Rightarrow> string \<Rightarrow> build_identity \<Rightarrow> string \<Rightarrow> string \<Rightarrow> ownership_record" where
  "owned_record sha process port instanceId configFingerprint build secret leaseId =
     \<lparr>ow_pid = pi_pid process, ow_processStartedAt = pi_processStartedAt process, ow_instanceId = instanceId, ow_port = port,
      ow_executableFingerprint = buildIdentityDigest sha build, ow_configFingerprint = configFingerprint,
      ow_nonceHash = sha secret, ow_ownerLauncherPid = pi_pid process, ow_leases = [leaseId]\<rparr>"

section \<open>The resident runtime\<close>

record resident_handle =
  rh_instanceId :: string
  rh_runtimeVersion :: string
  rh_alreadyRunning :: bool

text \<open>
  One round of a loop over the resident runtime: what the inspection finds, whether the deadline has passed, and what an
  acquisition would give. The rounds a loop does not reach do not matter; a loop that uses all of them has not
  returned.
\<close>

record resident_round =
  rr_inspection :: "string + runtime_inspection"
  rr_late :: bool
  rr_acquired :: "string + gateway_handle"

fun startResidentRuntime :: "resident_round list \<Rightarrow> (string + resident_handle) option" where
  "startResidentRuntime [] = None"
| "startResidentRuntime (now # later) =
     (case rr_inspection now of
        Inl e \<Rightarrow> Some (Inl e)
      | Inr (Attested_compatible resident version instanceId _) \<Rightarrow>
          if resident
          then Some (Inr \<lparr>rh_instanceId = instanceId, rh_runtimeVersion = get_or RUNTIME_VERSION version,
                          rh_alreadyRunning = True\<rparr>)
          else if rr_late now
          then Some (Inl ''An active non-resident launcher session holds the gateway; wait for it to exit and run init again'')
          else startResidentRuntime later
      | Inr Occupied_foreign \<Rightarrow>
          Some (Inl ''Configured gateway or management port is occupied by a foreign listener; refusing to start the resident service'')
      | Inr Attested_incompatible \<Rightarrow>
          Some (Inl ''Configured gateway listener is attested but incompatible; align the configuration before starting the resident service'')
      | Inr _ \<Rightarrow>
          (case rr_acquired now of
             Inl e \<Rightarrow> Some (Inl e)
           | Inr handle \<Rightarrow>
               if gh_resident handle
               then Some (Inr \<lparr>rh_instanceId = gh_instanceId handle,
                               rh_runtimeVersion = get_or RUNTIME_VERSION (gh_runtimeVersion handle), rh_alreadyRunning = False\<rparr>)
               else startResidentRuntime later))"

datatype stop_result = Resident_stopped | Resident_not_running

text \<open>The polls after the shutdown request: the inspection and whether the deadline has passed.\<close>

fun await_stop :: "((string + runtime_inspection) \<times> bool) list \<Rightarrow> (string + stop_result) option" where
  "await_stop [] = None"
| "await_stop ((inspection, late) # polls) =
     (case inspection of
        Inl e \<Rightarrow> await_stop polls
      | Inr state \<Rightarrow>
          if state = Not_running \<or> state = Stale_record then Some (Inr Resident_stopped)
          else if late then Some (Inl ''Gateway did not stop within the bounded shutdown window'')
          else await_stop polls)"


section \<open>A digest names its build\<close>

lemma foldl_digits_snoc: "foldl (\<lambda>n c. 10 * n + (of_char c - 48)) 0 (cs @ [c]) = (10 * foldl (\<lambda>n c. 10 * n + (of_char c - 48)) 0 cs + (of_char c - 48) :: nat)"
  by simp

lemma show_nat_value: "foldl (\<lambda>n c. 10 * n + (of_char c - 48)) 0 (show_nat n) = (n::nat)"
proof (induction n rule: show_nat.induct)
  case (1 n)
  show ?case
  proof (cases "n < 10")
    case True
    then show ?thesis by (simp add: show_nat.simps [of n])
  next
    case False
    have "of_char (char_of (48 + n mod 10) :: char) = 48 + n mod 10" by simp
    with False 1 show ?thesis by (simp add: show_nat.simps [of n])
  qed
qed

lemma show_nat_inject: "show_nat m = show_nat n \<longleftrightarrow> m = n"
  using show_nat_value by metis

lemma show_nat_digits: "c \<in> set (show_nat n) \<Longrightarrow> is_digit_char c"
proof (induction n rule: show_nat.induct)
  case (1 n)
  then show ?case by (subst (asm) show_nat.simps) (auto simp: is_digit_char_def split: if_splits)
qed

lemma show_int_inject: "0 \<le> i \<Longrightarrow> 0 \<le> j \<Longrightarrow> show_int i = show_int j \<longleftrightarrow> i = j"
  by (auto simp: show_int_def show_nat_inject)

lemma sep_split:
  assumes "c \<notin> set p" and "c \<notin> set q"
  shows "p @ c # s = q @ c # t \<longleftrightarrow> p = q \<and> s = t"
  using assms
proof (induction p arbitrary: q)
  case Nil
  then show ?case by (cases q) auto
next
  case (Cons a p)
  then show ?case by (cases q) auto
qed

lemma join_with_Cons: "ps \<noteq> [] \<Longrightarrow> join_with [c] (p # ps) = p @ c # join_with [c] ps"
  by (cases ps) simp_all

lemma join_with_inject:
  "length ps = length qs \<Longrightarrow> \<forall>p\<in>set ps. c \<notin> set p \<Longrightarrow> \<forall>q\<in>set qs. c \<notin> set q
   \<Longrightarrow> join_with [c] ps = join_with [c] qs \<Longrightarrow> ps = qs"
proof (induction ps qs rule: list_induct2)
  case (Cons p ps q qs)
  show ?case
  proof (cases "ps = []")
    case False
    with Cons.hyps have "qs \<noteq> []" by auto
    with False Cons show ?thesis by (simp add: join_with_Cons sep_split)
  qed (use Cons in simp)
qed simp

text \<open>A build whose texts hold no NUL, as the schema does not forbid but every build has it.\<close>

definition plain_build :: "build_identity \<Rightarrow> bool" where
  "plain_build b \<longleftrightarrow>
     (\<forall>p\<in>set (identity_parts b). NUL \<notin> set p) \<and> bi_artifactId b \<noteq> Some []
     \<and> 0 \<le> bi_controlProtocolVersion b \<and> 0 \<le> bi_dataProtocolVersion b \<and> 0 \<le> bi_stateSchemaVersion b"

definition identity_text :: "build_identity \<Rightarrow> string" where
  "identity_text b = join_with [NUL] (identity_parts b)"

lemma length_identity_parts [simp]: "length (identity_parts b) = 9"
  by (simp add: identity_parts_def)

lemma identity_text_inject:
  assumes "plain_build l" and "plain_build r"
  shows "identity_text l = identity_text r \<longleftrightarrow> l = r"
proof
  assume "identity_text l = identity_text r"
  then have "identity_parts l = identity_parts r"
    using assms join_with_inject [of "identity_parts l" "identity_parts r" NUL]
    by (simp add: identity_text_def plain_build_def)
  then show "l = r"
    using assms
    by (cases l; cases r; cases "bi_artifactId l"; cases "bi_artifactId r")
       (auto simp: identity_parts_def plain_build_def show_int_inject)
qed simp

lemma digest_of_text: "buildIdentityDigest sha b = sha (identity_text b)"
  by (simp add: buildIdentityDigest_def identity_text_def)

lemma exactIdentityMatch_iff:
  assumes "plain_build l" and "plain_build r" and "inj_on sha {identity_text l, identity_text r}"
  shows "exactIdentityMatch sha l r \<longleftrightarrow> l = r"
  using assms identity_text_inject [OF assms(1,2)] by (auto simp: exactIdentityMatch_def digest_of_text inj_on_def)

lemma identity_text_has_NUL: "NUL \<in> set (identity_text b)"
  by (simp add: identity_text_def identity_parts_def)

text \<open>Without that condition two builds can share a digest: the separator is not escaped.\<close>

lemma digest_collision:
  "exactIdentityMatch sha (defaultBuildIdentity\<lparr>bi_commitRevision := ''a'' @ [NUL] @ ''b'', bi_buildId := ''c''\<rparr>)
     (defaultBuildIdentity\<lparr>bi_commitRevision := ''a'', bi_buildId := ''b'' @ [NUL] @ ''c''\<rparr>)"
  by (simp add: exactIdentityMatch_def buildIdentityDigest_def identity_parts_def)

section \<open>Attestation\<close>

lemma identityChallenge_Some:
  "identityChallenge hmac product challenge secret answer = Some i \<longleftrightarrow>
     answer challenge = Some i \<and> gi_product i = Some product \<and> gi_protocolVersion i = Some 1
     \<and> (\<exists>p. gi_proof i = Some p
           \<and> safeHexEqual p (identity_proof hmac product secret challenge (get_or [] (gi_instanceId i))
                                (get_or [] (gi_configFingerprint i))))"
  by (auto simp: identityChallenge_def split: option.splits)

lemma own_identity_accepted:
  assumes "challengePattern challenge"
  shows "identityChallenge hmac ''rly-gateway'' challenge (io_authToken opts) (identity_route hmac opts)
           = identity_route hmac opts challenge"
    and "identityChallenge hmac ''rly-gateway-management'' challenge token (management_identity_route hmac token inst fp)
           = management_identity_route hmac token inst fp challenge"
  using assms
  by (simp_all add: identityChallenge_def identity_route_def management_identity_route_def createIdentityProof_def
      createManagementIdentityProof_def safeHexEqual_def)

text \<open>The machine while a gateway serves: the artifacts it wrote at its start, and its two listeners.\<close>

definition served_net ::
  "macs \<Rightarrow> identity_options \<Rightarrow> string \<Rightarrow> process_identity \<Rightarrow> int \<Rightarrow> string \<Rightarrow> build_identity
     \<Rightarrow> (int \<Rightarrow> string option) \<Rightarrow> (string \<Rightarrow> string \<Rightarrow> string + nat) \<Rightarrow> gateway_net" where
  "served_net macs opts managementSecret process port leaseId build started request =
     \<lparr>gn_record = Inr (Some (owned_record (snd macs) process port (io_instanceId opts) (io_configFingerprint opts) build
                         (io_authToken opts) leaseId)),
      gn_secret = Inr (Some (io_authToken opts)), gn_managementSecret = Inr (Some managementSecret),
      gn_gateway = identity_route (fst macs) opts,
      gn_management = management_identity_route (fst macs) managementSecret (io_instanceId opts) (io_configFingerprint opts),
      gn_gatewayUp = True, gn_managementUp = True, gn_started = started, gn_request = request\<rparr>"

lemma served_artifacts:
  assumes "io_authToken opts \<noteq> []" and "managementSecret \<noteq> []"
  shows "read_artifacts (served_net macs opts managementSecret process port leaseId build started request) =
    (let r = owned_record (snd macs) process port (io_instanceId opts) (io_configFingerprint opts) build (io_authToken opts) leaseId
     in Inr (Some r, Some (r, io_authToken opts, managementSecret)))"
  using assms by (simp add: read_artifacts_def served_net_def Let_def)

lemma served_attested:
  assumes "challengePattern (fst challenges)" and "challengePattern (snd challenges)"
  shows "attestedIdentities (fst macs) challenges (served_net macs opts managementSecret process port leaseId build started request)
           (io_authToken opts) managementSecret =
     map_option (\<lambda>i. (i, management_identity_route (fst macs) managementSecret (io_instanceId opts)
                          (io_configFingerprint opts) (snd challenges)))
       (identity_route (fst macs) opts (fst challenges))"
  using assms by (simp add: attestedIdentities_def served_net_def own_identity_accepted)

text \<open>A build-aware record accepts exactly its own build.\<close>

lemma buildMatches_own:
  assumes "plain_build build" and "plain_build served" and "gi_build i = Some served"
    and "inj_on sha {''rly-gateway:0.1.0'', identity_text build, identity_text served}"
  shows "buildMatchesRecord sha (owned_record sha process port inst fp build secret leaseId) i \<longleftrightarrow> served = build"
proof -
  have "identity_text build \<noteq> ''rly-gateway:0.1.0''"
    using identity_text_has_NUL [of build] by (auto simp: NUL_def)
  moreover have "sha (identity_text build) = sha ''rly-gateway:0.1.0'' \<longleftrightarrow> identity_text build = ''rly-gateway:0.1.0''"
    by (rule inj_on_eq_iff [OF assms(4)]) auto
  moreover have "sha (identity_text served) = sha (identity_text build) \<longleftrightarrow> identity_text served = identity_text build"
    by (rule inj_on_eq_iff [OF assms(4)]) auto
  ultimately show ?thesis
    using assms(3) identity_text_inject [OF assms(2,1)]
    by (simp add: buildMatchesRecord_def owned_record_def EXECUTABLE_FINGERPRINT_def digest_of_text)
qed

text \<open>The gateway recognises its own, and nothing else as its own. While an owned gateway serves with the secrets and the
  record it wrote, an inspection by a launcher with a configuration calls it compatible exactly when that is the
  configuration it was started with, the build it reports is the one in the record (two builds of one version are told apart
  by any field and by the artifact), and the recorded process still has its start time; otherwise it is attested but
  incompatible, and never taken for a foreign listener.\<close>

theorem own_gateway_recognised:
  assumes "challengePattern (fst challenges)" and "challengePattern (snd challenges)"
    and "io_authToken opts \<noteq> []" and "managementSecret \<noteq> []" and "io_buildIdentity opts = Some served"
    and "plain_build build" and "plain_build served"
    and "inj_on sha {''rly-gateway:0.1.0'', identity_text build, identity_text served}"
  shows "inspectRuntimeGateway (hmac, sha) challenges configFingerprint
           (served_net (hmac, sha) opts managementSecret process port leaseId build started request) =
         Inr (if configFingerprint = io_configFingerprint opts \<and> served = build
                 \<and> started (pi_pid process) = Some (pi_processStartedAt process)
              then Attested_compatible (io_resident opts = Some True)
                     (Some (get_or RUNTIME_VERSION (io_runtimeVersion opts))) (io_instanceId opts) (Some served)
              else Attested_incompatible)"
proof -
  let ?net = "served_net (hmac, sha) opts managementSecret process port leaseId build started request"
  let ?r = "owned_record sha process port (io_instanceId opts) (io_configFingerprint opts) build (io_authToken opts) leaseId"
  obtain i where i: "identity_route hmac opts (fst challenges) = Some i" "gi_build i = Some served"
    "gi_instanceId i = Some (io_instanceId opts)" "gi_configFingerprint i = Some (io_configFingerprint opts)"
    "gi_resident i = io_resident opts" "gi_runtimeVersion i = Some (get_or RUNTIME_VERSION (io_runtimeVersion opts))"
    using assms(1,5) by (simp add: identity_route_def)
  obtain m where m: "management_identity_route hmac managementSecret (io_instanceId opts) (io_configFingerprint opts) (snd challenges) = Some m"
    "gi_instanceId m = Some (io_instanceId opts)"
    using assms(2) by (simp add: management_identity_route_def)
  have att: "attestedIdentities hmac challenges ?net (io_authToken opts) managementSecret = Some (i, Some m)"
    using served_attested [OF assms(1,2), of "(hmac, sha)"] i(1) m(1) by simp
  have fields: "ow_instanceId ?r = io_instanceId opts" "ow_configFingerprint ?r = io_configFingerprint opts"
    "ow_pid ?r = pi_pid process" "ow_processStartedAt ?r = pi_processStartedAt process" "gn_started ?net = started"
    by (simp_all add: owned_record_def served_net_def)
  have reuse: "reusableRecord sha ?r i configFingerprint \<longleftrightarrow> configFingerprint = io_configFingerprint opts \<and> served = build"
    using i buildMatches_own [OF assms(6,7) i(2) assms(8)] fields by (auto simp: reusableRecord_def)
  show ?thesis
    unfolding inspectRuntimeGateway_def served_artifacts [OF assms(3,4)]
    using reuse fields i m by (simp add: Let_def bind_ok_simps att)
qed










section \<open>A served gateway, concretely\<close>

definition demo_challenge :: string where "demo_challenge = replicate 43 (CHR ''c'')"

definition demo_identity_options :: identity_options where
  "demo_identity_options =
     \<lparr>io_authToken = ''secret'', io_instanceId = ''instance'', io_configFingerprint = ''config'', io_runtimeVersion = None,
      io_stateVersion = Some 2, io_resident = Some True, io_buildIdentity = Some defaultBuildIdentity, io_sessions = 1,
      io_draining = False, io_update = None\<rparr>"

definition demo_macs :: macs where "demo_macs = (\<lambda>key text. text, \<lambda>text. text)"

definition demo_net :: gateway_net where
  "demo_net = served_net demo_macs demo_identity_options ''management'' \<lparr>pi_pid = 7, pi_processStartedAt = ''t''\<rparr> 8080 ''lease''
     defaultBuildIdentity (\<lambda>pid. if pid = 7 then Some ''t'' else None) (\<lambda>path secret. Inr 202)"

lemma plain_default: "plain_build defaultBuildIdentity"
  by code_simp

lemma demo_challenge_ok: "challengePattern demo_challenge"
  by (simp add: challengePattern_def demo_challenge_def is_letter_def numeral_eq_Suc)

theorem own_gateway_recognised_witness:
  "inspectRuntimeGateway demo_macs (demo_challenge, demo_challenge) ''config'' demo_net
     = Inr (Attested_compatible True (Some ''0.1.0'') ''instance'' (Some defaultBuildIdentity))
   \<and> inspectRuntimeGateway demo_macs (demo_challenge, demo_challenge) ''other'' demo_net = Inr Attested_incompatible"
proof -
  have "inspectRuntimeGateway demo_macs (demo_challenge, demo_challenge) configFingerprint demo_net
      = Inr (if configFingerprint = ''config''
             then Attested_compatible True (Some ''0.1.0'') ''instance'' (Some defaultBuildIdentity) else Attested_incompatible)" for configFingerprint
    unfolding demo_net_def demo_macs_def
    by (subst own_gateway_recognised [where served = defaultBuildIdentity])
       (simp_all add: demo_challenge_ok demo_identity_options_def plain_default RUNTIME_VERSION_def)
  then show ?thesis by simp
qed


section \<open>Deviations\<close>

text \<open>Stopping waits without a bound while the runtime directory cannot be read: the deadline is not looked at then.\<close>

lemma stop_waits_unbounded:
  "(\<forall>poll\<in>set polls. \<exists>e. poll = (Inl e, True)) \<Longrightarrow> await_stop polls = None"
  by (induction polls) auto

text \<open>An inspection does not look at the configuration the management listener reports; a launch does.\<close>

lemma inspection_weaker_than_reuse:
  defines "net \<equiv> demo_net\<lparr>gn_management := management_identity_route (fst demo_macs) ''management'' ''instance'' ''other''\<rparr>"
  shows "inspectRuntimeGateway demo_macs (demo_challenge, demo_challenge) ''config'' net
           = Inr (Attested_compatible True (Some ''0.1.0'') ''instance'' (Some defaultBuildIdentity))
         \<and> snd (acquireGatewayOnce demo_macs (demo_challenge, demo_challenge) ''config'' net (\<lambda>_. Inr ()) (\<lambda>_. Inl []) ''l'')
             = Inl ''Configured gateway listener is attested but incompatible''"
  unfolding net_def by code_simp

end
