(* ===== verification/Update_Lifecycle.thy ===== *)
theory Update_Lifecycle
  imports Gateway_Identity
begin

text \<open>
  The self-update: \<^verbatim>\<open>src/runtime/update/lifecycle.ts\<close>, over an installer given by its operations
  (\<open>CandidateInstaller\<close>), the state file, the service manager and a changing machine.

  A run is the list of worlds it leaves, one after each change or observation, with its result
  (\<open>Inl\<close>: it throws): a crash leaves one of them. The machine is given by the number of the observation,
  the service manager by the number and the command. A loop with a deadline is given the number of
  polls that come before it. The update lock is held throughout; writing the state file fails only
  where the schema refuses the record.
\<close>

section \<open>The world of a run\<close>

datatype service_command = Service_register | Service_restart | Service_start

record 's installer_ops =
  op_install :: "candidate_source \<Rightarrow> 's \<Rightarrow> 's list \<times> (string + install_result)"
  op_verify :: "'s \<Rightarrow> string + candidate_verification"
  op_activate :: "'s \<Rightarrow> 's list \<times> (string + install_result)"
  op_setActive :: "string \<Rightarrow> string option \<Rightarrow> 's \<Rightarrow> 's list \<times> (string + unit)"
  op_restore :: "'s \<Rightarrow> 's list \<times> (string + install_result)"
  op_manifest :: "'s \<Rightarrow> string + candidate_manifest option"

record 's update_deps =
  ud_ops :: "'s installer_ops"
  ud_net :: "nat \<Rightarrow> gateway_net"
  ud_service :: "nat \<Rightarrow> service_command \<Rightarrow> string + unit"
  ud_macs :: macs
  ud_challenges :: "nat \<Rightarrow> string \<times> string"
  ud_configFingerprint :: string
  ud_clock :: "nat \<Rightarrow> string"
  ud_candidate :: "candidate_source option"
  ud_installOnly :: bool
  ud_force :: bool
  ud_serviceDefinition :: bool
  ud_cliStateVersion :: "int option"
  ud_drainPolls :: nat
  ud_readinessPolls :: nat

record 's update_world =
  uw_file :: update_file
  uw_store :: 's
  uw_now :: nat
  uw_commands :: "service_command list"

type_synonym ('s, 'a) update_run = "'s update_world list \<times> (string + 'a)"

definition tick :: "'s update_world \<Rightarrow> 's update_world" where
  "tick w = w\<lparr>uw_now := Suc (uw_now w)\<rparr>"

definition observe_step :: "(nat \<Rightarrow> string + 'a) \<Rightarrow> 's update_world \<Rightarrow> ('s, 'a) update_run" where
  "observe_step f w = ([tick w], f (uw_now w))"

definition service_step :: "'s update_deps \<Rightarrow> service_command \<Rightarrow> 's update_world \<Rightarrow> ('s, unit) update_run" where
  "service_step deps c w = ([tick w\<lparr>uw_commands := uw_commands w @ [c]\<rparr>], ud_service deps (uw_now w) c)"

definition write_step :: "update_state_record \<Rightarrow> 's update_world \<Rightarrow> ('s, unit) update_run" where
  "write_step r w =
     (case write_update r of Inl e \<Rightarrow> ([], Inl e) | Inr f \<Rightarrow> ([w\<lparr>uw_file := f\<rparr>], Inr ()))"

definition transition_step ::
  "update_state option list \<Rightarrow> (update_state_record option \<Rightarrow> update_state_record) \<Rightarrow> 's update_world
     \<Rightarrow> ('s, update_state_record) update_run" where
  "transition_step expected update w =
     (case transitionUnderLock expected update (uw_file w) of
        Inl e \<Rightarrow> ([], Inl e)
      | Inr next \<Rightarrow> ([w\<lparr>uw_file := Stored next\<rparr>], Inr next))"

definition store_step :: "('s \<Rightarrow> 's list \<times> (string + 'a)) \<Rightarrow> 's update_world \<Rightarrow> ('s, 'a) update_run" where
  "store_step f w = (case f (uw_store w) of (ss, r) \<Rightarrow> (map (\<lambda>s. w\<lparr>uw_store := s\<rparr>) ss, r))"

definition catch_step ::
  "'s update_world \<Rightarrow> ('s, 'a) update_run \<Rightarrow> ('s update_world \<Rightarrow> string \<Rightarrow> ('s, 'a) update_run) \<Rightarrow> ('s, 'a) update_run" where
  "catch_step w run handler =
     (case run of
        (ws, Inr x) \<Rightarrow> (ws, Inr x)
      | (ws, Inl e) \<Rightarrow> (case handler (last (w # ws)) e of (ws', r) \<Rightarrow> (ws @ ws', r)))"

definition stamp :: "'s update_deps \<Rightarrow> 's update_world \<Rightarrow> string" where
  "stamp deps w = ud_clock deps (uw_now w)"

section \<open>Observations of the runtime\<close>

definition inspect_at :: "'s update_deps \<Rightarrow> nat \<Rightarrow> string + runtime_inspection" where
  "inspect_at deps t =
     inspectRuntimeGateway (ud_macs deps) (ud_challenges deps t) (ud_configFingerprint deps) (ud_net deps t)"

definition inspect_step :: "'s update_deps \<Rightarrow> 's update_world \<Rightarrow> ('s, runtime_inspection) update_run" where
  "inspect_step deps = observe_step (inspect_at deps)"

definition proven_identity :: "macs \<Rightarrow> string \<Rightarrow> string \<Rightarrow> listener \<Rightarrow> gateway_identity option" where
  "proven_identity macs challenge secret answer =
     (case answer challenge of
        None \<Rightarrow> None
      | Some i \<Rightarrow>
          (case (gi_proof i, gi_instanceId i, gi_configFingerprint i) of
             (Some p, Some inst, Some fp) \<Rightarrow>
               if safeHexEqual p (createIdentityProof (fst macs) secret challenge inst fp) then Some i else None
           | _ \<Rightarrow> None))"

definition read_identity_at :: "'s update_deps \<Rightarrow> nat \<Rightarrow> string + gateway_identity option" where
  "read_identity_at deps t =
     bind_ok (gn_secret (ud_net deps t)) (\<lambda>secret.
       Inr (case secret of
              None \<Rightarrow> None
            | Some s \<Rightarrow> proven_identity (ud_macs deps) (fst (ud_challenges deps t)) s (gn_gateway (ud_net deps t))))"

definition readRuntimeIdentity :: "'s update_deps \<Rightarrow> 's update_world \<Rightarrow> ('s, gateway_identity option) update_run" where
  "readRuntimeIdentity deps = observe_step (read_identity_at deps)"

definition success_status :: "nat \<Rightarrow> bool" where
  "success_status n \<longleftrightarrow> 200 \<le> n \<and> n < 300"

definition ready_at :: "'s update_deps \<Rightarrow> nat \<Rightarrow> string + bool" where
  "ready_at deps t =
     bind_ok (gn_secret (ud_net deps t)) (\<lambda>secret.
       Inr (case secret of
              None \<Rightarrow> False
            | Some s \<Rightarrow> (case gn_request (ud_net deps t) ''/readyz'' s of Inl _ \<Rightarrow> False | Inr n \<Rightarrow> success_status n)))"

definition authenticatedReadiness :: "'s update_deps \<Rightarrow> 's update_world \<Rightarrow> ('s, bool) update_run" where
  "authenticatedReadiness deps = observe_step (ready_at deps)"

definition drain_at :: "'s update_deps \<Rightarrow> nat \<Rightarrow> string + bool" where
  "drain_at deps t =
     bind_ok (gn_secret (ud_net deps t)) (\<lambda>secret.
       case secret of
         None \<Rightarrow> Inr False
       | Some s \<Rightarrow> bind_ok (gn_request (ud_net deps t) ''/drain'' s) (\<lambda>n. Inr (success_status n \<or> n = 409)))"

fun attested_resident :: "runtime_inspection \<Rightarrow> bool" where
  "attested_resident (Attested_compatible resident _ _ _) \<longleftrightarrow> resident"
| "attested_resident _ \<longleftrightarrow> False"

definition is_down :: "runtime_inspection \<Rightarrow> bool" where
  "is_down i \<longleftrightarrow> i = Not_running \<or> i = Stale_record"

definition beginDrain :: "'s update_deps \<Rightarrow> 's update_world \<Rightarrow> ('s, bool) update_run" where
  "beginDrain deps w =
     then_step w (inspect_step deps w) (\<lambda>w state.
       if \<not> attested_resident state then pure_step (Inr False) else observe_step (drain_at deps) w)"

text \<open>\<open>None\<close>: drained. \<open>Some sessions\<close>: the deadline passed at this last count.\<close>

fun waitForSessionDrain :: "'s update_deps \<Rightarrow> nat \<Rightarrow> 's update_world \<Rightarrow> ('s, int option option) update_run" where
  "waitForSessionDrain deps polls w =
     then_step w (readRuntimeIdentity deps w) (\<lambda>w identity.
       let sessions = Option.bind identity gi_activeSessions
       in if sessions = Some 0 then pure_step (Inr None)
          else case polls of 0 \<Rightarrow> pure_step (Inr (Some sessions)) | Suc n \<Rightarrow> waitForSessionDrain deps n w)"

record restart_result =
  rs_ok :: bool
  rs_restarted :: bool
  rs_reason :: string

definition controlledRestart :: "'s update_deps \<Rightarrow> 's update_world \<Rightarrow> ('s, restart_result) update_run" where
  "controlledRestart deps w =
     then_step w (inspect_step deps w) (\<lambda>w state.
       let running = attested_resident state;
           refused = (\<lambda>restarted reason. \<lparr>rs_ok = False, rs_restarted = restarted, rs_reason = reason\<rparr>)
       in then_step w
            (if ud_serviceDefinition deps
             then (case service_step deps Service_register w of
                     (ws, Inl e) \<Rightarrow> (ws, Inr (Some (refused False (''service definition registration failed: '' @ e))))
                   | (ws, Inr _) \<Rightarrow> (ws, Inr None))
             else pure_step (Inr None)) (\<lambda>w failed.
          case failed of
            Some r \<Rightarrow> pure_step (Inr r)
          | None \<Rightarrow>
              (case service_step deps (if running then Service_restart else Service_start) w of
                 (ws, Inl e) \<Rightarrow> (ws, Inr (refused running (''service restart failed: '' @ e)))
               | (ws, Inr _) \<Rightarrow> (ws, Inr \<lparr>rs_ok = True, rs_restarted = running, rs_reason = ''service restarted''\<rparr>))))"

text \<open>What is wrong with the identity of the restarted runtime, if anything.\<close>

definition identity_fault :: "int option \<Rightarrow> string option \<Rightarrow> string option \<Rightarrow> gateway_identity \<Rightarrow> string option" where
  "identity_fault cliStateVersion pendingVersion pendingArtifactId i =
     (if gi_protocolVersion i \<noteq> None \<and> gi_protocolVersion i \<noteq> Some RUNTIME_PROTOCOL_VERSION
      then Some ''restarted runtime management/data protocol is not compatible with this RLY''
      else if pendingVersion \<noteq> None \<and> gi_runtimeVersion i \<noteq> pendingVersion
      then Some ''serving runtime version does not match the pending candidate''
      else
        let served = Option.bind (gi_build i) bi_artifactId
        in if pendingArtifactId \<noteq> None \<and> served \<noteq> None \<and> served \<noteq> pendingArtifactId
           then Some ''serving runtime artifact digest does not match the pending candidate deployment; same semantic version, different artifact''
           else if pendingArtifactId \<noteq> None \<and> served \<noteq> None \<and> map_option bi_semanticVersion (gi_build i) \<noteq> pendingVersion
           then Some ''serving build identity version does not match the pending candidate''
           else if pendingArtifactId \<noteq> None \<and> served \<noteq> None
                   \<and> map_option bi_controlProtocolVersion (gi_build i) \<noteq> Some RUNTIME_PROTOCOL_VERSION
           then Some ''serving build control protocol is not compatible''
           else (case cliStateVersion of
                   None \<Rightarrow> None
                 | Some v \<Rightarrow>
                     if stateVersionsCompatible v (gi_stateVersion i) then None
                     else Some ''serving runtime state/schema version is not compatible with this RLY''))"

definition verify_attested ::
  "'s update_deps \<Rightarrow> string option \<Rightarrow> string option \<Rightarrow> 's update_world \<Rightarrow> ('s, string option) update_run" where
  "verify_attested deps pendingVersion pendingArtifactId w =
     then_step w (readRuntimeIdentity deps w) (\<lambda>w identity.
       case identity of
         None \<Rightarrow> pure_step (Inr (Some ''restarted runtime identity could not be attested''))
       | Some i \<Rightarrow>
           (case identity_fault (ud_cliStateVersion deps) pendingVersion pendingArtifactId i of
              Some reason \<Rightarrow> pure_step (Inr (Some reason))
            | None \<Rightarrow>
                then_step w (authenticatedReadiness deps w) (\<lambda>w ready.
                  pure_step (Inr (if ready then None
                                  else Some ''restarted runtime readiness check failed (management/state open)'')))))"

text \<open>\<open>None\<close>: verified. \<open>Some\<close>: the reason it is not.\<close>

fun verifyCandidateRuntime ::
  "'s update_deps \<Rightarrow> string option \<Rightarrow> string option \<Rightarrow> nat \<Rightarrow> 's update_world \<Rightarrow> ('s, string option) update_run" where
  "verifyCandidateRuntime deps pendingVersion pendingArtifactId polls w =
     then_step w (inspect_step deps w) (\<lambda>w state.
       case state of
         Occupied_foreign \<Rightarrow>
           pure_step (Inr (Some ''configured gateway port is owned by a foreign listener after restart; RLY will not signal it (fail closed)''))
       | Attested_incompatible \<Rightarrow>
           pure_step (Inr (Some ''restarted runtime is attested but incompatible with the current configuration''))
       | Attested_compatible _ _ _ _ \<Rightarrow> verify_attested deps pendingVersion pendingArtifactId w
       | _ \<Rightarrow>
           (case polls of
              0 \<Rightarrow> pure_step (Inr (Some (''restarted runtime did not become attested-compatible within the bounded window (state: ''
                                          @ inspection_text state @ '')'')))
            | Suc n \<Rightarrow> verifyCandidateRuntime deps pendingVersion pendingArtifactId n w))"

declare waitForSessionDrain.simps [simp del] verifyCandidateRuntime.simps [simp del]

section \<open>Results\<close>

datatype update_outcome = Out_installed | Out_activated | Out_pending | Out_rolled_back | Out_failed | Out_no_candidate

record update_result =
  ur_outcome :: update_outcome
  ur_state :: update_state
  ur_phase :: "transaction_phase option"
  ur_currentVersion :: string
  ur_pendingVersion :: "string option"
  ur_message :: string

section \<open>Rollback\<close>

definition enterRecoveryRequired ::
  "'s update_deps \<Rightarrow> update_state_record \<Rightarrow> string \<Rightarrow> 's update_world \<Rightarrow> ('s, update_result) update_run" where
  "enterRecoveryRequired deps r reason w =
     (let failed = r\<lparr>us_state := Up_recovery_required,
            us_transaction := map_option (\<lambda>tx. tx\<lparr>tx_phase := Ph_recovery_required, tx_recoveryReason := Some reason,
                                                  tx_updatedAt := stamp deps w\<rparr>) (us_transaction r),
            us_updatedAt := stamp deps w, us_failureReason := Some reason\<rparr>
      in then_step w (write_step failed w) (\<lambda>w _.
           pure_step (Inr
             \<lparr>ur_outcome = Out_failed, ur_state = Up_recovery_required, ur_phase = map_option tx_phase (us_transaction failed),
              ur_currentVersion = us_currentVersion r, ur_pendingVersion = us_pendingVersion r, ur_message = reason\<rparr>)))"

text \<open>The record of a rollback in progress, and that of a completed one.\<close>

definition rolling_back_record :: "'s update_deps \<Rightarrow> string \<Rightarrow> 's update_world \<Rightarrow> update_state_record \<Rightarrow> update_state_record" where
  "rolling_back_record deps reason w r =
     r\<lparr>us_state := Up_rollback_required,
       us_transaction := map_option (\<lambda>tx. tx\<lparr>tx_phase := Ph_rolling_back, tx_rollbackAttempts := 1,
           tx_lastRollbackOutcome := Some \<lparr>ar_ok = False, ar_attemptedAt = stamp deps w, ar_reason = Some reason\<rparr>,
           tx_updatedAt := stamp deps w\<rparr>) (us_transaction r),
       us_updatedAt := stamp deps w, us_failureReason := Some (''activation failed: '' @ reason)\<rparr>"

definition rolled_back_record ::
  "'s update_deps \<Rightarrow> string \<Rightarrow> update_transaction option \<Rightarrow> install_result \<Rightarrow> 's update_world \<Rightarrow> update_state_record
     \<Rightarrow> update_state_record" where
  "rolled_back_record deps reason tx restored w r =
     r\<lparr>us_state := Up_active, us_currentVersion := in_version restored, us_pendingVersion := None,
       us_currentArtifactId := Some (in_artifactId restored),
       us_previousArtifactId := (if in_previousArtifactId restored = None then us_previousArtifactId r
                                 else in_previousArtifactId restored),
       us_updatedAt := stamp deps w,
       us_lastActivationResult := Some \<lparr>ar_ok = False, ar_attemptedAt = stamp deps w, ar_reason = Some reason\<rparr>,
       us_lastRollbackResult := Some \<lparr>ar_ok = True, ar_attemptedAt = stamp deps w, ar_reason = None\<rparr>,
       us_transaction := (case tx of
           None \<Rightarrow> us_transaction r
         | Some t \<Rightarrow> Some (t\<lparr>tx_phase := Ph_committed,
             tx_lastRollbackOutcome := Some \<lparr>ar_ok = True, ar_attemptedAt = stamp deps w, ar_reason = None\<rparr>,
             tx_updatedAt := stamp deps w\<rparr>)),
       us_failureReason := None\<rparr>"

definition restore_references ::
  "'s update_deps \<Rightarrow> update_state_record \<Rightarrow> 's update_world \<Rightarrow> ('s, install_result) update_run" where
  "restore_references deps r w =
     (case us_transaction r of
        Some tx \<Rightarrow>
          (case tx_previousArtifactId tx of
             Some previous \<Rightarrow>
               then_step w (store_step (op_setActive (ud_ops deps) previous (Some (tx_candidateArtifactId tx))) w) (\<lambda>w _.
                 pure_step (Inr \<lparr>in_version = get_or (us_currentVersion r) (tx_previousVersion tx), in_artifactId = previous,
                                 in_previousVersion = Some (tx_candidateVersion tx),
                                 in_previousArtifactId = Some (tx_candidateArtifactId tx)\<rparr>))
           | None \<Rightarrow> store_step (op_restore (ud_ops deps)) w)
      | None \<Rightarrow> store_step (op_restore (ud_ops deps)) w)"

definition rollback ::
  "'s update_deps \<Rightarrow> update_state_record \<Rightarrow> bool \<Rightarrow> string \<Rightarrow> 's update_world \<Rightarrow> ('s, update_result) update_run" where
  "rollback deps r restarted reason w =
     (let tx = us_transaction r
      in if 1 \<le> (case tx of None \<Rightarrow> 0 | Some t \<Rightarrow> tx_rollbackAttempts t)
         then enterRecoveryRequired deps r
                (''rollback already attempted; activation failure is not automatically recoverable ('' @ reason @ ''); run rly doctor'') w
         else
           (let rolledBack = rolling_back_record deps reason w r
            in then_step w (write_step rolledBack w) (\<lambda>w _.
               catch_step w
                 (then_step w (restore_references deps r w) (\<lambda>w restored.
                  then_step w
                    (if restarted
                     then then_step w (service_step deps Service_restart w) (\<lambda>w _.
                          then_step w (verifyCandidateRuntime deps (Some (in_version restored)) (Some (in_artifactId restored))
                                         (ud_readinessPolls deps) w) (\<lambda>w fault.
                            case fault of
                              None \<Rightarrow> pure_step (Inr ())
                            | Some why \<Rightarrow> pure_step (Inl (''rollback runtime verification failed: '' @ why))))
                     else pure_step (Inr ())) (\<lambda>w _.
                  then_step w
                    (transition_step [Some Up_rollback_required]
                       (\<lambda>current. rolled_back_record deps reason tx restored w (get_or rolledBack current)) w) (\<lambda>w active.
                  pure_step (Inr
                    \<lparr>ur_outcome = Out_rolled_back, ur_state = Up_active, ur_phase = map_option tx_phase (us_transaction active),
                     ur_currentVersion = us_currentVersion active, ur_pendingVersion = None,
                     ur_message = ''activation failed ('' @ reason @ ''); rolled back to previous known-good version ''
                                  @ us_currentVersion active\<rparr>)))))
                 (\<lambda>w e. enterRecoveryRequired deps rolledBack
                          (''activation and rollback both failed: '' @ reason @ ''; '' @ e @ ''; run rly doctor'') w))))"

section \<open>Activation\<close>

definition transactionFor :: "'s update_deps \<Rightarrow> update_state_record \<Rightarrow> 's update_world \<Rightarrow> string + update_transaction" where
  "transactionFor deps r w =
     (case us_transaction r of
        Some tx \<Rightarrow> Inr tx
      | None \<Rightarrow>
          bind_ok (op_verify (ud_ops deps) (uw_store w)) (\<lambda>verified.
            if \<not> cv_ok verified
            then Inl (''cannot resume activation: staged candidate failed verification: ''
                      @ get_or ''unknown'' (cv_reason verified) @ ''; run rly doctor'')
            else (case cv_artifactId verified of
                    None \<Rightarrow> Inl ''cannot resume activation: the immutable artifact identity of the staged candidate is unavailable; re-run rly update''
                  | Some artifactId \<Rightarrow>
                      Inr \<lparr>tx_phase = Ph_draining, tx_startedAt = us_updatedAt r, tx_updatedAt = stamp deps w,
                           tx_candidateVersion = get_or (cv_version verified) (us_pendingVersion r),
                           tx_candidateArtifactId = artifactId, tx_previousVersion = us_previousVersion r,
                           tx_previousArtifactId = us_previousArtifactId r, tx_rollbackAttempts = 0,
                           tx_lastRollbackOutcome = None, tx_recoveryReason = None\<rparr>)))"

text \<open>The journal of \<open>tx\<close> at a phase, in the given record.\<close>

definition at_phase ::
  "'s update_deps \<Rightarrow> update_transaction \<Rightarrow> transaction_phase \<Rightarrow> 's update_world \<Rightarrow> update_state_record \<Rightarrow> update_state_record" where
  "at_phase deps tx phase w r =
     r\<lparr>us_transaction := Some (tx\<lparr>tx_phase := phase, tx_updatedAt := stamp deps w\<rparr>), us_updatedAt := stamp deps w\<rparr>"

definition stay_pending ::
  "'s update_deps \<Rightarrow> update_transaction \<Rightarrow> update_state_record \<Rightarrow> string \<Rightarrow> 's update_world \<Rightarrow> ('s, update_result) update_run" where
  "stay_pending deps tx activating message w =
     then_step w
       (transition_step [Some Up_activating]
          (\<lambda>current. (at_phase deps tx Ph_draining w (get_or activating current))\<lparr>us_state := Up_pending_activation\<rparr>) w)
       (\<lambda>w pending.
          pure_step (Inr
            \<lparr>ur_outcome = Out_pending, ur_state = Up_pending_activation, ur_phase = map_option tx_phase (us_transaction pending),
             ur_currentVersion = us_currentVersion pending, ur_pendingVersion = us_pendingVersion pending,
             ur_message = message\<rparr>))"

definition committed_record ::
  "'s update_deps \<Rightarrow> update_transaction \<Rightarrow> 's update_world \<Rightarrow> update_state_record \<Rightarrow> update_state_record" where
  "committed_record deps tx w r =
     r\<lparr>us_state := Up_active, us_currentVersion := tx_candidateVersion tx, us_pendingVersion := None,
       us_currentArtifactId := Some (tx_candidateArtifactId tx), us_pendingArtifactId := None,
       us_previousVersion := (if tx_previousVersion tx = None then us_previousVersion r else tx_previousVersion tx),
       us_previousArtifactId := (if tx_previousArtifactId tx = None then us_previousArtifactId r else tx_previousArtifactId tx),
       us_transaction := Some (tx\<lparr>tx_phase := Ph_committed, tx_updatedAt := stamp deps w\<rparr>), us_updatedAt := stamp deps w,
       us_lastActivationResult := Some \<lparr>ar_ok = True, ar_attemptedAt = stamp deps w, ar_reason = None\<rparr>,
       us_failureReason := None\<rparr>"

text \<open>From the switching boundary on: the switch, the restart, the probation and the commit, each failure rolled back.\<close>

definition commit_verified ::
  "'s update_deps \<Rightarrow> update_transaction \<Rightarrow> update_state_record \<Rightarrow> 's update_world \<Rightarrow> ('s, update_result) update_run" where
  "commit_verified deps tx probation w =
     then_step w
       (transition_step [Some Up_activating] (\<lambda>current. at_phase deps tx Ph_committing w (get_or probation current)) w)
       (\<lambda>w committing. let transaction = get_or tx (us_transaction committing) in
     then_step w
       (transition_step [Some Up_activating] (\<lambda>current. committed_record deps transaction w (get_or committing current)) w)
       (\<lambda>w active.
          pure_step (Inr
            \<lparr>ur_outcome = Out_activated, ur_state = Up_active, ur_phase = Some Ph_committed,
             ur_currentVersion = us_currentVersion active, ur_pendingVersion = None,
             ur_message = ''runtime activated at version '' @ us_currentVersion active\<rparr>)))"

definition candidate_of :: "update_state_record \<Rightarrow> string option \<times> string option" where
  "candidate_of r =
     (case us_transaction r of
        None \<Rightarrow> (us_pendingVersion r, us_pendingArtifactId r)
      | Some tx \<Rightarrow> (Some (tx_candidateVersion tx), Some (tx_candidateArtifactId tx)))"

definition probation_and_commit ::
  "'s update_deps \<Rightarrow> update_transaction \<Rightarrow> update_state_record \<Rightarrow> 's update_world \<Rightarrow> ('s, update_result) update_run" where
  "probation_and_commit deps tx switching w =
     then_step w
       (transition_step [Some Up_activating] (\<lambda>current. at_phase deps tx Ph_probation w (get_or switching current)) w)
       (\<lambda>w probation.
     then_step w
       (verifyCandidateRuntime deps (fst (candidate_of probation)) (snd (candidate_of probation)) (ud_readinessPolls deps) w)
       (\<lambda>w fault.
          case fault of
            Some reason \<Rightarrow> rollback deps probation True reason w
          | None \<Rightarrow> commit_verified deps tx probation w))"

definition switch_and_verify ::
  "'s update_deps \<Rightarrow> update_transaction \<Rightarrow> update_state_record \<Rightarrow> 's update_world \<Rightarrow> ('s, update_result) update_run" where
  "switch_and_verify deps tx switching w =
     then_step w
       (case store_step (op_activate (ud_ops deps)) w of
          (ws, Inl e) \<Rightarrow> (ws, Inr (Some e)) | (ws, Inr _) \<Rightarrow> (ws, Inr None))
       (\<lambda>w failed.
          case failed of
            Some e \<Rightarrow> rollback deps switching False (''activation reference switch failed: '' @ e) w
          | None \<Rightarrow>
              then_step w (controlledRestart deps w) (\<lambda>w restarted.
                if \<not> rs_ok restarted then rollback deps switching (rs_restarted restarted) (rs_reason restarted) w
                else probation_and_commit deps tx switching w))"

definition cross_switch_boundary ::
  "'s update_deps \<Rightarrow> update_transaction \<Rightarrow> update_state_record \<Rightarrow> 's update_world \<Rightarrow> ('s, update_result) update_run" where
  "cross_switch_boundary deps tx activating w =
     then_step w
       (transition_step [Some Up_activating] (\<lambda>current. at_phase deps tx Ph_switching w (get_or activating current)) w)
       (\<lambda>w switching.
          catch_step w (switch_and_verify deps tx switching w) (\<lambda>w e. rollback deps activating True e w))"

definition activate :: "'s update_deps \<Rightarrow> update_state_record \<Rightarrow> runtime_inspection \<Rightarrow> 's update_world \<Rightarrow> ('s, update_result) update_run" where
  "activate deps r runtime w =
     then_step w (pure_step (transactionFor deps r w)) (\<lambda>w tx.
     then_step w
       (transition_step [Some Up_pending_activation, Some Up_activating]
          (\<lambda>current. (at_phase deps tx Ph_draining w (get_or r current))\<lparr>us_state := Up_activating\<rparr>) w) (\<lambda>w activating.
     then_step w (beginDrain deps w) (\<lambda>w fenceEngaged.
       if \<not> is_down runtime \<and> \<not> ud_force deps \<and> \<not> fenceEngaged
       then stay_pending deps tx activating
              ''update installed; activation pending: the drain fence could not be established'' w
       else
         then_step w
           (if \<not> is_down runtime \<and> \<not> ud_force deps then waitForSessionDrain deps (ud_drainPolls deps) w
            else pure_step (Inr None)) (\<lambda>w undrained.
           case undrained of
             Some sessions \<Rightarrow>
               stay_pending deps tx activating
                 (case sessions of
                    None \<Rightarrow> ''update installed; activation pending: the runtime session count could not be verified''
                  | Some n \<Rightarrow> ''update installed; activation pending drain ('' @ show_int n @ '' session(s) active)'') w
           | None \<Rightarrow> cross_switch_boundary deps tx activating w))))"

section \<open>Staging\<close>

definition assertUpdateableRuntime :: "runtime_inspection \<Rightarrow> string + unit" where
  "assertUpdateableRuntime runtime =
     (case runtime of
        Occupied_foreign \<Rightarrow>
          Inl ''configured gateway or management port is owned by a foreign listener; refusing to update it (fail closed). Run rly doctor''
      | Attested_incompatible \<Rightarrow>
          Inl ''configured gateway listener is attested but incompatible; align the configuration before updating''
      | Attested_compatible resident _ _ _ \<Rightarrow>
          if resident then Inr ()
          else Inl ''an active launcher-owned instance holds the gateway; RLY update only restarts attested resident runtimes, so it is left untouched''
      | _ \<Rightarrow> Inr ())"

fun served_version :: "runtime_inspection \<Rightarrow> string option" where
  "served_version (Attested_compatible _ version _ _) = Some (get_or RUNTIME_VERSION version)"
| "served_version _ = None"

definition installing_record ::
  "'s update_deps \<Rightarrow> string \<Rightarrow> string \<Rightarrow> 's update_world \<Rightarrow> update_state_record option \<Rightarrow> update_state_record" where
  "installing_record deps candidateVersion previousVersion w current =
     \<lparr>us_state = Up_installing, us_currentVersion = get_or previousVersion (map_option us_currentVersion current),
      us_pendingVersion = Some candidateVersion, us_previousVersion = Option.bind current us_previousVersion,
      us_currentArtifactId = None, us_pendingArtifactId = None, us_previousArtifactId = None, us_updatedAt = stamp deps w,
      us_lastActivationResult = Option.bind current us_lastActivationResult,
      us_lastRollbackResult = Option.bind current us_lastRollbackResult, us_failureReason = None, us_transaction = None\<rparr>"

definition staged_record ::
  "'s update_deps \<Rightarrow> string \<Rightarrow> install_result \<Rightarrow> 's update_world \<Rightarrow> update_state_record \<Rightarrow> update_state_record" where
  "staged_record deps candidateVersion installed w installing =
     installing\<lparr>us_state := Up_pending_activation, us_pendingVersion := Some candidateVersion,
       us_previousVersion := (if in_previousVersion installed = None then us_previousVersion installing
                              else in_previousVersion installed),
       us_pendingArtifactId := Some (in_artifactId installed),
       us_previousArtifactId := (if in_previousArtifactId installed = None then us_previousArtifactId installing
                                 else in_previousArtifactId installed),
       us_transaction := Some
         \<lparr>tx_phase = Ph_staged, tx_startedAt = stamp deps w, tx_updatedAt = stamp deps w, tx_candidateVersion = candidateVersion,
          tx_candidateArtifactId = in_artifactId installed, tx_previousVersion = in_previousVersion installed,
          tx_previousArtifactId = in_previousArtifactId installed, tx_rollbackAttempts = 0, tx_lastRollbackOutcome = None,
          tx_recoveryReason = None\<rparr>,
       us_updatedAt := stamp deps w\<rparr>"

definition failed_result :: "string \<Rightarrow> string \<Rightarrow> string \<Rightarrow> update_result" where
  "failed_result currentVersion candidateVersion message =
     \<lparr>ur_outcome = Out_failed, ur_state = Up_failed, ur_phase = None, ur_currentVersion = currentVersion,
      ur_pendingVersion = Some candidateVersion, ur_message = message\<rparr>"

text \<open>What keeps a staged candidate from being activated.\<close>

definition staged_blocker :: "'s update_deps \<Rightarrow> update_state_record \<Rightarrow> candidate_manifest option \<Rightarrow> string option" where
  "staged_blocker deps pending manifest =
     (case manifest of
        None \<Rightarrow> None
      | Some m \<Rightarrow>
          (case migrationPreflight pending (migrationClassOf manifest) of
             Some blocker \<Rightarrow> Some blocker
           | None \<Rightarrow>
               (case ud_cliStateVersion deps of
                  None \<Rightarrow> None
                | Some v \<Rightarrow>
                    if stateVersionsCompatible v (Some (cdm_stateVersion m)) then None
                    else Some (''candidate requires durable state schema '' @ show_int (cdm_stateVersion m)
                               @ '' but this RLY understands '' @ show_int v @ ''; update is blocked before activation''))))"

text \<open>\<open>Inl\<close> of the value: the run ends with this result; \<open>Inr\<close>: the pending record.\<close>

definition stageCandidate ::
  "'s update_deps \<Rightarrow> runtime_inspection \<Rightarrow> update_state_record option \<Rightarrow> 's update_world
     \<Rightarrow> ('s, update_result + update_state_record) update_run" where
  "stageCandidate deps runtime found w =
     (case ud_candidate deps of
        None \<Rightarrow>
          pure_step (Inr (Inl
            \<lparr>ur_outcome = Out_no_candidate, ur_state = get_or Up_idle (map_option us_state found), ur_phase = None,
             ur_currentVersion = get_or (get_or RUNTIME_VERSION (map_option us_currentVersion found)) (served_version runtime),
             ur_pendingVersion = None, ur_message = ''a verified candidate is required to stage an update''\<rparr>))
      | Some candidate \<Rightarrow>
          then_step w (pure_step (assertUpdateableRuntime runtime)) (\<lambda>w _.
          let candidateVersion = cs_version candidate;
              previousVersion = get_or (get_or RUNTIME_VERSION (map_option us_currentVersion found)) (served_version runtime)
          in then_step w
               (transition_step
                  [None, Some Up_idle, Some Up_active, Some Up_failed, Some Up_pending_activation]
                  (installing_record deps candidateVersion previousVersion w) w) (\<lambda>w installing.
             then_step w
               (case store_step (op_install (ud_ops deps) candidate) w of
                  (ws, Inl e) \<Rightarrow> (ws, Inr (Inl (''candidate installation failed: '' @ e @ ''; the previous version keeps serving'')))
                | (ws, Inr installed) \<Rightarrow> (ws, Inr (Inr installed))) (\<lambda>w outcome.
             case outcome of
               Inl message \<Rightarrow>
                 then_step w
                   (write_step (installing\<lparr>us_state := Up_failed, us_failureReason := Some message,
                                           us_updatedAt := stamp deps w\<rparr>) w)
                   (\<lambda>w _. pure_step (Inr (Inl (failed_result (us_currentVersion installing) candidateVersion message))))
             | Inr installed \<Rightarrow>
                 (let pending = staged_record deps candidateVersion installed w installing
                  in then_step w (write_step pending w) (\<lambda>w _.
                     let manifest = (case op_manifest (ud_ops deps) (uw_store w) of Inl _ \<Rightarrow> None | Inr m \<Rightarrow> m)
                     in case staged_blocker deps pending manifest of
                          None \<Rightarrow> pure_step (Inr (Inr pending))
                        | Some message \<Rightarrow>
                            then_step w
                              (write_step (pending\<lparr>us_state := Up_failed, us_failureReason := Some message,
                                                   us_updatedAt := stamp deps w\<rparr>) w)
                              (\<lambda>w _. pure_step (Inr (Inl (failed_result (us_currentVersion pending) candidateVersion message))))))))))"

section \<open>A run\<close>

definition report_no_candidate ::
  "runtime_inspection \<Rightarrow> update_state_record option \<Rightarrow> string \<Rightarrow> update_result" where
  "report_no_candidate runtime found message =
     \<lparr>ur_outcome = Out_no_candidate, ur_state = get_or Up_idle (map_option us_state found), ur_phase = None,
      ur_currentVersion = get_or (get_or RUNTIME_VERSION (map_option us_currentVersion found)) (served_version runtime),
      ur_pendingVersion = Option.bind found us_pendingVersion, ur_message = message\<rparr>"

definition report_recovery :: "runtime_inspection \<Rightarrow> update_state_record \<Rightarrow> update_result" where
  "report_recovery runtime r =
     \<lparr>ur_outcome = Out_failed, ur_state = Up_recovery_required, ur_phase = map_option tx_phase (us_transaction r),
      ur_currentVersion = get_or (us_currentVersion r) (served_version runtime), ur_pendingVersion = us_pendingVersion r,
      ur_message = get_or ''the update transaction requires manual recovery; run rly doctor'' (us_failureReason r)\<rparr>"

definition resume_pending ::
  "'s update_deps \<Rightarrow> runtime_inspection \<Rightarrow> update_state_record \<Rightarrow> 's update_world \<Rightarrow> ('s, update_result) update_run" where
  "resume_pending deps runtime r w =
     then_step w (pure_step (op_verify (ud_ops deps) (uw_store w))) (\<lambda>w verified.
       if cv_ok verified then activate deps r runtime w
       else
         (let message = ''installed candidate failed verification: '' @ get_or ''unknown'' (cv_reason verified) @ ''; run rly doctor''
          in then_step w (write_step (r\<lparr>us_state := Up_failed, us_failureReason := Some message\<rparr>) w) (\<lambda>w _.
               pure_step (Inr
                 \<lparr>ur_outcome = Out_failed, ur_state = Up_failed, ur_phase = None, ur_currentVersion = us_currentVersion r,
                  ur_pendingVersion = us_pendingVersion r, ur_message = message\<rparr>))))"

definition stage_and_activate ::
  "'s update_deps \<Rightarrow> runtime_inspection \<Rightarrow> update_state_record option \<Rightarrow> 's update_world \<Rightarrow> ('s, update_result) update_run" where
  "stage_and_activate deps runtime found w =
     then_step w (stageCandidate deps runtime found w) (\<lambda>w staged.
       case staged of
         Inl result \<Rightarrow> pure_step (Inr result)
       | Inr pending \<Rightarrow>
           if ud_installOnly deps
           then pure_step (Inr
                  \<lparr>ur_outcome = Out_installed, ur_state = Up_pending_activation, ur_phase = Some Ph_staged,
                   ur_currentVersion = us_currentVersion pending, ur_pendingVersion = us_pendingVersion pending,
                   ur_message = ''candidate verified and installed; activation is pending (Wave 4)''\<rparr>)
           else activate deps pending runtime w)"

definition run_recovered ::
  "'s update_deps \<Rightarrow> runtime_inspection \<Rightarrow> update_state_record option \<Rightarrow> 's update_world \<Rightarrow> ('s, update_result) update_run" where
  "run_recovered deps runtime found w =
     (let state = get_or Up_idle (map_option us_state found)
      in case (found, state) of
           (Some r, Up_recovery_required) \<Rightarrow> pure_step (Inr (report_recovery runtime r))
         | (Some r, Up_rollback_required) \<Rightarrow>
             rollback deps r
               (attested_resident runtime \<and> served_version runtime \<noteq> Some (us_currentVersion r))
               (get_or ''activation transaction was interrupted; rolling back to the previous known-good version'' (us_failureReason r)) w
         | _ \<Rightarrow>
             if ud_candidate deps \<noteq> None then stage_and_activate deps runtime found w
             else if state = Up_idle \<or> state = Up_active
             then pure_step (Inr (report_no_candidate runtime found ''no update candidate provided; nothing to activate''))
             else if state = Up_pending_activation
             then (case found of Some r \<Rightarrow> resume_pending deps runtime r w | None \<Rightarrow> pure_step (Inl []))
             else pure_step (Inr (report_no_candidate runtime found
                    (''update state is '' @ update_state_text state @ ''; a candidate artifact is required for activation''))))"

definition runUpdate :: "'s update_deps \<Rightarrow> 's update_world \<Rightarrow> ('s, update_result) update_run" where
  "runUpdate deps w =
     then_step w (pure_step (read_update (uw_file w))) (\<lambda>w current.
     let recovered = map_option recoverUpdateState current
     in then_step w
          (case recovered of
             None \<Rightarrow> pure_step (Inr ())
           | Some r \<Rightarrow> if recovered \<noteq> current then write_step r w else pure_step (Inr ())) (\<lambda>w _.
        then_step w (inspect_step deps w) (\<lambda>w runtime. run_recovered deps runtime recovered w)))"

text \<open>The deployment store as an installer.\<close>

definition store_ops ::
  "(string \<Rightarrow> string) \<Rightarrow> (string \<Rightarrow> 'k::linorder) \<Rightarrow> string list \<Rightarrow> deployment_store installer_ops" where
  "store_ops sha collate base =
     \<lparr>op_install = installCandidate sha collate base, op_verify = verifyCandidate, op_activate = activateStaged,
      op_setActive = setActiveReferences, op_restore = restorePrevious, op_manifest = readManifest\<rparr>"

end
