(* ===== verification/Update_Safety.thy ===== *)
theory Update_Safety
  imports Update_Lifecycle
begin

text \<open>
  What a self-update guarantees: the states a run leaves at every crash point, what an activation has verified, the one
  rollback and its two ends. The interface of the installer is a locale, interpreted on the deployment store.
\<close>

section \<open>What a run leaves\<close>

text \<open>A property of worlds that the observations and the commands of a run keep.\<close>

definition machine_stable :: "('s update_world \<Rightarrow> bool) \<Rightarrow> bool" where
  "machine_stable I \<longleftrightarrow> (\<forall>w c. I w \<longrightarrow> I (tick w\<lparr>uw_commands := c\<rparr>))"

lemma uw_now_tick [simp]: "uw_now (tick w) = Suc (uw_now w)"
  by (simp add: tick_def)

lemma machine_stable_tick: "machine_stable I \<Longrightarrow> I w \<Longrightarrow> I (tick w)"
  unfolding machine_stable_def by (metis update_world.surjective update_world.update_convs(4) tick_def update_world.simps(4))

lemma keeps_observe: "machine_stable I \<Longrightarrow> I w \<Longrightarrow> keeps I (observe_step f w)"
  by (simp add: keeps_def observe_step_def machine_stable_tick)

lemma keeps_service: "machine_stable I \<Longrightarrow> I w \<Longrightarrow> keeps I (service_step deps c w)"
  by (auto simp: keeps_def service_step_def machine_stable_def)

lemma keeps_write: "I w \<Longrightarrow> I (w\<lparr>uw_file := Stored r\<rparr>) \<Longrightarrow> keeps I (write_step r w)"
  by (auto simp: keeps_def write_step_def write_update_def)

lemma keeps_transition:
  "(\<And>r. read_update (uw_file w) = Inr r \<Longrightarrow> I (w\<lparr>uw_file := Stored (update r)\<rparr>)) \<Longrightarrow>
     keeps I (transition_step expected update w)"
  by (auto simp: keeps_def transition_step_def transitionUnderLock_Inr split: sum.splits)

lemma keeps_store: "(\<And>s. s \<in> set (fst (f (uw_store w))) \<Longrightarrow> I (w\<lparr>uw_store := s\<rparr>)) \<Longrightarrow> keeps I (store_step f w)"
  by (auto simp: keeps_def store_step_def split: prod.splits)

lemma catch_step_simps:
  "catch_step w (ws, Inr x) h = (ws, Inr x)"
  "catch_step w (ws, Inl e) h = (ws @ fst (h (last (w # ws)) e), snd (h (last (w # ws)) e))"
  by (simp_all add: catch_step_def split: prod.splits del: last.simps)

lemma keeps_catch:
  assumes "I w" and "keeps I m" and "\<And>w' e. I w' \<Longrightarrow> keeps I (h w' e)"
  shows "keeps I (catch_step w m h)"
proof (cases m)
  case (Pair ws r)
  with assms have "I (last (w # ws))" by (simp add: keeps_last del: last.simps)
  with Pair assms show ?thesis
    by (cases r) (auto simp: catch_step_simps keeps_def simp del: last.simps)
qed

lemma keeps_then_returns:
  assumes "keeps I m" and "returns s R m" and "\<And>s' x. R s' x \<Longrightarrow> keeps I (k s' x)"
  shows "keeps I (then_step s m k)"
proof (cases m)
  case (Pair ss r)
  with assms show ?thesis
    by (cases r) (auto simp: then_step_simps keeps_def returns_def simp del: last.simps)
qed

lemma keeps_relabel:
  "keeps I m \<Longrightarrow> keeps I (case m of (ws, Inl e) \<Rightarrow> (ws, Inr (f e)) | (ws, Inr x) \<Rightarrow> (ws, Inr (g x)))"
  by (auto simp: keeps_def split: prod.splits sum.splits)

lemma keeps_inspect: "machine_stable I \<Longrightarrow> I w \<Longrightarrow> keeps I (inspect_step deps w)"
  by (simp add: inspect_step_def keeps_observe)

lemma keeps_identity: "machine_stable I \<Longrightarrow> I w \<Longrightarrow> keeps I (readRuntimeIdentity deps w)"
  by (simp add: readRuntimeIdentity_def keeps_observe)

lemma keeps_beginDrain: "machine_stable I \<Longrightarrow> I w \<Longrightarrow> keeps I (beginDrain deps w)"
  by (auto simp: beginDrain_def intro!: keeps_then keeps_inspect keeps_pure keeps_observe)

lemma keeps_sessionDrain: "machine_stable I \<Longrightarrow> I w \<Longrightarrow> keeps I (waitForSessionDrain deps n w)"
proof (induction n arbitrary: w)
  case 0
  then show ?case by (subst waitForSessionDrain.simps) (auto intro!: keeps_then keeps_identity keeps_pure simp: Let_def)
next
  case (Suc n)
  then show ?case by (subst waitForSessionDrain.simps) (auto intro!: keeps_then keeps_identity keeps_pure simp: Let_def)
qed

lemma keeps_verify_attested: "machine_stable I \<Longrightarrow> I w \<Longrightarrow> keeps I (verify_attested deps v a w)"
  by (auto simp: verify_attested_def authenticatedReadiness_def
      intro!: keeps_then keeps_identity keeps_pure keeps_observe split: option.splits)

lemma keeps_verify: "machine_stable I \<Longrightarrow> I w \<Longrightarrow> keeps I (verifyCandidateRuntime deps v a n w)"
proof (induction n arbitrary: w)
  case 0
  then show ?case
    by (subst verifyCandidateRuntime.simps)
       (auto intro!: keeps_then keeps_inspect keeps_pure keeps_verify_attested split: runtime_inspection.splits)
next
  case (Suc n)
  then show ?case
    by (subst verifyCandidateRuntime.simps)
       (auto intro!: keeps_then keeps_inspect keeps_pure keeps_verify_attested split: runtime_inspection.splits)
qed

lemma keeps_restart: "machine_stable I \<Longrightarrow> I w \<Longrightarrow> keeps I (controlledRestart deps w)"
  unfolding controlledRestart_def Let_def
  by (auto intro!: keeps_then keeps_inspect keeps_pure keeps_relabel keeps_service split: option.splits)

section \<open>Deciding files\<close>

text \<open>
  A state file from which recovery knows what to do with a switched reference: it rolls back, accepts the candidate, or
  stops for the doctor.
\<close>

definition decided_record :: "update_state_record \<Rightarrow> bool" where
  "decided_record r \<longleftrightarrow> us_state (recoverUpdateState r) \<in> {Up_rollback_required, Up_active, Up_recovery_required}"

definition decided :: "update_file \<Rightarrow> bool" where
  "decided f \<longleftrightarrow> (\<exists>r. f = Stored r \<and> decided_record r)"

abbreviation decided_world :: "'s update_world \<Rightarrow> bool" where
  "decided_world w \<equiv> decided (uw_file w)"

lemma decided_Stored [simp]: "decided (Stored r) \<longleftrightarrow> decided_record r"
  by (simp add: decided_def)

lemma decided_with_journal:
  "us_transaction r = Some tx \<Longrightarrow> decided_record r \<longleftrightarrow> tx_phase tx \<notin> {Ph_staged, Ph_draining}"
  using recover_state(1) [of r tx] by (cases "tx_phase tx") (auto simp: decided_record_def)

lemma decided_without_journal:
  "us_transaction r = None \<Longrightarrow> us_state r \<in> {Up_rollback_required, Up_active, Up_recovery_required} \<Longrightarrow> decided_record r"
  by (auto simp: decided_record_def recoverUpdateState_def)

lemma decided_at_phase: "phase \<notin> {Ph_staged, Ph_draining} \<Longrightarrow> decided_record (at_phase deps tx phase w r)"
  by (simp add: decided_with_journal [where tx = "tx\<lparr>tx_phase := phase, tx_updatedAt := stamp deps w\<rparr>"] at_phase_def)

lemma decided_committed: "decided_record (committed_record deps tx w r)"
  by (simp add: decided_with_journal [where tx = "tx\<lparr>tx_phase := Ph_committed, tx_updatedAt := stamp deps w\<rparr>"]
      committed_record_def)

lemma decided_rolling_back: "decided_record (rolling_back_record deps reason w r)"
  by (cases "us_transaction r") (simp_all add: rolling_back_record_def decided_with_journal decided_without_journal)

lemma decided_recovery_required:
  "us_transaction r' = map_option (\<lambda>tx. tx\<lparr>tx_phase := Ph_recovery_required, tx_recoveryReason := c, tx_updatedAt := t\<rparr>) x
   \<Longrightarrow> us_state r' = Up_recovery_required \<Longrightarrow> decided_record r'"
  by (cases x) (simp_all add: decided_with_journal decided_without_journal)

lemma decided_rolled_back:
  assumes "decided_record r"
  shows "decided_record (rolled_back_record deps reason tx restored w r)"
proof (cases tx)
  case None
  then show ?thesis
    using assms
    by (cases "us_transaction r") (auto simp: rolled_back_record_def decided_with_journal decided_without_journal)
qed (simp add: rolled_back_record_def decided_with_journal)

lemma decided_read: "decided f \<Longrightarrow> read_update f = Inr c \<Longrightarrow> \<exists>r. c = Some r \<and> decided_record r"
  by (auto simp: decided_def)

lemma stable_decided: "machine_stable decided_world"
  by (simp add: machine_stable_def tick_def)

lemma keeps_decided_recovery: "decided_world w \<Longrightarrow> keeps decided_world (enterRecoveryRequired deps r reason w)"
  unfolding enterRecoveryRequired_def Let_def
  by (auto intro!: keeps_then keeps_write keeps_pure decided_recovery_required)

lemma keeps_decided_transition:
  "decided_world w \<Longrightarrow> (\<And>r. decided_record r \<Longrightarrow> decided_record (update (Some r))) \<Longrightarrow>
     keeps decided_world (transition_step expected update w)"
  by (auto intro!: keeps_transition dest!: decided_read)

lemma keeps_decided_store: "decided_world w \<Longrightarrow> keeps decided_world (store_step f w)"
  by (auto intro!: keeps_store)

lemma keeps_decided_restore: "decided_world w \<Longrightarrow> keeps decided_world (restore_references deps r w)"
  unfolding restore_references_def
  by (auto intro!: keeps_then keeps_decided_store keeps_pure split: option.splits)

lemma keeps_decided_rollback: "decided_world w \<Longrightarrow> keeps decided_world (rollback deps r restarted reason w)"
  unfolding rollback_def Let_def
  by (auto intro!: keeps_then keeps_catch keeps_write keeps_pure keeps_decided_recovery keeps_decided_restore
      keeps_decided_transition keeps_service keeps_verify decided_rolling_back decided_rolled_back
      simp: stable_decided split: option.splits)

lemma keeps_decided_switch: "decided_world w \<Longrightarrow> keeps decided_world (switch_and_verify deps tx r w)"
  unfolding switch_and_verify_def probation_and_commit_def commit_verified_def Let_def
  by (auto intro!: keeps_then keeps_relabel keeps_pure keeps_decided_rollback keeps_decided_store
      keeps_decided_transition keeps_restart keeps_verify decided_at_phase decided_committed
      simp: stable_decided split: option.splits)

section \<open>The interface of the installer\<close>

text \<open>
  What the lifecycle relies on: installing leaves the serving reference alone; switching leaves it or makes it the
  staged one; and when an operation returns, the serving reference is the one it names.
\<close>

locale candidate_installer =
  fixes ops :: "'s installer_ops"
    and serving :: "'s \<Rightarrow> reference_target option"
    and staged :: "'s \<Rightarrow> reference_target option"
  assumes install_keeps: "s' \<in> set (fst (op_install ops c s)) \<Longrightarrow> serving s' = serving s"
    and activate_switches: "s' \<in> set (fst (op_activate ops s)) \<Longrightarrow> serving s' = serving s \<or> serving s' = staged s"
    and activate_serves: "returns s (\<lambda>s' i. serving s' = Some (To_version (in_artifactId i))) (op_activate ops s)"
    and setActive_serves: "returns s (\<lambda>s' _. serving s' = Some (To_version a)) (op_setActive ops a p s)"
    and restore_serves: "returns s (\<lambda>s' i. serving s' = Some (To_version (in_artifactId i))) (op_restore ops s)"
begin

text \<open>Before the switch is announced, the reference is untouched; afterwards the file decides.\<close>

definition switch_safe :: "reference_target option \<Rightarrow> 's update_world \<Rightarrow> bool" where
  "switch_safe before w \<longleftrightarrow> serving (uw_store w) = before \<or> decided_world w"

lemma stable_serving: "machine_stable (\<lambda>w. serving (uw_store w) = before)"
  by (simp add: machine_stable_def tick_def)

lemma keeps_mono: "keeps I m \<Longrightarrow> (\<And>w. I w \<Longrightarrow> J w) \<Longrightarrow> keeps J m"
  by (auto simp: keeps_def)

lemma safe_decided: "keeps decided_world m \<Longrightarrow> keeps (switch_safe before) m"
  by (erule keeps_mono) (simp add: switch_safe_def)

lemma safe_serving: "keeps (\<lambda>w. serving (uw_store w) = before) m \<Longrightarrow> keeps (switch_safe before) m"
  by (erule keeps_mono) (simp add: switch_safe_def)

lemma safe_then:
  assumes "serving (uw_store w) = before" and "keeps (\<lambda>w. serving (uw_store w) = before) m"
    and "\<And>w' x. serving (uw_store w') = before \<Longrightarrow> keeps (switch_safe before) (k w' x)"
  shows "keeps (switch_safe before) (then_step w m k)"
  by (rule keeps_then_returns [where R = "\<lambda>w' _. serving (uw_store w') = before"],
      rule safe_serving, rule assms(2), rule returns_keeps [where I = "\<lambda>w'. serving (uw_store w') = before"],
      rule assms(1), rule assms(2), rule assms(3))

lemma serving_transition: "serving (uw_store w) = before \<Longrightarrow> keeps (\<lambda>w. serving (uw_store w) = before) (transition_step ex f w)"
  by (auto intro!: keeps_transition)

lemma serving_write: "serving (uw_store w) = before \<Longrightarrow> keeps (\<lambda>w. serving (uw_store w) = before) (write_step r w)"
  by (auto intro!: keeps_write)

lemma serving_pending:
  "serving (uw_store w) = before \<Longrightarrow> keeps (\<lambda>w. serving (uw_store w) = before) (stay_pending deps tx r message w)"
  unfolding stay_pending_def by (auto intro!: keeps_then serving_transition keeps_pure)

lemma returns_decided_transition:
  "(\<And>r. decided_record (update r)) \<Longrightarrow> returns w (\<lambda>w' _. decided_world w') (transition_step expected update w)"
  by (auto simp: returns_def transition_step_def transitionUnderLock_Inr split: sum.splits)

lemma switch_boundary_safe:
  assumes "serving (uw_store w) = before"
  shows "keeps (switch_safe before) (cross_switch_boundary deps tx activating w)"
  unfolding cross_switch_boundary_def
  by (rule keeps_then_returns [where R = "\<lambda>w' _. decided_world w'"], rule safe_serving, rule serving_transition, rule assms,
      rule returns_decided_transition, simp add: decided_at_phase, rule safe_decided)
     (auto intro!: keeps_catch keeps_decided_switch keeps_decided_rollback)

lemma activate_safe:
  assumes "serving (uw_store w) = before"
  shows "keeps (switch_safe before) (activate deps r runtime w)"
  unfolding activate_def
  by (auto intro!: safe_then keeps_pure serving_transition keeps_beginDrain keeps_sessionDrain stable_serving
      switch_boundary_safe safe_serving [OF serving_pending] assms split: option.splits)

lemma serving_install:
  assumes "ud_ops deps = ops" and "serving (uw_store w) = before"
  shows "keeps (\<lambda>w. serving (uw_store w) = before) (store_step (op_install (ud_ops deps) c) w)"
  by (rule keeps_store) (use install_keeps assms in auto)

lemma stage_keeps:
  assumes "ud_ops deps = ops" and "serving (uw_store w) = before"
  shows "keeps (\<lambda>w. serving (uw_store w) = before) (stageCandidate deps runtime found w)"
  unfolding stageCandidate_def Let_def
  by (auto intro!: keeps_then keeps_pure serving_transition serving_write keeps_relabel serving_install assms
      split: option.splits sum.splits)

lemma stage_and_activate_safe:
  assumes "ud_ops deps = ops" and "serving (uw_store w) = before"
  shows "keeps (switch_safe before) (stage_and_activate deps runtime found w)"
  unfolding stage_and_activate_def
  by (auto intro!: safe_then stage_keeps assms activate_safe keeps_pure split: sum.splits)

lemma resume_safe:
  assumes "serving (uw_store w) = before"
  shows "keeps (switch_safe before) (resume_pending deps runtime r w)"
  unfolding resume_pending_def Let_def
  by (auto intro!: safe_then keeps_pure assms activate_safe serving_write)

lemma run_recovered_safe:
  assumes "ud_ops deps = ops" and "serving (uw_store w) = before"
    and "\<And>r. found = Some r \<Longrightarrow> us_state r = Up_rollback_required \<Longrightarrow> decided_world w"
  shows "keeps (switch_safe before) (run_recovered deps runtime found w)"
proof (cases found)
  case None
  then show ?thesis using stage_and_activate_safe [OF assms(1,2)] by (auto simp: run_recovered_def Let_def keeps_pure)
next
  case (Some r)
  then show ?thesis
    using assms(3) stage_and_activate_safe [OF assms(1,2)] resume_safe [OF assms(2), of deps runtime r]
    by (cases "us_state r") (auto simp: run_recovered_def Let_def keeps_pure safe_decided keeps_decided_rollback)
qed

lemma decided_rollback_required: "us_state (recoverUpdateState r) = Up_rollback_required \<Longrightarrow> decided_record (recoverUpdateState r)"
  by (simp add: decided_record_def recover_idem)

lemma runUpdate_safe:
  assumes "ud_ops deps = ops"
  shows "keeps (switch_safe (serving (uw_store w))) (runUpdate deps w)"
proof (cases "uw_file w")
  case (Stored r)
  let ?r = "recoverUpdateState r" and ?before = "serving (uw_store w)"
  let ?R = "\<lambda>w'. serving (uw_store w') = ?before \<and> uw_file w' = Stored ?r"
  have recovered: "keeps (\<lambda>w. serving (uw_store w) = ?before) (if Some ?r \<noteq> Some r then write_step ?r w else pure_step (Inr ()))"
    by (auto intro: serving_write keeps_pure)
  have stored: "returns w (\<lambda>w' _. ?R w') (if Some ?r \<noteq> Some r then write_step ?r w else pure_step (Inr ()))"
    using Stored by (auto simp: returns_def write_step_def write_update_def pure_step_def)
  have inspected: "keeps (switch_safe ?before)
      (then_step w' (inspect_step deps w') (\<lambda>w runtime. run_recovered deps runtime (Some ?r) w))" if "?R w'" for w'
    by (rule keeps_then_returns [where R = "\<lambda>w' _. ?R w'"], rule safe_serving, rule keeps_inspect, rule stable_serving,
        use that in simp, rule returns_keeps, rule that, rule keeps_inspect)
       (use that in \<open>auto simp: machine_stable_def tick_def intro!: run_recovered_safe assms decided_rollback_required\<close>)
  show ?thesis
    unfolding runUpdate_def Stored read_update.simps then_pure option.map option.case Let_def
    by (rule keeps_then_returns [OF safe_serving [OF recovered] stored inspected])
next
  case No_file
  then show ?thesis
    by (auto simp: runUpdate_def then_pure intro!: safe_then keeps_inspect stable_serving run_recovered_safe assms)
next
  case Malformed_file
  then show ?thesis by (simp add: runUpdate_def then_pure keeps_pure)
qed

end

section \<open>Every crash point\<close>

interpretation deploy: candidate_installer "store_ops sha collate base" ds_active ds_staged
  for sha :: "string \<Rightarrow> string" and collate :: "string \<Rightarrow> 'k::linorder" and base :: "string list"
proof
  show "s' \<in> set (fst (op_install (store_ops sha collate base) c s)) \<Longrightarrow> ds_active s' = ds_active s" for s s' c
    by (simp add: store_ops_def install_keeps_serving)
  show "s' \<in> set (fst (op_activate (store_ops sha collate base) s)) \<Longrightarrow> ds_active s' = ds_active s \<or> ds_active s' = ds_staged s" for s s'
    by (simp add: store_ops_def activate_serves)
qed (simp_all add: store_ops_def activate_points set_active_points restore_points)

text \<open>C6: An update never leaves a switched reference without a decision. At every point where a run can crash (after every
  change of the disk, inside the installer too), either the reference of the serving deployment is the one before the run, or
  the durable state file is one that recovery answers with a rollback, with the accepted candidate or with the final
  recovery-required state; never one that recovery takes for a pending, failed or idle update.\<close>

theorem update_crash_safe:
  assumes "ud_ops deps = store_ops sha collate base" and "w' \<in> set (fst (runUpdate deps w))"
  shows "ds_active (uw_store w') = ds_active (uw_store w)
    \<or> (\<exists>r. uw_file w' = Stored r
          \<and> us_state (recoverUpdateState r) \<in> {Up_rollback_required, Up_active, Up_recovery_required})"
  using deploy.runUpdate_safe [OF assms(1), of w] assms(2)
  by (auto simp: keeps_def deploy.switch_safe_def decided_def decided_record_def)

section \<open>Total runs\<close>

definition returns_value :: "'s \<Rightarrow> ('s \<Rightarrow> 'a \<Rightarrow> bool) \<Rightarrow> 's list \<times> ('e + 'a) \<Rightarrow> bool" where
  "returns_value s Q run \<longleftrightarrow> (\<exists>x. snd run = Inr x \<and> Q (last (s # fst run)) x)"

lemma returns_value_pure [simp]: "returns_value s Q (pure_step (Inr x)) \<longleftrightarrow> Q s x"
  by (simp add: returns_value_def pure_step_def)

lemma returns_value_then:
  assumes "returns_value s R m" and "\<And>s' x. R s' x \<Longrightarrow> returns_value s' Q (k s' x)"
  shows "returns_value s Q (then_step s m k)"
proof -
  obtain ss x where m: "m = (ss, Inr x)" and "R (last (s # ss)) x"
    using assms(1) by (cases m) (auto simp: returns_value_def)
  then have "returns_value (last (s # ss)) Q (k (last (s # ss)) x)" using assms(2) by blast
  then show ?thesis
    unfolding m by (auto simp: then_step_simps returns_value_def last_Cons_append simp del: last.simps)
qed

lemma returns_value_catch:
  assumes "returns w Q m" and "\<And>w' e. I w' \<Longrightarrow> returns_value w' Q (h w' e)" and "I w" and "keeps I m"
  shows "returns_value w Q (catch_step w m h)"
proof (cases m)
  case (Pair ws r)
  show ?thesis
  proof (cases r)
    case (Inl e)
    have "I (last (w # ws))" using assms(3,4) Pair by (simp add: keeps_last del: last.simps)
    then have "returns_value (last (w # ws)) Q (h (last (w # ws)) e)" by (rule assms(2))
    then show ?thesis
      unfolding Pair Inl by (auto simp: catch_step_simps returns_value_def last_Cons_append simp del: last.simps)
  next
    case (Inr x)
    then show ?thesis using assms(1) unfolding Pair by (simp add: catch_step_simps returns_value_def returns_def del: last.simps)
  qed
qed

lemma returns_value_mono: "returns_value s R m \<Longrightarrow> (\<And>s' x. R s' x \<Longrightarrow> Q s' x) \<Longrightarrow> returns_value s Q m"
  by (auto simp: returns_value_def)

lemma write_returns: "updateStateRecordSchema r \<Longrightarrow> returns_value w (\<lambda>w' _. w' = w\<lparr>uw_file := Stored r\<rparr>) (write_step r w)"
  by (simp add: returns_value_def write_step_def write_update_def)

lemma transition_returns:
  "returns w (\<lambda>w' next. w' = w\<lparr>uw_file := Stored next\<rparr> \<and> (\<exists>c. read_update (uw_file w) = Inr c \<and> next = update c))
     (transition_step expected update w)"
  by (auto simp: returns_def transition_step_def transitionUnderLock_Inr split: sum.splits)


section \<open>The one rollback\<close>

definition recovery_recorded :: "'s update_world \<Rightarrow> update_result \<Rightarrow> bool" where
  "recovery_recorded w res \<longleftrightarrow>
     ur_outcome res = Out_failed \<and> ur_state res = Up_recovery_required
     \<and> (\<exists>f. uw_file w = Stored f \<and> us_state f = Up_recovery_required
           \<and> us_state (recoverUpdateState f) = Up_recovery_required)"

lemma schema_journal:
  "updateStateRecordSchema r \<Longrightarrow> us_transaction r = Some tx \<Longrightarrow> updateTransactionSchema tx"
  by (simp add: updateStateRecordSchema_def)

lemma recovery_required_schema:
  "updateStateRecordSchema r \<Longrightarrow>
   updateStateRecordSchema (r\<lparr>us_state := s, us_transaction := map_option (\<lambda>tx. tx\<lparr>tx_phase := p, tx_recoveryReason := c,
      tx_updatedAt := t\<rparr>) (us_transaction r), us_updatedAt := t, us_failureReason := m\<rparr>)"
  by (cases "us_transaction r") (simp_all add: updateStateRecordSchema_def updateTransactionSchema_def)

lemma rolling_back_schema: "updateStateRecordSchema r \<Longrightarrow> updateStateRecordSchema (rolling_back_record deps reason w r)"
  by (cases "us_transaction r")
     (simp_all add: rolling_back_record_def updateStateRecordSchema_def updateTransactionSchema_def)

lemma recovery_returns:
  assumes "updateStateRecordSchema r"
  shows "returns_value w recovery_recorded (enterRecoveryRequired deps r reason w)"
  unfolding enterRecoveryRequired_def Let_def
  by (rule returns_value_then [OF write_returns [OF recovery_required_schema [OF assms]]])
     (cases "us_transaction r"; simp add: recovery_recorded_def recover_state recoverUpdateState_def recoverTransaction_def)

definition rolled_back_to :: "string \<Rightarrow> string \<Rightarrow> 's update_world \<Rightarrow> update_result \<Rightarrow> bool" where
  "rolled_back_to version artifactId w res \<longleftrightarrow>
     ur_outcome res = Out_rolled_back \<and> ur_currentVersion res = version
     \<and> (\<exists>f. uw_file w = Stored f \<and> us_state f = Up_active \<and> us_currentVersion f = version
           \<and> us_currentArtifactId f = Some artifactId)"

context candidate_installer
begin

lemma serving_restart:
  "serving (uw_store w) = before \<Longrightarrow>
   keeps (\<lambda>w. serving (uw_store w) = before) (service_step deps c w)"
  by (rule keeps_service [OF stable_serving])

lemma store_returns:
  "returns (uw_store w) (\<lambda>s' x. P s' x) (f (uw_store w)) \<Longrightarrow> returns w (\<lambda>w' x. P (uw_store w') x) (store_step f w)"
  by (auto simp: returns_def store_step_def last_map split: prod.splits sum.splits)

lemma restore_returns:
  assumes "ud_ops deps = ops" and "us_transaction r = Some tx" and "tx_previousArtifactId tx = Some p"
  shows "returns w (\<lambda>w' i. serving (uw_store w') = Some (To_version p)
            \<and> in_version i = get_or (us_currentVersion r) (tx_previousVersion tx) \<and> in_artifactId i = p)
          (restore_references deps r w)"
  unfolding restore_references_def assms
  by (simp add: assms(3), rule returns_then [where R = "\<lambda>w' _. serving (uw_store w') = Some (To_version p)"],
      rule store_returns [where P = "\<lambda>s' _. serving s' = Some (To_version p)"], rule setActive_serves, simp)

lemma rollback_returns:
  assumes "ud_ops deps = ops" and "updateStateRecordSchema r" and "us_transaction r = Some tx"
    and "tx_previousArtifactId tx = Some p"
  shows "returns_value w
      (\<lambda>w' res. recovery_recorded w' res
         \<or> rolled_back_to (get_or (us_currentVersion r) (tx_previousVersion tx)) p w' res
           \<and> serving (uw_store w') = Some (To_version p))
      (rollback deps r restarted reason w)"
    (is "returns_value w ?Q _")
proof (cases "1 \<le> tx_rollbackAttempts tx")
  case True
  have "rollback deps r restarted reason w = enterRecoveryRequired deps r
      (''rollback already attempted; activation failure is not automatically recoverable ('' @ reason @ ''); run rly doctor'') w"
    using True assms(3) by (simp add: rollback_def Let_def)
  then show ?thesis by (simp only:) (rule returns_value_mono [OF recovery_returns [OF assms(2)]], simp)
next
  case False
  let ?version = "get_or (us_currentVersion r) (tx_previousVersion tx)"
  let ?R = "\<lambda>w' i. serving (uw_store w') = Some (To_version p) \<and> in_version i = ?version \<and> in_artifactId i = p"
  have restart: "returns w (\<lambda>w' _. ?R w' i)
      (if restarted
       then then_step w (service_step deps Service_restart w) (\<lambda>w _.
              then_step w (verifyCandidateRuntime deps (Some (in_version i)) (Some (in_artifactId i)) (ud_readinessPolls deps) w)
                (\<lambda>w fault. case fault of None \<Rightarrow> pure_step (Inr ()) | Some why \<Rightarrow> pure_step (Inl (err why))))
       else pure_step (Inr ()))" (is "returns w _ ?m") if "?R w i" for w i and err :: "string \<Rightarrow> string"
  proof -
    have "keeps (\<lambda>w. serving (uw_store w) = Some (To_version p)) ?m"
      using that by (auto intro!: keeps_then serving_restart keeps_verify keeps_pure stable_serving split: option.splits)
    then show ?thesis using that returns_keeps [of "\<lambda>w. serving (uw_store w) = Some (To_version p)" w ?m]
      by (auto elim: returns_mono)
  qed
  have commit: "returns w ?Q
      (then_step w (transition_step [Some Up_rollback_required]
           (\<lambda>current. rolled_back_record deps reason (Some tx) i w (get_or rolledBack current)) w) (\<lambda>w active.
         pure_step (Inr \<lparr>ur_outcome = Out_rolled_back, ur_state = Up_active, ur_phase = map_option tx_phase (us_transaction active),
           ur_currentVersion = us_currentVersion active, ur_pendingVersion = None, ur_message = message active\<rparr>)))"
    if "?R w i" for w i rolledBack message
    by (rule returns_then [OF transition_returns])
       (use that in \<open>auto simp: rolled_back_to_def rolled_back_record_def\<close>)
  show ?thesis
    using False unfolding rollback_def Let_def assms(3)
    apply simp
    apply (rule returns_value_then [OF write_returns [OF rolling_back_schema [OF assms(2)]]])
    apply (rule returns_value_catch [where I = "\<lambda>_. True"])
       apply (rule returns_then [where R = ?R])
        apply (rule restore_returns [OF assms(1,3,4)])
       apply (rule returns_then)
        apply (rule restart) apply assumption
       apply (rule commit) apply assumption
        apply (rule returns_value_mono [OF recovery_returns [OF rolling_back_schema [OF assms(2)]]])
       apply (simp_all add: keeps_def)
    done
qed

end

section \<open>After a crash\<close>



lemma run_recovery_required:
  "us_state r = Up_recovery_required \<Longrightarrow> run_recovered deps runtime (Some r) w = pure_step (Inr (report_recovery runtime r))"
  by (simp add: run_recovered_def Let_def)

text \<open>Recovery-required is final. Once the state file has reached it, a run without a doctor returns that it failed and
  touches nothing: at every point the deployments and references are those before it, no service command is issued, and
  the file still holds a record that recovers to recovery-required; a candidate on the command line or force changes
  nothing.\<close>

theorem recovery_required_is_final:
  assumes "uw_file w = Stored r" and "us_state (recoverUpdateState r) = Up_recovery_required"
    and "w' \<in> set (fst (runUpdate deps w))"
  shows "uw_store w' = uw_store w \<and> uw_commands w' = uw_commands w
    \<and> (\<exists>r'. uw_file w' = Stored r' \<and> us_state (recoverUpdateState r') = Up_recovery_required)"
proof -
  let ?I = "\<lambda>v. uw_store v = uw_store w \<and> uw_commands v = uw_commands w
    \<and> (\<exists>r'. uw_file v = Stored r' \<and> us_state (recoverUpdateState r') = Up_recovery_required)"
  have inspect: "keeps ?I (inspect_step deps v)" if "?I v" for v
    using that by (simp add: keeps_def inspect_step_def observe_step_def tick_def)
  have rest: "keeps ?I (then_step v (inspect_step deps v) (\<lambda>v runtime. run_recovered deps runtime (Some (recoverUpdateState r)) v))"
    if "?I v" for v
    by (rule keeps_then, rule that, rule inspect, rule that) (simp add: run_recovery_required assms(2) keeps_pure)
  have written: "keeps ?I (if Some (recoverUpdateState r) \<noteq> Some r then write_step (recoverUpdateState r) w else pure_step (Inr ()))"
    using assms(2) by (simp add: pure_step_def keeps_def write_step_def write_update_def recover_idem)
  have "keeps ?I (runUpdate deps w)"
    unfolding runUpdate_def assms(1) read_update.simps then_pure option.map option.case Let_def
    by (rule keeps_then [OF _ written rest]) (use assms(1,2) in simp_all)
  then show ?thesis using assms(3) by (simp add: keeps_def)
qed

section \<open>What an activation has verified\<close>


text \<open>An identity without a fault is that of the candidate, as far as the runtime tells which artifact it serves.\<close>

lemma no_identity_fault:
  assumes "identity_fault c (Some version) (Some artifactId) i = None"
  shows "gi_runtimeVersion i = Some version"
    and "gi_build i = Some b \<Longrightarrow> bi_artifactId b \<noteq> None \<Longrightarrow>
           bi_artifactId b = Some artifactId \<and> bi_semanticVersion b = version"
    and "c = Some v \<Longrightarrow> gi_stateVersion i \<in> {None, Some v}"
  using assms by (auto simp: identity_fault_def Let_def stateVersionsCompatible_def split: if_splits option.splits)

















lemma later_returns: "keeps (\<lambda>w'. uw_now w \<le> uw_now w') m \<Longrightarrow> returns w (\<lambda>w' _. uw_now w \<le> uw_now w') m"
  by (rule returns_keeps) simp

lemma store_now: "returns w (\<lambda>w' _. uw_now w' = uw_now w) (store_step f w)"
  by (auto simp: returns_def store_step_def last_map split: prod.splits sum.splits)










section \<open>An update, concretely\<close>

text \<open>
  A version 1.0.0 deployment serves; a candidate 2.0.0 is updated to while the service is down. The machine is down for the
  first observations and serves the candidate afterwards.
\<close>

definition demo_deployment :: "string \<Rightarrow> string \<Rightarrow> deployment" where
  "demo_deployment artifactId version =
     \<lparr>dep_directory = True, dep_private = True,
      dep_metadata = Some \<lparr>dm_artifactId = artifactId, dm_product = PRODUCT_NAME, dm_version = version\<rparr>, dep_manifest = None,
      dep_entrypoint = True\<rparr>"

definition demo_store :: deployment_store where
  "demo_store =
     \<lparr>ds_layout = None, ds_deployments = [(demo_artifact (CHR ''a''), demo_deployment (demo_artifact (CHR ''a'')) ''1.0.0'')], ds_staged = None,
      ds_active = Some (To_version (demo_artifact (CHR ''a''))), ds_previous = None, ds_io = []\<rparr>"

definition demo_candidate :: "candidate_manifest option \<Rightarrow> candidate_source" where
  "demo_candidate manifest =
     \<lparr>cs_version = ''2.0.0'', cs_tree = [(''main'', Tree_file ''text'')], cs_manifest = manifest, cs_entrypoint = True,
      cs_copy_error = None\<rparr>"

definition demo_down :: gateway_net where
  "demo_down =
     \<lparr>gn_record = Inr None, gn_secret = Inr None, gn_managementSecret = Inr None, gn_gateway = (\<lambda>_. None),
      gn_management = (\<lambda>_. None), gn_gatewayUp = False, gn_managementUp = False, gn_started = (\<lambda>_. None),
      gn_request = (\<lambda>_ _. Inl ''refused'')\<rparr>"

definition demo_up :: gateway_net where
  "demo_up = served_net demo_macs
     (demo_identity_options\<lparr>io_runtimeVersion := Some ''2.0.0'', io_sessions := 0\<rparr>) ''management''
     \<lparr>pi_pid = 7, pi_processStartedAt = ''t''\<rparr> 8080 ''lease'' defaultBuildIdentity (\<lambda>_. Some ''t'') (\<lambda>path secret. Inr 200)"

definition demo_deps :: "candidate_source option \<Rightarrow> deployment_store update_deps" where
  "demo_deps candidate =
     \<lparr>ud_ops = store_ops (\<lambda>_. demo_artifact (CHR ''b'')) id [''home''], ud_net = (\<lambda>t. if t < 4 then demo_down else demo_up),
      ud_service = (\<lambda>_ _. Inr ()), ud_macs = demo_macs, ud_challenges = (\<lambda>_. (demo_challenge, demo_challenge)),
      ud_configFingerprint = ''config'', ud_clock = (\<lambda>_. ''t''), ud_candidate = candidate, ud_installOnly = False,
      ud_force = False, ud_serviceDefinition = False, ud_cliStateVersion = None, ud_drainPolls = 0, ud_readinessPolls = 3\<rparr>"

definition demo_world :: "update_file \<Rightarrow> deployment_store \<Rightarrow> deployment_store update_world" where
  "demo_world f s = \<lparr>uw_file = f, uw_store = s, uw_now = 0, uw_commands = []\<rparr>"

definition demo_outcome :: "(deployment_store, update_result) update_run \<Rightarrow> update_outcome option" where
  "demo_outcome run = (case snd run of Inl _ \<Rightarrow> None | Inr res \<Rightarrow> Some (ur_outcome res))"



lemma demo_update_switches:
  "list_ex (\<lambda>w'. ds_active (uw_store w') \<noteq> ds_active demo_store)
     (fst (runUpdate (demo_deps (Some (demo_candidate None))) (demo_world No_file demo_store)))"
  by code_simp

theorem update_crash_safe_witness:
  "\<exists>w'\<in>set (fst (runUpdate (demo_deps (Some (demo_candidate None))) (demo_world No_file demo_store))). \<exists>r.
     uw_file w' = Stored r \<and> us_state (recoverUpdateState r) \<in> {Up_rollback_required, Up_active, Up_recovery_required}"
proof -
  obtain w' where w': "w' \<in> set (fst (runUpdate (demo_deps (Some (demo_candidate None))) (demo_world No_file demo_store)))"
      "ds_active (uw_store w') \<noteq> ds_active demo_store"
    using demo_update_switches by (auto simp: list_ex_iff)
  have "ud_ops (demo_deps (Some (demo_candidate None))) = store_ops (\<lambda>_. demo_artifact (CHR ''b'')) id [''home'']"
    by (simp add: demo_deps_def)
  from update_crash_safe [OF this w'(1)] w' show ?thesis by (auto simp: demo_world_def)
qed





definition demo_final_record :: update_state_record where
  "demo_final_record = demo_update_record\<lparr>us_transaction := Some (demo_transaction\<lparr>tx_phase := Ph_recovery_required\<rparr>)\<rparr>"

theorem recovery_required_is_final_witness:
  "\<exists>w'\<in>set (fst (runUpdate (demo_deps (Some (demo_candidate None))) (demo_world (Stored demo_final_record) demo_store))).
     uw_store w' = demo_store \<and> uw_commands w' = []"
proof -
  let ?run = "runUpdate (demo_deps (Some (demo_candidate None))) (demo_world (Stored demo_final_record) demo_store)"
  have "list_ex (\<lambda>_. True) (fst ?run)" by code_simp
  then obtain w' where w': "w' \<in> set (fst ?run)" by (auto simp: list_ex_iff)
  have "us_state (recoverUpdateState demo_final_record) = Up_recovery_required" by code_simp
  from recovery_required_is_final [OF _ this w'] w' show ?thesis by (auto simp: demo_world_def)
qed

section \<open>Deviations\<close>

text \<open>
  A candidate that the preflight refused (its migration is forward-only, or its state schema is unknown) is staged with an
  open journal; the next run takes the journal for a resumable activation, and activates it.
\<close>

definition demo_forward_only :: candidate_manifest where
  "demo_forward_only =
     \<lparr>cdm_version = ''2.0.0'', cdm_stateVersion = 3, cdm_migrationClass = Some Mig_forward_only, cdm_migrationForwardOnly = None\<rparr>"

lemma refused_record_resumes:
  "us_state (recoverUpdateState ((staged_record deps v installed w r)\<lparr>us_state := Up_failed, us_failureReason := m, us_updatedAt := t\<rparr>))
     = Up_pending_activation"
  by (simp add: recoverUpdateState_def recoverTransaction_def staged_record_def)

lemma refused_candidate_is_activated:
  defines "refused \<equiv> runUpdate (demo_deps (Some (demo_candidate (Some demo_forward_only)))) (demo_world No_file demo_store)"
  shows "demo_outcome refused = Some Out_failed
    \<and> demo_outcome (runUpdate (demo_deps None) (last (fst refused))) = Some Out_activated"
  unfolding refused_def by code_simp

text \<open>
  After a rollback that succeeded the journal is written as committed, with the candidate in it: the next recovery makes the
  rolled-back candidate the current version, though the previous deployment serves.
\<close>

lemma rolled_back_candidate_returns:
  "us_currentVersion (recoverUpdateState (rolled_back_record deps reason (Some tx) restored w r)) = tx_candidateVersion tx"
  "us_currentArtifactId (recoverUpdateState (rolled_back_record deps reason (Some tx) restored w r)) = Some (tx_candidateArtifactId tx)"
  "us_currentVersion (rolled_back_record deps reason (Some tx) restored w r) = in_version restored"
  by (simp_all add: recoverUpdateState_def recoverTransaction_def rolled_back_record_def)

text \<open>An unreachable drain route does not leave the activation pending: the run throws.\<close>

lemma unreachable_drain_throws:
  assumes "inspect_at deps (uw_now w) = Inr i" and "attested_resident i"
    and "gn_secret (ud_net deps (Suc (uw_now w))) = Inr (Some s)"
    and "gn_request (ud_net deps (Suc (uw_now w))) ''/drain'' s = Inl e"
  shows "snd (beginDrain deps w) = Inl e"
  using assms by (simp add: beginDrain_def inspect_step_def observe_step_def then_step_simps drain_at_def bind_ok_simps)

text \<open>
  A candidate with the version of its predecessor that was interrupted in its probation is rolled back without a restart:
  it keeps running.
\<close>

lemma same_version_keeps_running:
  assumes "us_state r = Up_rollback_required" and "served_version runtime = Some (us_currentVersion r)"
    and "w' \<in> set (fst (run_recovered deps runtime (Some r) w))"
  shows "uw_commands w' = uw_commands w"
proof -
  let ?I = "\<lambda>v. uw_commands v = uw_commands w"
  have recovery: "keeps ?I (enterRecoveryRequired deps r' reason v)" if "?I v" for v r' reason
    using that by (auto simp: enterRecoveryRequired_def Let_def intro!: keeps_then keeps_write keeps_pure)
  have restore: "keeps ?I (restore_references deps r v)" if "?I v" for v
    using that by (auto simp: restore_references_def intro!: keeps_then keeps_store keeps_pure split: option.splits)
  have "keeps ?I (rollback deps r False reason w)" for reason
    unfolding rollback_def Let_def
    by (auto intro!: keeps_then keeps_catch keeps_write keeps_pure recovery restore keeps_transition)
  then have "keeps ?I (run_recovered deps runtime (Some r) w)"
    using assms(1,2) by (simp add: run_recovered_def Let_def)
  with assms(3) show ?thesis by (simp add: keeps_def)
qed

end
