(* ===== verification/Management.thy ===== *)
theory Management
  imports Provider_Catalog Gateway_Identity Control_Plane_Reachable
begin

text \<open>
  The management plane: \<^verbatim>\<open>src/management/session-store.ts\<close>, \<^verbatim>\<open>auth.ts\<close>, \<^verbatim>\<open>origin.ts\<close>, the
  authentication routes of \<^verbatim>\<open>server.ts\<close> and the mutating routes of \<^verbatim>\<open>collections.ts\<close>.

  \<open>sha\<close> is the hash of a token; the random tokens of an operation and the clock are arguments. A header
  given several times is its first value. A body that zod refuses is \<open>None\<close>; the reads and the
  routes over the credential service are left out.
\<close>

section \<open>Sessions\<close>

definition BOOTSTRAP_TTL_MS :: int where "BOOTSTRAP_TTL_MS = 60000"

definition SESSION_TTL_MS :: int where "SESSION_TTL_MS = 30 * 60000"

definition SESSION_COOKIE_NAME :: string where "SESSION_COOKIE_NAME = ''ag_mgmt_session''"

record stored_session =
  st_expiresAt :: int
  st_csrfHash :: string

record session_record =
  sr_id :: string
  sr_csrfToken :: string
  sr_expiresAt :: int

record session_store =
  ss_bootstraps :: "string \<rightharpoonup> int"
  ss_sessions :: "string \<rightharpoonup> stored_session"

definition empty_session_store :: session_store where
  "empty_session_store = \<lparr>ss_bootstraps = Map.empty, ss_sessions = Map.empty\<rparr>"

definition live_in :: "('v \<Rightarrow> int) \<Rightarrow> int \<Rightarrow> (string \<rightharpoonup> 'v) \<Rightarrow> (string \<rightharpoonup> 'v)" where
  "live_in expiry now m = (\<lambda>k. case m k of None \<Rightarrow> None | Some v \<Rightarrow> if expiry v \<le> now then None else Some v)"

definition purge :: "int \<Rightarrow> session_store \<Rightarrow> session_store" where
  "purge now s =
     \<lparr>ss_bootstraps = live_in id now (ss_bootstraps s), ss_sessions = live_in st_expiresAt now (ss_sessions s)\<rparr>"

definition issueBootstrap :: "(string \<Rightarrow> string) \<Rightarrow> int \<Rightarrow> string \<Rightarrow> session_store \<Rightarrow> (string \<times> int) \<times> session_store" where
  "issueBootstrap sha now token s =
     (let s' = purge now s; expiresAt = now + BOOTSTRAP_TTL_MS
      in ((token, expiresAt), s'\<lparr>ss_bootstraps := (ss_bootstraps s')(sha token \<mapsto> expiresAt)\<rparr>))"

definition exchangeBootstrap ::
  "(string \<Rightarrow> string) \<Rightarrow> int \<Rightarrow> string \<Rightarrow> string \<Rightarrow> string \<Rightarrow> session_store \<Rightarrow> session_record option \<times> session_store" where
  "exchangeBootstrap sha now token newId newCsrf s =
     (let s' = purge now s; hashed = sha token; found = ss_bootstraps s' hashed;
          s'' = s'\<lparr>ss_bootstraps := (ss_bootstraps s')(hashed := None)\<rparr>
      in case found of
           None \<Rightarrow> (None, s'')
         | Some expiresAt \<Rightarrow>
             if expiresAt \<le> now then (None, s'')
             else (Some \<lparr>sr_id = newId, sr_csrfToken = newCsrf, sr_expiresAt = now + SESSION_TTL_MS\<rparr>,
                   s''\<lparr>ss_sessions := (ss_sessions s'')
                     (sha newId \<mapsto> \<lparr>st_expiresAt = now + SESSION_TTL_MS, st_csrfHash = sha newCsrf\<rparr>)\<rparr>))"

definition liveSession :: "(string \<Rightarrow> string) \<Rightarrow> int \<Rightarrow> string \<Rightarrow> session_store \<Rightarrow> stored_session option \<times> session_store" where
  "liveSession sha now i s =
     (let s' = purge now s
      in (case ss_sessions s' (sha i) of None \<Rightarrow> None | Some v \<Rightarrow> if now < st_expiresAt v then Some v else None, s'))"

definition hasSession :: "(string \<Rightarrow> string) \<Rightarrow> int \<Rightarrow> string \<Rightarrow> session_store \<Rightarrow> bool \<times> session_store" where
  "hasSession sha now i s = (case liveSession sha now i s of (v, s') \<Rightarrow> (v \<noteq> None, s'))"

definition matchesCsrf :: "(string \<Rightarrow> string) \<Rightarrow> int \<Rightarrow> string \<Rightarrow> string \<Rightarrow> session_store \<Rightarrow> bool \<times> session_store" where
  "matchesCsrf sha now i csrf s =
     (case liveSession sha now i s of
        (None, s') \<Rightarrow> (False, s')
      | (Some v, s') \<Rightarrow> (st_csrfHash v = sha csrf, s'))"

definition rotateCsrf ::
  "(string \<Rightarrow> string) \<Rightarrow> int \<Rightarrow> string \<Rightarrow> string \<Rightarrow> session_store \<Rightarrow> session_record option \<times> session_store" where
  "rotateCsrf sha now i newCsrf s =
     (case liveSession sha now i s of
        (None, s') \<Rightarrow> (None, s')
      | (Some v, s') \<Rightarrow>
          (Some \<lparr>sr_id = i, sr_csrfToken = newCsrf, sr_expiresAt = st_expiresAt v\<rparr>,
           s'\<lparr>ss_sessions := (ss_sessions s')(sha i \<mapsto> \<lparr>st_expiresAt = st_expiresAt v, st_csrfHash = sha newCsrf\<rparr>)\<rparr>))"

definition revoke :: "(string \<Rightarrow> string) \<Rightarrow> string \<Rightarrow> session_store \<Rightarrow> session_store" where
  "revoke sha i s = s\<lparr>ss_sessions := (ss_sessions s)(sha i := None)\<rparr>"

definition revokeAll :: "session_store \<Rightarrow> session_store" where
  "revokeAll s = empty_session_store"

section \<open>Origin and cookies\<close>

definition managementOrigin :: "string \<Rightarrow> int \<Rightarrow> string" where
  "managementOrigin host port = ''http://'' @ host @ '':'' @ show_int port"

definition isExactManagementOrigin :: "string option \<Rightarrow> string \<Rightarrow> bool" where
  "isExactManagementOrigin origin expected \<longleftrightarrow> origin = Some expected"

fun split_at :: "char \<Rightarrow> string \<Rightarrow> string list" where
  "split_at d [] = [[]]"
| "split_at d (c # s) =
     (if c = d then [] # split_at d s else case split_at d s of [] \<Rightarrow> [[c]] | w # ws \<Rightarrow> (c # w) # ws)"

fun cookie_in :: "string \<Rightarrow> string list \<Rightarrow> string option" where
  "cookie_in nm [] = None"
| "cookie_in nm (part # parts) =
     (let key = takeWhile (\<lambda>c. c \<noteq> CHR ''='') part
      in if key = [] \<or> key = part then cookie_in nm parts
         else if js_trim key \<noteq> nm then cookie_in nm parts
         else Some (js_trim (drop (length key + 1) part)))"

definition parseCookie :: "string option \<Rightarrow> string \<Rightarrow> string option" where
  "parseCookie header nm =
     (case header of None \<Rightarrow> None | Some h \<Rightarrow> if h = [] then None else cookie_in nm (split_at (CHR '';'') h))"

definition sessionCookie :: "string \<Rightarrow> string \<Rightarrow> int \<Rightarrow> string" where
  "sessionCookie nm v maxAgeSeconds =
     nm @ ''='' @ v @ ''; Path=/; HttpOnly; SameSite=Strict; Max-Age='' @ show_int maxAgeSeconds"

definition expiredSessionCookie :: "string \<Rightarrow> string" where
  "expiredSessionCookie nm = nm @ ''=; Path=/; HttpOnly; SameSite=Strict; Max-Age=0''"

section \<open>Authorisation\<close>

record mgmt_headers =
  mh_authorization :: "string option"
  mh_cookie :: "string option"
  mh_csrf :: "string option"
  mh_origin :: "string option"

definition bearerToken :: "string option \<Rightarrow> string option" where
  "bearerToken header =
     (case header of None \<Rightarrow> None | Some h \<Rightarrow> if starts_with h ''Bearer '' then Some (drop 7 h) else None)"

definition bearerMatches :: "(string \<Rightarrow> string) \<Rightarrow> string \<Rightarrow> string \<Rightarrow> bool" where
  "bearerMatches sha actual expected \<longleftrightarrow> sha actual = sha expected"

type_synonym rejection = "nat \<times> string"

definition authorize ::
  "(string \<Rightarrow> string) \<Rightarrow> string \<Rightarrow> int \<Rightarrow> mgmt_headers \<Rightarrow> bool \<Rightarrow> session_store
     \<Rightarrow> (rejection + management_actor) \<times> session_store" where
  "authorize sha managementToken now headers mutating s =
     (case bearerToken (mh_authorization headers) of
        Some bearer \<Rightarrow>
          (if bearerMatches sha bearer managementToken then Inr Actor_cli else Inl (401, ''unauthorized''), s)
      | None \<Rightarrow>
          (case non_empty (parseCookie (mh_cookie headers) SESSION_COOKIE_NAME) of
             None \<Rightarrow> (Inl (401, ''unauthorized''), s)
           | Some sessionId \<Rightarrow>
               (case hasSession sha now sessionId s of
                  (False, s') \<Rightarrow> (Inl (401, ''unauthorized''), s')
                | (True, s') \<Rightarrow>
                    if \<not> mutating then (Inr Actor_browser, s')
                    else (case non_empty (mh_csrf headers) of
                            None \<Rightarrow> (Inl (403, ''invalid-csrf''), s')
                          | Some csrf \<Rightarrow>
                              (case matchesCsrf sha now sessionId csrf s' of
                                 (True, s'') \<Rightarrow> (Inr Actor_browser, s'')
                               | (False, s'') \<Rightarrow> (Inl (403, ''invalid-csrf''), s''))))))"


section \<open>Requests\<close>

text \<open>
  The parsed bodies: a \<open>None\<close> where zod refuses. A provider's body lacks what the catalogue
  fills in; an account's patch may carry a revision of the terms, which then is all it does.
\<close>

datatype create_body =
    New_provider create_provider_input
  | New_account create_account_input
  | New_pool create_pool_input
  | New_profile create_profile_input

datatype patch_body =
    Patch_provider int update_provider_input
  | Patch_account int update_account_input "string option"
  | Patch_pool int update_pool_input
  | Patch_profile int update_profile_input

fun create_op :: "(string \<Rightarrow> parsed_url option) \<Rightarrow> create_body \<Rightarrow> cp_error + cp_op" where
  "create_op url_of (New_provider x) =
     bind_ok (applyCatalogDefaults url_of (cprov_name x) (cprov_integrationMode x)
                (cprov_endpointPolicy x) (cprov_requiredTermsRevision x)) (\<lambda>(policy, terms).
       Inr (Create_provider (x\<lparr>cprov_endpointPolicy := Some policy, cprov_requiredTermsRevision := terms\<rparr>)))"
| "create_op url_of (New_account x) = Inr (Create_account x)"
| "create_op url_of (New_pool x) = Inr (Create_pool x)"
| "create_op url_of (New_profile x) = Inr (Create_profile x)"

fun patch_op :: "string \<Rightarrow> patch_body \<Rightarrow> cp_op" where
  "patch_op i (Patch_provider v x) = Update_provider i v x"
| "patch_op i (Patch_account v x terms) =
     (case terms of Some t \<Rightarrow> Acknowledge_terms i v t | None \<Rightarrow> Update_account i v x)"
| "patch_op i (Patch_pool v x) = Update_pool i v x"
| "patch_op i (Patch_profile v x) = Update_profile i v x"

datatype mgmt_request =
    Get_readyz
  | Post_bootstrap
  | Post_exchange "string option"
  | Post_resume
  | Post_logout
  | Post_collection "create_body option"
  | Patch_collection "string option" "patch_body option"

datatype mgmt_reply =
    Reply_error nat string
  | Reply_ready int
  | Reply_token string int
  | Reply_session string string int
  | Reply_csrf string int
  | Reply_logged_out string
  | Reply_resource nat "string \<times> int"

record mgmt_config =
  mc_sha :: "string \<Rightarrow> string"
  mc_url_of :: "string \<Rightarrow> parsed_url option"
  mc_token :: string
  mc_origin :: string

record mgmt_call =
  call_now :: int
  call_env :: cp_env
  call_fresh :: "string \<times> string"
  call_headers :: mgmt_headers
  call_request :: mgmt_request

record mgmt_state =
  ms_sessions :: session_store
  ms_db :: control_plane

definition cp_reply :: "cp_error \<Rightarrow> mgmt_reply" where
  "cp_reply e =
     (case (cp_error_status e, cp_error_code e) of
        (Some status, Some code) \<Rightarrow> Reply_error status code
      | _ \<Rightarrow> Reply_error 500 ''internal'')"

definition collection_call ::
  "mgmt_call \<Rightarrow> nat \<Rightarrow> management_actor \<Rightarrow> (cp_error + cp_op) \<Rightarrow> mgmt_state \<Rightarrow> mgmt_reply \<times> mgmt_state" where
  "collection_call call status actor op st =
     (case op of
        Inl e \<Rightarrow> (cp_reply e, st)
      | Inr op' \<Rightarrow>
          (case run_op (call_env call) actor op' (ms_db st) of
             (Inl e, db) \<Rightarrow> (cp_reply e, st\<lparr>ms_db := db\<rparr>)
           | (Inr r, db) \<Rightarrow> (Reply_resource status r, st\<lparr>ms_db := db\<rparr>)))"

text \<open>A handler that starts by \<open>authorize\<close> goes on with the principal, or the rejection is sent.\<close>

definition with_principal ::
  "mgmt_config \<Rightarrow> mgmt_call \<Rightarrow> bool \<Rightarrow> (management_actor \<Rightarrow> mgmt_state \<Rightarrow> mgmt_reply \<times> mgmt_state)
     \<Rightarrow> mgmt_state \<Rightarrow> mgmt_reply \<times> mgmt_state" where
  "with_principal cfg call mutating handler st =
     (case authorize (mc_sha cfg) (mc_token cfg) (call_now call) (call_headers call) mutating (ms_sessions st) of
        (Inl (status, code), s) \<Rightarrow> (Reply_error status code, st\<lparr>ms_sessions := s\<rparr>)
      | (Inr actor, s) \<Rightarrow> handler actor (st\<lparr>ms_sessions := s\<rparr>))"

definition session_id :: "mgmt_call \<Rightarrow> string option" where
  "session_id call = parseCookie (mh_cookie (call_headers call)) SESSION_COOKIE_NAME"

fun mgmt_route :: "mgmt_config \<Rightarrow> mgmt_call \<Rightarrow> mgmt_request \<Rightarrow> mgmt_state \<Rightarrow> mgmt_reply \<times> mgmt_state" where
  "mgmt_route cfg call Get_readyz st =
     with_principal cfg call False
       (\<lambda>actor st'. (Reply_ready (case currentPolicy (ms_db st') of None \<Rightarrow> 0 | Some p \<Rightarrow> revision p), st')) st"
| "mgmt_route cfg call Post_bootstrap st =
     with_principal cfg call False
       (\<lambda>actor st'.
          if actor \<noteq> Actor_cli then (Reply_error 403 ''cli-only'', st')
          else case issueBootstrap (mc_sha cfg) (call_now call) (fst (call_fresh call)) (ms_sessions st') of
                 ((token, expiresAt), s) \<Rightarrow> (Reply_token token expiresAt, st'\<lparr>ms_sessions := s\<rparr>)) st"
| "mgmt_route cfg call (Post_exchange body) st =
     (case body of
        None \<Rightarrow> (Reply_error 400 ''invalid-token'', st)
      | Some token \<Rightarrow>
          if length token < 16 then (Reply_error 400 ''invalid-token'', st)
          else case exchangeBootstrap (mc_sha cfg) (call_now call) token
                      (fst (call_fresh call)) (snd (call_fresh call)) (ms_sessions st) of
                 (None, s) \<Rightarrow> (Reply_error 401 ''invalid-token'', st\<lparr>ms_sessions := s\<rparr>)
               | (Some r, s) \<Rightarrow>
                   (Reply_session (sessionCookie SESSION_COOKIE_NAME (sr_id r) (SESSION_TTL_MS div 1000))
                      (sr_csrfToken r) (sr_expiresAt r), st\<lparr>ms_sessions := s\<rparr>))"
| "mgmt_route cfg call Post_resume st =
     (case session_id call of
        None \<Rightarrow> (Reply_error 401 ''unauthorized'', st)
      | Some i \<Rightarrow>
          (case rotateCsrf (mc_sha cfg) (call_now call) i (fst (call_fresh call)) (ms_sessions st) of
             (None, s) \<Rightarrow> (Reply_error 401 ''unauthorized'', st\<lparr>ms_sessions := s\<rparr>)
           | (Some r, s) \<Rightarrow> (Reply_csrf (sr_csrfToken r) (sr_expiresAt r), st\<lparr>ms_sessions := s\<rparr>)))"
| "mgmt_route cfg call Post_logout st =
     with_principal cfg call True
       (\<lambda>actor st'.
          (Reply_logged_out (expiredSessionCookie SESSION_COOKIE_NAME),
           case non_empty (session_id call) of
             None \<Rightarrow> st'
           | Some i \<Rightarrow> st'\<lparr>ms_sessions := revoke (mc_sha cfg) i (ms_sessions st')\<rparr>)) st"
| "mgmt_route cfg call (Post_collection body) st =
     with_principal cfg call True
       (\<lambda>actor st'.
          case body of
            None \<Rightarrow> (Reply_error 400 ''invalid'', st')
          | Some b \<Rightarrow> collection_call call 201 actor (create_op (mc_url_of cfg) b) st') st"
| "mgmt_route cfg call (Patch_collection i body) st =
     with_principal cfg call True
       (\<lambda>actor st'.
          case (i, body) of
            (Some i', Some b) \<Rightarrow> collection_call call 200 actor (Inr (patch_op i' b)) st'
          | _ \<Rightarrow> (Reply_error 400 ''invalid'', st')) st"

text \<open>The \<open>onRequest\<close> hook: whatever is not a read has to name the exact origin.\<close>

definition is_read :: "mgmt_request \<Rightarrow> bool" where
  "is_read request \<longleftrightarrow> request = Get_readyz"

definition mgmt_handle :: "mgmt_config \<Rightarrow> mgmt_call \<Rightarrow> mgmt_state \<Rightarrow> mgmt_reply \<times> mgmt_state" where
  "mgmt_handle cfg call st =
     (if \<not> is_read (call_request call) \<and> \<not> isExactManagementOrigin (mh_origin (call_headers call)) (mc_origin cfg)
      then (Reply_error 403 ''invalid-origin'', st)
      else mgmt_route cfg call (call_request call) st)"

fun mgmt_run :: "mgmt_config \<Rightarrow> mgmt_call list \<Rightarrow> mgmt_state \<Rightarrow> (mgmt_call \<times> mgmt_reply) list \<times> mgmt_state" where
  "mgmt_run cfg [] st = ([], st)"
| "mgmt_run cfg (call # calls) st =
     (case mgmt_handle cfg call st of (reply, st') \<Rightarrow>
        (case mgmt_run cfg calls st' of (hist, st'') \<Rightarrow> ((call, reply) # hist, st'')))"


section \<open>What an authorised call rests on\<close>

definition bearer_presented :: "mgmt_config \<Rightarrow> mgmt_headers \<Rightarrow> bool" where
  "bearer_presented cfg headers \<longleftrightarrow>
     (\<exists>b. mh_authorization headers = Some (''Bearer '' @ b) \<and> mc_sha cfg b = mc_sha cfg (mc_token cfg))"

definition session_presented :: "mgmt_config \<Rightarrow> int \<Rightarrow> mgmt_headers \<Rightarrow> session_store \<Rightarrow> stored_session \<Rightarrow> bool" where
  "session_presented cfg now headers s v \<longleftrightarrow>
     (\<exists>i. parseCookie (mh_cookie headers) SESSION_COOKIE_NAME = Some i
        \<and> ss_sessions s (mc_sha cfg i) = Some v \<and> now < st_expiresAt v)"

lemma live_in_Some [simp]: "live_in expiry now m k = Some v \<longleftrightarrow> m k = Some v \<and> now < expiry v"
  by (auto simp: live_in_def split: option.splits)

lemma live_in_twice [simp]: "live_in expiry now (live_in expiry now m) = live_in expiry now m"
  by (rule ext) (simp add: live_in_def split: option.splits)

lemma purge_twice [simp]: "purge now (purge now s) = purge now s"
  by (simp add: purge_def)

lemma purge_Some [simp]:
  "ss_bootstraps (purge now s) h = Some e \<longleftrightarrow> ss_bootstraps s h = Some e \<and> now < e"
  "ss_sessions (purge now s) h = Some v \<longleftrightarrow> ss_sessions s h = Some v \<and> now < st_expiresAt v"
  by (simp_all add: purge_def)

lemma purge_None [simp]:
  "ss_bootstraps (purge now s) h = None \<longleftrightarrow> (\<forall>e. ss_bootstraps s h = Some e \<longrightarrow> e \<le> now)"
  "ss_sessions (purge now s) h = None \<longleftrightarrow> (\<forall>v. ss_sessions s h = Some v \<longrightarrow> st_expiresAt v \<le> now)"
  by (auto simp: purge_def live_in_def split: option.splits)

lemma liveSession_Some [simp]:
  "liveSession sha now i s = (Some v, s') \<longleftrightarrow> s' = purge now s \<and> ss_sessions s (sha i) = Some v \<and> now < st_expiresAt v"
  by (auto simp: liveSession_def Let_def split: option.splits)

lemma liveSession_snd [simp]: "snd (liveSession sha now i s) = purge now s"
  by (simp add: liveSession_def Let_def)

lemma hasSession_iff:
  "hasSession sha now i s = (b, s') \<longleftrightarrow>
     s' = purge now s \<and> b = (\<exists>v. ss_sessions s (sha i) = Some v \<and> now < st_expiresAt v)"
  by (auto simp: hasSession_def liveSession_def Let_def split: option.splits)

lemma matchesCsrf_iff:
  "matchesCsrf sha now i csrf s = (b, s') \<longleftrightarrow>
     s' = purge now s \<and>
     b = (\<exists>v. ss_sessions s (sha i) = Some v \<and> now < st_expiresAt v \<and> st_csrfHash v = sha csrf)"
  by (auto simp: matchesCsrf_def liveSession_def Let_def split: option.splits)

lemma bearerToken_Some: "bearerToken header = Some b \<longleftrightarrow> header = Some (''Bearer '' @ b)"
  by (auto simp: bearerToken_def starts_with_iff split: option.splits if_splits)

lemma non_empty_Some [simp]: "non_empty x = Some y \<longleftrightarrow> x = Some y \<and> y \<noteq> []"
  by (auto simp: non_empty_def split: option.splits)

lemma non_empty_None [simp]: "non_empty x = None \<longleftrightarrow> x = None \<or> x = Some []"
  by (auto simp: non_empty_def split: option.splits)

lemma non_empty_simps [simp]: "non_empty None = None" "non_empty (Some []) = None"
  by (simp_all add: non_empty_def)

lemma authorize_Inr:
  assumes "authorize (mc_sha cfg) (mc_token cfg) now headers mutating s = (Inr actor, s')"
  shows "actor = Actor_cli \<and> s' = s \<and> bearer_presented cfg headers \<or>
         actor = Actor_browser \<and> s' = purge now s \<and>
         (\<exists>v. session_presented cfg now headers s v \<and>
            (mutating \<longrightarrow> (\<exists>csrf. mh_csrf headers = Some csrf \<and> st_csrfHash v = mc_sha cfg csrf)))"
  using assms
  by (auto simp: authorize_def bearerMatches_def bearer_presented_def session_presented_def bearerToken_Some
      hasSession_iff matchesCsrf_iff split: option.splits if_splits prod.splits bool.splits)

lemma authorize_snd:
  "authorize sha tok now headers mutating s = (r, s') \<Longrightarrow> s' = s \<or> s' = purge now s"
  by (auto simp: authorize_def hasSession_iff matchesCsrf_iff
      split: option.splits if_splits prod.splits bool.splits)


lemma authorize_sessions:
  assumes "authorize sha tok now headers mutating s = (r, s')"
  shows "ss_bootstraps s' t = Some e \<Longrightarrow> ss_bootstraps s t = Some e"
    and "ss_sessions s' h = Some v \<Longrightarrow> ss_sessions s h = Some v"
  using authorize_snd [OF assms] by auto

section \<open>The history of a session\<close>

definition issued :: "mgmt_config \<Rightarrow> string \<Rightarrow> mgmt_call \<times> mgmt_reply \<Rightarrow> bool" where
  "issued cfg t e \<longleftrightarrow>
     call_request (fst e) = Post_bootstrap \<and> mh_origin (call_headers (fst e)) = Some (mc_origin cfg)
     \<and> bearer_presented cfg (call_headers (fst e)) \<and> mc_sha cfg (fst (call_fresh (fst e))) = t
     \<and> snd e = Reply_token (fst (call_fresh (fst e))) (call_now (fst e) + BOOTSTRAP_TTL_MS)"

definition opened :: "mgmt_config \<Rightarrow> string \<Rightarrow> string \<Rightarrow> mgmt_call \<times> mgmt_reply \<Rightarrow> bool" where
  "opened cfg t h e \<longleftrightarrow>
     (\<exists>tok. call_request (fst e) = Post_exchange (Some tok) \<and> mc_sha cfg tok = t)
     \<and> mh_origin (call_headers (fst e)) = Some (mc_origin cfg) \<and> mc_sha cfg (fst (call_fresh (fst e))) = h
     \<and> snd e = Reply_session
          (sessionCookie SESSION_COOKIE_NAME (fst (call_fresh (fst e))) (SESSION_TTL_MS div 1000))
          (snd (call_fresh (fst e))) (call_now (fst e) + SESSION_TTL_MS)"

definition closed_by :: "mgmt_config \<Rightarrow> string \<Rightarrow> mgmt_call \<times> mgmt_reply \<Rightarrow> bool" where
  "closed_by cfg h e \<longleftrightarrow>
     (\<exists>cookie i. snd e = Reply_logged_out cookie \<and> session_id (fst e) = Some i \<and> i \<noteq> [] \<and> mc_sha cfg i = h)"

definition gave_csrf :: "mgmt_config \<Rightarrow> string \<Rightarrow> string \<Rightarrow> mgmt_call \<times> mgmt_reply \<Rightarrow> bool" where
  "gave_csrf cfg h k e \<longleftrightarrow>
     (\<exists>t. opened cfg t h e \<and> mc_sha cfg (snd (call_fresh (fst e))) = k) \<or>
     (\<exists>i expiry. call_request (fst e) = Post_resume \<and> session_id (fst e) = Some i \<and> mc_sha cfg i = h
        \<and> snd e = Reply_csrf (fst (call_fresh (fst e))) expiry \<and> mc_sha cfg (fst (call_fresh (fst e))) = k)"

lemmas history_defs = issued_def opened_def closed_by_def gave_csrf_def

lemmas store_defs = issueBootstrap_def exchangeBootstrap_def rotateCsrf_def revoke_def Let_def

lemma cp_reply_is_error: "\<exists>status code. cp_reply e = Reply_error status code"
  by (cases e) (simp_all add: cp_reply_def)

lemma collection_call_reply:
  assumes "collection_call call status actor op st = (reply, st')"
  shows "ms_sessions st' = ms_sessions st \<and>
    ((\<exists>a b. reply = Reply_error a b) \<or> (\<exists>a b. reply = Reply_resource a b))"
  using assms cp_reply_is_error
  by (auto simp: collection_call_def split: sum.splits prod.splits)

lemma with_principal_elim:
  assumes "with_principal cfg call mutating handler st = (reply, st')"
  obtains s status code where "reply = Reply_error status code" "st' = st\<lparr>ms_sessions := s\<rparr>"
      "s = ms_sessions st \<or> s = purge (call_now call) (ms_sessions st)"
  | s actor where "handler actor (st\<lparr>ms_sessions := s\<rparr>) = (reply, st')"
      "authorize (mc_sha cfg) (mc_token cfg) (call_now call) (call_headers call) mutating (ms_sessions st) = (Inr actor, s)"
      "s = ms_sessions st \<or> s = purge (call_now call) (ms_sessions st)"
  using assms authorize_snd
  by (auto simp: with_principal_def split: sum.splits prod.splits)


text \<open>What one call does to the sessions, by the request and the reply.\<close>

datatype session_effect =
    Quiet | Issues | Spends string | Opens string | Rotates string | Closes string

fun has_effect :: "mgmt_config \<Rightarrow> mgmt_call \<Rightarrow> mgmt_reply \<Rightarrow> session_store \<Rightarrow> session_store \<Rightarrow> session_effect \<Rightarrow> bool" where
  "has_effect cfg call reply s s' Quiet \<longleftrightarrow>
     (s' = s \<or> s' = purge (call_now call) s)
     \<and> ((\<exists>a b. reply = Reply_error a b) \<or> (\<exists>a. reply = Reply_ready a) \<or> (\<exists>a b. reply = Reply_resource a b)
        \<or> (\<exists>a. reply = Reply_logged_out a) \<and> non_empty (session_id call) = None)"
| "has_effect cfg call reply s s' Issues \<longleftrightarrow>
     call_request call = Post_bootstrap \<and> bearer_presented cfg (call_headers call)
     \<and> reply = Reply_token (fst (call_fresh call)) (call_now call + BOOTSTRAP_TTL_MS)
     \<and> s' = (purge (call_now call) s)\<lparr>ss_bootstraps := (ss_bootstraps (purge (call_now call) s))
              (mc_sha cfg (fst (call_fresh call)) \<mapsto> call_now call + BOOTSTRAP_TTL_MS)\<rparr>"
| "has_effect cfg call reply s s' (Spends tok) \<longleftrightarrow>
     (\<exists>a b. reply = Reply_error a b)
     \<and> s' = (purge (call_now call) s)\<lparr>ss_bootstraps := (ss_bootstraps (purge (call_now call) s))(mc_sha cfg tok := None)\<rparr>"
| "has_effect cfg call reply s s' (Opens tok) \<longleftrightarrow>
     call_request call = Post_exchange (Some tok)
     \<and> reply = Reply_session
          (sessionCookie SESSION_COOKIE_NAME (fst (call_fresh call)) (SESSION_TTL_MS div 1000))
          (snd (call_fresh call)) (call_now call + SESSION_TTL_MS)
     \<and> (\<exists>e. ss_bootstraps s (mc_sha cfg tok) = Some e \<and> call_now call < e)
     \<and> s' = \<lparr>ss_bootstraps = (ss_bootstraps (purge (call_now call) s))(mc_sha cfg tok := None),
             ss_sessions = (ss_sessions (purge (call_now call) s))(mc_sha cfg (fst (call_fresh call)) \<mapsto>
               \<lparr>st_expiresAt = call_now call + SESSION_TTL_MS, st_csrfHash = mc_sha cfg (snd (call_fresh call))\<rparr>)\<rparr>"
| "has_effect cfg call reply s s' (Rotates i) \<longleftrightarrow>
     call_request call = Post_resume \<and> session_id call = Some i
     \<and> (\<exists>v. ss_sessions s (mc_sha cfg i) = Some v
          \<and> reply = Reply_csrf (fst (call_fresh call)) (st_expiresAt v)
          \<and> s' = (purge (call_now call) s)\<lparr>ss_sessions := (ss_sessions (purge (call_now call) s))(mc_sha cfg i \<mapsto>
               \<lparr>st_expiresAt = st_expiresAt v, st_csrfHash = mc_sha cfg (fst (call_fresh call))\<rparr>)\<rparr>)"
| "has_effect cfg call reply s s' (Closes i) \<longleftrightarrow>
     session_id call = Some i \<and> i \<noteq> [] \<and> (\<exists>a. reply = Reply_logged_out a)
     \<and> (\<exists>s0. (s0 = s \<or> s0 = purge (call_now call) s)
          \<and> s' = s0\<lparr>ss_sessions := (ss_sessions s0)(mc_sha cfg i := None)\<rparr>)"

lemma mgmt_route_effect:
  assumes "mgmt_route cfg call request st = (reply, st')" and "call_request call = request"
  shows "\<exists>effect. has_effect cfg call reply (ms_sessions st) (ms_sessions st') effect"
proof (cases request)
  case Get_readyz
  then have "has_effect cfg call reply (ms_sessions st) (ms_sessions st') Quiet"
    using assms by (auto elim!: with_principal_elim)
  then show ?thesis ..
next
  case Post_bootstrap
  then have "has_effect cfg call reply (ms_sessions st) (ms_sessions st') Quiet
      \<or> has_effect cfg call reply (ms_sessions st) (ms_sessions st') Issues"
    using assms
    by (auto elim!: with_principal_elim dest!: authorize_Inr simp: store_defs split: if_splits)
  then show ?thesis by blast
next
  case (Post_exchange body)
  then show ?thesis
  proof (cases "\<exists>tok. body = Some tok \<and> 16 \<le> length tok")
    case True
    then obtain tok where "body = Some tok" "16 \<le> length tok" by blast
    then have "has_effect cfg call reply (ms_sessions st) (ms_sessions st') (Spends tok)
      \<or> has_effect cfg call reply (ms_sessions st) (ms_sessions st') (Opens tok)"
      using assms Post_exchange by (auto simp: store_defs split: option.splits if_splits)
    then show ?thesis by blast
  next
    case False
    then have "has_effect cfg call reply (ms_sessions st) (ms_sessions st') Quiet"
      using assms Post_exchange by (auto split: option.splits if_splits)
    then show ?thesis ..
  qed
next
  case Post_resume
  show ?thesis
  proof (cases "session_id call")
    case None
    then have "has_effect cfg call reply (ms_sessions st) (ms_sessions st') Quiet"
      using assms Post_resume by auto
    then show ?thesis ..
  next
    case (Some i)
    then have "has_effect cfg call reply (ms_sessions st) (ms_sessions st') Quiet
      \<or> has_effect cfg call reply (ms_sessions st) (ms_sessions st') (Rotates i)"
      using assms Post_resume
      by (auto simp: rotateCsrf_def liveSession_def Let_def split: option.splits if_splits)
    then show ?thesis by blast
  qed
next
  case Post_logout
  show ?thesis
  proof (cases "non_empty (session_id call)")
    case None
    then have "has_effect cfg call reply (ms_sessions st) (ms_sessions st') Quiet"
      using assms Post_logout by (auto elim!: with_principal_elim)
    then show ?thesis ..
  next
    case (Some i)
    have "\<exists>effect. has_effect cfg call reply (ms_sessions st) (ms_sessions st') effect"
      if "mgmt_route cfg call Post_logout st = (reply, st')"
      using that
    proof (cases rule: with_principal_elim [OF that [unfolded mgmt_route.simps]])
      case (1 s status code)
      then have "has_effect cfg call reply (ms_sessions st) (ms_sessions st') Quiet" by auto
      then show ?thesis ..
    next
      case (2 s actor)
      then have "has_effect cfg call reply (ms_sessions st) (ms_sessions st') (Closes i)"
        using Some by (auto simp: revoke_def)
      then show ?thesis ..
    qed
    then show ?thesis using assms Post_logout by simp
  qed
next
  case (Post_collection body)
  then have "has_effect cfg call reply (ms_sessions st) (ms_sessions st') Quiet"
    using assms by (auto elim!: with_principal_elim split: option.splits dest!: collection_call_reply)
  then show ?thesis ..
next
  case (Patch_collection i body)
  then have "has_effect cfg call reply (ms_sessions st) (ms_sessions st') Quiet"
    using assms by (auto elim!: with_principal_elim split: option.splits dest!: collection_call_reply)
  then show ?thesis ..
qed


lemma has_effect_bootstraps:
  assumes "has_effect cfg call reply s s' effect" and "ss_bootstraps s' t = Some e"
    and "is_read (call_request call) \<or> mh_origin (call_headers call) = Some (mc_origin cfg)"
  shows "issued cfg t (call, reply) \<and> e = call_now call + BOOTSTRAP_TTL_MS
       \<or> ss_bootstraps s t = Some e \<and> (\<forall>h. \<not> opened cfg t h (call, reply))"
  using assms by (cases effect) (auto simp: issued_def opened_def is_read_def split: if_splits)

lemma has_effect_sessions:
  assumes "has_effect cfg call reply s s' effect" and "ss_sessions s' h = Some v"
    and "is_read (call_request call) \<or> mh_origin (call_headers call) = Some (mc_origin cfg)"
  shows "(\<exists>t e. opened cfg t h (call, reply) \<and> ss_bootstraps s t = Some e \<and> call_now call < e
            \<and> st_expiresAt v = call_now call + SESSION_TTL_MS \<and> gave_csrf cfg h (st_csrfHash v) (call, reply))
       \<or> (\<exists>v0. ss_sessions s h = Some v0 \<and> st_expiresAt v = st_expiresAt v0 \<and> \<not> closed_by cfg h (call, reply)
            \<and> (gave_csrf cfg h (st_csrfHash v) (call, reply)
               \<or> st_csrfHash v = st_csrfHash v0 \<and> (\<forall>k. \<not> gave_csrf cfg h k (call, reply))))"
  using assms by (cases effect) (auto simp: opened_def closed_by_def gave_csrf_def is_read_def split: if_splits)


lemma mgmt_handle_effect:
  assumes "mgmt_handle cfg call st = (reply, st')"
  shows "\<exists>effect. has_effect cfg call reply (ms_sessions st) (ms_sessions st') effect"
    and "(\<exists>a b. reply = Reply_error a b \<and> st' = st) \<or>
       is_read (call_request call) \<or> mh_origin (call_headers call) = Some (mc_origin cfg)"
proof -
  show "\<exists>effect. has_effect cfg call reply (ms_sessions st) (ms_sessions st') effect"
    using assms mgmt_route_effect [of cfg call "call_request call" st reply st']
    by (auto simp: mgmt_handle_def split: if_splits intro!: exI [of _ Quiet])
  show "(\<exists>a b. reply = Reply_error a b \<and> st' = st) \<or>
       is_read (call_request call) \<or> mh_origin (call_headers call) = Some (mc_origin cfg)"
    using assms by (auto simp: mgmt_handle_def isExactManagementOrigin_def split: if_splits)
qed

lemma mgmt_handle_bootstraps:
  assumes "mgmt_handle cfg call st = (reply, st')" and "ss_bootstraps (ms_sessions st') t = Some e"
  shows "issued cfg t (call, reply) \<and> e = call_now call + BOOTSTRAP_TTL_MS
       \<or> ss_bootstraps (ms_sessions st) t = Some e \<and> (\<forall>h. \<not> opened cfg t h (call, reply))"
  using mgmt_handle_effect [OF assms(1)] assms(2)
  by (auto simp: opened_def dest: has_effect_bootstraps)

lemma mgmt_handle_sessions:
  assumes "mgmt_handle cfg call st = (reply, st')" and "ss_sessions (ms_sessions st') h = Some v"
  shows "(\<exists>t e. opened cfg t h (call, reply) \<and> ss_bootstraps (ms_sessions st) t = Some e \<and> call_now call < e
            \<and> st_expiresAt v = call_now call + SESSION_TTL_MS \<and> gave_csrf cfg h (st_csrfHash v) (call, reply))
       \<or> (\<exists>v0. ss_sessions (ms_sessions st) h = Some v0 \<and> st_expiresAt v = st_expiresAt v0
            \<and> \<not> closed_by cfg h (call, reply)
            \<and> (gave_csrf cfg h (st_csrfHash v) (call, reply)
               \<or> st_csrfHash v = st_csrfHash v0 \<and> (\<forall>k. \<not> gave_csrf cfg h k (call, reply))))"
proof (cases "is_read (call_request call) \<or> mh_origin (call_headers call) = Some (mc_origin cfg)")
  case True
  then show ?thesis using mgmt_handle_effect(1) [OF assms(1)] has_effect_sessions [OF _ assms(2) True] by blast
next
  case False
  then obtain a b where "reply = Reply_error a b" "st' = st" using mgmt_handle_effect(2) [OF assms(1)] by blast
  then show ?thesis using assms(2) by (auto simp: closed_by_def gave_csrf_def opened_def)
qed

section \<open>Over a run\<close>

lemma mgmt_run_snoc:
  "mgmt_run cfg (calls @ [call]) st =
     (case mgmt_run cfg calls st of (hist, st') \<Rightarrow>
        (case mgmt_handle cfg call st' of (reply, st'') \<Rightarrow> (hist @ [(call, reply)], st'')))"
  by (induction calls arbitrary: st) (auto split: prod.splits)

lemma latest_csrf:
  assumes "\<exists>d g f. xs = d @ g # f \<and> gave_csrf cfg h k0 g \<and> (\<forall>y \<in> set f. \<forall>k. \<not> gave_csrf cfg h k y)"
    and "gave_csrf cfg h k1 e \<or> k1 = k0 \<and> (\<forall>k. \<not> gave_csrf cfg h k e)"
  shows "\<exists>d g f. xs @ [e] = d @ g # f \<and> gave_csrf cfg h k1 g \<and> (\<forall>y \<in> set f. \<forall>k. \<not> gave_csrf cfg h k y)"
  using assms(2)
proof
  assume "gave_csrf cfg h k1 e"
  then show ?thesis by (intro exI [of _ xs] exI [of _ e] exI [of _ "[]"]) simp
next
  assume same: "k1 = k0 \<and> (\<forall>k. \<not> gave_csrf cfg h k e)"
  obtain d g f where "xs = d @ g # f" "gave_csrf cfg h k0 g" "\<forall>y \<in> set f. \<forall>k. \<not> gave_csrf cfg h k y"
    using assms(1) by blast
  then show ?thesis
    using same by (intro exI [of _ d] exI [of _ g] exI [of _ "f @ [e]"]) auto
qed

lemma bootstrap_origin:
  assumes "mgmt_run cfg calls st = (hist, st')" and "ss_bootstraps (ms_sessions st) = Map.empty"
    and "ss_bootstraps (ms_sessions st') t = Some e"
  shows "\<exists>a i b. hist = a @ i # b \<and> issued cfg t i \<and> e = call_now (fst i) + BOOTSTRAP_TTL_MS
           \<and> (\<forall>x \<in> set b. \<forall>h. \<not> opened cfg t h x)"
  using assms
proof (induction calls arbitrary: hist st' e rule: rev_induct)
  case Nil
  then show ?case by simp
next
  case (snoc call calls)
  obtain hist' st1 where run: "mgmt_run cfg calls st = (hist', st1)" by force
  obtain reply where step: "mgmt_handle cfg call st1 = (reply, st')" and hist: "hist = hist' @ [(call, reply)]"
    using snoc.prems(1) run by (auto simp: mgmt_run_snoc split: prod.splits)
  show ?case
    using mgmt_handle_bootstraps [OF step snoc.prems(3)]
  proof (elim disjE conjE)
    assume "issued cfg t (call, reply)" "e = call_now call + BOOTSTRAP_TTL_MS"
    then show ?thesis using hist by (intro exI [of _ hist'] exI [of _ "(call, reply)"] exI [of _ "[]"]) simp
  next
    assume "ss_bootstraps (ms_sessions st1) t = Some e" and fresh: "\<forall>h. \<not> opened cfg t h (call, reply)"
    then obtain a i b where "hist' = a @ i # b" "issued cfg t i" "e = call_now (fst i) + BOOTSTRAP_TTL_MS"
        "\<forall>x \<in> set b. \<forall>h. \<not> opened cfg t h x"
      using snoc.IH [OF run snoc.prems(2)] by blast
    then show ?thesis
      using hist fresh by (intro exI [of _ a] exI [of _ i] exI [of _ "b @ [(call, reply)]"]) auto
  qed
qed


text \<open>C12: a browser's session goes back to the owner of the management token. Whatever calls the server has
  answered, a session it holds was opened by an exchange, from the exact origin, of a token that a caller with
  the management token had asked for less than a minute before, and that no exchange in between has used; it
  lasts thirty minutes from that exchange, no logout with its cookie has been answered since, and its CSRF hash
  is that of the last CSRF token given for it.\<close>

theorem session_provenance:
  assumes "mgmt_run cfg calls \<lparr>ms_sessions = empty_session_store, ms_db = db\<rparr> = (hist, st)"
    and "ss_sessions (ms_sessions st) h = Some v"
  shows "\<exists>t a i b x c. hist = a @ i # b @ x # c
     \<and> issued cfg t i \<and> opened cfg t h x
     \<and> call_now (fst x) < call_now (fst i) + BOOTSTRAP_TTL_MS \<and> (\<forall>y \<in> set b. \<forall>h'. \<not> opened cfg t h' y)
     \<and> st_expiresAt v = call_now (fst x) + SESSION_TTL_MS \<and> (\<forall>y \<in> set c. \<not> closed_by cfg h y)
     \<and> (\<exists>d g f. x # c = d @ g # f \<and> gave_csrf cfg h (st_csrfHash v) g \<and> (\<forall>y \<in> set f. \<forall>k. \<not> gave_csrf cfg h k y))"
  using assms
proof (induction calls arbitrary: hist st v rule: rev_induct)
  case Nil
  then show ?case by (auto simp: empty_session_store_def)
next
  case (snoc call calls)
  obtain hist' st1 where run: "mgmt_run cfg calls \<lparr>ms_sessions = empty_session_store, ms_db = db\<rparr> = (hist', st1)"
    by force
  obtain reply where step: "mgmt_handle cfg call st1 = (reply, st)" and hist: "hist = hist' @ [(call, reply)]"
    using snoc.prems(1) run by (auto simp: mgmt_run_snoc split: prod.splits)
  let ?e = "(call, reply)"
  show ?case
    using mgmt_handle_sessions [OF step snoc.prems(2)]
  proof (rule disjE)
    assume "\<exists>t e. opened cfg t h ?e \<and> ss_bootstraps (ms_sessions st1) t = Some e \<and> call_now call < e
      \<and> st_expiresAt v = call_now call + SESSION_TTL_MS \<and> gave_csrf cfg h (st_csrfHash v) ?e"
    then obtain t e where new: "opened cfg t h ?e" "ss_bootstraps (ms_sessions st1) t = Some e" "call_now call < e"
      "st_expiresAt v = call_now call + SESSION_TTL_MS" "gave_csrf cfg h (st_csrfHash v) ?e"
      by blast
    obtain a i b where "hist' = a @ i # b" "issued cfg t i" "e = call_now (fst i) + BOOTSTRAP_TTL_MS"
        "\<forall>y \<in> set b. \<forall>h. \<not> opened cfg t h y"
      using bootstrap_origin [OF run _ new(2)] by (auto simp: empty_session_store_def)
    then show ?thesis
      using new hist
      by (intro exI [of _ t] exI [of _ a] exI [of _ i] exI [of _ b] exI [of _ ?e] exI [of _ "[]"])
        (auto intro!: exI [of _ "[]"])
  next
    assume "\<exists>v0. ss_sessions (ms_sessions st1) h = Some v0 \<and> st_expiresAt v = st_expiresAt v0 \<and> \<not> closed_by cfg h ?e
      \<and> (gave_csrf cfg h (st_csrfHash v) ?e \<or> st_csrfHash v = st_csrfHash v0 \<and> (\<forall>k. \<not> gave_csrf cfg h k ?e))"
    then obtain v0 where old: "ss_sessions (ms_sessions st1) h = Some v0" "st_expiresAt v = st_expiresAt v0" "\<not> closed_by cfg h ?e"
      and csrf: "gave_csrf cfg h (st_csrfHash v) ?e
        \<or> st_csrfHash v = st_csrfHash v0 \<and> (\<forall>k. \<not> gave_csrf cfg h k ?e)"
      by blast
    obtain t a i b x c where past: "hist' = a @ i # b @ x # c" "issued cfg t i" "opened cfg t h x"
        "call_now (fst x) < call_now (fst i) + BOOTSTRAP_TTL_MS" "\<forall>y \<in> set b. \<forall>h'. \<not> opened cfg t h' y"
        "st_expiresAt v0 = call_now (fst x) + SESSION_TTL_MS" "\<forall>y \<in> set c. \<not> closed_by cfg h y"
      and given: "\<exists>d g f. x # c = d @ g # f \<and> gave_csrf cfg h (st_csrfHash v0) g
        \<and> (\<forall>y \<in> set f. \<forall>k. \<not> gave_csrf cfg h k y)"
      using snoc.IH [OF run old(1)] by blast
    have "\<exists>d g f. (x # c) @ [?e] = d @ g # f \<and> gave_csrf cfg h (st_csrfHash v) g
        \<and> (\<forall>y \<in> set f. \<forall>k. \<not> gave_csrf cfg h k y)"
      using given csrf by (rule latest_csrf)
    then show ?thesis
      using past old hist
      by (intro exI [of _ t] exI [of _ a] exI [of _ i] exI [of _ b] exI [of _ x] exI [of _ "c @ [?e]"]) auto
  qed
qed


definition demo_mgmt :: mgmt_config where
  "demo_mgmt = \<lparr>mc_sha = (\<lambda>s. ''h'' @ s), mc_url_of = (\<lambda>_. None), mc_token = ''owner'',
     mc_origin = ''http://127.0.0.1:17872''\<rparr>"

definition demo_call :: "int \<Rightarrow> string \<times> string \<Rightarrow> mgmt_request \<Rightarrow> mgmt_call" where
  "demo_call now fresh request = \<lparr>call_now = now, call_env = demo_env, call_fresh = fresh,
     call_headers = \<lparr>mh_authorization = Some ''Bearer owner'', mh_cookie = None, mh_csrf = None,
                     mh_origin = Some ''http://127.0.0.1:17872''\<rparr>,
     call_request = request\<rparr>"

definition demo_calls :: "mgmt_call list" where
  "demo_calls = [demo_call 0 (''bootstrap-token-1'', []) Post_bootstrap,
                 demo_call 5 (''session-1'', ''csrf-1'') (Post_exchange (Some ''bootstrap-token-1''))]"

lemma demo_session:
  "ss_sessions (ms_sessions (snd (mgmt_run demo_mgmt demo_calls
      \<lparr>ms_sessions = empty_session_store, ms_db = empty_control_plane\<rparr>))) ''hsession-1''
   = Some \<lparr>st_expiresAt = 1800005, st_csrfHash = ''hcsrf-1''\<rparr>"
  by code_simp

theorem session_provenance_witness:
  "\<exists>i \<in> set (fst (mgmt_run demo_mgmt demo_calls \<lparr>ms_sessions = empty_session_store, ms_db = empty_control_plane\<rparr>)).
     bearer_presented demo_mgmt (call_headers (fst i)) \<and> (\<exists>token expiry. snd i = Reply_token token expiry)"
  using session_provenance [OF prod.collapse [symmetric] demo_session] by (force simp: issued_def)

section \<open>Mutations\<close>

lemma collection_call_db:
  assumes "collection_call call status actor op st = (reply, st')" and "ms_db st' \<noteq> ms_db st"
  shows "(\<exists>row. audit_log (ms_db st') = audit_log (ms_db st) @ [row] \<and> audit_actor row = actor)
     \<and> (tables (ms_db st') = tables (ms_db st) \<and> policies (ms_db st') = policies (ms_db st) \<and> (\<exists>a b. reply = Reply_error a b)
        \<or> (\<exists>r. reply = Reply_resource status r))"
  using assms cp_reply_is_error
  by (auto simp: collection_call_def split: sum.splits prod.splits dest!: run_op_error)
    (metis run_op_audit surj_pair)

lemma route_changes_db:
  assumes "mgmt_route cfg call request st = (reply, st')" and "ms_db st' \<noteq> ms_db st"
  obtains status actor op s where "collection_call call status actor op (st\<lparr>ms_sessions := s\<rparr>) = (reply, st')"
    and "authorize (mc_sha cfg) (mc_token cfg) (call_now call) (call_headers call) True (ms_sessions st) = (Inr actor, s)"
  using assms
  by (cases request)
    (auto elim!: with_principal_elim simp: issueBootstrap_def Let_def split: if_splits option.splits prod.splits)

text \<open>C13: no change of the control plane without authority. A call after which the database differs came from
  the exact origin, with the management token or with the cookie of a live session and that session's CSRF token;
  exactly one row was added to the audit log, naming the actor the credentials stand for; and unless the reply is
  the resource, tables and policies are as they were.\<close>

theorem mutation_is_authorised:
  assumes "mgmt_handle cfg call st = (reply, st')" and "ms_db st' \<noteq> ms_db st"
  shows "mh_origin (call_headers call) = Some (mc_origin cfg)
     \<and> (\<exists>row. audit_log (ms_db st') = audit_log (ms_db st) @ [row]
          \<and> (audit_actor row = Actor_cli \<and> bearer_presented cfg (call_headers call)
             \<or> audit_actor row = Actor_browser
               \<and> (\<exists>v csrf. session_presented cfg (call_now call) (call_headers call) (ms_sessions st) v
                    \<and> mh_csrf (call_headers call) = Some csrf \<and> st_csrfHash v = mc_sha cfg csrf)))
     \<and> (tables (ms_db st') = tables (ms_db st) \<and> policies (ms_db st') = policies (ms_db st)
        \<or> (\<exists>status r. reply = Reply_resource status r))"
proof -
  have origin: "mh_origin (call_headers call) = Some (mc_origin cfg)" and route: "mgmt_route cfg call (call_request call) st = (reply, st')"
    using assms by (auto simp: mgmt_handle_def is_read_def isExactManagementOrigin_def split: if_splits elim!: with_principal_elim)
  obtain status actor op s where run: "collection_call call status actor op (st\<lparr>ms_sessions := s\<rparr>) = (reply, st')"
    and auth: "authorize (mc_sha cfg) (mc_token cfg) (call_now call) (call_headers call) True (ms_sessions st) = (Inr actor, s)"
    using route assms(2) by (rule route_changes_db)
  show ?thesis
    using origin collection_call_db [OF run] assms(2) authorize_Inr [OF auth] by auto
qed


definition demo_new_account :: mgmt_call where
  "demo_new_account = demo_call 7 ([], []) (Post_collection (Some (New_account
     \<lparr>cacc_pseudonym = ''first'', cacc_providerId = ''u'', cacc_credentialHandle = ''h'', cacc_state = None,
      cacc_quotaClass = None\<rparr>)))"

lemma demo_mutation:
  "audit_log (ms_db (snd (mgmt_handle demo_mgmt demo_new_account \<lparr>ms_sessions = empty_session_store, ms_db = demo_db\<rparr>)))
     \<noteq> audit_log demo_db"
  by code_simp

theorem mutation_is_authorised_witness:
  "mh_origin (call_headers demo_new_account) = Some (mc_origin demo_mgmt)
   \<and> (bearer_presented demo_mgmt (call_headers demo_new_account)
      \<or> (\<exists>csrf. mh_csrf (call_headers demo_new_account) = Some csrf))"
proof -
  have "ms_db (snd (mgmt_handle demo_mgmt demo_new_account \<lparr>ms_sessions = empty_session_store, ms_db = demo_db\<rparr>))
      \<noteq> ms_db \<lparr>ms_sessions = empty_session_store, ms_db = demo_db\<rparr>"
    using demo_mutation by auto
  then show ?thesis using mutation_is_authorised [OF prod.collapse [symmetric]] by blast
qed

text \<open>A patch of a provider takes whatever endpoint it names: the catalogue's rules bind only its creation.\<close>

definition demo_patch :: mgmt_call where
  "demo_patch = demo_call 7 ([], []) (Patch_collection (Some ''u'') (Some (Patch_provider 1
     \<lparr>uprov_name = None, uprov_integrationMode = Some Direct, uprov_endpointPolicy = Some ''http://evil.example'',
      uprov_capabilityEvidence = None, uprov_requiredTermsRevision = None, uprov_provenanceRef = None,
      uprov_enabled = None\<rparr>)))"

definition demo_antigravity_db :: control_plane where
  "demo_antigravity_db = snd (run_op demo_env Actor_cli (Create_provider
     \<lparr>cprov_name = ''antigravity'', cprov_integrationMode = integration_mode.Bridge,
      cprov_endpointPolicy = Some ''http://127.0.0.1:17874'', cprov_capabilityEvidence = None,
      cprov_requiredTermsRevision = None, cprov_provenanceRef = None\<rparr>) empty_control_plane)"

lemma patch_skips_endpoint_policy:
  "(case mgmt_handle demo_mgmt demo_patch \<lparr>ms_sessions = empty_session_store, ms_db = demo_antigravity_db\<rparr> of
      (reply, st) \<Rightarrow> reply = Reply_resource 200 (''u'', 2)
        \<and> map (\<lambda>p. (prov_name p, integrationMode p, endpointPolicy p)) (t_providers (tables (ms_db st)))
          = [(''antigravity'', Direct, Some ''http://evil.example'')])
   \<and> assertSafeEndpointPolicy (\<lambda>_. Some \<lparr>url_protocol = ''http:'', url_hostname = ''evil.example'', url_port = None\<rparr>)
       ''http://evil.example'' \<noteq> Inr ()"
  by code_simp

section \<open>Cookies\<close>

text \<open>The \<open>Cookie\<close> header of a user agent: the pairs, joined by a semicolon and a space.\<close>

fun cookie_header :: "(string \<times> string) list \<Rightarrow> string" where
  "cookie_header [] = []"
| "cookie_header [(k, v)] = k @ ''='' @ v"
| "cookie_header ((k, v) # kvs) = k @ ''='' @ v @ ''; '' @ cookie_header kvs"

definition cookie_pair_ok :: "string \<times> string \<Rightarrow> bool" where
  "cookie_pair_ok kv \<longleftrightarrow>
     fst kv \<noteq> [] \<and> CHR ''='' \<notin> set (fst kv) \<and> CHR '';'' \<notin> set (fst kv) \<and> js_trim (fst kv) = fst kv
     \<and> CHR '';'' \<notin> set (snd kv) \<and> js_trim (snd kv) = snd kv"

lemma js_trim_space: "js_trim (CHR '' '' # s) = js_trim s"
  by (simp add: js_trim_def is_js_space_def)

lemma split_at_none: "d \<notin> set p \<Longrightarrow> split_at d p = [p]"
  by (induction p) auto

lemma split_at_sep: "d \<notin> set p \<Longrightarrow> split_at d (p @ d # s) = p # split_at d s"
  by (induction p) auto

lemma takeWhile_before: "d \<notin> set p \<Longrightarrow> takeWhile (\<lambda>c. c \<noteq> d) (p @ d # s) = p"
  by (induction p) auto

lemma cookie_in_pair:
  assumes "cookie_pair_ok (k, v)" and "sp = [] \<or> sp = '' ''"
  shows "cookie_in nm ((sp @ k @ ''='' @ v) # parts) = (if nm = k then Some v else cookie_in nm parts)"
proof -
  have "takeWhile (\<lambda>c. c \<noteq> CHR ''='') (sp @ k @ ''='' @ v) = sp @ k"
    using assms takeWhile_before [of "CHR ''=''" "sp @ k" v] by (auto simp: cookie_pair_ok_def)
  moreover have "js_trim (sp @ k) = k" and "sp @ k \<noteq> []" and "js_trim v = v"
    using assms by (auto simp: cookie_pair_ok_def js_trim_space)
  moreover have "drop (length (sp @ k) + 1) (sp @ k @ ''='' @ v) = v" and "sp @ k \<noteq> sp @ k @ ''='' @ v" by simp_all
  ultimately show ?thesis by (simp only: cookie_in.simps Let_def simp_thms if_False split: if_split) blast
qed

lemma cookie_in_header:
  assumes "\<forall>kv \<in> set kvs. cookie_pair_ok kv" and "kvs \<noteq> []" and "sp = [] \<or> sp = '' ''"
  shows "cookie_in nm (split_at (CHR '';'') (sp @ cookie_header kvs)) = map_of kvs nm"
  using assms
proof (induction kvs arbitrary: sp rule: cookie_header.induct)
  case 1
  then show ?case by simp
next
  case (2 k v)
  then have "CHR '';'' \<notin> set (sp @ k @ ''='' @ v)" by (auto simp: cookie_pair_ok_def)
  then have "split_at (CHR '';'') (sp @ cookie_header [(k, v)]) = [sp @ k @ ''='' @ v]"
    using split_at_none by simp
  then show ?case using 2 cookie_in_pair [of k v sp nm "[]"] by (simp del: split_at.simps)
next
  case (3 k v kv kvs)
  then have "CHR '';'' \<notin> set (sp @ k @ ''='' @ v)" by (auto simp: cookie_pair_ok_def)
  then have "split_at (CHR '';'') (sp @ cookie_header ((k, v) # kv # kvs))
      = (sp @ k @ ''='' @ v) # split_at (CHR '';'') ('' '' @ cookie_header (kv # kvs))"
    using split_at_sep [of "CHR '';''" "sp @ k @ ''='' @ v" "'' '' @ cookie_header (kv # kvs)"] by (simp del: split_at.simps)
  then show ?case
    using 3 cookie_in_pair [of k v sp nm "split_at (CHR '';'') ('' '' @ cookie_header (kv # kvs))"]
      "3.IH" [of "'' ''"] by (simp del: split_at.simps cookie_in.simps)
qed

text \<open>reading a cookie inverts writing the header: from the pairs a user agent sends, \<open>parseCookie\<close> gives
  the value of the first pair with the name, and nothing when no pair has it.\<close>

theorem parseCookie_of_header:
  assumes "\<forall>kv \<in> set kvs. cookie_pair_ok kv"
  shows "parseCookie (Some (cookie_header kvs)) nm = map_of kvs nm"
proof (cases "kvs = []")
  case False
  then have "cookie_header kvs \<noteq> []" by (cases kvs rule: cookie_header.cases) auto
  then show ?thesis using cookie_in_header [OF assms False, of "[]"] by (simp add: parseCookie_def)
qed (simp add: parseCookie_def)

theorem parseCookie_of_header_witness:
  "parseCookie (Some (cookie_header [(''theme'', ''dark''), (SESSION_COOKIE_NAME, ''abc=='')])) SESSION_COOKIE_NAME
     = Some ''abc==''"
proof -
  have "\<forall>kv \<in> set [(''theme'', ''dark''), (SESSION_COOKIE_NAME, ''abc=='')]. cookie_pair_ok kv"
    by code_simp
  from parseCookie_of_header [OF this, of SESSION_COOKIE_NAME] show ?thesis by (simp add: SESSION_COOKIE_NAME_def)
qed

end
