(* ===== verification/Credential_Store.thy ===== *)
theory Credential_Store
  imports Crash_Runs Provider_Catalog
begin

text \<open>
  The credential store: \<^verbatim>\<open>src/credentials/record.ts\<close>, \<^verbatim>\<open>errors.ts\<close> and \<^verbatim>\<open>store.ts\<close>, with the atomic
  write of \<^verbatim>\<open>src/storage/private-files.ts\<close>.

  A handle has an active file, a backup, temporary files and quarantined copies. A text is the
  JSON of a record or anything else. Operations are runs, one state for each change on disk; what
  the ownership lock answers is an argument (\<^verbatim>\<open>src/storage/ownership-lock.ts\<close>), and the operations
  of a handle that hold the lock do not overlap.
\<close>

section \<open>Errors\<close>

datatype cred_error =
    Cred_error string nat string
  | Import_incompatible string
  | Stale_generation
  | Cred_unready string
  | Oauth_flow string string nat

fun cred_statusCode :: "cred_error \<Rightarrow> nat" where
  "cred_statusCode (Cred_error _ status _) = status"
| "cred_statusCode (Import_incompatible _) = 400"
| "cred_statusCode Stale_generation = 409"
| "cred_statusCode (Cred_unready _) = 409"
| "cred_statusCode (Oauth_flow _ _ status) = status"

fun cred_code :: "cred_error \<Rightarrow> string" where
  "cred_code (Cred_error _ _ code) = code"
| "cred_code (Import_incompatible _) = ''import-incompatible''"
| "cred_code Stale_generation = ''stale-generation''"
| "cred_code (Cred_unready _) = ''credential-unready''"
| "cred_code (Oauth_flow code _ _) = code"

section \<open>Records\<close>

record credential_material =
  cm_accessToken :: string
  cm_refreshToken :: string
  cm_accountId :: "string option"

record credential_record =
  crd_schemaVersion :: int
  crd_provider :: credential_provider
  crd_handle :: string
  crd_pseudonym :: string
  crd_generation :: int
  crd_expiresAt :: "date_text option"
  crd_refreshFingerprint :: string
  crd_sourceFingerprint :: "string option"
  crd_material :: credential_material

record credential_metadata =
  md_schemaVersion :: int
  md_provider :: credential_provider
  md_handle :: string
  md_pseudonym :: string
  md_generation :: int
  md_expiresAt :: "date_text option"
  md_refreshFingerprint :: string
  md_sourceFingerprint :: "string option"

definition CREDENTIAL_SCHEMA_VERSION :: int where "CREDENTIAL_SCHEMA_VERSION = 1"

definition char_between :: "char \<Rightarrow> nat \<Rightarrow> nat \<Rightarrow> bool" where
  "char_between c a b \<longleftrightarrow> a \<le> of_char c \<and> of_char c \<le> b"

definition handle_char :: "char \<Rightarrow> bool" where
  "handle_char c \<longleftrightarrow> char_between c 65 90 \<or> char_between c 97 122 \<or> char_between c 48 57 \<or> c = CHR ''_'' \<or> c = CHR ''-''"

definition is_handle :: "string \<Rightarrow> bool" where
  "is_handle s \<longleftrightarrow> starts_with s ''cred-'' \<and> 1 \<le> length (drop 5 s) \<and> length (drop 5 s) \<le> 64 \<and> list_all handle_char (drop 5 s)"

definition hex64 :: "string \<Rightarrow> bool" where
  "hex64 s \<longleftrightarrow> length s = 64 \<and> list_all (\<lambda>c. char_between c 97 102 \<or> char_between c 48 57) s"

text \<open>\<open>z.iso.datetime\<close> has four digits for the year: from the year 0 to the end of 9999.\<close>

definition iso_datetime :: "date_text \<Rightarrow> bool" where
  "iso_datetime d \<longleftrightarrow> (case d of Instant t \<Rightarrow> -62167219200000 \<le> t \<and> t < 253402300800000 | Not_a_date _ \<Rightarrow> False)"

definition length_in :: "nat \<Rightarrow> nat \<Rightarrow> string \<Rightarrow> bool" where
  "length_in a b s \<longleftrightarrow> a \<le> length s \<and> length s \<le> b"

definition opt_all :: "('a \<Rightarrow> bool) \<Rightarrow> 'a option \<Rightarrow> bool" where
  "opt_all P x \<longleftrightarrow> (case x of None \<Rightarrow> True | Some v \<Rightarrow> P v)"

definition material_ok :: "credential_material \<Rightarrow> bool" where
  "material_ok m \<longleftrightarrow> length_in 1 16384 (cm_accessToken m) \<and> length_in 1 16384 (cm_refreshToken m)
     \<and> opt_all (length_in 1 256) (cm_accountId m)"

definition record_ok :: "credential_record \<Rightarrow> bool" where
  "record_ok r \<longleftrightarrow>
     crd_schemaVersion r = CREDENTIAL_SCHEMA_VERSION \<and> is_handle (crd_handle r)
     \<and> length_in 1 128 (crd_pseudonym r) \<and> 1 \<le> crd_generation r \<and> opt_all iso_datetime (crd_expiresAt r)
     \<and> hex64 (crd_refreshFingerprint r) \<and> opt_all hex64 (crd_sourceFingerprint r) \<and> material_ok (crd_material r)"

definition toCredentialMetadata :: "credential_record \<Rightarrow> credential_metadata" where
  "toCredentialMetadata r =
     \<lparr>md_schemaVersion = crd_schemaVersion r, md_provider = crd_provider r, md_handle = crd_handle r,
      md_pseudonym = crd_pseudonym r, md_generation = crd_generation r, md_expiresAt = crd_expiresAt r,
      md_refreshFingerprint = crd_refreshFingerprint r, md_sourceFingerprint = crd_sourceFingerprint r\<rparr>"

section \<open>Files\<close>

datatype cred_text = Record_text credential_record | Junk_text string

record cred_files =
  cf_active :: "cred_text option"
  cf_backup :: "cred_text option"
  cf_temporary :: "cred_text list"
  cf_quarantine :: "cred_text list"
  cf_quarantine_temporary :: "cred_text list"

type_synonym 'a cred_run = "cred_files list \<times> (cred_error + 'a)"

definition no_files :: cred_files where
  "no_files = \<lparr>cf_active = None, cf_backup = None, cf_temporary = [], cf_quarantine = [], cf_quarantine_temporary = []\<rparr>"

fun parse_text :: "cred_text option \<Rightarrow> credential_record option" where
  "parse_text (Some (Record_text r)) = (if record_ok r then Some r else None)"
| "parse_text _ = None"

definition readActiveOrBackup :: "cred_files \<Rightarrow> credential_record option" where
  "readActiveOrBackup f = or_else (parse_text (cf_active f)) (parse_text (cf_backup f))"

definition cred_read :: "cred_files \<Rightarrow> cred_error + credential_record" where
  "cred_read f =
     (case readActiveOrBackup f of
        None \<Rightarrow> Inl (Cred_unready ''credential is unready'')
      | Some r \<Rightarrow> Inr r)"

definition cred_metadata :: "cred_files \<Rightarrow> credential_metadata option" where
  "cred_metadata f = map_option toCredentialMetadata (readActiveOrBackup f)"

text \<open>The atomic write: the temporary file, then the rename.\<close>

datatype cred_place = Active_file | Backup_file

fun set_place :: "cred_place \<Rightarrow> cred_text option \<Rightarrow> cred_files \<Rightarrow> cred_files" where
  "set_place Active_file t f = f\<lparr>cf_active := t\<rparr>"
| "set_place Backup_file t f = f\<lparr>cf_backup := t\<rparr>"

fun get_place :: "cred_place \<Rightarrow> cred_files \<Rightarrow> cred_text option" where
  "get_place Active_file f = cf_active f"
| "get_place Backup_file f = cf_backup f"

definition write_place :: "cred_place \<Rightarrow> cred_text \<Rightarrow> cred_files \<Rightarrow> unit cred_run" where
  "write_place p t f =
     ([f\<lparr>cf_temporary := Junk_text [] # cf_temporary f\<rparr>, f\<lparr>cf_temporary := t # cf_temporary f\<rparr>, set_place p (Some t) f], Inr ())"

definition remove_place :: "cred_place \<Rightarrow> cred_files \<Rightarrow> unit cred_run" where
  "remove_place p f = ([set_place p None f], Inr ())"

definition removeTemporary :: "cred_files \<Rightarrow> unit cred_run" where
  "removeTemporary f = (map (\<lambda>n. f\<lparr>cf_temporary := drop n (cf_temporary f)\<rparr>) [1..<Suc (length (cf_temporary f))], Inr ())"

definition removeQuarantine :: "cred_files \<Rightarrow> unit cred_run" where
  "removeQuarantine f = (map (\<lambda>n. f\<lparr>cf_quarantine := drop n (cf_quarantine f)\<rparr>) [1..<Suc (length (cf_quarantine f))], Inr ())"

section \<open>Operations\<close>

definition quarantineIfPresent :: "cred_place \<Rightarrow> cred_files \<Rightarrow> unit cred_run" where
  "quarantineIfPresent p f =
     (case get_place p f of
        None \<Rightarrow> pure_step (Inr ())
      | Some t \<Rightarrow>
          then_step f
            ([f\<lparr>cf_quarantine_temporary := t # cf_quarantine_temporary f\<rparr>, f\<lparr>cf_quarantine := t # cf_quarantine f\<rparr>], Inr ())
            (\<lambda>f' _. remove_place p f'))"

definition recover :: "cred_files \<Rightarrow> credential_record option cred_run" where
  "recover f =
     then_step f (removeTemporary f) (\<lambda>f1 _.
       case parse_text (cf_active f1) of
         Some r \<Rightarrow> then_step f1 (remove_place Backup_file f1) (\<lambda>_ _. pure_step (Inr (Some r)))
       | None \<Rightarrow>
           (case parse_text (cf_backup f1) of
              Some r \<Rightarrow>
                then_step f1 (write_place Active_file (Record_text r) f1) (\<lambda>f2 _.
                then_step f2 (remove_place Backup_file f2) (\<lambda>_ _. pure_step (Inr (Some r))))
            | None \<Rightarrow>
                then_step f1 (quarantineIfPresent Active_file f1) (\<lambda>f2 _.
                then_step f2 (quarantineIfPresent Backup_file f2) (\<lambda>_ _. pure_step (Inr None)))))"

definition replace_record :: "credential_record \<Rightarrow> cred_files \<Rightarrow> unit cred_run" where
  "replace_record nxt f =
     then_step f (case cf_active f of None \<Rightarrow> pure_step (Inr ()) | Some t \<Rightarrow> write_place Backup_file t f) (\<lambda>f1 _.
     then_step f1 (write_place Active_file (Record_text nxt) f1) (\<lambda>f2 _.
       case parse_text (cf_active f2) of
         None \<Rightarrow> pure_step (Inl (Cred_error ''credential commit could not be verified'' 500 ''commit-failed''))
       | Some verified \<Rightarrow>
           if crd_generation verified \<noteq> crd_generation nxt
           then pure_step (Inl (Cred_error ''credential commit could not be verified'' 500 ''commit-failed''))
           else remove_place Backup_file f2))"

text \<open>\<open>locked\<close> is what acquiring the lock threw.\<close>

definition withLock :: "cred_error option \<Rightarrow> 'a cred_run \<Rightarrow> 'a cred_run" where
  "withLock locked work = (case locked of Some e \<Rightarrow> pure_step (Inl e) | None \<Rightarrow> work)"

definition commit_record ::
  "cred_error option \<Rightarrow> string \<Rightarrow> int \<Rightarrow> credential_record \<Rightarrow> cred_files \<Rightarrow> credential_record cred_run" where
  "commit_record locked handle expectedGeneration nxt f =
     (if crd_handle nxt \<noteq> handle then pure_step (Inl (Cred_error ''handle mismatch'' 400 ''invalid''))
      else if crd_generation nxt \<noteq> expectedGeneration + 1 then pure_step (Inl Stale_generation)
      else withLock locked
        (case readActiveOrBackup f of
           Some current \<Rightarrow>
             if crd_generation current \<noteq> expectedGeneration then pure_step (Inl Stale_generation)
             else then_step f (replace_record nxt f) (\<lambda>_ _. pure_step (Inr nxt))
         | None \<Rightarrow>
             if expectedGeneration \<noteq> 0 then pure_step (Inl Stale_generation)
             else then_step f (replace_record nxt f) (\<lambda>_ _. pure_step (Inr nxt))))"

definition purge_record :: "cred_error option \<Rightarrow> cred_files \<Rightarrow> unit cred_run" where
  "purge_record locked f =
     withLock locked
       (then_step f (remove_place Active_file f) (\<lambda>f1 _.
        then_step f1 (remove_place Backup_file f1) (\<lambda>f2 _.
        then_step f2 (removeTemporary f2) (\<lambda>f3 _. removeQuarantine f3))))"


section \<open>What a reader sees\<close>

definition active_ok :: "cred_files \<Rightarrow> bool" where
  "active_ok f \<longleftrightarrow> cf_active f = None \<or> parse_text (cf_active f) \<noteq> None"

lemma parse_text_Some: "parse_text t = Some r \<longleftrightarrow> t = Some (Record_text r) \<and> record_ok r"
  by (cases t rule: parse_text.cases) auto

lemma parse_own [simp]: "record_ok r \<Longrightarrow> parse_text (Some (Record_text r)) = Some r"
  by simp

lemma readActiveOrBackup_Some:
  "readActiveOrBackup f = Some r \<Longrightarrow> record_ok r \<and> (cf_active f = Some (Record_text r) \<or> cf_backup f = Some (Record_text r))"
  by (auto simp: readActiveOrBackup_def or_else_def parse_text_Some split: option.splits)

lemma keeps_removeTemporary: "(\<And>xs. I (f\<lparr>cf_temporary := xs\<rparr>)) \<Longrightarrow> keeps I (removeTemporary f)"
  by (auto simp: keeps_def removeTemporary_def)

lemma last_removeTemporary: "last (f # fst (removeTemporary f)) = f\<lparr>cf_temporary := []\<rparr>"
proof (cases "cf_temporary f")
  case Nil
  then show ?thesis by (simp add: removeTemporary_def)
next
  case (Cons x xs)
  then have "[1..<Suc (length (cf_temporary f))] = [1..<length (cf_temporary f)] @ [length (cf_temporary f)]" by simp
  then show ?thesis by (simp add: removeTemporary_def)
qed

lemma then_removeTemporary:
  "then_step f (removeTemporary f) k =
     (fst (removeTemporary f) @ fst (k (f\<lparr>cf_temporary := []\<rparr>) ()), snd (k (f\<lparr>cf_temporary := []\<rparr>) ()))"
  using last_removeTemporary [of f]
  by (simp add: then_step_def removeTemporary_def split: prod.splits del: last.simps upt_Suc)

lemma last_then_removeTemporary:
  "last (f # fst (then_step f (removeTemporary f) k)) = last (f\<lparr>cf_temporary := []\<rparr> # fst (k (f\<lparr>cf_temporary := []\<rparr>) ()))"
  by (simp only: then_removeTemporary fst_conv last_Cons_append last_removeTemporary)

lemma removeTemporary_state: "g \<in> set (fst (removeTemporary f)) \<Longrightarrow> \<exists>xs. g = f\<lparr>cf_temporary := xs\<rparr>"
  by (auto simp: removeTemporary_def)

lemma store_keeps_write:
  "(\<And>xs. I (f\<lparr>cf_temporary := xs\<rparr>)) \<Longrightarrow> I (set_place p (Some t) f) \<Longrightarrow> keeps I (write_place p t f)"
  by (simp add: keeps_def write_place_def)

lemma returns_write: "returns f Q (write_place p t f) \<longleftrightarrow> Q (set_place p (Some t) f) ()"
  by (simp add: returns_def write_place_def)

lemma keeps_remove: "keeps I (remove_place p f) \<longleftrightarrow> I (set_place p None f)"
  by (simp add: keeps_def remove_place_def)

lemma returns_remove: "returns f Q (remove_place p f) \<longleftrightarrow> Q (set_place p None f) ()"
  by (simp add: returns_def remove_place_def)

lemmas place_defs = write_place_def remove_place_def quarantineIfPresent_def pure_step_def then_step_simps

lemma recover_result: "snd (recover f) = Inr (readActiveOrBackup f)"
  unfolding recover_def then_removeTemporary
  by (simp add: place_defs readActiveOrBackup_def or_else_def split: option.splits)

lemma recover_keeps_read: "g \<in> crash_states f (recover f) \<Longrightarrow> readActiveOrBackup g = readActiveOrBackup f"
  unfolding recover_def then_removeTemporary crash_states_def
  by (auto simp: place_defs readActiveOrBackup_def or_else_def parse_text_Some
      dest!: removeTemporary_state split: option.splits if_splits)

lemma recover_keeps_active_ok: "active_ok f \<Longrightarrow> g \<in> crash_states f (recover f) \<Longrightarrow> active_ok g"
  unfolding recover_def then_removeTemporary crash_states_def
  by (auto simp: place_defs active_ok_def parse_text_Some dest!: removeTemporary_state split: option.splits if_splits)

lemma recover_settles:
  assumes "g = last (f # fst (recover f))"
  shows "cf_active g = map_option Record_text (readActiveOrBackup f) \<and> cf_backup g = None \<and> cf_temporary g = []"
  using assms unfolding recover_def last_then_removeTemporary
  by (auto simp: place_defs readActiveOrBackup_def or_else_def parse_text_Some split: option.splits if_splits)

lemma commit_states:
  assumes "g \<in> crash_states f (commit_record locked handle e nxt f)" and "active_ok f"
  shows "(readActiveOrBackup g = readActiveOrBackup f \<or> record_ok nxt \<and> readActiveOrBackup g = Some nxt)
    \<and> (record_ok nxt \<longrightarrow> active_ok g)"
  using assms unfolding commit_record_def crash_states_def replace_record_def withLock_def
  by (auto simp: place_defs readActiveOrBackup_def active_ok_def or_else_def parse_text_Some
      split: option.splits if_splits)


inductive recoveries :: "cred_files \<Rightarrow> cred_files \<Rightarrow> bool" for f where
  recoveries_none: "recoveries f f"
| recoveries_more: "recoveries f g \<Longrightarrow> h \<in> crash_states g (recover g) \<Longrightarrow> recoveries f h"

lemma recoveries_keep: "recoveries f g \<Longrightarrow> readActiveOrBackup g = readActiveOrBackup f"
  by (induction rule: recoveries.induct) (simp_all add: recover_keeps_read)

text \<open>C10: a credential survives a crash. Wherever a commit dies, on a handle whose active file is absent or
  readable, and however many recoveries die after it, the next reader gets the old record or the new one, the
  latter only when it is valid; and a recovery that finishes returns what that reader sees and leaves exactly
  that record in the active file, no backup and no temporary file.\<close>

theorem commit_crash_safe:
  assumes "active_ok f" and "g \<in> crash_states f (commit_record locked handle e nxt f)" and "recoveries g h"
  shows "(readActiveOrBackup h = readActiveOrBackup f \<or> record_ok nxt \<and> readActiveOrBackup h = Some nxt)
     \<and> snd (recover h) = Inr (readActiveOrBackup h)
     \<and> (let s = last (h # fst (recover h))
        in cf_active s = map_option Record_text (readActiveOrBackup h) \<and> cf_backup s = None \<and> cf_temporary s = [])"
  using commit_states [OF assms(2,1)] recoveries_keep [OF assms(3)] recover_result [of h] recover_settles [OF refl, of h]
  by (simp only: Let_def)

definition demo_record :: "int \<Rightarrow> string \<Rightarrow> credential_record" where
  "demo_record n token =
     \<lparr>crd_schemaVersion = 1, crd_provider = Cred_codex, crd_handle = ''cred-a'', crd_pseudonym = ''me'',
      crd_generation = n, crd_expiresAt = None, crd_refreshFingerprint = replicate 64 (CHR ''0''),
      crd_sourceFingerprint = None,
      crd_material = \<lparr>cm_accessToken = token, cm_refreshToken = token, cm_accountId = None\<rparr>\<rparr>"

definition demo_files :: cred_files where
  "demo_files = no_files\<lparr>cf_active := Some (Record_text (demo_record 1 ''one''))\<rparr>"

lemma demo_record_ok [simp]: "record_ok (demo_record n token) \<longleftrightarrow> 1 \<le> n \<and> length_in 1 16384 token"
  by (auto simp: record_ok_def demo_record_def CREDENTIAL_SCHEMA_VERSION_def is_handle_def starts_with_def handle_char_def
      char_between_def length_in_def opt_all_def hex64_def list_all_iff material_ok_def)

lemma demo_record_simps [simp]:
  "crd_handle (demo_record n token) = ''cred-a''" "crd_generation (demo_record n token) = n"
  by (simp_all add: demo_record_def)

lemma demo_commit:
  "active_ok demo_files"
  "demo_files\<lparr>cf_backup := cf_active demo_files, cf_active := Some (Record_text (demo_record 2 ''two''))\<rparr>
     \<in> crash_states demo_files (commit_record None ''cred-a'' 1 (demo_record 2 ''two'') demo_files)"
  by (auto simp: active_ok_def demo_files_def length_in_def crash_states_def commit_record_def withLock_def
      readActiveOrBackup_def or_else_def replace_record_def place_defs no_files_def)

theorem commit_crash_safe_witness:
  "readActiveOrBackup (demo_files\<lparr>cf_backup := cf_active demo_files, cf_active := Some (Record_text (demo_record 2 ''two''))\<rparr>)
     \<in> {readActiveOrBackup demo_files, Some (demo_record 2 ''two'')}"
  using commit_crash_safe [OF demo_commit recoveries_none] by auto

section \<open>Generations\<close>

text \<open>the exact behaviour of a commit on an unlocked handle. It succeeds exactly when the new record is of the
  handle, is valid, and has the generation after the one a reader sees (after 0 when there is none); then that record
  is what is read. A stale or foreign commit changes no file, and a failure leaves what is read as it was.\<close>

theorem commit_exact:
  assumes "active_ok f"
  shows "(case commit_record None handle e nxt f of
            (states, Inr r) \<Rightarrow> r = nxt \<and> readActiveOrBackup (last (f # states)) = Some nxt
          | (states, Inl err) \<Rightarrow> readActiveOrBackup (last (f # states)) = readActiveOrBackup f
              \<and> (cred_code err \<noteq> ''commit-failed'' \<longrightarrow> states = []))
     \<and> ((\<exists>r. snd (commit_record None handle e nxt f) = Inr r) \<longleftrightarrow>
          crd_handle nxt = handle \<and> record_ok nxt \<and> crd_generation nxt = e + 1
          \<and> e = (case readActiveOrBackup f of None \<Rightarrow> 0 | Some r \<Rightarrow> crd_generation r))"
  using assms unfolding commit_record_def replace_record_def withLock_def
  by (auto simp: place_defs readActiveOrBackup_def active_ok_def or_else_def parse_text_Some
      split: option.splits if_splits)


theorem commit_exact_witness:
  "snd (commit_record None ''cred-a'' 1 (demo_record 2 ''two'') demo_files) = Inr (demo_record 2 ''two'')
   \<and> readActiveOrBackup (last (demo_files # fst (commit_record None ''cred-a'' 1 (demo_record 2 ''two'') demo_files)))
       = Some (demo_record 2 ''two'')"
proof -
  have "readActiveOrBackup demo_files = Some (demo_record 1 ''one'')"
    by (simp add: readActiveOrBackup_def demo_files_def length_in_def)
  then obtain r where "snd (commit_record None ''cred-a'' 1 (demo_record 2 ''two'') demo_files) = Inr r"
    using commit_exact [OF demo_commit(1), where handle = "''cred-a''" and e = 1 and nxt = "demo_record 2 ''two''"] by (auto simp: length_in_def)
  then show ?thesis
    using commit_exact [OF demo_commit(1), where handle = "''cred-a''" and e = 1 and nxt = "demo_record 2 ''two''"]
    by (cases "commit_record None ''cred-a'' 1 (demo_record 2 ''two'') demo_files") simp
qed

text \<open>
  What can happen to a handle that is not purged: commits and recoveries, any of which may die.
  \<open>Some k\<close> stops an operation after its \<open>k\<close>-th change.
\<close>

datatype cred_event =
    Commit_event "cred_error option" int credential_record
  | Recover_event

fun run_event :: "string \<Rightarrow> cred_event \<Rightarrow> cred_files \<Rightarrow> cred_files list" where
  "run_event handle (Commit_event locked e nxt) f = fst (commit_record locked handle e nxt f)"
| "run_event handle Recover_event f = fst (recover f)"

definition after_event :: "string \<Rightarrow> cred_event \<times> nat option \<Rightarrow> cred_files \<Rightarrow> cred_files" where
  "after_event handle ev f =
     (let states = f # run_event handle (fst ev) f
      in case snd ev of None \<Rightarrow> last states | Some k \<Rightarrow> states ! min k (length states - 1))"

fun commits_valid :: "cred_event \<Rightarrow> bool" where
  "commits_valid (Commit_event _ _ nxt) \<longleftrightarrow> record_ok nxt"
| "commits_valid Recover_event \<longleftrightarrow> True"

lemma after_event_crash:
  "after_event handle (Commit_event locked e nxt, k) f \<in> crash_states f (commit_record locked handle e nxt f)"
  "after_event handle (Recover_event, k) f \<in> crash_states f (recover f)"
proof -
  have some: "(f # states) ! min k (length (f # states) - 1) \<in> insert f (set states)" for k and states :: "cred_files list"
    using nth_mem [of "min k (length (f # states) - 1)" "f # states"] by simp
  have "last (f # states) \<in> insert f (set states)" for states :: "cred_files list"
    using last_in_set [of "f # states"] by simp
  with some show "after_event handle (Commit_event locked e nxt, k) f \<in> crash_states f (commit_record locked handle e nxt f)"
    "after_event handle (Recover_event, k) f \<in> crash_states f (recover f)"
    unfolding after_event_def crash_states_def Let_def
    by (cases k; simp only: fst_conv snd_conv run_event.simps option.case)+
qed


definition holds_generation :: "int \<Rightarrow> cred_files \<Rightarrow> bool" where
  "holds_generation n f \<longleftrightarrow> active_ok f \<and> (\<exists>r. readActiveOrBackup f = Some r \<and> n \<le> crd_generation r)"

lemma commit_generation:
  assumes "g \<in> crash_states f (commit_record locked handle e nxt f)" and "holds_generation n f" and "record_ok nxt"
  shows "holds_generation n g"
proof -
  obtain r where r: "active_ok f" "readActiveOrBackup f = Some r" "n \<le> crd_generation r"
    using assms(2) by (auto simp: holds_generation_def)
  have stale: "commit_record locked handle e nxt f = pure_step (Inl err) \<Longrightarrow> g = f" for err
    using assms(1) by (simp add: crash_states_def pure_step_def)
  have "crd_generation nxt \<noteq> crd_generation r + 1 \<Longrightarrow> \<exists>err. commit_record locked handle e nxt f = pure_step (Inl err)"
    using r(2) by (auto simp: commit_record_def withLock_def split: option.splits)
  then have "crd_generation nxt = crd_generation r + 1 \<or> g = f" using stale by blast
  then show ?thesis
    using commit_states [OF assms(1) r(1)] assms(3) r by (auto simp: holds_generation_def)
qed

lemma event_generation:
  assumes "holds_generation n f" and "commits_valid (fst ev)"
  shows "holds_generation n (after_event handle ev f)"
proof (cases ev)
  case (Pair op k)
  show ?thesis
  proof (cases op)
    case (Commit_event locked e nxt)
    then show ?thesis using Pair assms commit_generation [OF after_event_crash(1)] by simp
  next
    case Recover_event
    then show ?thesis
      using Pair assms(1) recover_keeps_read [OF after_event_crash(2)] recover_keeps_active_ok [OF _ after_event_crash(2)]
      by (auto simp: holds_generation_def)
  qed
qed

lemma events_generation:
  "holds_generation n f \<Longrightarrow> list_all (\<lambda>ev. commits_valid (fst ev)) events \<Longrightarrow>
     holds_generation n (foldl (\<lambda>g ev. after_event handle ev g) f events)"
  by (induction events arbitrary: f) (simp_all add: event_generation)

text \<open>C11: no generation is committed twice. After a commit of a valid record on top of generation \<open>e\<close>, whatever valid
  commits and recoveries follow, any of them dying anywhere, a reader keeps finding a record of that generation or a
  later one, and every further commit on top of \<open>e\<close> is refused: of two refreshes that race, one is told that it is stale.\<close>

theorem generation_committed_once:
  assumes "active_ok f" and "commit_record locked handle e nxt f = (states, Inr r)"
    and "list_all (\<lambda>ev. commits_valid (fst ev)) events"
    and "g = foldl (\<lambda>g ev. after_event handle ev g) (last (f # states)) events"
  shows "(\<exists>r'. readActiveOrBackup g = Some r' \<and> e < crd_generation r')
     \<and> (\<exists>err. commit_record locked' handle e nxt' g = pure_step (Inl err))"
proof -
  have free: "commit_record None handle e nxt f = (states, Inr r)"
    using assms(2) by (cases locked) (auto simp: commit_record_def withLock_def pure_step_def split: if_splits)
  with commit_exact [OF assms(1), where handle = handle and e = e and nxt = nxt]
  have "record_ok nxt" "crd_generation nxt = e + 1" "readActiveOrBackup (last (f # states)) = Some nxt"
    by (simp_all del: last.simps)
  moreover have "active_ok (last (f # states))"
    using commit_states [OF _ assms(1), of "last (f # states)" None handle e nxt] free
      last_is_crash_state [of f "commit_record None handle e nxt f"] \<open>record_ok nxt\<close> by (simp del: last.simps)
  ultimately have "holds_generation (e + 1) (last (f # states))"
    by (auto simp: holds_generation_def simp del: last.simps)
  then have "holds_generation (e + 1) g"
    unfolding assms(4) using assms(3) by (rule events_generation)
  then obtain r' where "readActiveOrBackup g = Some r'" "e < crd_generation r'"
    by (auto simp: holds_generation_def)
  then show ?thesis by (auto simp: commit_record_def withLock_def split: option.splits)
qed

theorem generation_committed_once_witness:
  "\<exists>err. commit_record None ''cred-a'' 1 (demo_record 2 ''other'')
       (after_event ''cred-a'' (Recover_event, Some 0)
         (last (demo_files # fst (commit_record None ''cred-a'' 1 (demo_record 2 ''two'') demo_files)))) = pure_step (Inl err)"
proof -
  let ?states = "fst (commit_record None ''cred-a'' 1 (demo_record 2 ''two'') demo_files)"
  have run: "commit_record None ''cred-a'' 1 (demo_record 2 ''two'') demo_files = (?states, Inr (demo_record 2 ''two''))"
    using commit_exact_witness by (metis prod.collapse)
  have "list_all (\<lambda>ev. commits_valid (fst ev)) [(Recover_event, Some 0)]" by simp
  from generation_committed_once [OF demo_commit(1) run this refl] show ?thesis by (simp del: last.simps)
qed

section \<open>Where the store falls short\<close>

text \<open>
  A refused commit leaves its unreadable text in the active file and the old record in the
  backup. The next commit first copies the active file over the backup, so a crash right after
  that leaves no readable record, and the recovery puts both texts in quarantine.
\<close>

lemma replace_clobbers_backup:
  defines "bad \<equiv> (demo_record 2 [])"
  defines "f1 \<equiv> last (demo_files # fst (commit_record None ''cred-a'' 1 bad demo_files))"
  shows "readActiveOrBackup f1 = Some (demo_record 1 ''one'')
   \<and> (\<exists>g \<in> crash_states f1 (commit_record None ''cred-a'' 1 (demo_record 2 ''two'') f1). readActiveOrBackup g = None)"
  unfolding bad_def f1_def
  by (auto simp: active_ok_def demo_files_def length_in_def crash_states_def commit_record_def withLock_def
      readActiveOrBackup_def or_else_def replace_record_def place_defs no_files_def)

text \<open>A purge that dies after the active file gives the backup of an interrupted commit back to readers.\<close>

lemma purge_revives_backup:
  defines "f1 \<equiv> demo_files\<lparr>cf_backup := cf_active demo_files, cf_active := Some (Record_text (demo_record 2 ''two''))\<rparr>"
  shows "readActiveOrBackup f1 = Some (demo_record 2 ''two'')
   \<and> (\<exists>g \<in> crash_states f1 (purge_record None f1). readActiveOrBackup g = Some (demo_record 1 ''one''))"
  unfolding f1_def
  by (auto simp: demo_files_def length_in_def crash_states_def purge_record_def withLock_def
      readActiveOrBackup_def or_else_def place_defs no_files_def)

end
