(* ===== verification/Ownership_Lock.thy ===== *)
theory Ownership_Lock
  imports Prelude
begin

text \<open>
  The ownership locks of the control plane and of the credentials:
  \<open>acquireOwnershipLock\<close>, its \<open>release\<close>, \<open>isStaleOwnershipLock\<close> and \<open>reclaimStaleLockFile\<close> of
  \<^verbatim>\<open>src/storage/ownership-lock.ts\<close>, over \<open>createExclusivePrivateFile\<close> of
  \<^verbatim>\<open>src/storage/private-files.ts\<close>, in several processes at once.

  Every file operation is one step of one process. A process acquires once, so its number stands
  for its lock id and for the inode it creates. A text is the payload of a process, or one without
  an owner, such as the empty file between its creation and its write. \<open>dead\<close> says which owners no
  longer run under the recorded start time.
\<close>

section \<open>Steps\<close>

datatype owner_text = Owned_by nat | No_owner

datatype owner_pc =
    Acquiring nat
  | Creating
  | Owning
  | Reading_owner nat
  | Judging nat "owner_text option"
  | Rechecking nat owner_text
  | Reclaiming nat
  | Lock_refused
  | Creation_failed
  | Release_read
  | Release_remove
  | Lock_released

record lock_options =
  lo_attempts :: nat
  lo_wait :: bool

record owner_world =
  ol_file :: "(nat \<times> owner_text) option"
  ol_pc :: "nat \<Rightarrow> owner_pc"

fun isStaleOwnershipLock :: "(nat \<Rightarrow> bool) \<Rightarrow> owner_text \<Rightarrow> bool" where
  "isStaleOwnershipLock dead (Owned_by q) = dead q"
| "isStaleOwnershipLock dead No_owner = True"

definition retry_acquire :: "lock_options \<Rightarrow> nat \<Rightarrow> owner_pc" where
  "retry_acquire options k = (if Suc k < lo_attempts options then Acquiring (Suc k) else Lock_refused)"

text \<open>The write goes to the inode the process created; the \<open>chmod\<close> after it needs a file at the path.\<close>

definition write_payload :: "nat \<Rightarrow> (nat \<times> owner_text) option \<Rightarrow> (nat \<times> owner_text) option" where
  "write_payload p f = (case f of Some (i, t) \<Rightarrow> if i = p then Some (p, Owned_by p) else f | None \<Rightarrow> None)"

fun owner_step ::
  "lock_options \<Rightarrow> (nat \<Rightarrow> bool) \<Rightarrow> nat \<Rightarrow> (nat \<times> owner_text) option \<Rightarrow> owner_pc \<Rightarrow> (nat \<times> owner_text) option \<times> owner_pc" where
  "owner_step options dead p f (Acquiring k) =
     (case f of None \<Rightarrow> (Some (p, No_owner), Creating) | Some _ \<Rightarrow> (f, Reading_owner k))"
| "owner_step options dead p f Creating = (write_payload p f, if f = None then Creation_failed else Owning)"
| "owner_step options dead p f (Reading_owner k) = (f, Judging k (map_option snd f))"
| "owner_step options dead p f (Judging k seen) =
     (f, case seen of
           Some t \<Rightarrow> if isStaleOwnershipLock dead t then Rechecking k t
                     else if lo_wait options then retry_acquire options k else Lock_refused
         | None \<Rightarrow> if lo_wait options then retry_acquire options k else Lock_refused)"
| "owner_step options dead p f (Rechecking k t) =
     (f, if map_option snd f = Some t then Reclaiming k else retry_acquire options k)"
| "owner_step options dead p f (Reclaiming k) = (None, retry_acquire options k)"
| "owner_step options dead p f Owning = (f, Release_read)"
| "owner_step options dead p f Release_read =
     (f, if map_option snd f = Some (Owned_by p) then Release_remove else Lock_released)"
| "owner_step options dead p f Release_remove = (None, Lock_released)"
| "owner_step options dead p f pc = (f, pc)"

definition owner_move :: "lock_options \<Rightarrow> (nat \<Rightarrow> bool) \<Rightarrow> nat \<Rightarrow> owner_world \<Rightarrow> owner_world" where
  "owner_move options dead p w =
     (let (f, pc) = owner_step options dead p (ol_file w) (ol_pc w p)
      in \<lparr>ol_file = f, ol_pc = (ol_pc w)(p := pc)\<rparr>)"

definition owner_start :: "(nat \<times> owner_text) option \<Rightarrow> owner_world" where
  "owner_start f = \<lparr>ol_file = f, ol_pc = (\<lambda>_. Acquiring 0)\<rparr>"

definition run_owners :: "lock_options \<Rightarrow> (nat \<Rightarrow> bool) \<Rightarrow> nat list \<Rightarrow> owner_world \<Rightarrow> owner_world" where
  "run_owners options dead schedule w = foldl (\<lambda>w p. owner_move options dead p w) w schedule"

definition owns :: "owner_pc \<Rightarrow> bool" where
  "owns pc \<longleftrightarrow> pc \<in> {Creating, Owning, Release_read, Release_remove}"

section \<open>Exclusion\<close>

text \<open>
  The interleavings of live processes in which none reads the file between another's creating
  and writing it.
\<close>

inductive untorn_reachable :: "lock_options \<Rightarrow> owner_world \<Rightarrow> bool" for options where
  untorn_start: "f = None \<or> (\<exists>i q. f = Some (i, Owned_by q)) \<Longrightarrow> untorn_reachable options (owner_start f)"
| untorn_move: "untorn_reachable options w \<Longrightarrow>
     (\<exists>k. ol_pc w p = Reading_owner k) \<longrightarrow> (\<forall>q. ol_pc w q \<noteq> Creating) \<Longrightarrow>
     untorn_reachable options (owner_move options (\<lambda>_. False) p w)"

definition owner_ok :: "(nat \<times> owner_text) option \<Rightarrow> nat \<Rightarrow> owner_pc \<Rightarrow> bool" where
  "owner_ok f q pc \<longleftrightarrow>
     (owns pc \<longrightarrow> (\<exists>t. f = Some (q, t) \<and> (pc \<noteq> Creating \<longrightarrow> t = Owned_by q)))
     \<and> (f = Some (q, No_owner) \<longrightarrow> pc = Creating)
     \<and> (\<forall>k t. pc \<noteq> Rechecking k t) \<and> (\<forall>k. pc \<noteq> Reclaiming k) \<and> (\<forall>k. pc \<noteq> Judging k (Some No_owner))"

definition owner_inv :: "owner_world \<Rightarrow> bool" where
  "owner_inv w \<longleftrightarrow> (\<forall>q. owner_ok (ol_file w) q (ol_pc w q))"

lemma owner_invD: "owner_inv w \<Longrightarrow> owner_ok (ol_file w) q (ol_pc w q)"
  by (simp add: owner_inv_def)

lemma owner_inv_own:
  assumes "owner_inv w" and "owns (ol_pc w p)"
  shows "\<exists>t. ol_file w = Some (p, t) \<and> (ol_pc w p \<noteq> Creating \<longrightarrow> t = Owned_by p)"
    and "owns (ol_pc w q) \<Longrightarrow> q = p"
  using owner_invD [OF assms(1), of p] owner_invD [OF assms(1), of q] assms(2) by (auto simp: owner_ok_def)

lemma owner_inv_steady:
  assumes inv: "owner_inv w" and step: "owner_step options dead p (ol_file w) (ol_pc w p) = (ol_file w, pc)"
    and ok: "owner_ok (ol_file w) p (ol_pc w p) \<Longrightarrow> owner_ok (ol_file w) p pc"
  shows "owner_inv (owner_move options dead p w)"
  using inv ok [OF owner_invD [OF inv]] by (simp add: owner_move_def step owner_inv_def)

text \<open>A step that changes the file is one of its owner, or of a process that finds none.\<close>

lemma owner_inv_change:
  assumes inv: "owner_inv w" and step: "owner_step options dead p (ol_file w) (ol_pc w p) = (f, pc)"
    and ok: "owner_ok f p pc" and idle: "\<And>q. q \<noteq> p \<Longrightarrow> \<not> owns (ol_pc w q)" and own: "f = None \<or> (\<exists>t. f = Some (p, t))"
  shows "owner_inv (owner_move options dead p w)"
proof -
  have "owner_ok f q (ol_pc w q)" if "q \<noteq> p" for q
    using owner_invD [OF inv, of q] idle [OF that] own that by (auto simp: owner_ok_def)
  then show ?thesis using ok by (simp add: owner_move_def step owner_inv_def)
qed

lemma owner_inv_move:
  assumes inv: "owner_inv w" and untorn: "(\<exists>k. ol_pc w p = Reading_owner k) \<longrightarrow> (\<forall>q. ol_pc w q \<noteq> Creating)"
  shows "owner_inv (owner_move options (\<lambda>_. False) p w)"
proof -
  have mine: "owns (ol_pc w p) \<Longrightarrow> q \<noteq> p \<Longrightarrow> \<not> owns (ol_pc w q)" for q
    using owner_inv_own(2) [OF inv] by blast
  note ok = owner_invD [OF inv, of p]
  show ?thesis
  proof (cases "ol_pc w p")
    case (Acquiring k)
    show ?thesis
    proof (cases "ol_file w")
      case None
      then have "\<not> owns (ol_pc w q)" for q using owner_invD [OF inv, of q] by (auto simp: owner_ok_def)
      then show ?thesis
        by (intro owner_inv_change [OF inv, where f = "Some (p, No_owner)" and pc = Creating])
          (simp_all add: Acquiring None owner_ok_def owns_def)
    next
      case (Some x)
      show ?thesis
        using ok by (intro owner_inv_steady [OF inv, where pc = "Reading_owner k"]) (auto simp: Acquiring Some owner_ok_def owns_def)
    qed
  next
    case Creating
    then have "owns (ol_pc w p)" by (simp add: owns_def)
    then obtain t where "ol_file w = Some (p, t)" using owner_inv_own(1) [OF inv] by blast
    then show ?thesis
      using mine [OF \<open>owns (ol_pc w p)\<close>]
      by (intro owner_inv_change [OF inv, where f = "Some (p, Owned_by p)" and pc = Owning])
        (simp_all add: Creating owner_ok_def owns_def write_payload_def)
  next
    case (Reading_owner k)
    have "map_option snd (ol_file w) \<noteq> Some No_owner"
    proof
      assume "map_option snd (ol_file w) = Some No_owner"
      then obtain i where "ol_file w = Some (i, No_owner)" by (cases "ol_file w") auto
      then have "ol_pc w i = Creating" using owner_invD [OF inv, of i] by (simp add: owner_ok_def)
      then show False using untorn Reading_owner by simp
    qed
    then show ?thesis
      using ok by (intro owner_inv_steady [OF inv, where pc = "Judging k (map_option snd (ol_file w))"])
        (auto simp: Reading_owner owner_ok_def owns_def)
  next
    case (Judging k seen)
    then have "seen \<noteq> Some No_owner" using ok by (auto simp: owner_ok_def)
    then have pc: "snd (owner_step options (\<lambda>_. False) p (ol_file w) (Judging k seen)) \<in>
        {retry_acquire options k, Lock_refused}"
      by (cases seen; cases "the seen") auto
    then show ?thesis
      using ok by (intro owner_inv_steady [OF inv, where pc = "snd (owner_step options (\<lambda>_. False) p (ol_file w) (Judging k seen))"])
        (auto simp: Judging owner_ok_def owns_def retry_acquire_def split: if_splits)
  next
    case Owning
    then show ?thesis
      using ok by (intro owner_inv_steady [OF inv, where pc = Release_read]) (auto simp: owner_ok_def owns_def)
  next
    case Release_read
    then have "ol_file w = Some (p, Owned_by p)" using ok by (auto simp: owner_ok_def owns_def)
    then show ?thesis
      using ok by (intro owner_inv_steady [OF inv, where pc = Release_remove]) (auto simp: Release_read owner_ok_def owns_def)
  next
    case Release_remove
    then have "owns (ol_pc w p)" by (simp add: owns_def)
    then show ?thesis
      using mine by (intro owner_inv_change [OF inv, where f = None and pc = Lock_released])
        (simp_all add: Release_remove owner_ok_def owns_def)
  next
    case (Rechecking k t)
    then show ?thesis using ok by (simp add: owner_ok_def)
  next
    case (Reclaiming k)
    then show ?thesis using ok by (simp add: owner_ok_def)
  qed (rule owner_inv_steady [OF inv, where pc = "ol_pc w p"]; simp)+
qed

text \<open>C33: among live processes an ownership lock is exclusive, as long as no process reads the lock file in the
  moment between its creation and its write: then at most one process is between creating the file and removing
  it, and the file at the path is its own, with its payload once written.\<close>

theorem untorn_lock_is_exclusive:
  assumes "untorn_reachable options w" and "owns (ol_pc w p)"
  shows "(\<forall>q. owns (ol_pc w q) \<longrightarrow> q = p) \<and> map_option fst (ol_file w) = Some p
     \<and> (ol_pc w p \<noteq> Creating \<longrightarrow> ol_file w = Some (p, Owned_by p))"
proof -
  have "owner_inv w"
    using assms(1)
  proof (induction rule: untorn_reachable.induct)
    case (untorn_start f)
    then show ?case by (auto simp: owner_inv_def owner_ok_def owner_start_def owns_def)
  next
    case (untorn_move w p)
    then show ?case by (simp add: owner_inv_move)
  qed
  from owner_inv_own [OF this assms(2)] show ?thesis by auto
qed

definition demo_options :: lock_options where
  "demo_options = \<lparr>lo_attempts = 8, lo_wait = False\<rparr>"

theorem untorn_lock_is_exclusive_witness:
  "ol_file (run_owners demo_options (\<lambda>_. False) [0, 0, 1] (owner_start None)) = Some (0, Owned_by 0)"
proof -
  let ?w = "run_owners demo_options (\<lambda>_. False) [0, 0, 1] (owner_start None)"
  have "untorn_reachable demo_options ?w"
    unfolding run_owners_def foldl.simps
    by (intro untorn_move untorn_start) (auto simp: owner_start_def owner_move_def)
  moreover have "ol_pc ?w 0 = Owning" by code_simp
  ultimately show ?thesis using untorn_lock_is_exclusive [of demo_options ?w 0] by (simp add: owns_def)
qed

section \<open>A lock seen before it is written\<close>

text \<open>
  A lock file without an owner counts as stale. A live process that meets another one between
  creating and writing removes its file and takes the lock too: the first one's write goes to the
  removed file, and its \<open>chmod\<close> finds the second one's.
\<close>

lemma torn_lock_granted_twice:
  "let w = run_owners demo_options (\<lambda>_. False) [0, 1, 1, 1, 1, 1, 1, 1, 0] (owner_start None)
   in ol_pc w 0 = Owning \<and> ol_pc w 1 = Owning \<and> ol_file w = Some (1, Owned_by 1)"
  by code_simp

end
