(* ===== verification/Wire_Json.thy ===== *)
theory Wire_Json
  imports Core_Model Compatibility "HOL-Library.Monad_Syntax"
begin

text \<open>
  Readers of JSON values, for the zod schemas of the wire protocols. A reader gives \<open>None\<close> for a
  value the schema refuses. Of an object, unknown fields are ignored; an object has each key once,
  as \<open>JSON.parse\<close> leaves it. An optional field may be absent, not \<open>null\<close>.
\<close>

fun r_str :: "json \<Rightarrow> string option" where
  "r_str (JStr s) = Some s"
| "r_str _ = None"

definition r_text :: "json \<Rightarrow> string option" where
  "r_text j = (case r_str j of Some s \<Rightarrow> if s = [] then None else Some s | None \<Rightarrow> None)"

fun r_bool :: "json \<Rightarrow> bool option" where
  "r_bool (JBool b) = Some b"
| "r_bool _ = None"

fun r_num :: "json \<Rightarrow> rat option" where
  "r_num (JNum n) = Some n"
| "r_num _ = None"

fun r_arr :: "json \<Rightarrow> json list option" where
  "r_arr (JArr xs) = Some xs"
| "r_arr _ = None"

text \<open>\<open>z.number().int()\<close> takes the safe integers.\<close>

definition r_int :: "json \<Rightarrow> int option" where
  "r_int j = (case r_num j of
      Some n \<Rightarrow> if of_int \<lfloor>n\<rfloor> = n \<and> \<bar>n\<bar> \<le> 9007199254740991 then Some \<lfloor>n\<rfloor> else None
    | None \<Rightarrow> None)"

definition r_if :: "('a \<Rightarrow> bool) \<Rightarrow> 'a option \<Rightarrow> 'a option" where
  "r_if P x = (case x of Some v \<Rightarrow> if P v then Some v else None | None \<Rightarrow> None)"

fun r_all :: "('a \<Rightarrow> 'b option) \<Rightarrow> 'a list \<Rightarrow> 'b list option" where
  "r_all r [] = Some []"
| "r_all r (x # xs) = (case (r x, r_all r xs) of (Some y, Some ys) \<Rightarrow> Some (y # ys) | _ \<Rightarrow> None)"

definition r_list :: "(json \<Rightarrow> 'a option) \<Rightarrow> json \<Rightarrow> 'a list option" where
  "r_list r j = Option.bind (r_arr j) (r_all r)"

definition r_req :: "json \<Rightarrow> string \<Rightarrow> (json \<Rightarrow> 'a option) \<Rightarrow> 'a option" where
  "r_req j key r = Option.bind (json_field j key) r"

definition r_opt :: "json \<Rightarrow> string \<Rightarrow> (json \<Rightarrow> 'a option) \<Rightarrow> 'a option option" where
  "r_opt j key r = (case json_field j key of None \<Rightarrow> Some None | Some v \<Rightarrow> map_option Some (r v))"

definition r_obj :: "json \<Rightarrow> json option" where
  "r_obj j = (if is_json_object j then Some j else None)"

definition json_keys :: "json \<Rightarrow> string list" where
  "json_keys j = (case j of JObj kvs \<Rightarrow> map fst kvs | _ \<Rightarrow> [])"

text \<open>A field that is written when it has a value.\<close>

definition opt_field :: "string \<Rightarrow> ('a \<Rightarrow> json) \<Rightarrow> 'a option \<Rightarrow> (string \<times> json) list" where
  "opt_field key f x = (case x of None \<Rightarrow> [] | Some v \<Rightarrow> [(key, f v)])"

lemma opt_field_simps [simp]: "opt_field key f None = []" "opt_field key f (Some v) = [(key, f v)]"
  by (simp_all add: opt_field_def)

lemma json_field_JObj [simp]: "json_field (JObj kvs) key = map_of kvs key"
  by (simp add: json_field_def)

lemma map_of_opt_field:
  "map_of (opt_field key f x @ kvs) k = (if k = key \<and> x \<noteq> None then map_option f x else map_of kvs k)"
  by (cases x) auto

lemma json_field_smaller: "json_field j key = Some v \<Longrightarrow> size v < size j"
proof (cases j)
  case (JObj kvs)
  assume "json_field j key = Some v"
  then have "(key, v) \<in> set kvs" using JObj by (auto dest: map_of_SomeD)
  then have "size_prod (\<lambda>_. 0) size (key, v) \<le> size_list (size_prod (\<lambda>_. 0) size) kvs"
    by (intro size_list_estimation') auto
  then show ?thesis using JObj by simp
qed (auto simp: json_field_def)

lemma r_all_inverse: "(\<And>x. x \<in> set xs \<Longrightarrow> r (f x) = Some x) \<Longrightarrow> r_all r (map f xs) = Some xs"
  by (induction xs) auto

lemma r_all_Cons: "r_all r (x # xs) = Some zs \<longleftrightarrow> (\<exists>y ys. r x = Some y \<and> r_all r xs = Some ys \<and> zs = y # ys)"
  by (cases "r x"; cases "r_all r xs") auto

lemma map_ok_cong [fundef_cong]:
  "xs = ys \<Longrightarrow> (\<And>x. x \<in> set ys \<Longrightarrow> f x = g x) \<Longrightarrow> map_ok f xs = map_ok g ys"
  by (induction xs arbitrary: ys) auto

lemma map_ok_inverse: "(\<And>x. x \<in> set xs \<Longrightarrow> f (g x) = Inr x) \<Longrightarrow> map_ok f (map g xs) = Inr xs"
  by (induction xs) auto

end
