(* ===== verification/Anthropic_Codec.thy ===== *)
theory Anthropic_Codec
  imports Wire_Json Canonical_Request Gateway_Identity
begin

text \<open>
  The Anthropic Messages protocol: \<^verbatim>\<open>src/protocols/anthropic/decoder.ts\<close> and \<^verbatim>\<open>encoder.ts\<close>.

  A body and its blocks are JSON values, read by the schemas of the decoder; the id of a request is
  an argument. Which fields a refused body names is left out of the error. An absent tool input is \<open>null\<close>.
\<close>

section \<open>The schemas\<close>

datatype protocol_error = Protocol_error string string nat | Zod_error

definition zod_refused :: "protocol_error + 'a" where "zod_refused = Inl Zod_error"

text \<open>A block; \<open>cache\<close> says whether it has a cache control. The content of a tool result stays raw.\<close>

datatype result_content = Result_absent | Result_string string | Result_array "json list"

datatype anthropic_block =
    A_text string bool
  | A_image string string bool
  | A_tool_use string string json
  | A_tool_result string result_content "bool option" bool
  | A_thinking string "string option"
  | A_redacted string

definition r_cache :: "json \<Rightarrow> unit option" where
  "r_cache j = Option.bind (r_req j ''type'' r_str) (\<lambda>t. if t = ''ephemeral'' then Some () else None)"

definition has_cache :: "json \<Rightarrow> bool option" where
  "has_cache j = map_option (\<lambda>c. c \<noteq> None) (r_opt j ''cache_control'' r_cache)"

definition r_result_content :: "json \<Rightarrow> result_content option" where
  "r_result_content j =
     (case j of JStr s \<Rightarrow> Some (Result_string s) | JArr xs \<Rightarrow> Some (Result_array xs) | _ \<Rightarrow> None)"

definition r_source :: "json \<Rightarrow> (string \<times> string) option" where
  "r_source j = do {
     t \<leftarrow> r_req j ''type'' r_str;
     mediaType \<leftarrow> r_req j ''media_type'' r_text;
     data \<leftarrow> r_req j ''data'' r_text;
     if t = ''base64'' then Some (mediaType, data) else None }"

definition contentBlock :: "json \<Rightarrow> anthropic_block option" where
  "contentBlock j = Option.bind (r_req j ''type'' r_str) (\<lambda>t.
     if t = ''text'' then do { s \<leftarrow> r_req j ''text'' r_str; c \<leftarrow> has_cache j; Some (A_text s c) }
     else if t = ''image'' then do { src \<leftarrow> r_req j ''source'' r_source; c \<leftarrow> has_cache j; Some (A_image (fst src) (snd src) c) }
     else if t = ''tool_use'' then do {
       i \<leftarrow> r_req j ''id'' r_text; nm \<leftarrow> r_req j ''name'' r_text;
       Some (A_tool_use i nm (get_or JNull (json_field j ''input''))) }
     else if t = ''tool_result'' then do {
       i \<leftarrow> r_req j ''tool_use_id'' r_text;
       content \<leftarrow> r_opt j ''content'' r_result_content;
       e \<leftarrow> r_opt j ''is_error'' r_bool;
       c \<leftarrow> has_cache j;
       Some (A_tool_result i (get_or Result_absent content) e c) }
     else if t = ''thinking'' then do {
       s \<leftarrow> r_req j ''thinking'' r_str; sig \<leftarrow> r_opt j ''signature'' r_str; Some (A_thinking s sig) }
     else if t = ''redacted_thinking'' then do { d \<leftarrow> r_req j ''data'' r_str; Some (A_redacted d) }
     else None)"

datatype message_content = Plain_content string | Block_content "json list"

definition r_content :: "json \<Rightarrow> message_content option" where
  "r_content j =
     (case j of
        JStr s \<Rightarrow> Some (Plain_content s)
      | JArr xs \<Rightarrow> map_option (\<lambda>_. Block_content xs) (r_all contentBlock xs)
      | _ \<Rightarrow> None)"

record anthropic_body =
  ab_model :: string
  ab_max_tokens :: int
  ab_messages :: "(string \<times> message_content) list"
  ab_system :: "(string + (string \<times> bool) list) option"
  ab_tools :: "canonical_tool list option"
  ab_tool_choice :: "canonical_tool_choice option"
  ab_stream :: "bool option"
  ab_temperature :: "rat option"
  ab_top_p :: "rat option"
  ab_stop_sequences :: "string list option"
  ab_thinking :: "(reasoning_source_mode \<times> string option) option"
  ab_effort :: "string option"

definition r_message :: "json \<Rightarrow> (string \<times> message_content) option" where
  "r_message j = do { r \<leftarrow> r_req j ''role'' r_text; c \<leftarrow> r_req j ''content'' r_content; Some (r, c) }"

definition r_text_block :: "json \<Rightarrow> (string \<times> bool) option" where
  "r_text_block j = (case contentBlock j of Some (A_text s c) \<Rightarrow> Some (s, c) | _ \<Rightarrow> None)"

definition r_system :: "json \<Rightarrow> (string + (string \<times> bool) list) option" where
  "r_system j = (case j of JStr s \<Rightarrow> Some (Inl s) | JArr xs \<Rightarrow> map_option Inr (r_all r_text_block xs) | _ \<Rightarrow> None)"

definition r_tool :: "json \<Rightarrow> canonical_tool option" where
  "r_tool j = do {
     nm \<leftarrow> r_req j ''name'' r_text; d \<leftarrow> r_opt j ''description'' r_str; s \<leftarrow> r_req j ''input_schema'' r_obj;
     Some \<lparr>tool_name = nm, tool_description = d, tool_inputSchema = s\<rparr> }"

definition r_tool_choice :: "json \<Rightarrow> canonical_tool_choice option" where
  "r_tool_choice j = Option.bind (r_req j ''type'' r_str) (\<lambda>t.
     if t = ''auto'' then Some Choice_auto else if t = ''any'' then Some Choice_any
     else if t = ''none'' then Some Choice_none
     else if t = ''tool'' then map_option Choice_tool (r_req j ''name'' r_text) else None)"

definition r_thinking_mode :: "json \<Rightarrow> reasoning_source_mode option" where
  "r_thinking_mode j = Option.bind (r_str j) (\<lambda>t.
     map_of [(''enabled'', Mode_enabled), (''disabled'', Mode_disabled), (''adaptive'', Mode_adaptive)] t)"

definition r_thinking :: "json \<Rightarrow> (reasoning_source_mode \<times> string option) option" where
  "r_thinking j = do { m \<leftarrow> r_req j ''type'' r_thinking_mode; e \<leftarrow> r_opt j ''effort'' r_str; Some (m, e) }"

definition unit_interval :: "json \<Rightarrow> rat option" where
  "unit_interval j = r_if (\<lambda>n. 0 \<le> n \<and> n \<le> 1) (r_num j)"

definition anthropic_rawSchema :: "json \<Rightarrow> anthropic_body option" where
  "anthropic_rawSchema j = do {
     model \<leftarrow> r_req j ''model'' r_text;
     max_tokens \<leftarrow> r_req j ''max_tokens'' (\<lambda>v. r_if (\<lambda>n. 0 < n) (r_int v));
     messages \<leftarrow> r_req j ''messages'' (r_list r_message);
     system \<leftarrow> r_opt j ''system'' r_system;
     tools \<leftarrow> r_opt j ''tools'' (r_list r_tool);
     choice \<leftarrow> r_opt j ''tool_choice'' r_tool_choice;
     stream \<leftarrow> r_opt j ''stream'' r_bool;
     temperature \<leftarrow> r_opt j ''temperature'' unit_interval;
     top_p \<leftarrow> r_opt j ''top_p'' unit_interval;
     stop \<leftarrow> r_opt j ''stop_sequences'' (r_list r_str);
     thinking \<leftarrow> r_opt j ''thinking'' r_thinking;
     effort \<leftarrow> r_opt j ''effort'' r_str;
     metadata \<leftarrow> r_opt j ''metadata'' r_obj;
     Some \<lparr>ab_model = model, ab_max_tokens = max_tokens, ab_messages = messages, ab_system = system,
       ab_tools = tools, ab_tool_choice = choice, ab_stream = stream, ab_temperature = temperature,
       ab_top_p = top_p, ab_stop_sequences = stop, ab_thinking = thinking, ab_effort = effort\<rparr> }"

section \<open>Decoding\<close>

text \<open>\<open>blocks\<close>, one block at a time. A nested block the schema refuses throws a zod error.\<close>

function canonical_block :: "json \<Rightarrow> protocol_error + canonical_content" where
  "canonical_block j =
     (case contentBlock j of
        None \<Rightarrow> zod_refused
      | Some (A_text s _) \<Rightarrow> Inr (Text_part s)
      | Some (A_image mediaType data _) \<Rightarrow> Inr (Image_part mediaType data)
      | Some (A_tool_use i nm input) \<Rightarrow> Inr (Tool_call_part i nm input)
      | Some (A_thinking s _) \<Rightarrow> Inr (Reasoning_part s None)
      | Some (A_redacted d) \<Rightarrow> Inr (Redacted_reasoning_part d)
      | Some (A_tool_result i content e _) \<Rightarrow>
          bind_ok
            (case content of
               Result_absent \<Rightarrow> Inr []
             | Result_string s \<Rightarrow> Inr [Text_part s]
             | Result_array xs \<Rightarrow> map_ok canonical_block xs)
            (\<lambda>nested. Inr (Tool_result_part i nested (get_or False e))))"
  by pat_completeness auto

lemma contentBlock_nested:
  assumes "contentBlock j = Some (A_tool_result i (Result_array xs) e c)" and "x \<in> set xs"
  shows "size x < size j"
proof -
  have "json_field j ''content'' = Some (JArr xs)"
    using assms(1)
    by (auto simp: contentBlock_def r_opt_def r_result_content_def get_or_def bind_eq_Some_conv
        split: if_splits option.splits json.splits)
  then have "size (JArr xs) < size j" by (rule json_field_smaller)
  moreover have "size x \<le> size_list size xs" using assms(2) by (intro size_list_estimation') auto
  ultimately show ?thesis by simp
qed

termination canonical_block
  by (relation "measure size") (auto dest: contentBlock_nested)

declare canonical_block.simps [simp del]

definition blocks :: "message_content \<Rightarrow> protocol_error + canonical_content list" where
  "blocks value =
     (case value of Plain_content s \<Rightarrow> Inr [Text_part s] | Block_content xs \<Rightarrow> map_ok canonical_block xs)"

text \<open>The parsed block back as JSON: what \<open>JSON.stringify\<close> sees of it, without the fields the schema drops.\<close>

definition cache_fields :: "bool \<Rightarrow> (string \<times> json) list" where
  "cache_fields c = (if c then [(''cache_control'', JObj [(''type'', JStr ''ephemeral'')])] else [])"

definition result_field :: "result_content \<Rightarrow> (string \<times> json) list" where
  "result_field content =
     (case content of Result_absent \<Rightarrow> [] | Result_string s \<Rightarrow> [(''content'', JStr s)] | Result_array xs \<Rightarrow> [(''content'', JArr xs)])"

definition block_json :: "anthropic_block \<Rightarrow> json" where
  "block_json b =
     (case b of
        A_text s c \<Rightarrow> JObj ([(''type'', JStr ''text''), (''text'', JStr s)] @ cache_fields c)
      | A_image mediaType data c \<Rightarrow>
          JObj ([(''type'', JStr ''image''),
                 (''source'', JObj [(''type'', JStr ''base64''), (''media_type'', JStr mediaType), (''data'', JStr data)])]
                @ cache_fields c)
      | A_tool_use i nm input \<Rightarrow>
          JObj [(''type'', JStr ''tool_use''), (''id'', JStr i), (''name'', JStr nm), (''input'', input)]
      | A_tool_result i content e c \<Rightarrow>
          JObj ([(''type'', JStr ''tool_result''), (''tool_use_id'', JStr i)] @ result_field content
                @ opt_field ''is_error'' JBool e @ cache_fields c)
      | A_thinking s sig \<Rightarrow> JObj ([(''type'', JStr ''thinking''), (''thinking'', JStr s)] @ opt_field ''signature'' JStr sig)
      | A_redacted d \<Rightarrow> JObj [(''type'', JStr ''redacted_thinking''), (''data'', JStr d)])"

text \<open>
  \<open>JSON.stringify(v).includes(...)\<close> of \<open>cache_control\<close> in quotes: a key or a string ends with the
  name, alone or after a quotation mark.
\<close>

definition ends_quoted :: "string \<Rightarrow> bool" where
  "ends_quoted s \<longleftrightarrow> s = ''cache_control'' \<or> (\<exists>p \<in> set [take (length s - 14) s]. s = p @ [CHR 0x22] @ ''cache_control'')"

fun mentions_cache :: "json \<Rightarrow> bool" where
  "mentions_cache (JStr s) \<longleftrightarrow> ends_quoted s"
| "mentions_cache (JArr xs) \<longleftrightarrow> list_ex mentions_cache xs"
| "mentions_cache (JObj kvs) \<longleftrightarrow> list_ex (\<lambda>(k, v). ends_quoted k \<or> mentions_cache v) kvs"
| "mentions_cache _ \<longleftrightarrow> False"

definition message_cached :: "message_content \<Rightarrow> bool" where
  "message_cached value =
     (case value of
        Plain_content _ \<Rightarrow> False
      | Block_content xs \<Rightarrow> list_ex (\<lambda>j. case contentBlock j of Some b \<Rightarrow> mentions_cache (block_json b) | None \<Rightarrow> False) xs)"

definition cache_marks :: "anthropic_body \<Rightarrow> (cache_scope \<times> nat) list" where
  "cache_marks body =
     (case ab_system body of
        Some (Inr xs) \<Rightarrow> map (\<lambda>(k, _). (Cache_system, k)) (filter (\<lambda>(_, _, c). c) (enumerate 0 xs))
      | _ \<Rightarrow> [])
     @ map (\<lambda>(k, _). (Cache_message, k)) (filter (\<lambda>(_, _, c). message_cached c) (enumerate 0 (ab_messages body)))"

definition block_signature :: "json \<Rightarrow> string option" where
  "block_signature j = (case contentBlock j of Some (A_thinking _ (Some sig)) \<Rightarrow> if sig = [] then None else Some sig | _ \<Rightarrow> None)"

definition block_association :: "nat \<Rightarrow> nat \<Rightarrow> string" where
  "block_association m b = show_nat m @ '':'' @ show_nat b"

definition content_signatures :: "nat \<Rightarrow> message_content \<Rightarrow> opaque_artifact list" where
  "content_signatures m value =
     (case value of
        Plain_content _ \<Rightarrow> []
      | Block_content xs \<Rightarrow>
          concat (map (\<lambda>(b, j). case block_signature j of
              None \<Rightarrow> []
            | Some sig \<Rightarrow> [\<lparr>artifact_kind = Thinking_signature, association = block_association m b, artifact_value = sig\<rparr>])
            (enumerate 0 xs)))"

definition thinkingSignatureArtifacts :: "(string \<times> message_content) list \<Rightarrow> opaque_artifact list" where
  "thinkingSignatureArtifacts messages = concat (map (\<lambda>(m, _, value). content_signatures m value) (enumerate 0 messages))"

fun decode_messages ::
  "(string \<times> message_content) list \<Rightarrow> protocol_error + canonical_content list \<times> canonical_message list" where
  "decode_messages [] = Inr ([], [])"
| "decode_messages ((role, value) # rest) =
     bind_ok (blocks value) (\<lambda>content.
       if role = ''system'' then bind_ok (decode_messages rest) (\<lambda>(system, messages). Inr (content @ system, messages))
       else if role = ''user'' \<or> role = ''assistant''
       then bind_ok (decode_messages rest) (\<lambda>(system, messages).
              Inr (system, \<lparr>msg_role = (if role = ''user'' then User_role else Assistant_role), msg_content = content\<rparr> # messages))
       else Inl (Protocol_error ''invalid_request_error'' (''Unsupported message role: '' @ role) 400))"

fun is_image :: "canonical_content \<Rightarrow> bool" where
  "is_image (Image_part _ _) = True" | "is_image _ = False"

fun is_reasoning :: "canonical_content \<Rightarrow> bool" where
  "is_reasoning (Reasoning_part _ _) = True" | "is_reasoning _ = False"

fun is_redacted :: "canonical_content \<Rightarrow> bool" where
  "is_redacted (Redacted_reasoning_part _) = True" | "is_redacted _ = False"

definition when_req :: "bool \<Rightarrow> 'a \<Rightarrow> 'a list" where
  "when_req b x = (if b then [x] else [])"

definition anthropic_required :: "anthropic_body \<Rightarrow> canonical_content list \<Rightarrow> capability_requirement list" where
  "anthropic_required body input =
     when_req (ab_stream body = Some True) Req_streaming
     @ when_req (ab_tools body \<noteq> None \<and> ab_tools body \<noteq> Some []) Req_tools
     @ when_req (list_ex is_image input) Req_images
     @ when_req (list_ex is_reasoning input) Req_reasoning
     @ when_req (list_ex is_redacted input) Req_redactedReasoning
     @ when_req (map_option fst (ab_thinking body) \<in> {Some Mode_enabled, Some Mode_adaptive}) Req_reasoning"

definition ANTHROPIC_RECOGNIZED :: "string list" where
  "ANTHROPIC_RECOGNIZED =
     [''model'', ''max_tokens'', ''messages'', ''system'', ''tools'', ''tool_choice'', ''stream'', ''temperature'',
      ''top_p'', ''stop_sequences'', ''thinking'', ''effort'', ''metadata'']"

definition one_header :: "(string \<times> header_value) list \<Rightarrow> string \<Rightarrow> string option" where
  "one_header headers key = (case header_lookup headers key of Some (One_header s) \<Rightarrow> Some s | _ \<Rightarrow> None)"

fun split_comma :: "string \<Rightarrow> string list" where
  "split_comma [] = [[]]"
| "split_comma (c # s) =
     (if c = CHR '','' then [] # split_comma s else case split_comma s of [] \<Rightarrow> [[c]] | w # ws \<Rightarrow> (c # w) # ws)"

definition beta_values :: "(string \<times> header_value) list \<Rightarrow> string \<Rightarrow> string list" where
  "beta_values headers key =
     (case one_header headers key of
        None \<Rightarrow> []
      | Some s \<Rightarrow> filter (\<lambda>item. item \<noteq> []) (map js_trim (split_comma s)))"

definition ignored_note :: "string \<Rightarrow> fidelity_note" where
  "ignored_note key = \<lparr>note_field = key, disposition = Ignored, note_reason = Some ''unknown additive field; not required for continuation''\<rparr>"

definition anthropic_fidelity ::
  "(string \<times> header_value) list \<Rightarrow> opaque_artifact list \<Rightarrow> canonical_content list \<Rightarrow> string list \<Rightarrow> fidelity_envelope option" where
  "anthropic_fidelity headers signatures input ignored =
     (if signatures = [] \<and> ignored = [] then None
      else
        let envelope = withNotes (withArtifacts (emptyFidelityEnvelope Anthropic_messages (one_header headers ''anthropic-version'')) signatures)
          (when_req (list_ex (\<lambda>c. is_reasoning c \<or> is_redacted c) input)
             \<lparr>note_field = ''messages[].content[].thinking'', disposition = Translated,
              note_reason = Some ''thinking text projected to semantic reasoning content''\<rparr>
           @ map (\<lambda>a. \<lparr>note_field = ''messages[].content[].thinking.signature'', disposition = Preserved_native,
                       note_reason = Some (''preserved at '' @ association a)\<rparr>) signatures
           @ map ignored_note ignored)
        in Some (if signatures = [] then envelope else withRequired envelope [Thinking_signature]))"

record decoded_request =
  dec_request :: canonical_request
  dec_required :: "capability_requirement list"
  dec_ignored :: "string list"

definition system_parts :: "anthropic_body \<Rightarrow> canonical_content list" where
  "system_parts body =
     (case ab_system body of None \<Rightarrow> [] | Some (Inl s) \<Rightarrow> [Text_part s] | Some (Inr xs) \<Rightarrow> map (\<lambda>(s, _). Text_part s) xs)"

definition decodeAnthropicRequest ::
  "string \<Rightarrow> json \<Rightarrow> (string \<times> header_value) list \<Rightarrow> protocol_error + decoded_request" where
  "decodeAnthropicRequest uuid raw headers =
     (case anthropic_rawSchema raw of
        None \<Rightarrow> Inl (Protocol_error ''invalid_request_error'' ''Request does not match the supported Messages fields'' 400)
      | Some body \<Rightarrow>
          bind_ok (decode_messages (ab_messages body)) (\<lambda>(moved, messages).
          let input = concat (map msg_content messages);
              betaValues = beta_values headers ''anthropic-beta'';
              effort = or_else (ab_effort body) (Option.bind (ab_thinking body) snd);
              reasoning = reasoningRequestFromWire \<lparr>wire_thinking = map_option fst (ab_thinking body), wire_effort = effort\<rparr>;
              ignored = filter (\<lambda>key. key \<notin> set ANTHROPIC_RECOGNIZED) (json_keys raw);
              cache = cache_marks body;
              signatures = thinkingSignatureArtifacts (ab_messages body)
          in Inr
            \<lparr>dec_request =
               \<lparr>cq_id = uuid,
                cq_source = \<lparr>src_protocol = Anthropic_messages, src_protocolVersion = one_header headers ''anthropic-version'',
                             src_clientName = None, src_clientVersion = None\<rparr>,
                cq_requestedModel = ab_model body, cq_modelRole = ''unknown'',
                cq_system = system_parts body @ moved, cq_input = input, cq_messages = messages,
                cq_tools = get_or [] (ab_tools body), cq_toolChoice = ab_tool_choice body,
                cq_stream = get_or False (ab_stream body), cq_store = None, cq_include = None,
                cq_inference = \<lparr>inf_maxOutputTokens = Some (ab_max_tokens body), inf_temperature = ab_temperature body,
                  inf_topP = ab_top_p body, inf_stopSequences = ab_stop_sequences body,
                  inf_thinking = map_option fst (ab_thinking body), inf_reasoning = Some reasoning\<rparr>,
                cq_metadata = \<lparr>meta_beta = (if betaValues = [] then None else Some betaValues),
                  meta_cacheControl = (if cache = [] then None else Some cache)\<rparr>,
                cq_continuation = None, cq_agent = parseAgentContext headers,
                cq_fidelity = anthropic_fidelity headers signatures input ignored\<rparr>,
             dec_required = anthropic_required body input, dec_ignored = ignored\<rparr>))"


section \<open>Round trip of the messages\<close>

text \<open>The blocks of a canonical message as a client writes them; a request with them reads back as the same messages.\<close>

definition jint :: "int \<Rightarrow> json" where "jint n = JNum (of_int n)"

fun content_json :: "canonical_content \<Rightarrow> json" where
  "content_json (Text_part s) = block_json (A_text s False)"
| "content_json (Image_part mediaType data) = block_json (A_image mediaType data False)"
| "content_json (Tool_call_part i nm input) = block_json (A_tool_use i nm input)"
| "content_json (Tool_result_part i nested e) =
     block_json (A_tool_result i (Result_array (map content_json nested)) (Some e) False)"
| "content_json (Reasoning_part s _) = block_json (A_thinking s None)"
| "content_json (Redacted_reasoning_part d) = block_json (A_redacted d)"

fun sendable :: "canonical_content \<Rightarrow> bool" where
  "sendable (Image_part mediaType data) \<longleftrightarrow> mediaType \<noteq> [] \<and> data \<noteq> []"
| "sendable (Tool_call_part i nm _) \<longleftrightarrow> i \<noteq> [] \<and> nm \<noteq> []"
| "sendable (Tool_result_part i nested _) \<longleftrightarrow> i \<noteq> [] \<and> list_all sendable nested"
| "sendable (Reasoning_part _ opaque) \<longleftrightarrow> opaque = None"
| "sendable _ \<longleftrightarrow> True"

definition message_json :: "canonical_message \<Rightarrow> json" where
  "message_json m =
     JObj [(''role'', JStr (if msg_role m = User_role then ''user'' else ''assistant'')),
           (''content'', JArr (map content_json (msg_content m)))]"

definition request_json :: "string \<Rightarrow> int \<Rightarrow> canonical_message list \<Rightarrow> json" where
  "request_json model maxTokens messages =
     JObj [(''model'', JStr model), (''max_tokens'', jint maxTokens), (''messages'', JArr (map message_json messages))]"

lemmas read_defs = r_req_def r_opt_def r_text_def r_source_def r_cache_def has_cache_def r_result_content_def get_or_def

lemma content_json_block:
  "sendable c \<Longrightarrow> contentBlock (content_json c) =
     Some (case c of
        Text_part s \<Rightarrow> A_text s False
      | Image_part mediaType data \<Rightarrow> A_image mediaType data False
      | Tool_call_part i nm input \<Rightarrow> A_tool_use i nm input
      | Tool_result_part i nested e \<Rightarrow> A_tool_result i (Result_array (map content_json nested)) (Some e) False
      | Reasoning_part s _ \<Rightarrow> A_thinking s None
      | Redacted_reasoning_part d \<Rightarrow> A_redacted d)"
  by (cases c) (simp_all add: contentBlock_def block_json_def cache_fields_def result_field_def read_defs)

lemma canonical_block_inverse: "sendable c \<Longrightarrow> canonical_block (content_json c) = Inr c"
proof (induction c)
  case (Tool_result_part i nested e)
  then have "map_ok canonical_block (map content_json nested) = Inr nested"
    by (intro map_ok_inverse) (auto simp: list_all_iff)
  then show ?case
    using Tool_result_part.prems content_json_block [OF Tool_result_part.prems]
    by (simp add: canonical_block.simps [of "content_json _"] get_or_def del: content_json.simps)
qed (simp_all add: canonical_block.simps [of "content_json _"] content_json_block del: content_json.simps)

lemma sent_content_read:
  assumes "list_all sendable xs"
  shows "r_content (JArr (map content_json xs)) = Some (Block_content (map content_json xs))"
proof -
  have "r_all contentBlock (map content_json xs) \<noteq> None"
    using assms by (induction xs) (auto simp: content_json_block)
  then show ?thesis by (auto simp: r_content_def)
qed

definition message_raw :: "canonical_message \<Rightarrow> string \<times> message_content" where
  "message_raw m =
     (if msg_role m = User_role then ''user'' else ''assistant'', Block_content (map content_json (msg_content m)))"

lemma sent_message_read:
  "list_all sendable (msg_content m) \<Longrightarrow> r_message (message_json m) = Some (message_raw m)"
  by (simp add: r_message_def message_json_def message_raw_def r_req_def r_text_def sent_content_read)

lemma sent_messages_read:
  "list_all (\<lambda>m. list_all sendable (msg_content m)) messages \<Longrightarrow>
     r_all r_message (map message_json messages) = Some (map message_raw messages)"
  by (induction messages) (auto simp: sent_message_read)

lemma sent_messages_decode:
  assumes "list_all (\<lambda>m. list_all sendable (msg_content m)) messages"
  shows "decode_messages (map message_raw messages) = Inr ([], messages)"
  using assms
proof (induction messages)
  case (Cons m messages)
  have "map_ok canonical_block (map content_json (msg_content m)) = Inr (msg_content m)"
    using Cons.prems by (intro map_ok_inverse canonical_block_inverse) (auto simp: list_all_iff)
  then show ?case
    using Cons by (cases m; cases "msg_role m") (auto simp: message_raw_def blocks_def)
qed simp

lemma sent_body:
  assumes "model \<noteq> []" and "0 < maxTokens" "maxTokens \<le> 9007199254740991"
    and "list_all (\<lambda>m. list_all sendable (msg_content m)) messages"
  shows "anthropic_rawSchema (request_json model maxTokens messages) =
    Some \<lparr>ab_model = model, ab_max_tokens = maxTokens, ab_messages = map message_raw messages, ab_system = None,
       ab_tools = None, ab_tool_choice = None, ab_stream = None, ab_temperature = None,
       ab_top_p = None, ab_stop_sequences = None, ab_thinking = None, ab_effort = None\<rparr>"
proof -
  have "\<bar>of_int maxTokens :: rat\<bar> \<le> of_int 9007199254740991"
    using assms(2,3) by (subst of_int_abs [symmetric], subst of_int_le_iff) simp
  then have "r_int (jint maxTokens) = Some maxTokens" by (simp add: r_int_def jint_def)
  then show ?thesis
    using assms
    by (simp add: anthropic_rawSchema_def request_json_def r_req_def r_opt_def r_list_def r_text_def r_if_def sent_messages_read)
qed

text \<open>C31: messages of the gateway's own model survive the Messages protocol. For every list of messages with text, images,
  tool calls, nested tool results, thinking without provider state and redacted thinking, with no empty id, name or
  image field, the request a client writes for them is accepted and decodes to the same messages in the same order,
  with the same model and token limit, no system text, no field reported as ignored, and the flattened input.\<close>

theorem messages_round_trip:
  assumes "model \<noteq> []" and "0 < maxTokens" "maxTokens \<le> 9007199254740991"
    and "list_all (\<lambda>m. list_all sendable (msg_content m)) messages"
  shows "\<exists>d. decodeAnthropicRequest uuid (request_json model maxTokens messages) headers = Inr d
     \<and> cq_messages (dec_request d) = messages \<and> cq_input (dec_request d) = concat (map msg_content messages)
     \<and> cq_requestedModel (dec_request d) = model \<and> inf_maxOutputTokens (cq_inference (dec_request d)) = Some maxTokens
     \<and> cq_system (dec_request d) = [] \<and> dec_ignored d = []"
  using assms
  by (simp add: decodeAnthropicRequest_def sent_body sent_messages_decode system_parts_def Let_def)
    (simp add: request_json_def json_keys_def ANTHROPIC_RECOGNIZED_def)


theorem messages_round_trip_witness:
  "\<exists>d. decodeAnthropicRequest ''u''
       (request_json ''m'' 10 [\<lparr>msg_role = User_role, msg_content = [Tool_result_part ''t'' [Image_part ''image/png'' ''AA''] True]\<rparr>])
       [] = Inr d
     \<and> cq_messages (dec_request d) =
         [\<lparr>msg_role = User_role, msg_content = [Tool_result_part ''t'' [Image_part ''image/png'' ''AA''] True]\<rparr>]"
  using messages_round_trip [of "''m''" 10
      "[\<lparr>msg_role = User_role, msg_content = [Tool_result_part ''t'' [Image_part ''image/png'' ''AA''] True]\<rparr>]" "''u''" "[]"]
  by auto

section \<open>Thinking signatures\<close>

lemma takeWhile_digits: "takeWhile is_digit_char (show_nat m @ '':'' @ s) = show_nat m"
  using show_nat_digits by (subst takeWhile_append2) (auto simp: is_digit_char_def)

lemma block_association_inject [simp]: "block_association m b = block_association m' b' \<longleftrightarrow> m = m' \<and> b = b'"
proof
  assume eq: "block_association m b = block_association m' b'"
  then have "show_nat m = show_nat m'" unfolding block_association_def by (metis takeWhile_digits)
  then show "m = m' \<and> b = b'" using eq by (simp add: block_association_def show_nat_inject)
qed simp

definition signature_at :: "(string \<times> message_content) list \<Rightarrow> nat \<Rightarrow> nat \<Rightarrow> string option" where
  "signature_at messages m b =
     (if m < length messages
      then case snd (messages ! m) of
             Plain_content _ \<Rightarrow> None
           | Block_content xs \<Rightarrow> if b < length xs then block_signature (xs ! b) else None
      else None)"

abbreviation signs :: "nat \<Rightarrow> nat \<Rightarrow> opaque_artifact \<Rightarrow> bool" where
  "signs m b a \<equiv> artifact_kind a = Thinking_signature \<and> association a = block_association m b"

lemma find_block_signature:
  "map_option artifact_value (List.find (signs m b)
     (concat (map (\<lambda>(b, j). case block_signature j of
              None \<Rightarrow> []
            | Some sig \<Rightarrow> [\<lparr>artifact_kind = Thinking_signature, association = block_association m' b, artifact_value = sig\<rparr>])
            (enumerate n xs)))) =
   (if m = m' \<and> n \<le> b \<and> b < n + length xs then block_signature (xs ! (b - n)) else None)"
proof (induction xs arbitrary: n)
  case (Cons x xs)
  show ?case
    using Cons.IH [of "Suc n"]
    by (cases "b = n") (auto simp: find_append or_else_def nth_Cons' Suc_le_eq split: option.splits)
qed auto

lemma find_content_signature:
  "map_option artifact_value (List.find (signs m b) (content_signatures m' body)) =
   (if m = m' then case body of
             Plain_content _ \<Rightarrow> None
           | Block_content xs \<Rightarrow> if b < length xs then block_signature (xs ! b) else None
      else None)"
proof (cases body)
  case (Block_content xs)
  then show ?thesis using find_block_signature [of m b m' 0 xs] by (simp add: content_signatures_def)
qed (simp add: content_signatures_def)

lemma find_signature:
  "map_option artifact_value (List.find (signs m b)
     (concat (map (\<lambda>(m, _, value). content_signatures m value) (enumerate n messages)))) =
   (if n \<le> m then signature_at messages (m - n) b else None)"
proof (induction messages arbitrary: n)
  case Nil
  then show ?case by (simp add: signature_at_def)
next
  case (Cons x xs)
  obtain r v where x: "x = (r, v)" by force
  show ?case
    using Cons.IH [of "Suc n"] find_content_signature [of m b n "snd x"] x
    by (cases "m = n") (auto simp: find_append or_else_def signature_at_def nth_Cons' Suc_le_eq split: option.splits message_content.splits)
qed

text \<open>C32: thinking signatures are kept, each at its own block. In every request the decoder accepts, the fidelity
  envelope holds at association \<open>m:b\<close> exactly the signature that block \<open>b\<close> of message \<open>m\<close> of the body carries, a
  nonempty one of a thinking block, and nothing where there is none; and as soon as one block is signed, the envelope
  demands signatures of the provider.\<close>

theorem signatures_preserved:
  "case decodeAnthropicRequest uuid raw headers of
     Inl e \<Rightarrow> True
   | Inr d \<Rightarrow>
       (case anthropic_rawSchema raw of
          None \<Rightarrow> False
        | Some body \<Rightarrow>
            artifactValue (cq_fidelity (dec_request d)) Thinking_signature (block_association m b) = signature_at (ab_messages body) m b
            \<and> (if signature_at (ab_messages body) m b = None then True
               else \<exists>env. cq_fidelity (dec_request d) = Some env \<and> Thinking_signature \<in> set (required_kinds env)))"
proof (cases "decodeAnthropicRequest uuid raw headers")
  case (Inr d)
  then obtain body where body: "anthropic_rawSchema raw = Some body"
    by (auto simp: decodeAnthropicRequest_def split: option.splits)
  let ?sigs = "thinkingSignatureArtifacts (ab_messages body)"
  obtain input ignored where env: "cq_fidelity (dec_request d) = anthropic_fidelity headers ?sigs input ignored"
    using Inr body by (auto simp: decodeAnthropicRequest_def Let_def bind_ok_Inr_iff)
  have found: "map_option artifact_value (List.find (signs m b) ?sigs) = signature_at (ab_messages body) m b"
    using find_signature [of m b 0] by (simp add: thinkingSignatureArtifacts_def)
  have "signature_at (ab_messages body) m b = None" if "?sigs = []" using found that by simp
  then show ?thesis
    using Inr body env found
    by (auto simp: anthropic_fidelity_def Let_def artifactValue_def withNotes_def withArtifacts_def withRequired_def
        emptyFidelityEnvelope_def)
qed simp

end
