(* ===== verification/Anthropic_Stream.thy ===== *)
theory Anthropic_Stream
  imports Anthropic_Codec Provider_Catalog "HOL-Library.AList"
begin

text \<open>
  The encoder of the Anthropic Messages stream and the aggregate of a response that is not
  streamed (\<^verbatim>\<open>src/protocols/anthropic/encoder.ts\<close>). A wire event is its name and its data;
  \<open>json_parse\<close> is \<open>JSON.parse\<close>, \<open>None\<close> where it throws.
\<close>

section \<open>Events\<close>

fun event_head :: "canonical_event \<Rightarrow> event_base" where
  "event_head (Response_started b _) = b"
| "event_head (Content_started b _ _ _ _ _) = b"
| "event_head (Text_delta b _ _) = b"
| "event_head (Reasoning_delta b _ _) = b"
| "event_head (Signature_delta b _ _) = b"
| "event_head (Tool_arguments_delta b _ _ _) = b"
| "event_head (Content_completed b _) = b"
| "event_head (Usage_updated b _ _) = b"
| "event_head (Response_completed b _) = b"
| "event_head (Response_failed b _ _) = b"
| "event_head (Fidelity_artifacts b _) = b"

fun event_index :: "canonical_event \<Rightarrow> nat" where
  "event_index (Content_started _ i _ _ _ _) = i"
| "event_index (Signature_delta _ i _) = i"
| "event_index (Content_completed _ i) = i"
| "event_index _ = 0"

type_synonym wire_event = "string \<times> json"

definition jnat :: "nat \<Rightarrow> json" where "jnat n = JNum (of_nat n)"

definition typed :: "string \<Rightarrow> (string \<times> json) list \<Rightarrow> wire_event" where
  "typed nm kvs = (nm, JObj ((''type'', JStr nm) # kvs))"

section \<open>The encoder\<close>

record encode_context =
  ec_lastSequence :: int
  ec_requestId :: "string option"
  ec_open :: "(nat \<times> content_type) list"

definition createContext :: encode_context where
  "createContext = \<lparr>ec_lastSequence = -1, ec_requestId = None, ec_open = []\<rparr>"

definition wire_block :: "content_type \<Rightarrow> string option \<Rightarrow> string option \<Rightarrow> protocol_error + json" where
  "wire_block ty toolCallId toolName =
     (case ty of
        Text_content \<Rightarrow> Inr (JObj [(''type'', JStr ''text''), (''text'', JStr [])])
      | Reasoning_content \<Rightarrow> Inr (JObj [(''type'', JStr ''thinking''), (''thinking'', JStr [])])
      | Redacted_reasoning_content \<Rightarrow> Inr (JObj [(''type'', JStr ''redacted_thinking''), (''data'', JStr [])])
      | Tool_call_content \<Rightarrow>
          (case (non_empty toolCallId, non_empty toolName) of
             (Some i, Some nm) \<Rightarrow>
               Inr (JObj [(''type'', JStr ''tool_use''), (''id'', JStr i), (''name'', JStr nm), (''input'', JObj [])])
           | _ \<Rightarrow> Inl (Protocol_error ''invalid_event'' ''Tool content requires an ID and name'' 500)))"

definition delta_frame :: "nat \<Rightarrow> (string \<times> json) list \<Rightarrow> wire_event" where
  "delta_frame index delta = typed ''content_block_delta'' [(''index'', jnat index), (''delta'', JObj delta)]"

definition order_error :: "string \<Rightarrow> protocol_error" where
  "order_error message = Protocol_error ''invalid_event_order'' message 500"

definition encode_body ::
  "(nat \<times> content_type) list \<Rightarrow> canonical_event \<Rightarrow> protocol_error + wire_event list \<times> (nat \<times> content_type) list" where
  "encode_body opened item =
     (case item of
        Response_started b responseId \<Rightarrow>
          Inr ([typed ''message_start'' [(''message'', JObj
             [(''id'', JStr responseId), (''type'', JStr ''message''), (''role'', JStr ''assistant''), (''content'', JArr []),
              (''model'', JStr (ev_modelId b)), (''stop_reason'', JNull), (''stop_sequence'', JNull),
              (''usage'', JObj [(''input_tokens'', jnat 0), (''output_tokens'', jnat 0)])])]], opened)
      | Content_started _ index ty toolCallId toolName _ \<Rightarrow>
          bind_ok (wire_block ty toolCallId toolName) (\<lambda>block.
            Inr ([typed ''content_block_start'' [(''index'', jnat index), (''content_block'', block)]], AList.update index ty opened))
      | Text_delta _ index s \<Rightarrow> Inr ([delta_frame index [(''type'', JStr ''text_delta''), (''text'', JStr s)]], opened)
      | Reasoning_delta _ index s \<Rightarrow>
          Inr ([delta_frame index [(''type'', JStr ''thinking_delta''), (''thinking'', JStr s)]], opened)
      | Signature_delta _ index sig \<Rightarrow>
          if map_of opened index \<noteq> Some Reasoning_content
          then Inl (order_error ''Signature delta before content start or on a non-thinking block'')
          else Inr ([delta_frame index [(''type'', JStr ''signature_delta''), (''signature'', JStr sig)]], opened)
      | Tool_arguments_delta _ index _ partial \<Rightarrow>
          Inr ([delta_frame index [(''type'', JStr ''input_json_delta''), (''partial_json'', JStr partial)]], opened)
      | Content_completed _ index \<Rightarrow>
          if map_of opened index = None then Inl (order_error ''Content completed before start'')
          else Inr ([typed ''content_block_stop'' [(''index'', jnat index)]], AList.delete index opened)
      | Usage_updated _ i out \<Rightarrow>
          Inr ([typed ''message_delta'' [(''delta'', JObj []),
                 (''usage'', JObj (opt_field ''input_tokens'' jnat i @ opt_field ''output_tokens'' jnat out))]], opened)
      | Response_completed _ stopReason \<Rightarrow>
          Inr ([typed ''message_delta'' [(''delta'', JObj [(''stop_reason'', JStr stopReason), (''stop_sequence'', JNull)]),
                                         (''usage'', JObj [])],
                typed ''message_stop'' []], opened)
      | Response_failed _ code message \<Rightarrow>
          Inr ([typed ''error'' [(''error'', JObj [(''type'', JStr code), (''message'', JStr message)])]], opened)
      | Fidelity_artifacts _ _ \<Rightarrow> Inr ([], opened))"

definition guard_event :: "int \<Rightarrow> string option \<Rightarrow> canonical_event \<Rightarrow> protocol_error + unit" where
  "guard_event lastSequence requestId item =
     (if int (ev_sequence (event_head item)) \<le> lastSequence
      then Inl (Protocol_error ''invalid_event_sequence'' ''Canonical event sequence is not monotonic'' 500)
      else if non_empty requestId \<noteq> None \<and> requestId \<noteq> Some (ev_requestId (event_head item))
      then Inl (Protocol_error ''invalid_event_provenance'' ''Canonical events have mixed provenance'' 500)
      else Inr ())"

definition encodeAnthropicEvent :: "encode_context \<Rightarrow> canonical_event \<Rightarrow> protocol_error + wire_event list \<times> encode_context" where
  "encodeAnthropicEvent ctx item =
     bind_ok (guard_event (ec_lastSequence ctx) (ec_requestId ctx) item) (\<lambda>_.
     bind_ok (encode_body (ec_open ctx) item) (\<lambda>(frames, opened).
       Inr (frames, \<lparr>ec_lastSequence = int (ev_sequence (event_head item)),
                     ec_requestId = or_else (ec_requestId ctx) (Some (ev_requestId (event_head item))),
                     ec_open = opened\<rparr>)))"

definition assertClosed :: "encode_context \<Rightarrow> protocol_error + unit" where
  "assertClosed ctx = guard_ok (ec_open ctx = []) (order_error ''Response ended with open content'')"

fun push_all :: "encode_context \<Rightarrow> canonical_event list \<Rightarrow> protocol_error + wire_event list \<times> encode_context" where
  "push_all ctx [] = Inr ([], ctx)"
| "push_all ctx (item # items) =
     bind_ok (encodeAnthropicEvent ctx item) (\<lambda>(frames, ctx').
     bind_ok (push_all ctx' items) (\<lambda>(rest, ctx''). Inr (frames @ rest, ctx'')))"

definition encodeAnthropicEvents :: "canonical_event list \<Rightarrow> bool \<Rightarrow> protocol_error + wire_event list" where
  "encodeAnthropicEvents events final =
     bind_ok (push_all createContext events) (\<lambda>(frames, ctx).
     bind_ok (if final then assertClosed ctx else Inr ()) (\<lambda>_. Inr frames))"

section \<open>The aggregate\<close>

type_synonym message_block = "(string \<times> json) list"

record message_state =
  ms_id :: string
  ms_model :: string
  ms_blocks :: "(nat \<times> message_block) list"
  ms_toolJson :: "(nat \<times> string) list"
  ms_signatures :: "(nat \<times> string) list"
  ms_stopReason :: "string option"
  ms_usage :: "(string \<times> json) list"
  ms_failed :: "(string \<times> string) option"

definition empty_message :: message_state where
  "empty_message =
     \<lparr>ms_id = ''msg_unknown'', ms_model = ''unknown'', ms_blocks = [], ms_toolJson = [], ms_signatures = [],
      ms_stopReason = None, ms_usage = [], ms_failed = None\<rparr>"

text \<open>A block as \<open>contentBlock\<close> starts it; the encoder has refused a tool call without id and name before.\<close>

definition object_of :: "protocol_error + json \<Rightarrow> message_block" where
  "object_of r = (case r of Inr (JObj kvs) \<Rightarrow> kvs | _ \<Rightarrow> [])"

definition has_type :: "string \<Rightarrow> message_block \<Rightarrow> bool" where
  "has_type ty block \<longleftrightarrow> map_of block ''type'' = Some (JStr ty)"

definition append_field :: "string \<Rightarrow> string \<Rightarrow> string \<Rightarrow> message_block \<Rightarrow> message_block" where
  "append_field ty key s block =
     (if has_type ty block
      then (case map_of block key of Some (JStr t) \<Rightarrow> AList.update key (JStr (t @ s)) block | _ \<Rightarrow> block)
      else block)"

definition set_signature :: "string \<Rightarrow> message_block \<Rightarrow> message_block" where
  "set_signature sig block = (if has_type ''thinking'' block then AList.update ''signature'' (JStr sig) block else block)"

definition on_block :: "nat \<Rightarrow> (message_block \<Rightarrow> message_block) \<Rightarrow> (nat \<times> message_block) list \<Rightarrow> (nat \<times> message_block) list" where
  "on_block index f bs = (case map_of bs index of None \<Rightarrow> bs | Some b \<Rightarrow> AList.update index (f b) bs)"

definition merge_usage :: "(string \<times> json) list \<Rightarrow> (string \<times> json) list \<Rightarrow> (string \<times> json) list" where
  "merge_usage old new = foldl (\<lambda>u (k, v). AList.update k v u) old new"

definition aggregate_event :: "message_state \<Rightarrow> canonical_event \<Rightarrow> message_state" where
  "aggregate_event st item =
     (case item of
        Response_started b responseId \<Rightarrow> st\<lparr>ms_id := responseId, ms_model := ev_modelId b\<rparr>
      | Content_started _ index ty i nm _ \<Rightarrow> st\<lparr>ms_blocks := AList.update index (object_of (wire_block ty i nm)) (ms_blocks st)\<rparr>
      | Text_delta _ index s \<Rightarrow> st\<lparr>ms_blocks := on_block index (append_field ''text'' ''text'' s) (ms_blocks st)\<rparr>
      | Reasoning_delta _ index s \<Rightarrow> st\<lparr>ms_blocks := on_block index (append_field ''thinking'' ''thinking'' s) (ms_blocks st)\<rparr>
      | Signature_delta _ index sig \<Rightarrow> st\<lparr>ms_signatures := AList.update index sig (ms_signatures st)\<rparr>
      | Tool_arguments_delta _ index _ partial \<Rightarrow>
          st\<lparr>ms_toolJson := AList.update index (get_or [] (map_of (ms_toolJson st) index) @ partial) (ms_toolJson st)\<rparr>
      | Content_completed _ _ \<Rightarrow> st
      | Usage_updated _ i out \<Rightarrow>
          st\<lparr>ms_usage := merge_usage (ms_usage st) (opt_field ''input_tokens'' jnat i @ opt_field ''output_tokens'' jnat out)\<rparr>
      | Response_completed _ stopReason \<Rightarrow> st\<lparr>ms_stopReason := Some stopReason\<rparr>
      | Response_failed _ code message \<Rightarrow> st\<lparr>ms_failed := or_else (ms_failed st) (Some (code, message))\<rparr>
      | Fidelity_artifacts _ _ \<Rightarrow> st)"

fun fill_tools ::
  "(string \<Rightarrow> json option) \<Rightarrow> (nat \<times> string) list \<Rightarrow> (nat \<times> message_block) list \<Rightarrow> protocol_error + (nat \<times> message_block) list" where
  "fill_tools json_parse [] bs = Inr bs"
| "fill_tools json_parse ((index, s) # rest) bs =
     (case map_of bs index of
        None \<Rightarrow> fill_tools json_parse rest bs
      | Some b \<Rightarrow>
          (case json_parse s of
             None \<Rightarrow> Inl (Protocol_error ''invalid_tool_arguments'' ''Tool argument deltas are not valid JSON'' 502)
           | Some j \<Rightarrow> fill_tools json_parse rest (AList.update index (AList.update ''input'' j b) bs)))"

definition finish_message ::
  "(string \<Rightarrow> json option) \<Rightarrow> message_state \<Rightarrow> protocol_error + (nat \<times> message_block) list" where
  "finish_message json_parse st =
     (case ms_failed st of
        Some (code, message) \<Rightarrow> Inl (Protocol_error code message 502)
      | None \<Rightarrow>
          bind_ok (fill_tools json_parse (ms_toolJson st) (ms_blocks st)) (\<lambda>bs.
            Inr (sort_key fst (foldl (\<lambda>bs (index, sig). on_block index (set_signature sig) bs) bs (ms_signatures st)))))"

record aggregated_message =
  am_id :: string
  am_model :: string
  am_content :: "message_block list"
  am_stopReason :: "string option"
  am_usage :: "(string \<times> json) list"

definition message_result :: "(string \<Rightarrow> json option) \<Rightarrow> message_state \<Rightarrow> protocol_error + aggregated_message" where
  "message_result json_parse st =
     bind_ok (finish_message json_parse st) (\<lambda>content.
       Inr \<lparr>am_id = ms_id st, am_model = ms_model st, am_content = map snd content,
            am_stopReason = ms_stopReason st, am_usage = ms_usage st\<rparr>)"

definition aggregateAnthropicEvents ::
  "(string \<Rightarrow> json option) \<Rightarrow> canonical_event list \<Rightarrow> protocol_error + aggregated_message" where
  "aggregateAnthropicEvents json_parse events =
     bind_ok (encodeAnthropicEvents events True) (\<lambda>_.
       message_result json_parse (foldl aggregate_event empty_message events))"


section \<open>Which streams are encoded\<close>

text \<open>The type of the block that is open at an index after some events, from the last start or completion there.\<close>

fun touches :: "nat \<Rightarrow> canonical_event \<Rightarrow> bool" where
  "touches i (Content_started _ j _ _ _ _) \<longleftrightarrow> i = j"
| "touches i (Content_completed _ j) \<longleftrightarrow> i = j"
| "touches i _ \<longleftrightarrow> False"

fun started_type :: "canonical_event \<Rightarrow> content_type option" where
  "started_type (Content_started _ _ ty _ _ _) = Some ty"
| "started_type _ = None"

definition open_at :: "canonical_event list \<Rightarrow> nat \<Rightarrow> content_type option" where
  "open_at events i = (case filter (touches i) (rev events) of [] \<Rightarrow> None | e # _ \<Rightarrow> started_type e)"

fun item_ok :: "(nat \<Rightarrow> content_type option) \<Rightarrow> canonical_event \<Rightarrow> bool" where
  "item_ok opened (Content_started _ _ ty i nm _) \<longleftrightarrow>
     (ty = Tool_call_content \<longrightarrow> non_empty i \<noteq> None \<and> non_empty nm \<noteq> None)"
| "item_ok opened (Signature_delta _ i _) \<longleftrightarrow> opened i = Some Reasoning_content"
| "item_ok opened (Content_completed _ i) \<longleftrightarrow> opened i \<noteq> None"
| "item_ok opened _ \<longleftrightarrow> True"

definition same_request :: "canonical_event list \<Rightarrow> bool" where
  "same_request events \<longleftrightarrow>
     (case events of
        [] \<Rightarrow> True
      | e # rest \<Rightarrow> ev_requestId (event_head e) = []
          \<or> list_all (\<lambda>x. ev_requestId (event_head x) = ev_requestId (event_head e)) rest)"

definition sequence_of :: "canonical_event \<Rightarrow> nat" where
  "sequence_of e = ev_sequence (event_head e)"

definition items_ok :: "canonical_event list \<Rightarrow> bool" where
  "items_ok events \<longleftrightarrow> (\<forall>k \<in> set [0..<length events]. item_ok (open_at (take k events)) (events ! k))"

text \<open>What the events have to satisfy, and the frames of one event; these depend on the event alone.\<close>

definition stream_ok :: "canonical_event list \<Rightarrow> bool" where
  "stream_ok events \<longleftrightarrow> sorted_wrt (<) (map sequence_of events) \<and> same_request events \<and> items_ok events"

definition event_frames :: "canonical_event \<Rightarrow> wire_event list" where
  "event_frames e = (case encode_body [(event_index e, Reasoning_content)] e of Inr (frames, _) \<Rightarrow> frames | Inl _ \<Rightarrow> [])"

fun apply_open :: "(nat \<times> content_type) list \<Rightarrow> canonical_event \<Rightarrow> (nat \<times> content_type) list" where
  "apply_open opened (Content_started _ i ty _ _ _) = AList.update i ty opened"
| "apply_open opened (Content_completed _ i) = AList.delete i opened"
| "apply_open opened _ = opened"

lemma open_at_snoc:
  "open_at (events @ [e]) = (\<lambda>i. if touches i e then started_type e else open_at events i)"
  by (rule ext) (simp add: open_at_def)

lemma open_at_Nil: "open_at [] = Map.empty"
  by (rule ext) (simp add: open_at_def)

lemma map_of_open: "map_of (foldl apply_open [] events) = open_at events"
proof (induction events rule: rev_induct)
  case (snoc e events)
  then show ?case by (cases e) (auto simp: open_at_snoc update_conv' delete_conv')
qed (simp add: open_at_Nil)

lemma encode_body_iff:
  "encode_body opened e = Inr (frames, opened') \<longleftrightarrow>
     item_ok (map_of opened) e \<and> frames = event_frames e \<and> opened' = apply_open opened e"
  by (cases e) (auto simp: encode_body_def event_frames_def wire_block_def non_empty_def
      split: content_type.splits option.splits if_splits)

lemma items_ok_snoc: "items_ok (events @ [e]) \<longleftrightarrow> items_ok events \<and> item_ok (open_at events) e"
  by (auto simp: items_ok_def nth_append less_Suc_eq)

lemma sorted_sequence_snoc:
  "sorted_wrt (<) (map sequence_of events @ [sequence_of e]) \<longleftrightarrow>
     sorted_wrt (<) (map sequence_of events) \<and> (events = [] \<or> sequence_of (last events) < sequence_of e)"
  by (cases events rule: rev_cases) (auto simp: sorted_wrt_append dest: order.strict_trans)

lemma same_request_snoc:
  "same_request (events @ [e]) \<longleftrightarrow> same_request events \<and>
     (events = [] \<or> ev_requestId (event_head (hd events)) = [] \<or> ev_requestId (event_head e) = ev_requestId (event_head (hd events)))"
  by (cases events) (auto simp: same_request_def)

lemma push_all_snoc:
  "push_all ctx (events @ [e]) =
     bind_ok (push_all ctx events) (\<lambda>(frames, ctx').
     bind_ok (encodeAnthropicEvent ctx' e) (\<lambda>(rest, ctx''). Inr (frames @ rest, ctx'')))"
proof (induction events arbitrary: ctx)
  case Nil
  then show ?case by (simp add: bind_ok_def split: sum.splits)
next
  case (Cons x xs)
  then show ?case by (auto simp: bind_ok_def split: sum.splits)
qed

definition context_of :: "canonical_event list \<Rightarrow> encode_context" where
  "context_of events =
     \<lparr>ec_lastSequence = (if events = [] then -1 else int (sequence_of (last events))),
      ec_requestId = (if events = [] then None else Some (ev_requestId (event_head (hd events)))),
      ec_open = foldl apply_open [] events\<rparr>"

lemma context_of_fields [simp]:
  "ec_lastSequence (context_of events) = (if events = [] then -1 else int (sequence_of (last events)))"
  "ec_requestId (context_of events) = (if events = [] then None else Some (ev_requestId (event_head (hd events))))"
  "ec_open (context_of events) = foldl apply_open [] events"
  by (simp_all add: context_of_def)

lemma context_of_snoc:
  "context_of (events @ [e]) =
     \<lparr>ec_lastSequence = int (sequence_of e),
      ec_requestId = Some (ev_requestId (event_head (if events = [] then e else hd events))),
      ec_open = apply_open (foldl apply_open [] events) e\<rparr>"
  by (simp add: context_of_def)

lemma push_all_iff:
  "push_all createContext events = Inr (frames, ctx) \<longleftrightarrow>
     stream_ok events \<and> frames = concat (map event_frames events) \<and> ctx = context_of events"
proof (induction events arbitrary: frames ctx rule: rev_induct)
  case Nil
  then show ?case
    by (auto simp: stream_ok_def same_request_def items_ok_def context_of_def createContext_def)
next
  case (snoc e events)
  have step: "encodeAnthropicEvent (context_of events) e = Inr (rest, ctx') \<longleftrightarrow>
      (events = [] \<or> sequence_of (last events) < sequence_of e)
      \<and> (events = [] \<or> ev_requestId (event_head (hd events)) = []
         \<or> ev_requestId (event_head e) = ev_requestId (event_head (hd events)))
      \<and> item_ok (open_at events) e \<and> rest = event_frames e \<and> ctx' = context_of (events @ [e])" for rest ctx'
    by (auto simp: encodeAnthropicEvent_def guard_event_def encode_body_iff bind_ok_Inr_iff context_of_snoc non_empty_def
        sequence_of_def map_of_open split: if_splits)
  show ?case
    by (auto simp: push_all_snoc bind_ok_Inr_iff snoc.IH step stream_ok_def items_ok_snoc same_request_snoc
        sorted_sequence_snoc)
qed

lemma encoder_accepts:
  "encodeAnthropicEvents events final = Inr frames \<longleftrightarrow>
     stream_ok events \<and> (if final then open_at events = Map.empty else True) \<and> frames = concat (map event_frames events)"
  by (auto simp: encodeAnthropicEvents_def bind_ok_Inr_iff push_all_iff assertClosed_def context_of_def simp flip: map_of_open)

text \<open>C30: which canonical streams the Anthropic encoder accepts, and what it writes. It accepts exactly the streams with
  strictly growing sequence numbers and one request id (unless the first one is empty), whose tool calls have an id and
  a name, whose completions and signatures meet an open block, a thinking one for a signature, and, for a finished
  stream, that leave no block open; and what it writes is the concatenation of the frames of the single events.\<close>

theorem encoder_accepts_exactly:
  "encodeAnthropicEvents events final = Inr frames \<longleftrightarrow>
     stream_ok events \<and> (if final then open_at events = Map.empty else True) \<and> frames = concat (map event_frames events)"
  by (rule encoder_accepts)


section \<open>A client of the stream\<close>

text \<open>
  What a client makes of the frames, as the Messages API describes it: the message starts with its
  own usage; a block starts with its content and no argument text; text and thinking deltas
  append to blocks of their type; a signature is set on a thinking block; the argument text of a
  tool call, when there is any, is parsed at the end.
\<close>

definition get_str :: "string \<Rightarrow> json \<Rightarrow> string" where
  "get_str key j = (case json_field j key of Some (JStr s) \<Rightarrow> s | _ \<Rightarrow> [])"

definition get_obj :: "string \<Rightarrow> json \<Rightarrow> (string \<times> json) list" where
  "get_obj key j = (case json_field j key of Some (JObj kvs) \<Rightarrow> kvs | _ \<Rightarrow> [])"

definition get_nat :: "string \<Rightarrow> json \<Rightarrow> nat" where
  "get_nat key j = (case json_field j key of Some (JNum n) \<Rightarrow> nat \<lfloor>n\<rfloor> | _ \<Rightarrow> 0)"

definition client_delta :: "message_state \<Rightarrow> nat \<Rightarrow> json \<Rightarrow> message_state" where
  "client_delta st index delta =
     (let ty = get_str ''type'' delta
      in if ty = ''text_delta''
         then st\<lparr>ms_blocks := on_block index (append_field ''text'' ''text'' (get_str ''text'' delta)) (ms_blocks st)\<rparr>
         else if ty = ''thinking_delta''
         then st\<lparr>ms_blocks := on_block index (append_field ''thinking'' ''thinking'' (get_str ''thinking'' delta)) (ms_blocks st)\<rparr>
         else if ty = ''signature_delta''
         then st\<lparr>ms_blocks := on_block index (set_signature (get_str ''signature'' delta)) (ms_blocks st)\<rparr>
         else if ty = ''input_json_delta''
         then st\<lparr>ms_toolJson := AList.update index (get_or [] (map_of (ms_toolJson st) index) @ get_str ''partial_json'' delta)
                                   (ms_toolJson st)\<rparr>
         else st)"

definition client_frame :: "message_state \<Rightarrow> wire_event \<Rightarrow> message_state" where
  "client_frame st frame =
     (let nm = fst frame; d = snd frame
      in if nm = ''message_start''
         then let m = JObj (get_obj ''message'' d)
              in empty_message\<lparr>ms_id := get_str ''id'' m, ms_model := get_str ''model'' m, ms_usage := get_obj ''usage'' m\<rparr>
         else if nm = ''content_block_start''
         then st\<lparr>ms_blocks := AList.update (get_nat ''index'' d) (get_obj ''content_block'' d) (ms_blocks st),
                 ms_toolJson := AList.delete (get_nat ''index'' d) (ms_toolJson st)\<rparr>
         else if nm = ''content_block_delta'' then client_delta st (get_nat ''index'' d) (JObj (get_obj ''delta'' d))
         else if nm = ''message_delta''
         then st\<lparr>ms_stopReason := (case json_field (JObj (get_obj ''delta'' d)) ''stop_reason'' of
                                     Some (JStr s) \<Rightarrow> Some s | _ \<Rightarrow> ms_stopReason st),
                 ms_usage := merge_usage (ms_usage st) (get_obj ''usage'' d)\<rparr>
         else if nm = ''error''
         then st\<lparr>ms_failed := or_else (ms_failed st)
                   (Some (get_str ''type'' (JObj (get_obj ''error'' d)), get_str ''message'' (JObj (get_obj ''error'' d))))\<rparr>
         else st)"

definition client_message :: "(string \<Rightarrow> json option) \<Rightarrow> wire_event list \<Rightarrow> protocol_error + aggregated_message" where
  "client_message json_parse frames =
     (let st = foldl client_frame empty_message frames
      in message_result json_parse (st\<lparr>ms_toolJson := filter (\<lambda>(_, s). s \<noteq> []) (ms_toolJson st)\<rparr>))"

text \<open>The streams the providers make: one start, a block starts before anything else of its index, no empty arguments.\<close>

fun concerns :: "nat \<Rightarrow> canonical_event \<Rightarrow> bool" where
  "concerns i (Content_started _ j _ _ _ _) \<longleftrightarrow> i = j"
| "concerns i (Text_delta _ j _) \<longleftrightarrow> i = j"
| "concerns i (Reasoning_delta _ j _) \<longleftrightarrow> i = j"
| "concerns i (Signature_delta _ j _) \<longleftrightarrow> i = j"
| "concerns i (Tool_arguments_delta _ j _ _) \<longleftrightarrow> i = j"
| "concerns i (Content_completed _ j) \<longleftrightarrow> i = j"
| "concerns i _ \<longleftrightarrow> False"

fun in_order :: "canonical_event list \<Rightarrow> canonical_event \<Rightarrow> bool" where
  "in_order before (Content_started _ i _ _ _ _) \<longleftrightarrow> list_all (\<lambda>e. \<not> concerns i e) before"
| "in_order before (Tool_arguments_delta _ _ _ partial) \<longleftrightarrow> partial \<noteq> []"
| "in_order before (Response_started _ _) \<longleftrightarrow> False"
| "in_order before _ \<longleftrightarrow> True"

fun provider_stream :: "canonical_event list \<Rightarrow> bool" where
  "provider_stream (Response_started _ _ # rest) \<longleftrightarrow>
     list_all (\<lambda>k. in_order (take k rest) (rest ! k)) [0..<length rest]"
| "provider_stream _ \<longleftrightarrow> False"

lemma get_simps [simp]:
  "get_str key (JObj kvs) = (case map_of kvs key of Some (JStr s) \<Rightarrow> s | _ \<Rightarrow> [])"
  "get_obj key (JObj kvs) = (case map_of kvs key of Some (JObj s) \<Rightarrow> s | _ \<Rightarrow> [])"
  "get_nat key (JObj kvs) = (case map_of kvs key of Some (JNum n) \<Rightarrow> nat \<lfloor>n\<rfloor> | _ \<Rightarrow> 0)"
  by (simp_all add: get_str_def get_obj_def get_nat_def)

lemma jnat_floor [simp]: "nat \<lfloor>of_nat n :: rat\<rfloor> = n"
  by (metis floor_of_nat nat_int)

text \<open>One event, for the client.\<close>

definition client_event :: "message_state \<Rightarrow> canonical_event \<Rightarrow> message_state" where
  "client_event st item =
     (case item of
        Content_started _ index ty i nm _ \<Rightarrow>
          st\<lparr>ms_blocks := AList.update index (object_of (wire_block ty i nm)) (ms_blocks st),
             ms_toolJson := AList.delete index (ms_toolJson st)\<rparr>
      | Signature_delta _ index sig \<Rightarrow> st\<lparr>ms_blocks := on_block index (set_signature sig) (ms_blocks st)\<rparr>
      | _ \<Rightarrow> aggregate_event st item)"

lemma client_event_frames:
  assumes "item_ok opened e" and "in_order before e"
  shows "foldl client_frame st (event_frames e) = client_event st e"
  using assms
  by (cases e)
    (auto simp: event_frames_def encode_body_def client_frame_def client_event_def aggregate_event_def delta_frame_def typed_def
      client_delta_def jnat_def wire_block_def object_of_def merge_usage_def Let_def non_empty_def opt_field_def
      split: content_type.splits option.splits if_splits)


section \<open>Streamed and aggregated messages\<close>

definition signed :: "(nat \<times> string) list \<Rightarrow> nat \<Rightarrow> message_block \<Rightarrow> string \<rightharpoonup> json" where
  "signed sigs i block =
     (case map_of sigs i of
        Some sig \<Rightarrow> if has_type ''thinking'' block then (map_of block)(''signature'' \<mapsto> JStr sig) else map_of block
      | None \<Rightarrow> map_of block)"

definition same_blocks :: "(nat \<times> string) list \<Rightarrow> (nat \<times> message_block) list \<Rightarrow> (nat \<times> message_block) list \<Rightarrow> bool" where
  "same_blocks sigs as cs \<longleftrightarrow> map fst as = map fst cs
     \<and> (\<forall>i. map_option map_of (map_of cs i) = map_option (signed sigs i) (map_of as i))"

definition same_message :: "message_state \<Rightarrow> message_state \<Rightarrow> bool" where
  "same_message a c \<longleftrightarrow> ms_id a = ms_id c \<and> ms_model a = ms_model c \<and> ms_stopReason a = ms_stopReason c
     \<and> ms_failed a = ms_failed c \<and> ms_toolJson a = ms_toolJson c
     \<and> (\<forall>k. get_or (jnat 0) (map_of (ms_usage a) k) = get_or (jnat 0) (map_of (ms_usage c) k))
     \<and> same_blocks (ms_signatures a) (ms_blocks a) (ms_blocks c) \<and> ms_signatures c = []
     \<and> distinct (map fst (ms_signatures a)) \<and> distinct (map fst (ms_blocks a))"

lemma map_of_update [simp]: "map_of (AList.update k v al) = (map_of al)(k \<mapsto> v)"
  by (rule update_conv')

lemma has_type_map: "has_type ty block = (map_of block ''type'' = Some (JStr ty))"
  by (simp add: has_type_def)

lemma on_block_keys [simp]: "map fst (on_block i f bs) = map fst bs"
  by (auto simp: on_block_def update_keys split: option.splits dest: map_of_SomeD) (metis map_of_eq_None_iff option.simps(3))

lemma map_of_on_block: "map_of (on_block i f bs) j = (if j = i then map_option f (map_of bs j) else map_of bs j)"
  by (auto simp: on_block_def split: option.splits)

text \<open>Operations on blocks that respect the map a block stands for.\<close>

lemma signed_cong:
  "map_of c = signed sigs i a \<Longrightarrow> has_type ty c = has_type ty a"
  by (auto simp: signed_def has_type_map split: option.splits if_splits)

lemma append_field_signed:
  assumes "map_of c = signed sigs i a" and "key \<noteq> ''signature''" "key \<noteq> ''type''"
  shows "map_of (append_field ty key s c) = signed sigs i (append_field ty key s a)"
proof -
  have "map_of c key = map_of a key" "map_of c ''type'' = map_of a ''type''"
    using assms by (auto simp: signed_def split: option.splits if_splits)
  then show ?thesis
    using assms by (auto simp: append_field_def signed_def has_type_map fun_upd_twist split: option.splits json.splits if_splits)
qed

lemma same_blocks_on:
  assumes "same_blocks sigs as cs"
    and "\<And>a c. map_of as i = Some a \<Longrightarrow> map_of cs i = Some c \<Longrightarrow> map_of c = signed sigs i a \<Longrightarrow> map_of (f c) = signed sigs i (g a)"
  shows "same_blocks sigs (on_block i g as) (on_block i f cs)"
  unfolding same_blocks_def
proof (intro conjI allI)
  show "map fst (on_block i g as) = map fst (on_block i f cs)" using assms(1) by (simp add: same_blocks_def)
  fix j
  have "map_option map_of (map_of cs j) = map_option (signed sigs j) (map_of as j)"
    using assms(1) by (simp add: same_blocks_def)
  then show "map_option map_of (map_of (on_block i f cs) j) = map_option (signed sigs j) (map_of (on_block i g as) j)"
    using assms(2) by (cases "map_of cs j"; cases "map_of as j"; cases "j = i") (auto simp: map_of_on_block)
qed

lemma same_blocks_start:
  assumes "same_blocks sigs as cs" and "map_of sigs i = None"
  shows "same_blocks sigs (AList.update i b as) (AList.update i b cs)"
  using assms by (auto simp: same_blocks_def update_keys signed_def)

lemma same_blocks_sign:
  assumes "same_blocks sigs as cs"
  shows "same_blocks (AList.update i sig sigs) as (on_block i (set_signature sig) cs)"
proof -
  have other: "signed (AList.update i sig sigs) j b = signed sigs j b" if "j \<noteq> i" for j b
    using that by (simp add: signed_def)
  have own: "map_of (set_signature sig c) = signed (AList.update i sig sigs) i a" if "map_of c = signed sigs i a" for a c
    using that signed_cong [OF that, of "''thinking''"]
    by (auto simp: set_signature_def signed_def split: option.splits if_splits)
  show ?thesis
    unfolding same_blocks_def
  proof (intro conjI allI)
    show "map fst as = map fst (on_block i (set_signature sig) cs)" using assms by (simp add: same_blocks_def)
    fix j
    have same: "map_option map_of (map_of cs j) = map_option (signed sigs j) (map_of as j)"
      using assms by (simp add: same_blocks_def)
    show "map_option map_of (map_of (on_block i (set_signature sig) cs) j)
        = map_option (signed (AList.update i sig sigs) j) (map_of as j)"
      using same other [of j] own
      by (cases "map_of cs j"; cases "map_of as j"; cases "j = i") (auto simp: map_of_on_block)
  qed
qed


lemma same_event:
  assumes "same_message a c" and "in_order before e"
    and "\<And>b i ty x y z. e = Content_started b i ty x y z \<Longrightarrow> map_of (ms_signatures a) i = None \<and> map_of (ms_toolJson a) i = None"
  shows "same_message (aggregate_event a e) (client_event c e)"
proof (cases e)
  case (Content_started b i ty x y z)
  then have fresh: "map_of (ms_signatures a) i = None" "map_of (ms_toolJson a) i = None" using assms(3) by blast+
  then have "AList.delete i (ms_toolJson c) = ms_toolJson c"
    using assms(1) by (auto simp: same_message_def map_of_eq_None_iff intro: delete_id)
  then show ?thesis
    using assms(1) Content_started same_blocks_start fresh(1)
    by (auto simp: same_message_def client_event_def aggregate_event_def distinct_update)
next
  case (Text_delta b i s)
  then show ?thesis
    using assms(1) by (auto simp: same_message_def client_event_def aggregate_event_def
        intro!: same_blocks_on append_field_signed)
next
  case (Reasoning_delta b i s)
  then show ?thesis
    using assms(1) by (auto simp: same_message_def client_event_def aggregate_event_def
        intro!: same_blocks_on append_field_signed)
next
  case (Signature_delta b i sig)
  then show ?thesis
    using assms(1) by (auto simp: same_message_def client_event_def aggregate_event_def intro!: same_blocks_sign distinct_update)
next
  case (Usage_updated b i out)
  then show ?thesis
    using assms(1) by (auto simp: same_message_def client_event_def aggregate_event_def merge_usage_def opt_field_def
        split: option.splits)
qed (use assms in \<open>auto simp: same_message_def client_event_def aggregate_event_def\<close>)

lemma pending_fresh:
  assumes "list_all (\<lambda>e. \<not> concerns i e) events"
  shows "map_of (ms_signatures (foldl aggregate_event (empty_message\<lparr>ms_id := x, ms_model := y\<rparr>) events)) i = None
    \<and> map_of (ms_toolJson (foldl aggregate_event (empty_message\<lparr>ms_id := x, ms_model := y\<rparr>) events)) i = None"
  using assms
proof (induction events rule: rev_induct)
  case Nil
  then show ?case by (simp add: empty_message_def)
next
  case (snoc e events)
  then show ?case by (cases e) (auto simp: aggregate_event_def)
qed

lemma update_is_on_block: "map_of bs i = Some b \<Longrightarrow> AList.update i (f b) bs = on_block i f bs"
  by (simp add: on_block_def)

lemma same_fill:
  assumes "same_blocks sigs as cs" and "distinct (map fst as)"
  shows "(case (fill_tools json_parse tj as, fill_tools json_parse tj cs) of
            (Inl e, Inl e') \<Rightarrow> e = e'
          | (Inr as', Inr cs') \<Rightarrow> same_blocks sigs as' cs' \<and> distinct (map fst as')
          | _ \<Rightarrow> False)"
  using assms
proof (induction tj arbitrary: as cs)
  case (Cons x tj)
  obtain i s where x: "x = (i, s)" by force
  have eq: "map_option map_of (map_of cs i) = map_option (signed sigs i) (map_of as i)"
    using Cons.prems(1) by (simp add: same_blocks_def)
  show ?case
  proof (cases "map_of as i")
    case None
    then show ?thesis using x eq Cons by simp
  next
    case (Some a)
    then obtain c where c: "map_of cs i = Some c" using eq by (cases "map_of cs i") auto
    show ?thesis
    proof (cases "json_parse s")
      case None
      then show ?thesis using x Some c by simp
    next
      case (Some j)
      have "map_of (AList.update ''input'' j c') = signed sigs i (AList.update ''input'' j a')"
        if "map_of c' = signed sigs i a'" for a' c'
        using that by (auto simp: signed_def has_type_map fun_upd_twist split: option.splits)
      then have "same_blocks sigs (on_block i (AList.update ''input'' j) as) (on_block i (AList.update ''input'' j) cs)"
        by (intro same_blocks_on [OF Cons.prems(1)])
      then show ?thesis
        using Cons.IH [of "on_block i (AList.update ''input'' j) as" "on_block i (AList.update ''input'' j) cs"]
          x \<open>map_of as i = Some a\<close> c Some Cons.prems(2) by (simp add: update_is_on_block)
    qed
  qed
qed simp

lemma sign_all:
  assumes "distinct (map fst sigs)"
  shows "map fst (foldl (\<lambda>bs (i, sig). on_block i (set_signature sig) bs) as sigs) = map fst as"
    and "map_of (foldl (\<lambda>bs (i, sig). on_block i (set_signature sig) bs) as sigs) j =
      map_option (\<lambda>b. case map_of sigs j of None \<Rightarrow> b | Some sig \<Rightarrow> set_signature sig b) (map_of as j)"
proof -
  show "map fst (foldl (\<lambda>bs (i, sig). on_block i (set_signature sig) bs) as sigs) = map fst as"
    by (induction sigs arbitrary: as) (auto split: prod.splits)
  show "map_of (foldl (\<lambda>bs (i, sig). on_block i (set_signature sig) bs) as sigs) j =
      map_option (\<lambda>b. case map_of sigs j of None \<Rightarrow> b | Some sig \<Rightarrow> set_signature sig b) (map_of as j)"
    using assms
  proof (induction sigs arbitrary: as)
    case Nil
    then show ?case by (simp add: option.map_ident)
  next
    case (Cons x sigs)
    obtain i sig where x: "x = (i, sig)" by force
    have "map_of sigs i = None" using Cons.prems x by (auto simp: map_of_eq_None_iff)
    then show ?case
      using Cons.IH [of "on_block i (set_signature sig) as"] Cons.prems x
      by (cases "map_of as j") (auto simp: map_of_on_block)
  qed
qed

lemma sorted_entries:
  fixes bs :: "(nat \<times> message_block) list"
  assumes "distinct (map fst bs)"
  shows "map snd (sort_key fst bs) = map (\<lambda>k. the (map_of bs k)) (sort (map fst bs))"
proof -
  have "map fst (sort_key fst bs) = sort (map fst bs)"
    using assms by (intro sorted_distinct_set_unique) (simp_all add: distinct_map)
  moreover have "map snd (sort_key fst bs) = map (\<lambda>k. the (map_of bs k)) (map fst (sort_key fst bs))"
    using assms by (auto simp: comp_def intro!: map_cong)
  ultimately show ?thesis by simp
qed

definition same_result :: "protocol_error + aggregated_message \<Rightarrow> protocol_error + aggregated_message \<Rightarrow> bool" where
  "same_result ra rc \<longleftrightarrow>
     (case (ra, rc) of
        (Inl e, Inl e') \<Rightarrow> e = e'
      | (Inr a, Inr c) \<Rightarrow> am_id a = am_id c \<and> am_model a = am_model c \<and> am_stopReason a = am_stopReason c
          \<and> map map_of (am_content a) = map map_of (am_content c)
          \<and> (\<forall>k. get_or (jnat 0) (map_of (am_usage a) k) = get_or (jnat 0) (map_of (am_usage c) k))
      | _ \<Rightarrow> False)"

lemma same_message_result:
  assumes "same_message a c"
  shows "same_result (message_result json_parse a) (message_result json_parse c)"
proof (cases "ms_failed a")
  case (Some e)
  then have "ms_failed c = Some e" using assms by (simp add: same_message_def)
  then show ?thesis
    using Some by (cases e) (simp add: same_result_def message_result_def finish_message_def)
next
  case None
  have blocks: "same_blocks (ms_signatures a) (ms_blocks a) (ms_blocks c)" "distinct (map fst (ms_blocks a))"
    and other: "ms_failed c = None" "ms_toolJson c = ms_toolJson a" "ms_signatures c = []" "distinct (map fst (ms_signatures a))"
    using assms None by (auto simp: same_message_def)
  show ?thesis
  proof (cases "fill_tools json_parse (ms_toolJson a) (ms_blocks a)")
    case (Inl e)
    then show ?thesis
      using same_fill [OF blocks, of json_parse "ms_toolJson a"] None other
      by (auto simp: same_result_def message_result_def finish_message_def split: sum.splits)
  next
    case (Inr as)
    then obtain cs where cs: "fill_tools json_parse (ms_toolJson a) (ms_blocks c) = Inr cs"
        "same_blocks (ms_signatures a) as cs" "distinct (map fst as)"
      using same_fill [OF blocks, of json_parse "ms_toolJson a"] by (auto split: sum.splits)
    let ?as = "foldl (\<lambda>bs (i, sig). on_block i (set_signature sig) bs) as (ms_signatures a)"
    have keys: "map fst ?as = map fst as" "map fst as = map fst cs"
      using sign_all(1) [OF other(4)] cs(2) by (auto simp: same_blocks_def)
    have entry: "map_option map_of (map_of ?as k) = map_option map_of (map_of cs k)" for k
    proof -
      have "map_option map_of (map_of cs k) = map_option (signed (ms_signatures a) k) (map_of as k)"
        using cs(2) by (simp add: same_blocks_def)
      then show ?thesis
        by (cases "map_of as k") (auto simp: sign_all(2) [OF other(4)] signed_def set_signature_def split: option.splits)
    qed
    have "map_of (the (map_of ?as k)) = map_of (the (map_of cs k))" if "k \<in> set (map fst cs)" for k
    proof -
      have "map_of cs k \<noteq> None" using that by (simp add: map_of_eq_None_iff)
      then show ?thesis using entry [of k] by (cases "map_of cs k"; cases "map_of ?as k") auto
    qed
    then have "map map_of (map snd (sort_key fst ?as)) = map map_of (map snd (sort_key fst cs))"
      using sorted_entries [of ?as] sorted_entries [of cs] keys cs(3) by simp
    then show ?thesis
      using assms None other Inr cs(1)
      by (simp add: same_result_def same_message_def message_result_def finish_message_def)
  qed
qed

lemma set_update_alist: "x \<in> set (AList.update k v al) \<Longrightarrow> x = (k, v) \<or> x \<in> set al"
  by (induction al) (auto split: if_splits)

lemma arguments_stay:
  assumes "in_order before e" and "list_all (\<lambda>(_, s). s \<noteq> []) (ms_toolJson st)"
  shows "list_all (\<lambda>(_, s). s \<noteq> []) (ms_toolJson (aggregate_event st e))"
  using assms by (cases e) (auto simp: aggregate_event_def list_all_iff dest!: set_update_alist)

lemma arguments_not_empty:
  assumes "list_all (\<lambda>k. in_order (take k rest) (rest ! k)) [0..<length rest]"
    and "list_all (\<lambda>(_, s). s \<noteq> []) (ms_toolJson a)"
  shows "list_all (\<lambda>(_, s). s \<noteq> []) (ms_toolJson (foldl aggregate_event a rest))"
  using assms(1)
proof (induction rest rule: rev_induct)
  case (snoc e rest)
  have "in_order rest e" using snoc.prems by (auto simp: list_all_iff nth_append)
  moreover have "list_all (\<lambda>(_, s). s \<noteq> []) (ms_toolJson (foldl aggregate_event a rest))"
    using snoc by (auto simp: list_all_iff nth_append)
  ultimately show ?case using arguments_stay by simp
qed (use assms(2) in simp)

lemma client_run:
  fixes x y :: string
  defines "start \<equiv> empty_message\<lparr>ms_id := x, ms_model := y\<rparr>"
  assumes "list_all (\<lambda>k. in_order (take k rest) (rest ! k)) [0..<length rest]"
    and "\<forall>e \<in> set rest. \<exists>opened. item_ok opened e"
  shows "same_message (foldl aggregate_event start rest)
    (foldl client_frame (start\<lparr>ms_usage := [(''input_tokens'', jnat 0), (''output_tokens'', jnat 0)]\<rparr>)
      (concat (map event_frames rest)))"
  using assms(2,3)
proof (induction rest rule: rev_induct)
  case Nil
  then show ?case by (auto simp: start_def same_message_def same_blocks_def empty_message_def signed_def)
next
  case (snoc e rest)
  have order: "in_order rest e" using snoc.prems(1) by (auto simp: list_all_iff nth_append)
  have IH: "same_message (foldl aggregate_event start rest)
    (foldl client_frame (start\<lparr>ms_usage := [(''input_tokens'', jnat 0), (''output_tokens'', jnat 0)]\<rparr>)
      (concat (map event_frames rest)))"
    using snoc by (auto simp: list_all_iff nth_append)
  obtain opened where "item_ok opened e" using snoc.prems(2) by auto
  moreover have "map_of (ms_signatures (foldl aggregate_event start rest)) i = None
      \<and> map_of (ms_toolJson (foldl aggregate_event start rest)) i = None"
    if "e = Content_started b i ty z u v" for b i ty z u v
    using order that pending_fresh unfolding start_def by simp
  ultimately show ?case
    using same_event [OF IH order] client_event_frames [OF _ order] by simp
qed

text \<open>a streamed answer and an aggregated one are the same message. For every stream of a provider, one start first,
  each block started before anything else is said of its index, no empty piece of tool arguments, that the encoder
  accepts as finished, the message a client puts together from the frames has the id, the model, the stop reason, the
  content blocks in order, field by field, and the token counts of the message the gateway aggregates for a request
  without streaming, and it fails where that one fails, with the same error.\<close>

theorem streamed_message_is_aggregated:
  assumes "provider_stream events" and "encodeAnthropicEvents events True = Inr frames"
  shows "same_result (aggregateAnthropicEvents json_parse events) (client_message json_parse frames)"
proof -
  obtain b r rest where events: "events = Response_started b r # rest"
    and order: "list_all (\<lambda>k. in_order (take k rest) (rest ! k)) [0..<length rest]"
    using assms(1) by (cases events rule: provider_stream.cases) auto
  have ok: "items_ok events" and frames: "frames = concat (map event_frames events)"
    using assms(2) by (auto simp: encoder_accepts stream_ok_def)
  have items: "\<forall>e \<in> set rest. \<exists>opened. item_ok opened e"
  proof
    fix e assume "e \<in> set rest"
    then obtain k where "k < length rest" "rest ! k = e" by (auto simp: in_set_conv_nth)
    then show "\<exists>opened. item_ok opened e"
      using ok [unfolded items_ok_def, THEN bspec, of "Suc k"] by (auto simp: events simp del: upt_Suc)
  qed
  let ?start = "empty_message\<lparr>ms_id := r, ms_model := ev_modelId b\<rparr>"
  let ?a = "foldl aggregate_event ?start rest"
  let ?c = "foldl client_frame (?start\<lparr>ms_usage := [(''input_tokens'', jnat 0), (''output_tokens'', jnat 0)]\<rparr>)
      (concat (map event_frames rest))"
  have same: "same_message ?a ?c" using client_run [OF order items] .
  have "filter (\<lambda>(_, s). s \<noteq> []) (ms_toolJson ?c) = ms_toolJson ?c"
    using arguments_not_empty [OF order, of ?start] same
    by (auto simp: same_message_def empty_message_def list_all_iff intro!: filter_True)
  moreover have "foldl client_frame empty_message frames = ?c"
    by (simp add: frames events event_frames_def encode_body_def client_frame_def typed_def jnat_def empty_message_def)
  moreover have "foldl aggregate_event empty_message events = ?a"
    by (simp add: events aggregate_event_def)
  ultimately show ?thesis
    using same_message_result [OF same] assms(2) by (simp add: aggregateAnthropicEvents_def client_message_def)
qed

text \<open>A stream with a thinking block, its signature, and a tool call whose arguments come in two pieces.\<close>

definition example_base :: "nat \<Rightarrow> event_base" where
  "example_base n =
     \<lparr>ev_requestId = ''r1'', ev_sequence = n, ev_timestamp = Instant 0, ev_providerId = ''p'', ev_modelId = ''m''\<rparr>"

definition example_stream :: "canonical_event list" where
  "example_stream =
     [Response_started (example_base 1) ''msg_1'',
      Content_started (example_base 2) 0 Reasoning_content None None None,
      Reasoning_delta (example_base 3) 0 ''hm'',
      Signature_delta (example_base 4) 0 ''sig'',
      Content_completed (example_base 5) 0,
      Content_started (example_base 6) 1 Tool_call_content (Some ''t1'') (Some ''read'') None,
      Tool_arguments_delta (example_base 7) 1 ''t1'' ''nu'',
      Tool_arguments_delta (example_base 8) 1 ''t1'' ''ll'',
      Content_completed (example_base 9) 1,
      Usage_updated (example_base 10) None (Some 7),
      Response_completed (example_base 11) ''tool_use'']"

definition example_parse :: "string \<Rightarrow> json option" where
  "example_parse s = (if s = ''null'' then Some JNull else None)"

lemma example_accepted:
  "encodeAnthropicEvents example_stream True = Inr (concat (map event_frames example_stream))"
  "provider_stream example_stream"
proof -
  have "open_at example_stream = Map.empty" by (rule ext) (simp add: open_at_def example_stream_def)
  moreover have "stream_ok example_stream" by code_simp
  ultimately show "encodeAnthropicEvents example_stream True = Inr (concat (map event_frames example_stream))"
    by (simp add: encoder_accepts)
  show "provider_stream example_stream" by code_simp
qed


theorem streamed_message_is_aggregated_witness:
  "provider_stream example_stream
   \<and> encodeAnthropicEvents example_stream True = Inr (concat (map event_frames example_stream))
   \<and> same_result (aggregateAnthropicEvents example_parse example_stream)
       (client_message example_parse (concat (map event_frames example_stream)))"
  using streamed_message_is_aggregated [OF example_accepted(2,1), of example_parse] example_accepted by simp

text \<open>Where the two differ, and what the encoder lets through: an empty piece of arguments (\<open>JSON.parse\<close> of nothing
  throws), and a delta on a block that was never started.\<close>

lemma empty_arguments_fail:
  assumes "json_parse [] = None"
  defines "events \<equiv> [Response_started (example_base 1) ''msg_1'',
      Content_started (example_base 2) 0 Tool_call_content (Some ''t1'') (Some ''now'') None,
      Tool_arguments_delta (example_base 3) 0 ''t1'' [],
      Content_completed (example_base 4) 0]"
  shows "aggregateAnthropicEvents json_parse events
      = Inl (Protocol_error ''invalid_tool_arguments'' ''Tool argument deltas are not valid JSON'' 502)"
    and "isl (client_message json_parse (concat (map event_frames events))) = False"
proof -
  have "encodeAnthropicEvents events True = Inr (concat (map event_frames events))"
    by (simp add: encoder_accepts, intro conjI ext) (simp add: events_def, code_simp, simp add: events_def open_at_def)
  then show "aggregateAnthropicEvents json_parse events
      = Inl (Protocol_error ''invalid_tool_arguments'' ''Tool argument deltas are not valid JSON'' 502)"
    by (simp add: aggregateAnthropicEvents_def)
      (simp add: events_def aggregate_event_def message_result_def finish_message_def empty_message_def assms(1))
  show "isl (client_message json_parse (concat (map event_frames events))) = False"
    unfolding events_def
    by (simp add: client_message_def message_result_def finish_message_def event_frames_def encode_body_def client_frame_def
        typed_def jnat_def empty_message_def wire_block_def non_empty_def delta_frame_def client_delta_def)
qed

lemma unopened_delta_is_encoded:
  "encodeAnthropicEvents [Response_started (example_base 1) ''msg_1'', Text_delta (example_base 2) 4 ''lost''] True =
     Inr (concat (map event_frames [Response_started (example_base 1) ''msg_1'', Text_delta (example_base 2) 4 ''lost'']))"
  "am_content (projr (aggregateAnthropicEvents example_parse
      [Response_started (example_base 1) ''msg_1'', Text_delta (example_base 2) 4 ''lost''])) = []"
  by (simp add: encoder_accepts, intro conjI ext, code_simp, simp add: open_at_def, code_simp)

end
