(* ===== verification/Responses_Codec.thy ===== *)
theory Responses_Codec
  imports Anthropic_Codec Provider_Catalog
begin

text \<open>
  The decoder of the Responses protocol: \<^verbatim>\<open>src/protocols/openai-responses/decoder.ts\<close>.

  Of the standard library the decoder uses \<open>JSON.parse\<close> (\<open>None\<close> where it throws), \<open>JSON.stringify\<close>
  and \<open>String\<close> of a value that is no string; they are the fields of an environment, with the id of the
  request. Which fields a refused body names is left out of the error. A \<open>ResponsesProtocolError\<close> is a
  \<open>protocol_error\<close>.
\<close>

record codec_env =
  ce_uuid :: string
  ce_parse :: "string \<Rightarrow> json option"
  ce_text :: "json \<Rightarrow> string"
  ce_show :: "json \<Rightarrow> string"

section \<open>The schemas\<close>

datatype image_url = Url_string string | Url_object string

datatype message_part =
    R_text string
  | R_image "image_url option" "(string \<times> string) option"
  | R_other string json

datatype function_output = Output_string string | Output_array "json list"

datatype input_item =
    R_message string "string + message_part list"
  | R_function_call string string "string option"
  | R_function_output string function_output
  | R_reasoning "string option" "string list option" "string option"

definition TEXT_PARTS :: "string list" where
  "TEXT_PARTS = [''input_text'', ''output_text'', ''text'']"

definition IMAGE_PARTS :: "string list" where
  "IMAGE_PARTS = [''input_image'', ''image_url'']"

definition r_image_url :: "json \<Rightarrow> image_url option" where
  "r_image_url j =
     (case j of JStr s \<Rightarrow> Some (Url_string s) | JObj _ \<Rightarrow> map_option Url_object (r_req j ''url'' r_text) | _ \<Rightarrow> None)"

definition r_inline_source :: "json \<Rightarrow> (string \<times> string) option" where
  "r_inline_source j = do { m \<leftarrow> r_req j ''media_type'' r_text; d \<leftarrow> r_req j ''data'' r_text; Some (m, d) }"

definition imagePart :: "json \<Rightarrow> (image_url option \<times> (string \<times> string) option) option" where
  "imagePart j = do {
     t \<leftarrow> r_req j ''type'' r_str;
     u \<leftarrow> r_opt j ''image_url'' r_image_url;
     s \<leftarrow> r_opt j ''source'' r_inline_source;
     if t \<in> set IMAGE_PARTS then Some (u, s) else None }"

text \<open>The union of a part: a text part, an image part, or any object with a type, kept as it is.\<close>

definition r_part :: "json \<Rightarrow> message_part option" where
  "r_part j = Option.bind (r_req j ''type'' r_str) (\<lambda>t.
     case (if t \<in> set TEXT_PARTS then r_req j ''text'' r_str else None) of
       Some s \<Rightarrow> Some (R_text s)
     | None \<Rightarrow>
         (case imagePart j of
            Some (u, src) \<Rightarrow> Some (R_image u src)
          | None \<Rightarrow> Some (R_other t j)))"

definition r_message_content :: "json \<Rightarrow> (string + message_part list) option" where
  "r_message_content j =
     (case j of JStr s \<Rightarrow> Some (Inl s) | JArr xs \<Rightarrow> map_option Inr (r_all r_part xs) | _ \<Rightarrow> None)"

definition r_output :: "json \<Rightarrow> function_output option" where
  "r_output j = (case j of JStr s \<Rightarrow> Some (Output_string s) | JArr xs \<Rightarrow> Some (Output_array xs) | _ \<Rightarrow> None)"

definition r_summary :: "json \<Rightarrow> string option" where
  "r_summary j = do { t \<leftarrow> r_req j ''type'' r_str; s \<leftarrow> r_req j ''text'' r_str;
     if t = ''summary_text'' then Some s else None }"

definition knownItem :: "json \<Rightarrow> input_item option" where
  "knownItem j = Option.bind (r_req j ''type'' r_str) (\<lambda>t.
     if t = ''message'' then do {
       role \<leftarrow> r_req j ''role'' r_str; content \<leftarrow> r_req j ''content'' r_message_content;
       if role \<in> {''user'', ''assistant'', ''system''} then Some (R_message role content) else None }
     else if t = ''function_call'' then do {
       i \<leftarrow> r_req j ''call_id'' r_text; nm \<leftarrow> r_req j ''name'' r_text; args \<leftarrow> r_opt j ''arguments'' r_str;
       Some (R_function_call i nm args) }
     else if t = ''function_call_output'' then do {
       i \<leftarrow> r_req j ''call_id'' r_text; out \<leftarrow> r_req j ''output'' r_output; Some (R_function_output i out) }
     else if t = ''reasoning'' then do {
       i \<leftarrow> r_opt j ''id'' r_text; summary \<leftarrow> r_opt j ''summary'' (r_list r_summary);
       enc \<leftarrow> r_opt j ''encrypted_content'' r_str; Some (R_reasoning i summary enc) }
     else None)"

definition functionTool :: "json \<Rightarrow> canonical_tool option" where
  "functionTool j = do {
     t \<leftarrow> r_req j ''type'' r_str; nm \<leftarrow> r_req j ''name'' r_text; d \<leftarrow> r_opt j ''description'' r_str;
     s \<leftarrow> r_opt j ''parameters'' r_obj;
     if t = ''function''
     then Some \<lparr>tool_name = nm, tool_description = d, tool_inputSchema = get_or (JObj []) s\<rparr> else None }"

text \<open>The tool choice, already in the form \<open>parseToolChoice\<close> gives it.\<close>

definition parseToolChoice :: "json \<Rightarrow> canonical_tool_choice option" where
  "parseToolChoice j =
     (case j of
        JStr s \<Rightarrow>
          (if s = ''auto'' then Some Choice_auto else if s = ''none'' then Some Choice_none
           else if s = ''required'' then Some Choice_any else None)
      | _ \<Rightarrow> do { t \<leftarrow> r_req j ''type'' r_str; nm \<leftarrow> r_req j ''name'' r_text;
               if t = ''function'' then Some (Choice_tool nm) else None })"

datatype raw_input = Input_string string | Input_array "json list"

definition r_input :: "json \<Rightarrow> raw_input option" where
  "r_input j = (case j of JStr s \<Rightarrow> Some (Input_string s) | JArr xs \<Rightarrow> Some (Input_array xs) | _ \<Rightarrow> None)"

record responses_body =
  rb_model :: string
  rb_input :: "raw_input option"
  rb_instructions :: "string option"
  rb_tools :: "json list option"
  rb_tool_choice :: "canonical_tool_choice option"
  rb_stream :: "bool option"
  rb_previous :: "string option"
  rb_max_output_tokens :: "int option"
  rb_temperature :: "rat option"
  rb_top_p :: "rat option"
  rb_reasoning :: "string option option"
  rb_include :: "string list option"
  rb_store :: "bool option"

definition r_reasoning_effort :: "json \<Rightarrow> string option option" where
  "r_reasoning_effort j = (if is_json_object j then r_opt j ''effort'' r_str else None)"

definition responses_rawSchema :: "json \<Rightarrow> responses_body option" where
  "responses_rawSchema j = do {
     model \<leftarrow> r_req j ''model'' r_text;
     input \<leftarrow> r_opt j ''input'' r_input;
     instructions \<leftarrow> r_opt j ''instructions'' r_str;
     tools \<leftarrow> r_opt j ''tools'' r_arr;
     choice \<leftarrow> r_opt j ''tool_choice'' parseToolChoice;
     stream \<leftarrow> r_opt j ''stream'' r_bool;
     previous \<leftarrow> r_opt j ''previous_response_id'' r_text;
     max_tokens \<leftarrow> r_opt j ''max_output_tokens'' (\<lambda>v. r_if (\<lambda>n. 0 < n) (r_int v));
     temperature \<leftarrow> r_opt j ''temperature'' r_num;
     top_p \<leftarrow> r_opt j ''top_p'' r_num;
     reasoning \<leftarrow> r_opt j ''reasoning'' r_reasoning_effort;
     include \<leftarrow> r_opt j ''include'' (r_list r_str);
     store \<leftarrow> r_opt j ''store'' r_bool;
     metadata \<leftarrow> r_opt j ''metadata'' r_obj;
     Some \<lparr>rb_model = model, rb_input = input, rb_instructions = instructions, rb_tools = tools,
       rb_tool_choice = choice, rb_stream = stream, rb_previous = previous, rb_max_output_tokens = max_tokens,
       rb_temperature = temperature, rb_top_p = top_p, rb_reasoning = reasoning, rb_include = include,
       rb_store = store\<rparr> }"

section \<open>Decoding\<close>

definition unready :: "string \<Rightarrow> protocol_error" where
  "unready message = Protocol_error ''compatibility_unready'' message 400"

definition invalid_request :: "string \<Rightarrow> protocol_error" where
  "invalid_request message = Protocol_error ''invalid_request_error'' message 400"

definition DATA_PREFIX :: string where "DATA_PREFIX = ''data:''"

definition BASE64_MARK :: string where "BASE64_MARK = '';base64,''"

definition one_line :: "string \<Rightarrow> bool" where
  "one_line s \<longleftrightarrow> list_all (\<lambda>c. c \<noteq> CHR 0x0A \<and> c \<noteq> CHR 0x0D) s"

text \<open>The regular expression of a data URL: a media type without semicolon, then one line of data.\<close>

definition data_url :: "string \<Rightarrow> (string \<times> string) option" where
  "data_url s =
     (if starts_with s DATA_PREFIX
      then let r = drop (length DATA_PREFIX) s; m = takeWhile (\<lambda>c. c \<noteq> CHR '';'') r;
               rest = dropWhile (\<lambda>c. c \<noteq> CHR '';'') r
           in if m \<noteq> [] \<and> starts_with rest BASE64_MARK
              then let d = drop (length BASE64_MARK) rest
                   in if d \<noteq> [] \<and> one_line d then Some (m, d) else None
              else None
      else None)"

definition url_text :: "image_url \<Rightarrow> string" where
  "url_text u = (case u of Url_string s \<Rightarrow> s | Url_object s \<Rightarrow> s)"

definition parseImage :: "image_url option \<Rightarrow> (string \<times> string) option \<Rightarrow> protocol_error + canonical_content" where
  "parseImage url src =
     (case src of
        Some (m, d) \<Rightarrow> Inr (Image_part m d)
      | None \<Rightarrow>
          (case Option.bind (map_option url_text url) data_url of
             Some (m, d) \<Rightarrow> Inr (Image_part m d)
           | None \<Rightarrow> Inl (invalid_request ''Image parts must be data URLs or inline source'')))"

definition part_content :: "codec_env \<Rightarrow> message_part \<Rightarrow> protocol_error + canonical_content" where
  "part_content env p =
     (case p of
        R_text s \<Rightarrow> Inr (Text_part s)
      | R_image u src \<Rightarrow> parseImage u src
      | R_other t j \<Rightarrow>
          if t \<in> set TEXT_PARTS
          then Inr (Text_part (case json_field j ''text'' of Some v \<Rightarrow> ce_show env v | None \<Rightarrow> []))
          else if t \<in> set IMAGE_PARTS then zod_refused
          else Inl (unready (''Unsupported required content type: '' @ t)))"

definition parseMessageContent :: "codec_env \<Rightarrow> string + message_part list \<Rightarrow> protocol_error + canonical_content list" where
  "parseMessageContent env content =
     (case content of Inl s \<Rightarrow> Inr [Text_part s] | Inr parts \<Rightarrow> map_ok (part_content env) parts)"

definition parseJsonOrRaw :: "codec_env \<Rightarrow> string \<Rightarrow> json" where
  "parseJsonOrRaw env s = get_or (JStr s) (ce_parse env s)"

record decoded_item =
  di_role :: "message_role option"
  di_content :: "canonical_content list"
  di_system :: "canonical_content list"
  di_artifacts :: "opaque_artifact list"

definition plain_item :: "message_role option \<Rightarrow> canonical_content list \<Rightarrow> decoded_item" where
  "plain_item role content = \<lparr>di_role = role, di_content = content, di_system = [], di_artifacts = []\<rparr>"

fun join_lines :: "string list \<Rightarrow> string" where
  "join_lines [] = []"
| "join_lines [x] = x"
| "join_lines (x # xs) = x @ [CHR 0x0A] @ join_lines xs"

definition encrypted_artifact :: "string \<Rightarrow> string \<Rightarrow> opaque_artifact" where
  "encrypted_artifact assoc v =
     \<lparr>artifact_kind = Reasoning_encrypted_content, association = assoc, artifact_value = v\<rparr>"

definition item_content :: "codec_env \<Rightarrow> input_item \<Rightarrow> protocol_error + decoded_item" where
  "item_content env item =
     (case item of
        R_message role content \<Rightarrow>
          bind_ok (parseMessageContent env content) (\<lambda>parts. Inr
            (if role = ''system'' then \<lparr>di_role = None, di_content = [], di_system = parts, di_artifacts = []\<rparr>
             else plain_item (Some (if role = ''user'' then User_role else Assistant_role)) parts))
      | R_function_call i nm args \<Rightarrow>
          Inr (plain_item (Some Assistant_role)
            [Tool_call_part i nm (case non_empty args of Some s \<Rightarrow> parseJsonOrRaw env s | None \<Rightarrow> JObj [])])
      | R_function_output i out \<Rightarrow>
          Inr (plain_item (Some User_role)
            [Tool_result_part i [Text_part (case out of Output_string s \<Rightarrow> s | Output_array xs \<Rightarrow> ce_text env (JArr xs))] False])
      | R_reasoning i sm enc \<Rightarrow>
          Inr \<lparr>di_role = Some Assistant_role, di_content = [Reasoning_part (join_lines (get_or [] sm)) i], di_system = [],
               di_artifacts = (case non_empty enc of
                   Some v \<Rightarrow> [encrypted_artifact (get_or ''reasoning-item'' i) v] | None \<Rightarrow> [])\<rparr>)"

definition parseItem :: "codec_env \<Rightarrow> json \<Rightarrow> protocol_error + decoded_item" where
  "parseItem env raw =
     (case r_req raw ''type'' r_str of
        None \<Rightarrow> Inl (invalid_request ''Input item is not an object'')
      | Some t \<Rightarrow>
          (case knownItem raw of
             None \<Rightarrow> Inl (unready (''Unsupported required input item: '' @ t))
           | Some item \<Rightarrow> item_content env item))"

definition tool_type :: "codec_env \<Rightarrow> json \<Rightarrow> string" where
  "tool_type env j = (case json_field j ''type'' of Some (JStr s) \<Rightarrow> s | Some v \<Rightarrow> ce_show env v | None \<Rightarrow> ''unknown'')"

definition parseTools :: "codec_env \<Rightarrow> json list option \<Rightarrow> protocol_error + canonical_tool list" where
  "parseTools env raw =
     map_ok (\<lambda>j. case functionTool j of
         Some t \<Rightarrow> Inr t
       | None \<Rightarrow> Inl (unready (''Unsupported required tool type: '' @ tool_type env j))) (get_or [] raw)"

definition inputItems :: "raw_input option \<Rightarrow> json list" where
  "inputItems input =
     (case input of
        None \<Rightarrow> []
      | Some (Input_string s) \<Rightarrow> [JObj [(''type'', JStr ''message''), (''role'', JStr ''user''), (''content'', JStr s)]]
      | Some (Input_array xs) \<Rightarrow> xs)"

definition SUPPORTED_INCLUDE :: "string list" where
  "SUPPORTED_INCLUDE = [''reasoning.encrypted_content'']"

definition RESPONSES_RECOGNIZED :: "string list" where
  "RESPONSES_RECOGNIZED =
     [''model'', ''input'', ''instructions'', ''tools'', ''tool_choice'', ''stream'', ''previous_response_id'',
      ''max_output_tokens'', ''temperature'', ''top_p'', ''reasoning'', ''include'', ''metadata'', ''store'']"

definition item_message :: "decoded_item \<Rightarrow> canonical_message list" where
  "item_message d =
     (case di_role d of
        Some r \<Rightarrow> if di_content d = [] then [] else [\<lparr>msg_role = r, msg_content = di_content d\<rparr>]
      | None \<Rightarrow> [])"

definition responses_fidelity ::
  "(string \<times> header_value) list \<Rightarrow> opaque_artifact list \<Rightarrow> canonical_content list \<Rightarrow> string list option \<Rightarrow> string list
   \<Rightarrow> fidelity_envelope option" where
  "responses_fidelity headers encrypted input incl ignored =
     (if encrypted = [] \<and> ignored = [] \<and> incl = None then None
      else
        let envelope = withNotes (withArtifacts (emptyFidelityEnvelope Openai_responses (one_header headers ''openai-version'')) encrypted)
          (when_req (list_ex is_reasoning input)
             \<lparr>note_field = ''input[].reasoning.summary'', disposition = Translated,
              note_reason = Some ''summary text projected to semantic reasoning content''\<rparr>
           @ map (\<lambda>a. \<lparr>note_field = ''input[].reasoning.encrypted_content'', disposition = Preserved_native,
                       note_reason = Some (''preserved at '' @ association a)\<rparr>) encrypted
           @ map (\<lambda>i. \<lparr>note_field = ''include[]='' @ i, disposition = Preserved_native,
                       note_reason = Some ''forwarded to the provider so reasoning encrypted content is returned''\<rparr>)
               (get_or [] incl)
           @ map ignored_note ignored)
        in Some (if encrypted = [] then envelope else withRequired envelope [Reasoning_encrypted_content]))"

definition responses_required :: "responses_body \<Rightarrow> canonical_content list \<Rightarrow> capability_requirement list" where
  "responses_required body input =
     when_req (rb_stream body = Some True) Req_streaming
     @ when_req (rb_tools body \<noteq> None \<and> rb_tools body \<noteq> Some []) Req_tools
     @ when_req (list_ex is_image input) Req_images
     @ when_req (rb_reasoning body \<noteq> None \<or> list_ex is_reasoning input) Req_reasoning"

definition responses_reasoning :: "string option option \<Rightarrow> reasoning_request option" where
  "responses_reasoning r =
     map_option (\<lambda>effort. reasoningRequestFromWire
        \<lparr>wire_thinking = (if effort = None then Some Mode_enabled else None), wire_effort = effort\<rparr>) r"

definition check_include :: "string list option \<Rightarrow> protocol_error + unit" where
  "check_include incl =
     (case List.find (\<lambda>i. i \<notin> set SUPPORTED_INCLUDE) (get_or [] incl) of
        Some i \<Rightarrow> Inl (unready (''Unsupported required include: '' @ i))
      | None \<Rightarrow> Inr ())"

definition responses_request ::
  "codec_env \<Rightarrow> json \<Rightarrow> (string \<times> header_value) list \<Rightarrow> responses_body \<Rightarrow> decoded_item list \<Rightarrow> canonical_tool list
   \<Rightarrow> decoded_request" where
  "responses_request env raw headers body items tools =
     (let messages = concat (map item_message items);
          encrypted = concat (map di_artifacts items);
          input = concat (map msg_content messages);
          beta = beta_values headers ''openai-beta'';
          reasoning = responses_reasoning (rb_reasoning body);
          ignored = filter (\<lambda>key. key \<notin> set RESPONSES_RECOGNIZED) (json_keys raw)
      in \<lparr>dec_request =
            \<lparr>cq_id = ce_uuid env,
             cq_source = \<lparr>src_protocol = Openai_responses, src_protocolVersion = one_header headers ''openai-version'',
                          src_clientName = None, src_clientVersion = None\<rparr>,
             cq_requestedModel = rb_model body, cq_modelRole = ''unknown'',
             cq_system = map Text_part (case rb_instructions body of None \<Rightarrow> [] | Some s \<Rightarrow> [s]) @ concat (map di_system items),
             cq_input = input, cq_messages = messages, cq_tools = tools, cq_toolChoice = rb_tool_choice body,
             cq_stream = get_or False (rb_stream body), cq_store = rb_store body, cq_include = rb_include body,
             cq_inference = \<lparr>inf_maxOutputTokens = rb_max_output_tokens body, inf_temperature = rb_temperature body,
               inf_topP = rb_top_p body, inf_stopSequences = None,
               inf_thinking = Option.bind reasoning sourceMode, inf_reasoning = reasoning\<rparr>,
             cq_metadata = \<lparr>meta_beta = (if beta = [] then None else Some beta), meta_cacheControl = None\<rparr>,
             cq_continuation = rb_previous body, cq_agent = None,
             cq_fidelity = responses_fidelity headers encrypted input (rb_include body) ignored\<rparr>,
          dec_required = responses_required body input, dec_ignored = ignored\<rparr>)"

definition decodeResponsesRequest ::
  "codec_env \<Rightarrow> json \<Rightarrow> (string \<times> header_value) list \<Rightarrow> protocol_error + decoded_request" where
  "decodeResponsesRequest env raw headers =
     (case responses_rawSchema raw of
        None \<Rightarrow> Inl (invalid_request ''Request does not match the supported Responses fields'')
      | Some body \<Rightarrow>
          bind_ok (check_include (rb_include body)) (\<lambda>_.
          bind_ok (map_ok (parseItem env) (inputItems (rb_input body))) (\<lambda>items.
          bind_ok (parseTools env (rb_tools body)) (\<lambda>tools.
            Inr (responses_request env raw headers body items tools)))))"

end
