(* ===== verification/Responses_Stream.thy ===== *)
theory Responses_Stream
  imports Responses_Codec Anthropic_Stream
begin

text \<open>
  The encoder of the Responses stream and its aggregate (\<^verbatim>\<open>src/protocols/openai-responses/encoder.ts\<close>).
  The encoder keeps the accumulated output, not the events; an output item is a JSON object. When an
  operation throws, the stream is over, so the state it leaves behind is not kept.
\<close>

type_synonym output_item = "(string \<times> json) list"

definition itemId :: "nat \<Rightarrow> string \<Rightarrow> string" where
  "itemId index pre = pre @ ''_'' @ show_nat index"

definition startItem ::
  "nat \<Rightarrow> content_type \<Rightarrow> string option \<Rightarrow> string option \<Rightarrow> string option \<Rightarrow> protocol_error + output_item" where
  "startItem index ty toolCallId toolName assigned =
     (case ty of
        Text_content \<Rightarrow>
          Inr [(''type'', JStr ''message''), (''id'', JStr (get_or (itemId index ''msg'') assigned)),
               (''role'', JStr ''assistant''), (''status'', JStr ''in_progress''), (''content'', JArr [])]
      | Tool_call_content \<Rightarrow>
          (case (non_empty toolCallId, non_empty toolName) of
             (Some i, Some nm) \<Rightarrow>
               Inr [(''type'', JStr ''function_call''), (''id'', JStr (get_or (itemId index ''fc'') assigned)),
                    (''call_id'', JStr i), (''name'', JStr nm), (''arguments'', JStr [])]
           | _ \<Rightarrow> Inl (Protocol_error ''invalid_event'' ''Function call content requires an ID and name'' 500))
      | _ \<Rightarrow>
          Inr [(''type'', JStr ''reasoning''), (''id'', JStr (get_or (itemId index ''rs'') assigned)), (''summary'', JArr [])])"

definition usage_record :: "nat \<times> nat \<Rightarrow> json" where
  "usage_record u = JObj [(''input_tokens'', jnat (fst u)), (''output_tokens'', jnat (snd u))]"

definition responseRecord :: "string \<Rightarrow> string \<Rightarrow> string \<Rightarrow> json" where
  "responseRecord i model status =
     JObj [(''id'', JStr i), (''object'', JStr ''response''), (''status'', JStr status), (''model'', JStr model),
           (''output'', JArr []), (''usage'', usage_record (0, 0))]"

definition appendDelta :: "(nat \<times> string) list \<Rightarrow> nat \<Rightarrow> string \<Rightarrow> (nat \<times> string) list" where
  "appendDelta m index delta = AList.update index (get_or [] (map_of m index) @ delta) m"

section \<open>The aggregate\<close>

record aggregate_state =
  ag_items :: "(nat \<times> output_item) list"
  ag_toolJson :: "(nat \<times> string) list"
  ag_text :: "(nat \<times> string) list"
  ag_reasoning :: "(nat \<times> string) list"
  ag_responseId :: string
  ag_model :: string
  ag_usage :: "nat \<times> nat"
  ag_artifacts :: "opaque_artifact list"

definition createAggregateContext :: aggregate_state where
  "createAggregateContext =
     \<lparr>ag_items = [], ag_toolJson = [], ag_text = [], ag_reasoning = [], ag_responseId = ''resp_unknown'',
      ag_model = ''unknown'', ag_usage = (0, 0), ag_artifacts = []\<rparr>"

definition applyAggregate :: "aggregate_state \<Rightarrow> canonical_event \<Rightarrow> protocol_error + aggregate_state" where
  "applyAggregate ag item =
     (case item of
        Response_started b responseId \<Rightarrow> Inr (ag\<lparr>ag_responseId := responseId, ag_model := ev_modelId b\<rparr>)
      | Content_started _ index ty i nm assigned \<Rightarrow>
          bind_ok (startItem index ty i nm assigned) (\<lambda>it. Inr (ag\<lparr>ag_items := AList.update index it (ag_items ag)\<rparr>))
      | Text_delta _ index s \<Rightarrow> Inr (ag\<lparr>ag_text := appendDelta (ag_text ag) index s\<rparr>)
      | Reasoning_delta _ index s \<Rightarrow> Inr (ag\<lparr>ag_reasoning := appendDelta (ag_reasoning ag) index s\<rparr>)
      | Tool_arguments_delta _ index _ s \<Rightarrow> Inr (ag\<lparr>ag_toolJson := appendDelta (ag_toolJson ag) index s\<rparr>)
      | Usage_updated _ i out \<Rightarrow> Inr (ag\<lparr>ag_usage := (get_or 0 i, get_or 0 out)\<rparr>)
      | Fidelity_artifacts _ xs \<Rightarrow> Inr (ag\<lparr>ag_artifacts := ag_artifacts ag @ xs\<rparr>)
      | _ \<Rightarrow> Inr ag)"

definition put_text :: "string \<Rightarrow> output_item \<Rightarrow> output_item" where
  "put_text s it =
     (if has_type ''message'' it
      then AList.update ''status'' (JStr ''completed'')
             (AList.update ''content'' (JArr [JObj [(''type'', JStr ''output_text''), (''text'', JStr s)]]) it)
      else it)"

definition put_summary :: "string \<Rightarrow> output_item \<Rightarrow> output_item" where
  "put_summary s it =
     (if has_type ''reasoning'' it
      then AList.update ''summary'' (JArr [JObj [(''type'', JStr ''summary_text''), (''text'', JStr s)]]) it
      else it)"

definition find_encrypted :: "opaque_artifact list \<Rightarrow> string \<Rightarrow> string option" where
  "find_encrypted xs assoc =
     artifactValue (Some \<lparr>envelope_version = 1, sourceProtocol = Openai_responses, protocolRevision = None,
        artifacts = xs, env_notes = [], required_kinds = []\<rparr>) Reasoning_encrypted_content assoc"

definition put_encrypted :: "opaque_artifact list \<Rightarrow> output_item \<Rightarrow> output_item" where
  "put_encrypted xs it =
     (if has_type ''reasoning'' it
      then case map_of it ''id'' of
             Some (JStr i) \<Rightarrow>
               (case find_encrypted xs i of
                  Some v \<Rightarrow> AList.update ''encrypted_content'' (JStr v) it
                | None \<Rightarrow> it)
           | _ \<Rightarrow> it
      else it)"

fun put_arguments ::
  "(string \<Rightarrow> json option) \<Rightarrow> (nat \<times> string) list \<Rightarrow> (nat \<times> output_item) list \<Rightarrow> protocol_error + (nat \<times> output_item) list" where
  "put_arguments json_parse [] items = Inr items"
| "put_arguments json_parse ((index, s) # rest) items =
     (case map_of items index of
        None \<Rightarrow> put_arguments json_parse rest items
      | Some it \<Rightarrow>
          if has_type ''function_call'' it
          then if json_parse s = None
               then Inl (Protocol_error ''invalid_tool_arguments'' ''Function argument deltas are not valid JSON'' 502)
               else put_arguments json_parse rest (AList.update index (AList.update ''arguments'' (JStr s) it) items)
          else put_arguments json_parse rest items)"

definition each_entry :: "(string \<Rightarrow> output_item \<Rightarrow> output_item) \<Rightarrow> (nat \<times> string) list \<Rightarrow> (nat \<times> output_item) list \<Rightarrow> (nat \<times> output_item) list" where
  "each_entry f entries items = foldl (\<lambda>its (index, s). on_block index (f s) its) items entries"

definition filled_items :: "aggregate_state \<Rightarrow> (nat \<times> output_item) list" where
  "filled_items ag =
     map (\<lambda>(index, it). (index, put_encrypted (ag_artifacts ag) it))
       (each_entry put_summary (ag_reasoning ag) (each_entry put_text (ag_text ag) (ag_items ag)))"

definition finalizeAggregate :: "(string \<Rightarrow> json option) \<Rightarrow> aggregate_state \<Rightarrow> protocol_error + aggregate_state" where
  "finalizeAggregate json_parse ag =
     bind_ok (put_arguments json_parse (ag_toolJson ag) (filled_items ag)) (\<lambda>items. Inr (ag\<lparr>ag_items := items\<rparr>))"

definition aggregate_output :: "aggregate_state \<Rightarrow> json" where
  "aggregate_output ag = JArr (map (JObj \<circ> snd) (sort_key fst (ag_items ag)))"

definition completed_record :: "aggregate_state \<Rightarrow> json" where
  "completed_record ag =
     JObj [(''id'', JStr (ag_responseId ag)), (''object'', JStr ''response''), (''status'', JStr ''completed''),
           (''model'', JStr (ag_model ag)), (''output'', aggregate_output ag), (''usage'', usage_record (ag_usage ag))]"

section \<open>The encoder\<close>

datatype encode_status = Idle | Completed_status | Failed_status

record responses_context =
  rx_lastSequence :: int
  rx_requestId :: "string option"
  rx_open :: "nat list"
  rx_aggregate :: aggregate_state
  rx_status :: encode_status

definition responses_createContext :: responses_context where
  "responses_createContext =
     \<lparr>rx_lastSequence = -1, rx_requestId = None, rx_open = [], rx_aggregate = createAggregateContext, rx_status = Idle\<rparr>"

definition delta_of :: "string \<Rightarrow> nat \<Rightarrow> (string \<times> json) list \<Rightarrow> string \<Rightarrow> wire_event" where
  "delta_of nm index extra s = typed nm ([(''output_index'', jnat index)] @ extra @ [(''delta'', JStr s)])"

definition responses_body_frames ::
  "(string \<Rightarrow> json option) \<Rightarrow> responses_context \<Rightarrow> canonical_event \<Rightarrow> protocol_error + wire_event list \<times> responses_context" where
  "responses_body_frames json_parse ctx item =
     (case item of
        Response_started _ _ \<Rightarrow>
          (let r = responseRecord (ag_responseId (rx_aggregate ctx)) (ag_model (rx_aggregate ctx)) ''in_progress''
           in Inr ([typed ''response.created'' [(''response'', r)], typed ''response.in_progress'' [(''response'', r)]], ctx))
      | Content_started _ index ty i nm assigned \<Rightarrow>
          bind_ok (startItem index ty i nm assigned) (\<lambda>started.
            Inr (typed ''response.output_item.added'' [(''output_index'', jnat index), (''item'', JObj started)]
                 # (if ty = Text_content
                    then [typed ''response.content_part.added''
                            [(''output_index'', jnat index), (''content_index'', jnat 0),
                             (''part'', JObj [(''type'', JStr ''output_text''), (''text'', JStr [])])]]
                    else []),
                 ctx\<lparr>rx_open := List.insert index (rx_open ctx)\<rparr>))
      | Text_delta _ index s \<Rightarrow> Inr ([delta_of ''response.output_text.delta'' index [(''content_index'', jnat 0)] s], ctx)
      | Reasoning_delta _ index s \<Rightarrow> Inr ([delta_of ''response.reasoning_summary_text.delta'' index [] s], ctx)
      | Tool_arguments_delta _ index _ s \<Rightarrow> Inr ([delta_of ''response.function_call_arguments.delta'' index [] s], ctx)
      | Content_completed _ index \<Rightarrow>
          if index \<notin> set (rx_open ctx) then Inl (order_error ''Content completed before start'')
          else Inr ([typed ''response.output_item.done'' [(''output_index'', jnat index)]],
                    ctx\<lparr>rx_open := removeAll index (rx_open ctx)\<rparr>)
      | Response_completed _ _ \<Rightarrow>
          bind_ok (finalizeAggregate json_parse (rx_aggregate ctx)) (\<lambda>ag.
            Inr ([typed ''response.completed'' [(''response'', completed_record ag)]],
                 ctx\<lparr>rx_aggregate := ag, rx_status := Completed_status\<rparr>))
      | Response_failed _ code message \<Rightarrow>
          Inr ([typed ''response.failed'' [(''response'', JObj
                  [(''id'', JStr (ag_responseId (rx_aggregate ctx))), (''object'', JStr ''response''), (''status'', JStr ''failed''),
                   (''error'', JObj [(''code'', JStr code), (''message'', JStr message)])])]],
               ctx\<lparr>rx_status := Failed_status\<rparr>)
      | _ \<Rightarrow> Inr ([], ctx))"

definition encodeResponsesEvent ::
  "(string \<Rightarrow> json option) \<Rightarrow> responses_context \<Rightarrow> canonical_event \<Rightarrow> protocol_error + wire_event list \<times> responses_context" where
  "encodeResponsesEvent json_parse ctx item =
     bind_ok (guard_event (rx_lastSequence ctx) (rx_requestId ctx) item) (\<lambda>_.
     bind_ok (applyAggregate (rx_aggregate ctx) item) (\<lambda>ag.
       responses_body_frames json_parse
         (ctx\<lparr>rx_lastSequence := int (ev_sequence (event_head item)),
              rx_requestId := or_else (rx_requestId ctx) (Some (ev_requestId (event_head item))),
              rx_aggregate := ag\<rparr>) item))"

definition responses_assertClosed :: "responses_context \<Rightarrow> protocol_error + unit" where
  "responses_assertClosed ctx = guard_ok (rx_open ctx = []) (order_error ''Response ended with open content'')"

fun responses_push ::
  "(string \<Rightarrow> json option) \<Rightarrow> responses_context \<Rightarrow> canonical_event list \<Rightarrow> protocol_error + wire_event list \<times> responses_context" where
  "responses_push json_parse ctx [] = Inr ([], ctx)"
| "responses_push json_parse ctx (item # items) =
     bind_ok (encodeResponsesEvent json_parse ctx item) (\<lambda>(frames, ctx').
     bind_ok (responses_push json_parse ctx' items) (\<lambda>(rest, ctx''). Inr (frames @ rest, ctx'')))"

definition encodeResponsesEvents ::
  "(string \<Rightarrow> json option) \<Rightarrow> canonical_event list \<Rightarrow> bool \<Rightarrow> protocol_error + wire_event list" where
  "encodeResponsesEvents json_parse events final =
     bind_ok (responses_push json_parse responses_createContext events) (\<lambda>(frames, ctx).
     bind_ok (if final then responses_assertClosed ctx else Inr ()) (\<lambda>_. Inr frames))"

fun apply_all :: "aggregate_state \<Rightarrow> canonical_event list \<Rightarrow> protocol_error + aggregate_state" where
  "apply_all ag [] = Inr ag"
| "apply_all ag (item # items) = bind_ok (applyAggregate ag item) (\<lambda>ag'. apply_all ag' items)"

definition outputFromEvents :: "(string \<Rightarrow> json option) \<Rightarrow> canonical_event list \<Rightarrow> protocol_error + aggregate_state" where
  "outputFromEvents json_parse events = bind_ok (apply_all createAggregateContext events) (finalizeAggregate json_parse)"

fun failure_of :: "canonical_event \<Rightarrow> (string \<times> string) option" where
  "failure_of (Response_failed _ code message) = Some (code, message)"
| "failure_of _ = None"

definition aggregateResponsesEvents :: "(string \<Rightarrow> json option) \<Rightarrow> canonical_event list \<Rightarrow> protocol_error + json" where
  "aggregateResponsesEvents json_parse events =
     bind_ok (encodeResponsesEvents json_parse events True) (\<lambda>_.
       (case List.map_filter failure_of events of
          (code, message) # _ \<Rightarrow> Inl (Protocol_error code message 502)
        | [] \<Rightarrow> bind_ok (outputFromEvents json_parse events) (\<lambda>ag. Inr (completed_record ag))))"


section \<open>The streamed completion\<close>

fun finishes :: "canonical_event \<Rightarrow> bool" where
  "finishes (Response_completed _ _) = True"
| "finishes (Response_failed _ _ _) = True"
| "finishes _ = False"

lemma encode_keeps_aggregate:
  assumes "encodeResponsesEvent json_parse ctx item = Inr (frames, ctx')" and "\<not> finishes item"
  shows "applyAggregate (rx_aggregate ctx) item = Inr (rx_aggregate ctx')"
  using assms
  by (cases item)
    (auto simp: encodeResponsesEvent_def bind_ok_Inr_iff responses_body_frames_def Let_def split: if_splits)

lemma push_keeps_aggregate:
  assumes "responses_push json_parse ctx items = Inr (frames, ctx')" and "list_all (\<lambda>e. \<not> finishes e) items"
  shows "apply_all (rx_aggregate ctx) items = Inr (rx_aggregate ctx')"
  using assms
proof (induction items arbitrary: ctx frames)
  case (Cons item items)
  then show ?case by (auto simp: bind_ok_Inr_iff dest!: encode_keeps_aggregate)
qed simp

lemma responses_push_append:
  "responses_push json_parse ctx (xs @ ys) =
     bind_ok (responses_push json_parse ctx xs) (\<lambda>(frames, ctx').
     bind_ok (responses_push json_parse ctx' ys) (\<lambda>(rest, ctx''). Inr (frames @ rest, ctx'')))"
proof (induction xs arbitrary: ctx)
  case Nil
  then show ?case by (auto simp: bind_ok_def split: sum.splits)
next
  case (Cons x xs)
  then show ?case by (auto simp: bind_ok_def split: sum.splits)
qed

lemma apply_all_append: "apply_all ag (xs @ ys) = bind_ok (apply_all ag xs) (\<lambda>ag'. apply_all ag' ys)"
  by (induction xs arbitrary: ag) (auto simp: bind_ok_def split: sum.splits)

lemma not_failed: "list_all (\<lambda>e. \<not> finishes e) items \<Longrightarrow> List.map_filter failure_of items = []"
proof (induction items)
  case (Cons item items)
  then show ?case by (cases item) (auto simp: List.map_filter_simps)
qed (simp add: List.map_filter_simps)

text \<open>C25: the stream of a Responses answer ends with the object a request without streaming gets. For every stream that
  ends with its completion and has no other end before, if the encoder accepts it as finished, then the last frame is
  \<open>response.completed\<close>, its \<open>response\<close> is exactly the object the aggregate gives for the same events, with every output
  item, its encrypted content and the usage, and the aggregate does not fail.\<close>

theorem streamed_completion_is_aggregate:
  assumes "encodeResponsesEvents json_parse (pre @ [Response_completed b stopReason]) True = Inr frames"
    and "list_all (\<lambda>e. \<not> finishes e) pre"
  shows "\<exists>obj. aggregateResponsesEvents json_parse (pre @ [Response_completed b stopReason]) = Inr obj
    \<and> last frames = typed ''response.completed'' [(''response'', obj)]"
proof -
  let ?events = "pre @ [Response_completed b stopReason]"
  obtain front ctx rest ctx' where run: "responses_push json_parse responses_createContext pre = Inr (front, ctx)"
    and step: "encodeResponsesEvent json_parse ctx (Response_completed b stopReason) = Inr (rest, ctx')"
    and frames: "frames = front @ rest"
    using assms(1) by (auto simp: encodeResponsesEvents_def responses_push_append bind_ok_Inr_iff)
  have pre: "apply_all createAggregateContext pre = Inr (rx_aggregate ctx)"
    using push_keeps_aggregate [OF run assms(2)] by (simp add: responses_createContext_def)
  obtain ag where ag: "finalizeAggregate json_parse (rx_aggregate ctx) = Inr ag"
    and last: "rest = [typed ''response.completed'' [(''response'', completed_record ag)]]"
    using step by (auto simp: encodeResponsesEvent_def bind_ok_Inr_iff responses_body_frames_def applyAggregate_def)
  have "outputFromEvents json_parse ?events = Inr ag"
    using pre ag by (simp add: outputFromEvents_def apply_all_append applyAggregate_def)
  moreover have "List.map_filter failure_of ?events = []"
    using not_failed [OF assms(2)] by (simp add: List.map_filter_def)
  ultimately show ?thesis
    using assms(1) frames last by (simp add: aggregateResponsesEvents_def)
qed

definition answer_events :: "canonical_event list" where
  "answer_events =
     [Response_started (example_base 1) ''resp_1'',
      Content_started (example_base 2) 0 Reasoning_content None None (Some ''rs_9''),
      Reasoning_delta (example_base 3) 0 ''hm'',
      Content_completed (example_base 4) 0,
      Content_started (example_base 5) 1 Text_content None None None,
      Text_delta (example_base 6) 1 ''hello'',
      Content_completed (example_base 7) 1,
      Fidelity_artifacts (example_base 8) [encrypted_artifact ''rs_9'' ''opaque''],
      Usage_updated (example_base 9) (Some 3) (Some 2)]"

definition answer_object :: json where
  "answer_object =
     JObj [(''id'', JStr ''resp_1''), (''object'', JStr ''response''), (''status'', JStr ''completed''), (''model'', JStr ''m''),
       (''output'', JArr
         [JObj [(''type'', JStr ''reasoning''), (''id'', JStr ''rs_9''),
                (''summary'', JArr [JObj [(''type'', JStr ''summary_text''), (''text'', JStr ''hm'')]]),
                (''encrypted_content'', JStr ''opaque'')],
          JObj [(''type'', JStr ''message''), (''id'', JStr ''msg_1''), (''role'', JStr ''assistant''),
                (''status'', JStr ''completed''),
                (''content'', JArr [JObj [(''type'', JStr ''output_text''), (''text'', JStr ''hello'')]])]]),
       (''usage'', JObj [(''input_tokens'', JNum 3), (''output_tokens'', JNum 2)])]"

lemma answer_accepted:
  "isl (encodeResponsesEvents example_parse (answer_events @ [Response_completed (example_base 10) ''end_turn'']) True) = False"
  "list_all (\<lambda>e. \<not> finishes e) answer_events"
  "aggregateResponsesEvents example_parse (answer_events @ [Response_completed (example_base 10) ''end_turn'']) = Inr answer_object"
  by code_simp+

theorem streamed_completion_is_aggregate_witness:
  "\<exists>frames. encodeResponsesEvents example_parse (answer_events @ [Response_completed (example_base 10) ''end_turn'']) True = Inr frames
     \<and> last frames = typed ''response.completed'' [(''response'', answer_object)]"
proof -
  obtain frames where frames:
    "encodeResponsesEvents example_parse (answer_events @ [Response_completed (example_base 10) ''end_turn'']) True = Inr frames"
    using answer_accepted(1)
    by (cases "encodeResponsesEvents example_parse (answer_events @ [Response_completed (example_base 10) ''end_turn'']) True") auto
  then show ?thesis
    using streamed_completion_is_aggregate [OF frames answer_accepted(2)] answer_accepted(3) by simp
qed

text \<open>A text item without a delta: the completed response has it in progress.\<close>

lemma empty_text_stays_in_progress:
  "\<exists>kvs. aggregateResponsesEvents example_parse
      [Response_started (example_base 1) ''resp_1'', Content_started (example_base 2) 0 Text_content None None None,
       Content_completed (example_base 3) 0, Response_completed (example_base 4) ''end_turn''] = Inr (JObj kvs)
    \<and> map_of kvs ''status'' = Some (JStr ''completed'')
    \<and> map_of kvs ''output'' = Some (JArr [JObj [(''type'', JStr ''message''), (''id'', JStr ''msg_0''),
          (''role'', JStr ''assistant''), (''status'', JStr ''in_progress''), (''content'', JArr [])]])"
proof -
  have "aggregateResponsesEvents example_parse
      [Response_started (example_base 1) ''resp_1'', Content_started (example_base 2) 0 Text_content None None None,
       Content_completed (example_base 3) 0, Response_completed (example_base 4) ''end_turn''] =
     Inr (JObj [(''id'', JStr ''resp_1''), (''object'', JStr ''response''), (''status'', JStr ''completed''),
       (''model'', JStr ''m''),
       (''output'', JArr [JObj [(''type'', JStr ''message''), (''id'', JStr ''msg_0''),
          (''role'', JStr ''assistant''), (''status'', JStr ''in_progress''), (''content'', JArr [])]]),
       (''usage'', JObj [(''input_tokens'', JNum 0), (''output_tokens'', JNum 0)])])"
    by code_simp
  then show ?thesis by simp
qed

end
