(* ===== verification/Responses_Continuation.thy ===== *)
theory Responses_Continuation
  imports Responses_Stream
begin

text \<open>
  The store of finished Responses answers and the continuation of a request from one of them
  (\<^verbatim>\<open>src/protocols/openai-responses/continuation.ts\<close>). The directory of files is a map from response ids to
  records; writing a record and reading it back gives the record, or nothing when the schema refuses it.
\<close>

record stored_response =
  st_id :: string
  st_createdAt :: string
  st_model :: string
  st_messages :: "canonical_message list"
  st_fidelity :: "fidelity_envelope option"

type_synonym response_store = "string \<Rightarrow> stored_response option"

definition response_id_char :: "char \<Rightarrow> bool" where
  "response_id_char c \<longleftrightarrow> is_upper c \<or> is_lower c \<or> is_digit c \<or> c = CHR ''_'' \<or> c = CHR ''-''"

definition fileFor :: "string \<Rightarrow> protocol_error + unit" where
  "fileFor i =
     guard_ok (i \<noteq> [] \<and> list_all response_id_char i)
       (invalid_request ''previous_response_id is not a stored response id'')"

definition storedSchema :: "stored_response \<Rightarrow> bool" where
  "storedSchema r \<longleftrightarrow> st_id r \<noteq> [] \<and> st_createdAt r \<noteq> [] \<and> st_model r \<noteq> []"

definition response_get :: "response_store \<Rightarrow> string \<Rightarrow> protocol_error + stored_response option" where
  "response_get store i = bind_ok (fileFor i) (\<lambda>_. Inr (r_if storedSchema (store i)))"

definition response_put :: "response_store \<Rightarrow> stored_response \<Rightarrow> protocol_error + response_store" where
  "response_put store r = bind_ok (fileFor (st_id r)) (\<lambda>_. Inr (store(st_id r := Some r)))"

definition response_remove :: "response_store \<Rightarrow> string \<Rightarrow> protocol_error + response_store" where
  "response_remove store i = bind_ok (fileFor i) (\<lambda>_. Inr (store(i := None)))"

section \<open>Messages and artifacts of an answer\<close>

definition str_field :: "json \<Rightarrow> string \<Rightarrow> string option" where
  "str_field j key = Option.bind (json_field j key) r_str"

definition textField :: "json \<Rightarrow> string option" where "textField j = str_field j ''text''"

definition arr_field :: "json \<Rightarrow> string \<Rightarrow> json list" where
  "arr_field j key = get_or [] (Option.bind (json_field j key) r_arr)"

definition assistant_message :: "canonical_content list \<Rightarrow> canonical_message" where
  "assistant_message content = \<lparr>msg_role = Assistant_role, msg_content = content\<rparr>"

definition message_of_item :: "codec_env \<Rightarrow> json \<Rightarrow> canonical_message list" where
  "message_of_item env item =
     (let t = str_field item ''type'' in
      if t = Some ''message''
      then let texts = List.map_filter (\<lambda>p. map_option Text_part (textField p)) (arr_field item ''content'')
           in if texts = [] then [] else [assistant_message texts]
      else if t = Some ''function_call''
      then [assistant_message [Tool_call_part
              (get_or ''tool'' (or_else (str_field item ''call_id'') (str_field item ''id'')))
              (get_or ''unknown'' (str_field item ''name''))
              (case str_field item ''arguments'' of Some s \<Rightarrow> parseJsonOrRaw env s | None \<Rightarrow> JObj [])]]
      else if t = Some ''reasoning''
      then [assistant_message [Reasoning_part (join_lines (map (\<lambda>p. get_or [] (textField p)) (arr_field item ''summary'')))
              (str_field item ''id'')]]
      else [])"

definition messagesFromOutput :: "codec_env \<Rightarrow> json list \<Rightarrow> canonical_message list" where
  "messagesFromOutput env output = concat (map (message_of_item env) output)"

definition item_artifact :: "json \<Rightarrow> opaque_artifact option" where
  "item_artifact item =
     (if str_field item ''type'' = Some ''reasoning''
      then case (str_field item ''id'', non_empty (str_field item ''encrypted_content'')) of
             (Some i, Some v) \<Rightarrow> Some (encrypted_artifact i v)
           | _ \<Rightarrow> None
      else None)"

definition artifactsFromAggregated :: "json list \<Rightarrow> opaque_artifact list" where
  "artifactsFromAggregated output = List.map_filter item_artifact output"

definition fidelityForStorage :: "canonical_request \<Rightarrow> json list \<Rightarrow> fidelity_envelope option" where
  "fidelityForStorage req output =
     (let found = artifactsFromAggregated output
      in if found = [] then cq_fidelity req
         else mergeFidelity (cq_fidelity req) (Some (withArtifacts (emptyFidelityEnvelope Openai_responses None) found)))"

section \<open>Remembering and continuing\<close>

definition continuation_apply :: "response_store \<Rightarrow> canonical_request \<Rightarrow> protocol_error + canonical_request" where
  "continuation_apply store req =
     (case cq_continuation req of
        None \<Rightarrow> Inr req
      | Some i \<Rightarrow>
          bind_ok (response_get store i) (\<lambda>found.
            case found of
              None \<Rightarrow> Inl (Protocol_error ''compatibility_unready'' ''previous_response_id is unknown or expired'' 409)
            | Some previous \<Rightarrow>
                (let merged = mergeFidelity (st_fidelity previous) (cq_fidelity req)
                 in Inr (req\<lparr>cq_messages := st_messages previous @ cq_messages req,
                             cq_input := concat (map msg_content (st_messages previous)) @ cq_input req,
                             cq_fidelity := (if merged = None then cq_fidelity req else merged)\<rparr>))))"

record aggregated_answer =
  aa_id :: string
  aa_model :: string
  aa_output :: "json list"

definition rememberAggregated ::
  "codec_env \<Rightarrow> string \<Rightarrow> response_store \<Rightarrow> canonical_request \<Rightarrow> aggregated_answer \<Rightarrow> protocol_error + response_store" where
  "rememberAggregated env now store req answer =
     response_put store
       \<lparr>st_id = aa_id answer, st_createdAt = now, st_model = aa_model answer,
        st_messages = cq_messages req @ messagesFromOutput env (aa_output answer),
        st_fidelity = fidelityForStorage req (aa_output answer)\<rparr>"

fun is_start :: "canonical_event \<Rightarrow> bool" where
  "is_start (Response_started _ _) = True" | "is_start _ = False"

fun is_completion :: "canonical_event \<Rightarrow> bool" where
  "is_completion (Response_completed _ _) = True" | "is_completion _ = False"

definition remember ::
  "codec_env \<Rightarrow> string \<Rightarrow> response_store \<Rightarrow> canonical_request \<Rightarrow> canonical_event list \<Rightarrow> protocol_error + response_store" where
  "remember env now store req events =
     (if \<not> list_ex is_start events \<or> \<not> list_ex is_completion events then Inr store
      else bind_ok (aggregateResponsesEvents (ce_parse env) events) (\<lambda>obj.
             rememberAggregated env now store req
               \<lparr>aa_id = get_str ''id'' obj, aa_model = get_str ''model'' obj, aa_output = arr_field obj ''output''\<rparr>))"

definition response_item :: "codec_env \<Rightarrow> fidelity_envelope option \<Rightarrow> canonical_content \<Rightarrow> json list" where
  "response_item env fid c =
     (case c of
        Text_part s \<Rightarrow>
          [JObj [(''type'', JStr ''message''), (''role'', JStr ''assistant''),
                 (''content'', JArr [JObj [(''type'', JStr ''output_text''), (''text'', JStr s)]])]]
      | Tool_call_part i nm input \<Rightarrow>
          [JObj [(''type'', JStr ''function_call''), (''call_id'', JStr i), (''name'', JStr nm), (''arguments'', JStr (ce_text env input))]]
      | Reasoning_part s i \<Rightarrow>
          [JObj ([(''type'', JStr ''reasoning'')] @ opt_field ''id'' JStr i
             @ [(''summary'', JArr [JObj [(''type'', JStr ''summary_text''), (''text'', JStr s)]])]
             @ opt_field ''encrypted_content'' JStr
                 (artifactValue fid Reasoning_encrypted_content (get_or ''reasoning-item'' i)))]
      | _ \<Rightarrow> [])"

definition toResponsesObject :: "codec_env \<Rightarrow> stored_response \<Rightarrow> json" where
  "toResponsesObject env r =
     JObj [(''id'', JStr (st_id r)), (''object'', JStr ''response''), (''status'', JStr ''completed''), (''model'', JStr (st_model r)),
           (''output'', JArr (concat (map (\<lambda>m. if msg_role m = Assistant_role
                then concat (map (response_item env (st_fidelity r)) (msg_content m)) else []) (st_messages r))))]"

section \<open>What a continuation carries\<close>

definition encrypted_in :: "json list \<Rightarrow> string \<Rightarrow> string option" where
  "encrypted_in output i =
     map_option artifact_value (List.find (\<lambda>a. association a = i) (artifactsFromAggregated output))"

lemma found_kinds: "a \<in> set (artifactsFromAggregated output) \<Longrightarrow> artifact_kind a = Reasoning_encrypted_content"
  by (auto simp: artifactsFromAggregated_def List.map_filter_def item_artifact_def encrypted_artifact_def
      split: if_splits option.splits)

lemma find_kind:
  "list_all (\<lambda>a. artifact_kind a = k) xs \<Longrightarrow>
     List.find (\<lambda>a. artifact_kind a = k \<and> association a = i) xs = List.find (\<lambda>a. association a = i) xs"
  by (induction xs) auto

lemma stored_artifact:
  "artifactValue (fidelityForStorage req output) Reasoning_encrypted_content i =
     or_else (artifactValue (cq_fidelity req) Reasoning_encrypted_content i) (encrypted_in output i)"
proof (cases "artifactsFromAggregated output")
  case Nil
  then show ?thesis by (simp add: fidelityForStorage_def encrypted_in_def or_else_def split: option.splits)
next
  case (Cons a as)
  have "list_all (\<lambda>a. artifact_kind a = Reasoning_encrypted_content) (artifactsFromAggregated output)"
    using found_kinds by (auto simp: list_all_iff)
  then have "artifactValue (Some (withArtifacts (emptyFidelityEnvelope Openai_responses None) (artifactsFromAggregated output)))
      Reasoning_encrypted_content i = encrypted_in output i"
    using Cons find_kind [of Reasoning_encrypted_content "artifactsFromAggregated output" i]
    by (simp add: artifactValue_def withArtifacts_def emptyFidelityEnvelope_def encrypted_in_def del: find.simps)
  then show ?thesis using Cons by (simp add: fidelityForStorage_def artifactValue_merge)
qed

lemma artifactValue_merged:
  "artifactValue (if mergeFidelity a b = None then b else mergeFidelity a b) kind i =
     or_else (artifactValue a kind i) (artifactValue b kind i)"
proof (cases "mergeFidelity a b = None")
  case True
  then have "a = None" "b = None" by (auto simp: mergeFidelity_def split: option.splits)
  then show ?thesis by (simp add: artifactValue_def or_else_def)
next
  case False
  then show ?thesis by (simp only: if_False artifactValue_merge)
qed

text \<open>C17: a continuation carries the whole turn before it. Whenever an answer is remembered, a later request that names it
  continues with the messages of the remembered request, those of the answer and its own, in this order, with the
  flattened input of the same, and for every reasoning item it finds the encrypted content the earlier request carried
  for it, else the one the answer's output has, else its own.\<close>

theorem continuation_carries_turn:
  assumes "rememberAggregated env now store req answer = Inr store'"
    and "aa_model answer \<noteq> []" "now \<noteq> []" and "cq_continuation next = Some (aa_id answer)"
  shows "\<exists>next'. continuation_apply store' next = Inr next'
    \<and> cq_messages next' = cq_messages req @ messagesFromOutput env (aa_output answer) @ cq_messages next
    \<and> cq_input next' = concat (map msg_content (cq_messages req @ messagesFromOutput env (aa_output answer))) @ cq_input next
    \<and> artifactValue (cq_fidelity next') Reasoning_encrypted_content i =
        or_else (artifactValue (cq_fidelity req) Reasoning_encrypted_content i)
          (or_else (encrypted_in (aa_output answer) i) (artifactValue (cq_fidelity next) Reasoning_encrypted_content i))"
proof -
  have ok: "fileFor (aa_id answer) = Inr ()" and "aa_id answer \<noteq> []"
    using assms(1) by (auto simp: rememberAggregated_def response_put_def bind_ok_Inr_iff fileFor_def)
  then show ?thesis
    using assms
    by (auto simp: rememberAggregated_def response_put_def continuation_apply_def response_get_def r_if_def storedSchema_def
        Let_def artifactValue_merged stored_artifact or_else_def split: option.splits)
qed


definition turn_request :: "string option \<Rightarrow> canonical_request" where
  "turn_request previous =
     \<lparr>cq_id = ''r'', cq_source = \<lparr>src_protocol = Openai_responses, src_protocolVersion = None, src_clientName = None, src_clientVersion = None\<rparr>,
      cq_requestedModel = ''m'', cq_modelRole = ''unknown'', cq_system = [], cq_input = [Text_part ''hi''],
      cq_messages = [\<lparr>msg_role = User_role, msg_content = [Text_part ''hi'']\<rparr>], cq_tools = [], cq_toolChoice = None, cq_stream = True,
      cq_store = None, cq_include = None, cq_inference = empty_inference,
      cq_metadata = \<lparr>meta_beta = None, meta_cacheControl = None\<rparr>, cq_continuation = previous, cq_agent = None, cq_fidelity = None\<rparr>"

definition turn_answer :: aggregated_answer where
  "turn_answer =
     \<lparr>aa_id = ''resp_1'', aa_model = ''m'',
      aa_output = [JObj [(''type'', JStr ''reasoning''), (''id'', JStr ''rs_9''), (''summary'', JArr []),
                         (''encrypted_content'', JStr ''opaque'')]]\<rparr>"

definition turn_env :: codec_env where
  "turn_env = \<lparr>ce_uuid = ''u'', ce_parse = example_parse, ce_text = (\<lambda>_. []), ce_show = (\<lambda>_. [])\<rparr>"

definition turn_stored :: stored_response where
  "turn_stored =
     \<lparr>st_id = ''resp_1'', st_createdAt = ''now'', st_model = ''m'',
      st_messages = cq_messages (turn_request None) @ [assistant_message [Reasoning_part [] (Some ''rs_9'')]],
      st_fidelity = Some \<lparr>envelope_version = FIDELITY_ENVELOPE_VERSION, sourceProtocol = Openai_responses, protocolRevision = None,
        artifacts = [encrypted_artifact ''rs_9'' ''opaque''], env_notes = [], required_kinds = []\<rparr>\<rparr>"

lemma turn_remembered:
  "rememberAggregated turn_env ''now'' Map.empty (turn_request None) turn_answer = Inr (Map.empty(''resp_1'' := Some turn_stored))"
proof -
  have "fileFor ''resp_1'' = Inr ()" by code_simp
  moreover have "messagesFromOutput turn_env (aa_output turn_answer) = [assistant_message [Reasoning_part [] (Some ''rs_9'')]]"
    by code_simp
  moreover have "fidelityForStorage (turn_request None) (aa_output turn_answer) = st_fidelity turn_stored" by code_simp
  moreover have "aa_id turn_answer = ''resp_1''" "aa_model turn_answer = ''m''" by (simp_all add: turn_answer_def)
  ultimately show ?thesis by (simp add: rememberAggregated_def response_put_def turn_stored_def)
qed

theorem continuation_carries_turn_witness:
  "\<exists>store' next'. rememberAggregated turn_env ''now'' Map.empty (turn_request None) turn_answer = Inr store'
    \<and> continuation_apply store' (turn_request (Some ''resp_1'')) = Inr next'
    \<and> artifactValue (cq_fidelity next') Reasoning_encrypted_content ''rs_9'' = Some ''opaque''"
proof -
  have "encrypted_in (aa_output turn_answer) ''rs_9'' = Some ''opaque''" by code_simp
  moreover have "artifactValue (cq_fidelity (turn_request p)) Reasoning_encrypted_content ''rs_9'' = None"
    and "cq_continuation (turn_request (Some ''resp_1'')) = Some (aa_id turn_answer)" "aa_model turn_answer \<noteq> []" for p
    by (simp_all add: turn_request_def artifactValue_def turn_answer_def)
  ultimately show ?thesis
    using turn_remembered continuation_carries_turn [OF turn_remembered, of "turn_request (Some ''resp_1'')" "''rs_9''"]
    by (auto simp: or_else_def)
qed

text \<open>
  The artifacts of an answer ride along, but they are not demanded of the next provider: only those a client sends
  itself are. The retrieved answer has the assistant's turns of the whole conversation. An id the file name does not
  take makes the memory fail, after the answer was streamed.
\<close>

lemma returned_artifacts_not_required:
  "\<exists>store' next' env. rememberAggregated turn_env ''now'' Map.empty (turn_request None) turn_answer = Inr store'
    \<and> continuation_apply store' (turn_request (Some ''resp_1'')) = Inr next'
    \<and> cq_fidelity next' = Some env \<and> artifacts env \<noteq> [] \<and> required_kinds env = []"
proof -
  have "response_get (Map.empty(''resp_1'' := Some turn_stored)) ''resp_1'' = Inr (Some turn_stored)" by code_simp
  then show ?thesis
    using turn_remembered
    by (auto simp: continuation_apply_def turn_request_def mergeFidelity_def Let_def turn_stored_def)
qed

lemma odd_id_not_remembered:
  "rememberAggregated env now store req (turn_answer\<lparr>aa_id := ''gen:1''\<rparr>)
     = Inl (invalid_request ''previous_response_id is not a stored response id'')"
proof -
  have "fileFor ''gen:1'' = Inl (invalid_request ''previous_response_id is not a stored response id'')" by code_simp
  then show ?thesis by (simp add: rememberAggregated_def response_put_def)
qed

end
