(* ===== verification/Provider_Transport.thy ===== *)
theory Provider_Transport
  imports Responses_Continuation
begin

text \<open>
  What the provider adapters share: the reader of server-sent events and its frames, the stamping of
  canonical events, and the failure of a request before an answer (\<^verbatim>\<open>src/providers/direct/openai-responses-adapter.ts\<close>
  and \<^verbatim>\<open>openai-chat-adapter.ts\<close>). Text arrives decoded, in chunks of any size.
\<close>

section \<open>Server-sent events\<close>

text \<open>The blank line of the reader's regular expression at the start of a text: what is left after it.\<close>

definition eat_newline :: "string \<Rightarrow> string option" where
  "eat_newline s =
     (case s of
        [] \<Rightarrow> None
      | c # r \<Rightarrow>
          if c = CHR 0x0A then Some r
          else if c = CHR 0x0D then (case r of d # r' \<Rightarrow> if d = CHR 0x0A then Some r' else None | [] \<Rightarrow> None)
          else None)"

definition eat_blank :: "string \<Rightarrow> string option" where
  "eat_blank s = Option.bind (eat_newline s) eat_newline"

definition add_char :: "char \<Rightarrow> string list \<Rightarrow> string list" where
  "add_char c bs = (case bs of [] \<Rightarrow> [[c]] | b # rest \<Rightarrow> (c # b) # rest)"

lemma eat_newline_shorter: "eat_newline s = Some r \<Longrightarrow> length r < length s"
  by (auto simp: eat_newline_def split: list.splits if_splits)

lemma eat_blank_shorter: "eat_blank s = Some r \<Longrightarrow> length r < length s"
  by (auto simp: eat_blank_def bind_eq_Some_conv dest!: eat_newline_shorter)

function split_blocks :: "string \<Rightarrow> string list" where
  "split_blocks s =
     (case s of
        [] \<Rightarrow> [[]]
      | c # rest \<Rightarrow>
          (case eat_blank s of
             Some r \<Rightarrow> [] # split_blocks r
           | None \<Rightarrow> add_char c (split_blocks rest)))"
  by pat_completeness auto
termination by (relation "measure length") (auto dest: eat_blank_shorter)

declare split_blocks.simps [simp del]

text \<open>The reader: the text still buffered, and the complete blocks so far.\<close>

definition feed :: "string list \<times> string \<Rightarrow> string \<Rightarrow> string list \<times> string" where
  "feed st chunk = (let parts = split_blocks (snd st @ chunk) in (fst st @ butlast parts, last parts))"

definition read_stream :: "string list \<Rightarrow> string list" where
  "read_stream chunks = fst (foldl feed ([], []) chunks)"

fun split_lines :: "string \<Rightarrow> string list" where
  "split_lines [] = [[]]"
| "split_lines (c # s) =
     (if c = CHR 0x0A then [] # split_lines s
      else if c = CHR 0x0D \<and> s \<noteq> [] \<and> hd s = CHR 0x0A then split_lines s
      else add_char c (split_lines s))"

definition event_line :: "string \<Rightarrow> string option" where
  "event_line line = (if starts_with line ''event:'' then Some (js_trim (drop 6 line)) else None)"

definition data_line :: "string \<Rightarrow> string option" where
  "data_line line = (if starts_with line ''data:'' then Some (dropWhile is_js_space (drop 5 line)) else None)"

definition block_event :: "string \<Rightarrow> string option" where
  "block_event block = (case rev (List.map_filter event_line (split_lines block)) of [] \<Rightarrow> None | e # _ \<Rightarrow> Some e)"

definition block_data :: "string \<Rightarrow> string" where
  "block_data block = join_lines (List.map_filter data_line (split_lines block))"

section \<open>How the chunks are cut does not matter\<close>

lemma eat_newline_simps [simp]:
  "eat_newline [] = None"
  "eat_newline [c] = (if c = CHR 0x0A then Some [] else None)"
  "eat_newline (c # d # r) =
     (if c = CHR 0x0A then Some (d # r) else if c = CHR 0x0D \<and> d = CHR 0x0A then Some r else None)"
  by (simp_all add: eat_newline_def)

lemma eat_newline_iff: "eat_newline s = Some r \<longleftrightarrow> s = CHR 0x0A # r \<or> s = CHR 0x0D # CHR 0x0A # r"
  by (auto simp: eat_newline_def split: list.splits if_splits)

lemma eat_newline_append: "eat_newline s = Some r \<Longrightarrow> eat_newline (s @ t) = Some (r @ t)"
  by (auto simp: eat_newline_iff)

lemma eat_newline_later:
  assumes none: "eat_newline s = None" and later: "eat_newline (s @ t) = Some r"
  shows "s = [] \<or> s = [CHR 0x0D]"
proof (cases s)
  case (Cons c q)
  have "q = []"
  proof (rule ccontr)
    assume "q \<noteq> []"
    then obtain d q' where "q = d # q'" by (cases q) auto
    then show False using none later Cons by (simp split: if_splits)
  qed
  moreover have "c = CHR 0x0D" using none later Cons \<open>q = []\<close> by (auto simp: eat_newline_iff split: if_splits)
  ultimately show ?thesis using Cons by simp
qed simp

lemma eat_blank_append: "eat_blank s = Some r \<Longrightarrow> eat_blank (s @ t) = Some (r @ t)"
  using eat_newline_append by (fastforce simp: eat_blank_def bind_eq_Some_conv)

lemma split_blocks_Nil [simp]: "split_blocks [] = [[]]"
  by (simp add: split_blocks.simps)

lemma split_blocks_Cons:
  "split_blocks (c # s) = (case eat_blank (c # s) of Some r \<Rightarrow> [] # split_blocks r | None \<Rightarrow> add_char c (split_blocks s))"
  by (simp add: split_blocks.simps [of "c # s"])

lemma split_not_empty [simp]: "split_blocks s \<noteq> []"
  by (cases s) (auto simp: split_blocks_Cons add_char_def split: list.splits option.splits)

lemma split_single: "split_blocks s = [b] \<Longrightarrow> b = s"
proof (induction s arbitrary: b)
  case (Cons c s)
  then show ?case by (auto simp: split_blocks_Cons add_char_def split: list.splits option.splits)
qed simp

lemma eat_blank_later:
  assumes "eat_blank s = None" and "eat_blank (s @ t) = Some r"
  shows "split_blocks s = [s]"
proof -
  have parts: "s = [] \<or> s = [CHR 0x0D] \<or> (\<exists>q. (s = CHR 0x0A # q \<or> s = CHR 0x0D # CHR 0x0A # q) \<and> (q = [] \<or> q = [CHR 0x0D]))"
  proof (cases "eat_newline s")
    case None
    then show ?thesis using assms(2) eat_newline_later [OF None] by (auto simp: eat_blank_def bind_eq_Some_conv)
  next
    case (Some q)
    then have "eat_newline q = None" "eat_newline (q @ t) = Some r"
      using assms eat_newline_append [OF Some, of t] by (auto simp: eat_blank_def bind_eq_Some_conv)
    then have "q = [] \<or> q = [CHR 0x0D]" by (rule eat_newline_later)
    moreover have "s = CHR 0x0A # q \<or> s = CHR 0x0D # CHR 0x0A # q"
      using Some by (simp add: eat_newline_iff)
    ultimately show ?thesis by blast
  qed
  then show ?thesis
    by (auto simp: split_blocks_Cons eat_blank_def add_char_def)
qed

lemma split_append: "split_blocks (s @ t) = butlast (split_blocks s) @ split_blocks (last (split_blocks s) @ t)"
proof (induction s rule: length_induct)
  case (1 s)
  show ?case
  proof (cases s)
    case (Cons c s')
    show ?thesis
    proof (cases "eat_blank s")
      case (Some r)
      then have "split_blocks (r @ t) = butlast (split_blocks r) @ split_blocks (last (split_blocks r) @ t)"
        using 1 eat_blank_shorter by blast
      then show ?thesis
        using Some Cons eat_blank_append [OF Some, of t] by (simp add: split_blocks_Cons)
    next
      case None
      show ?thesis
      proof (cases "eat_blank (s @ t)")
        case (Some r)
        then show ?thesis using eat_blank_later [OF None] by simp
      next
        case none: None
        obtain b bs where parts: "split_blocks s' = b # bs" using split_not_empty by (meson neq_Nil_conv)
        have IH: "split_blocks (s' @ t) = butlast (split_blocks s') @ split_blocks (last (split_blocks s') @ t)"
          using 1 Cons by simp
        have whole: "split_blocks s = (c # b) # bs" "split_blocks (s @ t) = add_char c (split_blocks (s' @ t))"
          using None none Cons parts by (simp_all add: split_blocks_Cons add_char_def)
        show ?thesis
        proof (cases "bs = []")
          case True
          then have "b = s'" using parts split_single by blast
          then show ?thesis using whole(1) True Cons by simp
        next
          case False
          then show ?thesis using whole IH parts by (simp add: add_char_def)
        qed
      qed
    qed
  qed simp
qed

lemma split_rest: "split_blocks (last (split_blocks s)) = [last (split_blocks s)]"
proof -
  have "butlast (split_blocks s) @ split_blocks (last (split_blocks s)) = butlast (split_blocks s) @ [last (split_blocks s)]"
    by (metis append_Nil2 append_butlast_last_id split_append split_not_empty)
  then show ?thesis by (simp only: same_append_eq)
qed

lemma fold_feed:
  "split_blocks rest = [rest] \<Longrightarrow>
     foldl feed (bs, rest) chunks =
       (bs @ butlast (split_blocks (rest @ concat chunks)), last (split_blocks (rest @ concat chunks)))"
proof (induction chunks arbitrary: bs rest)
  case (Cons chunk chunks)
  let ?parts = "split_blocks (rest @ chunk)"
  have "split_blocks (rest @ chunk @ concat chunks) = butlast ?parts @ split_blocks (last ?parts @ concat chunks)"
    using split_append [of "rest @ chunk" "concat chunks"] by simp
  then show ?case
    using Cons.IH [OF split_rest, of "bs @ butlast ?parts" "rest @ chunk"]
    by (simp add: feed_def Let_def butlast_append)
qed simp

text \<open>C23: what the adapters read does not depend on how the network cuts the stream. For every way to cut the text into
  chunks, inside a line, a line end or a blank line, the complete blocks read are those of the whole text, in order:
  every piece between blank lines but the last.\<close>

theorem chunking_is_irrelevant: "read_stream chunks = butlast (split_blocks (concat chunks))"
  by (simp add: read_stream_def fold_feed)

end
