(* ===== verification/Responses_Rail.thy ===== *)
theory Responses_Rail
  imports Provider_Transport
begin

text \<open>
  The rail to a provider that speaks the Responses protocol
  (\<^verbatim>\<open>src/providers/direct/openai-responses-adapter.ts\<close>): the payload of a request and the canonical events of
  an answer. Indices and token counts of a provider are natural numbers, the text of a part is a string;
  the clock stamps the events, by their sequence number.
\<close>

section \<open>The payload\<close>

definition textOf :: "canonical_content list \<Rightarrow> string" where
  "textOf content = join_lines (List.map_filter (\<lambda>c. case c of Text_part s \<Rightarrow> Some s | _ \<Rightarrow> None) content)"

definition toolChoiceOf :: "canonical_tool_choice \<Rightarrow> json" where
  "toolChoiceOf choice =
     (case choice of
        Choice_auto \<Rightarrow> JStr ''auto''
      | Choice_none \<Rightarrow> JStr ''none''
      | Choice_any \<Rightarrow> JStr ''required''
      | Choice_tool nm \<Rightarrow> JObj [(''type'', JStr ''function''), (''name'', JStr nm)])"

definition role_text :: "message_role \<Rightarrow> string" where
  "role_text r = (if r = User_role then ''user'' else ''assistant'')"

definition message_item :: "message_role \<Rightarrow> json \<Rightarrow> json" where
  "message_item r part =
     JObj [(''type'', JStr ''message''), (''role'', JStr (role_text r)), (''content'', JArr [part])]"

definition input_of_content ::
  "codec_env \<Rightarrow> fidelity_envelope option \<Rightarrow> message_role \<Rightarrow> canonical_content \<Rightarrow> json list" where
  "input_of_content env fid r c =
     (case c of
        Text_part s \<Rightarrow>
          [message_item r (JObj [(''type'', JStr (if r = Assistant_role then ''output_text'' else ''input_text'')), (''text'', JStr s)])]
      | Image_part m d \<Rightarrow>
          [message_item r (JObj [(''type'', JStr ''input_image''), (''image_url'', JStr (''data:'' @ m @ '';base64,'' @ d))])]
      | Tool_call_part i nm input \<Rightarrow>
          [JObj [(''type'', JStr ''function_call''), (''call_id'', JStr i), (''name'', JStr nm), (''arguments'', JStr (ce_text env input))]]
      | Tool_result_part i content _ \<Rightarrow>
          [JObj [(''type'', JStr ''function_call_output''), (''call_id'', JStr i), (''output'', JStr (textOf content))]]
      | Reasoning_part s i \<Rightarrow>
          [JObj ([(''type'', JStr ''reasoning'')] @ opt_field ''id'' JStr i
             @ [(''summary'', JArr [JObj [(''type'', JStr ''summary_text''), (''text'', JStr s)]])]
             @ opt_field ''encrypted_content'' JStr (Option.bind i (artifactValue fid Reasoning_encrypted_content)))]
      | Redacted_reasoning_part _ \<Rightarrow> [])"

definition responsesInput :: "codec_env \<Rightarrow> canonical_request \<Rightarrow> json list" where
  "responsesInput env req =
     concat (map (\<lambda>m. concat (map (input_of_content env (cq_fidelity req) (msg_role m)) (msg_content m))) (cq_messages req))"

definition RESPONSES_EFFORT_LEVELS :: "string list" where
  "RESPONSES_EFFORT_LEVELS = [''none'', ''low'', ''medium'', ''high'']"

text \<open>The native control of a translated intent; \<open>None\<close> where the payload has no \<open>reasoning\<close>.\<close>

fun control_effort :: "native_reasoning_control \<Rightarrow> string option" where
  "control_effort Ctl_off = Some ''none''"
| "control_effort Ctl_provider_default = None"
| "control_effort (Ctl_binary b) = Some (if b then ''medium'' else ''none'')"
| "control_effort (Ctl_effort l) = Some (if l \<in> set RESPONSES_EFFORT_LEVELS then l else ''medium'')"
| "control_effort (Ctl_adaptive b) = (if b then Some ''medium'' else None)"
| "control_effort (Ctl_budget _) = Some ''medium''"

definition rail_effort :: "canonical_request \<Rightarrow> resolved_reasoning option \<Rightarrow> string option" where
  "rail_effort req resolved =
     (let own = (case inf_reasoning (cq_inference req) of
                   Some r \<Rightarrow> if explicit r then r_if (\<lambda>e. e \<in> set RESPONSES_EFFORT_LEVELS) (sourceEffort r) else None
                 | None \<Rightarrow> None)
      in if own \<noteq> None then own else Option.bind resolved (\<lambda>res. control_effort (effective_control res)))"

definition tool_json :: "canonical_tool \<Rightarrow> json" where
  "tool_json t =
     JObj ([(''type'', JStr ''function''), (''name'', JStr (tool_name t))] @ opt_field ''description'' JStr (tool_description t)
       @ opt_field ''parameters'' id (if json_keys (tool_inputSchema t) = [] then None else Some (tool_inputSchema t)))"

definition some_if :: "bool \<Rightarrow> 'a \<Rightarrow> 'a option" where
  "some_if b x = (if b then Some x else None)"

definition has_artifacts :: "fidelity_envelope option \<Rightarrow> bool" where
  "has_artifacts fid = (case fid of None \<Rightarrow> False | Some e \<Rightarrow> artifacts e \<noteq> [])"

definition responsesPayload :: "codec_env \<Rightarrow> canonical_request \<Rightarrow> resolved_reasoning option \<Rightarrow> json" where
  "responsesPayload env req resolved =
     JObj ([(''model'', JStr (cq_requestedModel req)), (''input'', JArr (responsesInput env req))]
       @ opt_field ''instructions'' JStr (some_if (cq_system req \<noteq> []) (textOf (cq_system req)))
       @ opt_field ''tools'' JArr (some_if (cq_tools req \<noteq> []) (map tool_json (cq_tools req)))
       @ opt_field ''tool_choice'' toolChoiceOf (cq_toolChoice req)
       @ [(''stream'', JBool (cq_stream req))]
       @ opt_field ''previous_response_id'' JStr (cq_continuation req)
       @ opt_field ''max_output_tokens'' jint (inf_maxOutputTokens (cq_inference req))
       @ opt_field ''temperature'' JNum (inf_temperature (cq_inference req))
       @ opt_field ''top_p'' JNum (inf_topP (cq_inference req))
       @ opt_field ''reasoning'' (\<lambda>e. JObj [(''effort'', JStr e)]) (rail_effort req resolved)
       @ opt_field ''store'' JBool (cq_store req)
       @ opt_field ''include'' (\<lambda>xs. JArr (map JStr xs))
           (some_if (cq_include req \<noteq> None \<or> has_artifacts (cq_fidelity req))
              (get_or [''reasoning.encrypted_content''] (cq_include req))))"

section \<open>The answer\<close>

record rail_state =
  rs_sequence :: nat
  rs_started :: bool
  rs_terminal :: bool
  rs_open :: "nat list"
  rs_toolNames :: "(nat \<times> string) list"
  rs_artifacts :: "opaque_artifact list"
  rs_commitment :: commitment_state
  rs_out :: "canonical_event list"

definition rail_start :: rail_state where
  "rail_start =
     \<lparr>rs_sequence = 0, rs_started = False, rs_terminal = False, rs_open = [], rs_toolNames = [], rs_artifacts = [],
      rs_commitment = Provider_accepted, rs_out = []\<rparr>"

definition stamp :: "canonical_request \<Rightarrow> route_decision \<Rightarrow> (nat \<Rightarrow> date_text) \<Rightarrow> nat \<Rightarrow> event_base" where
  "stamp req decision clock n =
     \<lparr>ev_requestId = cq_id req, ev_sequence = n, ev_timestamp = clock n, ev_providerId = rd_providerId decision,
      ev_modelId = rd_modelId decision\<rparr>"

definition emit :: "(nat \<Rightarrow> event_base) \<Rightarrow> (event_base \<Rightarrow> canonical_event) \<Rightarrow> rail_state \<Rightarrow> rail_state" where
  "emit st_of f s = s\<lparr>rs_sequence := Suc (rs_sequence s), rs_out := rs_out s @ [f (st_of (rs_sequence s))]\<rparr>"

definition record_field :: "json \<Rightarrow> string \<Rightarrow> json option" where
  "record_field j key = Option.bind (json_field j key) r_obj"

definition number_or :: "json option \<Rightarrow> nat \<Rightarrow> nat" where
  "number_or v fallback = (case v of Some (JNum n) \<Rightarrow> nat \<lfloor>n\<rfloor> | _ \<Rightarrow> fallback)"

definition part_texts :: "json \<Rightarrow> string list" where
  "part_texts item =
     List.map_filter (\<lambda>p. if str_field p ''type'' = Some ''output_text'' then non_empty (str_field p ''text'') else None)
       (arr_field item ''content'')"

definition reasoningSummary :: "json \<Rightarrow> string list" where
  "reasoningSummary item = List.map_filter (\<lambda>p. non_empty (str_field p ''text'')) (arr_field item ''summary'')"

definition captureReasoningArtifact :: "json \<Rightarrow> rail_state \<Rightarrow> rail_state" where
  "captureReasoningArtifact item s =
     (case item_artifact item of
        Some a \<Rightarrow> if a \<in> set (rs_artifacts s) then s else s\<lparr>rs_artifacts := rs_artifacts s @ [a]\<rparr>
      | None \<Rightarrow> s)"

definition outputItems :: "json option \<Rightarrow> json list" where
  "outputItems response = (case response of None \<Rightarrow> [] | Some r \<Rightarrow> filter is_json_object (arr_field r ''output''))"

definition stopReasonOf :: "json option \<Rightarrow> string" where
  "stopReasonOf response =
     (case Option.bind response (\<lambda>r. record_field r ''incomplete_details'') of
        Some d \<Rightarrow>
          (if str_field d ''reason'' = Some ''max_output_tokens'' then ''max_tokens''
           else if str_field d ''reason'' = Some ''content_filter'' then ''content_filter'' else ''incomplete'')
      | None \<Rightarrow> if Option.bind response (\<lambda>r. str_field r ''status'') = Some ''incomplete'' then ''incomplete'' else ''end_turn'')"

definition tool_fallback :: "nat \<Rightarrow> string" where
  "tool_fallback index = ''tool-'' @ show_nat index"

text \<open>The events of an output item when it is added; in a stream its block stays open.\<close>

definition item_events :: "(nat \<Rightarrow> event_base) \<Rightarrow> nat \<Rightarrow> json \<Rightarrow> string \<Rightarrow> rail_state \<Rightarrow> rail_state" where
  "item_events st_of index item ty s =
     (let assigned = str_field item ''id'' in
      if ty = ''message''
      then foldl (\<lambda>s t. emit st_of (\<lambda>b. Text_delta b index t) s)
             (emit st_of (\<lambda>b. Content_started b index Text_content None None assigned) s) (part_texts item)
      else if ty = ''reasoning''
      then foldl (\<lambda>s t. emit st_of (\<lambda>b. Reasoning_delta b index t) s)
             (captureReasoningArtifact item (emit st_of (\<lambda>b. Content_started b index Reasoning_content None None assigned) s))
             (reasoningSummary item)
      else if ty = ''function_call''
      then let callId = get_or (get_or (tool_fallback index) assigned) (str_field item ''call_id'');
               nm = get_or ''tool'' (str_field item ''name'');
               s' = emit st_of (\<lambda>b. Content_started b index Tool_call_content (Some callId) (Some nm) assigned)
                      (s\<lparr>rs_toolNames := AList.update index nm (rs_toolNames s)\<rparr>)
           in case non_empty (str_field item ''arguments'') of
                Some args \<Rightarrow> emit st_of (\<lambda>b. Tool_arguments_delta b index callId args) s'
              | None \<Rightarrow> s'
      else s)"

definition flush_artifacts :: "(nat \<Rightarrow> event_base) \<Rightarrow> rail_state \<Rightarrow> rail_state" where
  "flush_artifacts st_of s =
     (if rs_artifacts s = [] then s
      else (emit st_of (\<lambda>b. Fidelity_artifacts b (rs_artifacts s)) s)\<lparr>rs_artifacts := []\<rparr>)"

definition token_count :: "json option \<Rightarrow> string \<Rightarrow> nat option" where
  "token_count usage key =
     (case Option.bind usage (\<lambda>u. json_field u key) of Some (JNum n) \<Rightarrow> Some (nat \<lfloor>n\<rfloor>) | _ \<Rightarrow> None)"

definition finish_events :: "(nat \<Rightarrow> event_base) \<Rightarrow> json option \<Rightarrow> rail_state \<Rightarrow> rail_state" where
  "finish_events st_of response s =
     (let usage = Option.bind response (\<lambda>r. record_field r ''usage'')
      in emit st_of (\<lambda>b. Response_completed b (stopReasonOf response))
           (emit st_of (\<lambda>b. Usage_updated b (token_count usage ''input_tokens'') (token_count usage ''output_tokens''))
              (flush_artifacts st_of s)))"

definition error_of_record :: "json \<Rightarrow> string \<Rightarrow> string \<times> string option \<times> string" where
  "error_of_record err fallback =
     (get_or (get_or ''api_error'' (str_field err ''type'')) (str_field err ''code''), str_field err ''type'',
      get_or fallback (str_field err ''message''))"

definition rail_error :: "rail_state \<Rightarrow> string \<times> string option \<times> string \<Rightarrow> provider_adapter_error" where
  "rail_error s e =
     (case e of (code, ty, message) \<Rightarrow>
        providerFailure code
          (Some \<lparr>pei_statusCode = 502, pei_code = code, pei_type = ty, pei_message = message, pei_param = None,
                 pei_retryAfterSeconds = None, pei_rateLimit = None\<rparr>)
          (rs_commitment s) message)"

definition plain_failure :: "rail_state \<Rightarrow> string \<Rightarrow> provider_adapter_error" where
  "plain_failure s message = providerFailure ''api_error'' None (rs_commitment s) message"

datatype sse_frame = Bad_frame | Frame "string option" json

definition frame_of_block :: "(string \<Rightarrow> json option) \<Rightarrow> string \<Rightarrow> sse_frame option" where
  "frame_of_block json_parse block =
     (let data = block_data block in
      if data = [] then None
      else Some (case json_parse data of
                   None \<Rightarrow> Bad_frame
                 | Some j \<Rightarrow> Frame (block_event block) (if is_json_object j then j else JObj [])))"

definition open_block ::
  "(nat \<Rightarrow> event_base) \<Rightarrow> nat \<Rightarrow> (event_base \<Rightarrow> canonical_event) \<Rightarrow> rail_state \<Rightarrow> rail_state" where
  "open_block st_of index started s =
     (if index \<in> set (rs_open s) then s else emit st_of started (s\<lparr>rs_open := List.insert index (rs_open s)\<rparr>))"

definition delta_event ::
  "(nat \<Rightarrow> event_base) \<Rightarrow> json \<Rightarrow> (string \<Rightarrow> event_base \<Rightarrow> canonical_event) \<Rightarrow> rail_state \<Rightarrow> rail_state" where
  "delta_event st_of data f s = (case str_field data ''delta'' of Some d \<Rightarrow> emit st_of (f d) s | None \<Rightarrow> s)"

definition frame_type :: "string option \<Rightarrow> json \<Rightarrow> string" where
  "frame_type ev data = get_or (get_or [] ev) (str_field data ''type'')"

definition rail_added :: "(nat \<Rightarrow> event_base) \<Rightarrow> json \<Rightarrow> rail_state \<Rightarrow> rail_state" where
  "rail_added st_of data s =
     (let item = record_field data ''item'';
          index = number_or (json_field data ''output_index'') (length (rs_open s));
          s' = s\<lparr>rs_open := List.insert index (rs_open s)\<rparr>;
          ty = get_or ''message'' (Option.bind item (\<lambda>i. str_field i ''type''))
      in item_events st_of index (get_or (JObj []) item) ty
           (if ty = ''function_call'' then s'\<lparr>rs_commitment := Tool_boundary\<rparr> else s'))"

definition rail_frame ::
  "(nat \<Rightarrow> event_base) \<Rightarrow> rail_state \<Rightarrow> sse_frame \<Rightarrow> rail_state \<times> provider_adapter_error option" where
  "rail_frame st_of s frame =
     (case frame of
        Bad_frame \<Rightarrow> (s, Some (plain_failure s ''Provider returned a malformed stream frame''))
      | Frame ev data \<Rightarrow>
          (let ty = frame_type ev data;
               index = number_or (json_field data ''output_index'') 0;
               response = record_field data ''response''
           in if ty = ''response.created'' \<or> ty = ''response.in_progress''
              then if rs_started s then (s, None)
                   else (emit st_of (\<lambda>b. Response_started b
                            (get_or ''provider-response'' (Option.bind response (\<lambda>r. str_field r ''id'')))) (s\<lparr>rs_started := True\<rparr>), None)
              else if ty = ''response.output_item.added'' then (rail_added st_of data s, None)
              else if ty = ''response.output_text.delta''
              then (delta_event st_of data (\<lambda>d b. Text_delta b index d)
                      (open_block st_of index (\<lambda>b. Content_started b index Text_content None None None) s), None)
              else if ty = ''response.reasoning_summary_text.delta''
              then (delta_event st_of data (\<lambda>d b. Reasoning_delta b index d)
                      (open_block st_of index (\<lambda>b. Content_started b index Reasoning_content None None None) s), None)
              else if ty = ''response.function_call_arguments.delta''
              then (let nm = get_or ''tool'' (map_of (rs_toolNames s) index);
                        callId = get_or (tool_fallback index) (str_field data ''item_id'');
                        s' = (if index \<in> set (rs_open s) then s else s\<lparr>rs_commitment := Tool_boundary\<rparr>)
                    in (delta_event st_of data (\<lambda>d b. Tool_arguments_delta b index callId d)
                          (open_block st_of index (\<lambda>b. Content_started b index Tool_call_content (Some callId) (Some nm) None) s'), None))
              else if ty = ''response.output_item.done''
              then (if index \<in> set (rs_open s)
                    then emit st_of (\<lambda>b. Content_completed b index) (s\<lparr>rs_open := removeAll index (rs_open s)\<rparr>) else s, None)
              else if ty = ''response.completed''
              then ((finish_events st_of response
                       (foldl (\<lambda>s i. captureReasoningArtifact i s) (s\<lparr>rs_terminal := True\<rparr>) (outputItems response)))
                      \<lparr>rs_started := True\<rparr>, None)
              else if ty = ''response.failed''
              then (let s' = flush_artifacts st_of
                      (foldl (\<lambda>s i. captureReasoningArtifact i s) (s\<lparr>rs_terminal := True\<rparr>) (outputItems response));
                        err = get_or (JObj []) (or_else (Option.bind response (\<lambda>r. record_field r ''error'')) response)
                    in (s', Some (rail_error s' (error_of_record err ''Provider response failed''))))
              else if ty = ''error''
              then (s, Some (rail_error s (error_of_record (get_or data (record_field data ''error'')) ''Provider stream error'')))
              else (s, None)))"

fun rail_run ::
  "(nat \<Rightarrow> event_base) \<Rightarrow> rail_state \<Rightarrow> sse_frame list \<Rightarrow> rail_state \<times> provider_adapter_error option" where
  "rail_run st_of s [] =
     (s, if \<not> rs_started s then Some (plain_failure s ''Provider stream ended before a response started'')
         else if \<not> rs_terminal s then Some (plain_failure s ''Provider stream ended without a terminal response'')
         else None)"
| "rail_run st_of s (frame # frames) =
     (case rail_frame st_of s frame of (s', Some e) \<Rightarrow> (s', Some e) | (s', None) \<Rightarrow> rail_run st_of s' frames)"

fun rail_items :: "(nat \<Rightarrow> event_base) \<Rightarrow> nat \<Rightarrow> json list \<Rightarrow> rail_state \<Rightarrow> rail_state" where
  "rail_items st_of index [] s = s"
| "rail_items st_of index (item # items) s =
     (let ty = get_or [] (str_field item ''type'') in
      rail_items st_of (Suc index) items
        (if ty \<in> {''message'', ''reasoning'', ''function_call''}
         then emit st_of (\<lambda>b. Content_completed b index) (item_events st_of index item ty s) else s))"

definition decodeNonStreaming :: "(nat \<Rightarrow> event_base) \<Rightarrow> json option \<Rightarrow> rail_state \<times> provider_adapter_error option" where
  "decodeNonStreaming st_of answer =
     (case answer of
        None \<Rightarrow> (rail_start, Some (rail_error rail_start (''api_error'', None, ''Provider returned a malformed response body'')))
      | Some j \<Rightarrow>
          (let body = (if is_json_object j then j else JObj []);
               s = emit st_of (\<lambda>b. Response_started b (get_or ''provider-response'' (str_field body ''id''))) (rail_start\<lparr>rs_started := True\<rparr>)
           in (finish_events st_of (Some body) (rail_items st_of 0 (outputItems (Some body)) s), None)))"


section \<open>The invocation\<close>

text \<open>What the request to the provider came to: no answer, with the code of the cause and whether the timeout fired while
  the client was there; a failure status; a stream, if it has a body; a body, if it is JSON.\<close>

datatype provider_answer =
    No_answer "string option" bool
  | Http_failure int provider_error_info
  | Stream_answer "string list option"
  | Json_answer "json option"

definition CONNECTION_LEVEL_CODES :: "string list" where
  "CONNECTION_LEVEL_CODES =
     [''ECONNREFUSED'', ''ENOTFOUND'', ''EHOSTUNREACH'', ''ENETUNREACH'', ''EAI_AGAIN'', ''ECONNRESET'']"

definition connection_commitment :: "string option \<Rightarrow> commitment_state" where
  "connection_commitment cause =
     (case cause of Some c \<Rightarrow> if c \<in> set CONNECTION_LEVEL_CODES then Not_sent else Unknown_commitment | None \<Rightarrow> Unknown_commitment)"

definition artifact_kind_text :: "opaque_artifact_kind \<Rightarrow> string" where
  "artifact_kind_text k =
     (case k of Thinking_signature \<Rightarrow> ''anthropic-thinking-signature''
      | Reasoning_encrypted_content \<Rightarrow> ''openai-reasoning-encrypted-content'')"

fun join_comma :: "string list \<Rightarrow> string" where
  "join_comma [] = []"
| "join_comma [x] = x"
| "join_comma (x # xs) = x @ '', '' @ join_comma xs"

definition rail_invoke ::
  "(string \<Rightarrow> json option) \<Rightarrow> canonical_request \<Rightarrow> route_decision \<Rightarrow> (nat \<Rightarrow> date_text) \<Rightarrow> provider_answer
   \<Rightarrow> canonical_event list \<times> provider_adapter_error option" where
  "rail_invoke json_parse req decision clock answer =
     (let unsupported = unsupportedRequiredArtifacts (cq_fidelity req) [Reasoning_encrypted_content];
          st_of = stamp req decision clock
      in if unsupported \<noteq> []
         then ([], Some (providerFailure ''unsupported-fidelity'' None Unknown_commitment
                (''The Responses rail cannot preserve required continuation artifact: ''
                 @ join_comma (map artifact_kind_text unsupported))))
         else case answer of
             No_answer cause timed_out \<Rightarrow>
               ([], Some (if timed_out then providerFailure ''timeout_error'' None Unknown_commitment ''Provider request timed out''
                          else providerFailure ''api_error'' None (connection_commitment cause) ''Provider request failed''))
           | Http_failure status info \<Rightarrow>
               ([], Some (providerFailure (pei_code info) (Some info) (commitmentForHttpFailure status) (pei_message info)))
           | Json_answer j \<Rightarrow> (case decodeNonStreaming st_of j of (s, e) \<Rightarrow> (rs_out s, e))
           | Stream_answer None \<Rightarrow>
               ([], Some (rail_error rail_start (''api_error'', None, ''Provider stream has no body'')))
           | Stream_answer (Some chunks) \<Rightarrow>
               (case rail_run st_of rail_start (List.map_filter (frame_of_block json_parse) (read_stream chunks)) of
                  (s, e) \<Rightarrow> (rs_out s, e)))"

section \<open>What the rail emits can be encoded\<close>

text \<open>A frame with an item of a kind the rail reads, whose tool calls have an id and a name.\<close>

definition frame_known :: "sse_frame \<Rightarrow> bool" where
  "frame_known frame =
     (case frame of
        Bad_frame \<Rightarrow> True
      | Frame ev data \<Rightarrow>
          (if frame_type ev data = ''response.output_item.added''
           then let item = record_field data ''item''; ty = get_or ''message'' (Option.bind item (\<lambda>i. str_field i ''type''))
                in ty \<in> {''message'', ''reasoning'', ''function_call''}
                   \<and> (ty = ''function_call'' \<longrightarrow>
                        get_or (tool_fallback 0) (or_else (str_field (get_or (JObj []) item) ''call_id'') (str_field (get_or (JObj []) item) ''id'')) \<noteq> []
                        \<and> str_field (get_or (JObj []) item) ''name'' \<noteq> Some [])
           else True)
          \<and> (if frame_type ev data = ''response.function_call_arguments.delta'' then str_field data ''item_id'' \<noteq> Some [] else True))"

definition rail_ok :: "(nat \<Rightarrow> event_base) \<Rightarrow> rail_state \<Rightarrow> bool" where
  "rail_ok st_of s \<longleftrightarrow> items_ok (rs_out s) \<and> map event_head (rs_out s) = map st_of [0..<rs_sequence s]"

definition rail_inv :: "(nat \<Rightarrow> event_base) \<Rightarrow> rail_state \<Rightarrow> bool" where
  "rail_inv st_of s \<longleftrightarrow> rail_ok st_of s \<and> (\<forall>i. i \<in> set (rs_open s) \<longleftrightarrow> open_at (rs_out s) i \<noteq> None)
     \<and> list_all (\<lambda>(_, nm). nm \<noteq> []) (rs_toolNames s)"

lemma emit_fields [simp]:
  "rs_open (emit st_of f s) = rs_open s" "rs_toolNames (emit st_of f s) = rs_toolNames s"
  "rs_artifacts (emit st_of f s) = rs_artifacts s" "rs_started (emit st_of f s) = rs_started s"
  "rs_out (emit st_of f s) = rs_out s @ [f (st_of (rs_sequence s))]" "rs_sequence (emit st_of f s) = Suc (rs_sequence s)"
  by (simp_all add: emit_def)

lemma rail_ok_update [simp]:
  "rail_ok st_of (s\<lparr>rs_open := x\<rparr>) = rail_ok st_of s" "rail_ok st_of (s\<lparr>rs_toolNames := y\<rparr>) = rail_ok st_of s"
  "rail_ok st_of (s\<lparr>rs_artifacts := z\<rparr>) = rail_ok st_of s" "rail_ok st_of (s\<lparr>rs_commitment := c\<rparr>) = rail_ok st_of s"
  "rail_ok st_of (s\<lparr>rs_started := b\<rparr>) = rail_ok st_of s" "rail_ok st_of (s\<lparr>rs_terminal := b\<rparr>) = rail_ok st_of s"
  by (simp_all add: rail_ok_def)

lemma rail_inv_update [simp]:
  "rail_inv st_of (s\<lparr>rs_artifacts := z\<rparr>) = rail_inv st_of s" "rail_inv st_of (s\<lparr>rs_commitment := c\<rparr>) = rail_inv st_of s"
  "rail_inv st_of (s\<lparr>rs_started := b\<rparr>) = rail_inv st_of s" "rail_inv st_of (s\<lparr>rs_terminal := b\<rparr>) = rail_inv st_of s"
  by (simp_all add: rail_inv_def)

lemma emit_ok:
  "rail_ok st_of s \<Longrightarrow> event_head (f (st_of (rs_sequence s))) = st_of (rs_sequence s) \<Longrightarrow>
     item_ok (open_at (rs_out s)) (f (st_of (rs_sequence s))) \<Longrightarrow> rail_ok st_of (emit st_of f s)"
  by (simp add: rail_ok_def items_ok_snoc)

lemma emit_quiet:
  assumes "rail_inv st_of s" and "\<And>b. event_head (f b) = b" "\<And>b op. item_ok op (f b)" "\<And>i b. \<not> touches i (f b)"
  shows "rail_inv st_of (emit st_of f s)"
  using assms by (simp add: rail_inv_def emit_ok open_at_snoc)

lemma emit_start:
  assumes "rail_ok st_of s" and "\<forall>i. i \<in> set (rs_open s) \<longleftrightarrow> open_at (rs_out s) i \<noteq> None \<or> i = index"
    and "list_all (\<lambda>(_, nm). nm \<noteq> []) (rs_toolNames s)"
    and "ty = Tool_call_content \<Longrightarrow> non_empty x \<noteq> None \<and> non_empty y \<noteq> None"
  shows "rail_inv st_of (emit st_of (\<lambda>b. Content_started b index ty x y z) s)"
  using assms by (auto simp: rail_inv_def open_at_snoc intro!: emit_ok)

lemma emit_stop:
  assumes "rail_inv st_of s" and "index \<in> set (rs_open s)"
  shows "rail_inv st_of (emit st_of (\<lambda>b. Content_completed b index) (s\<lparr>rs_open := removeAll index (rs_open s)\<rparr>))"
  using assms by (auto simp: rail_inv_def open_at_snoc intro!: emit_ok)

lemma emit_all_quiet:
  assumes "rail_inv st_of s" and "\<And>t b. event_head (f t b) = b" "\<And>t b op. item_ok op (f t b)" "\<And>t i b. \<not> touches i (f t b)"
  shows "rail_inv st_of (foldl (\<lambda>s t. emit st_of (f t) s) s ts)"
  using assms(1) by (induction ts arbitrary: s) (auto intro!: emit_quiet assms)

lemma capture_inv [simp]: "rail_inv st_of (captureReasoningArtifact item s) = rail_inv st_of s"
  by (simp add: captureReasoningArtifact_def split: option.splits)

lemma capture_all_inv [simp]: "rail_inv st_of (foldl (\<lambda>s i. captureReasoningArtifact i s) s items) = rail_inv st_of s"
  by (induction items arbitrary: s) simp_all

lemma flush_inv: "rail_inv st_of s \<Longrightarrow> rail_inv st_of (flush_artifacts st_of s)"
  by (auto simp: flush_artifacts_def intro!: emit_quiet)

lemma finish_inv: "rail_inv st_of s \<Longrightarrow> rail_inv st_of (finish_events st_of response s)"
  by (auto simp: finish_events_def Let_def intro!: emit_quiet flush_inv)

lemma open_block_inv:
  assumes "rail_inv st_of s" and "ty = Tool_call_content \<Longrightarrow> non_empty x \<noteq> None \<and> non_empty y \<noteq> None"
  shows "rail_inv st_of (open_block st_of index (\<lambda>b. Content_started b index ty x y z) s)"
proof (cases "index \<in> set (rs_open s)")
  case True
  then show ?thesis using assms(1) by (simp add: open_block_def)
next
  case False
  have "rail_inv st_of (emit st_of (\<lambda>b. Content_started b index ty x y z) (s\<lparr>rs_open := List.insert index (rs_open s)\<rparr>))"
    using assms by (intro emit_start) (auto simp: rail_inv_def)
  then show ?thesis using False by (simp add: open_block_def)
qed

lemma delta_inv:
  assumes "rail_inv st_of s" and "\<And>t b. event_head (f t b) = b" "\<And>t b op. item_ok op (f t b)" "\<And>t i b. \<not> touches i (f t b)"
  shows "rail_inv st_of (delta_event st_of data f s)"
  using assms by (auto simp: delta_event_def split: option.splits intro!: emit_quiet)


lemma names_update: "list_all (\<lambda>(_, nm). nm \<noteq> []) al \<Longrightarrow> nm \<noteq> [] \<Longrightarrow> list_all (\<lambda>(_, nm). nm \<noteq> []) (AList.update i nm al)"
  by (auto simp: list_all_iff dest!: set_update_alist)

lemma name_known: "list_all (\<lambda>(_, nm). nm \<noteq> []) al \<Longrightarrow> get_or ''tool'' (map_of al i) \<noteq> []"
  by (cases "map_of al i") (auto simp: list_all_iff dest: map_of_SomeD)

lemma item_events_inv:
  assumes "rail_ok st_of s" and "\<forall>i. i \<in> set (rs_open s) \<longleftrightarrow> open_at (rs_out s) i \<noteq> None \<or> i = index"
    and "list_all (\<lambda>(_, nm). nm \<noteq> []) (rs_toolNames s)" and "ty \<in> {''message'', ''reasoning'', ''function_call''}"
    and "ty = ''function_call'' \<Longrightarrow>
      get_or (tool_fallback 0) (or_else (str_field item ''call_id'') (str_field item ''id'')) \<noteq> [] \<and> str_field item ''name'' \<noteq> Some []"
  shows "rail_inv st_of (item_events st_of index item ty s)"
proof -
  note start = emit_start [OF assms(1-3)]
  consider "ty = ''message''" | "ty = ''reasoning''" | "ty = ''function_call''" using assms(4) by blast
  then show ?thesis
  proof cases
    case 1
    then show ?thesis by (auto simp: item_events_def Let_def intro!: emit_all_quiet start)
  next
    case 2
    then show ?thesis by (auto simp: item_events_def Let_def intro!: emit_all_quiet start)
  next
    case 3
    let ?callId = "get_or (get_or (tool_fallback index) (str_field item ''id'')) (str_field item ''call_id'')"
    let ?nm = "get_or ''tool'' (str_field item ''name'')"
    have "?callId \<noteq> []" "?nm \<noteq> []"
      using assms(5) [OF 3] by (auto simp: or_else_def tool_fallback_def get_or_def split: option.splits)
    then have "rail_inv st_of (emit st_of (\<lambda>b. Content_started b index Tool_call_content (Some ?callId) (Some ?nm) (str_field item ''id''))
        (s\<lparr>rs_toolNames := AList.update index ?nm (rs_toolNames s)\<rparr>))"
      using assms(1-3) by (intro emit_start) (auto simp: non_empty_def names_update)
    then show ?thesis using 3 by (auto simp: item_events_def Let_def intro!: emit_quiet split: option.splits)
  qed
qed

lemma rail_added_inv:
  assumes "rail_inv st_of s" and "frame_known (Frame ev data)" and "frame_type ev data = ''response.output_item.added''"
  shows "rail_inv st_of (rail_added st_of data s)"
proof -
  let ?item = "record_field data ''item''"
  let ?ty = "get_or ''message'' (Option.bind ?item (\<lambda>i. str_field i ''type''))"
  have known: "?ty \<in> {''message'', ''reasoning'', ''function_call''}"
    "?ty = ''function_call'' \<Longrightarrow>
      get_or (tool_fallback 0) (or_else (str_field (get_or (JObj []) ?item) ''call_id'') (str_field (get_or (JObj []) ?item) ''id'')) \<noteq> []
      \<and> str_field (get_or (JObj []) ?item) ''name'' \<noteq> Some []"
    using assms(2,3) by (auto simp: frame_known_def Let_def)
  show ?thesis
    using assms(1) known unfolding rail_added_def Let_def by (intro item_events_inv) (auto simp: rail_inv_def)
qed

lemma rail_frame_inv:
  assumes "rail_inv st_of s" and "frame_known frame"
  shows "rail_inv st_of (fst (rail_frame st_of s frame))"
proof (cases frame)
  case (Frame ev data)
  have args: "frame_type ev data = ''response.function_call_arguments.delta'' \<Longrightarrow> str_field data ''item_id'' \<noteq> Some []"
    using assms(2) Frame by (simp add: frame_known_def)
  have "frame_type ev data = ''response.function_call_arguments.delta'' \<Longrightarrow>
      get_or (tool_fallback i) (str_field data ''item_id'') \<noteq> []" for i
    using args by (auto simp: tool_fallback_def get_or_def split: option.splits)
  moreover have "get_or ''tool'' (map_of (rs_toolNames s) i) \<noteq> []" for i
    using assms(1) name_known [of "rs_toolNames s" i] by (simp add: rail_inv_def)
  ultimately have call: "frame_type ev data = ''response.function_call_arguments.delta'' \<Longrightarrow>
      rail_inv st_of s' \<Longrightarrow> rail_inv st_of (open_block st_of i (\<lambda>b. Content_started b i Tool_call_content
        (Some (get_or (tool_fallback i) (str_field data ''item_id''))) (Some (get_or ''tool'' (map_of (rs_toolNames s) i))) None) s')"
    for i s' by (intro open_block_inv) (simp_all add: non_empty_def)
  note known = assms(2) [unfolded Frame]
  have quiet: "fst (rail_frame st_of s frame) = s"
    if "frame_type ev data \<notin> {''response.created'', ''response.in_progress'', ''response.output_item.added'',
      ''response.output_text.delta'', ''response.reasoning_summary_text.delta'', ''response.function_call_arguments.delta'',
      ''response.output_item.done'', ''response.completed'', ''response.failed''}"
    using that Frame by (simp add: rail_frame_def Let_def)
  consider (start) "frame_type ev data = ''response.created'' \<or> frame_type ev data = ''response.in_progress''"
    | (added) "frame_type ev data = ''response.output_item.added''"
    | (texts) "frame_type ev data = ''response.output_text.delta''"
    | (reasoning) "frame_type ev data = ''response.reasoning_summary_text.delta''"
    | (arguments) "frame_type ev data = ''response.function_call_arguments.delta''"
    | (finished) "frame_type ev data = ''response.output_item.done''"
    | (completed) "frame_type ev data = ''response.completed''"
    | (failed) "frame_type ev data = ''response.failed''"
    | (other) "fst (rail_frame st_of s frame) = s"
    using quiet by blast
  then show ?thesis
  proof cases
    case start
    then show ?thesis using assms(1) Frame by (auto simp: rail_frame_def Let_def intro!: emit_quiet)
  next
    case added
    then show ?thesis using rail_added_inv [OF assms(1) known added] Frame by (simp add: rail_frame_def Let_def)
  next
    case texts
    then show ?thesis using assms(1) Frame by (auto simp: rail_frame_def Let_def intro!: delta_inv open_block_inv)
  next
    case reasoning
    then show ?thesis using assms(1) Frame by (auto simp: rail_frame_def Let_def intro!: delta_inv open_block_inv)
  next
    case arguments
    then show ?thesis using assms(1) Frame by (auto simp: rail_frame_def Let_def intro!: delta_inv call [OF arguments])
  next
    case finished
    then show ?thesis using assms(1) Frame by (simp add: rail_frame_def Let_def emit_stop)
  next
    case completed
    then show ?thesis using assms(1) Frame by (simp add: rail_frame_def Let_def finish_inv)
  next
    case failed
    then show ?thesis using assms(1) Frame by (simp add: rail_frame_def Let_def flush_inv)
  next
    case other
    then show ?thesis using assms(1) by simp
  qed
qed (use assms in \<open>simp add: rail_frame_def\<close>)


lemma rail_run_inv:
  assumes "rail_inv st_of s" and "list_all frame_known frames"
  shows "rail_inv st_of (fst (rail_run st_of s frames))"
  using assms
proof (induction frames arbitrary: s)
  case (Cons frame frames)
  then have "rail_inv st_of (fst (rail_frame st_of s frame))" by (intro rail_frame_inv) auto
  then show ?case using Cons by (auto split: prod.splits option.splits)
qed simp

lemma rail_start_inv: "rail_inv st_of rail_start"
  by (simp add: rail_inv_def rail_ok_def rail_start_def items_ok_def open_at_Nil)

lemma rail_stream_ok:
  assumes "rail_ok (stamp req decision clock) s"
  shows "stream_ok (rs_out s)"
proof -
  have heads: "map event_head (rs_out s) = map (stamp req decision clock) [0..<rs_sequence s]"
    using assms by (simp add: rail_ok_def)
  have "map sequence_of (rs_out s) = map ev_sequence (map event_head (rs_out s))" by (simp add: sequence_of_def)
  also have "\<dots> = [0..<rs_sequence s]" unfolding heads by (simp add: stamp_def comp_def)
  finally have "sorted_wrt (<) (map sequence_of (rs_out s))" by simp
  moreover have "ev_requestId (event_head e) = cq_id req" if "e \<in> set (rs_out s)" for e
  proof -
    have "event_head e \<in> set (map event_head (rs_out s))" using that by simp
    then show ?thesis unfolding heads by (auto simp: stamp_def)
  qed
  then have "same_request (rs_out s)" by (auto simp: same_request_def list_all_iff split: list.splits)
  ultimately show ?thesis using assms by (simp add: stream_ok_def rail_ok_def)
qed

definition read_frames :: "(string \<Rightarrow> json option) \<Rightarrow> string list \<Rightarrow> sse_frame list" where
  "read_frames json_parse chunks = List.map_filter (frame_of_block json_parse) (read_stream chunks)"

text \<open>C24: what the Responses rail emits can be encoded for a client of the other protocol. However a provider orders its
  frames and however the network cuts them, as long as every added item is a message, a reasoning item or a function call
  with an id and a name, the Anthropic encoder accepts every event the rail emits, up to its end or its failure: the
  sequence numbers grow, the request is one, every completion meets an open block.\<close>

theorem rail_stream_encodable:
  assumes "rail_invoke json_parse req decision clock (Stream_answer (Some chunks)) = (events, e)"
    and "list_all frame_known (read_frames json_parse chunks)"
  shows "encodeAnthropicEvents events False = Inr (concat (map event_frames events))"
proof -
  have "stream_ok events"
  proof (cases "unsupportedRequiredArtifacts (cq_fidelity req) [Reasoning_encrypted_content] = []")
    case True
    let ?s = "fst (rail_run (stamp req decision clock) rail_start (read_frames json_parse chunks))"
    have "events = rs_out ?s"
      using assms(1) True by (auto simp: rail_invoke_def Let_def read_frames_def split: prod.splits)
    then show ?thesis
      using rail_run_inv [OF rail_start_inv [of "stamp req decision clock"] assms(2)] rail_stream_ok [of req decision clock ?s]
      by (simp add: rail_inv_def)
  next
    case False
    then have "events = []" using assms(1) by (auto simp: rail_invoke_def Let_def)
    then show ?thesis by (simp add: stream_ok_def same_request_def items_ok_def)
  qed
  then show ?thesis by (simp add: encoder_accepts)
qed


text \<open>A stream of one message, cut in the middle of a line end, and one whose item is of another kind. The message is
  there for \<open>JSON.parse\<close> to give.\<close>

definition sse_of :: "string \<Rightarrow> string" where
  "sse_of s = ''data: '' @ s @ [CHR 0x0D, CHR 0x0A, CHR 0x0D, CHR 0x0A]"

definition frame_parse :: "string \<Rightarrow> json option" where
  "frame_parse s = map_of
     [(''A'', JObj [(''type'', JStr ''response.created''), (''response'', JObj [(''id'', JStr ''resp_1'')])]),
      (''B'', JObj [(''type'', JStr ''response.output_item.added''), (''output_index'', JNum 0),
                    (''item'', JObj [(''type'', JStr ''message''), (''id'', JStr ''m1'')])]),
      (''C'', JObj [(''type'', JStr ''response.output_text.delta''), (''output_index'', JNum 0), (''delta'', JStr ''hi'')]),
      (''D'', JObj [(''type'', JStr ''response.output_item.done''), (''output_index'', JNum 0)]),
      (''E'', JObj [(''type'', JStr ''response.completed''), (''response'', JObj [(''id'', JStr ''resp_1'')])]),
      (''W'', JObj [(''type'', JStr ''response.output_item.added''), (''output_index'', JNum 0),
                    (''item'', JObj [(''type'', JStr ''web_search_call''), (''id'', JStr ''ws1'')])])] s"

definition message_chunks :: "string list" where
  "message_chunks =
     (let whole = concat (map sse_of [''A'', ''B'', ''C'', ''D'', ''E'']) in [take 10 whole, drop 10 whole])"

definition rail_decision :: route_decision where
  "rail_decision =
     \<lparr>rd_requestId = ''r'', rd_providerId = ''openrouter'', rd_modelId = ''m'', rd_adapterId = ''a'', rd_credentialRef = Env_ref ''K'',
      rd_sourceRule = [], rd_configFingerprint = [], rd_capabilitySnapshot = claude_capabilities, rd_decidedAt = Instant 0,
      rd_accountPseudonym = None, rd_credentialGeneration = None, rd_reasoningEvidence = None, rd_resolvedReasoning = None\<rparr>"


lemma message_read:
  "rail_invoke frame_parse (turn_request None) rail_decision (\<lambda>_. Instant 0) (Stream_answer (Some message_chunks)) =
     (let b = stamp (turn_request None) rail_decision (\<lambda>_. Instant 0) in
      [Response_started (b 0) ''resp_1'', Content_started (b 1) 0 Text_content None None (Some ''m1''), Text_delta (b 2) 0 ''hi'',
       Content_completed (b 3) 0, Usage_updated (b 4) None None, Response_completed (b 5) ''end_turn''], None)"
  "list_all frame_known (read_frames frame_parse message_chunks)"
  by code_simp+

theorem rail_stream_encodable_witness:
  "\<exists>events. rail_invoke frame_parse (turn_request None) rail_decision (\<lambda>_. Instant 0) (Stream_answer (Some message_chunks)) = (events, None)
     \<and> length events = 6 \<and> encodeAnthropicEvents events False = Inr (concat (map event_frames events))"
  using rail_stream_encodable [OF message_read] message_read(1) by (auto simp: Let_def)

text \<open>
  An item of another kind opens its index without an event, so its end completes a block that no encoder knows, and the
  whole answer fails, though unknown items are to be ignored.
\<close>

lemma unknown_item_breaks_stream:
  "encodeAnthropicEvents
     (fst (rail_invoke frame_parse (turn_request None) rail_decision (\<lambda>_. Instant 0)
        (Stream_answer (Some [concat (map sse_of [''A'', ''W'', ''D'', ''B'', ''C'', ''D'', ''E''])])))) False
   = Inl (order_error ''Content completed before start'')"
  by code_simp

text \<open>A continued request sends the history and, beside it, the id under which the provider has it.\<close>

lemma map_of_opt_end: "map_of (opt_field key f x) k = (if k = key then map_option f x else None)"
  by (cases x) auto

lemma payload_fields:
  "json_field (responsesPayload env req resolved) ''model'' = Some (JStr (cq_requestedModel req))"
  "json_field (responsesPayload env req resolved) ''input'' = Some (JArr (responsesInput env req))"
  "json_field (responsesPayload env req resolved) ''instructions'' =
     map_option JStr (some_if (cq_system req \<noteq> []) (textOf (cq_system req)))"
  "json_field (responsesPayload env req resolved) ''tools'' =
     map_option JArr (some_if (cq_tools req \<noteq> []) (map tool_json (cq_tools req)))"
  "json_field (responsesPayload env req resolved) ''tool_choice'' = map_option toolChoiceOf (cq_toolChoice req)"
  "json_field (responsesPayload env req resolved) ''stream'' = Some (JBool (cq_stream req))"
  "json_field (responsesPayload env req resolved) ''previous_response_id'' = map_option JStr (cq_continuation req)"
  "json_field (responsesPayload env req resolved) ''max_output_tokens'' =
     map_option jint (inf_maxOutputTokens (cq_inference req))"
  "json_field (responsesPayload env req resolved) ''temperature'' = map_option JNum (inf_temperature (cq_inference req))"
  "json_field (responsesPayload env req resolved) ''top_p'' = map_option JNum (inf_topP (cq_inference req))"
  "json_field (responsesPayload env req resolved) ''reasoning'' =
     map_option (\<lambda>e. JObj [(''effort'', JStr e)]) (rail_effort req resolved)"
  "json_field (responsesPayload env req resolved) ''store'' = map_option JBool (cq_store req)"
  "json_field (responsesPayload env req resolved) ''include'' =
     map_option (\<lambda>xs. JArr (map JStr xs)) (some_if (cq_include req \<noteq> None \<or> has_artifacts (cq_fidelity req))
              (get_or [''reasoning.encrypted_content''] (cq_include req)))"
  "json_field (responsesPayload env req resolved) ''metadata'' = None"
  by (simp_all add: responsesPayload_def map_of_opt_field map_of_opt_end some_if_def del: map_of_append)

lemma continuation_sent_twice:
  assumes "continuation_apply store req = Inr next" and "cq_continuation req = Some i" and "store i = Some previous"
  shows "json_field (responsesPayload env next resolved) ''previous_response_id'' = Some (JStr i)
    \<and> cq_messages next = st_messages previous @ cq_messages req"
  using assms
  by (auto simp: continuation_apply_def response_get_def bind_ok_Inr_iff r_if_def Let_def payload_fields
      split: option.splits if_splits)

section \<open>The payload read back\<close>

text \<open>
  Content the rail can carry; JSON text reads back as the value, and is never empty. A tool result is one text, the
  protocol has no error flag for it.
\<close>

fun carried :: "codec_env \<Rightarrow> canonical_content \<Rightarrow> bool" where
  "carried env (Text_part _) \<longleftrightarrow> True"
| "carried env (Image_part m d) \<longleftrightarrow> m \<noteq> [] \<and> CHR '';'' \<notin> set m \<and> d \<noteq> [] \<and> one_line d"
| "carried env (Tool_call_part i nm input) \<longleftrightarrow>
     i \<noteq> [] \<and> nm \<noteq> [] \<and> ce_text env input \<noteq> [] \<and> ce_parse env (ce_text env input) = Some input"
| "carried env (Tool_result_part i content e) \<longleftrightarrow> i \<noteq> [] \<and> (\<exists>s. content = [Text_part s]) \<and> \<not> e"
| "carried env (Reasoning_part _ i) \<longleftrightarrow> i \<noteq> Some []"
| "carried env (Redacted_reasoning_part _) \<longleftrightarrow> False"

fun role_fits :: "message_role \<Rightarrow> canonical_content \<Rightarrow> bool" where
  "role_fits r (Tool_call_part _ _ _) \<longleftrightarrow> r = Assistant_role"
| "role_fits r (Reasoning_part _ _) \<longleftrightarrow> r = Assistant_role"
| "role_fits r (Tool_result_part _ _ _) \<longleftrightarrow> r = User_role"
| "role_fits r _ \<longleftrightarrow> True"

lemma data_url_inverse:
  assumes "m \<noteq> []" "CHR '';'' \<notin> set m" "d \<noteq> []" "one_line d"
  shows "data_url (''data:'' @ m @ '';base64,'' @ d) = Some (m, d)"
proof -
  have "takeWhile (\<lambda>c. c \<noteq> CHR '';'') (m @ '';base64,'' @ d) = m"
    using assms(2) by (subst takeWhile_append2) auto
  moreover have "dropWhile (\<lambda>c. c \<noteq> CHR '';'') (m @ '';base64,'' @ d) = '';base64,'' @ d"
    using assms(2) by (subst dropWhile_append2) auto
  ultimately show ?thesis
    using assms by (simp add: data_url_def DATA_PREFIX_def BASE64_MARK_def starts_with_def Let_def)
qed

definition item_read :: "fidelity_envelope option \<Rightarrow> message_role \<Rightarrow> canonical_content \<Rightarrow> decoded_item" where
  "item_read fid r c =
     (plain_item (Some r) [c])\<lparr>di_artifacts :=
        (case c of
           Reasoning_part _ (Some i) \<Rightarrow>
             (case non_empty (artifactValue fid Reasoning_encrypted_content i) of
                Some v \<Rightarrow> [encrypted_artifact i v] | None \<Rightarrow> [])
         | _ \<Rightarrow> [])\<rparr>"

lemmas item_reads = r_req_def r_opt_def r_text_def knownItem_def r_message_content_def r_part_def TEXT_PARTS_def
  imagePart_def IMAGE_PARTS_def r_image_url_def r_output_def r_summary_def r_list_def item_content_def parseMessageContent_def
  part_content_def parseImage_def url_text_def message_item_def role_text_def plain_item_def

lemma item_inverse:
  assumes "carried env c" and "role_fits r c"
  shows "map_ok (parseItem env) (input_of_content env fid r c) = Inr [item_read fid r c]"
proof (cases c)
  case (Text_part s)
  then show ?thesis
    by (cases r) (simp_all add: input_of_content_def parseItem_def item_reads item_read_def)
next
  case (Image_part m d)
  then have "data_url (''data:'' @ m @ '';base64,'' @ d) = Some (m, d)" using assms(1) by (intro data_url_inverse) auto
  then show ?thesis
    using Image_part by (cases r) (simp_all add: input_of_content_def parseItem_def item_reads item_read_def)
next
  case (Tool_call_part i nm input)
  then show ?thesis
    using assms by (simp add: input_of_content_def parseItem_def item_reads item_read_def non_empty_def parseJsonOrRaw_def)
next
  case (Tool_result_part i content e)
  then show ?thesis
    using assms by (auto simp: input_of_content_def parseItem_def item_reads item_read_def textOf_def List.map_filter_simps)
next
  case (Reasoning_part s i)
  then show ?thesis
    using assms by (cases i; cases "artifactValue fid Reasoning_encrypted_content (the i)")
      (auto simp: input_of_content_def parseItem_def item_reads item_read_def non_empty_def get_or_def)
qed (use assms in simp)

end
