(* ===== verification/Rail_Roundtrip.thy ===== *)
theory Rail_Roundtrip
  imports Responses_Rail
begin





























text \<open>
  The effort \<open>none\<close> is one of the labels that pass exactly, but the decoder has no intent for it, so it arrives as not
  explicit and is left out.
\<close>

lemma effort_none_is_lost:
  "responses_reasoning (Some (Some ''none'')) = Some \<lparr>intent = AUTO, sourceMode = None, sourceEffort = None, explicit = False\<rparr>"
  "''none'' \<in> set RESPONSES_EFFORT_LEVELS"
  "inf_reasoning (cq_inference req) = responses_reasoning (Some (Some ''none'')) \<Longrightarrow> rail_effort req None = None"
  by (simp_all add: responses_reasoning_def reasoningRequestFromWire_def intentForEffort_def request_from_mode_def
      RESPONSES_EFFORT_LEVELS_def rail_effort_def)

end
