(* ===== verification/Chat_Adapter.thy ===== *)
theory Chat_Adapter
  imports Responses_Rail
begin

text \<open>
  The transport shared by the Chat Completions providers
  (\<^verbatim>\<open>src/providers/direct/openai-chat-adapter.ts\<close>) and what the adapters over it set: the payload of a request, and the
  canonical events of a stream of chunks or of one body. Ids and names of a provider are strings, indices and token
  counts natural numbers.
\<close>

section \<open>The payload\<close>

definition chat_textOf :: "canonical_content list \<Rightarrow> string" where
  "chat_textOf content =
     join_lines (List.map_filter (\<lambda>c. case c of Text_part s \<Rightarrow> Some s | Reasoning_part s _ \<Rightarrow> Some s | _ \<Rightarrow> None) content)"

definition contentValue :: "canonical_content list \<Rightarrow> json" where
  "contentValue content =
     (if \<not> list_ex is_image content then JStr (chat_textOf content)
      else JArr (List.map_filter (\<lambda>c. case c of
             Text_part s \<Rightarrow> Some (JObj [(''type'', JStr ''text''), (''text'', JStr s)])
           | Image_part m d \<Rightarrow> Some (JObj [(''type'', JStr ''image_url''),
                                     (''image_url'', JObj [(''url'', JStr (''data:'' @ m @ '';base64,'' @ d))])])
           | _ \<Rightarrow> None) content))"

definition tool_message :: "canonical_content \<Rightarrow> json option" where
  "tool_message c =
     (case c of
        Tool_result_part i content _ \<Rightarrow>
          Some (JObj [(''role'', JStr ''tool''), (''tool_call_id'', JStr i), (''content'', JStr (chat_textOf content))])
      | _ \<Rightarrow> None)"

definition tool_call_json :: "codec_env \<Rightarrow> canonical_content \<Rightarrow> json option" where
  "tool_call_json env c =
     (case c of
        Tool_call_part i nm input \<Rightarrow>
          Some (JObj [(''id'', JStr i), (''type'', JStr ''function''),
                      (''function'', JObj [(''name'', JStr nm), (''arguments'', JStr (ce_text env input))])])
      | _ \<Rightarrow> None)"

definition reasoning_text :: "canonical_content list \<Rightarrow> string" where
  "reasoning_text content = join_lines (List.map_filter (\<lambda>c. case c of Reasoning_part s _ \<Rightarrow> Some s | _ \<Rightarrow> None) content)"

definition toChatMessages :: "codec_env \<Rightarrow> bool \<Rightarrow> canonical_message list \<Rightarrow> json list" where
  "toChatMessages env replay messages =
     concat (map (\<lambda>m.
       let results = List.map_filter tool_message (msg_content m);
           calls = List.map_filter (tool_call_json env) (msg_content m);
           reasoning = reasoning_text (msg_content m)
       in if results \<noteq> [] then results
          else [JObj ([(''role'', JStr (role_text (msg_role m))), (''content'', contentValue (msg_content m))]
                  @ opt_field ''tool_calls'' JArr (some_if (calls \<noteq> []) calls)
                  @ opt_field ''reasoning_content'' JStr (some_if (replay \<and> reasoning \<noteq> [] \<and> calls \<noteq> []) reasoning))]) messages)"

definition chat_tool :: "canonical_tool \<Rightarrow> json" where
  "chat_tool t =
     JObj [(''type'', JStr ''function''),
           (''function'', JObj ([(''name'', JStr (tool_name t))] @ opt_field ''description'' JStr (tool_description t)
                                @ [(''parameters'', tool_inputSchema t)]))]"

definition chat_tool_choice :: "canonical_tool_choice \<Rightarrow> json" where
  "chat_tool_choice choice =
     (case choice of
        Choice_auto \<Rightarrow> JStr ''auto''
      | Choice_any \<Rightarrow> JStr ''any''
      | Choice_none \<Rightarrow> JStr ''none''
      | Choice_tool nm \<Rightarrow> JObj [(''type'', JStr ''function''), (''function'', JObj [(''name'', JStr nm)])])"

fun chat_control :: "native_reasoning_control \<Rightarrow> json option" where
  "chat_control Ctl_off = Some (JObj [(''enabled'', JBool False)])"
| "chat_control Ctl_provider_default = None"
| "chat_control (Ctl_binary b) = Some (JObj [(''enabled'', JBool b)])"
| "chat_control (Ctl_effort l) = Some (JObj [(''enabled'', JBool True), (''effort'', JStr l)])"
| "chat_control (Ctl_adaptive _) = Some (JObj [(''enabled'', JBool True)])"
| "chat_control (Ctl_budget n) = Some (JObj [(''enabled'', JBool True), (''max_tokens'', jint n)])"

definition chat_payload :: "codec_env \<Rightarrow> bool \<Rightarrow> canonical_request \<Rightarrow> resolved_reasoning option \<Rightarrow> json" where
  "chat_payload env replay req resolved =
     JObj ([(''model'', JStr (cq_requestedModel req)),
            (''messages'', JArr ((if cq_system req = [] then []
                                  else [JObj [(''role'', JStr ''system''), (''content'', contentValue (cq_system req))]])
                                 @ toChatMessages env replay (cq_messages req)))]
       @ opt_field ''tools'' JArr (some_if (cq_tools req \<noteq> []) (map chat_tool (cq_tools req)))
       @ opt_field ''tool_choice'' chat_tool_choice (cq_toolChoice req)
       @ [(''stream'', JBool (cq_stream req))]
       @ opt_field ''stream_options'' id (some_if (cq_stream req) (JObj [(''include_usage'', JBool True)]))
       @ opt_field ''max_tokens'' jint (inf_maxOutputTokens (cq_inference req))
       @ opt_field ''temperature'' JNum (inf_temperature (cq_inference req))
       @ opt_field ''top_p'' JNum (inf_topP (cq_inference req))
       @ opt_field ''stop'' (\<lambda>xs. JArr (map JStr xs)) (inf_stopSequences (cq_inference req))
       @ opt_field ''reasoning'' id (Option.bind resolved (\<lambda>r. chat_control (effective_control r))))"

section \<open>The answer\<close>

record chat_state =
  ch_rail :: rail_state
  ch_toolIds :: "(nat \<times> string) list"
  ch_pending :: "(nat \<times> string list) list"

definition chat_start :: chat_state where
  "chat_start = \<lparr>ch_rail = rail_start, ch_toolIds = [], ch_pending = []\<rparr>"

definition ch_emit :: "(nat \<Rightarrow> event_base) \<Rightarrow> (event_base \<Rightarrow> canonical_event) \<Rightarrow> chat_state \<Rightarrow> chat_state" where
  "ch_emit st_of f s = s\<lparr>ch_rail := emit st_of f (ch_rail s)\<rparr>"

definition ch_open :: "nat \<Rightarrow> chat_state \<Rightarrow> chat_state" where
  "ch_open index s = s\<lparr>ch_rail := (ch_rail s)\<lparr>rs_open := rs_open (ch_rail s) @ [index]\<rparr>\<rparr>"

definition is_open :: "nat \<Rightarrow> chat_state \<Rightarrow> bool" where
  "is_open index s \<longleftrightarrow> index \<in> set (rs_open (ch_rail s))"

definition js_truthy :: "json \<Rightarrow> bool" where
  "js_truthy j = (case j of JNull \<Rightarrow> False | JBool b \<Rightarrow> b | JNum n \<Rightarrow> n \<noteq> 0 | JStr s \<Rightarrow> s \<noteq> [] | _ \<Rightarrow> True)"

definition truthy_field :: "json \<Rightarrow> string \<Rightarrow> json option" where
  "truthy_field j key = r_if js_truthy (json_field j key)"

definition sub_field :: "json option \<Rightarrow> string \<Rightarrow> json option" where
  "sub_field j key = Option.bind j (\<lambda>v. json_field v key)"

definition first_choice :: "json \<Rightarrow> json option" where
  "first_choice j = (case arr_field j ''choices'' of [] \<Rightarrow> None | c # _ \<Rightarrow> Some c)"

definition text_of_field :: "json option \<Rightarrow> string \<Rightarrow> string option" where
  "text_of_field j key = non_empty (Option.bind (sub_field j key) r_str)"

text \<open>A block of text or reasoning opens with its first piece.\<close>

definition piece ::
  "(nat \<Rightarrow> event_base) \<Rightarrow> nat \<Rightarrow> content_type \<Rightarrow> (string \<Rightarrow> event_base \<Rightarrow> canonical_event) \<Rightarrow> string option \<Rightarrow> chat_state \<Rightarrow> chat_state" where
  "piece st_of index ty delta s st =
     (case s of
        None \<Rightarrow> st
      | Some t \<Rightarrow>
          ch_emit st_of (delta t)
            (if is_open index st then st
             else ch_emit st_of (\<lambda>b. Content_started b index ty None None None) (ch_open index st)))"

definition call_index :: "json \<Rightarrow> nat" where
  "call_index call = (case json_field call ''index'' of Some (JNum n) \<Rightarrow> nat \<lfloor>n\<rfloor> + 1 | _ \<Rightarrow> 1)"

definition call_function :: "json \<Rightarrow> string \<Rightarrow> string option" where
  "call_function call key = Option.bind (sub_field (json_field call ''function'') key) r_str"

definition call_id :: "json \<Rightarrow> chat_state \<Rightarrow> string" where
  "call_id call s =
     (case str_field call ''id'' of
        Some i \<Rightarrow> i
      | None \<Rightarrow> get_or (tool_fallback (call_index call)) (map_of (ch_toolIds s) (call_index call)))"

definition is_object_like :: "json \<Rightarrow> bool" where
  "is_object_like j = (case j of JObj _ \<Rightarrow> True | JArr _ \<Rightarrow> True | _ \<Rightarrow> False)"

definition start_call :: "(nat \<Rightarrow> event_base) \<Rightarrow> nat \<Rightarrow> string \<Rightarrow> string option \<Rightarrow> chat_state \<Rightarrow> chat_state" where
  "start_call st_of index i nm s =
     (case nm of
        None \<Rightarrow> s
      | Some n \<Rightarrow>
          if is_open index s then s
          else let started = ch_emit st_of (\<lambda>b. Content_started b index Tool_call_content (Some i) (Some n) None) (ch_open index s);
                   flushed = foldl (\<lambda>s t. ch_emit st_of (\<lambda>b. Tool_arguments_delta b index i t) s) started
                               (get_or [] (map_of (ch_pending s) index))
               in flushed\<lparr>ch_pending := AList.delete index (ch_pending s)\<rparr>)"

definition call_arguments :: "(nat \<Rightarrow> event_base) \<Rightarrow> nat \<Rightarrow> string \<Rightarrow> string option \<Rightarrow> chat_state \<Rightarrow> chat_state" where
  "call_arguments st_of index i args s =
     (case non_empty args of
        None \<Rightarrow> s
      | Some t \<Rightarrow>
          if is_open index s then ch_emit st_of (\<lambda>b. Tool_arguments_delta b index i t) s
          else s\<lparr>ch_pending := AList.update index (get_or [] (map_of (ch_pending s) index) @ [t]) (ch_pending s)\<rparr>)"

definition chat_call :: "(nat \<Rightarrow> event_base) \<Rightarrow> chat_state \<Rightarrow> json \<Rightarrow> chat_state" where
  "chat_call st_of s call =
     (if \<not> is_object_like call then s
      else let index = call_index call; i = call_id call s
           in call_arguments st_of index i (call_function call ''arguments'')
                (start_call st_of index i (call_function call ''name'') (s\<lparr>ch_toolIds := AList.update index i (ch_toolIds s)\<rparr>)))"

definition nat_field :: "json \<Rightarrow> string \<Rightarrow> nat option" where
  "nat_field j key = (case json_field j key of Some (JNum n) \<Rightarrow> Some (nat \<lfloor>n\<rfloor>) | _ \<Rightarrow> None)"

definition chat_usage :: "(nat \<Rightarrow> event_base) \<Rightarrow> json \<Rightarrow> chat_state \<Rightarrow> chat_state" where
  "chat_usage st_of chunk s =
     (case truthy_field chunk ''usage'' of
        None \<Rightarrow> s
      | Some u \<Rightarrow> ch_emit st_of (\<lambda>b. Usage_updated b (nat_field u ''prompt_tokens'') (nat_field u ''completion_tokens'')) s)"

definition chat_stop :: "string \<Rightarrow> string" where
  "chat_stop reason = (if reason = ''tool_calls'' then ''tool_use'' else ''end_turn'')"

definition default_failure :: "string \<Rightarrow> provider_adapter_error" where
  "default_failure code = providerFailure code None Unknown_commitment ''Provider request failed''"

definition chat_finish :: "(nat \<Rightarrow> event_base) \<Rightarrow> string option \<Rightarrow> chat_state \<Rightarrow> chat_state \<times> provider_adapter_error option" where
  "chat_finish st_of reason s =
     (case reason of
        None \<Rightarrow> (s, None)
      | Some r \<Rightarrow>
          if ch_pending s \<noteq> []
          then (s, Some (providerFailure ''api_error'' None Unknown_commitment
                  ''Provider ended a tool stream before declaring its function name''))
          else let closed = foldl (\<lambda>s index. ch_emit st_of (\<lambda>b. Content_completed b index) s) s (rs_open (ch_rail s));
                   s' = ch_emit st_of (\<lambda>b. Response_completed b (chat_stop r)) (closed\<lparr>ch_rail := (ch_rail closed)\<lparr>rs_open := []\<rparr>\<rparr>)
               in (s'\<lparr>ch_rail := (ch_rail s')\<lparr>rs_terminal := True\<rparr>\<rparr>, None))"

definition chunk_calls :: "json \<Rightarrow> json list" where
  "chunk_calls chunk = get_or [] (Option.bind (sub_field (sub_field (first_choice chunk) ''delta'') ''tool_calls'') r_arr)"

definition chunk_started :: "(nat \<Rightarrow> event_base) \<Rightarrow> chat_state \<Rightarrow> json \<Rightarrow> chat_state" where
  "chunk_started st_of s chunk =
     (if rs_started (ch_rail s) then s
      else ch_emit st_of (\<lambda>b. Response_started b (get_or ''provider-response'' (str_field chunk ''id'')))
             (s\<lparr>ch_rail := (ch_rail s)\<lparr>rs_started := True\<rparr>\<rparr>))"

definition chunk_content :: "(nat \<Rightarrow> event_base) \<Rightarrow> chat_state \<Rightarrow> json \<Rightarrow> chat_state" where
  "chunk_content st_of s chunk =
     (let delta = sub_field (first_choice chunk) ''delta'';
          s1 = piece st_of 0 Text_content (\<lambda>t b. Text_delta b 0 t) (text_of_field delta ''content'') s;
          s2 = piece st_of 1000 Reasoning_content (\<lambda>t b. Reasoning_delta b 1000 t) (text_of_field delta ''reasoning_content'') s1
      in chat_usage st_of chunk (foldl (chat_call st_of) s2 (chunk_calls chunk)))"

definition chat_chunk :: "(nat \<Rightarrow> event_base) \<Rightarrow> chat_state \<Rightarrow> json \<Rightarrow> chat_state \<times> provider_adapter_error option" where
  "chat_chunk st_of s chunk =
     (case truthy_field chunk ''error'' of
        Some e \<Rightarrow> (s, Some (default_failure (get_or ''api_error'' (str_field e ''code''))))
      | None \<Rightarrow>
          chat_finish st_of (text_of_field (first_choice chunk) ''finish_reason'')
            (chunk_content st_of (chunk_started st_of s chunk) chunk))"

fun chat_run :: "(nat \<Rightarrow> event_base) \<Rightarrow> chat_state \<Rightarrow> json list \<Rightarrow> chat_state \<times> provider_adapter_error option" where
  "chat_run st_of s [] =
     (s, if rs_started (ch_rail s) \<and> rs_terminal (ch_rail s) then None else Some (default_failure ''api_error''))"
| "chat_run st_of s (chunk # chunks) =
     (case chat_chunk st_of s chunk of (s', Some e) \<Rightarrow> (s', Some e) | (s', None) \<Rightarrow> chat_run st_of s' chunks)"

text \<open>The chunks of a stream: nothing after \<open>[DONE]\<close>; what is no JSON is skipped, and a chunk is not \<open>null\<close>.\<close>

definition chat_data :: "string list \<Rightarrow> string list" where
  "chat_data records = takeWhile (\<lambda>d. d \<noteq> ''[DONE]'') (filter (\<lambda>d. d \<noteq> []) (map block_data records))"

definition chat_chunks :: "(string \<Rightarrow> json option) \<Rightarrow> string list \<Rightarrow> json list" where
  "chat_chunks json_parse chunks = List.map_filter json_parse (chat_data (read_stream chunks))"

fun body_calls :: "(nat \<Rightarrow> event_base) \<Rightarrow> nat \<Rightarrow> json list \<Rightarrow> rail_state \<Rightarrow> rail_state" where
  "body_calls st_of k [] s = s"
| "body_calls st_of k (call # calls) s =
     (let i = get_or (tool_fallback k) (str_field call ''id'');
          nm = get_or ''tool'' (call_function call ''name'');
          args = get_or ''{}'' (call_function call ''arguments'')
      in body_calls st_of (Suc k) calls
           (emit st_of (\<lambda>b. Content_completed b (Suc k))
             (emit st_of (\<lambda>b. Tool_arguments_delta b (Suc k) i args)
               (emit st_of (\<lambda>b. Content_started b (Suc k) Tool_call_content (Some i) (Some nm) None) s))))"

definition body_text :: "(nat \<Rightarrow> event_base) \<Rightarrow> string option \<Rightarrow> rail_state \<Rightarrow> rail_state" where
  "body_text st_of t s =
     (case t of
        None \<Rightarrow> s
      | Some txt \<Rightarrow>
          emit st_of (\<lambda>b. Content_completed b 0)
            (emit st_of (\<lambda>b. Text_delta b 0 txt)
              (emit st_of (\<lambda>b. Content_started b 0 Text_content None None None) s)))"

definition chat_body :: "(nat \<Rightarrow> event_base) \<Rightarrow> json \<Rightarrow> canonical_event list" where
  "chat_body st_of data =
     (let choice = first_choice data; message = sub_field choice ''message'';
          s1 = emit st_of (\<lambda>b. Response_started b (get_or ''provider-response'' (str_field data ''id''))) rail_start;
          s2 = body_text st_of (text_of_field message ''content'') s1;
          s3 = body_calls st_of 0 (get_or [] (Option.bind (sub_field message ''tool_calls'') r_arr)) s2;
          s4 = (case truthy_field data ''usage'' of
                  None \<Rightarrow> s3
                | Some u \<Rightarrow> emit st_of (\<lambda>b. Usage_updated b (nat_field u ''prompt_tokens'') (nat_field u ''completion_tokens'')) s3)
      in rs_out (emit st_of (\<lambda>b. Response_completed b (chat_stop (get_or [] (text_of_field choice ''finish_reason'')))) s4))"


section \<open>The invocation\<close>

text \<open>The adapters over the transport: endpoint, replay of reasoning, and whether the Responses rail is there.\<close>

record chat_adapter =
  ca_id :: string
  ca_endpoint :: string
  ca_replay :: bool
  ca_responsesRail :: bool

definition OpenCodeGoAdapter :: chat_adapter where
  "OpenCodeGoAdapter = \<lparr>ca_id = ''opencode-go-direct'', ca_endpoint = ''https://opencode.ai/zen/go/v1'', ca_replay = False, ca_responsesRail = False\<rparr>"

definition OpenRouterAdapter :: chat_adapter where
  "OpenRouterAdapter = \<lparr>ca_id = ''openrouter-direct'', ca_endpoint = ''https://openrouter.ai/api/v1'', ca_replay = False, ca_responsesRail = True\<rparr>"

definition DeepSeekAdapter :: chat_adapter where
  "DeepSeekAdapter = \<lparr>ca_id = ''deepseek-direct'', ca_endpoint = ''https://api.deepseek.com'', ca_replay = True, ca_responsesRail = False\<rparr>"

definition AlibabaAdapter :: chat_adapter where
  "AlibabaAdapter = \<lparr>ca_id = ''alibaba-direct'', ca_endpoint = ''https://dashscope.aliyuncs.com/compatible-mode/v1'', ca_replay = False, ca_responsesRail = False\<rparr>"

definition chat_invoke ::
  "(string \<Rightarrow> json option) \<Rightarrow> chat_adapter \<Rightarrow> canonical_request \<Rightarrow> route_decision \<Rightarrow> (nat \<Rightarrow> date_text) \<Rightarrow> provider_answer
   \<Rightarrow> canonical_event list \<times> thrown option" where
  "chat_invoke json_parse adapter req decision clock answer =
     (if src_protocol (cq_source req) = Openai_responses \<and> ca_responsesRail adapter
      then (case rail_invoke json_parse req decision clock answer of (events, e) \<Rightarrow> (events, map_option Adapter_error e))
      else
        let unsupported = unsupportedRequiredArtifacts (cq_fidelity req) []; st_of = stamp req decision clock
        in if unsupported \<noteq> []
           then ([], Some (Adapter_error (providerFailure ''unsupported-fidelity'' None Unknown_commitment
                  (''Chat Completions cannot preserve required continuation artifact: ''
                   @ join_comma (map artifact_kind_text unsupported)))))
           else case answer of
               No_answer cause timed_out \<Rightarrow>
                 ([], Some (Adapter_error
                    (if timed_out then providerFailure ''api_error'' None Unknown_commitment ''Provider request timed out''
                     else providerFailure ''api_error'' None (connection_commitment cause) ''Provider request failed'')))
             | Http_failure status info \<Rightarrow>
                 ([], Some (Adapter_error (providerFailure (pei_code info) (Some info) (commitmentForHttpFailure status) (pei_message info))))
             | Json_answer None \<Rightarrow> ([], Some (Other_error ''SyntaxError'' [] None))
             | Json_answer (Some data) \<Rightarrow> (chat_body st_of data, None)
             | Stream_answer None \<Rightarrow> ([], Some (Adapter_error (default_failure ''api_error'')))
             | Stream_answer (Some chunks) \<Rightarrow>
                 (case chat_run st_of chat_start (chat_chunks json_parse chunks) of
                    (s, e) \<Rightarrow> (rs_out (ch_rail s), map_option Adapter_error e)))"

section \<open>Tool arguments\<close>

text \<open>The argument text the events give for a block, and the pieces of the chunks for a tool call.\<close>

fun argument_text :: "nat \<Rightarrow> canonical_event \<Rightarrow> string" where
  "argument_text i (Tool_arguments_delta _ j _ s) = (if i = j then s else [])"
| "argument_text i _ = []"

definition arguments_at :: "canonical_event list \<Rightarrow> nat \<Rightarrow> string" where
  "arguments_at events i = concat (map (argument_text i) events)"

definition call_piece :: "nat \<Rightarrow> json \<Rightarrow> string" where
  "call_piece i call =
     (if is_object_like call \<and> call_index call = i then get_or [] (call_function call ''arguments'') else [])"

definition pieces_at :: "json list \<Rightarrow> nat \<Rightarrow> string" where
  "pieces_at chunks i = concat (map (\<lambda>c. concat (map (call_piece i) (chunk_calls c))) chunks)"

definition pending_at :: "chat_state \<Rightarrow> nat \<Rightarrow> string" where
  "pending_at s i = concat (get_or [] (map_of (ch_pending s) i))"

definition given_at :: "chat_state \<Rightarrow> nat \<Rightarrow> string" where
  "given_at s i = arguments_at (rs_out (ch_rail s)) i @ pending_at s i"

text \<open>A piece is kept back only for a block that is not open.\<close>

definition ch_ok :: "chat_state \<Rightarrow> bool" where
  "ch_ok s \<longleftrightarrow> (\<forall>i. is_open i s \<longrightarrow> map_of (ch_pending s) i = None)
     \<and> map_of (ch_pending s) 0 = None \<and> map_of (ch_pending s) 1000 = None"

lemma ch_emit_fields [simp]:
  "rs_out (ch_rail (ch_emit st_of f s)) = rs_out (ch_rail s) @ [f (st_of (rs_sequence (ch_rail s)))]"
  "rs_open (ch_rail (ch_emit st_of f s)) = rs_open (ch_rail s)" "ch_pending (ch_emit st_of f s) = ch_pending s"
  "ch_toolIds (ch_emit st_of f s) = ch_toolIds s" "is_open i (ch_emit st_of f s) = is_open i s"
  "rs_started (ch_rail (ch_emit st_of f s)) = rs_started (ch_rail s)"
  by (simp_all add: ch_emit_def is_open_def)

lemma ch_open_fields [simp]:
  "rs_out (ch_rail (ch_open i s)) = rs_out (ch_rail s)" "ch_pending (ch_open i s) = ch_pending s"
  "is_open j (ch_open i s) = (j = i \<or> is_open j s)" "ch_toolIds (ch_open i s) = ch_toolIds s"
  by (auto simp: ch_open_def is_open_def)

lemma is_open_update [simp]:
  "is_open i (s\<lparr>ch_pending := p\<rparr>) = is_open i s" "is_open i (s\<lparr>ch_toolIds := t\<rparr>) = is_open i s"
  by (simp_all add: is_open_def)

lemma arguments_at_simps [simp]:
  "arguments_at [] i = []" "arguments_at (xs @ ys) i = arguments_at xs i @ arguments_at ys i"
  "arguments_at (e # es) i = argument_text i e @ arguments_at es i"
  by (simp_all add: arguments_at_def)

lemma piece_ok:
  assumes "ch_ok s" and "index = 0 \<or> index = 1000" and "\<And>t b. argument_text i (delta t b) = []"
  shows "ch_ok (piece st_of index ty delta x s) \<and> given_at (piece st_of index ty delta x s) i = given_at s i"
  using assms by (auto simp: piece_def ch_ok_def given_at_def pending_at_def split: option.splits)

lemma chat_flush_fields [simp]:
  "ch_pending (foldl (\<lambda>s t. ch_emit st_of (f t) s) s ts) = ch_pending s"
  "is_open i (foldl (\<lambda>s t. ch_emit st_of (f t) s) s ts) = is_open i s"
  by (induction ts arbitrary: s) simp_all

lemma flush_arguments:
  "arguments_at (rs_out (ch_rail (foldl (\<lambda>s t. ch_emit st_of (\<lambda>b. Tool_arguments_delta b index k t) s) s ts))) i =
     arguments_at (rs_out (ch_rail s)) i @ (if i = index then concat ts else [])"
  by (induction ts arbitrary: s) simp_all

lemma start_call_ok:
  assumes "ch_ok s"
  shows "ch_ok (start_call st_of index k nm s) \<and> given_at (start_call st_of index k nm s) i = given_at s i"
  using assms
  by (auto simp: start_call_def Let_def ch_ok_def given_at_def pending_at_def flush_arguments delete_conv'
      split: option.splits)


lemma call_arguments_ok:
  assumes "ch_ok s" and "index \<noteq> 0" "index \<noteq> 1000"
  shows "ch_ok (call_arguments st_of index k args s)
    \<and> given_at (call_arguments st_of index k args s) i = given_at s i @ (if i = index then get_or [] args else [])"
proof (cases "non_empty args")
  case None
  then have "get_or [] args = []" by (auto simp: non_empty_def get_or_def split: option.splits if_splits)
  then show ?thesis using assms(1) None by (simp add: call_arguments_def)
next
  case (Some t)
  then have "args = Some t" by (auto simp: non_empty_def split: option.splits if_splits)
  then show ?thesis
    using assms Some by (auto simp: call_arguments_def ch_ok_def given_at_def pending_at_def)
qed

lemma chat_call_ok:
  assumes "ch_ok s" and "call_index call \<noteq> 1000"
  shows "ch_ok (chat_call st_of s call) \<and> given_at (chat_call st_of s call) i = given_at s i @ call_piece i call"
proof (cases "is_object_like call")
  case True
  let ?s1 = "s\<lparr>ch_toolIds := AList.update (call_index call) (call_id call s) (ch_toolIds s)\<rparr>"
  let ?s2 = "start_call st_of (call_index call) (call_id call s) (call_function call ''name'') ?s1"
  have "ch_ok ?s1" "given_at ?s1 i = given_at s i" using assms(1) by (simp_all add: ch_ok_def given_at_def pending_at_def)
  then have s2: "ch_ok ?s2" "given_at ?s2 i = given_at s i" using start_call_ok by metis+
  have "call_index call \<noteq> 0" by (simp add: call_index_def split: option.splits json.splits)
  then show ?thesis
    using call_arguments_ok [OF s2(1) _ assms(2), of st_of "call_id call s" "call_function call ''arguments''" i] s2(2) True
    by (simp add: chat_call_def Let_def call_piece_def)
next
  case False
  then show ?thesis using assms(1) by (simp add: chat_call_def call_piece_def)
qed

lemma chat_calls_ok:
  "ch_ok s \<Longrightarrow> list_all (\<lambda>call. call_index call \<noteq> 1000) calls \<Longrightarrow>
     ch_ok (foldl (chat_call st_of) s calls)
     \<and> given_at (foldl (chat_call st_of) s calls) i = given_at s i @ concat (map (call_piece i) calls)"
  using chat_call_ok by (induction calls arbitrary: s) simp_all

lemma quiet_ok:
  assumes "ch_ok s" and "\<And>b. argument_text i (f b) = []"
  shows "ch_ok (ch_emit st_of f s) \<and> given_at (ch_emit st_of f s) i = given_at s i"
  using assms by (simp add: ch_ok_def given_at_def pending_at_def)

lemma chat_finish_ok:
  assumes "ch_ok s" and "chat_finish st_of reason s = (s', None)"
  shows "ch_ok s' \<and> given_at s' i = given_at s i \<and> (reason \<noteq> None \<longrightarrow> ch_pending s' = [])"
proof (cases reason)
  case None
  then show ?thesis using assms by (simp add: chat_finish_def)
next
  case (Some r)
  have "arguments_at (rs_out (ch_rail (foldl (\<lambda>s index. ch_emit st_of (\<lambda>b. Content_completed b index) s) u xs))) i =
      arguments_at (rs_out (ch_rail u)) i" for u xs
    by (induction xs arbitrary: u) simp_all
  then show ?thesis
    using assms Some
    by (auto simp: chat_finish_def Let_def ch_ok_def given_at_def pending_at_def is_open_def split: if_splits)
qed


definition few_calls :: "json \<Rightarrow> bool" where
  "few_calls chunk \<longleftrightarrow> list_all (\<lambda>call. call_index call \<noteq> 1000) (chunk_calls chunk)"

lemma chat_usage_ok: "ch_ok s \<Longrightarrow> ch_ok (chat_usage st_of chunk s) \<and> given_at (chat_usage st_of chunk s) i = given_at s i"
  by (auto simp: chat_usage_def quiet_ok split: option.splits)

lemma chat_chunk_ok:
  assumes "ch_ok s" and "few_calls chunk" and "chat_chunk st_of s chunk = (s', None)"
  shows "ch_ok s' \<and> given_at s' i = given_at s i @ concat (map (call_piece i) (chunk_calls chunk))
    \<and> (text_of_field (first_choice chunk) ''finish_reason'' \<noteq> None \<longrightarrow> ch_pending s' = [])"
proof -
  let ?s = "chunk_started st_of s chunk"
  have "ch_ok ?s \<and> given_at ?s i = given_at s i"
    using assms(1) by (auto simp: chunk_started_def ch_ok_def given_at_def pending_at_def is_open_def)
  then have "ch_ok (chunk_content st_of ?s chunk)
      \<and> given_at (chunk_content st_of ?s chunk) i = given_at s i @ concat (map (call_piece i) (chunk_calls chunk))"
    (is "ch_ok ?t \<and> _")
  proof -
    assume s: "ch_ok ?s \<and> given_at ?s i = given_at s i"
    let ?delta = "sub_field (first_choice chunk) ''delta''"
    let ?s1 = "piece st_of 0 Text_content (\<lambda>t b. Text_delta b 0 t) (text_of_field ?delta ''content'') ?s"
    let ?s2 = "piece st_of 1000 Reasoning_content (\<lambda>t b. Reasoning_delta b 1000 t) (text_of_field ?delta ''reasoning_content'') ?s1"
    have s1: "ch_ok ?s1 \<and> given_at ?s1 i = given_at s i"
      using s piece_ok [of ?s 0 i "\<lambda>t b. Text_delta b 0 t"] by simp
    then have "ch_ok ?s2 \<and> given_at ?s2 i = given_at s i"
      using piece_ok [of ?s1 1000 i "\<lambda>t b. Reasoning_delta b 1000 t"] by simp
    then have "ch_ok (foldl (chat_call st_of) ?s2 (chunk_calls chunk))
        \<and> given_at (foldl (chat_call st_of) ?s2 (chunk_calls chunk)) i = given_at s i @ concat (map (call_piece i) (chunk_calls chunk))"
      using chat_calls_ok [of ?s2 "chunk_calls chunk" st_of i] assms(2) by (simp add: few_calls_def)
    then show ?thesis using chat_usage_ok by (simp add: chunk_content_def Let_def)
  qed
  moreover have "chat_finish st_of (text_of_field (first_choice chunk) ''finish_reason'') (chunk_content st_of ?s chunk) = (s', None)"
    using assms(3) by (simp add: chat_chunk_def split: option.splits)
  ultimately show ?thesis
    using chat_finish_ok [of ?t st_of "text_of_field (first_choice chunk) ''finish_reason''" s' i] by simp
qed

lemma chat_run_ok:
  assumes "ch_ok s" and "list_all few_calls chunks" and "chat_run st_of s chunks = (s', None)"
  shows "given_at s' i = given_at s i @ pieces_at chunks i
    \<and> (if chunks \<noteq> [] \<and> text_of_field (first_choice (last chunks)) ''finish_reason'' \<noteq> None then ch_pending s' = [] else True)"
  using assms
proof (induction chunks arbitrary: s)
  case Nil
  then show ?case by (simp add: pieces_at_def)
next
  case (Cons chunk chunks)
  obtain s1 where step: "chat_chunk st_of s chunk = (s1, None)" and run: "chat_run st_of s1 chunks = (s', None)"
    using Cons.prems(3) by (auto split: prod.splits option.splits)
  have s1: "ch_ok s1 \<and> given_at s1 i = given_at s i @ concat (map (call_piece i) (chunk_calls chunk))
    \<and> (text_of_field (first_choice chunk) ''finish_reason'' \<noteq> None \<longrightarrow> ch_pending s1 = [])"
    using chat_chunk_ok [OF Cons.prems(1) _ step] Cons.prems(2) by simp
  have "chunks = [] \<Longrightarrow> s' = s1" using run by (auto split: if_splits)
  then show ?case
    using Cons.IH [of s1] run s1 Cons.prems(2) by (auto simp: pieces_at_def split: if_splits)
qed

text \<open>C22: the arguments of a tool call arrive whole and in order, wherever the provider puts its name. For every stream of
  chunks with fewer than a thousand parallel calls that ends well, the argument text the events give for a call, followed
  by what is still held back, is the concatenation of the pieces of the chunks for it, in order, also of those that came
  before its name; and nothing is held back when the last chunk has the finish reason.\<close>

theorem tool_arguments_complete:
  assumes "chat_run st_of chat_start chunks = (s, None)" and "list_all few_calls chunks"
  shows "arguments_at (rs_out (ch_rail s)) i @ pending_at s i = pieces_at chunks i
    \<and> (if text_of_field (first_choice (last chunks)) ''finish_reason'' \<noteq> None then pending_at s i = [] else True)"
proof -
  have "ch_ok chat_start" "given_at chat_start i = []"
    by (simp_all add: ch_ok_def chat_start_def rail_start_def is_open_def given_at_def pending_at_def)
  moreover have "chunks \<noteq> []" using assms(1) by (auto simp: chat_start_def rail_start_def)
  ultimately show ?thesis
    using chat_run_ok [OF _ assms(2,1), of i] by (auto simp: given_at_def pending_at_def split: if_splits)
qed

definition call_chunk :: "nat \<Rightarrow> (string \<times> json) list \<Rightarrow> (string \<times> json) list \<Rightarrow> json" where
  "call_chunk k fn extra =
     JObj [(''choices'', JArr [JObj ([(''delta'', JObj [(''tool_calls'', JArr [JObj [(''index'', JNum (of_nat k)), (''function'', JObj fn)]])])] @ extra)])]"

definition late_name :: "json list" where
  "late_name =
     [call_chunk 0 [(''arguments'', JStr ''nu'')] [],
      call_chunk 0 [(''name'', JStr ''now''), (''arguments'', JStr ''ll'')] [(''finish_reason'', JStr ''tool_calls'')]]"

lemma late_name_runs:
  "snd (chat_run example_base chat_start late_name) = None" "list_all few_calls late_name"
  "text_of_field (first_choice (last late_name)) ''finish_reason'' = Some ''tool_calls''"
  "pieces_at late_name 1 = ''null''"
  by code_simp+

theorem tool_arguments_complete_witness:
  "arguments_at (rs_out (ch_rail (fst (chat_run example_base chat_start late_name)))) 1 = ''null''"
proof -
  obtain s where run: "chat_run example_base chat_start late_name = (s, None)"
    using late_name_runs(1) by (cases "chat_run example_base chat_start late_name") auto
  show ?thesis
    using tool_arguments_complete [OF run late_name_runs(2), of 1] late_name_runs(3,4) run by auto
qed


section \<open>What the transport emits can be encoded\<close>

definition named_calls :: "json \<Rightarrow> bool" where
  "named_calls chunk \<longleftrightarrow>
     list_all (\<lambda>call. if is_object_like call then str_field call ''id'' \<noteq> Some [] \<and> call_function call ''name'' \<noteq> Some [] else True)
       (chunk_calls chunk)"

definition chat_inv :: "(nat \<Rightarrow> event_base) \<Rightarrow> chat_state \<Rightarrow> bool" where
  "chat_inv st_of s \<longleftrightarrow> rail_ok st_of (ch_rail s) \<and> (\<forall>i. is_open i s \<longleftrightarrow> open_at (rs_out (ch_rail s)) i \<noteq> None)
     \<and> distinct (rs_open (ch_rail s)) \<and> list_all (\<lambda>(_, i). i \<noteq> []) (ch_toolIds s)"

lemma ch_emit_quiet:
  assumes "chat_inv st_of s" and "\<And>b. event_head (f b) = b" "\<And>b op. item_ok op (f b)" "\<And>i b. \<not> touches i (f b)"
  shows "chat_inv st_of (ch_emit st_of f s)"
  using assms by (simp add: chat_inv_def open_at_snoc) (simp add: ch_emit_def emit_ok)

lemma ch_emit_start:
  assumes "chat_inv st_of s" and "\<not> is_open index s"
    and "ty = Tool_call_content \<Longrightarrow> non_empty x \<noteq> None \<and> non_empty y \<noteq> None"
  shows "chat_inv st_of (ch_emit st_of (\<lambda>b. Content_started b index ty x y z) (ch_open index s))"
proof -
  have "rail_ok st_of (emit st_of (\<lambda>b. Content_started b index ty x y z) (ch_rail (ch_open index s)))"
    using assms by (intro emit_ok) (auto simp: chat_inv_def ch_open_def)
  then show ?thesis
    using assms by (auto simp: chat_inv_def ch_emit_def open_at_snoc is_open_def ch_open_def)
qed

lemma ch_pending_inv [simp]: "chat_inv st_of (s\<lparr>ch_pending := p\<rparr>) = chat_inv st_of s"
  by (simp add: chat_inv_def)

lemma piece_inv:
  assumes "chat_inv st_of s" and "ty \<noteq> Tool_call_content"
    and "\<And>t b. event_head (delta t b) = b" "\<And>t b op. item_ok op (delta t b)" "\<And>t i b. \<not> touches i (delta t b)"
  shows "chat_inv st_of (piece st_of index ty delta x s)"
  using assms by (auto simp: piece_def intro!: ch_emit_quiet ch_emit_start split: option.splits)

lemma start_call_inv:
  assumes "chat_inv st_of s" and "i \<noteq> []" and "nm \<noteq> Some []"
  shows "chat_inv st_of (start_call st_of index i nm s)"
proof -
  have "chat_inv st_of (foldl (\<lambda>s t. ch_emit st_of (\<lambda>b. Tool_arguments_delta b index i t) s) u ts)" if "chat_inv st_of u" for u ts
    using that by (induction ts arbitrary: u) (simp_all add: ch_emit_quiet)
  moreover have "chat_inv st_of (ch_emit st_of (\<lambda>b. Content_started b index Tool_call_content (Some i) (Some n) None) (ch_open index s))"
    if "nm = Some n" "\<not> is_open index s" for n
    using assms that by (intro ch_emit_start) (auto simp: non_empty_def)
  ultimately show ?thesis
    using assms(1) by (cases nm) (simp_all add: start_call_def Let_def)
qed

lemma call_arguments_inv: "chat_inv st_of s \<Longrightarrow> chat_inv st_of (call_arguments st_of index i args s)"
  by (auto simp: call_arguments_def intro!: ch_emit_quiet split: option.splits)

lemma call_id_known:
  assumes "list_all (\<lambda>(_, i). i \<noteq> []) (ch_toolIds s)" and "str_field call ''id'' \<noteq> Some []"
  shows "call_id call s \<noteq> []"
proof (cases "map_of (ch_toolIds s) (call_index call)")
  case None
  then show ?thesis using assms(2) by (auto simp: call_id_def tool_fallback_def split: option.splits)
next
  case (Some i)
  then have "i \<noteq> []" using assms(1) by (auto simp: list_all_iff dest: map_of_SomeD)
  then show ?thesis using Some assms(2) by (auto simp: call_id_def split: option.splits)
qed

lemma chat_call_inv:
  assumes "chat_inv st_of s"
    and "if is_object_like call then str_field call ''id'' \<noteq> Some [] \<and> call_function call ''name'' \<noteq> Some [] else True"
  shows "chat_inv st_of (chat_call st_of s call)"
proof (cases "is_object_like call")
  case True
  then have id: "call_id call s \<noteq> []" using assms call_id_known by (simp add: chat_inv_def)
  have "list_all (\<lambda>(_, i). i \<noteq> []) (AList.update (call_index call) (call_id call s) (ch_toolIds s))"
    using assms(1) id by (intro names_update) (simp_all add: chat_inv_def)
  then have "chat_inv st_of (s\<lparr>ch_toolIds := AList.update (call_index call) (call_id call s) (ch_toolIds s)\<rparr>)"
    using assms(1) by (simp add: chat_inv_def)
  then show ?thesis
    using True assms(2) id by (simp add: chat_call_def Let_def call_arguments_inv start_call_inv)
qed (simp add: chat_call_def assms(1))

lemma chat_calls_inv:
  "chat_inv st_of s \<Longrightarrow>
     list_all (\<lambda>call. if is_object_like call then str_field call ''id'' \<noteq> Some [] \<and> call_function call ''name'' \<noteq> Some [] else True) calls \<Longrightarrow>
     chat_inv st_of (foldl (chat_call st_of) s calls)"
  by (induction calls arbitrary: s) (simp_all add: chat_call_inv del: if_bool_eq_conj)

lemma close_all:
  assumes "rail_ok st_of (ch_rail s)" and "distinct xs" and "\<forall>i \<in> set xs. open_at (rs_out (ch_rail s)) i \<noteq> None"
  shows "rail_ok st_of (ch_rail (foldl (\<lambda>s index. ch_emit st_of (\<lambda>b. Content_completed b index) s) s xs))
    \<and> (\<forall>i. open_at (rs_out (ch_rail (foldl (\<lambda>s index. ch_emit st_of (\<lambda>b. Content_completed b index) s) s xs))) i
        = (if i \<in> set xs then None else open_at (rs_out (ch_rail s)) i))"
  using assms
proof (induction xs arbitrary: s)
  case (Cons x xs)
  have "rail_ok st_of (ch_rail (ch_emit st_of (\<lambda>b. Content_completed b x) s))"
    using Cons.prems by (auto simp: ch_emit_def intro!: emit_ok)
  moreover have opened: "open_at (rs_out (ch_rail (ch_emit st_of (\<lambda>b. Content_completed b x) s))) i =
      (if i = x then None else open_at (rs_out (ch_rail s)) i)" for i
    by (simp add: open_at_snoc)
  moreover have "\<forall>i \<in> set xs. open_at (rs_out (ch_rail (ch_emit st_of (\<lambda>b. Content_completed b x) s))) i \<noteq> None"
    using Cons.prems unfolding opened by auto
  ultimately have IH: "rail_ok st_of (ch_rail (foldl (\<lambda>s index. ch_emit st_of (\<lambda>b. Content_completed b index) s)
          (ch_emit st_of (\<lambda>b. Content_completed b x) s) xs))
    \<and> (\<forall>i. open_at (rs_out (ch_rail (foldl (\<lambda>s index. ch_emit st_of (\<lambda>b. Content_completed b index) s)
          (ch_emit st_of (\<lambda>b. Content_completed b x) s) xs))) i
        = (if i \<in> set xs then None else open_at (rs_out (ch_rail (ch_emit st_of (\<lambda>b. Content_completed b x) s))) i))"
    using Cons.prems(2) by (intro Cons.IH) simp_all
  show ?case unfolding foldl_Cons using IH unfolding opened by simp
qed simp

lemma chat_finish_inv:
  assumes "chat_inv st_of s"
  shows "chat_inv st_of (fst (chat_finish st_of reason s))"
proof (cases "reason = None \<or> ch_pending s \<noteq> []")
  case True
  then show ?thesis using assms by (auto simp: chat_finish_def split: option.splits)
next
  case False
  then obtain r where r: "reason = Some r" "ch_pending s = []" by auto
  let ?closed = "foldl (\<lambda>s index. ch_emit st_of (\<lambda>b. Content_completed b index) s) s (rs_open (ch_rail s))"
  have "rail_ok st_of (ch_rail ?closed)" "open_at (rs_out (ch_rail ?closed)) = Map.empty"
    using close_all [of st_of s "rs_open (ch_rail s)"] assms by (auto simp: chat_inv_def is_open_def fun_eq_iff)
  moreover have "ch_toolIds (foldl (\<lambda>s index. ch_emit st_of (\<lambda>b. Content_completed b index) s) u xs) = ch_toolIds u" for u xs
    by (induction xs arbitrary: u) simp_all
  ultimately have "chat_inv st_of (?closed\<lparr>ch_rail := (ch_rail ?closed)\<lparr>rs_open := []\<rparr>\<rparr>)"
    using assms by (simp add: chat_inv_def is_open_def)
  then have "chat_inv st_of (ch_emit st_of (\<lambda>b. Response_completed b (chat_stop r)) (?closed\<lparr>ch_rail := (ch_rail ?closed)\<lparr>rs_open := []\<rparr>\<rparr>))"
    by (intro ch_emit_quiet) simp_all
  then show ?thesis using r by (simp add: chat_finish_def Let_def chat_inv_def is_open_def)
qed

lemma chat_chunk_inv:
  assumes "chat_inv st_of s" and "named_calls chunk"
  shows "chat_inv st_of (fst (chat_chunk st_of s chunk))"
proof (cases "truthy_field chunk ''error''")
  case None
  have "chat_inv st_of (s\<lparr>ch_rail := (ch_rail s)\<lparr>rs_started := True\<rparr>\<rparr>)"
    using assms(1) by (simp add: chat_inv_def is_open_def)
  then have "chat_inv st_of (chunk_started st_of s chunk)"
    using assms(1) by (auto simp: chunk_started_def intro!: ch_emit_quiet)
  then have "chat_inv st_of (chunk_content st_of (chunk_started st_of s chunk) chunk)"
    using assms(2)
    by (auto simp: chunk_content_def Let_def chat_usage_def named_calls_def
        intro!: ch_emit_quiet chat_calls_inv piece_inv split: option.splits)
  then show ?thesis using None chat_finish_inv by (simp add: chat_chunk_def)
qed (simp add: chat_chunk_def assms(1))

lemma chat_run_inv:
  assumes "chat_inv st_of s" and "list_all named_calls chunks"
  shows "chat_inv st_of (fst (chat_run st_of s chunks))"
  using assms
proof (induction chunks arbitrary: s)
  case (Cons chunk chunks)
  then have "chat_inv st_of (fst (chat_chunk st_of s chunk))" by (intro chat_chunk_inv) auto
  then show ?case using Cons by (auto split: prod.splits option.splits)
qed simp


text \<open>what the Chat Completions transport emits can be encoded. However a provider orders its chunks and however the
  network cuts them, as long as no tool call has an empty id or name, the Anthropic encoder accepts every event the
  transport emits, up to its end or its failure: the sequence numbers grow, the request is one, and the blocks it
  completes at a finish reason are those that are open.\<close>

theorem chat_stream_encodable:
  assumes "chat_invoke json_parse adapter req decision clock (Stream_answer (Some chunks)) = (events, e)"
    and "ca_responsesRail adapter = False" and "list_all named_calls (chat_chunks json_parse chunks)"
  shows "encodeAnthropicEvents events False = Inr (concat (map event_frames events))"
proof -
  let ?s = "fst (chat_run (stamp req decision clock) chat_start (chat_chunks json_parse chunks))"
  have "chat_inv (stamp req decision clock) chat_start"
    by (simp add: chat_inv_def chat_start_def rail_start_def rail_ok_def items_ok_def is_open_def open_at_Nil)
  then have "chat_inv (stamp req decision clock) ?s" using assms(3) by (rule chat_run_inv)
  then have "stream_ok (rs_out (ch_rail ?s))" using rail_stream_ok [of req decision clock "ch_rail ?s"] by (simp add: chat_inv_def)
  moreover have "stream_ok []" by (simp add: stream_ok_def same_request_def items_ok_def)
  moreover have "events = rs_out (ch_rail ?s) \<or> events = []"
    using assms(1,2) by (auto simp: chat_invoke_def Let_def split: if_splits prod.splits)
  ultimately show ?thesis by (auto simp: encoder_accepts)
qed

definition chat_stream_chunks :: "string list" where
  "chat_stream_chunks = [sse_of ''T'' @ take 5 (sse_of ''U''), drop 5 (sse_of ''U'') @ sse_of ''[DONE]'']"

definition chat_parse :: "string \<Rightarrow> json option" where
  "chat_parse s = map_of
     [(''T'', JObj [(''id'', JStr ''c1''), (''choices'', JArr [JObj [(''delta'', JObj [(''content'', JStr ''hi'')]), (''finish_reason'', JStr ''stop'')]])]),
      (''U'', JObj [(''id'', JStr ''c1''), (''choices'', JArr []),
                    (''usage'', JObj [(''prompt_tokens'', JNum 12), (''completion_tokens'', JNum 7)])])] s"

definition chat_events :: "canonical_event list" where
  "chat_events = fst (chat_invoke chat_parse DeepSeekAdapter (turn_request None) rail_decision (\<lambda>_. Instant 0)
     (Stream_answer (Some chat_stream_chunks)))"

lemma chat_read:
  "chat_events =
     (let b = stamp (turn_request None) rail_decision (\<lambda>_. Instant 0) in
      [Response_started (b 0) ''c1'', Content_started (b 1) 0 Text_content None None None, Text_delta (b 2) 0 ''hi'',
       Content_completed (b 3) 0, Response_completed (b 4) ''end_turn'', Usage_updated (b 5) (Some 12) (Some 7)])"
  "list_all named_calls (chat_chunks chat_parse chat_stream_chunks)"
  "ca_responsesRail DeepSeekAdapter = False"
  by code_simp+

theorem chat_stream_encodable_witness:
  "encodeAnthropicEvents chat_events False = Inr (concat (map event_frames chat_events)) \<and> length chat_events = 6"
proof -
  obtain e where run: "chat_invoke chat_parse DeepSeekAdapter (turn_request None) rail_decision (\<lambda>_. Instant 0)
     (Stream_answer (Some chat_stream_chunks)) = (chat_events, e)" unfolding chat_events_def by (metis prod.collapse)
  have "length chat_events = 6" by (simp add: chat_read(1) Let_def)
  then show ?thesis using chat_stream_encodable [OF run chat_read(3,2)] by simp
qed

text \<open>
  What the transport loses. The usage the payload asks for comes in a last chunk of its own, after the finish reason: the
  stream is already completed, and the completed response of the other protocol says that no token was used. A message
  with a tool result loses everything else it says. A body with an error and no choice is an empty answer that ends well. An
  answer cut at the token limit ends like any other. No arguments at all are no JSON.
\<close>

lemma usage_after_completion:
  "case encodeResponsesEvents example_parse chat_events True of
     Inr frames \<Rightarrow> map_option (\<lambda>r. json_field r ''usage'') (json_field (snd (last frames)) ''response'') = Some (Some (usage_record (0, 0)))
   | Inl _ \<Rightarrow> False"
  "last chat_events = Usage_updated (stamp (turn_request None) rail_decision (\<lambda>_. Instant 0) 5) (Some 12) (Some 7)"
  by code_simp+

lemma tool_result_drops_text:
  "toChatMessages env replay [\<lparr>msg_role = User_role, msg_content = [Tool_result_part i content e, Text_part s, Image_part m d]\<rparr>] =
     [JObj [(''role'', JStr ''tool''), (''tool_call_id'', JStr i), (''content'', JStr (chat_textOf content))]]"
  by (simp add: toChatMessages_def tool_message_def List.map_filter_simps)

lemma error_body_ends_well:
  "chat_body st_of (JObj [(''error'', JObj [(''message'', JStr m)])]) =
     [Response_started (st_of 0) ''provider-response'', Response_completed (st_of 1) ''end_turn'']"
  by (simp add: chat_body_def Let_def first_choice_def arr_field_def sub_field_def text_of_field_def non_empty_def body_text_def
      truthy_field_def r_if_def emit_def rail_start_def str_field_def chat_stop_def)

lemma length_ends_turn: "chat_stop ''length'' = ''end_turn''" "chat_tool_choice Choice_any = JStr ''any''"
  by (simp_all add: chat_stop_def chat_tool_choice_def)

lemma empty_call_fails:
  "aggregateAnthropicEvents example_parse
     (chat_body example_base (JObj [(''choices'', JArr [JObj [(''message'', JObj [(''tool_calls'', JArr
        [JObj [(''id'', JStr ''t1''), (''function'', JObj [(''name'', JStr ''now''), (''arguments'', JStr [])])]])])]])]))
   = Inl (Protocol_error ''invalid_tool_arguments'' ''Tool argument deltas are not valid JSON'' 502)"
  by code_simp

end
