(* ===== verification/Stream_Transport.thy ===== *)
theory Stream_Transport
  imports Responses_Continuation
begin

text \<open>
  The incremental transport both protocol routes share: the lifecycle of one stream
  (\<^verbatim>\<open>src/routes/stream-lifecycle.ts\<close>) and the pump that carries an upstream's events through an encoder to the
  client (\<^verbatim>\<open>src/routes/stream-pump.ts\<close>). The pump is an async generator: it runs from one suspension to the next, and
  what resumes it (the upstream's answer, the client's pull, a timer, the client's disconnect) is an action of
  the environment. A timer fires no earlier than its deadline; a step carries the time at which it happens.
\<close>

section \<open>The lifecycle\<close>

datatype timeout_category = Setup_timeout | Idle_timeout

datatype stream_terminal = Stream_completed | Stream_error | Stream_cancelled | Stream_timeout timeout_category

record timeout_policy =
  setupTimeoutMs :: nat
  idleTimeoutMs :: nat

definition DEFAULT_STREAM_TIMEOUT_POLICY :: timeout_policy where
  "DEFAULT_STREAM_TIMEOUT_POLICY = \<lparr>setupTimeoutMs = 30000, idleTimeoutMs = 300000\<rparr>"

record stream_lifecycle =
  lc_policy :: timeout_policy
  lc_startedAt :: nat
  lc_terminal :: "stream_terminal option"
  lc_eventCount :: nat
  lc_frameCount :: nat
  lc_backpressureCount :: nat
  lc_finished :: bool
  lc_setupTimer :: "nat option"
  lc_idleTimer :: "nat option"
  lc_clientBound :: bool
  lc_aborted :: bool

record stream_metrics =
  sm_eventCount :: nat
  sm_frameCount :: nat
  sm_backpressureCount :: nat
  sm_durationMs :: nat
  sm_terminal :: "stream_terminal option"

definition clearTimers :: "stream_lifecycle \<Rightarrow> stream_lifecycle" where
  "clearTimers l = l\<lparr>lc_setupTimer := None, lc_idleTimer := None\<rparr>"

definition terminate :: "stream_terminal \<Rightarrow> stream_lifecycle \<Rightarrow> stream_lifecycle" where
  "terminate t l = (if lc_terminal l \<noteq> None then l else (clearTimers l)\<lparr>lc_terminal := Some t, lc_aborted := True\<rparr>)"

definition createStreamLifecycle :: "timeout_policy \<Rightarrow> bool \<Rightarrow> nat \<Rightarrow> stream_lifecycle" where
  "createStreamLifecycle policy clientAborted now =
     (let l = \<lparr>lc_policy = policy, lc_startedAt = now, lc_terminal = None, lc_eventCount = 0, lc_frameCount = 0,
               lc_backpressureCount = 0, lc_finished = False, lc_setupTimer = None, lc_idleTimer = None,
               lc_clientBound = False, lc_aborted = False\<rparr>
      in (if clientAborted then terminate Stream_cancelled l else l\<lparr>lc_clientBound := True\<rparr>)
           \<lparr>lc_setupTimer := Some (now + setupTimeoutMs policy)\<rparr>)"

definition onClientAbort :: "stream_lifecycle \<Rightarrow> stream_lifecycle" where
  "onClientAbort l = (if lc_clientBound l then terminate Stream_cancelled l else l)"

definition isTerminated :: "stream_lifecycle \<Rightarrow> bool" where
  "isTerminated l \<longleftrightarrow> lc_terminal l \<noteq> None"

definition armIdle :: "nat \<Rightarrow> stream_lifecycle \<Rightarrow> stream_lifecycle" where
  "armIdle now l =
     (if isTerminated l \<or> lc_idleTimer l \<noteq> None then l
      else l\<lparr>lc_idleTimer := Some (now + idleTimeoutMs (lc_policy l))\<rparr>)"

definition noteEvent :: "stream_lifecycle \<Rightarrow> stream_lifecycle" where
  "noteEvent l = l\<lparr>lc_eventCount := Suc (lc_eventCount l), lc_setupTimer := None, lc_idleTimer := None\<rparr>"

definition noteFrame :: "stream_lifecycle \<Rightarrow> stream_lifecycle" where
  "noteFrame l = l\<lparr>lc_frameCount := Suc (lc_frameCount l)\<rparr>"

definition noteBackpressure :: "stream_lifecycle \<Rightarrow> stream_lifecycle" where
  "noteBackpressure l = l\<lparr>lc_backpressureCount := Suc (lc_backpressureCount l)\<rparr>"

definition noteEventDone :: "nat \<Rightarrow> stream_lifecycle \<Rightarrow> stream_lifecycle" where
  "noteEventDone now l = armIdle now l"

definition lifecycle_metrics :: "nat \<Rightarrow> stream_lifecycle \<Rightarrow> stream_metrics" where
  "lifecycle_metrics now l =
     \<lparr>sm_eventCount = lc_eventCount l, sm_frameCount = lc_frameCount l, sm_backpressureCount = lc_backpressureCount l,
      sm_durationMs = now - lc_startedAt l, sm_terminal = lc_terminal l\<rparr>"

definition lifecycle_finish :: "bool \<Rightarrow> bool \<Rightarrow> stream_lifecycle \<Rightarrow> stream_lifecycle" where
  "lifecycle_finish outcomeError cleanEnd l =
     (if lc_finished l then l
      else (clearTimers l)\<lparr>lc_finished := True, lc_clientBound := False, lc_aborted := True,
        lc_terminal := Some (case lc_terminal l of
            None \<Rightarrow> if cleanEnd then Stream_completed else if outcomeError then Stream_error else Stream_cancelled
          | Some t \<Rightarrow> if cleanEnd \<and> t = Stream_cancelled then Stream_completed else t)\<rparr>)"

section \<open>The pump\<close>

record ('c, 'w, 'x) pump_options =
  po_push :: "'c \<Rightarrow> canonical_event \<Rightarrow> 'x + 'w list \<times> 'c"
  po_finish :: "'c \<Rightarrow> 'x + unit"
  po_frame :: "'w \<Rightarrow> string"
  po_errorFrame :: "'x \<Rightarrow> string"
  po_timeoutFrame :: "timeout_category \<Rightarrow> string"

text \<open>
  Where the generator stands: not entered, awaiting the upstream's next event, suspended at the \<open>yield\<close> of a frame with
  more to come, awaiting the close of the upstream after a \<open>break\<close>, after an exception inside the loop (with that
  exception) or after the consumer's \<open>return\<close>, awaiting \<open>onComplete\<close>, suspended at the \<open>yield\<close> of the last error
  frame, done, or discarded without having been entered.
\<close>

datatype ('w, 'x) pump_phase =
    Created | Fetching | Writing "'w list" | Breaking | Failing 'x | Returning | Completing | Closing | Ended | Discarded

record ('c, 'w, 'x) pump =
  pm_phase :: "('w, 'x) pump_phase"
  pm_life :: stream_lifecycle
  pm_encoder :: 'c
  pm_output :: "string list"
  pm_cleanEnd :: bool
  pm_reports :: "stream_metrics list"

datatype 'x pump_action =
    Pull | Next_event canonical_event | Source_end | Source_throws 'x | Source_closed | Complete_ok | Complete_throws 'x
  | Consumer_return | Consumer_throw 'x | Client_abort | Setup_fires | Idle_fires | Drain

definition pump_start :: "'c \<Rightarrow> stream_lifecycle \<Rightarrow> ('c, 'w, 'x) pump" where
  "pump_start c l = \<lparr>pm_phase = Created, pm_life = l, pm_encoder = c, pm_output = [], pm_cleanEnd = False, pm_reports = []\<rparr>"

text \<open>The \<open>finally\<close> block.\<close>

definition finalize :: "nat \<Rightarrow> ('c, 'w, 'x) pump \<Rightarrow> ('c, 'w, 'x) pump" where
  "finalize now p =
     (let l = lifecycle_finish (\<not> pm_cleanEnd p) (pm_cleanEnd p) (pm_life p)
      in p\<lparr>pm_phase := Ended, pm_life := l, pm_reports := pm_reports p @ [lifecycle_metrics now l]\<rparr>)"

text \<open>The \<open>catch\<close> block.\<close>

definition caught :: "('c, 'w, 'x) pump_options \<Rightarrow> nat \<Rightarrow> 'x \<Rightarrow> ('c, 'w, 'x) pump \<Rightarrow> ('c, 'w, 'x) pump" where
  "caught opt now x p0 =
     (let p = p0\<lparr>pm_cleanEnd := False\<rparr> in
      case lc_terminal (pm_life p) of
        Some Stream_cancelled \<Rightarrow> finalize now p
      | Some (Stream_timeout c) \<Rightarrow> p\<lparr>pm_output := pm_output p @ [po_timeoutFrame opt c], pm_phase := Closing\<rparr>
      | _ \<Rightarrow> p\<lparr>pm_output := pm_output p @ [po_errorFrame opt x], pm_phase := Closing\<rparr>)"

text \<open>After the loop.\<close>

definition loop_done :: "('c, 'w, 'x) pump_options \<Rightarrow> nat \<Rightarrow> ('c, 'w, 'x) pump \<Rightarrow> ('c, 'w, 'x) pump" where
  "loop_done opt now p0 =
     (let p = p0\<lparr>pm_cleanEnd := \<not> isTerminated (pm_life p0)\<rparr> in
      if isTerminated (pm_life p) then finalize now p
      else case po_finish opt (pm_encoder p) of
             Inl x \<Rightarrow> caught opt now x p
           | Inr _ \<Rightarrow> p\<lparr>pm_phase := Completing\<rparr>)"

text \<open>The frames of one event, from the next one on.\<close>

definition write_frames :: "('c, 'w, 'x) pump_options \<Rightarrow> nat \<Rightarrow> 'w list \<Rightarrow> ('c, 'w, 'x) pump \<Rightarrow> ('c, 'w, 'x) pump" where
  "write_frames opt now wires p =
     (case wires of
        w # ws \<Rightarrow>
          if isTerminated (pm_life p) then p\<lparr>pm_life := noteEventDone now (pm_life p), pm_phase := Fetching\<rparr>
          else p\<lparr>pm_output := pm_output p @ [po_frame opt w], pm_phase := Writing ws\<rparr>
      | [] \<Rightarrow> p\<lparr>pm_life := noteEventDone now (pm_life p), pm_phase := Fetching\<rparr>)"

text \<open>The body of the loop for one event.\<close>

definition on_event :: "('c, 'w, 'x) pump_options \<Rightarrow> nat \<Rightarrow> canonical_event \<Rightarrow> ('c, 'w, 'x) pump \<Rightarrow> ('c, 'w, 'x) pump" where
  "on_event opt now e p =
     (if isTerminated (pm_life p) then p\<lparr>pm_phase := Breaking\<rparr>
      else let p = p\<lparr>pm_life := noteEvent (pm_life p)\<rparr> in
           case po_push opt (pm_encoder p) e of
             Inl x \<Rightarrow> p\<lparr>pm_phase := Failing x\<rparr>
           | Inr (frames, c) \<Rightarrow> write_frames opt now frames (p\<lparr>pm_encoder := c\<rparr>))"

definition with_life :: "(stream_lifecycle \<Rightarrow> stream_lifecycle) \<Rightarrow> ('c, 'w, 'x) pump \<Rightarrow> ('c, 'w, 'x) pump" where
  "with_life f p = p\<lparr>pm_life := f (pm_life p)\<rparr>"

definition due :: "nat option \<Rightarrow> nat \<Rightarrow> bool" where
  "due timer now \<longleftrightarrow> (case timer of None \<Rightarrow> False | Some t \<Rightarrow> t \<le> now)"

text \<open>One action at the time \<open>now\<close>; \<open>None\<close> where the action cannot happen in the phase.\<close>

fun pump_step :: "('c, 'w, 'x) pump_options \<Rightarrow> nat \<Rightarrow> 'x pump_action \<Rightarrow> ('c, 'w, 'x) pump \<Rightarrow> ('c, 'w, 'x) pump option" where
  "pump_step opt now Client_abort p = Some (with_life onClientAbort p)"
| "pump_step opt now Setup_fires p =
     (if due (lc_setupTimer (pm_life p)) now then Some (with_life (terminate (Stream_timeout Setup_timeout)) p) else None)"
| "pump_step opt now Idle_fires p =
     (if due (lc_idleTimer (pm_life p)) now then Some (with_life (terminate (Stream_timeout Idle_timeout)) p) else None)"
| "pump_step opt now Drain p = (if pm_reports p = [] then Some (with_life noteBackpressure p) else None)"
| "pump_step opt now Pull p =
     (case pm_phase p of
        Created \<Rightarrow> Some (p\<lparr>pm_phase := Fetching\<rparr>)
      | Writing ws \<Rightarrow> Some (write_frames opt now ws (with_life noteFrame p))
      | Closing \<Rightarrow> Some (finalize now p)
      | _ \<Rightarrow> None)"
| "pump_step opt now (Next_event e) p = (if pm_phase p = Fetching then Some (on_event opt now e p) else None)"
| "pump_step opt now Source_end p = (if pm_phase p = Fetching then Some (loop_done opt now p) else None)"
| "pump_step opt now (Source_throws x) p =
     (case pm_phase p of
        Fetching \<Rightarrow> Some (caught opt now x p)
      | Breaking \<Rightarrow> Some (caught opt now x p)
      | Failing y \<Rightarrow> Some (caught opt now y p)
      | Returning \<Rightarrow> Some (caught opt now x p)
      | _ \<Rightarrow> None)"
| "pump_step opt now Source_closed p =
     (case pm_phase p of
        Breaking \<Rightarrow> Some (loop_done opt now p)
      | Failing y \<Rightarrow> Some (caught opt now y p)
      | Returning \<Rightarrow> Some (finalize now p)
      | _ \<Rightarrow> None)"
| "pump_step opt now Complete_ok p = (if pm_phase p = Completing then Some (finalize now p) else None)"
| "pump_step opt now (Complete_throws x) p = (if pm_phase p = Completing then Some (caught opt now x p) else None)"
| "pump_step opt now Consumer_return p =
     (case pm_phase p of
        Created \<Rightarrow> Some (p\<lparr>pm_phase := Discarded\<rparr>)
      | Writing _ \<Rightarrow> Some (p\<lparr>pm_phase := Returning\<rparr>)
      | Closing \<Rightarrow> Some (finalize now p)
      | _ \<Rightarrow> None)"
| "pump_step opt now (Consumer_throw x) p =
     (case pm_phase p of
        Created \<Rightarrow> Some (p\<lparr>pm_phase := Discarded\<rparr>)
      | Writing _ \<Rightarrow> Some (p\<lparr>pm_phase := Failing x\<rparr>)
      | Closing \<Rightarrow> Some (finalize now p)
      | _ \<Rightarrow> None)"

fun pump_run :: "('c, 'w, 'x) pump_options \<Rightarrow> (nat \<times> 'x pump_action) list \<Rightarrow> ('c, 'w, 'x) pump \<Rightarrow> ('c, 'w, 'x) pump option" where
  "pump_run opt [] p = Some p"
| "pump_run opt ((now, a) # steps) p = Option.bind (pump_step opt now a p) (pump_run opt steps)"

section \<open>What the pump has written\<close>

fun action_event :: "'x pump_action \<Rightarrow> canonical_event option" where
  "action_event (Next_event e) = Some e"
| "action_event _ = None"

definition received :: "(nat \<times> 'x pump_action) list \<Rightarrow> canonical_event list" where
  "received steps = List.map_filter (action_event \<circ> snd) steps"

lemma received_simps [simp]:
  "received [] = []"
  "received (s # steps) = (case action_event (snd s) of None \<Rightarrow> [] | Some e \<Rightarrow> [e]) @ received steps"
  by (auto simp: received_def List.map_filter_def split: option.split)

fun push_events :: "('c \<Rightarrow> canonical_event \<Rightarrow> 'x + 'w list \<times> 'c) \<Rightarrow> 'c \<Rightarrow> canonical_event list \<Rightarrow> 'x + 'w list \<times> 'c" where
  "push_events push c [] = Inr ([], c)"
| "push_events push c (e # es) =
     bind_ok (push c e) (\<lambda>(frames, c'). bind_ok (push_events push c' es) (\<lambda>(rest, c''). Inr (frames @ rest, c'')))"

lemma push_events_snoc:
  assumes "push_events push c es = Inr (frames, c')" and "push c' e = Inr (more_frames, c'')"
  shows "push_events push c (es @ [e]) = Inr (frames @ more_frames, c'')"
  using assms by (induction es arbitrary: c frames) (auto simp: bind_ok_Inr_iff)

text \<open>
  The invariant: the frames written are those of the events pushed, in order and without a gap, followed at most by one
  frame for an error or a timeout; while the stream is not terminated nothing is missing.
\<close>

definition all_written :: "('c, 'w, 'x) pump_options \<Rightarrow> 'c \<Rightarrow> canonical_event list \<Rightarrow> ('c, 'w, 'x) pump \<Rightarrow> 'w list \<Rightarrow> bool" where
  "all_written opt c evs p pending \<longleftrightarrow>
     (\<exists>emitted. push_events (po_push opt) c evs = Inr (emitted @ pending, pm_encoder p)
        \<and> pm_output p = map (po_frame opt) emitted)"

definition tail_frame :: "('c, 'w, 'x) pump_options \<Rightarrow> string \<Rightarrow> bool" where
  "tail_frame opt s \<longleftrightarrow> (\<exists>x. s = po_errorFrame opt x) \<or> (\<exists>c. s = po_timeoutFrame opt c)"

definition some_written :: "('c, 'w, 'x) pump_options \<Rightarrow> 'c \<Rightarrow> canonical_event list \<Rightarrow> string list \<Rightarrow> bool" where
  "some_written opt c evs out \<longleftrightarrow>
     (\<exists>pre emitted pending c'. prefix pre evs \<and> push_events (po_push opt) c pre = Inr (emitted @ pending, c')
        \<and> out = map (po_frame opt) emitted)"

definition pump_ok :: "('c, 'w, 'x) pump_options \<Rightarrow> 'c \<Rightarrow> canonical_event list \<Rightarrow> ('c, 'w, 'x) pump \<Rightarrow> bool" where
  "pump_ok opt c evs p \<longleftrightarrow>
     (case pm_phase p of
        Created \<Rightarrow> \<not> pm_cleanEnd p \<and> all_written opt c evs p []
      | Discarded \<Rightarrow> \<not> pm_cleanEnd p \<and> some_written opt c evs (pm_output p)
      | Fetching \<Rightarrow> \<not> pm_cleanEnd p \<and> some_written opt c evs (pm_output p)
           \<and> (if isTerminated (pm_life p) then True else all_written opt c evs p [])
      | Writing ws \<Rightarrow> \<not> pm_cleanEnd p \<and> some_written opt c evs (pm_output p)
           \<and> (if isTerminated (pm_life p) then True else all_written opt c evs p ws)
      | Completing \<Rightarrow> pm_cleanEnd p \<and> all_written opt c evs p [] \<and> po_finish opt (pm_encoder p) = Inr ()
      | Closing \<Rightarrow> \<not> pm_cleanEnd p
           \<and> (\<exists>out s. pm_output p = out @ [s] \<and> some_written opt c evs out \<and> tail_frame opt s)
      | Ended \<Rightarrow>
          if pm_cleanEnd p then all_written opt c evs p [] \<and> po_finish opt (pm_encoder p) = Inr ()
          else lc_terminal (pm_life p) \<noteq> Some Stream_completed
             \<and> (some_written opt c evs (pm_output p)
                \<or> (\<exists>out s. pm_output p = out @ [s] \<and> some_written opt c evs out \<and> tail_frame opt s))
      | Breaking \<Rightarrow> \<not> pm_cleanEnd p \<and> some_written opt c evs (pm_output p) \<and> isTerminated (pm_life p)
      | _ \<Rightarrow> \<not> pm_cleanEnd p \<and> some_written opt c evs (pm_output p))
     \<and> (if pm_phase p = Ended then True else lc_terminal (pm_life p) \<noteq> Some Stream_completed \<and> \<not> lc_finished (pm_life p))"

lemma all_some: "all_written opt c evs p pending \<Longrightarrow> some_written opt c evs (pm_output p)"
  by (auto simp: all_written_def some_written_def)

lemma all_some_out: "all_written opt c evs (p\<lparr>pm_output := out\<rparr>) pending \<Longrightarrow> some_written opt c evs out"
  by (auto simp: all_written_def some_written_def)

lemma some_written_grows: "some_written opt c evs out \<Longrightarrow> some_written opt c (evs @ [e]) out"
  unfolding some_written_def using prefix_order.trans [of _ evs "evs @ [e]"] by (metis prefixI)

lemmas life_defs = terminate_def clearTimers_def onClientAbort_def isTerminated_def armIdle_def noteEvent_def noteFrame_def
  noteBackpressure_def noteEventDone_def

lemma life_terminal:
  "lc_terminal (noteEvent l) = lc_terminal l" "lc_terminal (noteFrame l) = lc_terminal l"
  "lc_terminal (noteBackpressure l) = lc_terminal l" "lc_terminal (noteEventDone now l) = lc_terminal l"
  "lc_terminal (clearTimers l) = lc_terminal l" "lc_terminal (terminate t l) = or_else (lc_terminal l) (Some t)"
  by (cases "lc_terminal l"; simp add: life_defs)+

lemma life_finished [simp]:
  "lc_finished (noteEvent l) = lc_finished l" "lc_finished (noteFrame l) = lc_finished l"
  "lc_finished (noteBackpressure l) = lc_finished l" "lc_finished (noteEventDone now l) = lc_finished l"
  "lc_finished (terminate t l) = lc_finished l" "lc_finished (onClientAbort l) = lc_finished l"
  by (simp_all add: life_defs)

declare life_terminal [simp]

lemma onClientAbort_terminal:
  "lc_terminal (onClientAbort l) = (if lc_clientBound l then or_else (lc_terminal l) (Some Stream_cancelled) else lc_terminal l)"
  by (simp add: onClientAbort_def)

lemma finalize_fields:
  "pm_phase (finalize now p) = Ended" "pm_output (finalize now p) = pm_output p" "pm_encoder (finalize now p) = pm_encoder p"
  "pm_cleanEnd (finalize now p) = pm_cleanEnd p"
  "pm_life (finalize now p) = lifecycle_finish (\<not> pm_cleanEnd p) (pm_cleanEnd p) (pm_life p)"
  by (simp_all add: finalize_def Let_def)

declare finalize_fields [simp]

lemma all_written_finalize [simp]: "all_written opt c evs (finalize now p) ws = all_written opt c evs p ws"
  by (simp add: all_written_def)

lemma all_written_update [simp]:
  "all_written opt c evs (p\<lparr>pm_life := l\<rparr>) ws = all_written opt c evs p ws"
  "all_written opt c evs (p\<lparr>pm_phase := f\<rparr>) ws = all_written opt c evs p ws"
  "all_written opt c evs (p\<lparr>pm_cleanEnd := b\<rparr>) ws = all_written opt c evs p ws"
  by (simp_all add: all_written_def)

lemma finalize_ok:
  assumes "\<not> lc_finished (pm_life p)" and "lc_terminal (pm_life p) \<noteq> Some Stream_completed"
    and "if pm_cleanEnd p then all_written opt c evs p [] \<and> po_finish opt (pm_encoder p) = Inr ()
         else some_written opt c evs (pm_output p)
           \<or> (\<exists>out s. pm_output p = out @ [s] \<and> some_written opt c evs out \<and> tail_frame opt s)"
  shows "pump_ok opt c evs (finalize now p)"
  using assms by (auto simp: pump_ok_def lifecycle_finish_def clearTimers_def split: option.splits if_splits)

lemma caught_ok:
  assumes "\<not> lc_finished (pm_life p)" and "lc_terminal (pm_life p) \<noteq> Some Stream_completed"
    and "some_written opt c evs (pm_output p)"
  shows "pump_ok opt c evs (caught opt now x p)"
proof (cases "lc_terminal (pm_life p) = Some Stream_cancelled")
  case True
  then show ?thesis using assms finalize_ok [of "p\<lparr>pm_cleanEnd := False\<rparr>"] by (simp add: caught_def Let_def)
next
  case False
  then show ?thesis using assms
    by (auto simp: caught_def Let_def pump_ok_def tail_frame_def split: option.splits stream_terminal.splits)
qed

lemma loop_done_ok:
  assumes "\<not> lc_finished (pm_life p)" and "lc_terminal (pm_life p) \<noteq> Some Stream_completed"
    and "some_written opt c evs (pm_output p)"
    and "\<not> isTerminated (pm_life p) \<Longrightarrow> all_written opt c evs p []"
  shows "pump_ok opt c evs (loop_done opt now p)"
proof (cases "isTerminated (pm_life p)")
  case True
  then show ?thesis using assms finalize_ok [of "p\<lparr>pm_cleanEnd := False\<rparr>"] by (simp add: loop_done_def Let_def)
next
  case False
  show ?thesis
  proof (cases "po_finish opt (pm_encoder p)")
    case (Inl x)
    then show ?thesis using False assms caught_ok [of "p\<lparr>pm_cleanEnd := True\<rparr>"] by (simp add: loop_done_def Let_def)
  next
    case (Inr u)
    then show ?thesis using False assms by (simp add: loop_done_def Let_def pump_ok_def)
  qed
qed

lemma write_frames_ok:
  assumes "\<not> lc_finished (pm_life p)" and "lc_terminal (pm_life p) \<noteq> Some Stream_completed" and "\<not> pm_cleanEnd p"
    and "some_written opt c evs (pm_output p)"
    and "\<not> isTerminated (pm_life p) \<Longrightarrow> all_written opt c evs p ws"
  shows "pump_ok opt c evs (write_frames opt now ws p)"
proof (cases "isTerminated (pm_life p)")
  case True
  then show ?thesis using assms by (auto simp: write_frames_def pump_ok_def isTerminated_def split: list.split)
next
  case False
  then obtain emitted where w: "push_events (po_push opt) c evs = Inr (emitted @ ws, pm_encoder p)"
      "pm_output p = map (po_frame opt) emitted"
    using assms(5) by (auto simp: all_written_def)
  have "all_written opt c evs (p\<lparr>pm_output := pm_output p @ [po_frame opt v], pm_phase := Writing vs\<rparr>) vs"
    if "ws = v # vs" for v vs
    unfolding all_written_def by (rule exI [of _ "emitted @ [v]"]) (use w that in simp)
  then show ?thesis using assms False
    by (auto simp: write_frames_def pump_ok_def isTerminated_def split: list.split dest: all_some_out)
qed

lemma pump_ok_not_ended:
  "pump_ok opt c evs p \<Longrightarrow> pm_phase p \<noteq> Ended \<Longrightarrow> lc_terminal (pm_life p) \<noteq> Some Stream_completed \<and> \<not> lc_finished (pm_life p)"
  by (auto simp: pump_ok_def)

lemma pump_okE:
  assumes "pump_ok opt c evs p" and "pm_phase p \<noteq> Ended"
  shows "lc_terminal (pm_life p) \<noteq> Some Stream_completed" and "\<not> lc_finished (pm_life p)"
  using pump_ok_not_ended [OF assms] by auto

lemma on_event_ok:
  assumes ok: "pump_ok opt c evs p" and ph: "pm_phase p = Fetching"
  shows "pump_ok opt c (evs @ [e]) (on_event opt now e p)"
proof (cases "isTerminated (pm_life p)")
  case True
  then show ?thesis using assms by (simp add: on_event_def pump_ok_def some_written_grows)
next
  case False
  have all: "all_written opt c evs p []" and some: "some_written opt c evs (pm_output p)" and clean: "\<not> pm_cleanEnd p"
    using assms False by (simp_all add: pump_ok_def)
  note live = pump_okE [OF ok, unfolded ph, simplified]
  show ?thesis
  proof (cases "po_push opt (pm_encoder p) e")
    case (Inl x)
    then show ?thesis using False live some clean by (simp add: on_event_def pump_ok_def some_written_grows)
  next
    case (Inr r)
    obtain frames d where r: "r = (frames, d)" by (cases r)
    have "all_written opt c (evs @ [e]) (p\<lparr>pm_life := noteEvent (pm_life p), pm_encoder := d\<rparr>) frames"
      using all Inr r by (auto simp: all_written_def intro!: push_events_snoc)
    then show ?thesis using False Inr r live clean some_written_grows [OF some]
      by (simp add: on_event_def write_frames_ok)
  qed
qed

lemma with_life_fields [simp]:
  "pm_phase (with_life f p) = pm_phase p" "pm_life (with_life f p) = f (pm_life p)" "pm_output (with_life f p) = pm_output p"
  "pm_encoder (with_life f p) = pm_encoder p" "pm_reports (with_life f p) = pm_reports p"
  "pm_cleanEnd (with_life f p) = pm_cleanEnd p"
  "all_written opt c evs (with_life f p) ws = all_written opt c evs p ws"
  by (simp_all add: with_life_def)

lemma with_life_ok:
  assumes "pump_ok opt c evs p" and "\<And>l. lc_finished (f l) = lc_finished l"
    and "lc_terminal (f (pm_life p)) = lc_terminal (pm_life p) \<or>
         (lc_terminal (pm_life p) = None \<and> pm_phase p \<noteq> Ended \<and> lc_terminal (f (pm_life p)) \<noteq> Some Stream_completed)"
  shows "pump_ok opt c evs (with_life f p)"
  using assms(3)
proof
  assume "lc_terminal (f (pm_life p)) = lc_terminal (pm_life p)"
  then show ?thesis using assms(1)
    by (cases "pm_phase p") (simp_all add: pump_ok_def isTerminated_def assms(2) split: if_splits)
next
  assume "lc_terminal (pm_life p) = None \<and> pm_phase p \<noteq> Ended \<and> lc_terminal (f (pm_life p)) \<noteq> Some Stream_completed"
  then show ?thesis using assms(1)
    by (cases "pm_phase p") (simp_all add: pump_ok_def isTerminated_def assms(2))
qed

text \<open>Once the stream has ended nothing of the lifecycle is left to fire.\<close>

definition ended_clean :: "('c, 'w, 'x) pump \<Rightarrow> bool" where
  "ended_clean p \<longleftrightarrow>
     (if pm_phase p = Ended
      then (\<exists>now. pm_reports p = [lifecycle_metrics now (pm_life p)]) \<and> lc_finished (pm_life p) \<and> lc_setupTimer (pm_life p) = None
        \<and> lc_idleTimer (pm_life p) = None \<and> \<not> lc_clientBound (pm_life p) \<and> lc_aborted (pm_life p)
        \<and> lc_terminal (pm_life p) \<noteq> None
      else pm_reports p = [] \<and> \<not> lc_finished (pm_life p))"

lemma finalize_clean: "pm_reports p = [] \<Longrightarrow> \<not> lc_finished (pm_life p) \<Longrightarrow> ended_clean (finalize now p)"
  by (auto simp: ended_clean_def finalize_def Let_def lifecycle_finish_def clearTimers_def)

lemma caught_clean: "pm_reports p = [] \<Longrightarrow> \<not> lc_finished (pm_life p) \<Longrightarrow> ended_clean (caught opt now x p)"
  using finalize_clean [of "p\<lparr>pm_cleanEnd := False\<rparr>"]
  by (auto simp: caught_def Let_def ended_clean_def [of "_\<lparr>pm_phase := Closing\<rparr>"] split: option.split stream_terminal.split)

lemma loop_done_clean: "pm_reports p = [] \<Longrightarrow> \<not> lc_finished (pm_life p) \<Longrightarrow> ended_clean (loop_done opt now p)"
  using finalize_clean [of "p\<lparr>pm_cleanEnd := False\<rparr>"] caught_clean [of "p\<lparr>pm_cleanEnd := True\<rparr>"]
  by (auto simp: loop_done_def Let_def ended_clean_def [of "_\<lparr>pm_phase := Completing\<rparr>"] split: sum.split)

lemma write_frames_clean: "pm_reports p = [] \<Longrightarrow> \<not> lc_finished (pm_life p) \<Longrightarrow> ended_clean (write_frames opt now ws p)"
  by (auto simp: write_frames_def ended_clean_def split: list.split)

lemma on_event_clean: "pm_reports p = [] \<Longrightarrow> \<not> lc_finished (pm_life p) \<Longrightarrow> ended_clean (on_event opt now e p)"
  by (auto simp: on_event_def Let_def ended_clean_def [of "_\<lparr>pm_phase := _\<rparr>"] intro!: write_frames_clean split: sum.split)

lemma with_life_clean:
  "pm_reports p = [] \<Longrightarrow> \<not> lc_finished (f (pm_life p)) \<Longrightarrow> pm_phase p \<noteq> Ended \<Longrightarrow> ended_clean (with_life f p)"
  by (simp add: ended_clean_def with_life_def)

lemma phase_clean: "pm_reports p = [] \<Longrightarrow> \<not> lc_finished (pm_life p) \<Longrightarrow> f \<noteq> Ended \<Longrightarrow> ended_clean (p\<lparr>pm_phase := f\<rparr>)"
  by (simp add: ended_clean_def)

lemmas clean_intros = phase_clean finalize_clean caught_clean loop_done_clean write_frames_clean on_event_clean

lemma ended_cleanE:
  assumes "ended_clean p" and "pm_phase p \<noteq> Ended"
  shows "pm_reports p = []" and "\<not> lc_finished (pm_life p)"
  using assms by (auto simp: ended_clean_def)

lemma ended_stays:
  assumes "pm_phase p = Ended" and "ended_clean p" and "pump_step opt now a p = Some p'"
  shows "p' = p"
  using assms by (cases a) (auto simp: ended_clean_def onClientAbort_def with_life_def due_def split: if_splits)

lemma step_clean:
  assumes "pump_step opt now a p = Some p'" and "ended_clean p"
  shows "ended_clean p'"
proof (cases "pm_phase p = Ended")
  case True
  then show ?thesis using ended_stays [OF _ assms(2,1)] assms(2) by simp
next
  case False
  note fresh = ended_cleanE [OF assms(2) False]
  note intros = clean_intros [where p = p, OF fresh] with_life_clean [where p = p, OF fresh(1) _ False]
    write_frames_clean [where p = "with_life noteFrame p"]
  have "(case pump_step opt now a p of None \<Rightarrow> True | Some q \<Rightarrow> ended_clean q)"
    by (cases a) (simp_all add: intros fresh False split: pump_phase.split)
  then show ?thesis using assms(1) by simp
qed

lemma step_ok:
  assumes "pump_step opt now a p = Some p'" and ok: "pump_ok opt c evs p" and clean: "ended_clean p"
  shows "pump_ok opt c (evs @ received [(now, a)]) p'"
proof (cases "pm_phase p = Ended")
  case True
  then have "p' = p" and "received [(now, a)] = []"
    using ended_stays [OF _ clean assms(1)] assms(1) by simp (cases a; use assms(1) True in simp)
  then show ?thesis using ok by simp
next
  case False
  note live = pump_okE [OF ok False]
  show ?thesis
  proof (cases a)
    case Pull
    then show ?thesis using assms False live
      by (auto simp: pump_ok_def [of _ _ _ p] pump_ok_def [of _ _ _ "p\<lparr>pm_phase := _\<rparr>"] split: pump_phase.splits
          intro!: finalize_ok write_frames_ok simp: isTerminated_def dest: all_some)
  next
    case (Next_event e)
    then show ?thesis using assms on_event_ok by (auto split: if_splits)
  next
    case Source_end
    then show ?thesis using assms live
      by (auto simp: pump_ok_def [of _ _ _ p] split: if_splits intro!: loop_done_ok)
  next
    case (Source_throws x)
    then show ?thesis using assms live
      by (auto simp: pump_ok_def [of _ _ _ p] split: pump_phase.splits intro!: caught_ok)
  next
    case Source_closed
    then show ?thesis using assms live
      by (auto simp: pump_ok_def [of _ _ _ p] split: pump_phase.splits intro!: caught_ok finalize_ok loop_done_ok)
  next
    case Complete_ok
    then show ?thesis using assms live
      by (auto simp: pump_ok_def [of _ _ _ p] split: if_splits intro!: finalize_ok)
  next
    case (Complete_throws x)
    then show ?thesis using assms live
      by (auto simp: pump_ok_def [of _ _ _ p] split: if_splits intro!: caught_ok dest: all_some)
  next
    case Consumer_return
    then show ?thesis using assms live
      by (auto simp: pump_ok_def [of _ _ _ p] pump_ok_def [of _ _ _ "p\<lparr>pm_phase := _\<rparr>"] split: pump_phase.splits
          intro!: finalize_ok dest: all_some)
  next
    case (Consumer_throw x)
    then show ?thesis using assms live
      by (auto simp: pump_ok_def [of _ _ _ p] pump_ok_def [of _ _ _ "p\<lparr>pm_phase := _\<rparr>"] split: pump_phase.splits
          intro!: finalize_ok dest: all_some)
  next
    case Client_abort
    then show ?thesis using assms False
      by (cases "lc_terminal (pm_life p)") (auto intro!: with_life_ok simp: onClientAbort_terminal split: if_splits)
  next
    case Setup_fires
    then show ?thesis using assms False
      by (cases "lc_terminal (pm_life p)") (auto intro!: with_life_ok split: if_splits)
  next
    case Idle_fires
    then show ?thesis using assms False
      by (cases "lc_terminal (pm_life p)") (auto intro!: with_life_ok split: if_splits)
  next
    case Drain
    then show ?thesis using assms False by (auto intro!: with_life_ok split: if_splits)
  qed
qed

lemma run_ok:
  assumes "pump_run opt steps p = Some p'" and "pump_ok opt c evs p" and "ended_clean p"
  shows "pump_ok opt c (evs @ received steps) p' \<and> ended_clean p'"
  using assms
proof (induction steps arbitrary: evs p)
  case Nil
  then show ?case by simp
next
  case (Cons s steps)
  obtain now a where s: "s = (now, a)" by (cases s)
  obtain q where q: "pump_step opt now a p = Some q" "pump_run opt steps q = Some p'"
    using Cons.prems(1) s by (auto simp: bind_eq_Some_conv)
  show ?case
    using Cons.IH [OF q(2) step_ok [OF q(1) Cons.prems(2,3)] step_clean [OF q(1) Cons.prems(3)]] s by simp
qed

lemma start_ok:
  "pump_ok opt c [] (pump_start c (createStreamLifecycle policy gone now))"
  "ended_clean (pump_start c (createStreamLifecycle policy gone now))"
  by (auto simp: pump_ok_def pump_start_def all_written_def createStreamLifecycle_def terminate_def clearTimers_def ended_clean_def
      Let_def)

lemmas run_from_start = run_ok [OF _ start_ok, simplified]

section \<open>What a run shows the client\<close>

text \<open>
  What the pump and an encoder's own batch function have to do with each other: the batch accepts a stream when every push
  does, and, for a finished stream, when the final check does; its frames are those of the pushes.
\<close>

locale incremental_encoder =
  fixes start :: 'c and push :: "'c \<Rightarrow> canonical_event \<Rightarrow> 'x + 'w list \<times> 'c" and finish :: "'c \<Rightarrow> 'x + unit"
    and batch :: "canonical_event list \<Rightarrow> bool \<Rightarrow> 'y + 'w list"
  assumes batch_open: "batch es False = Inr frames \<longleftrightarrow> (\<exists>c. push_events push start es = Inr (frames, c))"
    and batch_final: "batch es True = Inr frames \<longleftrightarrow> (\<exists>c. push_events push start es = Inr (frames, c) \<and> finish c = Inr ())"
begin

lemma output_is_prefix:
  assumes "pump_run opt steps (pump_start start (createStreamLifecycle policy gone now)) = Some p"
    and "po_push opt = push"
  shows "\<exists>pre emitted pending extra. prefix pre (received steps) \<and> batch pre False = Inr (emitted @ pending)
    \<and> pm_output p = map (po_frame opt) emitted @ extra
    \<and> (extra = [] \<or> (pm_phase p \<in> {Closing, Ended} \<and> (\<exists>s. extra = [s] \<and> tail_frame opt s)))"
proof -
  have ok: "pump_ok opt start (received steps) p" using run_from_start [OF assms(1)] by simp
  have "some_written opt start (received steps) (pm_output p)
    \<or> (pm_phase p \<in> {Closing, Ended} \<and> (\<exists>out s. pm_output p = out @ [s] \<and> some_written opt start (received steps) out \<and> tail_frame opt s))"
    using ok by (auto simp: pump_ok_def split: pump_phase.splits if_splits dest: all_some)
  then show ?thesis
  proof
    assume "some_written opt start (received steps) (pm_output p)"
    then show ?thesis by (fastforce simp: some_written_def batch_open assms(2))
  next
    assume "pm_phase p \<in> {Closing, Ended} \<and> (\<exists>out s. pm_output p = out @ [s] \<and> some_written opt start (received steps) out \<and> tail_frame opt s)"
    then obtain out s where os: "pm_phase p \<in> {Closing, Ended}" "pm_output p = out @ [s]" "tail_frame opt s"
      and w: "some_written opt start (received steps) out" by blast
    obtain pre emitted pending c' where "prefix pre (received steps)" "push_events push start pre = Inr (emitted @ pending, c')"
        "out = map (po_frame opt) emitted"
      using w by (auto simp: some_written_def assms(2))
    then show ?thesis using os by (intro exI [of _ pre] exI [of _ emitted] exI [of _ pending] exI [of _ "[s]"]) (auto simp: batch_open)
  qed
qed

lemma completed_is_batch:
  assumes "pump_run opt steps (pump_start start (createStreamLifecycle policy gone now)) = Some p"
    and "po_push opt = push" and "po_finish opt = finish" and "lc_terminal (pm_life p) = Some Stream_completed"
  shows "\<exists>frames. batch (received steps) True = Inr frames \<and> pm_output p = map (po_frame opt) frames"
proof -
  have "pump_ok opt start (received steps) p" using run_from_start [OF assms(1)] by simp
  then have "all_written opt start (received steps) p []" and "po_finish opt (pm_encoder p) = Inr ()"
    using assms(4) by (auto simp: pump_ok_def split: pump_phase.splits if_splits)
  then show ?thesis by (auto simp: all_written_def batch_final assms(2,3))
qed

end

section \<open>Timers\<close>

text \<open>
  The clocks of the stream run only while the pump waits for the upstream (or for the work after the end); while the
  generator is suspended on the client no timer is armed.
\<close>

definition timers_ok :: "('c, 'w, 'x) pump \<Rightarrow> bool" where
  "timers_ok p \<longleftrightarrow>
     (case pm_phase p of Writing _ \<Rightarrow> lc_setupTimer (pm_life p) = None \<and> lc_idleTimer (pm_life p) = None | _ \<Rightarrow> True)"

lemma timers_stay [simp]:
  "lc_setupTimer l = None \<Longrightarrow> lc_setupTimer (terminate t l) = None"
  "lc_idleTimer l = None \<Longrightarrow> lc_idleTimer (terminate t l) = None"
  "lc_setupTimer l = None \<Longrightarrow> lc_setupTimer (onClientAbort l) = None"
  "lc_idleTimer l = None \<Longrightarrow> lc_idleTimer (onClientAbort l) = None"
  "lc_setupTimer (noteBackpressure l) = lc_setupTimer l" "lc_idleTimer (noteBackpressure l) = lc_idleTimer l"
  "lc_setupTimer (noteFrame l) = lc_setupTimer l" "lc_idleTimer (noteFrame l) = lc_idleTimer l"
  by (simp_all add: life_defs)

lemma timers_phase: "(\<And>ws. f \<noteq> Writing ws) \<Longrightarrow> timers_ok (p\<lparr>pm_phase := f\<rparr>)"
  by (cases f) (auto simp: timers_ok_def)

lemma timers_with_life:
  assumes "timers_ok p"
    and "\<And>l. lc_setupTimer l = None \<Longrightarrow> lc_setupTimer (f l) = None" "\<And>l. lc_idleTimer l = None \<Longrightarrow> lc_idleTimer (f l) = None"
  shows "timers_ok (with_life f p)"
  using assms by (auto simp: timers_ok_def split: pump_phase.splits)

lemma timers_write:
  "lc_setupTimer (pm_life p) = None \<Longrightarrow> lc_idleTimer (pm_life p) = None \<Longrightarrow> timers_ok (write_frames opt now ws p)"
  by (auto simp: write_frames_def timers_ok_def split: list.split)

lemma timers_finalize: "timers_ok (finalize now p)"
  by (simp add: timers_ok_def)

lemma timers_caught: "timers_ok (caught opt now x p)"
  by (auto simp: caught_def Let_def timers_finalize intro!: timers_phase split: option.split stream_terminal.split)

lemma timers_loop_done: "timers_ok (loop_done opt now p)"
  by (auto simp: loop_done_def Let_def timers_finalize timers_caught intro!: timers_phase split: sum.split)

lemma timers_on_event: "timers_ok (on_event opt now e p)"
  by (auto simp: on_event_def Let_def noteEvent_def intro!: timers_write timers_phase split: sum.split)

lemma step_timers:
  assumes "pump_step opt now a p = Some p'" and ok: "timers_ok p"
  shows "timers_ok p'"
proof -
  have "case pump_step opt now a p of None \<Rightarrow> True | Some q \<Rightarrow> timers_ok q"
  proof (cases a)
    case Pull
    then show ?thesis using ok
      by (auto simp: timers_ok_def [of p] timers_finalize intro!: timers_write timers_phase split: pump_phase.split)
  qed (simp_all add: timers_finalize timers_caught timers_loop_done timers_on_event timers_phase timers_with_life [OF ok]
        split: pump_phase.split)
  then show ?thesis using assms(1) by simp
qed

lemma run_timers: "pump_run opt steps p = Some p' \<Longrightarrow> timers_ok p \<Longrightarrow> timers_ok p'"
proof (induction steps arbitrary: p)
  case (Cons s steps)
  then show ?case by (cases s) (auto simp: bind_eq_Some_conv dest: step_timers)
qed simp

lemma start_timers: "timers_ok (pump_start c (createStreamLifecycle policy gone now))"
  by (simp add: timers_ok_def pump_start_def createStreamLifecycle_def terminate_def clearTimers_def Let_def)

lemma backpressure_never_times_out:
  assumes "pump_run opt steps (pump_start c (createStreamLifecycle policy gone now)) = Some p" and "pm_phase p = Writing ws"
  shows "pump_step opt t Setup_fires p = None \<and> pump_step opt t Idle_fires p = None"
  using run_timers [OF assms(1) start_timers] assms(2) by (simp add: timers_ok_def due_def)

section \<open>After a disconnect, and after the end\<close>

definition quiet :: "string list \<Rightarrow> ('c, 'w, 'x) pump \<Rightarrow> bool" where
  "quiet out p \<longleftrightarrow> pm_output p = out \<and> (lc_terminal (pm_life p) = Some Stream_cancelled \<or> pm_phase p = Ended)"

lemma quiet_stays: "quiet out p \<Longrightarrow> lc_terminal (pm_life p) = Some Stream_cancelled \<Longrightarrow> quiet out (finalize now p)"
  "quiet out p \<Longrightarrow> lc_terminal (pm_life p) = Some Stream_cancelled \<Longrightarrow> quiet out (caught opt now x p)"
  "quiet out p \<Longrightarrow> lc_terminal (pm_life p) = Some Stream_cancelled \<Longrightarrow> quiet out (loop_done opt now p)"
  "quiet out p \<Longrightarrow> lc_terminal (pm_life p) = Some Stream_cancelled \<Longrightarrow> quiet out (write_frames opt now ws p)"
  "quiet out p \<Longrightarrow> lc_terminal (pm_life p) = Some Stream_cancelled \<Longrightarrow> quiet out (on_event opt now e p)"
  by (auto simp: quiet_def caught_def loop_done_def write_frames_def on_event_def isTerminated_def Let_def split: list.split)

lemma quiet_life:
  "quiet out p \<Longrightarrow> lc_terminal (pm_life p) = Some Stream_cancelled \<Longrightarrow> lc_terminal (f (pm_life p)) = Some Stream_cancelled
     \<Longrightarrow> quiet out (with_life f p)"
  "quiet out p \<Longrightarrow> lc_terminal (pm_life p) = Some Stream_cancelled \<Longrightarrow> quiet out (p\<lparr>pm_phase := ph\<rparr>)"
  by (auto simp: quiet_def)

lemma step_quiet:
  assumes "pump_step opt now a p = Some p'" and q: "quiet out p" and "ended_clean p"
  shows "quiet out p'"
proof (cases "pm_phase p = Ended")
  case True
  then show ?thesis using ended_stays [OF _ assms(3,1)] q by simp
next
  case False
  then have c: "lc_terminal (pm_life p) = Some Stream_cancelled" using q by (simp add: quiet_def)
  note keeps = quiet_stays [OF q c] quiet_life [OF q c]
  have frame: "quiet out (with_life noteFrame p)" and cf: "lc_terminal (pm_life (with_life noteFrame p)) = Some Stream_cancelled"
    using keeps c by simp_all
  have "case pump_step opt now a p of None \<Rightarrow> True | Some r \<Rightarrow> quiet out r"
    by (cases a) (simp_all add: keeps quiet_stays(4) [OF frame cf] c onClientAbort_terminal split: pump_phase.split)
  then show ?thesis using assms(1) by simp
qed

lemma run_quiet: "pump_run opt steps p = Some p' \<Longrightarrow> quiet out p \<Longrightarrow> ended_clean p \<Longrightarrow> quiet out p'"
proof (induction steps arbitrary: p)
  case (Cons s steps)
  obtain now a where s: "s = (now, a)" by (cases s)
  then obtain r where r: "pump_step opt now a p = Some r" "pump_run opt steps r = Some p'"
    using Cons.prems(1) by (auto simp: bind_eq_Some_conv)
  show ?case using Cons.IH [OF r(2) step_quiet [OF r(1) Cons.prems(2,3)] step_clean [OF r(1) Cons.prems(3)]] .
qed simp

lemma run_ended: "pump_run opt steps p = Some p' \<Longrightarrow> pm_phase p = Ended \<Longrightarrow> ended_clean p \<Longrightarrow> p' = p"
proof (induction steps arbitrary: p)
  case (Cons s steps)
  obtain now a where s: "s = (now, a)" by (cases s)
  then obtain r where r: "pump_step opt now a p = Some r" "pump_run opt steps r = Some p'"
    using Cons.prems(1) by (auto simp: bind_eq_Some_conv)
  have "r = p" using ended_stays [OF Cons.prems(2,3) r(1)] .
  then show ?case using Cons.IH [of p] r(2) Cons.prems(2,3) by simp
qed simp

section \<open>A stream nobody interrupts\<close>

lemma pump_run_append: "pump_run opt (xs @ ys) p = Option.bind (pump_run opt xs p) (pump_run opt ys)"
  by (induction xs arbitrary: p) (auto split: Option.bind_split)

definition live :: "('c, 'w, 'x) pump \<Rightarrow> bool" where
  "live p \<longleftrightarrow> pm_phase p = Fetching \<and> lc_terminal (pm_life p) = None \<and> \<not> lc_finished (pm_life p)"

lemma write_all:
  assumes "lc_terminal (pm_life p) = None" and "\<not> lc_finished (pm_life p)"
  shows "\<exists>p'. pump_run opt (replicate (length ws) (now, Pull)) (write_frames opt now ws p) = Some p' \<and> live p'
    \<and> pm_encoder p' = pm_encoder p"
  using assms
proof (induction ws arbitrary: p)
  case Nil
  then show ?case by (simp add: write_frames_def live_def)
next
  case (Cons w ws)
  let ?q = "with_life noteFrame (p\<lparr>pm_output := pm_output p @ [po_frame opt w], pm_phase := Writing ws\<rparr>)"
  show ?case using Cons.IH [of ?q] Cons.prems by (simp add: write_frames_def [of _ _ "w # ws"] isTerminated_def)
qed

lemma event_run:
  assumes "live p" and "po_push opt (pm_encoder p) e = Inr (frames, c)"
  shows "\<exists>p'. pump_run opt ((now, Next_event e) # replicate (length frames) (now, Pull)) p = Some p' \<and> live p' \<and> pm_encoder p' = c"
  using assms write_all [of "p\<lparr>pm_life := noteEvent (pm_life p), pm_encoder := c\<rparr>" opt frames now]
  by (auto simp: live_def on_event_def isTerminated_def)

lemma received_append [simp]: "received (xs @ ys) = received xs @ received ys"
  by (induction xs) auto

lemma received_pulls [simp]: "received (replicate n (now, Pull)) = []"
  by (induction n) auto

lemma events_run:
  assumes "live p" and "push_events (po_push opt) (pm_encoder p) es = Inr (frames, c)"
  shows "\<exists>steps p'. pump_run opt steps p = Some p' \<and> received steps = es \<and> live p' \<and> pm_encoder p' = c"
  using assms
proof (induction es arbitrary: p frames)
  case Nil
  then show ?case by (intro exI [of _ "[]"]) auto
next
  case (Cons e es)
  obtain fs d rest where push: "po_push opt (pm_encoder p) e = Inr (fs, d)" "push_events (po_push opt) d es = Inr (rest, c)"
    using Cons.prems(2) by (auto simp: bind_ok_Inr_iff)
  obtain q where q: "pump_run opt ((0, Next_event e) # replicate (length fs) (0, Pull)) p = Some q" "live q" "pm_encoder q = d"
    using event_run [OF Cons.prems(1) push(1), of 0] by blast
  obtain steps p' where r: "pump_run opt steps q = Some p'" "received steps = es" "live p'" "pm_encoder p' = c"
    using Cons.IH [OF q(2)] push(2) q(3) by blast
  have "pump_run opt (((0, Next_event e) # replicate (length fs) (0, Pull)) @ steps) p = Some p'"
    by (simp only: pump_run_append q(1) r(1) Option.bind.simps)
  moreover have "received (((0, Next_event e) # replicate (length fs) (0, Pull)) @ steps) = e # es" using r(2) by simp
  ultimately show ?case using r(3,4) by blast
qed

lemma accepted_stream_completes:
  assumes "push_events (po_push opt) c es = Inr (frames, c')" and "po_finish opt c' = Inr ()"
  shows "\<exists>steps p. pump_run opt steps (pump_start c (createStreamLifecycle policy False now)) = Some p \<and> received steps = es
    \<and> pm_phase p = Ended \<and> lc_terminal (pm_life p) = Some Stream_completed"
proof -
  let ?p = "(pump_start c (createStreamLifecycle policy False now))\<lparr>pm_phase := Fetching\<rparr>"
  have "live ?p" by (simp add: live_def pump_start_def createStreamLifecycle_def Let_def)
  then obtain steps q where q: "pump_run opt steps ?p = Some q" "received steps = es" "live q" "pm_encoder q = c'"
    using events_run [of ?p opt es frames c'] assms(1) by (auto simp: pump_start_def)
  have "pump_run opt [(0, Source_end), (0, Complete_ok)] q = Some (finalize 0 (q\<lparr>pm_cleanEnd := True, pm_phase := Completing\<rparr>))"
    using q(3,4) assms(2) by (simp add: live_def loop_done_def isTerminated_def Let_def)
  moreover have "pump_run opt [(0, Pull)] (pump_start c (createStreamLifecycle policy False now)) = Some ?p"
    by (simp add: pump_start_def)
  ultimately have run: "pump_run opt (([(0, Pull)] @ steps) @ [(0, Source_end), (0, Complete_ok)])
      (pump_start c (createStreamLifecycle policy False now))
      = Some (finalize 0 (q\<lparr>pm_cleanEnd := True, pm_phase := Completing\<rparr>))"
    using q(1) by (simp only: pump_run_append Option.bind.simps)
  have "received (([(0, Pull)] @ steps) @ [(0, Source_end), (0, Complete_ok)]) = es" using q(2) by simp
  moreover have "lc_terminal (pm_life (finalize 0 (q\<lparr>pm_cleanEnd := True, pm_phase := Completing\<rparr>))) = Some Stream_completed"
    using q(3) by (simp add: live_def lifecycle_finish_def)
  ultimately show ?thesis using run finalize_fields(1) by blast
qed

end
