(* ===== verification/Protocol_Routes.thy ===== *)
theory Protocol_Routes
  imports Stream_Transport Route_Resolution
begin

text \<open>
  The two protocol routes, \<^verbatim>\<open>POST /v1/messages\<close> and \<^verbatim>\<open>POST /v1/responses\<close> with \<^verbatim>\<open>GET /v1/responses/:id\<close>
  (\<^verbatim>\<open>src/routes/anthropic-messages-route.ts\<close>, \<^verbatim>\<open>openai-responses-route.ts\<close>), and the retry of a collected
  request (\<^verbatim>\<open>collectWithSafeRetry\<close> of \<^verbatim>\<open>src/protocols/anthropic/fake-upstream.ts\<close>). A streamed request ends in the
  options its pump runs with; the resolver, the upstream and the continuation store are arguments.
\<close>

section \<open>Errors of a route\<close>

text \<open>
  What a handler catches, by the classes it tells apart: a protocol error, \<open>UnsupportedRouteError\<close>,
  \<open>ProfileActivationError\<close>, \<open>NoEligibleAccountError\<close>, \<open>RetryableTransportError\<close>, and everything else.
\<close>

datatype gateway_error =
    Protocol_failure protocol_error
  | Unsupported_failure "capability_requirement list"
  | Activation_failure profile_error
  | No_eligible_failure
  | Transport_failure
  | Thrown_failure thrown

fun profile_code_text :: "profile_error_code \<Rightarrow> string" where
  "profile_code_text Profile_not_found = ''profile-not-found''"
| "profile_code_text Profile_not_claude = ''profile-not-claude''"
| "profile_code_text Profile_has_no_pool = ''profile-has-no-pool''"
| "profile_code_text Role_unmapped = ''role-unmapped''"
| "profile_code_text Capability_rejected = ''capability-rejected''"
| "profile_code_text Invalid_launch_policy = ''invalid-launch-policy''"
| "profile_code_text Profile_tier_unavailable = ''tier-unavailable''"
| "profile_code_text Model_unavailable = ''model-unavailable''"

fun intent_failure_code :: "model_intent_failure \<Rightarrow> string" where
  "intent_failure_code Unknown_namespace = ''unknown-namespace''"
| "intent_failure_code Unsupported_client_alias = ''unsupported-client-alias''"
| "intent_failure_code Invalid_projection = ''invalid-projection''"
| "intent_failure_code Conflicting_selector_sources = ''conflicting-selector-sources''"

record route_payload =
  rp_error :: error_payload
  rp_reason :: "string option"
  rp_cause :: "string option"

definition simple_payload :: "string \<Rightarrow> string \<Rightarrow> route_payload" where
  "simple_payload code message =
     \<lparr>rp_error = \<lparr>ep_type = Code code, ep_message = message, ep_param = None, ep_code = None\<rparr>, rp_reason = None, rp_cause = None\<rparr>"

definition activation_reason :: "profile_error \<Rightarrow> string option" where
  "activation_reason e =
     or_else (map_option tier_failure_code (pe_tierFailure e))
       (or_else (map_option intent_failure_code (pe_intentFailure e)) (map_option model_failure_code (pe_modelFailure e)))"

text \<open>What is no error of a known class is for the provider's mapping; none of these carries provider metadata.\<close>

fun as_thrown :: "gateway_error \<Rightarrow> thrown" where
  "as_thrown (Thrown_failure t) = t"
| "as_thrown Transport_failure = Other_error ''RetryableTransportError'' ''transport failed before first byte'' None"
| "as_thrown _ = Other_error ''Error'' [] None"

fun anthropic_errorPayload :: "gateway_error \<Rightarrow> route_payload" where
  "anthropic_errorPayload (Protocol_failure (Protocol_error code message _)) = simple_payload code message"
| "anthropic_errorPayload (Unsupported_failure _) =
     simple_payload ''unsupported_feature'' ''Request requires an unavailable capability''"
| "anthropic_errorPayload (Activation_failure e) =
     (simple_payload (profile_code_text (pe_code e)) ''Profile is not ready for this request'')
       \<lparr>rp_reason := activation_reason e, rp_cause := pe_tierCause e\<rparr>"
| "anthropic_errorPayload No_eligible_failure = simple_payload ''no_eligible_account'' ''No eligible account is available''"
| "anthropic_errorPayload e =
     \<lparr>rp_error = providerErrorPayload (as_thrown e) Anthropic_target, rp_reason = None, rp_cause = None\<rparr>"

fun responses_errorPayload :: "gateway_error \<Rightarrow> route_payload" where
  "responses_errorPayload (Protocol_failure (Protocol_error code message _)) = simple_payload code message"
| "responses_errorPayload (Unsupported_failure _) =
     simple_payload ''unsupported_feature'' ''Request requires an unavailable capability''"
| "responses_errorPayload (Activation_failure e) =
     (simple_payload (profile_code_text (pe_code e)) ''Profile is not ready for this request'')
       \<lparr>rp_reason := activation_reason e\<rparr>"
| "responses_errorPayload No_eligible_failure = simple_payload ''no_eligible_account'' ''No eligible account is available''"
| "responses_errorPayload e =
     \<lparr>rp_error = providerErrorPayload (as_thrown e) Openai_target, rp_reason = None, rp_cause = None\<rparr>"

fun anthropic_statusFor :: "gateway_error \<Rightarrow> int" where
  "anthropic_statusFor (Protocol_failure (Protocol_error _ _ status)) = int status"
| "anthropic_statusFor (Unsupported_failure _) = 400"
| "anthropic_statusFor (Activation_failure _) = 400"
| "anthropic_statusFor No_eligible_failure = 503"
| "anthropic_statusFor e = providerErrorStatus (as_thrown e) Anthropic_target"

fun responses_statusFor :: "gateway_error \<Rightarrow> int" where
  "responses_statusFor (Protocol_failure (Protocol_error _ _ status)) = int status"
| "responses_statusFor (Unsupported_failure _) = 400"
| "responses_statusFor (Activation_failure _) = 400"
| "responses_statusFor No_eligible_failure = 503"
| "responses_statusFor e = providerErrorStatus (as_thrown e) Openai_target"

definition timeout_message :: "timeout_category \<Rightarrow> string" where
  "timeout_message category =
     (if category = Setup_timeout then ''Gateway stream did not start within the setup window''
      else ''Gateway stream made no progress within the idle window'')"

definition anthropic_timeoutError :: "timeout_category \<Rightarrow> gateway_error" where
  "anthropic_timeoutError category = Protocol_failure (Protocol_error ''api_error'' (timeout_message category) 504)"


section \<open>Frames\<close>

text \<open>
  A code that is a method inherited from \<open>Object.prototype\<close> is a function, which \<open>JSON.stringify\<close> drops; the one
  under \<open>__proto__\<close> is an object without own properties.
\<close>

fun code_field :: "string \<Rightarrow> protocol_code \<Rightarrow> (string \<times> json) list" where
  "code_field k (Code c) = [(k, JStr c)]"
| "code_field k (Inherited nm) = (if nm = ''__proto__'' then [(k, JObj [])] else [])"

definition payload_json :: "route_payload \<Rightarrow> json" where
  "payload_json p =
     (let e = rp_error p in
      JObj [(''type'', JStr ''error''),
            (''error'', JObj (code_field ''type'' (ep_type e)
               @ (case ep_code e of None \<Rightarrow> [] | Some c \<Rightarrow> code_field ''code'' c)
               @ [(''message'', JStr (ep_message e))] @ opt_field ''param'' JStr (ep_param e)
               @ opt_field ''reason'' JStr (rp_reason p) @ opt_field ''cause'' JStr (rp_cause p)))])"

definition sseFrame :: "(json \<Rightarrow> string) \<Rightarrow> string \<Rightarrow> json \<Rightarrow> string" where
  "sseFrame stringify event payload = ''event: '' @ event @ ''\<newline>data: '' @ stringify payload @ ''\<newline>\<newline>''"

section \<open>The pumps of the routes\<close>

definition anthropic_options :: "(json \<Rightarrow> string) \<Rightarrow> (encode_context, wire_event, gateway_error) pump_options" where
  "anthropic_options stringify =
     \<lparr>po_push = (\<lambda>c e. lift_error Protocol_failure (encodeAnthropicEvent c e)),
      po_finish = (\<lambda>c. lift_error Protocol_failure (assertClosed c)),
      po_frame = (\<lambda>(event, payload). sseFrame stringify event payload),
      po_errorFrame = (\<lambda>e. sseFrame stringify ''error'' (payload_json (anthropic_errorPayload e))),
      po_timeoutFrame = (\<lambda>c. sseFrame stringify ''error'' (payload_json (anthropic_errorPayload (anthropic_timeoutError c))))\<rparr>"


text \<open>What the Responses pump does after a complete stream: the new continuation store.\<close>

definition responses_onComplete ::
  "codec_env \<Rightarrow> string \<Rightarrow> response_store option \<Rightarrow> canonical_request \<Rightarrow> responses_context \<Rightarrow> gateway_error + response_store option" where
  "responses_onComplete env now continuation continued ctx =
     (case continuation of
        Some store \<Rightarrow>
          if rx_status ctx = Completed_status \<and> cq_store continued \<noteq> Some False
          then lift_error Protocol_failure (bind_ok (finalizeAggregate (ce_parse env) (rx_aggregate ctx)) (\<lambda>ag.
                 bind_ok (rememberAggregated env now store continued
                     \<lparr>aa_id = ag_responseId ag, aa_model = ag_model ag,
                      aa_output = (case aggregate_output ag of JArr xs \<Rightarrow> xs | _ \<Rightarrow> [])\<rparr>) (\<lambda>stored. Inr (Some stored))))
          else Inr continuation
      | None \<Rightarrow> Inr None)"

section \<open>The handlers\<close>

text \<open>
  One collected attempt: the events it gave and the error it ended with, and whether the client was gone then. A second
  attempt is made only after a transport failure before the first event.
\<close>

type_synonym upstream_attempts = "nat \<Rightarrow> canonical_event list \<times> gateway_error option \<times> bool"

definition collectWithSafeRetry :: "upstream_attempts \<Rightarrow> gateway_error + canonical_event list" where
  "collectWithSafeRetry upstream =
     (case upstream 0 of
        (events, None, _) \<Rightarrow> Inr events
      | (events, Some e, aborted) \<Rightarrow>
          if events \<noteq> [] \<or> aborted \<or> e \<noteq> Transport_failure then Inl e
          else (case upstream 1 of
                  (events', None, _) \<Rightarrow> Inr events'
                | (_, Some e', _) \<Rightarrow> Inl e'))"

record route_dependencies =
  rdep_resolve :: "canonical_request \<Rightarrow> capability_requirement list \<Rightarrow> gateway_error + (route_record \<times> upstream_attempts) option"
  rdep_route :: "route_record option"
  rdep_upstream :: "upstream_attempts option"
  rdep_configFingerprint :: string
  rdep_now :: int

text \<open>The route and the upstream of a request: the resolver's, else the configured ones, and the routing decision.\<close>

definition choose_route ::
  "route_dependencies \<Rightarrow> canonical_request \<Rightarrow> capability_requirement list \<Rightarrow> gateway_error + upstream_attempts" where
  "choose_route deps req required =
     bind_ok (rdep_resolve deps req required) (\<lambda>resolved.
       case (or_else (map_option fst resolved) (rdep_route deps), or_else (map_option snd resolved) (rdep_upstream deps)) of
         (Some route, Some upstream) \<Rightarrow>
           bind_ok (lift_error Unsupported_failure (decideRoute
              \<lparr>dr_requestId = cq_id req, dr_route = route, dr_required = required,
               dr_configFingerprint = rdep_configFingerprint deps, dr_now = rdep_now deps, dr_accountPseudonym = None,
               dr_credentialGeneration = None, dr_resolvedReasoning = None\<rparr>)) (\<lambda>_. Inr upstream)
       | _ \<Rightarrow> Inl (Unsupported_failure [Req_streaming]))"

datatype 'a route_reply =
    Streaming canonical_request
  | Reply 'a
  | Error_reply int route_payload "int option"

definition reply_of :: "(gateway_error \<Rightarrow> int) \<Rightarrow> (gateway_error \<Rightarrow> route_payload) \<Rightarrow> gateway_error + 'a route_reply \<Rightarrow> 'a route_reply" where
  "reply_of statusFor errorPayload r =
     (case r of
        Inr reply \<Rightarrow> reply
      | Inl e \<Rightarrow> Error_reply (statusFor e) (errorPayload e)
          (case e of Thrown_failure t \<Rightarrow> providerRetryAfterOf t | _ \<Rightarrow> None))"

definition anthropic_route ::
  "route_dependencies \<Rightarrow> (string \<Rightarrow> json option) \<Rightarrow> string \<Rightarrow> json \<Rightarrow> (string \<times> header_value) list
     \<Rightarrow> aggregated_message route_reply" where
  "anthropic_route deps json_parse uuid body headers =
     reply_of anthropic_statusFor anthropic_errorPayload
       (bind_ok (lift_error Protocol_failure (decodeAnthropicRequest uuid body headers)) (\<lambda>decoded.
        bind_ok (choose_route deps (dec_request decoded) (dec_required decoded)) (\<lambda>upstream.
          if cq_stream (dec_request decoded) then Inr (Streaming (dec_request decoded))
          else bind_ok (collectWithSafeRetry upstream) (\<lambda>events.
               bind_ok (lift_error Protocol_failure (aggregateAnthropicEvents json_parse events)) (\<lambda>answer. Inr (Reply answer))))))"

text \<open>The Responses handler also gives the continuation store it leaves.\<close>

definition responses_route ::
  "route_dependencies \<Rightarrow> codec_env \<Rightarrow> string \<Rightarrow> response_store option \<Rightarrow> json \<Rightarrow> (string \<times> header_value) list
     \<Rightarrow> json route_reply \<times> response_store option" where
  "responses_route deps env now continuation body headers =
     (let outcome =
        bind_ok (lift_error Protocol_failure (decodeResponsesRequest env body headers)) (\<lambda>decoded.
        bind_ok (case continuation of
                   None \<Rightarrow> Inr (dec_request decoded)
                 | Some store \<Rightarrow> lift_error Protocol_failure (continuation_apply store (dec_request decoded))) (\<lambda>continued.
        bind_ok (choose_route deps continued (dec_required decoded)) (\<lambda>upstream.
          if cq_stream continued then Inr (Inl continued)
          else bind_ok (collectWithSafeRetry upstream) (\<lambda>events.
               bind_ok (case continuation of
                          Some store \<Rightarrow>
                            if cq_store continued \<noteq> Some False
                            then bind_ok (lift_error Protocol_failure (remember env now store continued events)) (\<lambda>s. Inr (Some s))
                            else Inr continuation
                        | None \<Rightarrow> Inr None) (\<lambda>stored. Inr (Inr (events, stored)))))))
      in case outcome of
           Inl e \<Rightarrow> (reply_of responses_statusFor responses_errorPayload (Inl e), continuation)
         | Inr (Inl continued) \<Rightarrow> (Streaming continued, continuation)
         | Inr (Inr (events, stored)) \<Rightarrow>
             (reply_of responses_statusFor responses_errorPayload
                (bind_ok (lift_error Protocol_failure (aggregateResponsesEvents (ce_parse env) events)) (\<lambda>answer. Inr (Reply answer))),
              stored))"

definition notStored :: "json route_reply" where
  "notStored = Error_reply 404 (responses_errorPayload (Protocol_failure (Protocol_error ''not_found'' ''Response is not stored'' 404))) None"

definition responses_get_route :: "codec_env \<Rightarrow> response_store option \<Rightarrow> string option \<Rightarrow> json route_reply" where
  "responses_get_route env continuation responseId =
     (case (Option.bind responseId (non_empty \<circ> Some), continuation) of
        (Some i, Some store) \<Rightarrow>
          (case lift_error Protocol_failure (response_get store i) of
             Inr (Some stored) \<Rightarrow> Reply (toResponsesObject env stored)
           | Inr None \<Rightarrow> notStored
           | Inl e \<Rightarrow> reply_of responses_statusFor responses_errorPayload (Inl e))
      | _ \<Rightarrow> notStored)"

section \<open>The encoders of the routes\<close>




lemma lift_Inr [simp]: "lift_error f r = Inr x \<longleftrightarrow> r = Inr x"
  by (cases r) (auto simp: lift_error_def)



definition anthropic_pump :: "timeout_policy \<Rightarrow> bool \<Rightarrow> nat \<Rightarrow> (encode_context, wire_event, gateway_error) pump" where
  "anthropic_pump policy gone now = pump_start createContext (createStreamLifecycle policy gone now)"


section \<open>Properties of the routes\<close>


definition no_text :: "json \<Rightarrow> string" where "no_text j = []"








text \<open>A timeout after which the upstream ends quietly leaves no frame; one while the answer is being stored is recorded
  though all of it was delivered; and a stream whose reader goes before the first pull is never reported.\<close>

lemmas run_simps = anthropic_pump_def pump_start_def createStreamLifecycle_def DEFAULT_STREAM_TIMEOUT_POLICY_def life_defs
  due_def loop_done_def with_life_def finalize_def lifecycle_finish_def createContext_def assertClosed_def anthropic_options_def Let_def

lemma quiet_timeout_writes_nothing:
  "map_option (\<lambda>p. (pm_phase p, pm_output p, lc_terminal (pm_life p)))
     (pump_run (anthropic_options no_text) [(0, Pull), (30000, Setup_fires), (30001, Source_end)]
        (anthropic_pump DEFAULT_STREAM_TIMEOUT_POLICY False 0))
   = Some (Ended, [], Some (Stream_timeout Setup_timeout))"
  by (simp add: run_simps)

lemma timeout_while_storing:
  "map_option (\<lambda>p. (pm_phase p, pm_cleanEnd p, lc_terminal (pm_life p)))
     (pump_run (anthropic_options no_text)
        [(0, Pull), (1, Source_end), (30000, Setup_fires), (30001, Complete_ok)]
        (anthropic_pump DEFAULT_STREAM_TIMEOUT_POLICY False 0))
   = Some (Ended, True, Some (Stream_timeout Setup_timeout))"
  by (simp add: run_simps lift_error_def)

lemma unread_stream_never_reported:
  "map_option (\<lambda>p. (pm_phase p, pm_reports p, lc_setupTimer (pm_life p)))
     (pump_run (anthropic_options no_text) [(1, Consumer_return)] (anthropic_pump DEFAULT_STREAM_TIMEOUT_POLICY False 0))
   = Some (Discarded, [], Some 30000)"
  by (simp add: run_simps)

text \<open>The second attempt needs a transport failure before any event, with the client still there.\<close>

lemma retried_only_when_not_sent:
  assumes "upstream 0 = (events, failure, gone)" and "events \<noteq> [] \<or> gone \<or> failure \<noteq> Some Transport_failure"
  shows "collectWithSafeRetry upstream = (case failure of None \<Rightarrow> Inr events | Some e \<Rightarrow> Inl e)"
  using assms by (auto simp: collectWithSafeRetry_def split: option.split)

lemma remember_nothing_unstored:
  assumes "decodeResponsesRequest env body headers = Inr d" and "cq_store (dec_request d) = Some False"
  shows "snd (responses_route deps env now continuation body headers) = continuation"
proof -
  have "cq_store continued = Some False"
    if "continuation_apply store (dec_request d) = Inr continued" for store continued
    using that assms(2) by (auto simp: continuation_apply_def bind_ok_Inr_iff Let_def split: option.splits)
  then show ?thesis using assms
    by (auto simp: responses_route_def Let_def bind_ok_def split: sum.splits option.splits if_splits)
qed

end
