(* ===== verification/Spec2Isabelle.thy ===== *)
theory Spec2Isabelle
  imports Prelude Core_Model Control_Plane_Types Control_Plane_Store Control_Plane_Invariants
    Control_Plane_Reachable Eligibility Pools Provider_Errors Pool_Execution Reasoning_Translation
    Registry Claims Compatibility Model_Selection Model_Tiers Model_Projection Canonical_Request Profiles Model_Decision
    Provider_Catalog Route_Resolution Model_Discovery Lease_Manager Runtime_Lock
    Update_State Deployment_Store Gateway_Identity Update_Lifecycle Update_Safety
    Management Credential_Store Ownership_Lock Anthropic_Stream Responses_Continuation Responses_Rail
    Rail_Roundtrip Chat_Adapter Protocol_Routes
begin

text \<open>
  A verification development for the RLY gateway, a local gateway that lets coding clients
  (Claude Code, Codex) reach several model providers through one endpoint.

  \<^bold>\<open>The program.\<close> A client's request names a model. The gateway classifies the name
  (\<^verbatim>\<open>routing/model-intent\<close>), resolves a tier or a projected id to one physical model
  (\<^verbatim>\<open>routing/model-tiers\<close>, \<^verbatim>\<open>routing/model-projection\<close>), validates that model against
  the reviewed registry and the compatibility evidence (\<^verbatim>\<open>routing/model-selection\<close>,
  \<^verbatim>\<open>registry\<close>, \<^verbatim>\<open>compatibility\<close>, \<^verbatim>\<open>canary\<close>), translates the reasoning intent to the
  model's control (\<^verbatim>\<open>providers/reasoning.ts\<close>), and only then chooses an account of a
  pool (\<^verbatim>\<open>routing/eligibility\<close>, \<^verbatim>\<open>routing/pools\<close>) and streams the provider's answer,
  rotating to another account while nothing has been shown to the client. Accounts, pools,
  providers, profiles, health and the published policies live in the control-plane database
  (\<^verbatim>\<open>control-plane\<close>).

  \<^bold>\<open>The theories\<close>, bottom up (paths under \<^verbatim>\<open>src/src/\<close>):
  \<^item> \<^verbatim>\<open>Prelude\<close>: JSON, strings, dates, results (an error on the left of a sum), list lemmas.
  \<^item> \<^verbatim>\<open>Core_Model\<close>: \<^verbatim>\<open>core\<close>: capabilities, reasoning, canonical events, fidelity, the
    configured-route decision, agent attribution.
  \<^item> \<^verbatim>\<open>Control_Plane_Types\<close>, \<^verbatim>\<open>Control_Plane_Store\<close>: records, errors, the tables and every
    mutation of \<^verbatim>\<open>repository.ts\<close> and \<^verbatim>\<open>store.ts\<close>, inside the transaction \<open>mutate\<close>. The locale
    \<open>versioned_table\<close> holds the optimistic-update laws and is interpreted on the four tables.
    \<^verbatim>\<open>Control_Plane_Invariants\<close> proves that each mutation keeps the schema's constraints;
    \<^verbatim>\<open>Control_Plane_Reachable\<close> makes the store a transition system over \<open>cp_op\<close> and proves the
    properties of every reachable state.
  \<^item> \<^verbatim>\<open>Eligibility\<close>, \<^verbatim>\<open>Pools\<close>: \<^verbatim>\<open>routing/eligibility\<close>, \<^verbatim>\<open>routing/effective-route.ts\<close>,
    \<^verbatim>\<open>providers/commitment.ts\<close> and the selection half of \<^verbatim>\<open>routing/pools\<close>: reasons against their
    specification, selection sound and complete, session affinity, fairness of the cursor.
  \<^item> \<^verbatim>\<open>Provider_Errors\<close>, \<^verbatim>\<open>Pool_Execution\<close>: \<^verbatim>\<open>providers/provider-error.ts\<close>,
    \<^verbatim>\<open>routes/provider-error-mapping.ts\<close>, \<^verbatim>\<open>routing/pools/retry.ts\<close> and \<^verbatim>\<open>execute.ts\<close>: bounded
    parsing, the attempt loop, and that nothing of an abandoned attempt reaches the client.
  \<^item> \<^verbatim>\<open>Registry\<close>, \<^verbatim>\<open>Reasoning_Translation\<close>: \<^verbatim>\<open>registry/model-registry.ts\<close>,
    \<^verbatim>\<open>credentials/credential-ref.ts\<close>, \<^verbatim>\<open>profiles/helper-map.ts\<close>, \<^verbatim>\<open>providers/reasoning.ts\<close>.
  \<^item> \<^verbatim>\<open>Claims\<close>, \<^verbatim>\<open>Compatibility\<close>: \<^verbatim>\<open>canary/claim.ts\<close>, \<^verbatim>\<open>classify.ts\<close>, \<^verbatim>\<open>proposals.ts\<close> and
    \<^verbatim>\<open>compatibility\<close>: claim identity, append-only evidence, reviews, quarantines, the effective
    label. The locale \<open>revision_log\<close> holds the laws of a numbered log and is interpreted on the
    review and the quarantine documents.
  \<^item> \<^verbatim>\<open>Model_Selection\<close>, \<^verbatim>\<open>Model_Tiers\<close>, \<^verbatim>\<open>Model_Projection\<close>: the model half of the routing,
    each against a reference (the first eligible row of the document; the planned selection of a
    tier; the rows and bindings that may be shown).
  \<^item> \<^verbatim>\<open>Canonical_Request\<close>, \<^verbatim>\<open>Profiles\<close>, \<^verbatim>\<open>Model_Decision\<close>, \<^verbatim>\<open>Provider_Catalog\<close>: the request, the
    profile with its policies, what a launch session pins, agent contexts, the decision record, and
    the provider contracts (\<^verbatim>\<open>core/canonical-request.ts\<close>, \<^verbatim>\<open>profiles\<close>,
    \<^verbatim>\<open>routing/model-decision\<close>, \<^verbatim>\<open>providers/catalog.ts\<close>, \<^verbatim>\<open>providers/dispatch.ts\<close>).
  \<^item> \<^verbatim>\<open>Route_Resolution\<close>: \<^verbatim>\<open>profiles/resolve-route.ts\<close>, which composes all of the above: a
    session is served by the target it pinned, the routed model is the one that was approved, and a
    subagent inherits from its own session only.
  \<^item> \<^verbatim>\<open>Model_Discovery\<close>: \<^verbatim>\<open>routes/anthropic-models-route.ts\<close>, the listing of projected models.
  \<^item> \<^verbatim>\<open>Lease_Manager\<close>, \<^verbatim>\<open>Runtime_Lock\<close>: the life of a gateway process: launcher leases with their
    timers as a transition system (\<^verbatim>\<open>runtime/lease-manager.ts\<close>) and the lock files of the runtime
    directory as interleaved file operations of several processes (\<^verbatim>\<open>runtime/runtime-store.ts\<close>).
  \<^item> \<^verbatim>\<open>Gateway_Identity\<close>: how a launcher knows a running gateway, and when it reuses, starts or stops
    one (\<^verbatim>\<open>runtime/build-identity.ts\<close>, \<^verbatim>\<open>gateway-attestation.ts\<close>, \<^verbatim>\<open>gateway-lifecycle.ts\<close>,
    \<^verbatim>\<open>resident-runtime.ts\<close>).
  \<^item> \<^verbatim>\<open>Crash_Runs\<close>, \<^verbatim>\<open>Update_State\<close>, \<^verbatim>\<open>Deployment_Store\<close>, \<^verbatim>\<open>Update_Lifecycle\<close>, \<^verbatim>\<open>Update_Safety\<close>: the self-update
    (\<^verbatim>\<open>runtime/update\<close>). A run is the list of states it leaves with its result, so that a crash is a
    prefix; the locale \<open>candidate_installer\<close> holds what the lifecycle asks of the installer and is
    interpreted on the deployment store.
  \<^item> \<^verbatim>\<open>Management\<close>: the management plane (\<^verbatim>\<open>management\<close>): its sessions, cookies and authorisation, and the
    mutating routes over the control plane; a session goes back to the owner of the token, and nothing
    changes the database without authority.
  \<^item> \<^verbatim>\<open>Credential_Store\<close>, \<^verbatim>\<open>Ownership_Lock\<close>: \<^verbatim>\<open>credentials/store.ts\<close> as runs with their crash points: a
    commit leaves the old record or the new one and no generation is committed twice; and
    \<^verbatim>\<open>storage/ownership-lock.ts\<close> as interleaved file operations.
  \<^item> \<^verbatim>\<open>Wire_Json\<close>, \<^verbatim>\<open>Anthropic_Codec\<close>, \<^verbatim>\<open>Anthropic_Stream\<close>: \<^verbatim>\<open>protocols/anthropic\<close>: the schemas as readers
    of JSON, requests read back as they were written, which streams the encoder accepts, and that the message a
    client builds from the stream is the one the aggregate gives.
  \<^item> \<^verbatim>\<open>Responses_Codec\<close>, \<^verbatim>\<open>Responses_Stream\<close>, \<^verbatim>\<open>Responses_Continuation\<close>: \<^verbatim>\<open>protocols/openai-responses\<close>: the
    decoder, the encoder with its aggregate, and what a continuation carries from turn to turn.
  \<^item> \<^verbatim>\<open>Provider_Transport\<close>, \<^verbatim>\<open>Responses_Rail\<close>, \<^verbatim>\<open>Rail_Roundtrip\<close>, \<^verbatim>\<open>Chat_Adapter\<close>: \<^verbatim>\<open>providers/direct\<close>: the reader
    of server-sent events, whose blocks do not depend on the chunks, the payloads of both provider protocols, and
    the canonical events of an answer, which the encoders of the clients' protocols accept.
  \<^item> \<^verbatim>\<open>Stream_Transport\<close>, \<^verbatim>\<open>Protocol_Routes\<close>: \<^verbatim>\<open>routes/stream-lifecycle.ts\<close>, \<^verbatim>\<open>stream-pump.ts\<close> and the handlers
    of both protocols: the pump as a generator driven by the upstream, the reader, the timers and the disconnect.
    What a client has read is at any moment a prefix of the encoding, with at most one error frame; a stream
    recorded as completed has given the whole answer; and its end is reported once, with no timer left.

  \<^bold>\<open>Parameters.\<close> SHA-256, the clock, random ids, \<open>Date.parse\<close> and \<open>localeCompare\<close>'s sort key are
  arguments, as are \<open>JSON.parse\<close> and \<open>JSON.stringify\<close> where a text is parsed or written. A provider's stream
  and what concurrent requests do between two awaits are arguments of the attempt loop. The hypotheses on them are stated where they are used.

  \<^bold>\<open>Bounds.\<close> The one loop that is not structural, \<open>stream_from\<close>, is a \<open>function\<close> whose measure is the
  number of attempts the budget still allows. A loop with a deadline takes the polls before the
  deadline, as their number or as their observations; no result depends on a bound chosen here.

  \<^bold>\<open>Not modelled.\<close> Code units above 255; the members of \<open>Object.prototype\<close> as table keys, except
  where a finding rests on them; freezing and copying of values. Whole parts that are input and
  output (the HTTP server, provider clients, private files, the installer, service managers, the command
  line, logging, release scripts) are listed in the manifest with the reason. The credential broker
  and the overlays of the client have logic of their own and are not modelled. Text is a sequence of bytes below 256;
  an index or a token count of a provider is a natural number.
\<close>

end
